(* ===== verification/Prelude.thy ===== *)
theory Prelude
  imports Complex_Main "HOL-Library.Sublist"
begin

text \<open>
  What the components share: the development's collections of simplification rules, Go's
  fixed-width integers (as \<^typ>\<open>int\<close> with the wrap-around written out), the parts of the Go
  standard library that the controller calls on strings (\<^verbatim>\<open>strings\<close>, \<^verbatim>\<open>strconv\<close>), results that
  carry an error message, and a few list lemmas.

  A Go string is a sequence of bytes, so it is a \<^typ>\<open>string\<close> (a list of 8-bit characters). A Go
  \<^verbatim>\<open>error\<close> is modelled by its message: an operation that returns \<^verbatim>\<open>(T, error)\<close> returns
  \<open>string + 'a\<close>, \<open>Inl\<close> with the message for a non-nil error. A nil-able pointer is an \<open>option\<close>.
\<close>

named_theorems go_arith \<open>fixed-width arithmetic of Go\<close>
named_theorems go_str \<open>the string functions of Go's standard library\<close>

type_synonym 'a res = "string + 'a"

subsection \<open>Results\<close>

fun bind_res :: "'a res \<Rightarrow> ('a \<Rightarrow> 'b res) \<Rightarrow> 'b res" where
  "bind_res (Inl e) f = Inl e"
| "bind_res (Inr x) f = f x"

fun wrap_err :: "string \<Rightarrow> 'a res \<Rightarrow> 'a res" where
  "wrap_err pre (Inl e) = Inl (pre @ '': '' @ e)"
| "wrap_err pre (Inr x) = Inr x"

fun is_err :: "'a res \<Rightarrow> bool" where
  "is_err (Inl e) = True"
| "is_err (Inr x) = False"

lemma bind_res_Inr: "bind_res r f = Inr y \<longleftrightarrow> (\<exists>x. r = Inr x \<and> f x = Inr y)"
  by (cases r) auto

lemma wrap_err_Inr [simp]: "wrap_err p r = Inr x \<longleftrightarrow> r = Inr x"
  by (cases r) auto

lemma is_err_wrap_err [simp]: "is_err (wrap_err p r) = is_err r"
  by (cases r) auto

lemma not_is_err: "\<not> is_err r \<longleftrightarrow> (\<exists>x. r = Inr x)"
  by (cases r) auto

subsection \<open>Go's 64-bit signed integers\<close>

definition wrap64 :: "int \<Rightarrow> int" where
  "wrap64 x = (x + 2 ^ 63) mod 2 ^ 64 - 2 ^ 63"

definition in_int64 :: "int \<Rightarrow> bool" where
  "in_int64 x \<longleftrightarrow> - (2 ^ 63) \<le> x \<and> x < 2 ^ 63"

lemma wrap64_range [simp]: "in_int64 (wrap64 x)"
  by (simp add: wrap64_def in_int64_def)

lemma wrap64_id [go_arith]: "in_int64 x \<Longrightarrow> wrap64 x = x"
  by (simp add: wrap64_def in_int64_def)

lemma wrap64_idem [simp]: "wrap64 (wrap64 x) = wrap64 x"
  by (simp add: wrap64_id)

text \<open>Go's \<^verbatim>\<open>/\<close> and \<^verbatim>\<open>%\<close> on integers truncate towards zero.\<close>

definition quot :: "int \<Rightarrow> int \<Rightarrow> int" where
  "quot a b = sgn a * sgn b * (\<bar>a\<bar> div \<bar>b\<bar>)"

definition rem :: "int \<Rightarrow> int \<Rightarrow> int" where
  "rem a b = a - quot a b * b"

lemma quot_nonneg [go_arith]: "0 \<le> a \<Longrightarrow> 0 < b \<Longrightarrow> quot a b = a div b"
  by (cases "a = 0") (auto simp: quot_def sgn_if)

lemma rem_nonneg [go_arith]: "0 \<le> a \<Longrightarrow> 0 < b \<Longrightarrow> rem a b = a mod b"
  by (simp add: rem_def quot_nonneg minus_div_mult_eq_mod)

lemma abs_rem_less: "b \<noteq> 0 \<Longrightarrow> \<bar>rem a b\<bar> < \<bar>b\<bar>"
proof -
  assume "b \<noteq> 0"
  have "rem a b = sgn a * (\<bar>a\<bar> mod \<bar>b\<bar>)"
  proof -
    have "a = sgn a * \<bar>a\<bar>" by (simp add: sgn_mult_abs)
    moreover have "b = sgn b * \<bar>b\<bar>" by (simp add: sgn_mult_abs)
    moreover have "sgn b * sgn b = 1" using \<open>b \<noteq> 0\<close> by (simp add: sgn_if)
    ultimately have "quot a b * b = sgn a * ((\<bar>a\<bar> div \<bar>b\<bar>) * \<bar>b\<bar>)"
      by (metis (no_types, opaque_lifting) quot_def mult.assoc mult.commute mult.left_neutral)
    then show ?thesis
      unfolding rem_def
      by (metis \<open>a = sgn a * \<bar>a\<bar>\<close> minus_div_mult_eq_mod right_diff_distrib)
  qed
  then have "\<bar>rem a b\<bar> \<le> \<bar>a\<bar> mod \<bar>b\<bar>"
    using \<open>b \<noteq> 0\<close> by (simp add: abs_mult sgn_if)
  moreover have "\<bar>a\<bar> mod \<bar>b\<bar> < \<bar>b\<bar>" using \<open>b \<noteq> 0\<close> by simp
  ultimately show ?thesis by linarith
qed

subsection \<open>Decimal numerals (\<^verbatim>\<open>strconv\<close>)\<close>

definition digit_char :: "nat \<Rightarrow> char" where
  "digit_char d = char_of (48 + d)"

definition is_digit :: "char \<Rightarrow> bool" where
  "is_digit c \<longleftrightarrow> 48 \<le> (of_char c :: nat) \<and> (of_char c :: nat) \<le> 57"

definition digit_val :: "char \<Rightarrow> nat" where
  "digit_val c = of_char c - 48"

fun nat_str :: "nat \<Rightarrow> string" where
  "nat_str n = (if n < 10 then [digit_char n] else nat_str (n div 10) @ [digit_char (n mod 10)])"

declare nat_str.simps [simp del]

text \<open>\<^verbatim>\<open>strconv.Itoa\<close> and the verb \<^verbatim>\<open>%d\<close>.\<close>

definition itoa :: "int \<Rightarrow> string" where
  "itoa i = (if i < 0 then CHR ''-'' # nat_str (nat (- i)) else nat_str (nat i))"

definition digits_val :: "string \<Rightarrow> nat" where
  "digits_val s = foldl (\<lambda>acc c. 10 * acc + digit_val c) 0 s"

text \<open>
  \<^verbatim>\<open>strconv.Atoi\<close>: an optional sign, at least one digit and nothing else, in the range of a 64-bit
  \<^verbatim>\<open>int\<close>; \<open>None\<close> for an error (the callers do not look at the error's text).
\<close>

definition atoi :: "string \<Rightarrow> int option" where
  "atoi s =
    (let neg = (case s of c # _ \<Rightarrow> c = CHR ''-'' | [] \<Rightarrow> False);
         body = (case s of c # r \<Rightarrow> if c = CHR ''-'' \<or> c = CHR ''+'' then r else s | [] \<Rightarrow> [])
     in if body = [] \<or> \<not> list_all is_digit body then None
        else let v = (if neg then - int (digits_val body) else int (digits_val body))
             in if in_int64 v then Some v else None)"

lemma of_char_digit_char: "d < 10 \<Longrightarrow> (of_char (digit_char d) :: nat) = 48 + d"
  by (simp add: digit_char_def)

lemma is_digit_digit_char [go_str]: "d < 10 \<Longrightarrow> is_digit (digit_char d)"
  by (simp add: is_digit_def of_char_digit_char)

lemma digit_val_digit_char [go_str]: "d < 10 \<Longrightarrow> digit_val (digit_char d) = d"
  by (simp add: digit_val_def of_char_digit_char)

lemma digits_val_snoc [go_str]: "digits_val (s @ [c]) = 10 * digits_val s + digit_val c"
  by (simp add: digits_val_def)

lemma nat_str_nonempty [simp]: "nat_str n \<noteq> []"
  by (subst nat_str.simps) simp

lemma nat_str_digits [go_str]: "list_all is_digit (nat_str n)"
proof (induction n rule: nat_str.induct)
  case (1 n)
  then show ?case by (subst nat_str.simps) (simp add: go_str)
qed

lemma digits_val_nat_str [go_str]: "digits_val (nat_str n) = n"
proof (induction n rule: nat_str.induct)
  case (1 n)
  show ?case
  proof (cases "n < 10")
    case True
    then show ?thesis by (subst nat_str.simps) (simp add: digits_val_def digit_val_digit_char)
  next
    case False
    with 1 show ?thesis by (subst nat_str.simps) (simp add: go_str)
  qed
qed

lemma nat_str_hd_digit: "is_digit (hd (nat_str n))"
  using nat_str_digits [of n] by (cases "nat_str n") auto

lemma sign_not_digit [simp]: "\<not> is_digit (CHR ''-'')" "\<not> is_digit (CHR ''+'')"
  by (simp_all add: is_digit_def)

lemma atoi_itoa: "in_int64 i \<Longrightarrow> atoi (itoa i) = Some i"
proof (cases "i < 0")
  case True
  assume "in_int64 i"
  with True show ?thesis by (simp add: atoi_def itoa_def go_str)
next
  case False
  assume i: "in_int64 i"
  obtain c r where cr: "nat_str (nat i) = c # r" by (cases "nat_str (nat i)") auto
  then have "is_digit c" using nat_str_hd_digit [of "nat i"] by simp
  then have "c \<noteq> CHR ''-''" "c \<noteq> CHR ''+''" by auto
  moreover have "digits_val (c # r) = nat i" "list_all is_digit (c # r)"
    using digits_val_nat_str [of "nat i"] nat_str_digits [of "nat i"] by (simp_all add: cr)
  ultimately show ?thesis using False i by (simp add: atoi_def itoa_def cr)
qed

text \<open>Left padding with zeros, the verb \<^verbatim>\<open>%0wd\<close> on non-negative numbers.\<close>

definition pad0 :: "nat \<Rightarrow> int \<Rightarrow> string" where
  "pad0 w i = (let s = itoa i in replicate (w - length s) CHR ''0'' @ s)"

subsection \<open>Strings (\<^verbatim>\<open>strings\<close>)\<close>

definition has_prefix :: "string \<Rightarrow> string \<Rightarrow> bool" where
  "has_prefix s p \<longleftrightarrow> take (length p) s = p"

definition has_suffix :: "string \<Rightarrow> string \<Rightarrow> bool" where
  "has_suffix s p \<longleftrightarrow> length p \<le> length s \<and> drop (length s - length p) s = p"

definition trim_prefix :: "string \<Rightarrow> string \<Rightarrow> string" where
  "trim_prefix s p = (if has_prefix s p then drop (length p) s else s)"

definition trim_suffix :: "string \<Rightarrow> string \<Rightarrow> string" where
  "trim_suffix s p = (if has_suffix s p then take (length s - length p) s else s)"

fun contains :: "string \<Rightarrow> string \<Rightarrow> bool" where
  "contains [] p \<longleftrightarrow> p = []"
| "contains (c # s) p \<longleftrightarrow> has_prefix (c # s) p \<or> contains s p"

lemma contains_iff: "contains s p \<longleftrightarrow> (\<exists>a b. s = a @ p @ b)"
proof (induction s)
  case Nil
  then show ?case by simp
next
  case (Cons c s)
  have "has_prefix (c # s) p \<longleftrightarrow> (\<exists>b. c # s = p @ b)"
    by (metis append_eq_conv_conj has_prefix_def append_take_drop_id)
  moreover have "(\<exists>a b. c # s = a @ p @ b) \<longleftrightarrow>
      (\<exists>b. c # s = p @ b) \<or> (\<exists>a b. s = a @ p @ b)"
    by (metis append_Cons append_Nil list.inject neq_Nil_conv)
  ultimately show ?case using Cons.IH by simp
qed

definition lower_char :: "char \<Rightarrow> char" where
  "lower_char c = (let n = of_char c :: nat in if 65 \<le> n \<and> n \<le> 90 then char_of (n + 32) else c)"

definition upper_char :: "char \<Rightarrow> char" where
  "upper_char c = (let n = of_char c :: nat in if 97 \<le> n \<and> n \<le> 122 then char_of (n - 32) else c)"

text \<open>\<^verbatim>\<open>strings.ToLower\<close> and \<^verbatim>\<open>strings.ToUpper\<close> on ASCII; other bytes are left as they are.\<close>

definition to_lower :: "string \<Rightarrow> string" where
  "to_lower s = map lower_char s"

definition to_upper :: "string \<Rightarrow> string" where
  "to_upper s = map upper_char s"

lemma length_to_lower [simp]: "length (to_lower s) = length s"
  by (simp add: to_lower_def)

text \<open>
  \<^verbatim>\<open>strings.TrimSpace\<close> removes the white space of Unicode at both ends: the six ASCII characters and
  the UTF-8 encodings of U+0085, U+00A0, U+1680, U+2000 to U+200A, U+2028, U+2029, U+202F, U+205F
  and U+3000.
\<close>

definition space_encodings :: "string list" where
  "space_encodings =
     map (\<lambda>n. [char_of (n :: nat)]) [9, 10, 11, 12, 13, 32] @
     map (map char_of) [[0xC2, 0x85 :: nat], [0xC2, 0xA0], [0xE1, 0x9A, 0x80]] @
     map (\<lambda>n. map char_of [0xE2, 0x80, n :: nat]) ([0x80 ..< 0x8B] @ [0xA8, 0xA9, 0xAF]) @
     map (map char_of) [[0xE2, 0x81, 0x9F :: nat], [0xE3, 0x80, 0x80]]"

definition strip_one :: "string list \<Rightarrow> string \<Rightarrow> string option" where
  "strip_one ps s = map_option (\<lambda>p. drop (length p) s) (find (has_prefix s) ps)"

lemma strip_one_shorter:
  assumes "[] \<notin> set ps" "strip_one ps s = Some r"
  shows "length r < length s"
proof -
  from assms(2) obtain p where p: "find (has_prefix s) ps = Some p" "r = drop (length p) s"
    by (auto simp: strip_one_def)
  then have "p \<in> set ps" "has_prefix s p" by (auto simp: find_Some_iff)
  with assms(1) have "0 < length p" "length p \<le> length s"
    by (auto simp: has_prefix_def) (metis length_take min.cobounded1)
  then show ?thesis unfolding p(2) length_drop by linarith
qed

fun strip_all :: "nat \<Rightarrow> string list \<Rightarrow> string \<Rightarrow> string" where
  "strip_all 0 ps s = s"
| "strip_all (Suc n) ps s = (case strip_one ps s of None \<Rightarrow> s | Some r \<Rightarrow> strip_all n ps r)"

definition trim_left_space :: "string \<Rightarrow> string" where
  "trim_left_space s = strip_all (length s) space_encodings s"

definition trim_right_space :: "string \<Rightarrow> string" where
  "trim_right_space s = rev (strip_all (length s) (map rev space_encodings) (rev s))"

definition trim_space :: "string \<Rightarrow> string" where
  "trim_space s = trim_right_space (trim_left_space s)"

lemma space_encodings_nonempty: "[] \<notin> set space_encodings" "[] \<notin> set (map rev space_encodings)"
  by (auto simp: space_encodings_def)

lemma strip_all_done:
  "[] \<notin> set ps \<Longrightarrow> length s \<le> n \<Longrightarrow> strip_one ps (strip_all n ps s) = None"
proof (induction n arbitrary: s)
  case 0
  then show ?case
    by (auto simp: strip_one_def find_None_iff has_prefix_def)
next
  case (Suc n)
  then show ?case
    by (auto split: option.split dest: strip_one_shorter)
qed

lemma strip_all_length: "length (strip_all n ps s) \<le> length s"
proof (induction n arbitrary: s)
  case (Suc n)
  show ?case
  proof (cases "strip_one ps s")
    case (Some r)
    then have "length r \<le> length s" by (auto simp: strip_one_def)
    with Suc [of r] Some show ?thesis by simp
  qed simp
qed simp

text \<open>A string that starts and ends with printable ASCII characters is trimmed already.\<close>

definition is_plain :: "char \<Rightarrow> bool" where
  "is_plain c \<longleftrightarrow> 32 < (of_char c :: nat) \<and> (of_char c :: nat) < 127"

lemma space_encodings_plain:
  "\<forall>p \<in> set space_encodings. p \<noteq> [] \<and> \<not> is_plain (hd p) \<and> \<not> is_plain (last p)"
  by (auto simp: space_encodings_def is_plain_def)

lemma strip_all_plain:
  assumes "\<forall>p \<in> set ps. p \<noteq> [] \<and> \<not> is_plain (hd p)" "s \<noteq> []" "is_plain (hd s)"
  shows "strip_all n ps s = s"
proof -
  have "\<not> has_prefix s p" if "p \<in> set ps" for p
    using assms that by (cases p; cases s) (auto simp: has_prefix_def)
  then have "strip_one ps s = None" by (simp add: strip_one_def find_None_iff)
  then show ?thesis by (cases n) simp_all
qed

lemma trim_space_plain [simp]:
  assumes "s \<noteq> []" "is_plain (hd s)" "is_plain (last s)"
  shows "trim_space s = s"
proof -
  have "strip_all (length s) space_encodings s = s"
    using assms space_encodings_plain by (intro strip_all_plain) auto
  moreover have "strip_all (length s) (map rev space_encodings) (rev s) = rev s"
    using assms space_encodings_plain by (intro strip_all_plain) (auto simp: hd_rev)
  ultimately show ?thesis by (simp add: trim_space_def trim_left_space_def trim_right_space_def)
qed

lemma trim_space_Nil [simp]: "trim_space [] = []"
  by (simp add: trim_space_def trim_left_space_def trim_right_space_def)

text \<open>Trimming twice is trimming once: what trimming on the right leaves begins like the string before.\<close>

lemma strip_all_drop: "\<exists>k. strip_all n ps s = drop k s"
proof (induction n arbitrary: s)
  case (Suc n)
  show ?case
  proof (cases "strip_one ps s")
    case (Some r)
    then obtain k where "r = drop k s" by (auto simp: strip_one_def)
    with Suc [of r] Some show ?thesis by auto
  qed (auto intro: exI [of _ 0])
qed (auto intro: exI [of _ 0])

lemma strip_one_None: "strip_one ps s = None \<longleftrightarrow> (\<forall>p \<in> set ps. \<not> has_prefix s p)"
  by (auto simp: strip_one_def find_None_iff)

lemma has_prefix_take: "has_prefix (take m s) p \<Longrightarrow> has_prefix s p"
proof -
  assume p: "has_prefix (take m s) p"
  then have "length p \<le> m"
    unfolding has_prefix_def by (metis length_take min.cobounded2 min.coboundedI2 take_all_iff linorder_linear)
  then show "has_prefix s p" using p by (simp add: has_prefix_def min_absorb1)
qed

lemma strip_all_id: "strip_one ps s = None \<Longrightarrow> strip_all n ps s = s"
  by (cases n) simp_all

lemma trim_space_idem [simp]: "trim_space (trim_space s) = trim_space s"
proof -
  define a where "a = trim_left_space s"
  obtain k where k: "strip_all (length a) (map rev space_encodings) (rev a) = drop k (rev a)"
    using strip_all_drop by blast
  define b where "b = trim_right_space a"
  have b: "b = take (length a - k) a" by (simp add: b_def trim_right_space_def k drop_rev)
  have "strip_one space_encodings a = None"
    unfolding a_def trim_left_space_def by (rule strip_all_done [OF space_encodings_nonempty(1)]) simp
  then have "strip_one space_encodings b = None"
    unfolding strip_one_None b using has_prefix_take by blast
  then have l: "trim_left_space b = b" unfolding trim_left_space_def by (rule strip_all_id)
  have "strip_one (map rev space_encodings) (rev b) = None"
    unfolding b_def trim_right_space_def rev_rev_ident by (rule strip_all_done [OF space_encodings_nonempty(2)]) simp
  then have "trim_right_space b = b" by (simp add: trim_right_space_def strip_all_id)
  with l show ?thesis by (simp add: trim_space_def a_def [symmetric] b_def [symmetric])
qed

text \<open>Changing to upper case does not touch white space, so it commutes with trimming and is idempotent.\<close>

definition is_letter :: "char \<Rightarrow> bool" where
  "is_letter c \<longleftrightarrow> 65 \<le> (of_char c :: nat) \<and> (of_char c :: nat) \<le> 90 \<or> 97 \<le> (of_char c :: nat) \<and> (of_char c :: nat) \<le> 122"

lemma upper_char_non_letter: "\<not> is_letter b \<Longrightarrow> upper_char c = b \<longleftrightarrow> c = b"
  by (auto simp: upper_char_def is_letter_def Let_def)

lemma has_prefix_upper: "list_all (\<lambda>c. \<not> is_letter c) p \<Longrightarrow> has_prefix (map upper_char s) p = has_prefix s p"
proof (induction p arbitrary: s)
  case (Cons b p)
  then show ?case by (cases s) (auto simp: has_prefix_def upper_char_non_letter)
qed (simp add: has_prefix_def)

lemma strip_all_upper:
  assumes "\<forall>p \<in> set ps. list_all (\<lambda>c. \<not> is_letter c) p"
  shows "strip_all n ps (map upper_char s) = map upper_char (strip_all n ps s)"
proof (induction n arbitrary: s)
  case (Suc n)
  have "find (has_prefix (map upper_char s)) ps = find (has_prefix s) ps"
    using assms by (intro find_cong) (auto simp: has_prefix_upper)
  then have "strip_one ps (map upper_char s) = map_option (map upper_char) (strip_one ps s)"
    by (cases "find (has_prefix s) ps") (simp_all add: strip_one_def drop_map)
  then show ?case using Suc by (simp split: option.split)
qed simp

lemma space_encodings_no_letter: "\<forall>p \<in> set space_encodings. list_all (\<lambda>c. \<not> is_letter c) p"
  by (auto simp: space_encodings_def is_letter_def)

lemma trim_space_upper: "trim_space (to_upper s) = to_upper (trim_space s)"
proof -
  have r: "\<forall>p \<in> set (map rev space_encodings). list_all (\<lambda>c. \<not> is_letter c) p"
    using space_encodings_no_letter by (simp add: list_all_iff)
  show ?thesis
    by (simp add: trim_space_def trim_left_space_def trim_right_space_def to_upper_def rev_map strip_all_upper [OF r]
        strip_all_upper [OF space_encodings_no_letter])
qed

lemma to_upper_idem [simp]: "to_upper (to_upper s) = to_upper s"
  by (auto simp: to_upper_def upper_char_def Let_def)

text \<open>\<^verbatim>\<open>strings.Join\<close> and \<^verbatim>\<open>strings.Split\<close> with a one-byte separator.\<close>

fun join :: "string \<Rightarrow> string list \<Rightarrow> string" where
  "join sep [] = []"
| "join sep [s] = s"
| "join sep (s # t # r) = s @ sep @ join sep (t # r)"

fun split_char :: "char \<Rightarrow> string \<Rightarrow> string list" where
  "split_char sep [] = [[]]"
| "split_char sep (c # s) =
    (if c = sep then [] # split_char sep s
     else (case split_char sep s of p # ps \<Rightarrow> (c # p) # ps | [] \<Rightarrow> [[c]]))"

lemma split_char_nonempty [simp]: "split_char sep s \<noteq> []"
  by (induction s) (auto split: list.split)

lemma join_split: "join [sep] (split_char sep s) = s"
proof (induction s)
  case (Cons c s)
  obtain p ps where pps: "split_char sep s = p # ps"
    by (meson neq_Nil_conv split_char_nonempty)
  show ?case
    using Cons by (cases ps) (auto simp: pps)
qed simp

subsection \<open>Lists\<close>

lemma sum_list_replicate_int: "sum_list (replicate n (x :: int)) = int n * x"
  by (induction n) (auto simp: algebra_simps)

lemma find_Some_set: "find P xs = Some x \<Longrightarrow> x \<in> set xs \<and> P x"
  by (auto simp: find_Some_iff)

lemma find_None_set: "find P xs = None \<longleftrightarrow> (\<forall>x \<in> set xs. \<not> P x)"
  by (auto simp: find_None_iff)

lemma find_append_None: "find P xs = None \<Longrightarrow> find P (xs @ ys) = find P ys"
  by (induction xs) (auto split: if_splits)

end
