(* ===== verification/GoTime.thy ===== *)
theory GoTime
  imports Prelude
begin

text \<open>
  The part of Go's \<^verbatim>\<open>time\<close> package that the scheduler uses.

  An instant (\<^verbatim>\<open>time.Time\<close>) is the number of nanoseconds since the Unix epoch; the location a
  \<^verbatim>\<open>Time\<close> carries is an explicit argument of the operations that look at it. A \<^verbatim>\<open>Location\<close> is the
  table of transitions that the time-zone database gives, with Go's \<^verbatim>\<open>lookup\<close>; the database itself
  (\<^verbatim>\<open>time.LoadLocation\<close>) is a parameter of the definitions that use it. \<open>go_date\<close> is
  \<^verbatim>\<open>time.Date\<close>, with Go's rule for local times that a zone transition skips or repeats, and
  \<open>add_date\<close> is \<^verbatim>\<open>Time.AddDate\<close>, with its normalisation of days past the end of a month.

  The results: the calendar conversions are inverse to each other, and adding days or a month gives a
  strictly later instant in every location whose offsets differ by less than a day.
\<close>

type_synonym time = int
type_synonym duration = int

abbreviation (input) second :: duration where "second \<equiv> 1000000000"
abbreviation (input) minute :: duration where "minute \<equiv> 60 * second"
abbreviation (input) hour :: duration where "hour \<equiv> 3600 * second"

text \<open>The zero \<^verbatim>\<open>time.Time\<close>: January 1, year 1, 00:00:00 UTC.\<close>

definition zero_time :: time where
  "zero_time = - 62135596800 * second"

definition is_zero :: "time \<Rightarrow> bool" where
  "is_zero t \<longleftrightarrow> t = zero_time"

definition truncate_second :: "time \<Rightarrow> time" where
  "truncate_second t = t - (t - zero_time) mod second"

subsection \<open>Calendar\<close>

text \<open>
  Days are counted from 1970-01-01 in the proleptic Gregorian calendar. The conversions count years
  from March, so that the leap day is the last day of a year.
\<close>

definition month_start :: "int \<Rightarrow> int" where
  "month_start mp = (153 * mp + 2) div 5"

definition year_start :: "int \<Rightarrow> int" where
  "year_start y = 365 * y + y div 4 - y div 100 + y div 400"

definition days_from_civil :: "int \<Rightarrow> int \<Rightarrow> int \<Rightarrow> int" where
  "days_from_civil y m d =
    (let y' = (if m \<le> 2 then y - 1 else y);
         mp = (if m \<le> 2 then m + 9 else m - 3)
     in year_start y' + month_start mp + (d - 1) - 719468)"

definition civil_from_days :: "int \<Rightarrow> int \<times> int \<times> int" where
  "civil_from_days n =
    (let z = n + 719468;
         era = z div 146097;
         doe = z mod 146097;
         c = min 3 (doe div 36524);
         r = doe - 36524 * c;
         q = r div 1461;
         s = r mod 1461;
         a = min 3 (s div 365);
         doy = s - 365 * a;
         y = 400 * era + 100 * c + 4 * q + a;
         mp = (5 * doy + 2) div 153;
         d = doy - month_start mp + 1;
         m = (if mp < 10 then mp + 3 else mp - 9)
     in (if m \<le> 2 then y + 1 else y, m, d))"

text \<open>The day number of a date whose month and day may be out of range, as \<^verbatim>\<open>time.Date\<close> normalises them.\<close>

definition day_number :: "int \<Rightarrow> int \<Rightarrow> int \<Rightarrow> int" where
  "day_number y m d =
    (let m0 = m - 1
     in days_from_civil (y + m0 div 12) (m0 mod 12 + 1) d)"

lemma year_start_era:
  assumes "0 \<le> c" "c \<le> 3" "0 \<le> q" "q \<le> 24" "0 \<le> a" "a \<le> 3"
  shows "year_start (400 * era + 100 * c + 4 * q + a) = 146097 * era + 36524 * c + 1461 * q + 365 * a"
proof -
  have "(400 * era + 100 * c + 4 * q + a) div 4 = 100 * era + 25 * c + q" using assms by linarith
  moreover have "(400 * era + 100 * c + 4 * q + a) div 100 = 4 * era + c" using assms by linarith
  moreover have "(400 * era + 100 * c + 4 * q + a) div 400 = era" using assms by linarith
  ultimately show ?thesis by (simp add: year_start_def)
qed

lemma civil_from_days_range:
  assumes "civil_from_days n = (y, m, d)"
  shows "1 \<le> m" "m \<le> 12" "1 \<le> d" "d \<le> 31" "days_from_civil y m d = n"
proof -
  define z where "z = n + 719468"
  define era doe where "era = z div 146097" and "doe = z mod 146097"
  define c where "c = min 3 (doe div 36524)"
  define r where "r = doe - 36524 * c"
  define q s where "q = r div 1461" and "s = r mod 1461"
  define a where "a = min 3 (s div 365)"
  define doy where "doy = s - 365 * a"
  define mp where "mp = (5 * doy + 2) div 153"
  have doe: "0 \<le> doe" "doe < 146097" by (simp_all add: doe_def)
  then have c: "0 \<le> c" "c \<le> 3" and r: "0 \<le> r" "r \<le> 36524"
    by (auto simp: c_def r_def min_def)
  have q: "0 \<le> q" "q \<le> 24" using r by (auto simp: q_def)
  have s: "0 \<le> s" "s \<le> 1460" by (simp_all add: s_def)
  then have a: "0 \<le> a" "a \<le> 3" and doy: "0 \<le> doy" "doy \<le> 365"
    by (auto simp: a_def doy_def min_def)
  have mp: "0 \<le> mp" "mp \<le> 11" using doy by (auto simp: mp_def)
  have ms: "month_start mp \<le> doy" "doy < month_start mp + 31"
    using doy by (auto simp: mp_def month_start_def)
  have cf: "civil_from_days n =
      (let m = (if mp < 10 then mp + 3 else mp - 9); y = 400 * era + 100 * c + 4 * q + a
       in (if m \<le> 2 then y + 1 else y, m, doy - month_start mp + 1))"
    unfolding mp_def doy_def a_def s_def q_def r_def c_def era_def doe_def z_def civil_from_days_def
    by (simp only: Let_def)
  have eq: "y = (if mp < 10 then 400 * era + 100 * c + 4 * q + a else 400 * era + 100 * c + 4 * q + a + 1)"
    "m = (if mp < 10 then mp + 3 else mp - 9)" "d = doy - month_start mp + 1"
    using assms mp unfolding cf by (auto simp: Let_def split: if_splits)
  show "1 \<le> m" "m \<le> 12" using eq(2) mp by (auto split: if_splits)
  show "1 \<le> d" "d \<le> 31" using eq(3) ms by auto
  have "z = 146097 * era + doe" by (simp add: era_def doe_def)
  moreover have "r = 1461 * q + s" by (simp add: q_def s_def)
  ultimately have "146097 * era + 36524 * c + 1461 * q + 365 * a + doy = z"
    by (simp add: r_def doy_def)
  moreover have "days_from_civil y m d =
      year_start (400 * era + 100 * c + 4 * q + a) + doy - 719468"
    using eq mp by (auto simp: days_from_civil_def Let_def)
  ultimately show "days_from_civil y m d = n"
    using year_start_era [OF c q a, of era] by (simp add: z_def)
qed

lemma month_start_step: "30 \<le> month_start (mp + 1) - month_start mp"
  by (simp add: month_start_def)

lemma year_start_step: "365 \<le> year_start (y + 1) - year_start y"
proof -
  have "(y + 1) div 100 - y div 100 \<le> (y + 1) div 4 - y div 4"
  proof (cases "(y + 1) div 4 = y div 4")
    case True
    have "(y + 1) div (4 * 25) = (y + 1) div 4 div 25" "y div (4 * 25) = y div 4 div 25"
      by (rule zdiv_zmult2_eq; simp)+
    with True show ?thesis by simp
  qed linarith
  moreover have "y div 400 \<le> (y + 1) div 400" by (rule zdiv_mono1) auto
  ultimately show ?thesis by (simp add: year_start_def)
qed

text \<open>The same day of the next month is at least 28 days later.\<close>

lemma day_number_next_month:
  assumes "1 \<le> m" "m \<le> 12"
  shows "day_number y m d + 28 \<le> day_number y (m + 1) d"
proof -
  have "days_from_civil y m d + 28 \<le> days_from_civil (if m = 12 then y + 1 else y) (if m = 12 then 1 else m + 1) d"
  proof -
    consider "m = 1" | "m = 2" | "m = 12" | "3 \<le> m" "m \<le> 11" using assms by linarith
    then show ?thesis
    proof cases
      case 2
      then show ?thesis using year_start_step [of "y - 1"]
        by (simp add: days_from_civil_def month_start_def)
    next
      case 3
      then show ?thesis by (simp add: days_from_civil_def month_start_def)
    next
      case 4
      then show ?thesis using month_start_step [of "m - 3"]
        by (simp add: days_from_civil_def)
    qed (simp add: days_from_civil_def month_start_def)
  qed
  moreover have "(m - 1) div 12 = 0" "(m - 1) mod 12 = m - 1" using assms by auto
  moreover have "m div 12 = (if m = 12 then 1 else 0)" "m mod 12 = (if m = 12 then 0 else m)"
    using assms by auto
  ultimately show ?thesis by (auto simp: day_number_def Let_def split: if_splits)
qed

lemma day_number_civil:
  assumes "civil_from_days n = (y, m, d)"
  shows "day_number y m (d + k) = n + k"
proof -
  note r = civil_from_days_range [OF assms]
  then have "(m - 1) div 12 = 0" "(m - 1) mod 12 = m - 1" by auto
  then have "day_number y m (d + k) = days_from_civil y m d + k"
    by (simp add: day_number_def days_from_civil_def Let_def)
  then show ?thesis by (simp add: r)
qed

subsection \<open>Locations\<close>

text \<open>
  \<^verbatim>\<open>loc_tx\<close> is the table of transitions, in increasing order of their times (seconds since the
  epoch), each with the offset in seconds east of UTC that holds from then on; \<^verbatim>\<open>loc_first\<close> is the
  offset before the first of them. \<^verbatim>\<open>loc_extend\<close> is the rule that the database gives for times after
  the last transition (Go's \<^verbatim>\<open>tzset\<close> on the location's \<^verbatim>\<open>extend\<close> string): from the last transition and
  a time to the offset and the span in which it holds, \<open>None\<close> when there is no rule.
\<close>

record location =
  loc_first :: int
  loc_tx :: "(int \<times> int) list"
  loc_extend :: "int \<Rightarrow> int \<Rightarrow> (int \<times> int \<times> int) option"

definition alpha :: int where "alpha = - (2 ^ 63)"
definition omega :: int where "omega = 2 ^ 63 - 1"

definition utc_loc :: location where
  "utc_loc = \<lparr>loc_first = 0, loc_tx = [], loc_extend = (\<lambda>_ _. None)\<rparr>"

fun tx_search :: "int \<Rightarrow> int \<times> int \<Rightarrow> (int \<times> int) list \<Rightarrow> int \<times> int \<times> int \<times> bool" where
  "tx_search sec (w, off) [] = (off, w, omega, True)"
| "tx_search sec (w, off) ((w', off') # tx) =
    (if sec < w' then (off, w, w', False) else tx_search sec (w', off') tx)"

text \<open>\<^verbatim>\<open>Location.lookup\<close>: the offset at a time, and the start and the end of the span it holds in.\<close>

definition lookup :: "location \<Rightarrow> int \<Rightarrow> int \<times> int \<times> int" where
  "lookup l sec =
    (case loc_tx l of
       [] \<Rightarrow> (loc_first l, alpha, omega)
     | (w, off) # tx \<Rightarrow>
        (if sec < w then (loc_first l, alpha, w)
         else (case tx_search sec (w, off) tx of
                 (off', s, e, is_last) \<Rightarrow>
                   (if is_last then (case loc_extend l s sec of Some r \<Rightarrow> r | None \<Rightarrow> (off', s, e))
                    else (off', s, e)))))"

definition offset_at :: "location \<Rightarrow> int \<Rightarrow> int" where
  "offset_at l sec = fst (lookup l sec)"

lemma offset_at_utc [simp]: "offset_at utc_loc sec = 0"
  by (simp add: offset_at_def lookup_def utc_loc_def)

text \<open>Any two offsets of a location differ by less than \<open>b\<close> seconds.\<close>

definition offsets_within :: "int \<Rightarrow> location \<Rightarrow> bool" where
  "offsets_within b l \<longleftrightarrow> (\<forall>s s'. offset_at l s - offset_at l s' < b)"

lemma offsets_withinD: "offsets_within b l \<Longrightarrow> offset_at l s - offset_at l s' < b"
  by (simp add: offsets_within_def)

text \<open>A sufficient condition that can be evaluated, for a location without a rule.\<close>

lemma tx_search_offset:
  "fst (tx_search sec (w, off) tx) \<in> insert off (snd ` set tx)"
  by (induction sec "(w, off)" tx arbitrary: w off rule: tx_search.induct) auto

lemma offset_at_table:
  assumes "\<And>s t. loc_extend l s t = None"
  shows "offset_at l sec \<in> insert (loc_first l) (snd ` set (loc_tx l))"
proof (cases "loc_tx l")
  case Nil
  then show ?thesis by (simp add: offset_at_def lookup_def)
next
  case (Cons p tx)
  obtain w off where p: "p = (w, off)" by (cases p)
  obtain o' s' e' b' where ts: "tx_search sec (w, off) tx = (o', s', e', b')"
    by (cases "tx_search sec (w, off) tx")
  have "o' \<in> insert off (snd ` set tx)" using tx_search_offset [of sec w off tx] by (simp add: ts)
  then show ?thesis
    by (auto simp: offset_at_def lookup_def Cons p assms ts)
qed

lemma offsets_within_table:
  assumes "\<And>s t. loc_extend l s t = None"
    and "\<forall>a \<in> set (loc_first l # map snd (loc_tx l)). \<forall>a' \<in> set (loc_first l # map snd (loc_tx l)). a - a' < b"
  shows "offsets_within b l"
  unfolding offsets_within_def
proof (intro allI)
  fix s s'
  have "offset_at l s \<in> set (loc_first l # map snd (loc_tx l))"
    "offset_at l s' \<in> set (loc_first l # map snd (loc_tx l))"
    using offset_at_table [OF assms(1)] by auto
  then show "offset_at l s - offset_at l s' < b" using assms(2) by blast
qed

lemma offsets_within_utc: "0 < b \<Longrightarrow> offsets_within b utc_loc"
  by (simp add: offsets_within_def)

subsection \<open>Local times\<close>

definition unix_sec :: "time \<Rightarrow> int" where
  "unix_sec t = t div second"

definition nsec :: "time \<Rightarrow> int" where
  "nsec t = t mod second"

definition local_sec :: "location \<Rightarrow> time \<Rightarrow> int" where
  "local_sec l t = unix_sec t + offset_at l (unix_sec t)"

text \<open>
  The end of \<^verbatim>\<open>time.Date\<close>: from the seconds of a local time to the seconds of the instant. The
  offset is looked up at the local seconds, and once more at the corrected time when that lies
  outside the span of the first answer.
\<close>

definition from_local :: "location \<Rightarrow> int \<Rightarrow> int" where
  "from_local l u =
    (case lookup l u of (off, s, e) \<Rightarrow>
      (if off \<noteq> 0 then
         (let utc = u - off
          in if utc < s \<or> e \<le> utc then u - offset_at l utc else u - off)
       else u))"

lemma from_local_offset: "\<exists>s. from_local l u = u - offset_at l s"
proof (cases "lookup l u")
  case (fields off s e)
  then have "offset_at l u = off" by (simp add: offset_at_def)
  with fields show ?thesis by (auto simp: from_local_def Let_def)
qed

definition go_date :: "location \<Rightarrow> int \<Rightarrow> int \<Rightarrow> int \<Rightarrow> int \<Rightarrow> int \<Rightarrow> time" where
  "go_date l y m d sec_of_day ns =
    from_local l (day_number y m d * 86400 + sec_of_day) * second + ns"

text \<open>\<^verbatim>\<open>Time.AddDate(0, months, days)\<close> on an instant in a location.\<close>

definition add_date :: "location \<Rightarrow> time \<Rightarrow> int \<Rightarrow> int \<Rightarrow> time" where
  "add_date l t months days =
    (let ls = local_sec l t;
         (y, m, d) = civil_from_days (ls div 86400)
     in go_date l y (m + months) (d + days) (ls mod 86400) (nsec t))"

text \<open>An instant whose local time is at least \<open>b\<close> seconds later is later, when offsets differ by less than \<open>b\<close>.\<close>

lemma from_local_later:
  assumes "offsets_within b l" "local_sec l t + b \<le> u"
  shows "t < from_local l u * second + nsec t"
proof -
  obtain s where "from_local l u = u - offset_at l s" using from_local_offset by blast
  moreover have "offset_at l s - offset_at l (unix_sec t) < b" by (rule offsets_withinD [OF assms(1)])
  ultimately have "unix_sec t + 1 \<le> from_local l u" using assms(2) by (simp add: local_sec_def)
  then have "(unix_sec t + 1) * second \<le> from_local l u * second" by (rule mult_right_mono) simp
  moreover have "t < (unix_sec t + 1) * second + nsec t" by (simp add: unix_sec_def nsec_def distrib_right)
  ultimately show ?thesis by linarith
qed

lemma div_step_le:
  fixes a x :: int
  assumes "a div 86400 + 1 \<le> x"
  shows "a + 86400 \<le> x * 86400 + a mod 86400"
proof -
  have "(a div 86400 + 1) * 86400 \<le> x * 86400" using assms by (rule mult_right_mono) simp
  moreover have "a = a div 86400 * 86400 + a mod 86400" by (rule div_mult_mod_eq [symmetric])
  ultimately show ?thesis unfolding distrib_right by linarith
qed

lemma add_date_days_later:
  assumes "offsets_within 86400 l" "0 < k"
  shows "t < add_date l t 0 k"
proof -
  obtain y m d where ymd: "civil_from_days (local_sec l t div 86400) = (y, m, d)"
    by (cases "civil_from_days (local_sec l t div 86400)")
  let ?u = "day_number y m (d + k) * 86400 + local_sec l t mod 86400"
  have "local_sec l t div 86400 + 1 \<le> day_number y m (d + k)"
    using assms(2) by (simp add: day_number_civil [OF ymd])
  then have "local_sec l t + 86400 \<le> ?u" by (rule div_step_le)
  from from_local_later [OF assms(1) this]
  show ?thesis by (simp add: add_date_def ymd go_date_def)
qed

lemma add_date_month_later:
  assumes "offsets_within 86400 l"
  shows "t < add_date l t 1 0"
proof -
  obtain y m d where ymd: "civil_from_days (local_sec l t div 86400) = (y, m, d)"
    by (cases "civil_from_days (local_sec l t div 86400)")
  note r = civil_from_days_range [OF ymd]
  let ?u = "day_number y (m + 1) d * 86400 + local_sec l t mod 86400"
  have "day_number y m d = local_sec l t div 86400" using day_number_civil [OF ymd, of 0] by simp
  then have "local_sec l t div 86400 + 1 \<le> day_number y (m + 1) d"
    using day_number_next_month [OF r(1,2), of y d] by linarith
  then have "local_sec l t + 86400 \<le> ?u" by (rule div_step_le)
  from from_local_later [OF assms this]
  show ?thesis by (simp add: add_date_def ymd go_date_def)
qed

text \<open>Where the offset is the same before and after, adding days adds whole multiples of 24 hours.\<close>

lemma add_date_days_utc: "add_date utc_loc t 0 k = t + k * 86400 * second"
proof -
  obtain y m d where ymd: "civil_from_days (local_sec utc_loc t div 86400) = (y, m, d)"
    by (cases "civil_from_days (local_sec utc_loc t div 86400)")
  have fl: "from_local utc_loc u = u" for u
    by (simp add: from_local_def lookup_def utc_loc_def)
  have ls: "local_sec utc_loc t = unix_sec t" by (simp add: local_sec_def)
  have "day_number y m (d + k) * 86400 + unix_sec t mod 86400 =
      unix_sec t div 86400 * 86400 + unix_sec t mod 86400 + k * 86400"
    by (simp only: day_number_civil [OF ymd] ls distrib_right)
  then have "day_number y m (d + k) * 86400 + unix_sec t mod 86400 = unix_sec t + k * 86400"
    by (simp only: div_mult_mod_eq)
  then have "add_date utc_loc t 0 k = (unix_sec t + k * 86400) * second + nsec t"
    using ymd by (simp add: add_date_def go_date_def fl ls)
  moreover have "unix_sec t * second + nsec t = t" by (simp add: unix_sec_def nsec_def)
  ultimately show ?thesis by (simp add: distrib_right)
qed

subsection \<open>Formatting\<close>

text \<open>\<^verbatim>\<open>Time.Format(time.RFC3339)\<close> in a location.\<close>

definition format_rfc3339 :: "location \<Rightarrow> time \<Rightarrow> string" where
  "format_rfc3339 l t =
    (let ls = local_sec l t;
         (y, m, d) = civil_from_days (ls div 86400);
         sod = ls mod 86400;
         off = offset_at l (unix_sec t);
         zone = quot off 60;
         z = (if off = 0 then ''Z''
              else (if zone < 0 then ''-'' else ''+'') @ pad0 2 (\<bar>zone\<bar> div 60) @ '':'' @ pad0 2 (\<bar>zone\<bar> mod 60))
     in pad0 4 y @ ''-'' @ pad0 2 m @ ''-'' @ pad0 2 d @ ''T'' @
        pad0 2 (sod div 3600) @ '':'' @ pad0 2 (sod mod 3600 div 60) @ '':'' @ pad0 2 (sod mod 60) @ z)"

lemma truncate_second_le: "truncate_second t \<le> t" "t < truncate_second t + second"
proof -
  have "0 \<le> (t - zero_time) mod second" "(t - zero_time) mod second < second" by simp_all
  then show "truncate_second t \<le> t" "t < truncate_second t + second"
    unfolding truncate_second_def by linarith+
qed

lemma truncate_second_idem [simp]: "truncate_second (truncate_second t) = truncate_second t"
proof -
  have "(t - (t - zero_time) mod second - zero_time) mod second = 0"
    by (metis diff_right_commute minus_mod_eq_mult_div mod_mult_self1_is_0)
  then show ?thesis by (simp add: truncate_second_def)
qed

end
