(* ===== verification/Float64.thy ===== *)
theory Float64
  imports Prelude "HOL-Library.Log_Nat"
begin

text \<open>
  Go's \<^verbatim>\<open>float64\<close>: IEEE binary64 with round to nearest, ties to even. A finite value is the rational
  number it stands for; the two zeros are identified, since the controller never divides by a zero it
  has not tested for and never prints the sign of one. \<open>round_f64\<close> rounds a rational number to the
  binary64 grid, subnormal numbers included, and an operation is the exact result rounded, or an
  infinity when that is at least \<open>2^1024\<close>.

  \<open>rounding\<close> is the contract that the clients of the arithmetic use: rounding is monotone and exact on
  the integers up to \<open>2^53\<close>. It is interpreted on \<open>round_f64\<close>.
\<close>

subsection \<open>Rounding to an integer\<close>

definition rne :: "rat \<Rightarrow> int" where
  "rne x =
    (let f = \<lfloor>x\<rfloor>; d = x - of_int f
     in if d < 1 / 2 then f else if 1 / 2 < d then f + 1 else if even f then f else f + 1)"

lemma rne_cases: "rne x = \<lfloor>x\<rfloor> \<or> rne x = \<lfloor>x\<rfloor> + 1"
  by (simp add: rne_def Let_def)

lemma rne_of_int [simp]: "rne (of_int i) = i"
  by (simp add: rne_def)

lemma rne_mono:
  assumes "x \<le> y"
  shows "rne x \<le> rne y"
proof -
  have fl: "\<lfloor>x\<rfloor> \<le> \<lfloor>y\<rfloor>" using assms by (rule floor_mono)
  show ?thesis
  proof (cases "\<lfloor>x\<rfloor> = \<lfloor>y\<rfloor>")
    case True
    with assms show ?thesis by (auto simp: rne_def Let_def)
  next
    case False
    with fl have "\<lfloor>x\<rfloor> + 1 \<le> \<lfloor>y\<rfloor>" by simp
    then show ?thesis using rne_cases [of x] rne_cases [of y] by linarith
  qed
qed

lemma rne_le_of_int: "x \<le> of_int i \<Longrightarrow> rne x \<le> i"
  using rne_mono [of x "of_int i"] by simp

lemma rne_ge_of_int: "of_int i \<le> x \<Longrightarrow> i \<le> rne x"
  using rne_mono [of "of_int i" x] by simp

lemma rne_minus: "rne (- x) = - rne x"
proof (cases "x = of_int \<lfloor>x\<rfloor>")
  case True
  have "rne (- of_int \<lfloor>x\<rfloor>) = - \<lfloor>x\<rfloor>" using rne_of_int [of "- \<lfloor>x\<rfloor>"] by simp
  moreover have "rne (of_int \<lfloor>x\<rfloor>) = \<lfloor>x\<rfloor>" by simp
  ultimately show ?thesis using True by metis
next
  case False
  have lt: "of_int \<lfloor>x\<rfloor> < x" "x < of_int \<lfloor>x\<rfloor> + 1" using False floor_correct [of x]
    by (auto simp: order.strict_iff_order)
  have "\<lfloor>- x\<rfloor> = - \<lfloor>x\<rfloor> - 1" using lt by (intro floor_unique) auto
  then show ?thesis by (auto simp: rne_def Let_def)
qed

subsection \<open>The binary exponent of a positive rational\<close>

definition ilog2 :: "rat \<Rightarrow> int" where
  "ilog2 x =
    (if 1 \<le> x then int (floorlog 2 (nat \<lfloor>x\<rfloor>)) - 1
     else - int (floorlog 2 (nat (\<lceil>1 / x\<rceil> - 1))))"

lemma floorlog2_bounds:
  assumes "0 < n"
  shows "2 ^ (floorlog 2 n - 1) \<le> n" "n < 2 ^ floorlog 2 n" "0 < floorlog 2 n"
proof -
  show "0 < floorlog 2 n" using assms by (simp add: floorlog_eq_zero_iff neq0_conv [symmetric] del: neq0_conv)
  have "floorlog 2 n \<le> floorlog 2 n" by simp
  then show "n < 2 ^ floorlog 2 n" by (simp only: floorlog_le_iff) auto
  show "2 ^ (floorlog 2 n - 1) \<le> n"
    using assms by (metis floorlog_bounds one_less_numeral_iff semiring_norm(76))
qed

lemma ilog2_bounds:
  assumes "0 < x"
  shows "2 powi ilog2 x \<le> x" "x < 2 powi (ilog2 x + 1)"
proof -
  have "2 powi ilog2 x \<le> x \<and> x < 2 powi (ilog2 x + 1)"
  proof (cases "1 \<le> x")
    case True
    define n where "n = nat \<lfloor>x\<rfloor>"
    have fl: "1 \<le> \<lfloor>x\<rfloor>" using True by simp
    then have n: "0 < n" "of_nat n = (of_int \<lfloor>x\<rfloor> :: rat)" by (simp_all add: n_def)
    note b = floorlog2_bounds [OF n(1)]
    have i: "ilog2 x = int (floorlog 2 n - 1)" "ilog2 x + 1 = int (floorlog 2 n)"
      using True b(3) by (simp_all add: ilog2_def n_def)
    have "(2 :: rat) powi ilog2 x = of_nat (2 ^ (floorlog 2 n - 1))" by (simp add: i(1))
    also have "\<dots> \<le> of_nat n" using b(1) by (simp only: of_nat_le_iff)
    also have "\<dots> \<le> x" by (simp add: n(2))
    finally have lo: "2 powi ilog2 x \<le> x" .
    have "x < of_int (\<lfloor>x\<rfloor> + 1)" using floor_correct [of x] by blast
    also have "\<dots> = of_nat (n + 1)" using n(2) by simp
    also have "\<dots> \<le> of_nat (2 ^ floorlog 2 n)" using b(2) by (simp only: of_nat_le_iff Suc_eq_plus1 [symmetric] Suc_le_eq)
    also have "\<dots> = 2 powi (ilog2 x + 1)" by (simp add: i(2))
    finally show ?thesis using lo by simp
  next
    case False
    define y where "y = 1 / x"
    define n where "n = nat (\<lceil>y\<rceil> - 1)"
    define k where "k = floorlog 2 n"
    have y: "1 < y" using False assms by (simp add: y_def)
    then have c: "2 \<le> \<lceil>y\<rceil>" by (simp add: le_ceiling_iff)
    then have n: "0 < n" "of_nat n = (of_int (\<lceil>y\<rceil> - 1) :: rat)" by (simp_all add: n_def)
    note b = floorlog2_bounds [OF n(1), folded k_def]
    have i: "ilog2 x = - int k" using False by (simp add: ilog2_def y_def n_def k_def)
    have "y \<le> of_int \<lceil>y\<rceil>" by simp
    also have "\<dots> = of_nat (n + 1)" using n(2) by simp
    also have "\<dots> \<le> of_nat (2 ^ k)" using b(2) by (simp only: of_nat_le_iff Suc_eq_plus1 [symmetric] Suc_le_eq)
    finally have "y \<le> 2 ^ k" by simp
    then have lo: "1 / 2 ^ k \<le> x" using assms by (simp add: y_def field_simps)
    have "(2 :: rat) ^ (k - 1) = of_nat (2 ^ (k - 1))" by simp
    also have "\<dots> \<le> of_nat n" using b(1) by (simp only: of_nat_le_iff)
    also have "\<dots> < y" using n(2) ceiling_correct [of y] by simp
    finally have "2 ^ (k - 1) < y" .
    then have "x < 1 / 2 ^ (k - 1)" using assms by (simp add: y_def field_simps)
    moreover have "ilog2 x + 1 = - int (k - 1)" using i b(3) by simp
    moreover have p: "(2 :: rat) powi - int j = 1 / 2 ^ j" for j
      by (simp add: power_int_minus inverse_eq_divide)
    ultimately show ?thesis using lo by (simp only: i p simp_thms)
  qed
  then show "2 powi ilog2 x \<le> x" "x < 2 powi (ilog2 x + 1)" by auto
qed

lemma ilog2_mono: "0 < x \<Longrightarrow> x \<le> y \<Longrightarrow> ilog2 x \<le> ilog2 y"
proof (rule ccontr)
  assume x: "0 < x" and xy: "x \<le> y" and "\<not> ilog2 x \<le> ilog2 y"
  then have "ilog2 y + 1 \<le> ilog2 x" by simp
  then have "(2 :: rat) powi (ilog2 y + 1) \<le> 2 powi ilog2 x" by (intro power_int_increasing) auto
  then show False using ilog2_bounds [of x] ilog2_bounds [of y] x xy by linarith
qed

lemma ilog2_unique:
  assumes "2 powi e \<le> x" "x < 2 powi (e + 1)"
  shows "ilog2 x = e"
proof -
  have x: "0 < x" using assms(1) by (rule less_le_trans [rotated]) simp
  note b = ilog2_bounds [OF x]
  have "ilog2 x < e + 1"
  proof (rule ccontr)
    assume "\<not> ilog2 x < e + 1"
    then have "(2 :: rat) powi (e + 1) \<le> 2 powi ilog2 x" by (intro power_int_increasing) auto
    then show False using b assms by linarith
  qed
  moreover have "e < ilog2 x + 1"
  proof (rule ccontr)
    assume "\<not> e < ilog2 x + 1"
    then have "(2 :: rat) powi (ilog2 x + 1) \<le> 2 powi e" by (intro power_int_increasing) auto
    then show False using b assms by linarith
  qed
  ultimately show ?thesis by simp
qed

subsection \<open>Rounding to the binary64 grid\<close>

text \<open>The exponent of the last bit of a positive number's significand.\<close>

definition ulp_exp :: "rat \<Rightarrow> int" where
  "ulp_exp x = max (- 1074) (ilog2 x - 52)"

definition round_pos :: "rat \<Rightarrow> rat" where
  "round_pos x = of_int (rne (x / 2 powi ulp_exp x)) * 2 powi ulp_exp x"

definition round_f64 :: "rat \<Rightarrow> rat" where
  "round_f64 x = (if x = 0 then 0 else if 0 < x then round_pos x else - round_pos (- x))"

lemma pow2_pos [simp]: "0 < (2 :: rat) powi e"
  by simp

text \<open>A multiple of the last bit of a number that is an upper (a lower) bound of it bounds what it rounds to.\<close>

lemma round_pos_le:
  assumes "x \<le> of_int i * 2 powi ulp_exp x"
  shows "round_pos x \<le> of_int i * 2 powi ulp_exp x"
proof -
  have "x / 2 powi ulp_exp x \<le> of_int i" using assms by (simp add: pos_divide_le_eq)
  then have "rne (x / 2 powi ulp_exp x) \<le> i" by (rule rne_le_of_int)
  then show ?thesis unfolding round_pos_def by (intro mult_right_mono) auto
qed

lemma round_pos_ge:
  assumes "of_int i * 2 powi ulp_exp x \<le> x"
  shows "of_int i * 2 powi ulp_exp x \<le> round_pos x"
proof -
  have "of_int i \<le> x / 2 powi ulp_exp x" using assms by (simp add: pos_le_divide_eq)
  then have "i \<le> rne (x / 2 powi ulp_exp x)" by (rule rne_ge_of_int)
  then show ?thesis unfolding round_pos_def by (intro mult_right_mono) auto
qed

lemma pow2_split: "e \<le> f \<Longrightarrow> (2 :: rat) powi f = of_int (2 ^ nat (f - e)) * 2 powi e"
proof -
  assume "e \<le> f"
  then have "(2 :: rat) powi f = 2 powi (f - e) * 2 powi e" by (simp add: power_int_add [symmetric])
  with \<open>e \<le> f\<close> show ?thesis by (simp add: power_int_def)
qed

lemma round_pos_nonneg: "0 < x \<Longrightarrow> 0 \<le> round_pos x"
  using round_pos_ge [of 0 x] by simp

lemma round_pos_mono:
  assumes "0 < x" "x \<le> y"
  shows "round_pos x \<le> round_pos y"
proof (cases "ulp_exp x = ulp_exp y")
  case True
  have "x / 2 powi ulp_exp x \<le> y / 2 powi ulp_exp x" using assms by (simp add: divide_right_mono)
  then have "rne (x / 2 powi ulp_exp x) \<le> rne (y / 2 powi ulp_exp x)" by (rule rne_mono)
  with True show ?thesis by (simp add: round_pos_def)
next
  case False
  have l: "ilog2 x \<le> ilog2 y" using assms by (rule ilog2_mono)
  with False have u: "ulp_exp y = ilog2 y - 52" "ilog2 x < ilog2 y" "ulp_exp x < ulp_exp y"
    by (auto simp: ulp_exp_def max_def split: if_splits)
  have ux: "ulp_exp x \<le> ilog2 y" using u(1,3) by linarith
  have ix: "(2 :: rat) powi (ilog2 x + 1) \<le> 2 powi ilog2 y"
    using u(2) by (intro power_int_increasing) auto
  have "x \<le> 2 powi ilog2 y" using ilog2_bounds(2) [OF assms(1)] ix by linarith
  then have "round_pos x \<le> 2 powi ilog2 y"
    unfolding pow2_split [OF ux] by (rule round_pos_le)
  moreover have "2 powi ilog2 y \<le> round_pos y"
  proof -
    have uy: "ulp_exp y \<le> ilog2 y" using u(1) by simp
    have "2 powi ilog2 y \<le> y" using assms by (intro ilog2_bounds(1)) simp
    then show ?thesis unfolding pow2_split [OF uy] by (rule round_pos_ge)
  qed
  ultimately show ?thesis by linarith
qed

lemma round_f64_mono: "x \<le> y \<Longrightarrow> round_f64 x \<le> round_f64 y"
proof -
  assume xy: "x \<le> y"
  consider "0 < x" | "x = 0" | "x < 0" "0 \<le> y" | "y < 0" using xy by linarith
  then show ?thesis
  proof cases
    case 1
    then show ?thesis using round_pos_mono [OF 1 xy] xy by (simp add: round_f64_def)
  next
    case 2
    then show ?thesis using xy round_pos_nonneg [of y] by (auto simp: round_f64_def)
  next
    case 3
    then show ?thesis using round_pos_nonneg [of y] round_pos_nonneg [of "- x"]
      by (auto simp: round_f64_def)
  next
    case 4
    then show ?thesis using round_pos_mono [of "- y" "- x"] xy by (simp add: round_f64_def)
  qed
qed

text \<open>Rounding is exact on a number that is a multiple of its last bit.\<close>

lemma round_pos_exact: "x = of_int i * 2 powi ulp_exp x \<Longrightarrow> round_pos x = x"
  using round_pos_le [of x i] round_pos_ge [of i x] by simp

lemma round_pos_int:
  assumes "0 < i" "i \<le> 2 ^ 53"
  shows "round_pos (of_int i) = of_int i"
proof (cases "i = 2 ^ 53")
  case True
  have "ilog2 (2 ^ 53) = 53" by (rule ilog2_unique) (simp_all add: power_int_def)
  then have "ulp_exp (2 ^ 53) = 1" by (simp add: ulp_exp_def)
  then have "round_pos (2 ^ 53) = 2 ^ 53"
    by (intro round_pos_exact [of _ "2 ^ 52"]) simp
  with True show ?thesis by simp
next
  case False
  with assms have "i < 2 ^ 53" by simp
  have x: "(0 :: rat) < of_int i" using assms by simp
  have "ilog2 (of_int i :: rat) < 53"
  proof (rule ccontr)
    assume "\<not> ilog2 (of_int i :: rat) < 53"
    then have "(2 :: rat) powi 53 \<le> 2 powi ilog2 (of_int i)" by (intro power_int_increasing) auto
    then have "(2 :: rat) ^ 53 \<le> of_int i" using ilog2_bounds(1) [OF x] by (simp add: power_int_def)
    then have "(of_int (2 ^ 53) :: rat) \<le> of_int i" by simp
    then show False using \<open>i < 2 ^ 53\<close> by (simp only: of_int_le_iff)
  qed
  then have u: "ulp_exp (of_int i :: rat) \<le> 0" by (simp add: ulp_exp_def)
  have "(1 :: rat) = of_int (2 ^ nat (- ulp_exp (of_int i :: rat))) * 2 powi ulp_exp (of_int i :: rat)"
    using pow2_split [OF u] by simp
  then have "(of_int i :: rat) = of_int (i * 2 ^ nat (- ulp_exp (of_int i :: rat))) * 2 powi ulp_exp (of_int i :: rat)"
    by (metis mult.assoc mult.right_neutral of_int_mult)
  then show ?thesis by (rule round_pos_exact)
qed

lemma round_f64_int:
  assumes "\<bar>i\<bar> \<le> 2 ^ 53"
  shows "round_f64 (of_int i) = of_int i"
proof -
  consider "i = 0" | "0 < i" | "i < 0" by linarith
  then show ?thesis
  proof cases
    case 2
    then show ?thesis using assms round_pos_int [of i] by (simp add: round_f64_def)
  next
    case 3
    then show ?thesis using assms round_pos_int [of "- i"] by (simp add: round_f64_def)
  qed (simp add: round_f64_def)
qed

lemma round_f64_minus: "round_f64 (- x) = - round_f64 x"
  by (simp add: round_f64_def)

subsection \<open>The contract of rounding\<close>

locale rounding =
  fixes rnd :: "rat \<Rightarrow> rat"
  assumes rnd_mono: "x \<le> y \<Longrightarrow> rnd x \<le> rnd y"
    and rnd_int: "\<bar>i\<bar> \<le> 2 ^ 53 \<Longrightarrow> rnd (of_int i) = of_int i"
begin

lemma rnd_0 [simp]: "rnd 0 = 0"
  using rnd_int [of 0] by simp

lemma rnd_1 [simp]: "rnd 1 = 1"
  using rnd_int [of 1] by simp

lemma rnd_nonneg: "0 \<le> x \<Longrightarrow> 0 \<le> rnd x"
  using rnd_mono [of 0 x] by simp

lemma rnd_nonpos: "x \<le> 0 \<Longrightarrow> rnd x \<le> 0"
  using rnd_mono [of x 0] by simp

lemma rnd_le_int: "x \<le> of_int i \<Longrightarrow> \<bar>i\<bar> \<le> 2 ^ 53 \<Longrightarrow> rnd x \<le> of_int i"
  using rnd_mono [of x "of_int i"] by (simp add: rnd_int)

lemma rnd_ge_int: "of_int i \<le> x \<Longrightarrow> \<bar>i\<bar> \<le> 2 ^ 53 \<Longrightarrow> of_int i \<le> rnd x"
  using rnd_mono [of "of_int i" x] by (simp add: rnd_int)

text \<open>A quotient of two non-negative numbers, the first not larger, rounds into the unit interval.\<close>

lemma rnd_div_unit:
  assumes "0 \<le> a" "a \<le> b"
  shows "0 \<le> rnd (a / b)" "rnd (a / b) \<le> 1"
proof -
  show "0 \<le> rnd (a / b)" using assms by (intro rnd_nonneg) simp
  have "a / b \<le> of_int 1" using assms by (cases "b = 0") (auto simp: divide_le_eq)
  then show "rnd (a / b) \<le> 1" using rnd_le_int [of "a / b" 1] by simp
qed

text \<open>
  Linear interpolation between two integers with a factor of the unit interval, rounded after the
  product and after the sum, stays between them.
\<close>

lemma rnd_lerp:
  assumes "0 \<le> p" "p \<le> 1" "\<bar>a\<bar> \<le> 2 ^ 52" "\<bar>b\<bar> \<le> 2 ^ 52"
  shows "of_int (min a b) \<le> rnd (of_int a + rnd (of_int (b - a) * p))"
    and "rnd (of_int a + rnd (of_int (b - a) * p)) \<le> of_int (max a b)"
proof -
  let ?d = "rnd (of_int (b - a) * p)"
  have d53: "\<bar>b - a\<bar> \<le> 2 ^ 53" using assms(3,4) by simp
  have lo: "of_int (min 0 (b - a)) \<le> ?d"
  proof (rule rnd_ge_int)
    show "of_int (min 0 (b - a)) \<le> of_int (b - a) * p"
    proof (cases "0 \<le> b - a")
      case True
      then show ?thesis using assms(1) by (simp add: min_def)
    next
      case False
      then have "of_int (b - a) * (1 :: rat) \<le> of_int (b - a) * p"
        using assms(2) by (intro mult_left_mono_neg) auto
      with False show ?thesis by (simp add: min_def)
    qed
    show "\<bar>min 0 (b - a)\<bar> \<le> 2 ^ 53" using d53 by linarith
  qed
  have hi: "?d \<le> of_int (max 0 (b - a))"
  proof (rule rnd_le_int)
    show "of_int (b - a) * p \<le> of_int (max 0 (b - a))"
    proof (cases "0 \<le> b - a")
      case True
      then have "of_int (b - a) * p \<le> of_int (b - a) * (1 :: rat)"
        using assms(2) by (intro mult_left_mono) auto
      with True show ?thesis by (simp add: max_def)
    next
      case False
      then have "of_int (b - a) * p \<le> of_int (b - a) * (0 :: rat)"
        using assms(1) by (intro mult_left_mono_neg) auto
      with False show ?thesis by (simp add: max_def)
    qed
    show "\<bar>max 0 (b - a)\<bar> \<le> 2 ^ 53" using d53 by linarith
  qed
  have "of_int (min a b) = of_int a + (of_int (min 0 (b - a)) :: rat)"
    by (simp add: min_def)
  also have "\<dots> \<le> of_int a + ?d" using lo by simp
  finally show "of_int (min a b) \<le> rnd (of_int a + ?d)"
    using assms(3,4) by (intro rnd_ge_int) (auto simp: min_def)
  have "of_int a + ?d \<le> of_int a + (of_int (max 0 (b - a)) :: rat)" using hi by simp
  also have "\<dots> = of_int (max a b)" by (simp add: max_def)
  finally show "rnd (of_int a + ?d) \<le> of_int (max a b)"
    using assms(3,4) by (intro rnd_le_int) (auto simp: max_def)
qed

end

interpretation f64: rounding round_f64
  by unfold_locales (auto intro: round_f64_mono round_f64_int)

subsection \<open>Values and operations\<close>

datatype f64 = Fin rat | PInf | NInf | NaN

definition mk_f64 :: "rat \<Rightarrow> f64" where
  "mk_f64 x =
    (let r = round_f64 x
     in if 2 ^ 1024 \<le> r then PInf else if r \<le> - (2 ^ 1024) then NInf else Fin r)"

definition f64_of_int :: "int \<Rightarrow> f64" where
  "f64_of_int i = mk_f64 (of_int i)"

fun fneg :: "f64 \<Rightarrow> f64" where
  "fneg (Fin x) = Fin (- x)"
| "fneg PInf = NInf"
| "fneg NInf = PInf"
| "fneg NaN = NaN"

fun fadd :: "f64 \<Rightarrow> f64 \<Rightarrow> f64" where
  "fadd (Fin x) (Fin y) = mk_f64 (x + y)"
| "fadd NaN _ = NaN"
| "fadd _ NaN = NaN"
| "fadd PInf NInf = NaN"
| "fadd NInf PInf = NaN"
| "fadd PInf _ = PInf"
| "fadd _ PInf = PInf"
| "fadd NInf _ = NInf"
| "fadd _ NInf = NInf"

definition fsub :: "f64 \<Rightarrow> f64 \<Rightarrow> f64" where
  "fsub x y = fadd x (fneg y)"

fun finf :: "bool \<Rightarrow> f64" where
  "finf neg = (if neg then NInf else PInf)"

fun fnegative :: "f64 \<Rightarrow> bool" where
  "fnegative (Fin x) \<longleftrightarrow> x < 0"
| "fnegative NInf \<longleftrightarrow> True"
| "fnegative _ \<longleftrightarrow> False"

fun fmul :: "f64 \<Rightarrow> f64 \<Rightarrow> f64" where
  "fmul (Fin x) (Fin y) = mk_f64 (x * y)"
| "fmul NaN _ = NaN"
| "fmul _ NaN = NaN"
| "fmul (Fin x) y = (if x = 0 then NaN else finf (fnegative (Fin x) \<noteq> fnegative y))"
| "fmul x (Fin y) = (if y = 0 then NaN else finf (fnegative x \<noteq> fnegative (Fin y)))"
| "fmul x y = finf (fnegative x \<noteq> fnegative y)"

text \<open>Division; a zero divisor counts as positive.\<close>

fun fdiv :: "f64 \<Rightarrow> f64 \<Rightarrow> f64" where
  "fdiv (Fin x) (Fin y) =
    (if y = 0 then (if x = 0 then NaN else finf (x < 0)) else mk_f64 (x / y))"
| "fdiv NaN _ = NaN"
| "fdiv _ NaN = NaN"
| "fdiv (Fin x) _ = Fin 0"
| "fdiv x (Fin y) = finf (fnegative x \<noteq> fnegative (Fin y))"
| "fdiv _ _ = NaN"

fun flt :: "f64 \<Rightarrow> f64 \<Rightarrow> bool" where
  "flt (Fin x) (Fin y) \<longleftrightarrow> x < y"
| "flt NaN _ \<longleftrightarrow> False"
| "flt _ NaN \<longleftrightarrow> False"
| "flt NInf y \<longleftrightarrow> y \<noteq> NInf"
| "flt x PInf \<longleftrightarrow> x \<noteq> PInf"
| "flt _ _ \<longleftrightarrow> False"

fun feq :: "f64 \<Rightarrow> f64 \<Rightarrow> bool" where
  "feq NaN _ \<longleftrightarrow> False"
| "feq x y \<longleftrightarrow> x = y"

definition fle :: "f64 \<Rightarrow> f64 \<Rightarrow> bool" where
  "fle x y \<longleftrightarrow> flt x y \<or> feq x y"

abbreviation f0 :: f64 where "f0 \<equiv> Fin 0"

text \<open>\<^verbatim>\<open>math.Round\<close>: half away from zero.\<close>

definition round_half_away :: "rat \<Rightarrow> int" where
  "round_half_away x = (if 0 \<le> x then \<lfloor>x + 1 / 2\<rfloor> else - \<lfloor>- x + 1 / 2\<rfloor>)"

lemma round_half_away_bounds:
  assumes "of_int a \<le> x" "x \<le> of_int b"
  shows "a \<le> round_half_away x" "round_half_away x \<le> b"
proof -
  show "a \<le> round_half_away x"
  proof (cases "0 \<le> x")
    case True
    have "of_int a \<le> x + 1 / 2" using assms(1) by linarith
    with True show ?thesis by (simp add: round_half_away_def le_floor_iff)
  next
    case False
    have "\<lfloor>- x + 1 / 2\<rfloor> < - a + 1" using assms(1) by (simp add: floor_less_iff)
    with False show ?thesis by (simp add: round_half_away_def)
  qed
  show "round_half_away x \<le> b"
  proof (cases "0 \<le> x")
    case True
    have "\<lfloor>x + 1 / 2\<rfloor> < b + 1"
      unfolding floor_less_iff of_int_add using assms(2) by simp
    with True show ?thesis by (simp add: round_half_away_def)
  next
    case False
    have "of_int (- b) \<le> - x + 1 / 2" using assms(2) by simp
    then have "- b \<le> \<lfloor>- x + 1 / 2\<rfloor>" by (simp only: le_floor_iff)
    with False show ?thesis by (simp add: round_half_away_def)
  qed
qed

text \<open>
  The conversion \<^verbatim>\<open>int(x)\<close> truncates; outside the range of \<^verbatim>\<open>int\<close> (and on an infinity or NaN) the
  result depends on the platform: on amd64 it is the smallest \<^verbatim>\<open>int\<close>.
\<close>

fun int_of_f64 :: "f64 \<Rightarrow> int" where
  "int_of_f64 (Fin x) =
    (let i = (if 0 \<le> x then \<lfloor>x\<rfloor> else \<lceil>x\<rceil>) in if in_int64 i then i else - (2 ^ 63))"
| "int_of_f64 _ = - (2 ^ 63)"

fun fround :: "f64 \<Rightarrow> f64" where
  "fround (Fin x) = Fin (of_int (round_half_away x))"
| "fround x = x"

fun fceil :: "f64 \<Rightarrow> f64" where
  "fceil (Fin x) = Fin (of_int \<lceil>x\<rceil>)"
| "fceil x = x"

lemma mk_f64_fin:
  assumes "\<bar>round_f64 x\<bar> < 2 ^ 1024"
  shows "mk_f64 x = Fin (round_f64 x)"
  using assms unfolding mk_f64_def Let_def by (auto simp: abs_less_iff)

lemma abs_lt_1024: "\<bar>x\<bar> \<le> 2 ^ 53 \<Longrightarrow> \<bar>x\<bar> < (2 :: rat) ^ 1024"
proof -
  assume "\<bar>x\<bar> \<le> 2 ^ 53"
  moreover have "(2 :: rat) ^ 53 < 2 ^ 1024" by (rule power_strict_increasing) auto
  ultimately show ?thesis by linarith
qed

lemma mk_f64_small:
  assumes "\<bar>x\<bar> \<le> 2 ^ 53"
  shows "mk_f64 x = Fin (round_f64 x)"
proof -
  have "round_f64 x \<le> of_int (2 ^ 53)" "of_int (- (2 ^ 53)) \<le> round_f64 x"
    using assms by (intro f64.rnd_le_int f64.rnd_ge_int; auto simp: abs_le_iff)+
  then have "\<bar>round_f64 x\<bar> \<le> 2 ^ 53" by (simp add: abs_le_iff)
  then show ?thesis by (intro mk_f64_fin abs_lt_1024)
qed

lemma f64_of_int_small: "\<bar>i\<bar> \<le> 2 ^ 53 \<Longrightarrow> f64_of_int i = Fin (of_int i)"
proof -
  assume i: "\<bar>i\<bar> \<le> 2 ^ 53"
  then have "(of_int \<bar>i\<bar> :: rat) \<le> of_int (2 ^ 53)" by (simp only: of_int_le_iff)
  then have "\<bar>of_int i :: rat\<bar> \<le> 2 ^ 53" by simp
  then show ?thesis using i by (simp add: f64_of_int_def mk_f64_small round_f64_int)
qed

lemma mk_f64_int: "\<bar>i\<bar> \<le> 2 ^ 53 \<Longrightarrow> mk_f64 (of_int i) = Fin (of_int i)"
  using f64_of_int_small by (simp add: f64_of_int_def)

lemma mk_f64_numeral [simp]: "(numeral n :: int) \<le> 2 ^ 53 \<Longrightarrow> mk_f64 (numeral n) = Fin (numeral n)"
  using mk_f64_int [of "numeral n"] by simp

lemma mk_f64_01 [simp]: "mk_f64 0 = Fin 0" "mk_f64 1 = Fin 1"
  using mk_f64_int [of 0] mk_f64_int [of 1] by simp_all

lemma int_of_f64_of_int [simp]: "in_int64 i \<Longrightarrow> int_of_f64 (Fin (of_int i)) = i"
  by simp

text \<open>An \<^verbatim>\<open>int\<close> converts to a finite number.\<close>

lemma round_f64_pow2:
  assumes "52 \<le> k"
  shows "round_f64 (2 ^ k) = 2 ^ k"
proof -
  have "ilog2 (2 ^ k) = int k" by (rule ilog2_unique) (simp_all add: power_int_def nat_add_distrib)
  then have "ulp_exp (2 ^ k) = int k - 52" using assms by (simp add: ulp_exp_def)
  moreover have "(2 :: rat) ^ k = of_int (2 ^ 52) * 2 powi (int k - 52)"
    using pow2_split [of "int k - 52" "int k"] by simp
  ultimately have "round_pos (2 ^ k) = 2 ^ k" by (intro round_pos_exact [of _ "2 ^ 52"]) simp
  then show ?thesis by (simp add: round_f64_def)
qed

lemma f64_of_int_int64: "in_int64 i \<Longrightarrow> f64_of_int i = Fin (round_f64 (of_int i))"
proof -
  assume "in_int64 i"
  then have "- (2 ^ 63) \<le> i" "i \<le> 2 ^ 63" by (simp_all add: in_int64_def)
  then have "(of_int (- (2 ^ 63)) :: rat) \<le> of_int i" "(of_int i :: rat) \<le> of_int (2 ^ 63)"
    by (simp_all only: of_int_le_iff)
  then have "round_f64 (- (2 ^ 63)) \<le> round_f64 (of_int i)" "round_f64 (of_int i) \<le> round_f64 (2 ^ 63)"
    by (intro f64.rnd_mono; simp)+
  then have "\<bar>round_f64 (of_int i)\<bar> \<le> 2 ^ 63"
    using round_f64_minus [of "2 ^ 63"] by (simp only: round_f64_pow2 abs_le_iff) simp
  moreover have "(2 :: rat) ^ 63 < 2 ^ 1024" by (rule power_strict_increasing) auto
  ultimately have "\<bar>round_f64 (of_int i)\<bar> < 2 ^ 1024" by linarith
  then show ?thesis unfolding f64_of_int_def by (rule mk_f64_fin)
qed

lemma trunc_bounds:
  fixes x :: rat
  assumes "of_int a \<le> x" "x \<le> of_int b"
  shows "a \<le> (if 0 \<le> x then \<lfloor>x\<rfloor> else \<lceil>x\<rceil>)" "(if 0 \<le> x then \<lfloor>x\<rfloor> else \<lceil>x\<rceil>) \<le> b"
proof -
  have f: "a \<le> \<lfloor>x\<rfloor>" and c: "\<lceil>x\<rceil> \<le> b" using assms by (simp_all add: le_floor_iff ceiling_le_iff)
  moreover have "a \<le> \<lceil>x\<rceil>" "\<lfloor>x\<rfloor> \<le> b"
    using order_trans [OF f floor_le_ceiling] order_trans [OF floor_le_ceiling c] by simp_all
  ultimately show "a \<le> (if 0 \<le> x then \<lfloor>x\<rfloor> else \<lceil>x\<rceil>)" "(if 0 \<le> x then \<lfloor>x\<rfloor> else \<lceil>x\<rceil>) \<le> b" by auto
qed

subsection \<open>Representable numbers\<close>

definition representable :: "rat \<Rightarrow> bool" where
  "representable x \<longleftrightarrow> round_f64 x = x"

lemma round_pos_grid:
  assumes "0 < i" "i \<le> 2 ^ 53" "- 1074 \<le> e"
  shows "round_pos (of_int i * 2 powi e) = of_int i * 2 powi e"
proof (cases "i = 2 ^ 53")
  case True
  have x: "(of_int i :: rat) * 2 powi e = 2 powi (53 + e)"
    by (simp add: True power_int_add)
  have "ilog2 (2 powi (53 + e)) = 53 + e"
  proof (rule ilog2_unique)
    show "(2 :: rat) powi (53 + e) < 2 powi (53 + e + 1)" by (rule power_int_strict_increasing) auto
  qed simp
  then have u: "ulp_exp (2 powi (53 + e)) = e + 1" using assms(3) by (simp add: ulp_exp_def)
  have "(2 :: rat) powi (53 + e) = of_int (2 ^ nat (53 + e - (e + 1))) * 2 powi (e + 1)"
    by (rule pow2_split) simp
  then have "round_pos (2 powi (53 + e)) = 2 powi (53 + e)"
    unfolding u [symmetric] by (rule round_pos_exact)
  then show ?thesis by (simp add: x)
next
  case False
  with assms have i: "i < 2 ^ 53" by simp
  let ?x = "(of_int i :: rat) * 2 powi e"
  have pos: "0 < ?x" using assms(1) by simp
  have "ilog2 ?x < 53 + e"
  proof (rule ccontr)
    assume "\<not> ilog2 ?x < 53 + e"
    then have "(2 :: rat) powi (53 + e) \<le> 2 powi ilog2 ?x" by (intro power_int_increasing) auto
    also have "\<dots> \<le> ?x" by (rule ilog2_bounds(1) [OF pos])
    finally have "(2 :: rat) ^ 53 * 2 powi e \<le> of_int i * 2 powi e" by (simp add: power_int_add)
    then have "(of_int (2 ^ 53) :: rat) \<le> of_int i" by simp
    with i show False by (simp only: of_int_le_iff)
  qed
  then have u: "ulp_exp ?x \<le> e" using assms(3) by (simp add: ulp_exp_def)
  have "?x = of_int (i * 2 ^ nat (e - ulp_exp ?x)) * 2 powi ulp_exp ?x"
    by (subst pow2_split [OF u]) (simp add: mult.assoc)
  then show ?thesis by (rule round_pos_exact)
qed

lemma representable_round: "representable (round_f64 x)"
proof -
  have pos: "round_pos (round_pos y) = round_pos y \<or> round_pos y = 0" if y: "0 < y" for y
  proof -
    let ?e = "ulp_exp y" let ?i = "rne (y / 2 powi ?e)"
    have e: "- 1074 \<le> ?e" by (simp add: ulp_exp_def)
    have "ilog2 y + 1 \<le> ?e + 53" by (simp add: ulp_exp_def)
    then have "(2 :: rat) powi (ilog2 y + 1) \<le> 2 powi (?e + 53)" by (intro power_int_increasing) auto
    then have "y \<le> of_int (2 ^ 53) * 2 powi ?e"
      using ilog2_bounds(2) [OF y] by (simp add: power_int_add mult.commute)
    then have "y / 2 powi ?e \<le> of_int (2 ^ 53)" by (simp only: pos_divide_le_eq [OF pow2_pos])
    then have le: "?i \<le> 2 ^ 53" by (rule rne_le_of_int)
    have "0 \<le> ?i" using rne_ge_of_int [of 0 "y / 2 powi ?e"] y by simp
    then show ?thesis using round_pos_grid [OF _ le e] by (cases "?i = 0") (auto simp: round_pos_def)
  qed
  consider "x = 0" | "0 < x" | "x < 0" by linarith
  then show ?thesis
  proof cases
    case 2
    then show ?thesis using pos [OF 2] round_pos_nonneg [OF 2]
      by (cases "round_pos x = 0") (auto simp: representable_def round_f64_def)
  next
    case 3
    then have "0 < - x" by simp
    then show ?thesis using pos [of "- x"] round_pos_nonneg [of "- x"] 3
      by (cases "round_pos (- x) = 0") (auto simp: representable_def round_f64_def)
  qed (simp add: representable_def round_f64_def)
qed

text \<open>A part of a sum, divided by the rounded sum, rounds into the unit interval.\<close>

lemma rounded_share:
  assumes "representable a" "representable b" "0 \<le> a" "0 \<le> b"
  shows "0 \<le> round_f64 (a / round_f64 (a + b))" "round_f64 (a / round_f64 (a + b)) \<le> 1"
proof -
  have "a \<le> round_f64 (a + b)"
    using f64.rnd_mono [of a "a + b"] assms(1,4) by (simp add: representable_def)
  then show "0 \<le> round_f64 (a / round_f64 (a + b))" "round_f64 (a / round_f64 (a + b)) \<le> 1"
    using f64.rnd_div_unit assms(3) by blast+
qed

end
