(* ===== verification/Model.thy ===== *)
theory Model
  imports GoTime Float64
begin

text \<open>
  The data of \<^verbatim>\<open>controller/internal/model/model.go\<close> that the modelled components exchange: each struct
  is a record with the source's fields in the source's order, the field names prefixed with an
  abbreviation of the struct's name; \<^verbatim>\<open>*T\<close> is an \<open>option\<close>, a slice is a list (a nil slice and an
  empty one are not distinguished, except in a schedule request, where only a nil slice means no change) and a \<^verbatim>\<open>map[string]float64\<close> is an association list without
  repeated keys. The methods of the structs follow: the classification of a k6 status, the lookup of a
  metric value, and the conversion of a schedule into a test request.
\<close>

subsection \<open>Authentication and test requests\<close>

record auth_config =
  ac_Enabled :: bool
  ac_Mode :: string
  ac_TokenURL :: string
  ac_ClientID :: string
  ac_ClientAuthMethod :: string
  ac_RefreshSkewSeconds :: int
  ac_SecretSource :: string
  ac_SecretConfigured :: bool
  ac_ClientSecretEncrypted :: string

record auth_input =
  ai_Enabled :: bool
  ai_Mode :: string
  ai_TokenURL :: string
  ai_ClientID :: string
  ai_ClientSecret :: string
  ai_ClientAuthMethod :: string
  ai_RefreshSkewSeconds :: int
  ai_PersistSecret :: bool
  ai_ClearSecret :: bool

record stage =
  stg_Duration :: string
  stg_Target :: int

record test_request =
  req_ProjectName :: string
  req_URL :: string
  req_Executor :: string
  req_Stages :: "stage list"
  req_VUs :: int
  req_Duration :: string
  req_Rate :: int
  req_TimeUnit :: string
  req_PreAllocatedVUs :: int
  req_MaxVUs :: int
  req_SleepSeconds :: "f64 option"
  req_ScriptContent :: string
  req_ConfigContent :: string
  req_HTTPMethod :: string
  req_ContentType :: string
  req_PayloadJSON :: string
  req_PayloadTargetKiB :: int
  req_Auth :: auth_input

record conflict_warning =
  cw_Type :: string
  cw_Message :: string

definition zero_auth_config :: auth_config where
  "zero_auth_config =
    \<lparr>ac_Enabled = False, ac_Mode = [], ac_TokenURL = [], ac_ClientID = [], ac_ClientAuthMethod = [],
     ac_RefreshSkewSeconds = 0, ac_SecretSource = [], ac_SecretConfigured = False,
     ac_ClientSecretEncrypted = []\<rparr>"

definition zero_auth_input :: auth_input where
  "zero_auth_input =
    \<lparr>ai_Enabled = False, ai_Mode = [], ai_TokenURL = [], ai_ClientID = [], ai_ClientSecret = [],
     ai_ClientAuthMethod = [], ai_RefreshSkewSeconds = 0, ai_PersistSecret = False,
     ai_ClearSecret = False\<rparr>"

definition zero_test_request :: test_request where
  "zero_test_request =
    \<lparr>req_ProjectName = [], req_URL = [], req_Executor = [], req_Stages = [], req_VUs = 0,
     req_Duration = [], req_Rate = 0, req_TimeUnit = [], req_PreAllocatedVUs = 0, req_MaxVUs = 0,
     req_SleepSeconds = None, req_ScriptContent = [], req_ConfigContent = [], req_HTTPMethod = [],
     req_ContentType = [], req_PayloadJSON = [], req_PayloadTargetKiB = 0, req_Auth = zero_auth_input\<rparr>"

subsection \<open>The k6 REST API\<close>

text \<open>
  The raw \<^verbatim>\<open>status\<close> of a k6 instance, by what \<^verbatim>\<open>json.Unmarshal\<close> makes of it: an integer, a string,
  \<^verbatim>\<open>null\<close> (which unmarshals into an \<^verbatim>\<open>int\<close> without an error and leaves it 0), or something that is
  neither (a missing field included).
\<close>

datatype raw_status = RawInt int | RawString string | RawNull | RawOther

fun unmarshal_int :: "raw_status \<Rightarrow> int option" where
  "unmarshal_int (RawInt i) = Some i"
| "unmarshal_int RawNull = Some 0"
| "unmarshal_int _ = None"

fun unmarshal_string :: "raw_status \<Rightarrow> string option" where
  "unmarshal_string (RawString s) = Some s"
| "unmarshal_string RawNull = Some []"
| "unmarshal_string _ = None"

record k6_status =
  ks_Status :: raw_status
  ks_Paused :: bool
  ks_VUs :: int
  ks_VUsMax :: int
  ks_Stopped :: bool
  ks_Running :: bool
  ks_Tainted :: bool

record k6_status_patch =
  kp_Paused :: "bool option"
  kp_Stopped :: "bool option"
  kp_VUs :: "int option"
  kp_VUsMax :: "int option"

record k6_metric =
  km_Type :: string
  km_Contains :: string
  km_Tainted :: "bool option"
  km_Sample :: "(string \<times> f64) list"
  km_Values :: "(string \<times> f64) list"

definition IsRunning :: "k6_status \<Rightarrow> bool" where
  "IsRunning s =
    (case unmarshal_int (ks_Status s) of
       Some n \<Rightarrow> 3 \<le> n \<and> n \<le> 5
     | None \<Rightarrow>
        (case unmarshal_string (ks_Status s) of
           Some str \<Rightarrow> str = ''running'' \<or> str = ''setup'' \<or> str = ''tearing_down''
         | None \<Rightarrow> ks_Running s \<and> \<not> ks_Paused s \<and> \<not> ks_Stopped s))"

definition IsFinished :: "k6_status \<Rightarrow> bool" where
  "IsFinished s =
    (case unmarshal_int (ks_Status s) of
       Some n \<Rightarrow> 6 \<le> n
     | None \<Rightarrow>
        (case unmarshal_string (ks_Status s) of
           Some str \<Rightarrow> str = ''finished'' \<or> str = ''teared_down''
         | None \<Rightarrow> False))"

definition IsReadyForStart :: "k6_status \<Rightarrow> bool" where
  "IsReadyForStart s \<longleftrightarrow> ks_Paused s \<and> \<not> ks_Stopped s \<and> \<not> IsFinished s"

text \<open>\<^verbatim>\<open>K6Metric.Val\<close>; \<open>None\<close> stands for \<^verbatim>\<open>(0, false)\<close>.\<close>

definition Val :: "k6_metric \<Rightarrow> string \<Rightarrow> f64 option" where
  "Val m key =
    (case map_of (km_Sample m) key of
       Some v \<Rightarrow> Some v
     | None \<Rightarrow> map_of (km_Values m) key)"

lemma not_running_and_finished: "\<not> (IsRunning s \<and> IsFinished s)"
  by (auto simp: IsRunning_def IsFinished_def split: option.splits)

subsection \<open>Runtime metrics\<close>

record threshold_result =
  tr_Metric :: string
  tr_Passed :: bool

record worker_metrics =
  wm_Name :: string
  wm_Address :: string
  wm_VUs :: int
  wm_Requests :: f64
  wm_AvgLatency :: f64
  wm_Status :: string
  wm_Error :: string
  wm_DashboardEnabled :: bool
  wm_DashboardURL :: string

record aggregated_metrics =
  am_TotalVUs :: int
  am_TotalRequests :: f64
  am_BusinessRequests :: f64
  am_AvgLatency :: f64
  am_MedLatency :: f64
  am_P90Latency :: f64
  am_P95Latency :: f64
  am_P99Latency :: f64
  am_MinLatency :: f64
  am_MaxLatency :: f64
  am_ErrorRate :: f64
  am_SuccessRate :: f64
  am_RPS :: f64
  am_Iterations :: f64
  am_DataReceived :: f64
  am_DataSent :: f64
  am_HTTPFailures :: f64
  am_HTTPSuccesses :: f64
  am_Status4xx :: f64
  am_Status5xx :: f64
  am_Workers :: "worker_metrics list"
  am_Thresholds :: "threshold_result list"

record time_point =
  tp_ElapsedSec :: f64
  tp_TotalVUs :: int
  tp_RPS :: f64
  tp_AvgLatency :: f64
  tp_P95Latency :: f64
  tp_TotalRequests :: f64
  tp_BusinessRequests :: f64
  tp_ErrorRate :: f64
  tp_Status4xx :: f64
  tp_Status5xx :: f64

definition zero_worker_metrics :: worker_metrics where
  "zero_worker_metrics =
    \<lparr>wm_Name = [], wm_Address = [], wm_VUs = 0, wm_Requests = f0, wm_AvgLatency = f0, wm_Status = [],
     wm_Error = [], wm_DashboardEnabled = False, wm_DashboardURL = []\<rparr>"

definition zero_aggregated_metrics :: aggregated_metrics where
  "zero_aggregated_metrics =
    \<lparr>am_TotalVUs = 0, am_TotalRequests = f0, am_BusinessRequests = f0, am_AvgLatency = f0,
     am_MedLatency = f0, am_P90Latency = f0, am_P95Latency = f0, am_P99Latency = f0,
     am_MinLatency = f0, am_MaxLatency = f0, am_ErrorRate = f0, am_SuccessRate = f0, am_RPS = f0,
     am_Iterations = f0, am_DataReceived = f0, am_DataSent = f0, am_HTTPFailures = f0,
     am_HTTPSuccesses = f0, am_Status4xx = f0, am_Status5xx = f0, am_Workers = [], am_Thresholds = []\<rparr>"

subsection \<open>Schedules\<close>

record scheduled_test =
  st_ID :: string
  st_Name :: string
  st_ProjectName :: string
  st_URL :: string
  st_Mode :: string
  st_Executor :: string
  st_Stages :: "stage list"
  st_VUs :: int
  st_Duration :: string
  st_Rate :: int
  st_TimeUnit :: string
  st_PreAllocatedVUs :: int
  st_MaxVUs :: int
  st_SleepSeconds :: "f64 option"
  st_ScriptContent :: string
  st_ConfigContent :: string
  st_HTTPMethod :: string
  st_ContentType :: string
  st_PayloadJSON :: string
  st_PayloadTargetKiB :: int
  st_AuthConfig :: auth_config
  st_ScheduledAt :: time
  st_EstimatedDurationS :: int
  st_Timezone :: string
  st_RecurrenceType :: string
  st_RecurrenceRule :: string
  st_RecurrenceEnd :: "time option"
  st_SkippedOccurrences :: "time list"
  st_Status :: string
  st_Paused :: bool
  st_UserID :: int
  st_Username :: string
  st_CreatedAt :: time
  st_UpdatedAt :: time

record schedule_execution =
  ex_ID :: string
  ex_ScheduleID :: string
  ex_LoadTestID :: "string option"
  ex_Status :: string
  ex_ScheduledAt :: time
  ex_StartedAt :: "time option"
  ex_EndedAt :: "time option"
  ex_ErrorMessage :: "string option"
  ex_ErrorDetail :: "string option"
  ex_CreatedAt :: time

record create_schedule_request =
  cr_Name :: string
  cr_ProjectName :: string
  cr_URL :: string
  cr_Mode :: string
  cr_Executor :: string
  cr_Stages :: "stage list option"
  cr_VUs :: int
  cr_Duration :: string
  cr_Rate :: int
  cr_TimeUnit :: string
  cr_PreAllocatedVUs :: int
  cr_MaxVUs :: int
  cr_SleepSeconds :: "f64 option"
  cr_ScriptContent :: string
  cr_ConfigContent :: string
  cr_HTTPMethod :: string
  cr_ContentType :: string
  cr_PayloadJSON :: string
  cr_PayloadTargetKiB :: int
  cr_Auth :: auth_input
  cr_ScheduledAt :: string
  cr_EstimatedDurationS :: int
  cr_Timezone :: string
  cr_RecurrenceType :: string
  cr_RecurrenceRule :: string
  cr_RecurrenceEnd :: "string option"

record schedule_conflict =
  sc_ScheduleID :: string
  sc_ScheduleName :: string
  sc_Start :: string
  sc_End :: string
  sc_Type :: string

definition zero_scheduled_test :: scheduled_test where
  "zero_scheduled_test =
    \<lparr>st_ID = [], st_Name = [], st_ProjectName = [], st_URL = [], st_Mode = [], st_Executor = [],
     st_Stages = [], st_VUs = 0, st_Duration = [], st_Rate = 0, st_TimeUnit = [],
     st_PreAllocatedVUs = 0, st_MaxVUs = 0, st_SleepSeconds = None, st_ScriptContent = [],
     st_ConfigContent = [], st_HTTPMethod = [], st_ContentType = [], st_PayloadJSON = [],
     st_PayloadTargetKiB = 0, st_AuthConfig = zero_auth_config, st_ScheduledAt = zero_time,
     st_EstimatedDurationS = 0, st_Timezone = [], st_RecurrenceType = [], st_RecurrenceRule = [],
     st_RecurrenceEnd = None, st_SkippedOccurrences = [], st_Status = [], st_Paused = False,
     st_UserID = 0, st_Username = [], st_CreatedAt = zero_time, st_UpdatedAt = zero_time\<rparr>"

definition ToTestRequest :: "scheduled_test \<Rightarrow> test_request" where
  "ToTestRequest s =
    \<lparr>req_ProjectName = st_ProjectName s, req_URL = st_URL s, req_Executor = st_Executor s,
     req_Stages = st_Stages s, req_VUs = st_VUs s, req_Duration = st_Duration s, req_Rate = st_Rate s,
     req_TimeUnit = st_TimeUnit s, req_PreAllocatedVUs = st_PreAllocatedVUs s,
     req_MaxVUs = st_MaxVUs s, req_SleepSeconds = st_SleepSeconds s,
     req_ScriptContent = st_ScriptContent s, req_ConfigContent = st_ConfigContent s,
     req_HTTPMethod = st_HTTPMethod s, req_ContentType = st_ContentType s,
     req_PayloadJSON = st_PayloadJSON s, req_PayloadTargetKiB = st_PayloadTargetKiB s,
     req_Auth =
       \<lparr>ai_Enabled = ac_Enabled (st_AuthConfig s), ai_Mode = ac_Mode (st_AuthConfig s),
        ai_TokenURL = ac_TokenURL (st_AuthConfig s), ai_ClientID = ac_ClientID (st_AuthConfig s),
        ai_ClientSecret = [], ai_ClientAuthMethod = ac_ClientAuthMethod (st_AuthConfig s),
        ai_RefreshSkewSeconds = ac_RefreshSkewSeconds (st_AuthConfig s), ai_PersistSecret = False,
        ai_ClearSecret = False\<rparr>\<rparr>"

end
