(* ===== verification/Recurrence.thy ===== *)
theory Recurrence
  imports Model
begin

text \<open>
  \<^verbatim>\<open>controller/internal/scheduler/recurrence.go\<close>: the next occurrence of a recurring schedule, the next
  one that is not skipped, and the expansion of a schedule into time slots.

  \<^verbatim>\<open>time.LoadLocation\<close> reads the time-zone database, so it is a parameter \<open>load\<close>: \<open>None\<close> stands for an
  error, after which the code works in UTC. A zero \<^verbatim>\<open>time.Time\<close> returned with a nil error means
  that there is no further occurrence.

  The two bounded searches of the scheduler (over skipped occurrences here, over missed occurrences in
  \<^verbatim>\<open>scheduler.go\<close>) share the contract \<open>occurrence_search\<close>; the results are stated with
  \<open>occ_iter\<close>, the k-th iterate of a step.
\<close>

subsection \<open>Operations\<close>

type_synonym tz_database = "string \<Rightarrow> location option"

definition loc_or_utc :: "tz_database \<Rightarrow> string \<Rightarrow> location" where
  "loc_or_utc load tz = (case load tz of Some l \<Rightarrow> l | None \<Rightarrow> utc_loc)"

definition dur_seconds :: "int \<Rightarrow> duration" where
  "dur_seconds n = wrap64 (n * second)"

definition normalizeOccurrenceTime :: "time \<Rightarrow> time" where
  "normalizeOccurrenceTime t = truncate_second t"

definition isSkippedOccurrence :: "time \<Rightarrow> time list \<Rightarrow> bool" where
  "isSkippedOccurrence target skipped \<longleftrightarrow>
    list_ex (\<lambda>c. normalizeOccurrenceTime c = normalizeOccurrenceTime target) skipped"

text \<open>The switch over the recurrence type; \<open>None\<close> is its \<^verbatim>\<open>default\<close> branch.\<close>

definition advance_occurrence :: "location \<Rightarrow> string \<Rightarrow> time \<Rightarrow> time option" where
  "advance_occurrence l rt t =
    (if rt = ''hourly'' then Some (t + hour)
     else if rt = ''daily'' then Some (add_date l t 0 1)
     else if rt = ''weekly'' then Some (add_date l t 0 7)
     else if rt = ''monthly'' then Some (add_date l t 1 0)
     else None)"

definition NextOccurrence ::
  "tz_database \<Rightarrow> time \<Rightarrow> string \<Rightarrow> string \<Rightarrow> time option \<Rightarrow> time res" where
  "NextOccurrence load current rt tz recurrenceEnd =
    (if rt = ''once'' then Inr zero_time
     else (case advance_occurrence (loc_or_utc load tz) rt current of
             None \<Rightarrow> Inl (''unknown recurrence type: '' @ rt)
           | Some nxt \<Rightarrow>
              (case recurrenceEnd of
                 Some e \<Rightarrow> if e < nxt then Inr zero_time else Inr nxt
               | None \<Rightarrow> Inr nxt)))"

fun next_included_loop ::
  "nat \<Rightarrow> tz_database \<Rightarrow> time \<Rightarrow> string \<Rightarrow> string \<Rightarrow> time option \<Rightarrow> time list \<Rightarrow> time res" where
  "next_included_loop 0 load base rt tz re skipped =
    Inl ''too many skipped occurrences while resolving next recurrence''"
| "next_included_loop (Suc n) load base rt tz re skipped =
    (case NextOccurrence load base rt tz re of
       Inl e \<Rightarrow> Inl e
     | Inr nxt \<Rightarrow>
        (if is_zero nxt then Inr nxt
         else if \<not> isSkippedOccurrence nxt skipped then Inr nxt
         else next_included_loop n load nxt rt tz re skipped))"

definition NextIncludedOccurrence ::
  "tz_database \<Rightarrow> time \<Rightarrow> string \<Rightarrow> string \<Rightarrow> time option \<Rightarrow> time list \<Rightarrow> time res" where
  "NextIncludedOccurrence load current rt tz re skipped =
    next_included_loop 100 load current rt tz re skipped"

record time_slot =
  ts_Start :: time
  ts_End :: time

definition past_end :: "time option \<Rightarrow> time \<Rightarrow> bool" where
  "past_end re t \<longleftrightarrow> (case re of Some e \<Rightarrow> e < t | None \<Rightarrow> False)"

definition slot_at :: "int \<Rightarrow> time \<Rightarrow> time_slot" where
  "slot_at durationS t = \<lparr>ts_Start = t, ts_End = t + dur_seconds durationS\<rparr>"

definition slot_included :: "int \<Rightarrow> time list \<Rightarrow> time \<Rightarrow> time \<Rightarrow> time \<Rightarrow> bool" where
  "slot_included durationS skipped rangeStart rangeEnd t \<longleftrightarrow>
    \<not> isSkippedOccurrence t skipped \<and> rangeStart < t + dur_seconds durationS \<and> t < rangeEnd"

fun expand_loop ::
  "nat \<Rightarrow> location \<Rightarrow> time \<Rightarrow> int \<Rightarrow> string \<Rightarrow> time option \<Rightarrow> time list \<Rightarrow> time \<Rightarrow> time \<Rightarrow> time_slot list" where
  "expand_loop 0 l current durationS rt re skipped rangeStart rangeEnd = []"
| "expand_loop (Suc n) l current durationS rt re skipped rangeStart rangeEnd =
    (if rangeEnd < current then []
     else if past_end re current then []
     else (let here = (if slot_included durationS skipped rangeStart rangeEnd current
                       then [slot_at durationS current] else [])
           in case advance_occurrence l rt current of
                None \<Rightarrow> here
              | Some nxt \<Rightarrow> here @ expand_loop n l nxt durationS rt re skipped rangeStart rangeEnd))"

definition ExpandOccurrences ::
  "tz_database \<Rightarrow> time \<Rightarrow> int \<Rightarrow> string \<Rightarrow> string \<Rightarrow> time option \<Rightarrow> time list \<Rightarrow> time \<Rightarrow> time \<Rightarrow> time_slot list" where
  "ExpandOccurrences load baseTime durationS rt tz re skipped rangeStart rangeEnd =
    (if rt = ''once'' then
       (if \<not> isSkippedOccurrence baseTime skipped \<and> baseTime < rangeEnd
           \<and> rangeStart < baseTime + dur_seconds durationS
        then [slot_at durationS baseTime] else [])
     else expand_loop 100 (loc_or_utc load tz) baseTime durationS rt re skipped rangeStart rangeEnd)"

subsection \<open>Steps are strictly later\<close>

lemma advance_later:
  assumes "offsets_within 86400 l" "advance_occurrence l rt t = Some u"
  shows "t < u"
  using assms add_date_days_later [of l 1 t] add_date_days_later [of l 7 t] add_date_month_later [of l t]
  by (auto simp: advance_occurrence_def split: if_splits)

lemma NextOccurrence_cases:
  assumes "NextOccurrence load t rt tz re = Inr u" "\<not> is_zero u"
  shows "advance_occurrence (loc_or_utc load tz) rt t = Some u" "\<not> past_end re u" "rt \<noteq> ''once''"
  using assms
  by (auto simp: NextOccurrence_def is_zero_def past_end_def split: if_splits option.splits)

lemma offsets_loc_or_utc:
  assumes "\<And>l. load tz = Some l \<Longrightarrow> offsets_within b l" "0 < b"
  shows "offsets_within b (loc_or_utc load tz)"
  using assms offsets_within_utc by (auto simp: loc_or_utc_def split: option.split)

lemma isSkippedOccurrence_iff:
  "isSkippedOccurrence t sk \<longleftrightarrow> (\<exists>c \<in> set sk. truncate_second c = truncate_second t)"
  by (simp add: isSkippedOccurrence_def normalizeOccurrenceTime_def list_ex_iff)

subsection \<open>Bounded search over occurrences\<close>

text \<open>The k-th iterate of a step that may fail or end (with the zero time).\<close>

fun occ_iter :: "(time \<Rightarrow> time res) \<Rightarrow> nat \<Rightarrow> time \<Rightarrow> time option" where
  "occ_iter step 0 t = Some t"
| "occ_iter step (Suc k) t =
    (case step t of
       Inl _ \<Rightarrow> None
     | Inr u \<Rightarrow> if is_zero u then None else occ_iter step k u)"

locale occurrence_search =
  fixes step :: "time \<Rightarrow> time res"
    and accept :: "time \<Rightarrow> bool"
    and search :: "nat \<Rightarrow> time \<Rightarrow> 'r"
    and r_err :: "string \<Rightarrow> 'r"
    and r_end :: 'r
    and r_found :: "time \<Rightarrow> 'r"
    and limit_err :: string
  assumes search_0: "search 0 t = r_err limit_err"
    and search_Suc: "search (Suc n) t =
      (case step t of
         Inl e \<Rightarrow> r_err e
       | Inr u \<Rightarrow> if is_zero u then r_end else if accept u then r_found u else search n u)"
    and r_err_found: "r_err e \<noteq> r_found u"
    and r_end_found: "\<not> is_zero u \<Longrightarrow> r_end \<noteq> r_found u"
    and r_found_inj: "r_found u = r_found v \<Longrightarrow> u = v"
begin

text \<open>The search finds exactly the first accepted iterate among the first \<open>n\<close>.\<close>

lemma found_iff:
  assumes "\<not> is_zero u"
  shows "search n t = r_found u \<longleftrightarrow>
    (\<exists>k. 0 < k \<and> k \<le> n \<and> occ_iter step k t = Some u \<and> accept u \<and>
      (\<forall>j v. 0 < j \<longrightarrow> j < k \<longrightarrow> occ_iter step j t = Some v \<longrightarrow> \<not> accept v))"
    (is "_ \<longleftrightarrow> ?R n t")
proof (induction n arbitrary: t)
  case 0
  then show ?case using search_0 r_err_found by simp
next
  case (Suc n)
  show ?case
  proof (cases "step t")
    case (Inl e)
    have "\<not> ?R (Suc n) t" using Inl by (auto simp: gr0_conv_Suc)
    with Inl show ?thesis using search_Suc r_err_found by simp
  next
    case (Inr w)
    show ?thesis
    proof (cases "is_zero w")
      case True
      have "\<not> ?R (Suc n) t" using Inr True by (auto simp: gr0_conv_Suc)
      with Inr True show ?thesis using search_Suc r_end_found [OF assms] by simp
    next
      case nz: False
      show ?thesis
      proof (cases "accept w")
        case True
        have "?R (Suc n) t \<longleftrightarrow> w = u"
        proof
          assume "?R (Suc n) t"
          then obtain k where k: "0 < k" "occ_iter step k t = Some u"
            and first: "\<And>j v. 0 < j \<Longrightarrow> j < k \<Longrightarrow> occ_iter step j t = Some v \<Longrightarrow> \<not> accept v" by blast
          have "\<not> 1 < k" using first [of 1 w] True Inr nz by auto
          with k(1) have "k = 1" by simp
          with k(2) Inr nz show "w = u" by simp
        next
          assume "w = u"
          with True Inr nz show "?R (Suc n) t" by (intro exI [of _ 1]) auto
        qed
        with Inr nz True show ?thesis using search_Suc r_found_inj by auto
      next
        case False
        have "?R (Suc n) t \<longleftrightarrow> ?R n w"
        proof
          assume "?R (Suc n) t"
          then obtain k where k: "0 < k" "k \<le> Suc n" "occ_iter step k t = Some u" "accept u"
            and first: "\<And>j v. 0 < j \<Longrightarrow> j < k \<Longrightarrow> occ_iter step j t = Some v \<Longrightarrow> \<not> accept v" by blast
          obtain k' where k': "k = Suc k'" using k(1) by (auto simp: gr0_conv_Suc)
          have "0 < k'" using k k' Inr nz False by (cases k') auto
          moreover have "\<not> accept v" if "0 < j" "j < k'" "occ_iter step j w = Some v" for j v
            using first [of "Suc j" v] that k' Inr nz by simp
          ultimately show "?R n w" using k k' Inr nz by (intro exI [of _ k']) auto
        next
          assume "?R n w"
          then obtain k where k: "0 < k" "k \<le> n" "occ_iter step k w = Some u" "accept u"
            and first: "\<And>j v. 0 < j \<Longrightarrow> j < k \<Longrightarrow> occ_iter step j w = Some v \<Longrightarrow> \<not> accept v" by blast
          have "\<not> accept v" if "0 < j" "j < Suc k" "occ_iter step j t = Some v" for j v
            using that first [of "j - 1" v] Inr nz False by (cases j; cases "j - 1") auto
          then show "?R (Suc n) t" using k Inr nz by (intro exI [of _ "Suc k"]) auto
        qed
        with Inr nz False show ?thesis using search_Suc Suc.IH [of w] by simp
      qed
    qed
  qed
qed

lemma found_accept:
  assumes "search n t = r_found u" "\<not> is_zero u"
  shows "accept u"
  using assms found_iff by blast

lemma found_later:
  assumes "search n t = r_found u" "\<not> is_zero u"
    and step_later: "\<And>x y. step x = Inr y \<Longrightarrow> \<not> is_zero y \<Longrightarrow> x < y"
  shows "t < u"
proof -
  have iter: "occ_iter step k t = Some v \<Longrightarrow> 0 < k \<Longrightarrow> t < v" for k t v
  proof (induction k arbitrary: t)
    case (Suc k)
    then obtain w where w: "step t = Inr w" "\<not> is_zero w" "occ_iter step k w = Some v"
      by (auto split: sum.splits if_splits)
    have "t < w" using w(1,2) by (rule step_later)
    moreover have "w \<le> v" using Suc.IH [OF w(3)] w(3) by (cases "k = 0") auto
    ultimately show ?case by linarith
  qed simp
  show ?thesis using assms(1,2) found_iff iter by blast
qed

end

lemma zero_not_found: "is_zero u \<longleftrightarrow> Inr u = (Inr zero_time :: time res)"
  by (simp add: is_zero_def)

interpretation included: occurrence_search
  "\<lambda>t. NextOccurrence load t rt tz re"
  "\<lambda>u. \<not> isSkippedOccurrence u skipped"
  "\<lambda>n t. next_included_loop n load t rt tz re skipped"
  Inl "Inr zero_time" Inr
  "''too many skipped occurrences while resolving next recurrence''"
  for load rt tz re skipped
  by unfold_locales (auto simp: is_zero_def split: sum.splits)

subsection \<open>Expansion\<close>

text \<open>The expansion as a declarative list: the iterates of the step, cut where the loop breaks, filtered.\<close>

fun occurrence_chain :: "nat \<Rightarrow> location \<Rightarrow> string \<Rightarrow> time \<Rightarrow> time list" where
  "occurrence_chain 0 l rt t = []"
| "occurrence_chain (Suc n) l rt t =
    t # (case advance_occurrence l rt t of None \<Rightarrow> [] | Some u \<Rightarrow> occurrence_chain n l rt u)"

lemma expand_loop_chain:
  "expand_loop n l t durationS rt re skipped rs r =
    map (slot_at durationS) (filter (slot_included durationS skipped rs r)
      (takeWhile (\<lambda>u. u \<le> r \<and> \<not> past_end re u) (occurrence_chain n l rt t)))"
  by (induction n arbitrary: t) (auto simp: Let_def split: option.split)

lemma length_occurrence_chain: "length (occurrence_chain n l rt t) \<le> n"
  by (induction n arbitrary: t) (auto split: option.split)

lemma occurrence_chain_ge:
  assumes "offsets_within 86400 l"
  shows "u \<in> set (occurrence_chain n l rt t) \<Longrightarrow> t \<le> u"
proof (induction n arbitrary: t)
  case (Suc n)
  show ?case
  proof (cases "advance_occurrence l rt t")
    case (Some w)
    then have "t < w" using advance_later [OF assms] by blast
    then show ?thesis using Suc Some by fastforce
  qed (use Suc in auto)
qed simp

lemma occurrence_chain_sorted:
  assumes "offsets_within 86400 l"
  shows "sorted_wrt (<) (occurrence_chain n l rt t)"
proof (induction n arbitrary: t)
  case (Suc n)
  show ?case
  proof (cases "advance_occurrence l rt t")
    case (Some w)
    have "t < u" if "u \<in> set (occurrence_chain n l rt w)" for u
      using occurrence_chain_ge [OF assms that] advance_later [OF assms Some] by linarith
    then show ?thesis using Suc Some by simp
  qed simp
qed simp

lemma takeWhile_sorted_filter:
  fixes xs :: "int list"
  assumes "sorted_wrt (<) xs" "\<And>x y. x < y \<Longrightarrow> P y \<Longrightarrow> P x"
  shows "set (takeWhile P xs) = {x \<in> set xs. P x}"
  using assms by (induction xs) auto

lemma takeWhile_sorted_wrt: "sorted_wrt R xs \<Longrightarrow> sorted_wrt R (takeWhile P xs)"
  by (metis sorted_wrt_append takeWhile_dropWhile_id)

lemma occurrence_chain_hourly:
  "u \<in> set (occurrence_chain n l ''hourly'' t) \<longleftrightarrow> (\<exists>k < n. u = t + int k * hour)"
proof (induction n arbitrary: t)
  case (Suc n)
  have "u \<in> set (occurrence_chain (Suc n) l ''hourly'' t) \<longleftrightarrow> u = t \<or> (\<exists>k < n. u = t + hour + int k * hour)"
    by (simp add: advance_occurrence_def Suc)
  also have "\<dots> \<longleftrightarrow> u = t + int 0 * hour \<or> (\<exists>k < n. u = t + int (Suc k) * hour)"
    by (simp add: algebra_simps)
  also have "\<dots> \<longleftrightarrow> (\<exists>k < Suc n. u = t + int k * hour)"
    by (subst Ex_less_Suc2) blast
  finally show ?case .
qed simp

lemma expand_chain:
  "rt \<noteq> ''once'' \<Longrightarrow> ExpandOccurrences load t d rt tz re skipped rs r =
    map (slot_at d) (filter (slot_included d skipped rs r)
      (takeWhile (\<lambda>u. u \<le> r \<and> \<not> past_end re u) (occurrence_chain 100 (loc_or_utc load tz) rt t)))"
  by (simp add: ExpandOccurrences_def expand_loop_chain)

lemma expand_set:
  assumes "offsets_within 86400 (loc_or_utc load tz)" "rt \<noteq> ''once''"
  shows "set (ExpandOccurrences load t d rt tz re skipped rs r) =
    slot_at d ` {u \<in> set (occurrence_chain 100 (loc_or_utc load tz) rt t).
      \<not> past_end re u \<and> \<not> isSkippedOccurrence u skipped \<and> rs < u + dur_seconds d \<and> u < r}"
proof -
  let ?c = "occurrence_chain 100 (loc_or_utc load tz) rt t"
  let ?P = "\<lambda>u. u \<le> r \<and> \<not> past_end re u"
  have "?P x" if "x < y" "?P y" for x y
    using that by (auto simp: past_end_def split: option.splits)
  then have tw: "set (takeWhile ?P ?c) = {x \<in> set ?c. ?P x}"
    by (rule takeWhile_sorted_filter [OF occurrence_chain_sorted [OF assms(1)]])
  have "set (filter (slot_included d skipped rs r) (takeWhile ?P ?c)) =
      {u \<in> set ?c. \<not> past_end re u \<and> \<not> isSkippedOccurrence u skipped \<and> rs < u + dur_seconds d \<and> u < r}"
    by (auto simp: set_filter tw slot_included_def)
  then show ?thesis unfolding expand_chain [OF assms(2)] set_map by simp
qed

lemma expand_sorted:
  assumes "offsets_within 86400 (loc_or_utc load tz)" "rt \<noteq> ''once''"
  shows "sorted_wrt (\<lambda>a b. ts_Start a < ts_Start b) (ExpandOccurrences load t d rt tz re skipped rs r)"
proof -
  have "sorted_wrt (<) (filter (slot_included d skipped rs r)
      (takeWhile (\<lambda>u. u \<le> r \<and> \<not> past_end re u) (occurrence_chain 100 (loc_or_utc load tz) rt t)))"
    by (intro sorted_wrt_filter takeWhile_sorted_wrt occurrence_chain_sorted assms)
  then show ?thesis unfolding expand_chain [OF assms(2)] sorted_wrt_map by (simp add: slot_at_def)
qed

subsection \<open>Properties\<close>

text \<open>
  C18. The next included occurrence is the first one, among the first hundred iterates of the recurrence
  step, that is not skipped; in particular a skipped occurrence is never returned.
\<close>

theorem next_included_is_first_unskipped:
  assumes "\<not> is_zero u"
  shows "NextIncludedOccurrence load t rt tz re skipped = Inr u \<longleftrightarrow>
    (\<exists>k. 0 < k \<and> k \<le> 100 \<and> occ_iter (\<lambda>x. NextOccurrence load x rt tz re) k t = Some u \<and>
      \<not> isSkippedOccurrence u skipped \<and>
      (\<forall>j v. 0 < j \<longrightarrow> j < k \<longrightarrow> occ_iter (\<lambda>x. NextOccurrence load x rt tz re) j t = Some v \<longrightarrow>
        isSkippedOccurrence v skipped))"
  unfolding NextIncludedOccurrence_def included.found_iff [OF assms] by simp

theorem next_included_is_first_unskipped_witness:
  "NextIncludedOccurrence (\<lambda>_. None) 0 ''daily'' ''UTC'' None [86400 * second] = Inr (172800 * second)"
proof -
  have "(\<exists>k. 0 < k \<and> k \<le> 100 \<and>
      occ_iter (\<lambda>x. NextOccurrence (\<lambda>_. None) x ''daily'' ''UTC'' None) k 0 = Some (172800 * second) \<and>
      \<not> isSkippedOccurrence (172800 * second) [86400 * second] \<and>
      (\<forall>j v. 0 < j \<longrightarrow> j < k \<longrightarrow> occ_iter (\<lambda>x. NextOccurrence (\<lambda>_. None) x ''daily'' ''UTC'' None) j 0 = Some v \<longrightarrow>
        isSkippedOccurrence v [86400 * second]))"
  proof (intro exI [of _ 2] conjI allI impI)
    fix j :: nat and v
    assume "0 < j" "j < 2" "occ_iter (\<lambda>x. NextOccurrence (\<lambda>_. None) x ''daily'' ''UTC'' None) j 0 = Some v"
    moreover from this have "j = 1" by simp
    ultimately show "isSkippedOccurrence v [86400 * second]"
      by (auto simp: NextOccurrence_def advance_occurrence_def loc_or_utc_def add_date_days_utc is_zero_def
          zero_time_def isSkippedOccurrence_iff)
  qed (simp_all add: numeral_2_eq_2 NextOccurrence_def advance_occurrence_def loc_or_utc_def add_date_days_utc
      is_zero_def zero_time_def isSkippedOccurrence_iff truncate_second_def)
  then show ?thesis
    by (subst next_included_is_first_unskipped) (simp_all add: is_zero_def zero_time_def)
qed

text \<open>
  C19. Where the offsets of the time zone differ by less than a day, the expansion of a recurring schedule
  is exact over its first hundred occurrences: its slots are those occurrences that are not skipped, not
  after the end of the recurrence, start before the end of the range and end after its start. They come
  in strictly increasing order of their starts.
\<close>

theorem expand_occurrences_exact:
  assumes "offsets_within 86400 (loc_or_utc load tz)" "rt \<noteq> ''once''"
  shows "set (ExpandOccurrences load t d rt tz re skipped rs r) =
      slot_at d ` {u \<in> set (occurrence_chain 100 (loc_or_utc load tz) rt t).
        \<not> past_end re u \<and> \<not> isSkippedOccurrence u skipped \<and> rs < u + dur_seconds d \<and> u < r} \<and>
    sorted_wrt (\<lambda>a b. ts_Start a < ts_Start b) (ExpandOccurrences load t d rt tz re skipped rs r)"
  using expand_set [OF assms] expand_sorted [OF assms] by blast

theorem expand_occurrences_exact_witness:
  "slot_at 60 (hour) \<in> set (ExpandOccurrences (\<lambda>_. None) 0 60 ''hourly'' ''UTC'' None [] 0 (2 * hour))"
proof -
  have "hour \<in> set (occurrence_chain 100 (loc_or_utc (\<lambda>_. None) ''UTC'') ''hourly'' 0)"
    by (auto simp: occurrence_chain_hourly intro!: exI [of _ "1 :: nat"])
  moreover have "0 < hour + dur_seconds 60" by (simp add: dur_seconds_def wrap64_def)
  ultimately show ?thesis
    using expand_occurrences_exact [of "\<lambda>_. None" "''UTC''" "''hourly''" 0 60 None "[]" 0 "2 * hour"]
    by (auto simp: loc_or_utc_def offsets_within_utc past_end_def isSkippedOccurrence_iff)
qed

text \<open>
  The expansion of an hourly schedule reaches less than a hundred hours past its next run: no slot
  starts at or after that horizon, whatever the requested range is.
\<close>

theorem expand_hourly_horizon:
  "\<forall>slot \<in> set (ExpandOccurrences load t d ''hourly'' tz re skipped rs r). ts_Start slot < t + 100 * hour"
proof
  fix slot
  assume "slot \<in> set (ExpandOccurrences load t d ''hourly'' tz re skipped rs r)"
  then obtain u where "u \<in> set (occurrence_chain 100 (loc_or_utc load tz) ''hourly'' t)" "ts_Start slot = u"
    by (auto simp: ExpandOccurrences_def expand_loop_chain slot_at_def dest: set_takeWhileD)
  then obtain k where "k < (100 :: nat)" "ts_Start slot = t + int k * hour"
    by (auto simp: occurrence_chain_hourly)
  then show "ts_Start slot < t + 100 * hour" by simp
qed

theorem expand_hourly_horizon_witness:
  "list_all (\<lambda>slot. ts_Start slot < 100 * hour)
    (ExpandOccurrences (\<lambda>_. None) 0 60 ''hourly'' ''UTC'' None [] 0 (200 * hour))"
  using expand_hourly_horizon [of "\<lambda>_. None" 0 60 "''UTC''" None "[]" 0 "200 * hour"] by (simp add: list_all_iff)

end
