(* ===== verification/ScheduleStore.thy ===== *)
theory ScheduleStore
  imports Recurrence
begin

text \<open>
  The operations of \<^verbatim>\<open>controller/internal/store/store.go\<close> on the tables \<^verbatim>\<open>scheduled_tests\<close> and
  \<^verbatim>\<open>schedule_executions\<close>.

  A table is the list of its rows, with the columns of the schema; a nullable column is an \<open>option\<close>,
  and a JSON column holds the value it encodes. A statement changes the rows that its \<^verbatim>\<open>WHERE\<close> clause
  selects; rows that tie in an \<^verbatim>\<open>ORDER BY\<close> come in table order. Any statement may fail: \<open>env_fault\<close> gives
  the error of the n-th statement, and a statement that fails changes nothing. The environment also
  has the clock (one reading per operation of the scheduler), the time-zone database and the next UUID.
  The precision of \<^verbatim>\<open>DATETIME\<close> columns (whole seconds) is not modelled.
\<close>

subsection \<open>Rows\<close>

record sched_row =
  c_id :: string
  c_name :: string
  c_project_name :: string
  c_url :: string
  c_mode :: string
  c_executor :: string
  c_stages :: "stage list option"
  c_vus :: int
  c_duration :: string
  c_rate :: int
  c_time_unit :: string
  c_pre_allocated_vus :: int
  c_max_vus :: int
  c_sleep_seconds :: "f64 option"
  c_script_content :: string
  c_config_content :: string
  c_http_method :: string
  c_content_type :: string
  c_payload_json :: "string option"
  c_payload_target_kib :: int
  c_auth_enabled :: bool
  c_auth_mode :: "string option"
  c_auth_token_url :: "string option"
  c_auth_client_id :: "string option"
  c_auth_client_secret_encrypted :: "string option"
  c_auth_client_auth_method :: string
  c_auth_refresh_skew_seconds :: int
  c_auth_secret_source :: "string option"
  c_auth_secret_configured :: bool
  c_scheduled_at :: time
  c_estimated_duration_s :: int
  c_timezone :: string
  c_recurrence_type :: string
  c_recurrence_rule :: string
  c_recurrence_end :: "time option"
  c_skipped_occurrences :: "time list option"
  c_status :: string
  c_paused :: bool
  c_user_id :: int
  c_username :: string
  c_created_at :: time
  c_updated_at :: time

record sched_db =
  db_schedules :: "sched_row list"
  db_executions :: "schedule_execution list"
  db_calls :: nat

record sched_env =
  env_fault :: "nat \<Rightarrow> string option"
  env_now :: time
  env_tz :: tz_database
  env_uuid :: string

subsection \<open>Defaults and nullable columns\<close>

definition defaultHTTPMethod :: "string \<Rightarrow> string" where
  "defaultHTTPMethod m = (if m = [] then ''GET'' else m)"

definition defaultContentType :: "string \<Rightarrow> string" where
  "defaultContentType c = (if c = [] then ''application/json'' else c)"

definition defaultAuthClientAuthMethod :: "string \<Rightarrow> string" where
  "defaultAuthClientAuthMethod m = (if m = [] then ''basic'' else m)"

definition defaultAuthRefreshSkewSeconds :: "int \<Rightarrow> int" where
  "defaultAuthRefreshSkewSeconds n = (if n \<le> 0 then 30 else n)"

definition nullString :: "string \<Rightarrow> string option" where
  "nullString s = (if s = [] then None else Some s)"

definition authConfigured :: "auth_config \<Rightarrow> bool" where
  "authConfigured cfg \<longleftrightarrow> ac_SecretConfigured cfg \<or> ac_ClientSecretEncrypted cfg \<noteq> []"

definition encodeSkippedOccurrences :: "time list \<Rightarrow> time list option" where
  "encodeSkippedOccurrences ts = (if ts = [] then None else Some ts)"

definition decodeSkippedOccurrences :: "time list option \<Rightarrow> time list" where
  "decodeSkippedOccurrences c = (case c of None \<Rightarrow> [] | Some ts \<Rightarrow> ts)"

text \<open>A nullable text column read into a string field that is empty before.\<close>

definition null_to_string :: "string option \<Rightarrow> string" where
  "null_to_string c = (case c of None \<Rightarrow> [] | Some s \<Rightarrow> s)"

lemma null_to_string_nullString [simp]: "null_to_string (nullString s) = s"
  by (simp add: null_to_string_def nullString_def)

lemma decode_encode_skipped [simp]: "decodeSkippedOccurrences (encodeSkippedOccurrences ts) = ts"
  by (simp add: decodeSkippedOccurrences_def encodeSkippedOccurrences_def)

text \<open>\<^verbatim>\<open>applyAuthConfig\<close> sets every field of \<^verbatim>\<open>cfg\<close>, keeping the old value under a NULL.\<close>

definition keep_null :: "string \<Rightarrow> string option \<Rightarrow> string" where
  "keep_null old c = (case c of None \<Rightarrow> old | Some s \<Rightarrow> s)"

definition applyAuthConfig ::
  "auth_config \<Rightarrow> bool \<Rightarrow> string option \<Rightarrow> string option \<Rightarrow> string option \<Rightarrow> string option \<Rightarrow> string \<Rightarrow> int \<Rightarrow>
   string option \<Rightarrow> bool \<Rightarrow> auth_config" where
  "applyAuthConfig cfg enabled mode tokenURL clientID clientSecretEncrypted clientAuthMethod refreshSkew
     secretSource secretConfigured =
    (let sec = keep_null (ac_ClientSecretEncrypted cfg) clientSecretEncrypted
     in \<lparr>ac_Enabled = enabled, ac_Mode = keep_null (ac_Mode cfg) mode,
         ac_TokenURL = keep_null (ac_TokenURL cfg) tokenURL,
         ac_ClientID = keep_null (ac_ClientID cfg) clientID,
         ac_ClientAuthMethod = clientAuthMethod, ac_RefreshSkewSeconds = refreshSkew,
         ac_SecretSource = keep_null (ac_SecretSource cfg) secretSource,
         ac_SecretConfigured = (secretConfigured \<or> sec \<noteq> []),
         ac_ClientSecretEncrypted = sec\<rparr>)"

lemma keep_null_nullString [simp]: "keep_null [] (nullString s) = s"
  by (simp add: keep_null_def nullString_def)

definition scanScheduledTest :: "sched_row \<Rightarrow> scheduled_test" where
  "scanScheduledTest r =
    \<lparr>st_ID = c_id r, st_Name = c_name r, st_ProjectName = c_project_name r, st_URL = c_url r,
     st_Mode = c_mode r, st_Executor = c_executor r,
     st_Stages = (case c_stages r of None \<Rightarrow> [] | Some s \<Rightarrow> s),
     st_VUs = c_vus r, st_Duration = c_duration r, st_Rate = c_rate r, st_TimeUnit = c_time_unit r,
     st_PreAllocatedVUs = c_pre_allocated_vus r, st_MaxVUs = c_max_vus r,
     st_SleepSeconds = c_sleep_seconds r, st_ScriptContent = c_script_content r,
     st_ConfigContent = c_config_content r, st_HTTPMethod = c_http_method r,
     st_ContentType = c_content_type r, st_PayloadJSON = null_to_string (c_payload_json r),
     st_PayloadTargetKiB = c_payload_target_kib r,
     st_AuthConfig =
       applyAuthConfig
         (zero_auth_config\<lparr>ac_Enabled := c_auth_enabled r,
            ac_ClientAuthMethod := c_auth_client_auth_method r,
            ac_RefreshSkewSeconds := c_auth_refresh_skew_seconds r,
            ac_SecretConfigured := c_auth_secret_configured r\<rparr>)
         (c_auth_enabled r) (c_auth_mode r) (c_auth_token_url r) (c_auth_client_id r)
         (c_auth_client_secret_encrypted r) (c_auth_client_auth_method r)
         (c_auth_refresh_skew_seconds r) (c_auth_secret_source r) (c_auth_secret_configured r),
     st_ScheduledAt = c_scheduled_at r, st_EstimatedDurationS = c_estimated_duration_s r,
     st_Timezone = c_timezone r, st_RecurrenceType = c_recurrence_type r,
     st_RecurrenceRule = c_recurrence_rule r, st_RecurrenceEnd = c_recurrence_end r,
     st_SkippedOccurrences = decodeSkippedOccurrences (c_skipped_occurrences r),
     st_Status = c_status r, st_Paused = c_paused r, st_UserID = c_user_id r,
     st_Username = c_username r, st_CreatedAt = c_created_at r, st_UpdatedAt = c_updated_at r\<rparr>"

text \<open>The columns that \<^verbatim>\<open>INSERT\<close> and \<^verbatim>\<open>UPDATE\<close> write, and those they leave to the table.\<close>

definition row_of :: "scheduled_test \<Rightarrow> int \<Rightarrow> string \<Rightarrow> time \<Rightarrow> time \<Rightarrow> sched_row" where
  "row_of s uid uname created updated =
    \<lparr>c_id = st_ID s, c_name = st_Name s, c_project_name = st_ProjectName s, c_url = st_URL s,
     c_mode = st_Mode s, c_executor = st_Executor s, c_stages = Some (st_Stages s), c_vus = st_VUs s,
     c_duration = st_Duration s, c_rate = st_Rate s, c_time_unit = st_TimeUnit s,
     c_pre_allocated_vus = st_PreAllocatedVUs s, c_max_vus = st_MaxVUs s,
     c_sleep_seconds = st_SleepSeconds s, c_script_content = st_ScriptContent s,
     c_config_content = st_ConfigContent s, c_http_method = defaultHTTPMethod (st_HTTPMethod s),
     c_content_type = defaultContentType (st_ContentType s),
     c_payload_json = nullString (st_PayloadJSON s), c_payload_target_kib = st_PayloadTargetKiB s,
     c_auth_enabled = ac_Enabled (st_AuthConfig s), c_auth_mode = nullString (ac_Mode (st_AuthConfig s)),
     c_auth_token_url = nullString (ac_TokenURL (st_AuthConfig s)),
     c_auth_client_id = nullString (ac_ClientID (st_AuthConfig s)),
     c_auth_client_secret_encrypted = nullString (ac_ClientSecretEncrypted (st_AuthConfig s)),
     c_auth_client_auth_method = defaultAuthClientAuthMethod (ac_ClientAuthMethod (st_AuthConfig s)),
     c_auth_refresh_skew_seconds = defaultAuthRefreshSkewSeconds (ac_RefreshSkewSeconds (st_AuthConfig s)),
     c_auth_secret_source = nullString (ac_SecretSource (st_AuthConfig s)),
     c_auth_secret_configured = authConfigured (st_AuthConfig s),
     c_scheduled_at = st_ScheduledAt s, c_estimated_duration_s = st_EstimatedDurationS s,
     c_timezone = st_Timezone s, c_recurrence_type = st_RecurrenceType s,
     c_recurrence_rule = st_RecurrenceRule s, c_recurrence_end = st_RecurrenceEnd s,
     c_skipped_occurrences = encodeSkippedOccurrences (st_SkippedOccurrences s),
     c_status = st_Status s, c_paused = st_Paused s, c_user_id = uid, c_username = uname,
     c_created_at = created, c_updated_at = updated\<rparr>"

text \<open>What reading back a written schedule gives: the defaults filled in.\<close>

definition with_defaults :: "scheduled_test \<Rightarrow> scheduled_test" where
  "with_defaults s =
    s\<lparr>st_HTTPMethod := defaultHTTPMethod (st_HTTPMethod s),
      st_ContentType := defaultContentType (st_ContentType s),
      st_AuthConfig := (st_AuthConfig s)
        \<lparr>ac_ClientAuthMethod := defaultAuthClientAuthMethod (ac_ClientAuthMethod (st_AuthConfig s)),
         ac_RefreshSkewSeconds := defaultAuthRefreshSkewSeconds (ac_RefreshSkewSeconds (st_AuthConfig s)),
         ac_SecretConfigured := authConfigured (st_AuthConfig s)\<rparr>\<rparr>"

lemma scan_row_of:
  "scanScheduledTest (row_of s (st_UserID s) (st_Username s) (st_CreatedAt s) (st_UpdatedAt s)) = with_defaults s"
proof -
  obtain e m u i cm sk ss sc enc where
    auth: "st_AuthConfig s = \<lparr>ac_Enabled = e, ac_Mode = m, ac_TokenURL = u, ac_ClientID = i,
      ac_ClientAuthMethod = cm, ac_RefreshSkewSeconds = sk, ac_SecretSource = ss,
      ac_SecretConfigured = sc, ac_ClientSecretEncrypted = enc\<rparr>"
    by (cases "st_AuthConfig s") auto
  show ?thesis
    by (rule scheduled_test.equality)
      (auto simp: scanScheduledTest_def row_of_def with_defaults_def applyAuthConfig_def auth
        zero_auth_config_def authConfigured_def Let_def)
qed

subsection \<open>Statements\<close>

definition db_call :: "sched_env \<Rightarrow> (sched_db \<Rightarrow> 'a res \<times> sched_db) \<Rightarrow> sched_db \<Rightarrow> 'a res \<times> sched_db" where
  "db_call env f db =
    (let db' = db\<lparr>db_calls := Suc (db_calls db)\<rparr>
     in case env_fault env (db_calls db) of
          Some e \<Rightarrow> (Inl e, db')
        | None \<Rightarrow> f db')"

definition stamp :: "sched_env \<Rightarrow> time" where
  "stamp env = truncate_second (env_now env)"

text \<open>The column \<^verbatim>\<open>updated_at\<close> changes with a row whose other columns change.\<close>

definition touch :: "sched_env \<Rightarrow> sched_row \<Rightarrow> sched_row \<Rightarrow> sched_row" where
  "touch env old r = (if r = old then old else r\<lparr>c_updated_at := stamp env\<rparr>)"

definition update_schedules ::
  "sched_env \<Rightarrow> (sched_row \<Rightarrow> bool) \<Rightarrow> (sched_row \<Rightarrow> sched_row) \<Rightarrow> sched_db \<Rightarrow> sched_db" where
  "update_schedules env wh f db =
    db\<lparr>db_schedules := map (\<lambda>r. if wh r then touch env r (f r) else r) (db_schedules db)\<rparr>"

definition update_executions ::
  "(schedule_execution \<Rightarrow> bool) \<Rightarrow> (schedule_execution \<Rightarrow> schedule_execution) \<Rightarrow> sched_db \<Rightarrow> sched_db" where
  "update_executions wh f db =
    db\<lparr>db_executions := map (\<lambda>x. if wh x then f x else x) (db_executions db)\<rparr>"

subsection \<open>Schedules\<close>

definition CreateSchedule :: "sched_env \<Rightarrow> scheduled_test \<Rightarrow> sched_db \<Rightarrow> unit res \<times> sched_db" where
  "CreateSchedule env s =
    db_call env (\<lambda>db.
      if st_ID s \<in> c_id ` set (db_schedules db)
      then (Inl (''Duplicate entry '' @ st_ID s), db)
      else (Inr (), db\<lparr>db_schedules := db_schedules db @
              [row_of s (st_UserID s) (st_Username s) (stamp env) (stamp env)]\<rparr>))"

definition GetSchedule :: "sched_env \<Rightarrow> string \<Rightarrow> sched_db \<Rightarrow> scheduled_test option res \<times> sched_db" where
  "GetSchedule env i db =
    (case db_call env (\<lambda>db. (Inr (map_option scanScheduledTest (find (\<lambda>r. c_id r = i) (db_schedules db))), db)) db of
       (r, db') \<Rightarrow> (wrap_err ''get schedule'' r, db'))"

definition ListSchedules :: "sched_env \<Rightarrow> sched_db \<Rightarrow> scheduled_test list res \<times> sched_db" where
  "ListSchedules env db =
    (case db_call env (\<lambda>db. (Inr (map scanScheduledTest (sort_key c_scheduled_at (db_schedules db))), db)) db of
       (r, db') \<Rightarrow> (wrap_err ''list schedules'' r, db'))"

definition UpdateSchedule :: "sched_env \<Rightarrow> scheduled_test \<Rightarrow> sched_db \<Rightarrow> unit res \<times> sched_db" where
  "UpdateSchedule env s =
    db_call env (\<lambda>db. (Inr (),
      update_schedules env (\<lambda>r. c_id r = st_ID s)
        (\<lambda>r. row_of s (c_user_id r) (c_username r) (c_created_at r) (c_updated_at r)) db))"

definition UpdateScheduleStatus :: "sched_env \<Rightarrow> string \<Rightarrow> string \<Rightarrow> sched_db \<Rightarrow> unit res \<times> sched_db" where
  "UpdateScheduleStatus env i status =
    db_call env (\<lambda>db. (Inr (), update_schedules env (\<lambda>r. c_id r = i) (\<lambda>r. r\<lparr>c_status := status\<rparr>) db))"

definition UpdateScheduleNextRun ::
  "sched_env \<Rightarrow> string \<Rightarrow> time \<Rightarrow> string \<Rightarrow> sched_db \<Rightarrow> unit res \<times> sched_db" where
  "UpdateScheduleNextRun env i nextAt status =
    db_call env (\<lambda>db. (Inr (),
      update_schedules env (\<lambda>r. c_id r = i) (\<lambda>r. r\<lparr>c_scheduled_at := nextAt, c_status := status\<rparr>) db))"

definition PauseSchedule :: "sched_env \<Rightarrow> string \<Rightarrow> bool \<Rightarrow> sched_db \<Rightarrow> unit res \<times> sched_db" where
  "PauseSchedule env i paused =
    db_call env (\<lambda>db. (Inr (), update_schedules env (\<lambda>r. c_id r = i) (\<lambda>r. r\<lparr>c_paused := paused\<rparr>) db))"

text \<open>The executions of a schedule go with it (\<^verbatim>\<open>ON DELETE CASCADE\<close>).\<close>

definition DeleteSchedule :: "sched_env \<Rightarrow> string \<Rightarrow> sched_db \<Rightarrow> unit res \<times> sched_db" where
  "DeleteSchedule env i =
    db_call env (\<lambda>db. (Inr (),
      db\<lparr>db_schedules := filter (\<lambda>r. c_id r \<noteq> i) (db_schedules db),
         db_executions := filter (\<lambda>x. ex_ScheduleID x \<noteq> i) (db_executions db)\<rparr>))"

definition is_due :: "time \<Rightarrow> sched_row \<Rightarrow> bool" where
  "is_due now r \<longleftrightarrow>
    c_status r = ''scheduled'' \<and> \<not> c_paused r \<and> c_scheduled_at r \<le> truncate_second now + 15 * second"

definition GetDueSchedule :: "sched_env \<Rightarrow> sched_db \<Rightarrow> scheduled_test option res \<times> sched_db" where
  "GetDueSchedule env db =
    (case db_call env (\<lambda>db.
        (Inr (case sort_key c_scheduled_at (filter (is_due (env_now env)) (db_schedules db)) of
                [] \<Rightarrow> None
              | r # _ \<Rightarrow> Some (scanScheduledTest r)), db)) db of
       (r, db') \<Rightarrow> (wrap_err ''get due schedule'' r, db'))"

text \<open>The two queries for overlap detection read a part of the columns; the other fields stay zero.\<close>

definition scan_overlap :: "sched_row \<Rightarrow> scheduled_test" where
  "scan_overlap r =
    zero_scheduled_test
      \<lparr>st_ID := c_id r, st_Name := c_name r, st_ProjectName := c_project_name r,
       st_ScheduledAt := c_scheduled_at r, st_EstimatedDurationS := c_estimated_duration_s r,
       st_RecurrenceType := c_recurrence_type r, st_Status := c_status r,
       st_Username := c_username r, st_UserID := c_user_id r\<rparr>"

definition overlaps_slot :: "time \<Rightarrow> time \<Rightarrow> string \<Rightarrow> sched_row \<Rightarrow> bool" where
  "overlaps_slot start fin excludeID r \<longleftrightarrow>
    c_status r \<in> {''scheduled'', ''running''} \<and> \<not> c_paused r \<and> c_id r \<noteq> excludeID \<and>
    c_scheduled_at r < fin \<and> start < c_scheduled_at r + c_estimated_duration_s r * second"

definition GetOverlappingSchedules ::
  "sched_env \<Rightarrow> time \<Rightarrow> time \<Rightarrow> string \<Rightarrow> sched_db \<Rightarrow> scheduled_test list res \<times> sched_db" where
  "GetOverlappingSchedules env start fin excludeID db =
    (case db_call env (\<lambda>db.
        (Inr (map scan_overlap (sort_key c_scheduled_at (filter (overlaps_slot start fin excludeID) (db_schedules db)))), db)) db of
       (r, db') \<Rightarrow> (wrap_err ''get overlapping'' r, db'))"

definition scanRecurringSchedule :: "sched_row \<Rightarrow> scheduled_test" where
  "scanRecurringSchedule r =
    zero_scheduled_test
      \<lparr>st_ID := c_id r, st_Name := c_name r, st_ProjectName := c_project_name r,
       st_ScheduledAt := c_scheduled_at r, st_EstimatedDurationS := c_estimated_duration_s r,
       st_Timezone := c_timezone r, st_RecurrenceType := c_recurrence_type r,
       st_RecurrenceRule := c_recurrence_rule r, st_RecurrenceEnd := c_recurrence_end r,
       st_SkippedOccurrences := decodeSkippedOccurrences (c_skipped_occurrences r),
       st_Status := c_status r, st_Username := c_username r, st_UserID := c_user_id r\<rparr>"

definition is_recurring :: "sched_row \<Rightarrow> bool" where
  "is_recurring r \<longleftrightarrow> c_status r = ''scheduled'' \<and> \<not> c_paused r \<and> c_recurrence_type r \<noteq> ''once''"

definition GetRecurringSchedules :: "sched_env \<Rightarrow> sched_db \<Rightarrow> scheduled_test list res \<times> sched_db" where
  "GetRecurringSchedules env db =
    (case db_call env (\<lambda>db.
        (Inr (map scanRecurringSchedule (sort_key c_scheduled_at (filter is_recurring (db_schedules db)))), db)) db of
       (r, db') \<Rightarrow> (wrap_err ''get recurring'' r, db'))"

subsection \<open>Executions\<close>

definition CreateExecution :: "sched_env \<Rightarrow> schedule_execution \<Rightarrow> sched_db \<Rightarrow> unit res \<times> sched_db" where
  "CreateExecution env x =
    db_call env (\<lambda>db.
      if ex_ID x \<in> ex_ID ` set (db_executions db)
      then (Inl (''Duplicate entry '' @ ex_ID x), db)
      else if ex_ScheduleID x \<notin> c_id ` set (db_schedules db)
      then (Inl ''Cannot add or update a child row: a foreign key constraint fails'', db)
      else (Inr (), db\<lparr>db_executions := db_executions db @ [x\<lparr>ex_CreatedAt := stamp env\<rparr>]\<rparr>))"

definition UpdateExecution ::
  "sched_env \<Rightarrow> string \<Rightarrow> string \<Rightarrow> string option \<Rightarrow> time option \<Rightarrow> time option \<Rightarrow> string option \<Rightarrow> string option \<Rightarrow>
   sched_db \<Rightarrow> unit res \<times> sched_db" where
  "UpdateExecution env i status loadTestID startedAt endedAt errMsg errDetail =
    db_call env (\<lambda>db. (Inr (),
      update_executions (\<lambda>x. ex_ID x = i)
        (\<lambda>x. x\<lparr>ex_Status := status, ex_LoadTestID := loadTestID, ex_StartedAt := startedAt,
               ex_EndedAt := endedAt, ex_ErrorMessage := errMsg, ex_ErrorDetail := errDetail\<rparr>) db))"

text \<open>Newest first: a stable sort by descending creation time.\<close>

definition executions_of :: "string \<Rightarrow> sched_db \<Rightarrow> schedule_execution list" where
  "executions_of i db = sort_key (\<lambda>x. - ex_CreatedAt x) (filter (\<lambda>x. ex_ScheduleID x = i) (db_executions db))"

definition ListExecutions :: "sched_env \<Rightarrow> string \<Rightarrow> sched_db \<Rightarrow> schedule_execution list res \<times> sched_db" where
  "ListExecutions env i db =
    (case db_call env (\<lambda>db. (Inr (take 50 (executions_of i db)), db)) db of
       (r, db') \<Rightarrow> (wrap_err ''list executions'' r, db'))"

definition CountScheduleExecutions :: "sched_env \<Rightarrow> string \<Rightarrow> sched_db \<Rightarrow> int res \<times> sched_db" where
  "CountScheduleExecutions env i =
    db_call env (\<lambda>db. (Inr (int (length (filter (\<lambda>x. ex_ScheduleID x = i) (db_executions db)))), db))"

definition consecutive_failures :: "string \<Rightarrow> sched_db \<Rightarrow> nat" where
  "consecutive_failures i db =
    length (takeWhile (\<lambda>x. ex_Status x = ''failed'') (take 10 (executions_of i db)))"

definition CountConsecutiveFailures :: "sched_env \<Rightarrow> string \<Rightarrow> sched_db \<Rightarrow> int res \<times> sched_db" where
  "CountConsecutiveFailures env i = db_call env (\<lambda>db. (Inr (int (consecutive_failures i db)), db))"

definition interrupted_message :: string where
  "interrupted_message =
    ''controller restart '' @ map char_of [0xE2 :: nat, 0x80, 0x94] @ '' execution interrupted''"

definition is_stale_execution :: "schedule_execution \<Rightarrow> bool" where
  "is_stale_execution x \<longleftrightarrow> ex_Status x \<in> {''running'', ''pending''}"

definition MarkStaleScheduleExecutions :: "sched_env \<Rightarrow> sched_db \<Rightarrow> int res \<times> sched_db" where
  "MarkStaleScheduleExecutions env db =
    (case db_call env (\<lambda>db.
        (Inr (int (length (filter is_stale_execution (db_executions db)))),
         update_executions is_stale_execution
           (\<lambda>x. x\<lparr>ex_Status := ''failed'', ex_ErrorMessage := Some interrupted_message\<rparr>) db)) db of
       (r, db') \<Rightarrow> (wrap_err ''mark stale executions'' r, db'))"

definition ResetStaleRunningSchedules :: "sched_env \<Rightarrow> sched_db \<Rightarrow> int res \<times> sched_db" where
  "ResetStaleRunningSchedules env db =
    (case db_call env (\<lambda>db.
        (Inr (int (length (filter (\<lambda>r. c_status r = ''running'') (db_schedules db)))),
         update_schedules env (\<lambda>r. c_status r = ''running'') (\<lambda>r. r\<lparr>c_status := ''scheduled''\<rparr>) db)) db of
       (r, db') \<Rightarrow> (wrap_err ''reset stale schedules'' r, db'))"

subsection \<open>Updates of a keyed table\<close>

text \<open>
  What the clients of the store use of a table: an update by a condition changes the selected rows
  only (up to \<open>eff\<close>, what the table adds to an update) and keeps the keys when the update does.
\<close>

locale keyed_table =
  fixes key :: "'r \<Rightarrow> string"
    and rows :: "'db \<Rightarrow> 'r list"
    and upd :: "('r \<Rightarrow> bool) \<Rightarrow> ('r \<Rightarrow> 'r) \<Rightarrow> 'db \<Rightarrow> 'db"
    and eff :: "('r \<Rightarrow> 'r) \<Rightarrow> 'r \<Rightarrow> 'r"
  assumes rows_upd: "rows (upd wh f db) = map (\<lambda>r. if wh r then eff f r else r) (rows db)"
    and key_eff: "key (f r) = key r \<Longrightarrow> key (eff f r) = key r"
begin

lemma keys_upd:
  assumes "\<And>r. wh r \<Longrightarrow> key (f r) = key r"
  shows "map key (rows (upd wh f db)) = map key (rows db)"
  using assms key_eff by (auto simp: rows_upd)

lemma find_upd:
  assumes "\<And>r. key (f r) = key r"
  shows "find (\<lambda>r. key r = i) (rows (upd (\<lambda>r. key r = j) f db)) =
    map_option (\<lambda>r. if key r = j then eff f r else r) (find (\<lambda>r. key r = i) (rows db))"
proof -
  have "find (\<lambda>r. key r = i) (map (\<lambda>r. if key r = j then eff f r else r) rs) =
    map_option (\<lambda>r. if key r = j then eff f r else r) (find (\<lambda>r. key r = i) rs)" for rs
    using assms key_eff by (induction rs) auto
  then show ?thesis by (simp only: rows_upd)
qed

lemma upd_none:
  assumes "\<And>r. r \<in> set (rows db) \<Longrightarrow> \<not> wh r"
  shows "rows (upd wh f db) = rows db"
  using assms by (auto simp: rows_upd intro: map_idI)

end

lemma touch_accessors [simp]:
  "c_status (touch env r r') = c_status r'"
  "c_paused (touch env r r') = c_paused r'"
  "c_scheduled_at (touch env r r') = c_scheduled_at r'"
  "c_recurrence_type (touch env r r') = c_recurrence_type r'"
  "c_recurrence_end (touch env r r') = c_recurrence_end r'"
  "c_timezone (touch env r r') = c_timezone r'"
  "c_skipped_occurrences (touch env r r') = c_skipped_occurrences r'"
  "c_id (touch env r r') = c_id r'"
  by (simp_all add: touch_def)

interpretation schedules: keyed_table c_id db_schedules "update_schedules env" "\<lambda>f r. touch env r (f r)"
  for env
  by unfold_locales (simp_all add: update_schedules_def)

interpretation executions: keyed_table ex_ID db_executions update_executions "\<lambda>f. f"
  by unfold_locales (simp_all add: update_executions_def)

lemma update_schedules_simps [simp]:
  "db_executions (update_schedules env wh f db) = db_executions db"
  "db_calls (update_schedules env wh f db) = db_calls db"
  by (simp_all add: update_schedules_def)

lemma update_executions_simps [simp]:
  "db_schedules (update_executions wh f db) = db_schedules db"
  "db_calls (update_executions wh f db) = db_calls db"
  by (simp_all add: update_executions_def)

lemma scan_simps [simp]:
  "st_ID (scanScheduledTest r) = c_id r"
  "st_Status (scanScheduledTest r) = c_status r"
  "st_Paused (scanScheduledTest r) = c_paused r"
  "st_ScheduledAt (scanScheduledTest r) = c_scheduled_at r"
  "st_RecurrenceType (scanScheduledTest r) = c_recurrence_type r"
  "st_Timezone (scanScheduledTest r) = c_timezone r"
  "st_RecurrenceEnd (scanScheduledTest r) = c_recurrence_end r"
  "st_SkippedOccurrences (scanScheduledTest r) = decodeSkippedOccurrences (c_skipped_occurrences r)"
  by (simp_all add: scanScheduledTest_def)

subsection \<open>Integrity\<close>

definition wf_db :: "sched_db \<Rightarrow> bool" where
  "wf_db db \<longleftrightarrow>
    distinct (map c_id (db_schedules db)) \<and> distinct (map ex_ID (db_executions db)) \<and>
    (\<forall>x \<in> set (db_executions db). ex_ScheduleID x \<in> set (map c_id (db_schedules db)))"

text \<open>A statement preserves a property of the database when its effect does and the call counter is irrelevant.\<close>

lemma db_call_preserves:
  assumes "P db" "\<And>d n. P d \<Longrightarrow> P (d\<lparr>db_calls := n\<rparr>)" "\<And>d. P d \<Longrightarrow> P (snd (f d))"
  shows "P (snd (db_call env f db))"
  using assms by (auto simp: db_call_def Let_def split: option.split)

lemma wf_db_calls [simp]: "wf_db (d\<lparr>db_calls := n\<rparr>) = wf_db d"
  by (simp add: wf_db_def)

lemma wf_update_schedules:
  assumes "wf_db d" "\<And>r. wh r \<Longrightarrow> c_id (f r) = c_id r"
  shows "wf_db (update_schedules env wh f d)"
proof -
  have "map c_id (db_schedules (update_schedules env wh f d)) = map c_id (db_schedules d)"
    using assms(2) by (rule schedules.keys_upd)
  then show ?thesis using assms(1) unfolding wf_db_def by simp
qed

lemma wf_update_executions:
  assumes "wf_db d" "\<And>x. wh x \<Longrightarrow> ex_ID (f x) = ex_ID x \<and> ex_ScheduleID (f x) = ex_ScheduleID x"
  shows "wf_db (update_executions wh f d)"
proof -
  have "map ex_ID (db_executions (update_executions wh f d)) = map ex_ID (db_executions d)"
    using assms(2) by (intro executions.keys_upd) blast
  moreover have "ex_ScheduleID ` set (db_executions (update_executions wh f d)) \<subseteq> ex_ScheduleID ` set (db_executions d)"
    using assms(2) by (auto simp: executions.rows_upd)
  ultimately show ?thesis using assms(1) unfolding wf_db_def by auto
qed

lemmas db_ops = CreateSchedule_def GetSchedule_def ListSchedules_def UpdateSchedule_def
  UpdateScheduleStatus_def UpdateScheduleNextRun_def PauseSchedule_def DeleteSchedule_def
  GetDueSchedule_def GetOverlappingSchedules_def GetRecurringSchedules_def CreateExecution_def
  UpdateExecution_def ListExecutions_def CountScheduleExecutions_def CountConsecutiveFailures_def
  MarkStaleScheduleExecutions_def ResetStaleRunningSchedules_def

lemma snd_case_pair: "snd (case p of (a, b) \<Rightarrow> (f a, b)) = snd p"
  by (cases p) simp

lemma wf_append_schedule:
  assumes "wf_db d" "st_ID s \<notin> c_id ` set (db_schedules d)"
  shows "wf_db (d\<lparr>db_schedules := db_schedules d @ [row_of s u n a b]\<rparr>)"
  using assms by (auto simp: wf_db_def row_of_def)

lemma wf_append_execution:
  assumes "wf_db d" "ex_ID x \<notin> ex_ID ` set (db_executions d)" "ex_ScheduleID x \<in> c_id ` set (db_schedules d)"
  shows "wf_db (d\<lparr>db_executions := db_executions d @ [x\<lparr>ex_CreatedAt := t\<rparr>]\<rparr>)"
  using assms by (auto simp: wf_db_def)

lemma wf_delete_schedule:
  assumes "wf_db d"
  shows "wf_db (d\<lparr>db_schedules := filter (\<lambda>r. c_id r \<noteq> i) (db_schedules d),
    db_executions := filter (\<lambda>x. ex_ScheduleID x \<noteq> i) (db_executions d)\<rparr>)"
  using assms by (auto simp: wf_db_def distinct_map intro: inj_on_subset)

lemmas wf_intros = db_call_preserves [where P = wf_db] wf_update_schedules wf_update_executions
  wf_append_schedule wf_append_execution wf_delete_schedule

lemma wf_CreateSchedule: "wf_db db \<Longrightarrow> wf_db (snd (CreateSchedule env s db))"
  unfolding CreateSchedule_def by (intro wf_intros) (auto intro: wf_append_schedule)

lemma wf_UpdateSchedule: "wf_db db \<Longrightarrow> wf_db (snd (UpdateSchedule env s db))"
  unfolding UpdateSchedule_def by (intro wf_intros) (auto intro!: wf_update_schedules simp: row_of_def)

lemma wf_UpdateScheduleStatus: "wf_db db \<Longrightarrow> wf_db (snd (UpdateScheduleStatus env i s db))"
  unfolding UpdateScheduleStatus_def by (intro wf_intros) (auto intro!: wf_update_schedules)

lemma wf_UpdateScheduleNextRun: "wf_db db \<Longrightarrow> wf_db (snd (UpdateScheduleNextRun env i t s db))"
  unfolding UpdateScheduleNextRun_def by (intro wf_intros) (auto intro!: wf_update_schedules)

lemma wf_PauseSchedule: "wf_db db \<Longrightarrow> wf_db (snd (PauseSchedule env i b db))"
  unfolding PauseSchedule_def by (intro wf_intros) (auto intro!: wf_update_schedules)

lemma wf_DeleteSchedule: "wf_db db \<Longrightarrow> wf_db (snd (DeleteSchedule env i db))"
  unfolding DeleteSchedule_def by (intro wf_intros) (auto intro!: wf_delete_schedule)

lemma wf_CreateExecution: "wf_db db \<Longrightarrow> wf_db (snd (CreateExecution env x db))"
  unfolding CreateExecution_def by (intro wf_intros) (auto intro: wf_append_execution)

lemma wf_UpdateExecution: "wf_db db \<Longrightarrow> wf_db (snd (UpdateExecution env i s l a b m d db))"
  unfolding UpdateExecution_def by (intro wf_intros) (auto intro!: wf_update_executions)

lemma wf_MarkStale: "wf_db db \<Longrightarrow> wf_db (snd (MarkStaleScheduleExecutions env db))"
  unfolding MarkStaleScheduleExecutions_def snd_case_pair
  by (intro wf_intros) (auto intro!: wf_update_executions)

lemma wf_ResetStale: "wf_db db \<Longrightarrow> wf_db (snd (ResetStaleRunningSchedules env db))"
  unfolding ResetStaleRunningSchedules_def snd_case_pair
  by (intro wf_intros) (auto intro!: wf_update_schedules)

text \<open>The queries leave the tables alone.\<close>

lemma db_call_query:
  assumes "\<And>d. snd (f d) = d"
  shows "snd (db_call env f db) = db\<lparr>db_calls := Suc (db_calls db)\<rparr>"
  using assms by (auto simp: db_call_def Let_def split: option.split)

lemma query_snd [simp]:
  "snd (GetSchedule env i db) = db\<lparr>db_calls := Suc (db_calls db)\<rparr>"
  "snd (ListSchedules env db) = db\<lparr>db_calls := Suc (db_calls db)\<rparr>"
  "snd (GetDueSchedule env db) = db\<lparr>db_calls := Suc (db_calls db)\<rparr>"
  "snd (GetOverlappingSchedules env a b x db) = db\<lparr>db_calls := Suc (db_calls db)\<rparr>"
  "snd (GetRecurringSchedules env db) = db\<lparr>db_calls := Suc (db_calls db)\<rparr>"
  "snd (ListExecutions env i db) = db\<lparr>db_calls := Suc (db_calls db)\<rparr>"
  "snd (CountScheduleExecutions env i db) = db\<lparr>db_calls := Suc (db_calls db)\<rparr>"
  "snd (CountConsecutiveFailures env i db) = db\<lparr>db_calls := Suc (db_calls db)\<rparr>"
  by (simp_all add: GetSchedule_def ListSchedules_def GetDueSchedule_def GetOverlappingSchedules_def
      GetRecurringSchedules_def ListExecutions_def CountScheduleExecutions_def
      CountConsecutiveFailures_def snd_case_pair db_call_query)

subsection \<open>Properties\<close>

text \<open>
  Every statement of the store on schedules and executions keeps the integrity of the tables: unique
  ids, and every execution belonging to a schedule of the table. This holds whether or not the statement
  fails.
\<close>

theorem schedule_store_integrity:
  assumes "wf_db db"
  shows "wf_db (snd (CreateSchedule env s db)) \<and> wf_db (snd (UpdateSchedule env s db)) \<and>
    wf_db (snd (UpdateScheduleStatus env i st db)) \<and> wf_db (snd (UpdateScheduleNextRun env i t st db)) \<and>
    wf_db (snd (PauseSchedule env i b db)) \<and> wf_db (snd (DeleteSchedule env i db)) \<and>
    wf_db (snd (CreateExecution env x db)) \<and> wf_db (snd (UpdateExecution env i st l a e m d db)) \<and>
    wf_db (snd (MarkStaleScheduleExecutions env db)) \<and> wf_db (snd (ResetStaleRunningSchedules env db))"
  using assms
  by (intro conjI wf_CreateSchedule wf_UpdateSchedule wf_UpdateScheduleStatus wf_UpdateScheduleNextRun
      wf_PauseSchedule wf_DeleteSchedule wf_CreateExecution wf_UpdateExecution wf_MarkStale wf_ResetStale)

theorem schedule_store_integrity_witness:
  "wf_db (snd (DeleteSchedule \<lparr>env_fault = (\<lambda>_. None), env_now = 0, env_tz = (\<lambda>_. None), env_uuid = ''u''\<rparr> ''a''
     \<lparr>db_schedules = [row_of (zero_scheduled_test\<lparr>st_ID := ''a''\<rparr>) 1 ''ada'' 0 0], db_executions = [], db_calls = 0\<rparr>))"
  using schedule_store_integrity
    [of "\<lparr>db_schedules = [row_of (zero_scheduled_test\<lparr>st_ID := ''a''\<rparr>) 1 ''ada'' 0 0], db_executions = [], db_calls = 0\<rparr>"]
  by (simp add: wf_db_def)

text \<open>
  A schedule that is created under a new id can be read back: the result has every field that was
  written, with the defaults of the store for an empty HTTP method, content type and client
  authentication method and for a refresh skew that is not positive, the secret marked as configured
  when an encrypted secret is stored, and the two time stamps of the table.
\<close>

theorem create_then_get_schedule:
  assumes "env_fault env (db_calls db) = None" "env_fault env (Suc (db_calls db)) = None"
    and "st_ID s \<notin> c_id ` set (db_schedules db)"
  shows "fst (CreateSchedule env s db) = Inr () \<and>
    fst (GetSchedule env (st_ID s) (snd (CreateSchedule env s db))) =
      Inr (Some ((with_defaults s)\<lparr>st_CreatedAt := stamp env, st_UpdatedAt := stamp env\<rparr>))"
proof -
  let ?t = "s\<lparr>st_CreatedAt := stamp env, st_UpdatedAt := stamp env\<rparr>"
  let ?r = "row_of s (st_UserID s) (st_Username s) (stamp env) (stamp env)"
  have cr: "CreateSchedule env s db = (Inr (), db\<lparr>db_calls := Suc (db_calls db), db_schedules := db_schedules db @ [?r]\<rparr>)"
    using assms(1,3) by (simp add: CreateSchedule_def db_call_def)
  have "find (\<lambda>r. c_id r = st_ID s) (db_schedules db) = None"
    using assms(3) by (auto simp: find_None_iff image_iff)
  moreover have "c_id ?r = st_ID s" by (simp add: row_of_def)
  ultimately have "find (\<lambda>r. c_id r = st_ID s) (db_schedules db @ [?r]) = Some ?r"
    by (simp add: find_append_None)
  then have "fst (GetSchedule env (st_ID s) (snd (CreateSchedule env s db))) = Inr (Some (scanScheduledTest ?r))"
    using assms(2) by (simp add: cr GetSchedule_def db_call_def)
  moreover have "?r = row_of ?t (st_UserID ?t) (st_Username ?t) (st_CreatedAt ?t) (st_UpdatedAt ?t)"
    by (simp add: row_of_def)
  ultimately show ?thesis by (simp only: cr scan_row_of) (simp add: with_defaults_def)
qed

theorem create_then_get_schedule_witness:
  "\<exists>s'. fst (GetSchedule \<lparr>env_fault = (\<lambda>_. None), env_now = 0, env_tz = (\<lambda>_. None), env_uuid = ''u''\<rparr> ''a''
      (snd (CreateSchedule \<lparr>env_fault = (\<lambda>_. None), env_now = 0, env_tz = (\<lambda>_. None), env_uuid = ''u''\<rparr>
        (zero_scheduled_test\<lparr>st_ID := ''a'', st_Name := ''nightly''\<rparr>)
        \<lparr>db_schedules = [], db_executions = [], db_calls = 0\<rparr>))) = Inr (Some s') \<and>
    st_Name s' = ''nightly'' \<and> st_HTTPMethod s' = ''GET''"
  using create_then_get_schedule
    [of "\<lparr>env_fault = (\<lambda>_. None), env_now = 0, env_tz = (\<lambda>_. None), env_uuid = ''u''\<rparr>"
      "\<lparr>db_schedules = [], db_executions = [], db_calls = 0\<rparr>"
      "zero_scheduled_test\<lparr>st_ID := ''a'', st_Name := ''nightly''\<rparr>"]
  by (simp add: with_defaults_def defaultHTTPMethod_def zero_scheduled_test_def)

end
