(* ===== verification/Overlap.thy ===== *)
theory Overlap
  imports ScheduleStore
begin

text \<open>
  \<^verbatim>\<open>controller/internal/scheduler/overlap.go\<close>: detection of conflicts between a proposed time slot,
  the running test, and the schedules in the database.

  The times of schedules are in UTC (the MySQL driver's default); the start of the running test is a
  \<^verbatim>\<open>time.Now()\<close>, formatted in the location of the process, the argument \<open>here\<close>.
\<close>

record running_test_info =
  rt_TestID :: string
  rt_StartTime :: time
  rt_EstimatedDurationS :: int

definition timeSlotsOverlap :: "time_slot \<Rightarrow> time_slot \<Rightarrow> bool" where
  "timeSlotsOverlap a b \<longleftrightarrow> ts_Start a < ts_End b \<and> ts_Start b < ts_End a"

definition runningTimeSlot :: "running_test_info \<Rightarrow> time_slot" where
  "runningTimeSlot r =
    \<lparr>ts_Start = rt_StartTime r,
     ts_End = (if 0 < rt_EstimatedDurationS r
               then rt_StartTime r + dur_seconds (rt_EstimatedDurationS r)
               else rt_StartTime r + 2 * hour)\<rparr>"

definition runningTestConflict ::
  "location \<Rightarrow> time_slot \<Rightarrow> running_test_info option \<Rightarrow> schedule_conflict option" where
  "runningTestConflict here proposed running =
    (case running of
       None \<Rightarrow> None
     | Some r \<Rightarrow>
        (if rt_TestID r = [] then None
         else let slot = runningTimeSlot r
              in if \<not> timeSlotsOverlap proposed slot then None
                 else Some \<lparr>sc_ScheduleID = [], sc_ScheduleName = [],
                            sc_Start = format_rfc3339 here (ts_Start slot),
                            sc_End = format_rfc3339 here (ts_End slot), sc_Type = ''running''\<rparr>))"

definition scheduledConflict :: "scheduled_test \<Rightarrow> schedule_conflict" where
  "scheduledConflict s =
    \<lparr>sc_ScheduleID = st_ID s, sc_ScheduleName = st_Name s,
     sc_Start = format_rfc3339 utc_loc (st_ScheduledAt s),
     sc_End = format_rfc3339 utc_loc (st_ScheduledAt s + dur_seconds (st_EstimatedDurationS s)),
     sc_Type = ''scheduled''\<rparr>"

definition recurring_slots :: "tz_database \<Rightarrow> time_slot \<Rightarrow> scheduled_test \<Rightarrow> time_slot list" where
  "recurring_slots load proposed s =
    ExpandOccurrences load (st_ScheduledAt s) (st_EstimatedDurationS s) (st_RecurrenceType s)
      (st_Timezone s) (st_RecurrenceEnd s) (st_SkippedOccurrences s)
      (ts_Start proposed - 24 * hour) (ts_End proposed + 24 * hour)"

fun recurringScheduleConflict ::
  "tz_database \<Rightarrow> time_slot \<Rightarrow> scheduled_test list \<Rightarrow> string \<Rightarrow> schedule_conflict option" where
  "recurringScheduleConflict load proposed [] excludeID = None"
| "recurringScheduleConflict load proposed (s # ss) excludeID =
    (if st_ID s = excludeID then recurringScheduleConflict load proposed ss excludeID
     else (case find (timeSlotsOverlap proposed) (recurring_slots load proposed s) of
             Some slot \<Rightarrow>
               Some \<lparr>sc_ScheduleID = st_ID s, sc_ScheduleName = st_Name s,
                     sc_Start = format_rfc3339 utc_loc (ts_Start slot),
                     sc_End = format_rfc3339 utc_loc (ts_End slot), sc_Type = ''scheduled''\<rparr>
           | None \<Rightarrow> recurringScheduleConflict load proposed ss excludeID))"

definition CheckOverlap ::
  "sched_env \<Rightarrow> location \<Rightarrow> time_slot \<Rightarrow> string \<Rightarrow> running_test_info option \<Rightarrow> sched_db \<Rightarrow>
   schedule_conflict option res \<times> sched_db" where
  "CheckOverlap env here proposed excludeID running db =
    (case runningTestConflict here proposed running of
       Some c \<Rightarrow> (Inr (Some c), db)
     | None \<Rightarrow>
        (case GetOverlappingSchedules env (ts_Start proposed) (ts_End proposed) excludeID db of
           (Inl e, db1) \<Rightarrow> (Inl e, db1)
         | (Inr (s # _), db1) \<Rightarrow> (Inr (Some (scheduledConflict s)), db1)
         | (Inr [], db1) \<Rightarrow>
            (case GetRecurringSchedules env db1 of
               (Inl e, db2) \<Rightarrow> (Inl e, db2)
             | (Inr recurring, db2) \<Rightarrow>
                (Inr (recurringScheduleConflict (env_tz env) proposed recurring excludeID), db2))))"

subsection \<open>What no conflict means\<close>

lemma timeSlotsOverlap_sym: "timeSlotsOverlap a b = timeSlotsOverlap b a"
  by (auto simp: timeSlotsOverlap_def)

lemma runningTestConflict_None:
  "runningTestConflict here p (Some r) = None \<longleftrightarrow> rt_TestID r = [] \<or> \<not> timeSlotsOverlap p (runningTimeSlot r)"
  by (simp add: runningTestConflict_def Let_def)

lemma recurringScheduleConflict_None:
  "recurringScheduleConflict load p ss x = None \<longleftrightarrow>
    (\<forall>s \<in> set ss. st_ID s \<noteq> x \<longrightarrow> (\<forall>slot \<in> set (recurring_slots load p s). \<not> timeSlotsOverlap p slot))"
  by (induction ss) (auto simp: find_None_set dest!: find_Some_set split: option.split)

lemma fault_free_call:
  assumes "env_fault env (db_calls db) = None"
  shows "db_call env f db = f (db\<lparr>db_calls := Suc (db_calls db)\<rparr>)"
  using assms by (simp add: db_call_def)

lemma GetOverlapping_Inr:
  assumes "GetOverlappingSchedules env a b x db = (Inr ss, db')"
  shows "ss = map scan_overlap (sort_key c_scheduled_at (filter (overlaps_slot a b x) (db_schedules db)))"
    "db' = db\<lparr>db_calls := Suc (db_calls db)\<rparr>"
  using assms by (auto simp: GetOverlappingSchedules_def db_call_def Let_def split: option.splits)

lemma GetRecurring_Inr:
  assumes "GetRecurringSchedules env db = (Inr ss, db')"
  shows "ss = map scanRecurringSchedule (sort_key c_scheduled_at (filter is_recurring (db_schedules db)))"
    "db' = db\<lparr>db_calls := Suc (db_calls db)\<rparr>"
  using assms by (auto simp: GetRecurringSchedules_def db_call_def Let_def split: option.splits)

lemma CheckOverlap_None:
  assumes "CheckOverlap env here p x run db = (Inr None, db')"
  shows "runningTestConflict here p run = None"
    "filter (overlaps_slot (ts_Start p) (ts_End p) x) (db_schedules db) = []"
    "recurringScheduleConflict (env_tz env) p
      (map scanRecurringSchedule (sort_key c_scheduled_at (filter is_recurring (db_schedules db)))) x = None"
proof -
  from assms show r: "runningTestConflict here p run = None"
    by (auto simp: CheckOverlap_def split: option.splits)
  obtain g d1 where g: "GetOverlappingSchedules env (ts_Start p) (ts_End p) x db = (g, d1)"
    by (cases "GetOverlappingSchedules env (ts_Start p) (ts_End p) x db")
  with assms r have "g = Inr []"
    by (auto simp: CheckOverlap_def split: sum.splits list.splits)
  note g' = GetOverlapping_Inr [OF g [unfolded this]]
  from g'(1) have "sort_key c_scheduled_at (filter (overlaps_slot (ts_Start p) (ts_End p) x) (db_schedules db)) = []"
    by simp
  then show "filter (overlaps_slot (ts_Start p) (ts_End p) x) (db_schedules db) = []"
    by (metis length_0_conv length_sort)
  obtain q d2 where q: "GetRecurringSchedules env d1 = (q, d2)" by (cases "GetRecurringSchedules env d1")
  with assms r g \<open>g = Inr []\<close> obtain ss where ss: "q = Inr ss" "recurringScheduleConflict (env_tz env) p ss x = None"
    by (auto simp: CheckOverlap_def split: sum.splits)
  from GetRecurring_Inr(1) [OF q [unfolded ss(1)]] g'(2) ss(2)
  show "recurringScheduleConflict (env_tz env) p
      (map scanRecurringSchedule (sort_key c_scheduled_at (filter is_recurring (db_schedules db)))) x = None"
    by simp
qed

lemma recurring_slots_scan:
  "recurring_slots load p (scanRecurringSchedule r) =
    ExpandOccurrences load (c_scheduled_at r) (c_estimated_duration_s r) (c_recurrence_type r)
      (c_timezone r) (c_recurrence_end r) (decodeSkippedOccurrences (c_skipped_occurrences r))
      (ts_Start p - 24 * hour) (ts_End p + 24 * hour)"
  by (simp add: recurring_slots_def scanRecurringSchedule_def)

subsection \<open>Properties\<close>

definition demo_overlap_db :: sched_db where
  "demo_overlap_db =
    \<lparr>db_schedules = [row_of (zero_scheduled_test\<lparr>st_ID := ''a'', st_Status := ''scheduled'',
        st_RecurrenceType := ''once'', st_ScheduledAt := 10 * hour, st_EstimatedDurationS := 3600\<rparr>) 1 ''ada'' 0 0],
     db_executions = [], db_calls = 0\<rparr>"

definition demo_overlap_env :: sched_env where
  "demo_overlap_env = \<lparr>env_fault = (\<lambda>_. None), env_now = 0, env_tz = (\<lambda>_. None), env_uuid = []\<rparr>"

text \<open>
  C9. When the check reports no conflict, the proposed slot is free: it does not meet the window of the
  running test; it does not meet the current window of any schedule that is scheduled or running, not
  paused and not the excluded one; and it does not meet the slot of any of the first hundred
  occurrences of a scheduled recurring schedule that is neither skipped nor after the end of the
  recurrence, where the offsets of its time zone differ by less than a day. A database error is never
  reported as the absence of a conflict.
\<close>

theorem no_conflict_means_free_slot:
  assumes "CheckOverlap env here p x run db = (Inr None, db')"
    and "\<forall>tz l. env_tz env tz = Some l \<longrightarrow> offsets_within 86400 l"
  shows "(\<forall>r. run = Some r \<and> rt_TestID r \<noteq> [] \<longrightarrow> \<not> timeSlotsOverlap p (runningTimeSlot r)) \<and>
    (\<forall>r \<in> set (db_schedules db). c_status r \<in> {''scheduled'', ''running''} \<and> \<not> c_paused r \<and> c_id r \<noteq> x \<longrightarrow>
      \<not> timeSlotsOverlap p \<lparr>ts_Start = c_scheduled_at r,
          ts_End = c_scheduled_at r + c_estimated_duration_s r * second\<rparr>) \<and>
    (\<forall>r \<in> set (db_schedules db). \<forall>u. is_recurring r \<and> c_id r \<noteq> x \<and>
      u \<in> set (occurrence_chain 100 (loc_or_utc (env_tz env) (c_timezone r)) (c_recurrence_type r) (c_scheduled_at r)) \<and>
      \<not> past_end (c_recurrence_end r) u \<and>
      \<not> isSkippedOccurrence u (decodeSkippedOccurrences (c_skipped_occurrences r)) \<longrightarrow>
      \<not> timeSlotsOverlap p (slot_at (c_estimated_duration_s r) u))"
proof (intro conjI ballI allI impI)
  note none = CheckOverlap_None [OF assms(1)]
  fix r assume "run = Some r \<and> rt_TestID r \<noteq> []"
  then show "\<not> timeSlotsOverlap p (runningTimeSlot r)"
    using none(1) by (auto simp: runningTestConflict_None)
next
  fix r assume "r \<in> set (db_schedules db)" "c_status r \<in> {''scheduled'', ''running''} \<and> \<not> c_paused r \<and> c_id r \<noteq> x"
  then show "\<not> timeSlotsOverlap p \<lparr>ts_Start = c_scheduled_at r,
      ts_End = c_scheduled_at r + c_estimated_duration_s r * second\<rparr>"
    using CheckOverlap_None(2) [OF assms(1)]
    by (auto simp: filter_empty_conv overlaps_slot_def timeSlotsOverlap_def)
next
  fix r u
  assume r: "r \<in> set (db_schedules db)" and
    u: "is_recurring r \<and> c_id r \<noteq> x \<and>
      u \<in> set (occurrence_chain 100 (loc_or_utc (env_tz env) (c_timezone r)) (c_recurrence_type r) (c_scheduled_at r)) \<and>
      \<not> past_end (c_recurrence_end r) u \<and>
      \<not> isSkippedOccurrence u (decodeSkippedOccurrences (c_skipped_occurrences r))"
  have within: "offsets_within 86400 (loc_or_utc (env_tz env) (c_timezone r))"
    using assms(2) by (intro offsets_loc_or_utc) auto
  have "scanRecurringSchedule r \<in> set (map scanRecurringSchedule (sort_key c_scheduled_at (filter is_recurring (db_schedules db))))"
    using r u by simp
  moreover have "st_ID (scanRecurringSchedule r) \<noteq> x" using u by (simp add: scanRecurringSchedule_def)
  ultimately have no: "\<forall>slot \<in> set (recurring_slots (env_tz env) p (scanRecurringSchedule r)). \<not> timeSlotsOverlap p slot"
    using CheckOverlap_None(3) [OF assms(1)] unfolding recurringScheduleConflict_None by blast
  show "\<not> timeSlotsOverlap p (slot_at (c_estimated_duration_s r) u)"
  proof
    assume ov: "timeSlotsOverlap p (slot_at (c_estimated_duration_s r) u)"
    have "c_recurrence_type r \<noteq> ''once''" using u by (simp add: is_recurring_def)
    then have "slot_at (c_estimated_duration_s r) u \<in> set (recurring_slots (env_tz env) p (scanRecurringSchedule r))"
      using u ov expand_set [OF within] by (auto simp: recurring_slots_scan timeSlotsOverlap_def slot_at_def)
    with no ov show False by blast
  qed
qed

theorem no_conflict_means_free_slot_witness:
  "\<not> timeSlotsOverlap \<lparr>ts_Start = 0, ts_End = hour\<rparr> \<lparr>ts_Start = 10 * hour, ts_End = 10 * hour + 3600 * second\<rparr>"
proof -
  have "CheckOverlap demo_overlap_env utc_loc \<lparr>ts_Start = 0, ts_End = hour\<rparr> [] None demo_overlap_db =
      (Inr None, snd (CheckOverlap demo_overlap_env utc_loc \<lparr>ts_Start = 0, ts_End = hour\<rparr> [] None demo_overlap_db))"
    by (simp add: CheckOverlap_def runningTestConflict_def GetOverlappingSchedules_def GetRecurringSchedules_def
        db_call_def demo_overlap_env_def demo_overlap_db_def overlaps_slot_def is_recurring_def row_of_def
        zero_scheduled_test_def)
  from no_conflict_means_free_slot [OF this] show ?thesis
    by (simp add: demo_overlap_env_def demo_overlap_db_def row_of_def zero_scheduled_test_def)
qed

end
