(* ===== verification/Scheduler.thy ===== *)
theory Scheduler
  imports Overlap "HOL-Library.AList"
begin

text \<open>
  \<^verbatim>\<open>controller/internal/scheduler/scheduler.go\<close>: the loop that starts due schedules, the completion of
  their executions, the advance of recurring schedules, and the recovery at startup.

  The state is the database, the map \<^verbatim>\<open>callbacks\<close> from execution ids to schedule ids (an association
  list without repeated keys) and whether the loop runs (\<^verbatim>\<open>stopCh != nil\<close>). Each method is a function
  on the state; logging is left out. What the scheduler calls is an argument: the executor
  (\<^verbatim>\<open>TestExecutor.ExecuteTest\<close>, the id of the started test or an error), the id of the active test
  (\<^verbatim>\<open>ActiveTestProvider\<close>) and the decryption of the stored secret. Go picks an arbitrary entry when it
  ranges over \<^verbatim>\<open>callbacks\<close>: the argument \<open>pick\<close> stands for that choice, and the results hold for
  every \<open>pick\<close>.
\<close>

abbreviation (input) consecutiveFailLimit :: int where "consecutiveFailLimit \<equiv> 3"
abbreviation (input) maxRecoveryAdvances :: nat where "maxRecoveryAdvances \<equiv> 1000"

type_synonym executor = "test_request \<Rightarrow> int \<Rightarrow> string \<Rightarrow> string res"
type_synonym secret_service = "(string \<Rightarrow> string res) option"

record sched_state =
  ss_db :: sched_db
  ss_callbacks :: "(string \<times> string) list"
  ss_running :: bool

definition on_db :: "(sched_db \<Rightarrow> 'a \<times> sched_db) \<Rightarrow> sched_state \<Rightarrow> 'a \<times> sched_state" where
  "on_db f s = (case f (ss_db s) of (r, d) \<Rightarrow> (r, s\<lparr>ss_db := d\<rparr>))"

record scheduled_execution_start =
  xs_execID :: string
  xs_scheduleID :: string
  xs_startedAt :: time

record scheduled_execution_completion =
  xc_execID :: string
  xc_scheduleID :: string
  xc_testID :: string
  xc_status :: string
  xc_errMsg :: string
  xc_finishedAt :: time

definition New_scheduler :: "sched_db \<Rightarrow> sched_state" where
  "New_scheduler db = \<lparr>ss_db = db, ss_callbacks = [], ss_running = False\<rparr>"

subsection \<open>Callbacks\<close>

definition registerCallback :: "string \<Rightarrow> string \<Rightarrow> sched_state \<Rightarrow> sched_state" where
  "registerCallback execID scheduleID s = s\<lparr>ss_callbacks := AList.update execID scheduleID (ss_callbacks s)\<rparr>"

definition clearCallback :: "string \<Rightarrow> sched_state \<Rightarrow> sched_state" where
  "clearCallback execID s = s\<lparr>ss_callbacks := AList.delete execID (ss_callbacks s)\<rparr>"

definition takeNextCallback :: "nat \<Rightarrow> sched_state \<Rightarrow> (string \<times> string) \<times> sched_state" where
  "takeNextCallback pick s =
    (case ss_callbacks s of
       [] \<Rightarrow> (([], []), s)
     | cbs \<Rightarrow> (let p = cbs ! (pick mod length cbs)
               in (p, s\<lparr>ss_callbacks := AList.delete (fst p) cbs\<rparr>)))"

subsection \<open>Executions\<close>

definition hasActiveTest :: "string \<Rightarrow> bool" where
  "hasActiveTest activeID \<longleftrightarrow> activeID \<noteq> []"

definition nextDueSchedule :: "sched_env \<Rightarrow> sched_state \<Rightarrow> scheduled_test option res \<times> sched_state" where
  "nextDueSchedule env = on_db (GetDueSchedule env)"

definition markScheduleRunning :: "sched_env \<Rightarrow> string \<Rightarrow> sched_state \<Rightarrow> unit res \<times> sched_state" where
  "markScheduleRunning env i = on_db (UpdateScheduleStatus env i ''running'')"

definition createRunningExecution ::
  "sched_env \<Rightarrow> scheduled_test \<Rightarrow> sched_state \<Rightarrow> (string \<times> time) res \<times> sched_state" where
  "createRunningExecution env schedule s =
    (case on_db (CreateExecution env
        \<lparr>ex_ID = env_uuid env, ex_ScheduleID = st_ID schedule, ex_LoadTestID = None,
         ex_Status = ''running'', ex_ScheduledAt = st_ScheduledAt schedule,
         ex_StartedAt = Some (env_now env), ex_EndedAt = None, ex_ErrorMessage = None,
         ex_ErrorDetail = None, ex_CreatedAt = zero_time\<rparr>) s of
       (Inl e, s') \<Rightarrow> (Inl e, s')
     | (Inr _, s') \<Rightarrow> (Inr (env_uuid env, env_now env), s'))"

definition failExecution ::
  "sched_env \<Rightarrow> string \<Rightarrow> time option \<Rightarrow> time option \<Rightarrow> string option \<Rightarrow> sched_state \<Rightarrow> unit res \<times> sched_state" where
  "failExecution env execID startedAt endedAt errMsg =
    on_db (UpdateExecution env execID ''failed'' None startedAt endedAt errMsg None)"

definition markExecutionRunning ::
  "sched_env \<Rightarrow> string \<Rightarrow> string \<Rightarrow> time \<Rightarrow> sched_state \<Rightarrow> unit res \<times> sched_state" where
  "markExecutionRunning env execID testID startedAt =
    on_db (UpdateExecution env execID ''running'' (Some testID) (Some startedAt) None None None)"

definition completeExecution ::
  "sched_env \<Rightarrow> string \<Rightarrow> string \<Rightarrow> string \<Rightarrow> string \<Rightarrow> time \<Rightarrow> sched_state \<Rightarrow> unit res \<times> sched_state" where
  "completeExecution env execID testID status errMsg finishedAt =
    (let (execStatus, errMsgPtr) =
       (if status \<noteq> ''completed'' then (''failed'', Some errMsg) else (''completed'', None))
     in on_db (UpdateExecution env execID execStatus (Some testID) None (Some finishedAt) errMsgPtr None))"

definition resetScheduleToScheduled :: "sched_env \<Rightarrow> string \<Rightarrow> sched_state \<Rightarrow> sched_state" where
  "resetScheduleToScheduled env i s = snd (on_db (UpdateScheduleStatus env i ''scheduled'') s)"

definition beginScheduledExecution ::
  "sched_env \<Rightarrow> scheduled_test \<Rightarrow> sched_state \<Rightarrow> scheduled_execution_start res \<times> sched_state" where
  "beginScheduledExecution env schedule s =
    (case markScheduleRunning env (st_ID schedule) s of
       (Inl e, s1) \<Rightarrow> (Inl e, s1)
     | (Inr _, s1) \<Rightarrow>
        (case createRunningExecution env schedule s1 of
           (Inl e, s2) \<Rightarrow> (Inl e, resetScheduleToScheduled env (st_ID schedule) s2)
         | (Inr (execID, now), s2) \<Rightarrow>
            (Inr \<lparr>xs_execID = execID, xs_scheduleID = st_ID schedule, xs_startedAt = now\<rparr>,
             registerCallback execID (st_ID schedule) s2)))"

subsection \<open>Advancing a schedule\<close>

definition advanceSchedule :: "sched_env \<Rightarrow> string \<Rightarrow> bool \<Rightarrow> sched_state \<Rightarrow> sched_state" where
  "advanceSchedule env scheduleID failed s =
    (case on_db (GetSchedule env scheduleID) s of
       (Inl _, s1) \<Rightarrow> s1
     | (Inr None, s1) \<Rightarrow> s1
     | (Inr (Some schedule), s1) \<Rightarrow>
        (if st_RecurrenceType schedule = ''once'' then
           snd (on_db (UpdateScheduleStatus env scheduleID (if failed then ''failed'' else ''completed'')) s1)
         else
           (let (pause, s2) =
              (if failed then
                 (case on_db (CountConsecutiveFailures env scheduleID) s1 of
                    (Inr n, s') \<Rightarrow> (consecutiveFailLimit \<le> n, s')
                  | (Inl _, s') \<Rightarrow> (False, s'))
               else (False, s1))
            in if pause then
                 snd (on_db (UpdateScheduleStatus env scheduleID ''scheduled'')
                   (snd (on_db (PauseSchedule env scheduleID True) s2)))
               else
                 (case NextIncludedOccurrence (env_tz env) (st_ScheduledAt schedule)
                     (st_RecurrenceType schedule) (st_Timezone schedule) (st_RecurrenceEnd schedule)
                     (st_SkippedOccurrences schedule) of
                    Inl _ \<Rightarrow> snd (on_db (UpdateScheduleStatus env scheduleID ''failed'') s2)
                  | Inr nextAt \<Rightarrow>
                     (if is_zero nextAt
                      then snd (on_db (UpdateScheduleStatus env scheduleID ''completed'') s2)
                      else snd (on_db (UpdateScheduleNextRun env scheduleID nextAt ''scheduled'') s2))))))"

definition failScheduledExecution ::
  "sched_env \<Rightarrow> scheduled_execution_start \<Rightarrow> string \<Rightarrow> sched_state \<Rightarrow> sched_state" where
  "failScheduledExecution env start err s =
    (let s1 = clearCallback (xs_execID start) s;
         s2 = snd (failExecution env (xs_execID start) (Some (xs_startedAt start))
                (Some (xs_startedAt start)) (Some err) s1)
     in advanceSchedule env (xs_scheduleID start) True s2)"

subsection \<open>Completion\<close>

definition nextCompletion ::
  "sched_env \<Rightarrow> nat \<Rightarrow> string \<Rightarrow> string \<Rightarrow> string \<Rightarrow> sched_state \<Rightarrow>
   scheduled_execution_completion option \<times> sched_state" where
  "nextCompletion env pick testID status errMsg s =
    (case takeNextCallback pick s of
       ((execID, schedID), s') \<Rightarrow>
         (if execID = [] then (None, s')
          else (Some \<lparr>xc_execID = execID, xc_scheduleID = schedID, xc_testID = testID,
                      xc_status = status, xc_errMsg = errMsg, xc_finishedAt = env_now env\<rparr>, s')))"

definition applyCompletion ::
  "sched_env \<Rightarrow> scheduled_execution_completion \<Rightarrow> sched_state \<Rightarrow> sched_state" where
  "applyCompletion env c s =
    advanceSchedule env (xc_scheduleID c) (xc_status c \<noteq> ''completed'')
      (snd (completeExecution env (xc_execID c) (xc_testID c) (xc_status c) (xc_errMsg c) (xc_finishedAt c) s))"

definition OnTestComplete ::
  "sched_env \<Rightarrow> nat \<Rightarrow> string \<Rightarrow> string \<Rightarrow> string \<Rightarrow> sched_state \<Rightarrow> sched_state" where
  "OnTestComplete env pick testID status errMsg s =
    (case nextCompletion env pick testID status errMsg s of
       (None, s') \<Rightarrow> s'
     | (Some c, s') \<Rightarrow> applyCompletion env c s')"

subsection \<open>The tick\<close>

definition scheduleTestRequest :: "secret_service \<Rightarrow> scheduled_test \<Rightarrow> test_request res" where
  "scheduleTestRequest svc schedule =
    (let req = ToTestRequest schedule
     in if \<not> ac_Enabled (st_AuthConfig schedule) then Inr req
        else if ac_ClientSecretEncrypted (st_AuthConfig schedule) = []
        then Inl ''scheduled auth secret is missing''
        else (case svc of
                None \<Rightarrow> Inl ''scheduler auth secret is configured but encryption service is unavailable''
              | Some decrypt \<Rightarrow>
                 (case decrypt (ac_ClientSecretEncrypted (st_AuthConfig schedule)) of
                    Inl e \<Rightarrow> Inl (''failed to decrypt scheduled auth secret: '' @ e)
                  | Inr clientSecret \<Rightarrow>
                     Inr (req\<lparr>req_Auth := (req_Auth req)\<lparr>ai_ClientSecret := clientSecret\<rparr>\<rparr>))))"

definition executeSchedule ::
  "sched_env \<Rightarrow> secret_service \<Rightarrow> executor \<Rightarrow> scheduled_test \<Rightarrow> sched_state \<Rightarrow> sched_state" where
  "executeSchedule env svc exec schedule s =
    (case beginScheduledExecution env schedule s of
       (Inl _, s1) \<Rightarrow> s1
     | (Inr start, s1) \<Rightarrow>
        (case scheduleTestRequest svc schedule of
           Inl e \<Rightarrow> failScheduledExecution env start e s1
         | Inr req \<Rightarrow>
            (case exec req (st_UserID schedule) (st_Username schedule) of
               Inl e \<Rightarrow> failScheduledExecution env start e s1
             | Inr testID \<Rightarrow>
                snd (markExecutionRunning env (xs_execID start) testID (xs_startedAt start) s1))))"

definition tick ::
  "sched_env \<Rightarrow> secret_service \<Rightarrow> executor \<Rightarrow> string \<Rightarrow> sched_state \<Rightarrow> sched_state" where
  "tick env svc exec activeID s =
    (if hasActiveTest activeID then s
     else (case nextDueSchedule env s of
             (Inl _, s1) \<Rightarrow> s1
           | (Inr None, s1) \<Rightarrow> s1
           | (Inr (Some schedule), s1) \<Rightarrow> executeSchedule env svc exec schedule s1))"

subsection \<open>Recovery at startup\<close>

definition recoverStaleExecutions :: "sched_env \<Rightarrow> sched_state \<Rightarrow> sched_state" where
  "recoverStaleExecutions env s = snd (on_db (MarkStaleScheduleExecutions env) s)"

definition recoverStaleSchedules :: "sched_env \<Rightarrow> sched_state \<Rightarrow> sched_state" where
  "recoverStaleSchedules env s = snd (on_db (ResetStaleRunningSchedules env) s)"

definition shouldNormalizeOverdueSchedule :: "scheduled_test \<Rightarrow> time \<Rightarrow> bool" where
  "shouldNormalizeOverdueSchedule schedule recoveryAt \<longleftrightarrow>
    st_Status schedule = ''scheduled'' \<and> \<not> st_Paused schedule \<and> st_ScheduledAt schedule < recoveryAt"

fun next_future_loop :: "nat \<Rightarrow> tz_database \<Rightarrow> scheduled_test \<Rightarrow> time \<Rightarrow> time \<Rightarrow> (time \<times> bool) res" where
  "next_future_loop 0 load schedule recoveryAt current =
    Inl (''schedule '' @ st_ID schedule @ '' exceeded recovery advancement limit'')"
| "next_future_loop (Suc n) load schedule recoveryAt current =
    (case NextIncludedOccurrence load current (st_RecurrenceType schedule) (st_Timezone schedule)
        (st_RecurrenceEnd schedule) (st_SkippedOccurrences schedule) of
       Inl e \<Rightarrow> Inl e
     | Inr nextAt \<Rightarrow>
        (if is_zero nextAt then Inr (zero_time, True)
         else if \<not> nextAt < recoveryAt then Inr (nextAt, False)
         else next_future_loop n load schedule recoveryAt nextAt))"

definition nextFutureOccurrence :: "tz_database \<Rightarrow> scheduled_test \<Rightarrow> time \<Rightarrow> (time \<times> bool) res" where
  "nextFutureOccurrence load schedule recoveryAt =
    next_future_loop maxRecoveryAdvances load schedule recoveryAt (st_ScheduledAt schedule)"

definition normalizeOverdueSchedule ::
  "sched_env \<Rightarrow> scheduled_test \<Rightarrow> time \<Rightarrow> sched_state \<Rightarrow> bool \<times> sched_state" where
  "normalizeOverdueSchedule env schedule recoveryAt s =
    (if st_RecurrenceType schedule = ''once'' then
       (case on_db (UpdateScheduleStatus env (st_ID schedule) ''failed'') s of
          (Inl _, s1) \<Rightarrow> (False, s1)
        | (Inr _, s1) \<Rightarrow> (True, s1))
     else
       (case nextFutureOccurrence (env_tz env) schedule recoveryAt of
          Inl _ \<Rightarrow> (False, snd (on_db (UpdateScheduleStatus env (st_ID schedule) ''failed'') s))
        | Inr (nextAt, exhausted) \<Rightarrow>
           (if exhausted then
              (case on_db (UpdateScheduleStatus env (st_ID schedule) ''completed'') s of
                 (Inl _, s1) \<Rightarrow> (False, s1)
               | (Inr _, s1) \<Rightarrow> (True, s1))
            else
              (case on_db (UpdateScheduleNextRun env (st_ID schedule) nextAt ''scheduled'') s of
                 (Inl _, s1) \<Rightarrow> (False, s1)
               | (Inr _, s1) \<Rightarrow> (True, s1)))))"

fun normalize_all :: "sched_env \<Rightarrow> time \<Rightarrow> scheduled_test list \<Rightarrow> sched_state \<Rightarrow> sched_state" where
  "normalize_all env recoveryAt [] s = s"
| "normalize_all env recoveryAt (schedule # rest) s =
    (if \<not> shouldNormalizeOverdueSchedule schedule recoveryAt then normalize_all env recoveryAt rest s
     else normalize_all env recoveryAt rest (snd (normalizeOverdueSchedule env schedule recoveryAt s)))"

definition recoverOverdueSchedules :: "sched_env \<Rightarrow> sched_state \<Rightarrow> sched_state" where
  "recoverOverdueSchedules env s =
    (case on_db (ListSchedules env) s of
       (Inl _, s1) \<Rightarrow> s1
     | (Inr schedules, s1) \<Rightarrow> normalize_all env (env_now env) schedules s1)"

definition recover :: "sched_env \<Rightarrow> sched_state \<Rightarrow> sched_state" where
  "recover env s = recoverOverdueSchedules env (recoverStaleSchedules env (recoverStaleExecutions env s))"

definition Start_scheduler :: "sched_env \<Rightarrow> sched_state \<Rightarrow> sched_state" where
  "Start_scheduler env s = (if ss_running s then s else recover env (s\<lparr>ss_running := True\<rparr>))"

definition Stop_scheduler :: "sched_state \<Rightarrow> sched_state" where
  "Stop_scheduler s = s\<lparr>ss_running := False\<rparr>"

interpretation future: occurrence_search
  "\<lambda>t. NextIncludedOccurrence load t (st_RecurrenceType sch) (st_Timezone sch) (st_RecurrenceEnd sch) (st_SkippedOccurrences sch)"
  "\<lambda>u. recoveryAt \<le> u"
  "\<lambda>n t. next_future_loop n load sch recoveryAt t"
  Inl "Inr (zero_time, True)" "\<lambda>u. Inr (u, False)"
  "''schedule '' @ st_ID sch @ '' exceeded recovery advancement limit''"
  for load sch recoveryAt
  by unfold_locales (auto simp: not_less split: sum.splits)

end
