(* ===== verification/SchedulerProofs.thy ===== *)
theory SchedulerProofs
  imports Scheduler
begin

text \<open>
  The correctness of the scheduler: what each operation does to the tables and to the callbacks when no
  statement fails, what holds in every reachable state when statements may fail, and the state that
  the recovery at startup leaves behind.
\<close>

subsection \<open>Effects of the statements\<close>

named_theorems effects \<open>the effect of a statement on the parts of the scheduler's state\<close>

definition no_faults :: "sched_env \<Rightarrow> bool" where
  "no_faults env \<longleftrightarrow> (\<forall>n. env_fault env n = None)"

abbreviation srows :: "sched_state \<Rightarrow> sched_row list" where
  "srows s \<equiv> db_schedules (ss_db s)"

abbreviation xrows :: "sched_state \<Rightarrow> schedule_execution list" where
  "xrows s \<equiv> db_executions (ss_db s)"

definition set_row :: "sched_env \<Rightarrow> string \<Rightarrow> (sched_row \<Rightarrow> sched_row) \<Rightarrow> sched_row list \<Rightarrow> sched_row list" where
  "set_row env i f = map (\<lambda>r. if c_id r = i then touch env r (f r) else r)"

definition set_exec ::
  "string \<Rightarrow> (schedule_execution \<Rightarrow> schedule_execution) \<Rightarrow> schedule_execution list \<Rightarrow> schedule_execution list" where
  "set_exec i f = map (\<lambda>x. if ex_ID x = i then f x else x)"

lemma on_db_frame [effects]:
  "ss_callbacks (snd (on_db f s)) = ss_callbacks s"
  "ss_running (snd (on_db f s)) = ss_running s"
  "ss_db (snd (on_db f s)) = snd (f (ss_db s))"
  "fst (on_db f s) = fst (f (ss_db s))"
  by (simp_all add: on_db_def split: prod.split)

lemma on_db_pair: "on_db f s = (fst (f (ss_db s)), s\<lparr>ss_db := snd (f (ss_db s))\<rparr>)"
  by (simp add: on_db_def split: prod.split)

lemma no_faults_call: "no_faults env \<Longrightarrow> db_call env f db = f (db\<lparr>db_calls := Suc (db_calls db)\<rparr>)"
  by (simp add: db_call_def no_faults_def)

lemma statement_result [effects]:
  assumes "no_faults env"
  shows "fst (UpdateScheduleStatus env i st db) = Inr ()"
    "fst (UpdateScheduleNextRun env i t st db) = Inr ()"
    "fst (PauseSchedule env i b db) = Inr ()"
    "fst (UpdateExecution env i st l a e m d db) = Inr ()"
    "fst (GetSchedule env i db) = Inr (map_option scanScheduledTest (find (\<lambda>r. c_id r = i) (db_schedules db)))"
    "fst (CountConsecutiveFailures env i db) = Inr (int (consecutive_failures i db))"
    "fst (ListSchedules env db) = Inr (map scanScheduledTest (sort_key c_scheduled_at (db_schedules db)))"
    "fst (GetDueSchedule env db) =
      Inr (case sort_key c_scheduled_at (filter (is_due (env_now env)) (db_schedules db)) of
             [] \<Rightarrow> None | r # _ \<Rightarrow> Some (scanScheduledTest r))"
  using assms
  by (simp_all add: db_ops no_faults_call consecutive_failures_def executions_of_def)

lemma statement_schedules [effects]:
  assumes "no_faults env"
  shows "db_schedules (snd (UpdateScheduleStatus env i st db)) = set_row env i (\<lambda>r. r\<lparr>c_status := st\<rparr>) (db_schedules db)"
    "db_schedules (snd (UpdateScheduleNextRun env i t st db)) =
      set_row env i (\<lambda>r. r\<lparr>c_scheduled_at := t, c_status := st\<rparr>) (db_schedules db)"
    "db_schedules (snd (PauseSchedule env i b db)) = set_row env i (\<lambda>r. r\<lparr>c_paused := b\<rparr>) (db_schedules db)"
    "db_schedules (snd (ResetStaleRunningSchedules env db)) =
      map (\<lambda>r. if c_status r = ''running'' then touch env r (r\<lparr>c_status := ''scheduled''\<rparr>) else r) (db_schedules db)"
  using assms
  by (simp_all add: db_ops no_faults_call snd_case_pair set_row_def schedules.rows_upd)

lemma statement_executions [effects]:
  assumes "no_faults env"
  shows "db_executions (snd (UpdateExecution env i st l a e m d db)) =
      set_exec i (\<lambda>x. x\<lparr>ex_Status := st, ex_LoadTestID := l, ex_StartedAt := a, ex_EndedAt := e,
        ex_ErrorMessage := m, ex_ErrorDetail := d\<rparr>) (db_executions db)"
    "db_executions (snd (MarkStaleScheduleExecutions env db)) =
      map (\<lambda>x. if is_stale_execution x
               then x\<lparr>ex_Status := ''failed'', ex_ErrorMessage := Some interrupted_message\<rparr> else x) (db_executions db)"
  using assms
  by (simp_all add: db_ops no_faults_call snd_case_pair set_exec_def executions.rows_upd)

text \<open>The other table is unchanged, also when the statement fails.\<close>

lemma db_call_frame:
  assumes "\<And>d. p (d\<lparr>db_calls := n\<rparr>) = p d" "\<And>d. p (snd (f d)) = p d"
    "\<And>d n. p (d\<lparr>db_calls := n\<rparr>) = p d"
  shows "p (snd (db_call env f db)) = p db"
  using assms by (auto simp: db_call_def Let_def split: option.split)

lemma statement_frame [effects]:
  "db_executions (snd (UpdateScheduleStatus env i st db)) = db_executions db"
  "db_executions (snd (UpdateScheduleNextRun env i t st db)) = db_executions db"
  "db_executions (snd (PauseSchedule env i b db)) = db_executions db"
  "db_executions (snd (ResetStaleRunningSchedules env db)) = db_executions db"
  "db_schedules (snd (UpdateExecution env i st l a e m d db)) = db_schedules db"
  "db_schedules (snd (MarkStaleScheduleExecutions env db)) = db_schedules db"
  "db_schedules (snd (CreateExecution env x db)) = db_schedules db"
  unfolding db_ops snd_case_pair by (rule db_call_frame; simp)+

lemma CreateExecution_fresh [effects]:
  assumes "no_faults env" "ex_ID x \<notin> ex_ID ` set (db_executions db)" "ex_ScheduleID x \<in> c_id ` set (db_schedules db)"
  shows "fst (CreateExecution env x db) = Inr ()"
    "db_executions (snd (CreateExecution env x db)) = db_executions db @ [x\<lparr>ex_CreatedAt := stamp env\<rparr>]"
  using assms by (simp_all add: CreateExecution_def no_faults_call)

subsection \<open>Rows by id\<close>

abbreviation row_by :: "string \<Rightarrow> sched_row list \<Rightarrow> sched_row option" where
  "row_by i rows \<equiv> find (\<lambda>r. c_id r = i) rows"

abbreviation exec_by :: "string \<Rightarrow> schedule_execution list \<Rightarrow> schedule_execution option" where
  "exec_by i xs \<equiv> find (\<lambda>x. ex_ID x = i) xs"

lemma row_by_set_row:
  assumes "\<And>r. c_id (f r) = c_id r"
  shows "row_by j (set_row env i f rows) =
    map_option (\<lambda>r. if c_id r = i then touch env r (f r) else r) (row_by j rows)"
  using assms by (induction rows) (auto simp: set_row_def)

lemma row_by_set_row_same:
  assumes "row_by i rows = Some r" "\<And>r. c_id (f r) = c_id r"
  shows "row_by i (set_row env i f rows) = Some (touch env r (f r))"
  using assms find_Some_set [OF assms(1)] by (simp add: row_by_set_row)

lemma row_by_set_row_other:
  assumes "i \<noteq> j" "\<And>r. c_id (f r) = c_id r"
  shows "row_by j (set_row env i f rows) = row_by j rows"
proof -
  have "map_option (\<lambda>r. if c_id r = i then touch env r (f r) else r) (row_by j rows) = row_by j rows"
    using assms(1) by (cases "row_by j rows") (auto dest: find_Some_set)
  then show ?thesis using assms(2) by (simp add: row_by_set_row)
qed

lemma exec_by_set_exec:
  assumes "\<And>x. ex_ID (f x) = ex_ID x"
  shows "exec_by j (set_exec i f xs) = map_option (\<lambda>x. if ex_ID x = i then f x else x) (exec_by j xs)"
  using assms by (induction xs) (auto simp: set_exec_def)

lemma exec_by_set_exec_same:
  assumes "exec_by i xs = Some x" "\<And>x. ex_ID (f x) = ex_ID x"
  shows "exec_by i (set_exec i f xs) = Some (f x)"
  using assms find_Some_set [OF assms(1)] by (simp add: exec_by_set_exec)

lemma exec_by_set_exec_other:
  assumes "i \<noteq> j" "\<And>x. ex_ID (f x) = ex_ID x"
  shows "exec_by j (set_exec i f xs) = exec_by j xs"
proof -
  have "map_option (\<lambda>x. if ex_ID x = i then f x else x) (exec_by j xs) = exec_by j xs"
    using assms(1) by (cases "exec_by j xs") (auto dest: find_Some_set)
  then show ?thesis using assms(2) by (simp add: exec_by_set_exec)
qed

subsection \<open>Advancing\<close>

abbreviation next_included :: "sched_env \<Rightarrow> sched_row \<Rightarrow> time res" where
  "next_included env r \<equiv>
    NextIncludedOccurrence (env_tz env) (c_scheduled_at r) (c_recurrence_type r) (c_timezone r)
      (c_recurrence_end r) (decodeSkippedOccurrences (c_skipped_occurrences r))"

text \<open>Advancing never touches executions, callbacks or the loop, also when statements fail.\<close>

lemma advance_frame [effects]:
  "xrows (advanceSchedule env i failed s) = xrows s"
  "ss_callbacks (advanceSchedule env i failed s) = ss_callbacks s"
  "ss_running (advanceSchedule env i failed s) = ss_running s"
  by (simp_all add: advanceSchedule_def on_db_pair Let_def effects split: sum.split option.split prod.split)

lemma advance_missing:
  assumes "no_faults env" "row_by i (srows s) = None"
  shows "srows (advanceSchedule env i failed s) = srows s"
  using assms by (simp add: advanceSchedule_def on_db_pair effects)

lemma advance_once:
  assumes "no_faults env" "row_by i (srows s) = Some r" "c_recurrence_type r = ''once''"
  shows "srows (advanceSchedule env i failed s) =
    set_row env i (\<lambda>r. r\<lparr>c_status := (if failed then ''failed'' else ''completed'')\<rparr>) (srows s)"
  using assms by (simp add: advanceSchedule_def on_db_pair effects)

lemma advance_pause:
  assumes "no_faults env" "row_by i (srows s) = Some r" "c_recurrence_type r \<noteq> ''once''"
    and "failed" "3 \<le> consecutive_failures i (ss_db s)"
  shows "srows (advanceSchedule env i failed s) =
    set_row env i (\<lambda>r. r\<lparr>c_status := ''scheduled''\<rparr>) (set_row env i (\<lambda>r. r\<lparr>c_paused := True\<rparr>) (srows s))"
  using assms
  by (simp add: advanceSchedule_def on_db_pair effects consecutive_failures_def executions_of_def)

lemma advance_next:
  assumes "no_faults env" "row_by i (srows s) = Some r" "c_recurrence_type r \<noteq> ''once''"
    and "\<not> (failed \<and> 3 \<le> consecutive_failures i (ss_db s))"
  shows "srows (advanceSchedule env i failed s) =
    (case next_included env r of
       Inl _ \<Rightarrow> set_row env i (\<lambda>r. r\<lparr>c_status := ''failed''\<rparr>) (srows s)
     | Inr t \<Rightarrow>
        if is_zero t then set_row env i (\<lambda>r. r\<lparr>c_status := ''completed''\<rparr>) (srows s)
        else set_row env i (\<lambda>r. r\<lparr>c_scheduled_at := t, c_status := ''scheduled''\<rparr>) (srows s))"
  using assms
  by (cases failed)
    (simp_all add: advanceSchedule_def on_db_pair effects consecutive_failures_def executions_of_def
      split: sum.split)

text \<open>In every case: the schedule is not left running, and the others are unchanged.\<close>

lemma advance_not_running:
  assumes "no_faults env" "row_by i (srows (advanceSchedule env i failed s)) = Some r'"
  shows "c_status r' \<noteq> ''running''"
proof (cases "row_by i (srows s)")
  case None
  then show ?thesis using assms advance_missing [OF assms(1) None] by simp
next
  case (Some r)
  have set: "row_by i (set_row env i f (srows s)) = Some (touch env r (f r))" if "\<And>r. c_id (f r) = c_id r" for f
    using Some that by (rule row_by_set_row_same)
  consider "c_recurrence_type r = ''once''"
    | "c_recurrence_type r \<noteq> ''once''" "failed" "3 \<le> consecutive_failures i (ss_db s)"
    | "c_recurrence_type r \<noteq> ''once''" "\<not> (failed \<and> 3 \<le> consecutive_failures i (ss_db s))" by blast
  then show ?thesis
  proof cases
    case 1
    then show ?thesis using assms(2) advance_once [OF assms(1) Some 1] set
      by (auto split: if_splits)
  next
    case 2
    note p = set [of "\<lambda>r. r\<lparr>c_paused := True\<rparr>", simplified]
    from assms(2) [unfolded advance_pause [OF assms(1) Some 2]] row_by_set_row_same [OF p]
    show ?thesis by auto
  next
    case 3
    then show ?thesis using assms(2) advance_next [OF assms(1) Some 3] set
      by (auto split: sum.splits if_splits)
  qed
qed

lemma advance_other:
  assumes "no_faults env" "j \<noteq> i"
  shows "row_by j (srows (advanceSchedule env i failed s)) = row_by j (srows s)"
proof (cases "row_by i (srows s)")
  case None
  then show ?thesis using advance_missing [OF assms(1) None] by simp
next
  case (Some r)
  have set: "row_by j (set_row env i f rows) = row_by j rows" if "\<And>r. c_id (f r) = c_id r" for f rows
    using assms(2) that by (intro row_by_set_row_other) auto
  consider "c_recurrence_type r = ''once''"
    | "c_recurrence_type r \<noteq> ''once''" "failed" "3 \<le> consecutive_failures i (ss_db s)"
    | "c_recurrence_type r \<noteq> ''once''" "\<not> (failed \<and> 3 \<le> consecutive_failures i (ss_db s))" by blast
  then show ?thesis
  proof cases
    case 1
    then show ?thesis using advance_once [OF assms(1) Some 1] set by simp
  next
    case 2
    then show ?thesis using advance_pause [OF assms(1) Some 2] set by simp
  next
    case 3
    then show ?thesis using advance_next [OF assms(1) Some 3] set by (simp split: sum.split)
  qed
qed

lemma next_included_sound:
  assumes "next_included env r = Inr t" "\<not> is_zero t"
    and "\<And>l. env_tz env (c_timezone r) = Some l \<Longrightarrow> offsets_within 86400 l"
  shows "c_scheduled_at r < t" "\<not> isSkippedOccurrence t (decodeSkippedOccurrences (c_skipped_occurrences r))"
    "\<not> past_end (c_recurrence_end r) t"
proof -
  note search = assms(1) [unfolded NextIncludedOccurrence_def]
  have within: "offsets_within 86400 (loc_or_utc (env_tz env) (c_timezone r))"
    using assms(3) by (rule offsets_loc_or_utc) simp_all
  have later: "x < y" if "NextOccurrence (env_tz env) x (c_recurrence_type r) (c_timezone r) (c_recurrence_end r) = Inr y"
    "\<not> is_zero y" for x y
    using advance_later [OF within] NextOccurrence_cases(1) [OF that] by blast
  show "c_scheduled_at r < t" using included.found_later [OF search assms(2) later] by blast
  show "\<not> isSkippedOccurrence t (decodeSkippedOccurrences (c_skipped_occurrences r))"
    using included.found_accept [OF search assms(2)] .
  have "\<not> past_end re u"
    if "next_included_loop n load b rt tz re sk = Inr u" "\<not> is_zero u" for n load b rt tz re sk u
    using that
  proof (induction n arbitrary: b)
    case (Suc n)
    then show ?case
      by (auto split: sum.splits if_splits dest: NextOccurrence_cases(2))
  qed simp
  then show "\<not> past_end (c_recurrence_end r) t" using search assms(2) by blast
qed

subsection \<open>Recovery\<close>

text \<open>A row that recovery has nothing to do with: not running, and not due before the recovery.\<close>

definition settled :: "time \<Rightarrow> sched_row \<Rightarrow> bool" where
  "settled recoveryAt r \<longleftrightarrow>
    c_status r \<noteq> ''running'' \<and>
    (c_status r = ''scheduled'' \<and> \<not> c_paused r \<longrightarrow> recoveryAt \<le> c_scheduled_at r)"

lemma nextFuture_sound:
  assumes "nextFutureOccurrence load sch recoveryAt = Inr (t, False)"
  shows "recoveryAt \<le> t"
proof -
  have *: "next_future_loop n load sch recoveryAt c = Inr (t, False) \<Longrightarrow> recoveryAt \<le> t" for n c
    by (induction n arbitrary: c) (auto split: sum.splits if_splits)
  show ?thesis using assms unfolding nextFutureOccurrence_def by (rule *)
qed

lemma normalize_effect:
  assumes "no_faults env"
  shows "\<exists>f. srows (snd (normalizeOverdueSchedule env sch recoveryAt s)) = set_row env (st_ID sch) f (srows s)
    \<and> (\<forall>r. settled recoveryAt (f r))"
proof -
  have st: "\<exists>f. set_row env (st_ID sch) (\<lambda>r. r\<lparr>c_status := st\<rparr>) (srows s) = set_row env (st_ID sch) f (srows s)
    \<and> (\<forall>r. settled recoveryAt (f r))" if "st = ''failed'' \<or> st = ''completed''" for st
    using that by (intro exI [of _ "\<lambda>r. r\<lparr>c_status := st\<rparr>"]) (auto simp: settled_def)
  have nx: "\<exists>f. set_row env (st_ID sch) (\<lambda>r. r\<lparr>c_scheduled_at := t, c_status := ''scheduled''\<rparr>) (srows s) =
      set_row env (st_ID sch) f (srows s) \<and> (\<forall>r. settled recoveryAt (f r))" if "recoveryAt \<le> t" for t
    using that
    by (intro exI [of _ "\<lambda>r. r\<lparr>c_scheduled_at := t, c_status := ''scheduled''\<rparr>"]) (auto simp: settled_def)
  show ?thesis
    using assms nextFuture_sound [of "env_tz env" sch recoveryAt] st [of "''failed''"] st [of "''completed''"] nx
    by (auto simp: normalizeOverdueSchedule_def on_db_pair effects split: sum.split)
qed

lemma settled_touch [simp]: "settled t (touch env r r') = settled t r'"
  by (simp add: settled_def)

lemma normalize_all_settled:
  assumes "no_faults env"
    and "\<forall>r \<in> set (srows s). c_status r \<noteq> ''running'' \<and> (settled recoveryAt r \<or> scanScheduledTest r \<in> set schedules)"
  shows "\<forall>r \<in> set (srows (normalize_all env recoveryAt schedules s)). settled recoveryAt r"
  using assms(2)
proof (induction schedules arbitrary: s)
  case Nil
  then show ?case by simp
next
  case (Cons sch rest)
  show ?case
  proof (cases "shouldNormalizeOverdueSchedule sch recoveryAt")
    case False
    have "\<forall>r \<in> set (srows s). c_status r \<noteq> ''running'' \<and> (settled recoveryAt r \<or> scanScheduledTest r \<in> set rest)"
      using Cons.prems False by (auto simp: settled_def shouldNormalizeOverdueSchedule_def)
    then show ?thesis using Cons.IH False by simp
  next
    case True
    define s' where "s' = snd (normalizeOverdueSchedule env sch recoveryAt s)"
    obtain f where f: "srows s' = set_row env (st_ID sch) f (srows s)" "\<And>r. settled recoveryAt (f r)"
      using normalize_effect [OF assms(1)] unfolding s'_def by blast
    have "\<forall>r \<in> set (srows s'). c_status r \<noteq> ''running'' \<and> (settled recoveryAt r \<or> scanScheduledTest r \<in> set rest)"
    proof
      fix r assume "r \<in> set (srows s')"
      then consider r0 where "r = touch env r0 (f r0)" | "r \<in> set (srows s)" "c_id r \<noteq> st_ID sch"
        by (auto simp: f(1) set_row_def)
      then show "c_status r \<noteq> ''running'' \<and> (settled recoveryAt r \<or> scanScheduledTest r \<in> set rest)"
      proof cases
        case 1
        then have "settled recoveryAt r" using f(2) by simp
        then show ?thesis by (simp add: settled_def)
      next
        case 2
        then show ?thesis using Cons.prems by fastforce
      qed
    qed
    then show ?thesis using Cons.IH [of s'] True by (simp add: s'_def)
  qed
qed

lemma recover_settled:
  assumes "no_faults env"
  shows "\<forall>r \<in> set (srows (recover env s)). settled (env_now env) r"
proof -
  define s1 where "s1 = recoverStaleSchedules env (recoverStaleExecutions env s)"
  have nr: "\<forall>r \<in> set (srows s1). c_status r \<noteq> ''running''"
    using assms by (auto simp: s1_def recoverStaleSchedules_def recoverStaleExecutions_def effects)
  have "srows (recover env s) =
    srows (normalize_all env (env_now env) (map scanScheduledTest (sort_key c_scheduled_at (srows s1)))
      (s1\<lparr>ss_db := snd (ListSchedules env (ss_db s1))\<rparr>))"
    using assms by (simp add: recover_def recoverOverdueSchedules_def on_db_pair effects s1_def [symmetric])
  moreover have "\<forall>r \<in> set (srows (s1\<lparr>ss_db := snd (ListSchedules env (ss_db s1))\<rparr>)).
      c_status r \<noteq> ''running'' \<and> (settled (env_now env) r \<or>
        scanScheduledTest r \<in> set (map scanScheduledTest (sort_key c_scheduled_at (srows s1))))"
    using nr by auto
  ultimately show ?thesis using normalize_all_settled [OF assms] by presburger
qed

lemma normalize_frame [effects]:
  "xrows (snd (normalizeOverdueSchedule env sch t s)) = xrows s"
  "ss_callbacks (snd (normalizeOverdueSchedule env sch t s)) = ss_callbacks s"
  "ss_running (snd (normalizeOverdueSchedule env sch t s)) = ss_running s"
  by (simp_all add: normalizeOverdueSchedule_def on_db_pair effects split: sum.split)

lemma normalize_all_frame [effects]:
  "xrows (normalize_all env t schs s) = xrows s"
  "ss_callbacks (normalize_all env t schs s) = ss_callbacks s"
  "ss_running (normalize_all env t schs s) = ss_running s"
  by (induction schs arbitrary: s) (simp_all add: effects)

lemma recover_frame [effects]:
  "ss_callbacks (recover env s) = ss_callbacks s"
  "ss_running (recover env s) = ss_running s"
  by (simp_all add: recover_def recoverOverdueSchedules_def recoverStaleSchedules_def
      recoverStaleExecutions_def on_db_pair effects split: sum.split)

lemma recover_xrows:
  assumes "no_faults env"
  shows "xrows (recover env s) = map (\<lambda>x. if is_stale_execution x
      then x\<lparr>ex_Status := ''failed'', ex_ErrorMessage := Some interrupted_message\<rparr> else x) (xrows s)"
proof -
  have "xrows (recover env s) = xrows (recoverStaleExecutions env s)"
    by (simp add: recover_def recoverOverdueSchedules_def recoverStaleSchedules_def on_db_pair effects
        split: sum.split)
  also have "\<dots> = map (\<lambda>x. if is_stale_execution x
      then x\<lparr>ex_Status := ''failed'', ex_ErrorMessage := Some interrupted_message\<rparr> else x) (xrows s)"
    using assms by (simp add: recoverStaleExecutions_def effects)
  finally show ?thesis .
qed

lemma recover_executions:
  assumes "no_faults env"
  shows "\<forall>x \<in> set (xrows (recover env s)). ex_Status x \<notin> {''running'', ''pending''}"
  by (auto simp: recover_xrows [OF assms] is_stale_execution_def)

subsection \<open>Reachable states\<close>

text \<open>
  One process of the controller: it starts from any database with no callbacks, and then ticks and
  completions happen in any order, in any environment, with statements failing at will. A UUID drawn
  for a tick is new.
\<close>

inductive sched_step :: "sched_state \<Rightarrow> sched_state \<Rightarrow> bool" where
  step_tick: "env_uuid env \<noteq> [] \<Longrightarrow> env_uuid env \<notin> ex_ID ` set (xrows s) \<Longrightarrow>
    env_uuid env \<notin> fst ` set (ss_callbacks s) \<Longrightarrow> sched_step s (tick env svc exec activeID s)"
| step_complete: "sched_step s (OnTestComplete env pick testID status errMsg s)"
| step_stop: "sched_step s (Stop_scheduler s)"

inductive sched_reachable :: "sched_state \<Rightarrow> bool" where
  reach_start: "wf_db db \<Longrightarrow> sched_reachable (Start_scheduler env (New_scheduler db))"
| reach_step: "sched_reachable s \<Longrightarrow> sched_step s s' \<Longrightarrow> sched_reachable s'"

inductive_cases sched_stepE: "sched_step s s'"

definition callback_ok :: "schedule_execution list \<Rightarrow> string \<times> string \<Rightarrow> bool" where
  "callback_ok xs p \<longleftrightarrow>
    (\<exists>x \<in> set xs. ex_ID x = fst p \<and> ex_ScheduleID x = snd p \<and> ex_Status x = ''running'')"

definition sched_inv :: "sched_state \<Rightarrow> bool" where
  "sched_inv s \<longleftrightarrow>
    wf_db (ss_db s) \<and> distinct (map fst (ss_callbacks s)) \<and> [] \<notin> fst ` set (ss_callbacks s) \<and>
    (\<forall>p \<in> set (ss_callbacks s). callback_ok (xrows s) p)"

lemma wf_query: "wf_db d \<Longrightarrow> wf_db (d\<lparr>db_calls := n\<rparr>)"
  by simp

lemmas wf_ops = wf_CreateSchedule wf_UpdateSchedule wf_UpdateScheduleStatus wf_UpdateScheduleNextRun
  wf_PauseSchedule wf_DeleteSchedule wf_CreateExecution wf_UpdateExecution wf_MarkStale wf_ResetStale

lemma wf_advance: "wf_db (ss_db s) \<Longrightarrow> wf_db (ss_db (advanceSchedule env i failed s))"
  by (auto simp: advanceSchedule_def on_db_pair Let_def intro!: wf_ops split: sum.split option.split prod.split)

lemma wf_normalize: "wf_db (ss_db s) \<Longrightarrow> wf_db (ss_db (snd (normalizeOverdueSchedule env sch t s)))"
  by (auto simp: normalizeOverdueSchedule_def on_db_pair intro!: wf_ops split: sum.split)

lemma wf_normalize_all: "wf_db (ss_db s) \<Longrightarrow> wf_db (ss_db (normalize_all env t schs s))"
  by (induction schs arbitrary: s) (auto intro: wf_normalize)

lemma wf_recover: "wf_db (ss_db s) \<Longrightarrow> wf_db (ss_db (recover env s))"
  by (auto simp: recover_def recoverOverdueSchedules_def recoverStaleSchedules_def
      recoverStaleExecutions_def on_db_pair intro!: wf_ops wf_normalize_all split: sum.split)

lemma UpdateExecution_rows:
  "db_executions (snd (UpdateExecution env i st l a e m d db)) = db_executions db \<or>
   db_executions (snd (UpdateExecution env i st l a e m d db)) =
     set_exec i (\<lambda>x. x\<lparr>ex_Status := st, ex_LoadTestID := l, ex_StartedAt := a, ex_EndedAt := e,
       ex_ErrorMessage := m, ex_ErrorDetail := d\<rparr>) (db_executions db)"
  by (auto simp: UpdateExecution_def db_call_def Let_def set_exec_def executions.rows_upd split: option.split)

text \<open>Updating the execution of a callback that is no longer registered keeps the invariant of the others.\<close>

lemma callback_ok_set_exec:
  assumes "callback_ok xs p" "fst p \<noteq> i"
  shows "callback_ok (set_exec i f xs) p"
  using assms by (force simp: callback_ok_def set_exec_def)

lemma callback_ok_set_exec_running:
  assumes "callback_ok xs p" "\<And>x. ex_ID (f x) = ex_ID x \<and> ex_ScheduleID (f x) = ex_ScheduleID x \<and> ex_Status (f x) = ''running''"
  shows "callback_ok (set_exec i f xs) p"
proof -
  obtain x where x: "x \<in> set xs" "ex_ID x = fst p" "ex_ScheduleID x = snd p" "ex_Status x = ''running''"
    using assms(1) by (auto simp: callback_ok_def)
  then have "(if ex_ID x = i then f x else x) \<in> set (set_exec i f xs)" by (simp add: set_exec_def)
  with x show ?thesis unfolding callback_ok_def by (rule_tac bexI) (auto simp: assms(2))
qed

lemma callback_ok_append: "callback_ok xs p \<Longrightarrow> callback_ok (xs @ ys) p"
  by (auto simp: callback_ok_def)

lemma callback_ok_update:
  assumes "callback_ok (db_executions db) p" "fst p \<noteq> i"
  shows "callback_ok (db_executions (snd (UpdateExecution env i st l a e m d db))) p"
  using UpdateExecution_rows [of env i st l a e m d db] callback_ok_set_exec [OF assms] assms(1) by metis

lemma callback_ok_update_running:
  assumes "callback_ok (db_executions db) p"
  shows "callback_ok (db_executions (snd (UpdateExecution env i ''running'' l a e m d db))) p"
proof -
  have "callback_ok (set_exec i (\<lambda>x. x\<lparr>ex_Status := ''running'', ex_LoadTestID := l, ex_StartedAt := a,
      ex_EndedAt := e, ex_ErrorMessage := m, ex_ErrorDetail := d\<rparr>) (db_executions db)) p"
    using assms by (rule callback_ok_set_exec_running) simp
  with UpdateExecution_rows [of env i "''running''" l a e m d db] assms show ?thesis by presburger
qed

lemma OnTestComplete_eq:
  assumes "takeNextCallback pick s = (p, s1)" "fst p \<noteq> []"
  shows "OnTestComplete env pick testID status errMsg s =
    advanceSchedule env (snd p) (status \<noteq> ''completed'')
      (s1\<lparr>ss_db := snd (UpdateExecution env (fst p)
          (if status \<noteq> ''completed'' then ''failed'' else ''completed'') (Some testID) None
          (Some (env_now env)) (if status \<noteq> ''completed'' then Some errMsg else None) None (ss_db s1))\<rparr>)"
  using assms
  by (cases p) (simp add: OnTestComplete_def nextCompletion_def applyCompletion_def
      completeExecution_def on_db_pair)

lemma takeNextCallback_some:
  assumes "ss_callbacks s \<noteq> []"
  obtains p where "p \<in> set (ss_callbacks s)"
    "takeNextCallback pick s = (p, s\<lparr>ss_callbacks := AList.delete (fst p) (ss_callbacks s)\<rparr>)"
proof
  let ?p = "ss_callbacks s ! (pick mod length (ss_callbacks s))"
  show "?p \<in> set (ss_callbacks s)" using assms by (intro nth_mem) simp
  show "takeNextCallback pick s = (?p, s\<lparr>ss_callbacks := AList.delete (fst ?p) (ss_callbacks s)\<rparr>)"
    using assms by (cases "ss_callbacks s") (simp_all add: takeNextCallback_def Let_def)
qed

lemma inv_delete_callback:
  assumes "sched_inv s"
  shows "distinct (map fst (AList.delete e (ss_callbacks s)))" "[] \<notin> fst ` set (AList.delete e (ss_callbacks s))"
    "q \<in> set (AList.delete e (ss_callbacks s)) \<Longrightarrow>
      callback_ok (db_executions (snd (UpdateExecution env e st l a b m d (ss_db s)))) q"
proof -
  show "distinct (map fst (AList.delete e (ss_callbacks s)))"
    using assms by (simp add: sched_inv_def distinct_delete)
  show "[] \<notin> fst ` set (AList.delete e (ss_callbacks s))"
    using assms by (auto simp: sched_inv_def AList.delete_eq)
  assume "q \<in> set (AList.delete e (ss_callbacks s))"
  then have q: "q \<in> set (ss_callbacks s)" "fst q \<noteq> e" by (auto simp: AList.delete_eq)
  then have "callback_ok (xrows s) q" using assms by (simp add: sched_inv_def)
  then show "callback_ok (db_executions (snd (UpdateExecution env e st l a b m d (ss_db s)))) q"
    using q(2) by (rule callback_ok_update)
qed

lemma complete_inv:
  assumes "sched_inv s"
  shows "sched_inv (OnTestComplete env pick testID status errMsg s)"
proof (cases "ss_callbacks s = []")
  case True
  then show ?thesis using assms by (simp add: OnTestComplete_def nextCompletion_def takeNextCallback_def)
next
  case False
  then obtain p where p: "p \<in> set (ss_callbacks s)"
    "takeNextCallback pick s = (p, s\<lparr>ss_callbacks := AList.delete (fst p) (ss_callbacks s)\<rparr>)"
    by (rule takeNextCallback_some)
  then have ne: "fst p \<noteq> []" using assms by (force simp: sched_inv_def)
  show ?thesis unfolding OnTestComplete_eq [OF p(2) ne]
    using assms inv_delete_callback [OF assms]
    by (auto simp: sched_inv_def effects intro!: wf_advance wf_ops)
qed

lemma distinct_map_fst_update:
  "distinct (map fst cbs) \<Longrightarrow> distinct (map fst (AList.update k v cbs))"
  by (rule distinct_update)

lemma set_update_new: "k \<notin> fst ` set cbs \<Longrightarrow> set (AList.update k v cbs) = insert (k, v) (set cbs)"
  by (induction cbs) auto

text \<open>Beginning an execution: either nothing is registered, or the new execution is.\<close>

lemma begin_inv:
  assumes inv: "sched_inv s" and uuid: "env_uuid env \<noteq> []" "env_uuid env \<notin> fst ` set (ss_callbacks s)"
    and "beginScheduledExecution env sch s = (r, s')"
  shows "sched_inv s'" "r = Inr start \<Longrightarrow> xs_execID start = env_uuid env"
proof -
  define s1 where "s1 = snd (markScheduleRunning env (st_ID sch) s)"
  have s1: "wf_db (ss_db s1)" "ss_callbacks s1 = ss_callbacks s" "xrows s1 = xrows s"
    using inv by (auto simp: s1_def markScheduleRunning_def sched_inv_def effects intro: wf_ops)
  then have inv1: "sched_inv s1" using inv by (simp add: sched_inv_def)
  obtain q s2 where q: "createRunningExecution env sch s1 = (q, s2)"
    by (cases "createRunningExecution env sch s1")
  have frame: "wf_db (ss_db s2)" "ss_callbacks s2 = ss_callbacks s"
    using q s1 by (auto simp: createRunningExecution_def on_db_pair intro!: wf_ops split: sum.splits)
  have rows: "\<exists>ys. xrows s2 = xrows s @ ys \<and>
      (\<forall>e t. q = Inr (e, t) \<longrightarrow> e = env_uuid env \<and> callback_ok ys (env_uuid env, st_ID sch))"
    using q s1(3)
    by (auto simp: createRunningExecution_def on_db_pair CreateExecution_def db_call_def Let_def
        callback_ok_def split: sum.splits option.splits if_splits)
  then obtain ys where ys: "xrows s2 = xrows s @ ys"
    "\<And>e t. q = Inr (e, t) \<Longrightarrow> e = env_uuid env \<and> callback_ok ys (env_uuid env, st_ID sch)" by blast
  have inv2: "sched_inv s2"
    using inv frame by (auto simp: sched_inv_def ys(1) intro: callback_ok_append)
  have "sched_inv s' \<and> (r = Inr start \<longrightarrow> xs_execID start = env_uuid env)"
  proof (cases "fst (markScheduleRunning env (st_ID sch) s)")
    case (Inl e)
    then have "s' = s1" "r = Inl e" using assms(4)
      by (auto simp: beginScheduledExecution_def s1_def split: prod.splits sum.splits)
    with inv1 show ?thesis by simp
  next
    case (Inr u)
    then have mk: "markScheduleRunning env (st_ID sch) s = (Inr u, s1)" by (simp add: s1_def prod_eq_iff)
    show ?thesis
    proof (cases q)
      case (Inl e)
      then have "s' = resetScheduleToScheduled env (st_ID sch) s2" "r = Inl e" using assms(4) mk q
        by (auto simp: beginScheduledExecution_def)
      with inv2 show ?thesis
        by (auto simp: sched_inv_def resetScheduleToScheduled_def effects intro: wf_ops)
    next
      case (Inr et)
      obtain e t where et: "et = (e, t)" by (cases et)
      note y = ys(2) [OF Inr [unfolded et]]
      have s': "s' = registerCallback (env_uuid env) (st_ID sch) s2" and r: "r = Inr start \<longrightarrow> xs_execID start = env_uuid env"
        using assms(4) mk q Inr et y by (auto simp: beginScheduledExecution_def)
      have "callback_ok (xrows s2) (env_uuid env, st_ID sch)"
        using y by (auto simp: ys(1) callback_ok_def)
      then show ?thesis using inv2 uuid frame(2) r
        by (auto simp: s' registerCallback_def sched_inv_def set_update_new distinct_map_fst_update)
    qed
  qed
  then show "sched_inv s'" "r = Inr start \<Longrightarrow> xs_execID start = env_uuid env" by auto
qed

lemma fail_inv:
  assumes "sched_inv s"
  shows "sched_inv (failScheduledExecution env start err s)"
  using assms inv_delete_callback [OF assms]
  by (auto simp: failScheduledExecution_def failExecution_def clearCallback_def sched_inv_def effects
      on_db_pair Let_def intro!: wf_advance wf_ops)

lemma tick_inv:
  assumes "sched_inv s" "env_uuid env \<noteq> []" "env_uuid env \<notin> fst ` set (ss_callbacks s)"
  shows "sched_inv (tick env svc exec activeID s)"
proof -
  define s1 where "s1 = snd (nextDueSchedule env s)"
  have s1: "sched_inv s1" "ss_callbacks s1 = ss_callbacks s"
    using assms(1) by (auto simp: s1_def nextDueSchedule_def sched_inv_def effects)
  have exec: "sched_inv (executeSchedule env svc exec sch s1)" for sch
  proof -
    obtain r s2 where b: "beginScheduledExecution env sch s1 = (r, s2)"
      by (cases "beginScheduledExecution env sch s1")
    note i2 = begin_inv(1) [OF s1(1) assms(2) assms(3) [folded s1(2)] b]
    have "sched_inv (snd (markExecutionRunning env e t a s2))" for e t a
      using i2 by (auto simp: markExecutionRunning_def sched_inv_def effects intro!: wf_ops callback_ok_update_running)
    then show ?thesis using i2
      by (auto simp: executeSchedule_def b intro: fail_inv split: sum.split)
  qed
  show ?thesis
    using assms(1) s1 exec
    by (auto simp: tick_def s1_def split: prod.splits sum.splits option.splits)
qed

lemma stop_inv: "sched_inv s \<Longrightarrow> sched_inv (Stop_scheduler s)"
  by (simp add: Stop_scheduler_def sched_inv_def)

lemma reachable_inv: "sched_reachable s \<Longrightarrow> sched_inv s"
proof (induction rule: sched_reachable.induct)
  case (reach_start db env)
  have "wf_db (ss_db (recover env (New_scheduler db\<lparr>ss_running := True\<rparr>)))"
    by (rule wf_recover) (simp add: New_scheduler_def reach_start)
  then show ?case by (simp add: Start_scheduler_def New_scheduler_def sched_inv_def effects)
next
  case (reach_step s s')
  then show ?case
    by (auto elim!: sched_stepE intro: tick_inv complete_inv stop_inv)
qed

subsection \<open>A tick that finds a due schedule\<close>

text \<open>The due schedule with the earliest time.\<close>

definition earliest_due :: "time \<Rightarrow> sched_row list \<Rightarrow> sched_row \<Rightarrow> bool" where
  "earliest_due now rows r \<longleftrightarrow>
    r \<in> set rows \<and> is_due now r \<and>
    list_all (\<lambda>r'. is_due now r' \<longrightarrow> r' = r \<or> c_scheduled_at r < c_scheduled_at r') rows"

lemma hd_sort_key_min:
  fixes f :: "'a \<Rightarrow> int"
  assumes "r \<in> set xs" "\<And>x. x \<in> set xs \<Longrightarrow> x = r \<or> f r < f x"
  obtains ys where "sort_key f xs = r # ys"
proof (cases "sort_key f xs")
  case Nil
  then show ?thesis using assms(1) by (metis empty_iff empty_set set_sort)
next
  case (Cons h ys)
  have "sorted (map f (h # ys))" using Cons sorted_sort_key [of f xs] by metis
  moreover have "r \<in> set (h # ys)" "h \<in> set xs" using Cons assms(1) by (metis set_sort list.set_intros(1))+
  ultimately have "f h \<le> f r" by auto
  with assms(2) [OF \<open>h \<in> set xs\<close>] have "h = r" by auto
  with Cons that show ?thesis by blast
qed

lemma GetDue_earliest:
  assumes "no_faults env" "earliest_due (env_now env) (db_schedules db) r"
  shows "fst (GetDueSchedule env db) = Inr (Some (scanScheduledTest r))"
proof -
  let ?xs = "filter (is_due (env_now env)) (db_schedules db)"
  have "r \<in> set ?xs" "\<And>x. x \<in> set ?xs \<Longrightarrow> x = r \<or> c_scheduled_at r < c_scheduled_at x"
    using assms(2) by (auto simp: earliest_due_def list_all_iff)
  then obtain ys where "sort_key c_scheduled_at ?xs = r # ys" by (rule hd_sort_key_min)
  then show ?thesis using assms(1) by (simp add: effects)
qed

definition fresh_execution :: "sched_env \<Rightarrow> sched_row \<Rightarrow> schedule_execution" where
  "fresh_execution env r =
    \<lparr>ex_ID = env_uuid env, ex_ScheduleID = c_id r, ex_LoadTestID = None, ex_Status = ''running'',
     ex_ScheduledAt = c_scheduled_at r, ex_StartedAt = Some (env_now env), ex_EndedAt = None,
     ex_ErrorMessage = None, ex_ErrorDetail = None, ex_CreatedAt = stamp env\<rparr>"

lemma set_row_ids: "(\<And>r. c_id (f r) = c_id r) \<Longrightarrow> c_id ` set (set_row env i f rows) = c_id ` set rows"
proof -
  assume "\<And>r. c_id (f r) = c_id r"
  then have "map c_id (set_row env i f rows) = map c_id rows" by (simp add: set_row_def)
  then show ?thesis by (metis set_map)
qed

lemma begin_effect:
  assumes "no_faults env" "c_id r \<in> c_id ` set (srows s)" "env_uuid env \<notin> ex_ID ` set (xrows s)"
    and "beginScheduledExecution env (scanScheduledTest r) s = (q, s')"
  shows "q = Inr \<lparr>xs_execID = env_uuid env, xs_scheduleID = c_id r, xs_startedAt = env_now env\<rparr>"
    "srows s' = set_row env (c_id r) (\<lambda>r. r\<lparr>c_status := ''running''\<rparr>) (srows s)"
    "xrows s' = xrows s @ [fresh_execution env r]"
    "ss_callbacks s' = AList.update (env_uuid env) (c_id r) (ss_callbacks s)"
proof -
  define s1 where "s1 = snd (on_db (UpdateScheduleStatus env (c_id r) ''running'') s)"
  have s1: "srows s1 = set_row env (c_id r) (\<lambda>r. r\<lparr>c_status := ''running''\<rparr>) (srows s)"
    "xrows s1 = xrows s" "ss_callbacks s1 = ss_callbacks s"
    using assms(1) by (simp_all add: s1_def effects)
  have mk: "markScheduleRunning env (c_id r) s = (Inr (), s1)"
    using assms(1) by (simp add: markScheduleRunning_def s1_def prod_eq_iff effects)
  let ?x = "\<lparr>ex_ID = env_uuid env, ex_ScheduleID = c_id r, ex_LoadTestID = None, ex_Status = ''running'',
     ex_ScheduledAt = c_scheduled_at r, ex_StartedAt = Some (env_now env), ex_EndedAt = None,
     ex_ErrorMessage = None, ex_ErrorDetail = None, ex_CreatedAt = zero_time\<rparr>"
  have fresh: "ex_ID ?x \<notin> ex_ID ` set (xrows s1)" using assms(3) s1(2) by simp
  have fk: "ex_ScheduleID ?x \<in> c_id ` set (srows s1)" using assms(2) s1(1) by (simp add: set_row_ids)
  note cr = CreateExecution_fresh [OF assms(1) fresh fk]
  have s': "s' = registerCallback (env_uuid env) (c_id r) (s1\<lparr>ss_db := snd (CreateExecution env ?x (ss_db s1))\<rparr>)"
    and "q = Inr \<lparr>xs_execID = env_uuid env, xs_scheduleID = c_id r, xs_startedAt = env_now env\<rparr>"
    using assms(4) cr(1) by (auto simp: beginScheduledExecution_def mk createRunningExecution_def on_db_pair)
  then show "q = Inr \<lparr>xs_execID = env_uuid env, xs_scheduleID = c_id r, xs_startedAt = env_now env\<rparr>" by simp
  show "srows s' = set_row env (c_id r) (\<lambda>r. r\<lparr>c_status := ''running''\<rparr>) (srows s)"
    "xrows s' = xrows s @ [fresh_execution env r]"
    "ss_callbacks s' = AList.update (env_uuid env) (c_id r) (ss_callbacks s)"
    using s1 cr(2) by (simp_all add: s' registerCallback_def effects fresh_execution_def)
qed

text \<open>Updating the execution that was appended last.\<close>

lemma set_exec_last:
  assumes "ex_ID x \<notin> ex_ID ` set xs"
  shows "set_exec (ex_ID x) f (xs @ [x]) = xs @ [f x]"
proof -
  have "map (\<lambda>y. if ex_ID y = ex_ID x then f y else y) xs = xs"
    using assms by (intro map_idI) (auto simp: image_iff)
  then show ?thesis by (simp add: set_exec_def)
qed

lemma delete_update_fresh:
  "k \<notin> fst ` set cbs \<Longrightarrow> AList.delete k (AList.update k v cbs) = cbs"
proof (induction cbs)
  case (Cons p cbs)
  then show ?case by (cases p) (auto simp: AList.delete_eq filter_id_conv)
qed (simp add: AList.delete_eq)

lemma tick_execute:
  assumes "no_faults env" "earliest_due (env_now env) (srows s) r" "\<not> hasActiveTest activeID"
  obtains s1 where "tick env svc exec activeID s = executeSchedule env svc exec (scanScheduledTest r) s1"
    "srows s1 = srows s" "xrows s1 = xrows s" "ss_callbacks s1 = ss_callbacks s"
proof
  let ?s1 = "snd (nextDueSchedule env s)"
  have "nextDueSchedule env s = (Inr (Some (scanScheduledTest r)), ?s1)"
    using GetDue_earliest [OF assms(1,2)] by (simp add: nextDueSchedule_def prod_eq_iff effects)
  then show "tick env svc exec activeID s = executeSchedule env svc exec (scanScheduledTest r) ?s1"
    using assms(3) by (auto simp: tick_def split: prod.split)
qed (simp_all add: nextDueSchedule_def effects)

subsection \<open>Examples for the witnesses\<close>

text \<open>A daily schedule in UTC, and an environment whose statements do not fail.\<close>

definition demo_schedule :: "string \<Rightarrow> time \<Rightarrow> scheduled_test" where
  "demo_schedule i t =
    zero_scheduled_test\<lparr>st_ID := i, st_Name := ''nightly'', st_ScheduledAt := t,
      st_EstimatedDurationS := 90, st_Timezone := ''UTC'', st_RecurrenceType := ''daily'',
      st_Status := ''scheduled'', st_UserID := 7, st_Username := ''ada''\<rparr>"

definition demo_row :: "string \<Rightarrow> time \<Rightarrow> sched_row" where
  "demo_row i t = row_of (demo_schedule i t) 7 ''ada'' 0 0"

definition demo_env :: "time \<Rightarrow> sched_env" where
  "demo_env now = \<lparr>env_fault = (\<lambda>_. None), env_now = now, env_tz = (\<lambda>_. None), env_uuid = ''e1''\<rparr>"

definition demo_state :: "sched_row list \<Rightarrow> schedule_execution list \<Rightarrow> sched_state" where
  "demo_state rows xs =
    \<lparr>ss_db = \<lparr>db_schedules = rows, db_executions = xs, db_calls = 0\<rparr>, ss_callbacks = [], ss_running = True\<rparr>"

definition demo_execution :: "string \<Rightarrow> string \<Rightarrow> time \<Rightarrow> string \<Rightarrow> schedule_execution" where
  "demo_execution e i t st =
    \<lparr>ex_ID = e, ex_ScheduleID = i, ex_LoadTestID = None, ex_Status = st, ex_ScheduledAt = t,
     ex_StartedAt = Some t, ex_EndedAt = None, ex_ErrorMessage = None, ex_ErrorDetail = None,
     ex_CreatedAt = t\<rparr>"

lemma demo_env_simps [simp]:
  "no_faults (demo_env now)" "env_now (demo_env now) = now" "env_tz (demo_env now) = (\<lambda>_. None)"
  "env_uuid (demo_env now) = ''e1''"
  by (simp_all add: demo_env_def no_faults_def)

lemma demo_row_simps [simp]:
  "c_id (demo_row i t) = i" "c_status (demo_row i t) = ''scheduled''" "\<not> c_paused (demo_row i t)"
  "c_scheduled_at (demo_row i t) = t" "c_recurrence_type (demo_row i t) = ''daily''"
  "c_timezone (demo_row i t) = ''UTC''" "c_user_id (demo_row i t) = 7" "c_username (demo_row i t) = ''ada''"
  "c_recurrence_end (demo_row i t) = None" "c_skipped_occurrences (demo_row i t) = None"
  by (simp_all add: demo_row_def row_of_def demo_schedule_def zero_scheduled_test_def encodeSkippedOccurrences_def)

lemma demo_state_simps [simp]:
  "srows (demo_state rows xs) = rows" "xrows (demo_state rows xs) = xs" "ss_callbacks (demo_state rows xs) = []"
  by (simp_all add: demo_state_def)

lemma demo_request: "scheduleTestRequest svc (scanScheduledTest (demo_row i t)) = Inr (ToTestRequest (scanScheduledTest (demo_row i t)))"
  by (simp add: scheduleTestRequest_def scanScheduledTest_def demo_row_def row_of_def demo_schedule_def
      zero_scheduled_test_def applyAuthConfig_def zero_auth_config_def)

subsection \<open>Properties\<close>



text \<open>
  After the recovery at startup, when no statement fails, no execution is running or pending, no
  schedule is running, every schedule that is still to run (scheduled and not paused) lies at or after
  the time of the recovery, and no callback was added.
\<close>

theorem recovery_leaves_no_stale_state:
  assumes "no_faults env"
  shows "(\<forall>x \<in> set (xrows (recover env s)). ex_Status x \<noteq> ''running'' \<and> ex_Status x \<noteq> ''pending'') \<and>
    (\<forall>r \<in> set (srows (recover env s)). c_status r \<noteq> ''running'' \<and>
      (c_status r = ''scheduled'' \<and> \<not> c_paused r \<longrightarrow> env_now env \<le> c_scheduled_at r)) \<and>
    ss_callbacks (recover env s) = ss_callbacks s"
  using recover_settled [OF assms, of s] recover_executions [OF assms, of s]
  by (simp add: settled_def recover_frame)

theorem recovery_leaves_no_stale_state_witness:
  "no_faults (demo_env (100 * hour)) \<and>
   list_all (\<lambda>r. c_status r \<noteq> ''running'')
     (srows (recover (demo_env (100 * hour)) (demo_state [demo_row ''a'' 0] [])))"
  using recovery_leaves_no_stale_state [of "demo_env (100 * hour)" "demo_state [demo_row ''a'' 0] []"]
  by (simp add: list_all_iff)

text \<open>
  C15. Advancing a recurring schedule that is not auto-paused, when no statement fails and the offsets
  of its time zone differ by less than a day, either moves it to a strictly later time that is not
  skipped and not after the end of the recurrence, with status scheduled, or ends it as completed or
  failed without moving it; all other schedules stay as they are.
\<close>

theorem advance_moves_forward:
  assumes "no_faults env" "row_by i (srows s) = Some r" "c_recurrence_type r \<noteq> ''once''"
    and "\<not> (failed \<and> 3 \<le> consecutive_failures i (ss_db s))"
    and "\<forall>l. env_tz env (c_timezone r) = Some l \<longrightarrow> offsets_within 86400 l"
  shows "\<exists>r'. row_by i (srows (advanceSchedule env i failed s)) = Some r' \<and>
      (c_status r' = ''scheduled'' \<and> c_scheduled_at r < c_scheduled_at r' \<and>
         \<not> isSkippedOccurrence (c_scheduled_at r') (decodeSkippedOccurrences (c_skipped_occurrences r)) \<and>
         \<not> past_end (c_recurrence_end r) (c_scheduled_at r')
       \<or> c_status r' \<in> {''completed'', ''failed''} \<and> c_scheduled_at r' = c_scheduled_at r) \<and>
      (\<forall>j. j \<noteq> i \<longrightarrow> row_by j (srows (advanceSchedule env i failed s)) = row_by j (srows s))"
proof -
  note adv = advance_next [OF assms(1-4)]
  show ?thesis
  proof (cases "next_included env r")
    case (Inl e)
    then show ?thesis using assms(2)
      by (auto simp: adv row_by_set_row_same row_by_set_row_other)
  next
    case (Inr t)
    show ?thesis
    proof (cases "is_zero t")
      case True
      then show ?thesis using assms(2) Inr
        by (auto simp: adv row_by_set_row_same row_by_set_row_other)
    next
      case False
      have "\<And>l. env_tz env (c_timezone r) = Some l \<Longrightarrow> offsets_within 86400 l" using assms(5) by blast
      note snd = next_included_sound [OF Inr False this]
      show ?thesis using assms(2) Inr False snd
        by (auto simp: adv row_by_set_row_same row_by_set_row_other)
    qed
  qed
qed

theorem advance_moves_forward_witness:
  "\<exists>r'. row_by ''a'' (srows (advanceSchedule (demo_env 0) ''a'' False (demo_state [demo_row ''a'' 0] []))) = Some r' \<and>
     (c_status r' = ''scheduled'' \<and> 0 < c_scheduled_at r' \<or> c_status r' \<in> {''completed'', ''failed''})"
  using advance_moves_forward [of "demo_env 0" "''a''" "demo_state [demo_row ''a'' 0] []" "demo_row ''a'' 0" False]
  by auto

text \<open>
  C17. A recurring schedule whose three latest executions failed is paused by the next failure: its
  status goes back to scheduled, its time does not move, and it is not due at any time until it is
  resumed.
\<close>

theorem auto_pause_after_failures:
  assumes "no_faults env" "row_by i (srows s) = Some r" "c_recurrence_type r \<noteq> ''once''"
    and "3 \<le> consecutive_failures i (ss_db s)"
  shows "\<exists>r'. row_by i (srows (advanceSchedule env i True s)) = Some r' \<and> c_paused r' \<and>
    c_status r' = ''scheduled'' \<and> c_scheduled_at r' = c_scheduled_at r \<and> (\<forall>now. \<not> is_due now r')"
proof -
  let ?r1 = "touch env r (r\<lparr>c_paused := True\<rparr>)"
  have "row_by i (set_row env i (\<lambda>r. r\<lparr>c_paused := True\<rparr>) (srows s)) = Some ?r1"
    using assms(2) by (rule row_by_set_row_same) simp
  then have "row_by i (srows (advanceSchedule env i True s)) = Some (touch env ?r1 (?r1\<lparr>c_status := ''scheduled''\<rparr>))"
    unfolding advance_pause [OF assms(1-3) TrueI assms(4)] by (rule row_by_set_row_same) simp
  then show ?thesis by (simp add: is_due_def)
qed

theorem auto_pause_after_failures_witness:
  "\<exists>r'. row_by ''a'' (srows (advanceSchedule (demo_env 0) ''a'' True
      (demo_state [demo_row ''a'' 0] [demo_execution ''x'' ''a'' 0 ''failed'',
         demo_execution ''y'' ''a'' 1 ''failed'', demo_execution ''z'' ''a'' 2 ''failed'']))) = Some r' \<and> c_paused r'"
  using auto_pause_after_failures [of "demo_env 0" "''a''"
      "demo_state [demo_row ''a'' 0] [demo_execution ''x'' ''a'' 0 ''failed'',
         demo_execution ''y'' ''a'' 1 ''failed'', demo_execution ''z'' ''a'' 2 ''failed'']" "demo_row ''a'' 0"]
  by (auto simp: consecutive_failures_def executions_of_def demo_execution_def demo_state_def insort_key_def)

lemma tick_starts:
  assumes "no_faults env" "earliest_due (env_now env) (srows s) r"
    and "env_uuid env \<notin> ex_ID ` set (xrows s)"
    and "scheduleTestRequest svc (scanScheduledTest r) = Inr req"
    and "exec req (c_user_id r) (c_username r) = Inr testID"
  shows "srows (tick env svc exec [] s) = set_row env (c_id r) (\<lambda>r. r\<lparr>c_status := ''running''\<rparr>) (srows s)
    \<and> xrows (tick env svc exec [] s) = xrows s @ [(fresh_execution env r)\<lparr>ex_LoadTestID := Some testID\<rparr>]
    \<and> ss_callbacks (tick env svc exec [] s) = AList.update (env_uuid env) (c_id r) (ss_callbacks s)"
proof -
  obtain s1 where s1: "tick env svc exec [] s = executeSchedule env svc exec (scanScheduledTest r) s1"
    "srows s1 = srows s" "xrows s1 = xrows s" "ss_callbacks s1 = ss_callbacks s"
    using tick_execute [OF assms(1,2), of "[]"] by (auto simp: hasActiveTest_def)
  obtain q s2 where b: "beginScheduledExecution env (scanScheduledTest r) s1 = (q, s2)"
    by (cases "beginScheduledExecution env (scanScheduledTest r) s1")
  have fk: "c_id r \<in> c_id ` set (srows s1)" using assms(2) by (simp add: s1 earliest_due_def)
  note eff = begin_effect [OF assms(1) fk assms(3) [folded s1(3)] b]
  have user: "st_UserID (scanScheduledTest r) = c_user_id r" "st_Username (scanScheduledTest r) = c_username r"
    by (simp_all add: scanScheduledTest_def)
  have "tick env svc exec [] s = snd (markExecutionRunning env (env_uuid env) testID (env_now env) s2)"
    using assms(4,5) by (simp add: s1(1) executeSchedule_def b eff(1) user)
  moreover have "set_exec (env_uuid env)
      (\<lambda>x. x\<lparr>ex_Status := ''running'', ex_LoadTestID := Some testID, ex_StartedAt := Some (env_now env),
        ex_EndedAt := None, ex_ErrorMessage := None, ex_ErrorDetail := None\<rparr>) (xrows s @ [fresh_execution env r]) =
      xrows s @ [(fresh_execution env r)\<lparr>ex_LoadTestID := Some testID\<rparr>]"
    using set_exec_last [of "fresh_execution env r" "xrows s"] assms(3) by (simp add: fresh_execution_def)
  ultimately show ?thesis
    using assms(1) eff(2,3,4) by (simp add: markExecutionRunning_def effects s1(2,3,4))
qed

text \<open>
  A tick without an active test, when no statement fails, starts exactly the due schedule with the
  earliest time: the schedule becomes running, one execution with the new id is added that carries the
  id of the started test, and its callback is registered. Nothing else changes.
\<close>

theorem tick_starts_earliest_due:
  assumes "no_faults env" "earliest_due (env_now env) (srows s) r"
    and "env_uuid env \<notin> ex_ID ` set (xrows s)"
    and "scheduleTestRequest svc (scanScheduledTest r) = Inr req"
    and "exec req (c_user_id r) (c_username r) = Inr testID"
  shows "srows (tick env svc exec [] s) = set_row env (c_id r) (\<lambda>r. r\<lparr>c_status := ''running''\<rparr>) (srows s)
    \<and> xrows (tick env svc exec [] s) = xrows s @ [(fresh_execution env r)\<lparr>ex_LoadTestID := Some testID\<rparr>]
    \<and> ss_callbacks (tick env svc exec [] s) = AList.update (env_uuid env) (c_id r) (ss_callbacks s)"
  using assms by (rule tick_starts)

theorem tick_starts_earliest_due_witness:
  "ss_callbacks (tick (demo_env 0) None (\<lambda>_ _ _. Inr ''t1'') [] (demo_state [demo_row ''a'' 0] [])) = [(''e1'', ''a'')]"
  using tick_starts_earliest_due [of "demo_env 0" "demo_state [demo_row ''a'' 0] []" "demo_row ''a'' 0" None
      _ "\<lambda>_ _ _. Inr ''t1''" "''t1''", OF _ _ _ demo_request]
  by (simp add: earliest_due_def is_due_def truncate_second_def zero_time_def)



text \<open>
  When a test completes while one callback is registered, and no statement fails, the callback is
  removed, its execution is completed or failed (with the error message) and carries the id of the
  test and the time of completion, its schedule is no longer running, and no other execution changes.
  The time at which the execution started is erased.
\<close>

theorem completion_records_outcome:
  assumes "no_faults env" "ss_callbacks s = [(e, i)]" "e \<noteq> []" "exec_by e (xrows s) = Some x"
  shows "ss_callbacks (OnTestComplete env pick testID status errMsg s) = [] \<and>
    exec_by e (xrows (OnTestComplete env pick testID status errMsg s)) =
      Some (x\<lparr>ex_Status := (if status = ''completed'' then ''completed'' else ''failed''),
        ex_LoadTestID := Some testID, ex_StartedAt := None, ex_EndedAt := Some (env_now env),
        ex_ErrorMessage := (if status = ''completed'' then None else Some errMsg), ex_ErrorDetail := None\<rparr>) \<and>
    (\<forall>r'. row_by i (srows (OnTestComplete env pick testID status errMsg s)) = Some r' \<longrightarrow> c_status r' \<noteq> ''running'') \<and>
    (\<forall>e'. e' \<noteq> e \<longrightarrow> exec_by e' (xrows (OnTestComplete env pick testID status errMsg s)) = exec_by e' (xrows s))"
proof -
  have take: "takeNextCallback pick s = ((e, i), s\<lparr>ss_callbacks := []\<rparr>)"
    using assms(2) by (simp add: takeNextCallback_def)
  have ne: "fst (e, i) \<noteq> []" using assms(3) by simp
  let ?f = "\<lambda>x :: schedule_execution. x\<lparr>ex_Status := (if status \<noteq> ''completed'' then ''failed'' else ''completed''),
      ex_LoadTestID := Some testID, ex_StartedAt := None, ex_EndedAt := Some (env_now env),
      ex_ErrorMessage := (if status \<noteq> ''completed'' then Some errMsg else None), ex_ErrorDetail := None\<rparr>"
  note eq = OnTestComplete_eq [OF take ne, simplified]
  have xs: "xrows (OnTestComplete env pick testID status errMsg s) = set_exec e ?f (xrows s)"
    using assms(1) by (simp add: eq effects)
  have "ss_callbacks (OnTestComplete env pick testID status errMsg s) = []"
    by (simp add: eq effects)
  moreover have "c_status r' \<noteq> ''running''"
    if "row_by i (srows (OnTestComplete env pick testID status errMsg s)) = Some r'" for r'
    using that unfolding eq by (rule advance_not_running [OF assms(1)])
  ultimately show ?thesis
    using assms(4) by (auto simp: xs exec_by_set_exec_same exec_by_set_exec_other)
qed

theorem completion_records_outcome_witness:
  "\<exists>x'. exec_by ''e1'' (xrows (OnTestComplete (demo_env 5) 0 ''t1'' ''completed'' []
      ((demo_state [demo_row ''a'' 0] [demo_execution ''e1'' ''a'' 0 ''running''])\<lparr>ss_callbacks := [(''e1'', ''a'')]\<rparr>)))
    = Some x' \<and> ex_Status x' = ''completed'' \<and> ex_EndedAt x' = Some 5 \<and> ex_StartedAt x' = None"
  using completion_records_outcome [of "demo_env 5"
      "(demo_state [demo_row ''a'' 0] [demo_execution ''e1'' ''a'' 0 ''running''])\<lparr>ss_callbacks := [(''e1'', ''a'')]\<rparr>"
      "''e1''" "''a''" "demo_execution ''e1'' ''a'' 0 ''running''" 0 "''t1''" "''completed''" "[]"]
  by (simp add: demo_state_def demo_execution_def)

end
