(* ===== verification/Registry.thy ===== *)
theory Registry
  imports GoTime Float64 "HOL-Library.AList" "HOL-Library.List_Lexorder" "HOL-Library.Char_ord"
begin

text \<open>
  \<^verbatim>\<open>controller/internal/completion/registry.go\<close>: the registry of the artifacts that the workers upload at
  the end of a run (summaries, authentication summaries, payloads).

  The maps of the source are maps or association lists without repeated keys; the clock is the argument
  \<open>now\<close> (one reading per call). \<^verbatim>\<open>json.Unmarshal\<close> into the struct of an authentication summary is the
  parameter \<open>decode\<close>, \<open>None\<close> for an error. \<open>artifact_store\<close> is the contract of the registry towards
  its clients, interpreted on the model.
\<close>

subsection \<open>State\<close>

abbreviation (input) ArtifactSummary :: string where "ArtifactSummary \<equiv> ''summary''"
abbreviation (input) ArtifactAuthSummary :: string where "ArtifactAuthSummary \<equiv> ''auth-summary''"
abbreviation (input) ArtifactPayload :: string where "ArtifactPayload \<equiv> ''payload''"

record artifact =
  ar_WorkerID :: string
  ar_Content :: string
  ar_ContentType :: string
  ar_ReceivedAt :: time

type_synonym artifacts = "(string \<times> (string \<times> artifact) list) list"

record run_state =
  run_testID :: string
  run_expectedWorkers :: "string list"
  run_expectedSet :: "string set"
  run_uploadToken :: string
  run_artifacts :: artifacts
  run_createdAt :: time
  run_closedAt :: time
  run_expiresAt :: time

record snapshot =
  sn_TestID :: string
  sn_ExpectedWorkers :: "string list"
  sn_UploadToken :: string
  sn_Artifacts :: artifacts
  sn_CreatedAt :: time

record registry =
  reg_runs :: "string \<rightharpoonup> run_state"
  reg_lateUploadTTL :: duration

definition newRegistryWithTTL :: "duration \<Rightarrow> registry" where
  "newRegistryWithTTL ttl =
    \<lparr>reg_runs = Map.empty, reg_lateUploadTTL = (if ttl \<le> 0 then 5 * minute else ttl)\<rparr>"

definition NewRegistry :: registry where
  "NewRegistry = newRegistryWithTTL (5 * minute)"

subsection \<open>Operations\<close>

definition run_expired :: "time \<Rightarrow> run_state \<Rightarrow> bool" where
  "run_expired now run \<longleftrightarrow> \<not> is_zero (run_expiresAt run) \<and> run_expiresAt run < now"

definition cleanupExpiredLocked :: "time \<Rightarrow> registry \<Rightarrow> registry" where
  "cleanupExpiredLocked now r =
    r\<lparr>reg_runs := (\<lambda>i. case reg_runs r i of
        None \<Rightarrow> None
      | Some run \<Rightarrow> if run_expired now run then None else Some run)\<rparr>"

fun normalize_workers :: "string list \<Rightarrow> string list \<Rightarrow> string list" where
  "normalize_workers seen [] = []"
| "normalize_workers seen (w # ws) =
    (let w' = trim_space w
     in if w' = [] \<or> w' \<in> set seen then normalize_workers seen ws
        else w' # normalize_workers (w' # seen) ws)"

definition RegisterRun :: "time \<Rightarrow> string \<Rightarrow> string list \<Rightarrow> string \<Rightarrow> registry \<Rightarrow> registry" where
  "RegisterRun now testID expectedWorkers uploadToken r =
    (let ws = normalize_workers [] expectedWorkers;
         r1 = cleanupExpiredLocked now r
     in r1\<lparr>reg_runs := (reg_runs r1)(testID \<mapsto>
          \<lparr>run_testID = testID, run_expectedWorkers = ws, run_expectedSet = set ws,
           run_uploadToken = uploadToken,
           run_artifacts = [(ArtifactSummary, []), (ArtifactAuthSummary, []), (ArtifactPayload, [])],
           run_createdAt = now, run_closedAt = zero_time, run_expiresAt = zero_time\<rparr>)\<rparr>)"

definition RemoveRun :: "time \<Rightarrow> string \<Rightarrow> registry \<Rightarrow> registry" where
  "RemoveRun now testID r =
    (let r1 = cleanupExpiredLocked now r
     in case reg_runs r1 testID of
          None \<Rightarrow> r1
        | Some run \<Rightarrow>
           r1\<lparr>reg_runs := (reg_runs r1)(testID \<mapsto>
             run\<lparr>run_closedAt := now, run_expiresAt := now + reg_lateUploadTTL r1\<rparr>)\<rparr>)"

record auth_snapshot =
  as_Status :: string
  as_TokenRequestsTotal :: f64
  as_TokenFailureTotal :: f64
  as_ResponseStatusCodes :: "(int \<times> f64) list"
  as_AbortTriggered :: bool
  as_AbortCause :: string
  as_AbortReason :: string

type_synonym auth_decoder = "string \<Rightarrow> auth_snapshot option"

definition authSummarySignal :: "auth_decoder \<Rightarrow> string \<Rightarrow> int" where
  "authSummarySignal decode content =
    (let trimmed = trim_space content
     in if trimmed = [] then 0
        else (case decode trimmed of
                None \<Rightarrow> 1
              | Some s \<Rightarrow>
                  1 + (if trim_space (as_Status s) \<noteq> [] then 1 else 0)
                    + (if flt f0 (as_TokenRequestsTotal s) then 10 else 0)
                    + (if flt f0 (as_TokenFailureTotal s) then 10 else 0)
                    + (if as_ResponseStatusCodes s \<noteq> [] then 5 else 0)
                    + (if as_AbortTriggered s then 100 else 0)
                    + (if trim_space (as_AbortCause s) \<noteq> [] then 5 else 0)
                    + (if trim_space (as_AbortReason s) \<noteq> [] then 5 else 0)))"

definition put_artifact :: "string \<Rightarrow> string \<Rightarrow> artifact \<Rightarrow> run_state \<Rightarrow> run_state" where
  "put_artifact artifactType workerID a run =
    run\<lparr>run_artifacts := map (\<lambda>(t, byWorker).
      if t = artifactType then (t, AList.update workerID a byWorker) else (t, byWorker)) (run_artifacts run)\<rparr>"

definition StoreArtifact ::
  "auth_decoder \<Rightarrow> time \<Rightarrow> string \<Rightarrow> string \<Rightarrow> string \<Rightarrow> string \<Rightarrow> string \<Rightarrow> string \<Rightarrow> registry \<Rightarrow>
   unit res \<times> registry" where
  "StoreArtifact decode now testID workerID uploadToken artifactType contentType content r =
    (let r1 = cleanupExpiredLocked now r
     in case reg_runs r1 testID of
          None \<Rightarrow> (Inl ''unknown run'', r1)
        | Some run \<Rightarrow>
           (if run_uploadToken run = [] \<or> uploadToken \<noteq> run_uploadToken run
            then (Inl ''unauthorized artifact upload'', r1)
            else if workerID \<notin> run_expectedSet run
            then (Inl (''unknown worker: '' @ workerID), r1)
            else (case map_of (run_artifacts run) artifactType of
                    None \<Rightarrow> (Inl (''unknown artifact type: '' @ artifactType), r1)
                  | Some byWorker \<Rightarrow>
                     (if artifactType = ArtifactAuthSummary \<and>
                         (case map_of byWorker workerID of
                            None \<Rightarrow> False
                          | Some existing \<Rightarrow>
                              authSummarySignal decode content \<le> authSummarySignal decode (ar_Content existing))
                      then (Inr (), r1)
                      else (Inr (), r1\<lparr>reg_runs := (reg_runs r1)(testID \<mapsto>
                             put_artifact artifactType workerID
                               \<lparr>ar_WorkerID = workerID, ar_Content = content, ar_ContentType = contentType,
                                ar_ReceivedAt = now\<rparr> run)\<rparr>)))))"

definition Snapshot_run :: "time \<Rightarrow> string \<Rightarrow> registry \<Rightarrow> snapshot option \<times> registry" where
  "Snapshot_run now testID r =
    (case reg_runs r testID of
       None \<Rightarrow> (None, r)
     | Some _ \<Rightarrow>
        (let r1 = cleanupExpiredLocked now r
         in case reg_runs r1 testID of
              None \<Rightarrow> (None, r1)
            | Some run \<Rightarrow>
               (Some \<lparr>sn_TestID = run_testID run, sn_ExpectedWorkers = run_expectedWorkers run,
                      sn_UploadToken = run_uploadToken run, sn_Artifacts = run_artifacts run,
                      sn_CreatedAt = run_createdAt run\<rparr>, r1)))"

text \<open>\<^verbatim>\<open>sort.Strings\<close> is the sort of the library in the lexicographic order of bytes.\<close>

definition orderedArtifactWorkers :: "string list \<Rightarrow> (string \<times> artifact) list \<Rightarrow> string list" where
  "orderedArtifactWorkers expectedWorkers arts =
    (let ordered = filter (\<lambda>w. map_of arts w \<noteq> None) expectedWorkers
     in ordered @ sort (filter (\<lambda>w. w \<notin> set ordered) (map fst arts)))"

definition artifacts_of :: "snapshot \<Rightarrow> string \<Rightarrow> (string \<times> artifact) list" where
  "artifacts_of sn artifactType = (case map_of (sn_Artifacts sn) artifactType of None \<Rightarrow> [] | Some m \<Rightarrow> m)"

definition contents_in_order :: "snapshot \<Rightarrow> string \<Rightarrow> (string \<times> string) list" where
  "contents_in_order sn artifactType =
    (let arts = artifacts_of sn artifactType
     in concat (map (\<lambda>w. case map_of arts w of
            None \<Rightarrow> []
          | Some a \<Rightarrow> if trim_space (ar_Content a) = [] then [] else [(w, ar_Content a)])
          (orderedArtifactWorkers (sn_ExpectedWorkers sn) arts)))"

definition BuildRawSummary :: "snapshot \<Rightarrow> string \<Rightarrow> string" where
  "BuildRawSummary sn artifactType =
    (if artifacts_of sn artifactType = [] then []
     else join [CHR 0x0A, CHR 0x0A]
       (map (\<lambda>(w, c). ''--- '' @ w @ '' ---'' @ [CHR 0x0A] @ c) (contents_in_order sn artifactType)))"

definition FirstArtifactContent :: "snapshot \<Rightarrow> string \<Rightarrow> string" where
  "FirstArtifactContent sn artifactType =
    (if artifacts_of sn artifactType = [] then []
     else (case contents_in_order sn artifactType of [] \<Rightarrow> [] | (w, c) # _ \<Rightarrow> c))"

subsection \<open>Well-formed runs\<close>

definition wf_run :: "run_state \<Rightarrow> bool" where
  "wf_run run \<longleftrightarrow>
    map fst (run_artifacts run) = [ArtifactSummary, ArtifactAuthSummary, ArtifactPayload] \<and>
    distinct (run_expectedWorkers run) \<and> run_expectedSet run = set (run_expectedWorkers run) \<and>
    (\<forall>(t, m) \<in> set (run_artifacts run). distinct (map fst m) \<and> fst ` set m \<subseteq> run_expectedSet run)"

definition wf_registry :: "registry \<Rightarrow> bool" where
  "wf_registry r \<longleftrightarrow> 0 < reg_lateUploadTTL r \<and> (\<forall>i run. reg_runs r i = Some run \<longrightarrow> run_testID run = i \<and> wf_run run)"

lemma normalize_workers_spec:
  "distinct (normalize_workers seen ws) \<and> set (normalize_workers seen ws) \<inter> set seen = {} \<and>
   set (normalize_workers seen ws) = trim_space ` set ws - {[]} - set seen"
  by (induction seen ws rule: normalize_workers.induct) (auto simp: Let_def)

lemma cleanup_runs:
  "reg_runs (cleanupExpiredLocked now r) i = Some run \<longleftrightarrow> reg_runs r i = Some run \<and> \<not> run_expired now run"
  by (auto simp: cleanupExpiredLocked_def split: option.splits)

lemma cleanup_ttl [simp]: "reg_lateUploadTTL (cleanupExpiredLocked now r) = reg_lateUploadTTL r"
  by (simp add: cleanupExpiredLocked_def)

lemma wf_cleanup: "wf_registry r \<Longrightarrow> wf_registry (cleanupExpiredLocked now r)"
  by (auto simp: wf_registry_def cleanup_runs)

lemma map_of_put:
  "map_of (run_artifacts (put_artifact t w a run)) t' =
    (if t' = t then map_option (AList.update w a) (map_of (run_artifacts run) t)
     else map_of (run_artifacts run) t')"
proof -
  have "map_of (map (\<lambda>(t', m). if t' = t then (t', AList.update w a m) else (t', m)) xs) t' =
      (if t' = t then map_option (AList.update w a) (map_of xs t) else map_of xs t')" for xs
    by (induction xs) auto
  then show ?thesis by (simp add: put_artifact_def)
qed

lemma put_artifact_simps [simp]:
  "run_testID (put_artifact t w a run) = run_testID run"
  "run_expectedWorkers (put_artifact t w a run) = run_expectedWorkers run"
  "run_expectedSet (put_artifact t w a run) = run_expectedSet run"
  "run_uploadToken (put_artifact t w a run) = run_uploadToken run"
  "run_expiresAt (put_artifact t w a run) = run_expiresAt run"
  by (simp_all add: put_artifact_def)

lemma wf_put:
  assumes "wf_run run" "w \<in> run_expectedSet run"
  shows "wf_run (put_artifact t w a run)"
proof -
  have "map fst (map (\<lambda>(t', m). if t' = t then (t', AList.update w a m) else (t', m)) xs) = map fst xs" for xs :: artifacts
    by (induction xs) auto
  moreover have "case p of (t', m') \<Rightarrow> distinct (map fst m') \<and> fst ` set m' \<subseteq> run_expectedSet run"
    if p: "p \<in> set (map (\<lambda>(t', m). if t' = t then (t', AList.update w a m) else (t', m)) (run_artifacts run))" for p
  proof -
    from p obtain t' m where m: "(t', m) \<in> set (run_artifacts run)" "p = (t', m) \<or> p = (t', AList.update w a m)"
      by (auto split: if_splits)
    then have b: "distinct (map fst m)" "fst ` set m \<subseteq> run_expectedSet run"
      using assms(1) unfolding wf_run_def by fast+
    have "fst ` set (AList.update w a m) = insert w (fst ` set m)" by (auto simp: dom_update)
    with b assms(2) show ?thesis using m(2) by (elim disjE) (simp_all add: distinct_update)
  qed
  ultimately show ?thesis using assms(1) unfolding wf_run_def put_artifact_def
    by (simp del: map_map set_map map_eq_conv)
qed

lemma wf_fresh_run:
  "wf_run \<lparr>run_testID = i, run_expectedWorkers = normalize_workers [] ws,
     run_expectedSet = set (normalize_workers [] ws), run_uploadToken = tok,
     run_artifacts = [(ArtifactSummary, []), (ArtifactAuthSummary, []), (ArtifactPayload, [])],
     run_createdAt = a, run_closedAt = b, run_expiresAt = c\<rparr>"
  using normalize_workers_spec [of "[]" ws] by (simp add: wf_run_def)

lemma wf_close_run: "wf_run (run\<lparr>run_closedAt := a, run_expiresAt := b\<rparr>) = wf_run run"
  by (simp add: wf_run_def)

lemma wf_RegisterRun: "wf_registry r \<Longrightarrow> wf_registry (RegisterRun now i ws tok r)"
  by (auto simp: wf_registry_def RegisterRun_def Let_def cleanup_runs wf_fresh_run)

lemma wf_RemoveRun: "wf_registry r \<Longrightarrow> wf_registry (RemoveRun now i r)"
  by (auto simp: wf_registry_def RemoveRun_def Let_def cleanup_runs wf_close_run split: option.split)

lemma wf_StoreArtifact: "wf_registry r \<Longrightarrow> wf_registry (snd (StoreArtifact decode now i w tok t ct c r))"
  using wf_put by (auto simp: wf_registry_def StoreArtifact_def Let_def cleanup_runs split: option.split)

lemma wf_Snapshot: "wf_registry r \<Longrightarrow> wf_registry (snd (Snapshot_run now i r))"
  by (auto simp: Snapshot_run_def Let_def wf_cleanup split: option.split)

lemma authSummarySignal_bounds: "0 \<le> authSummarySignal decode c \<and> authSummarySignal decode c \<le> 137"
  by (auto simp: authSummarySignal_def Let_def split: option.split)

subsection \<open>Uploads never weaken what is stored\<close>

text \<open>A state that is changed by operations which never lower a rank.\<close>

locale monotone_store =
  fixes put :: "'op \<Rightarrow> 's \<Rightarrow> 's"
    and rank :: "'s \<Rightarrow> int"
    and ok :: "'s \<Rightarrow> bool"
  assumes put_ok: "ok s \<Longrightarrow> ok (put x s)"
    and put_rank: "ok s \<Longrightarrow> rank s \<le> rank (put x s)"
begin

lemma fold_ok: "ok s \<Longrightarrow> ok (fold put xs s)"
  by (induction xs arbitrary: s) (auto intro: put_ok)

lemma fold_rank: "ok s \<Longrightarrow> rank s \<le> rank (fold put xs s)"
proof (induction xs arbitrary: s)
  case (Cons x xs)
  have "rank s \<le> rank (put x s)" using Cons.prems by (rule put_rank)
  also have "\<dots> \<le> rank (fold put xs (put x s))" by (rule Cons.IH [OF put_ok [OF Cons.prems]])
  finally show ?case by simp
qed simp

end

text \<open>One upload: the arguments of \<open>StoreArtifact\<close>.\<close>

record upload =
  up_now :: time
  up_testID :: string
  up_workerID :: string
  up_token :: string
  up_type :: string
  up_contentType :: string
  up_content :: string

definition do_upload :: "auth_decoder \<Rightarrow> upload \<Rightarrow> registry \<Rightarrow> registry" where
  "do_upload decode u r =
    snd (StoreArtifact decode (up_now u) (up_testID u) (up_workerID u) (up_token u) (up_type u)
      (up_contentType u) (up_content u) r)"

definition lookup_artifact :: "registry \<Rightarrow> string \<Rightarrow> string \<Rightarrow> string \<Rightarrow> artifact option" where
  "lookup_artifact r i t w =
    Option.bind (reg_runs r i) (\<lambda>run. Option.bind (map_of (run_artifacts run) t) (\<lambda>m. map_of m w))"

definition auth_rank :: "auth_decoder \<Rightarrow> string \<Rightarrow> string \<Rightarrow> registry \<Rightarrow> int" where
  "auth_rank decode i w r =
    (case lookup_artifact r i ArtifactAuthSummary w of
       None \<Rightarrow> - 1 | Some a \<Rightarrow> authSummarySignal decode (ar_Content a))"

definition run_open :: "string \<Rightarrow> registry \<Rightarrow> bool" where
  "run_open i r \<longleftrightarrow> (case reg_runs r i of None \<Rightarrow> False | Some run \<Rightarrow> is_zero (run_expiresAt run))"

lemma run_open_not_expired: "is_zero (run_expiresAt run) \<Longrightarrow> \<not> run_expired now run"
  by (simp add: run_expired_def)

lemma cleanup_open:
  assumes "run_open i r"
  shows "reg_runs (cleanupExpiredLocked now r) i = reg_runs r i"
  using assms by (auto simp: run_open_def cleanupExpiredLocked_def run_open_not_expired split: option.splits)

lemma lookup_store:
  assumes "reg_runs (cleanupExpiredLocked now r) i = Some run"
    and "StoreArtifact decode now i w tok t ct c r = (q, r')"
  shows "r' = cleanupExpiredLocked now r \<or>
    (r' = (cleanupExpiredLocked now r)\<lparr>reg_runs := (reg_runs (cleanupExpiredLocked now r))(i \<mapsto>
        put_artifact t w \<lparr>ar_WorkerID = w, ar_Content = c, ar_ContentType = ct, ar_ReceivedAt = now\<rparr> run)\<rparr> \<and>
     (\<forall>a m. t = ArtifactAuthSummary \<longrightarrow> map_of (run_artifacts run) t = Some m \<longrightarrow> map_of m w = Some a \<longrightarrow>
        authSummarySignal decode (ar_Content a) < authSummarySignal decode c))"
  using assms by (auto simp: StoreArtifact_def Let_def split: if_splits option.splits)

lemma store_other_run:
  assumes "i' \<noteq> i"
  shows "reg_runs (snd (StoreArtifact decode now i' w tok t ct c r)) i = reg_runs (cleanupExpiredLocked now r) i"
  using assms by (auto simp: StoreArtifact_def Let_def split: option.split)

lemma upload_open: "run_open i r \<Longrightarrow> run_open i (do_upload decode u r)"
proof (cases "up_testID u = i")
  case True
  assume "run_open i r"
  moreover from this have "reg_runs (cleanupExpiredLocked (up_now u) r) i = reg_runs r i" by (rule cleanup_open)
  ultimately show ?thesis using True
    by (auto simp: do_upload_def StoreArtifact_def Let_def run_open_def split: option.splits)
next
  case False
  assume "run_open i r"
  with False show ?thesis by (simp add: do_upload_def run_open_def store_other_run cleanup_open)
qed

lemma upload_rank:
  assumes "run_open i r"
  shows "auth_rank decode i w r \<le> auth_rank decode i w (do_upload decode u r)"
proof (cases "up_testID u = i")
  case False
  then have "reg_runs (do_upload decode u r) i = reg_runs r i"
    using assms by (simp add: do_upload_def store_other_run cleanup_open)
  then show ?thesis by (simp add: auth_rank_def lookup_artifact_def)
next
  case True
  obtain run where run: "reg_runs r i = Some run" using assms by (auto simp: run_open_def split: option.splits)
  then have c: "reg_runs (cleanupExpiredLocked (up_now u) r) i = Some run" using cleanup_open [OF assms] by simp
  obtain q r' where q: "StoreArtifact decode (up_now u) i (up_workerID u) (up_token u) (up_type u)
      (up_contentType u) (up_content u) r = (q, r')"
    by (cases "StoreArtifact decode (up_now u) i (up_workerID u) (up_token u) (up_type u)
      (up_contentType u) (up_content u) r")
  then have r': "do_upload decode u r = r'" by (simp add: do_upload_def True)
  have nn: "- 1 \<le> authSummarySignal decode x" for x
    using authSummarySignal_bounds [of decode x] by linarith
  from lookup_store [OF c q] show ?thesis unfolding r'
    using c run nn
    by (auto simp: auth_rank_def lookup_artifact_def map_of_put update_conv fun_upd_apply less_imp_le
        split: option.splits if_splits bind_splits)
qed

interpretation uploads: monotone_store "do_upload decode" "auth_rank decode i w" "run_open i"
  for decode i w
  by unfold_locales (auto intro: upload_open upload_rank)

subsection \<open>Order of the artifacts\<close>

lemma ordered_expected_only:
  assumes "fst ` set arts \<subseteq> set ws"
  shows "orderedArtifactWorkers ws arts = filter (\<lambda>w. map_of arts w \<noteq> None) ws"
proof -
  have "w \<in> set (filter (\<lambda>w. map_of arts w \<noteq> None) ws)" if "w \<in> set (map fst arts)" for w
    using that assms by (auto simp: map_of_eq_None_iff)
  then have "filter (\<lambda>w. w \<notin> set (filter (\<lambda>w. map_of arts w \<noteq> None) ws)) (map fst arts) = []"
    by (simp only: filter_empty_conv not_not) blast
  then show ?thesis by (simp only: orderedArtifactWorkers_def Let_def sort_key_simps append_Nil2)
qed

lemma snapshot_run:
  assumes "Snapshot_run now i r = (Some sn, r')"
  obtains run where "reg_runs r i = Some run" "\<not> run_expired now run"
    "sn = \<lparr>sn_TestID = run_testID run, sn_ExpectedWorkers = run_expectedWorkers run,
      sn_UploadToken = run_uploadToken run, sn_Artifacts = run_artifacts run, sn_CreatedAt = run_createdAt run\<rparr>"
  using assms by (auto simp: Snapshot_run_def Let_def cleanup_runs split: option.splits)

subsection \<open>Properties\<close>

text \<open>A registry with one open run of two workers, and a decoder that accepts nothing.\<close>

definition demo_registry :: registry where
  "demo_registry = RegisterRun 0 ''t'' [''w1'', '' w2 '', ''w1''] ''tok'' NewRegistry"

lemma demo_run:
  "reg_runs demo_registry ''t'' = Some
    \<lparr>run_testID = ''t'', run_expectedWorkers = [''w1'', ''w2''], run_expectedSet = {''w1'', ''w2''},
     run_uploadToken = ''tok'',
     run_artifacts = [(''summary'', []), (''auth-summary'', []), (''payload'', [])],
     run_createdAt = 0, run_closedAt = zero_time, run_expiresAt = zero_time\<rparr>"
proof -
  have "trim_space ''w1'' = ''w1''" by (simp add: is_plain_def)
  moreover have "trim_space '' w2 '' = ''w2''" by code_simp
  ultimately show ?thesis by (simp add: demo_registry_def RegisterRun_def Let_def NewRegistry_def newRegistryWithTTL_def)
qed

lemma demo_wf: "wf_registry demo_registry"
  unfolding demo_registry_def by (rule wf_RegisterRun) (simp add: wf_registry_def NewRegistry_def newRegistryWithTTL_def)

lemma demo_cleanup: "reg_runs (cleanupExpiredLocked now demo_registry) ''t'' = reg_runs demo_registry ''t''"
  by (rule cleanup_open) (simp add: run_open_def demo_run is_zero_def)

text \<open>
  While a run is open, no sequence of uploads, to any run, by any worker and at any times, lowers the
  signal of the authentication summary stored for one of its workers: late uploads of restarted
  workers cannot erase the diagnostics of an abort.
\<close>

theorem auth_summary_signal_monotone:
  assumes "run_open i r"
  shows "auth_rank decode i w r \<le> auth_rank decode i w (fold (do_upload decode) us r)"
  using assms by (rule uploads.fold_rank)

theorem auth_summary_signal_monotone_witness:
  "auth_rank (\<lambda>_. None) ''t'' ''w1'' demo_registry \<le>
   auth_rank (\<lambda>_. None) ''t'' ''w1'' (fold (do_upload (\<lambda>_. None))
     [\<lparr>up_now = 1, up_testID = ''t'', up_workerID = ''w1'', up_token = ''tok'', up_type = ''auth-summary'',
       up_contentType = [], up_content = ''x''\<rparr>] demo_registry)"
  by (rule auth_summary_signal_monotone) (simp add: run_open_def demo_run is_zero_def)

text \<open>
  An upload is refused exactly when the run is unknown or expired, the run has no upload token or the
  token differs, the worker is not expected, or the type of the artifact is unknown; a refused upload
  changes nothing but the removal of expired runs.
\<close>

theorem upload_refused_iff:
  "(is_err (fst (StoreArtifact decode now i w tok t ct c r)) \<longleftrightarrow>
     (case reg_runs (cleanupExpiredLocked now r) i of
        None \<Rightarrow> True
      | Some run \<Rightarrow> run_uploadToken run = [] \<or> tok \<noteq> run_uploadToken run \<or> w \<notin> run_expectedSet run \<or>
          t \<notin> fst ` set (run_artifacts run))) \<and>
   (is_err (fst (StoreArtifact decode now i w tok t ct c r)) \<longrightarrow>
     snd (StoreArtifact decode now i w tok t ct c r) = cleanupExpiredLocked now r)"
proof -
  have "t \<notin> fst ` set xs \<longleftrightarrow> map_of xs t = None" for xs :: artifacts by (simp add: map_of_eq_None_iff)
  then show ?thesis
    by (auto simp: StoreArtifact_def Let_def split: option.splits)
qed

theorem upload_refused_iff_witness:
  "snd (StoreArtifact (\<lambda>_. None) 1 ''t'' ''w3'' ''tok'' ''summary'' [] ''x'' demo_registry) =
    cleanupExpiredLocked 1 demo_registry"
proof -
  note demo_cleanup [of 1]
  then show ?thesis
    using upload_refused_iff [of "\<lambda>_. None" 1 "''t''" "''w3''" "''tok''" "''summary''" "[]" "''x''" demo_registry]
    by (simp add: demo_run)
qed

text \<open>
  In a well-formed registry, an accepted upload of a summary or a payload is what a snapshot at the
  same time shows for that run, type and worker, and the snapshot shows every other artifact of the
  run as it was stored before.
\<close>

theorem upload_then_snapshot:
  assumes "wf_registry r" "StoreArtifact decode now i w tok t ct c r = (Inr (), r')" "t \<noteq> ArtifactAuthSummary"
  shows "\<exists>sn. fst (Snapshot_run now i r') = Some sn \<and>
    map_of (artifacts_of sn t) w =
      Some \<lparr>ar_WorkerID = w, ar_Content = c, ar_ContentType = ct, ar_ReceivedAt = now\<rparr> \<and>
    (\<forall>t' w'. (t', w') \<noteq> (t, w) \<longrightarrow> map_of (artifacts_of sn t') w' = lookup_artifact r i t' w')"
proof -
  let ?a = "\<lparr>ar_WorkerID = w, ar_Content = c, ar_ContentType = ct, ar_ReceivedAt = now\<rparr>"
  obtain run m where run: "reg_runs (cleanupExpiredLocked now r) i = Some run"
    and m: "map_of (run_artifacts run) t = Some m"
    and r': "r' = (cleanupExpiredLocked now r)\<lparr>reg_runs := (reg_runs (cleanupExpiredLocked now r))(i \<mapsto> put_artifact t w ?a run)\<rparr>"
    using assms(2,3) by (auto simp: StoreArtifact_def Let_def split: option.splits if_splits)
  from run have run0: "reg_runs r i = Some run" "\<not> run_expired now run" by (auto simp: cleanup_runs)
  have "reg_runs (cleanupExpiredLocked now r') i = Some (put_artifact t w ?a run)"
    using run0(2) by (simp add: cleanup_runs r' run_expired_def)
  then obtain sn where sn: "fst (Snapshot_run now i r') = Some sn" "sn_Artifacts sn = run_artifacts (put_artifact t w ?a run)"
    by (simp add: Snapshot_run_def Let_def r')
  have "map_of (artifacts_of sn t) w = Some ?a"
    using m by (simp add: artifacts_of_def sn(2) map_of_put update_conv)
  moreover have "map_of (artifacts_of sn t') w' = lookup_artifact r i t' w'" if "(t', w') \<noteq> (t, w)" for t' w'
    using that m run0(1)
    by (auto simp: artifacts_of_def sn(2) map_of_put update_conv lookup_artifact_def split: option.splits)
  ultimately show ?thesis using sn(1) by blast
qed

theorem upload_then_snapshot_witness:
  "\<exists>sn. fst (Snapshot_run 1 ''t'' (snd (StoreArtifact (\<lambda>_. None) 1 ''t'' ''w2'' ''tok'' ''summary'' [] ''x'' demo_registry))) = Some sn \<and>
    map_of (artifacts_of sn ''summary'') ''w2'' =
      Some \<lparr>ar_WorkerID = ''w2'', ar_Content = ''x'', ar_ContentType = [], ar_ReceivedAt = 1\<rparr>"
proof -
  note demo_cleanup [of 1]
  then have "fst (StoreArtifact (\<lambda>_. None) 1 ''t'' ''w2'' ''tok'' ''summary'' [] ''x'' demo_registry) = Inr ()"
    by (simp add: StoreArtifact_def Let_def demo_run)
  then have "StoreArtifact (\<lambda>_. None) 1 ''t'' ''w2'' ''tok'' ''summary'' [] ''x'' demo_registry =
      (Inr (), snd (StoreArtifact (\<lambda>_. None) 1 ''t'' ''w2'' ''tok'' ''summary'' [] ''x'' demo_registry))"
    by (metis prod.collapse)
  from upload_then_snapshot [OF demo_wf this] show ?thesis by auto
qed

text \<open>
  A run that is removed at some time stays open for late uploads until the TTL has passed: up to and
  including that time a snapshot still finds it, and after that time uploads to it are refused as
  unknown.
\<close>

theorem late_upload_window:
  assumes "wf_registry r" "reg_runs (cleanupExpiredLocked t0 r) i = Some run"
    and "\<not> is_zero (t0 + reg_lateUploadTTL r)"
  shows "(now \<le> t0 + reg_lateUploadTTL r \<longrightarrow> fst (Snapshot_run now i (RemoveRun t0 i r)) \<noteq> None) \<and>
    (t0 + reg_lateUploadTTL r < now \<longrightarrow>
      fst (StoreArtifact decode now i w tok t ct c (RemoveRun t0 i r)) = Inl ''unknown run'')"
proof -
  let ?run = "run\<lparr>run_closedAt := t0, run_expiresAt := t0 + reg_lateUploadTTL r\<rparr>"
  have rm: "reg_runs (RemoveRun t0 i r) i = Some ?run"
    using assms(2) by (simp add: RemoveRun_def Let_def)
  have ex: "run_expired now ?run \<longleftrightarrow> t0 + reg_lateUploadTTL r < now"
    using assms(3) by (simp add: run_expired_def)
  then have "reg_runs (cleanupExpiredLocked now (RemoveRun t0 i r)) i =
      (if t0 + reg_lateUploadTTL r < now then None else Some ?run)"
    using rm by (simp add: cleanupExpiredLocked_def)
  then show ?thesis
    using rm by (auto simp: Snapshot_run_def StoreArtifact_def Let_def)
qed

theorem late_upload_window_witness:
  "fst (StoreArtifact (\<lambda>_. None) (6 * minute) ''t'' ''w1'' ''tok'' ''summary'' [] ''x'' (RemoveRun 0 ''t'' demo_registry)) =
    Inl ''unknown run''"
proof -
  have ttl: "reg_lateUploadTTL demo_registry = 5 * minute"
    by (simp add: demo_registry_def RegisterRun_def Let_def NewRegistry_def newRegistryWithTTL_def)
  show ?thesis
    using late_upload_window [OF demo_wf demo_cleanup [of 0, unfolded demo_run], of "6 * minute"]
    by (simp add: ttl is_zero_def zero_time_def)
qed

text \<open>
  The raw summary of a run of a well-formed registry lists the artifacts in the order in which the
  workers were registered, each worker at most once, and leaves out blank contents.
\<close>

theorem raw_summary_in_worker_order:
  assumes "wf_registry r" "fst (Snapshot_run now i r) = Some sn"
  shows "map fst (contents_in_order sn t) =
    filter (\<lambda>w. case map_of (artifacts_of sn t) w of None \<Rightarrow> False | Some a \<Rightarrow> trim_space (ar_Content a) \<noteq> [])
      (sn_ExpectedWorkers sn) \<and> distinct (map fst (contents_in_order sn t))"
proof -
  obtain r' where "Snapshot_run now i r = (Some sn, r')" using assms(2) by (metis prod.collapse)
  then obtain run where run: "reg_runs r i = Some run"
    "sn = \<lparr>sn_TestID = run_testID run, sn_ExpectedWorkers = run_expectedWorkers run,
      sn_UploadToken = run_uploadToken run, sn_Artifacts = run_artifacts run, sn_CreatedAt = run_createdAt run\<rparr>"
    by (rule snapshot_run)
  then have wf: "wf_run run" using assms(1) by (simp add: wf_registry_def)
  let ?m = "artifacts_of sn t"
  have "fst ` set ?m \<subseteq> set (sn_ExpectedWorkers sn)"
  proof (cases "map_of (run_artifacts run) t")
    case None
    then show ?thesis by (simp add: artifacts_of_def run(2))
  next
    case (Some m)
    then have "(t, m) \<in> set (run_artifacts run)" by (rule map_of_SomeD)
    then have "fst ` set m \<subseteq> set (run_expectedWorkers run)" using wf unfolding wf_run_def by fast
    then show ?thesis using Some by (simp add: artifacts_of_def run(2))
  qed
  note ord = ordered_expected_only [OF this]
  let ?f = "\<lambda>w. case map_of ?m w of None \<Rightarrow> [] | Some a \<Rightarrow> if trim_space (ar_Content a) = [] then [] else [(w, ar_Content a)]"
  have "map fst (concat (map ?f (filter (\<lambda>w. map_of ?m w \<noteq> None) ws))) =
      filter (\<lambda>w. case map_of ?m w of None \<Rightarrow> False | Some a \<Rightarrow> trim_space (ar_Content a) \<noteq> []) ws" for ws
    by (induction ws) (auto split: option.splits)
  then have eq: "map fst (contents_in_order sn t) =
    filter (\<lambda>w. case map_of ?m w of None \<Rightarrow> False | Some a \<Rightarrow> trim_space (ar_Content a) \<noteq> []) (sn_ExpectedWorkers sn)"
    by (simp only: contents_in_order_def Let_def ord)
  moreover have "distinct (sn_ExpectedWorkers sn)" using wf by (simp add: wf_run_def run(2))
  ultimately show ?thesis by simp
qed

theorem raw_summary_in_worker_order_witness:
  "distinct (map fst (contents_in_order (the (fst (Snapshot_run 1 ''t'' demo_registry))) ''summary''))"
proof -
  note demo_cleanup [of 1]
  then have "fst (Snapshot_run 1 ''t'' demo_registry) = Some (the (fst (Snapshot_run 1 ''t'' demo_registry)))"
    by (simp add: Snapshot_run_def Let_def demo_run)
  from raw_summary_in_worker_order [OF demo_wf this] show ?thesis by blast
qed

end
