(* ===== verification/Aggregator.thy ===== *)
theory Aggregator
  imports Model "HOL-Library.AList"
begin

text \<open>
  \<^verbatim>\<open>controller/internal/orchestrator/aggregator.go\<close>: merging the metrics of the workers.

  The metrics of a worker are an association list from metric names to metrics. The local variables of
  \<^verbatim>\<open>Aggregate\<close> are the fields of an accumulator; the float operations are done in the order of the
  source. The order of the threshold results is that of a Go map, so it is not specified by the
  source; here it is the order of first occurrence, and the results do not depend on it.
\<close>

type_synonym metrics = "(string \<times> k6_metric) list"

record worker_result =
  wr_Address :: string
  wr_Metrics :: metrics
  wr_Error :: "string option"

fun is_finite :: "f64 \<Rightarrow> bool" where
  "is_finite (Fin _) = True"
| "is_finite _ = False"

definition validLatencyValue :: "f64 \<Rightarrow> bool" where
  "validLatencyValue v \<longleftrightarrow> is_finite v \<and> fle f0 v"

definition metric_val :: "metrics \<Rightarrow> string \<Rightarrow> string \<Rightarrow> f64 option" where
  "metric_val ms name key = (case map_of ms name of None \<Rightarrow> None | Some m \<Rightarrow> Val m key)"

definition add_opt :: "f64 \<Rightarrow> f64 option \<Rightarrow> f64" where
  "add_opt x v = (case v of None \<Rightarrow> x | Some c \<Rightarrow> fadd x c)"

definition valid_val :: "metrics \<Rightarrow> string \<Rightarrow> f64 option" where
  "valid_val ms key =
    (case metric_val ms ''http_req_duration'' key of
       None \<Rightarrow> None
     | Some v \<Rightarrow> if validLatencyValue v then Some v else None)"

record agg_acc =
  aa_agg :: aggregated_metrics
  aa_totalWeight :: f64
  aa_avg :: f64
  aa_med :: f64
  aa_p90 :: f64
  aa_p95 :: f64
  aa_p99 :: f64
  aa_min :: f64
  aa_max :: f64
  aa_minSet :: bool
  aa_thresholds :: "(string \<times> bool) list"

definition init_acc :: agg_acc where
  "init_acc =
    \<lparr>aa_agg = zero_aggregated_metrics, aa_totalWeight = f0, aa_avg = f0, aa_med = f0, aa_p90 = f0,
     aa_p95 = f0, aa_p99 = f0, aa_min = f0, aa_max = f0, aa_minSet = False, aa_thresholds = []\<rparr>"

text \<open>The loop over the metrics of one worker that collects the thresholds.\<close>

definition add_threshold :: "string \<times> k6_metric \<Rightarrow> (string \<times> bool) list \<Rightarrow> (string \<times> bool) list" where
  "add_threshold p thr =
    (case km_Tainted (snd p) of
       None \<Rightarrow> thr
     | Some t \<Rightarrow>
        (case map_of thr (fst p) of
           Some existing \<Rightarrow> AList.update (fst p) (existing \<or> t) thr
         | None \<Rightarrow> AList.update (fst p) t thr))"

text \<open>The block on \<^verbatim>\<open>http_req_failed\<close>.\<close>

definition add_failures :: "metrics \<Rightarrow> f64 \<Rightarrow> aggregated_metrics \<Rightarrow> aggregated_metrics" where
  "add_failures ms reqCount agg =
    (let agg1 = agg\<lparr>am_HTTPFailures := add_opt (am_HTTPFailures agg) (metric_val ms ''http_req_failed'' ''passes''),
                    am_HTTPSuccesses := add_opt (am_HTTPSuccesses agg) (metric_val ms ''http_req_failed'' ''fails'')\<rparr>
     in if map_of ms ''http_req_failed'' \<noteq> None \<and> feq (am_HTTPFailures agg1) f0 \<and>
           feq (am_HTTPSuccesses agg1) f0 \<and> flt f0 reqCount
        then (case metric_val ms ''http_req_failed'' ''rate'' of
                None \<Rightarrow> agg1
              | Some rate \<Rightarrow>
                 agg1\<lparr>am_HTTPFailures := fadd (am_HTTPFailures agg1) (fround (fmul reqCount rate)),
                      am_HTTPSuccesses := fadd (am_HTTPSuccesses agg1) (fround (fmul reqCount (fsub (Fin 1) rate)))\<rparr>)
        else agg1)"

text \<open>The block on \<^verbatim>\<open>http_req_duration\<close>.\<close>

definition add_weighted :: "f64 \<Rightarrow> f64 \<Rightarrow> f64 option \<Rightarrow> f64" where
  "add_weighted s weight v = (case v of None \<Rightarrow> s | Some x \<Rightarrow> fadd s (fmul x weight))"

definition add_latency_sums :: "metrics \<Rightarrow> f64 \<Rightarrow> agg_acc \<Rightarrow> agg_acc" where
  "add_latency_sums ms weight acc =
    acc\<lparr>aa_avg := add_weighted (aa_avg acc) weight (valid_val ms ''avg''),
        aa_med := add_weighted (aa_med acc) weight (valid_val ms ''med''),
        aa_p90 := add_weighted (aa_p90 acc) weight (valid_val ms ''p(90)''),
        aa_p95 := add_weighted (aa_p95 acc) weight (valid_val ms ''p(95)''),
        aa_p99 := add_weighted (aa_p99 acc) weight (valid_val ms ''p(99)''),
        aa_totalWeight :=
          (if list_ex (\<lambda>key. valid_val ms key \<noteq> None) [''avg'', ''med'', ''p(90)'', ''p(95)'', ''p(99)'']
           then fadd (aa_totalWeight acc) weight else aa_totalWeight acc)\<rparr>"

definition update_min :: "f64 option \<Rightarrow> agg_acc \<Rightarrow> agg_acc" where
  "update_min v acc =
    (case v of
       None \<Rightarrow> acc
     | Some mn \<Rightarrow> if \<not> aa_minSet acc \<or> flt mn (aa_min acc) then acc\<lparr>aa_min := mn, aa_minSet := True\<rparr> else acc)"

definition update_max :: "f64 option \<Rightarrow> agg_acc \<Rightarrow> agg_acc" where
  "update_max v acc =
    (case v of None \<Rightarrow> acc | Some mx \<Rightarrow> if flt (aa_max acc) mx then acc\<lparr>aa_max := mx\<rparr> else acc)"

definition add_latency :: "metrics \<Rightarrow> f64 \<Rightarrow> agg_acc \<Rightarrow> agg_acc" where
  "add_latency ms reqCount acc =
    (if map_of ms ''http_req_duration'' = None then acc
     else update_max (valid_val ms ''max'') (update_min (valid_val ms ''min'')
       (add_latency_sums ms (if fle reqCount f0 then Fin 1 else reqCount) acc)))"

definition worker_entry :: "worker_result \<Rightarrow> worker_metrics" where
  "worker_entry wr =
    (let wm = zero_worker_metrics\<lparr>wm_Address := wr_Address wr, wm_Status := ''ok''\<rparr>
     in case wr_Error wr of
          Some e \<Rightarrow> wm\<lparr>wm_Status := ''error'', wm_Error := e\<rparr>
        | None \<Rightarrow>
           wm\<lparr>wm_VUs := (case metric_val (wr_Metrics wr) ''vus'' ''value'' of None \<Rightarrow> 0 | Some v \<Rightarrow> int_of_f64 v),
              wm_Requests := (case metric_val (wr_Metrics wr) ''http_reqs'' ''count'' of None \<Rightarrow> f0 | Some c \<Rightarrow> c),
              wm_AvgLatency := (case valid_val (wr_Metrics wr) ''avg'' of None \<Rightarrow> f0 | Some v \<Rightarrow> v)\<rparr>)"

text \<open>The body of the loop over the workers.\<close>

definition aggregate_worker :: "worker_result \<Rightarrow> agg_acc \<Rightarrow> agg_acc" where
  "aggregate_worker wr acc =
    (let wm = worker_entry wr; agg = aa_agg acc
     in case wr_Error wr of
          Some e \<Rightarrow> acc\<lparr>aa_agg := agg\<lparr>am_Workers := am_Workers agg @ [wm]\<rparr>\<rparr>
        | None \<Rightarrow>
           (let ms = wr_Metrics wr;
                reqCount = (case metric_val ms ''http_reqs'' ''count'' of None \<Rightarrow> f0 | Some c \<Rightarrow> c);
                thr = fold add_threshold ms (aa_thresholds acc);
                agg1 = agg
                  \<lparr>am_TotalVUs := wrap64 (am_TotalVUs agg + wm_VUs wm),
                   am_TotalRequests := add_opt (am_TotalRequests agg) (metric_val ms ''http_reqs'' ''count''),
                   am_RPS := add_opt (am_RPS agg) (metric_val ms ''http_reqs'' ''rate''),
                   am_BusinessRequests := add_opt (am_BusinessRequests agg) (metric_val ms ''business_http_requests_total'' ''count''),
                   am_Iterations := add_opt (am_Iterations agg) (metric_val ms ''iterations'' ''count''),
                   am_DataReceived := add_opt (am_DataReceived agg) (metric_val ms ''data_received'' ''count''),
                   am_DataSent := add_opt (am_DataSent agg) (metric_val ms ''data_sent'' ''count'')\<rparr>;
                agg2 = add_failures ms reqCount agg1;
                agg3 = agg2
                  \<lparr>am_Status4xx := add_opt (am_Status4xx agg2) (metric_val ms ''status_4xx'' ''count''),
                   am_Status5xx := add_opt (am_Status5xx agg2) (metric_val ms ''status_5xx'' ''count''),
                   am_Workers := am_Workers agg2 @ [wm]\<rparr>
            in add_latency ms reqCount (acc\<lparr>aa_agg := agg3, aa_thresholds := thr\<rparr>)))"

text \<open>The fallback on the metric \<^verbatim>\<open>checks\<close>: passes, fails, the sum of the rates and their number.\<close>

definition add_checks :: "worker_result \<Rightarrow> f64 \<times> f64 \<times> f64 \<times> int \<Rightarrow> f64 \<times> f64 \<times> f64 \<times> int" where
  "add_checks wr c =
    (case c of (p, f, rsum, n) \<Rightarrow>
      (if wr_Error wr \<noteq> None then c
       else (add_opt p (metric_val (wr_Metrics wr) ''checks'' ''passes''),
             add_opt f (metric_val (wr_Metrics wr) ''checks'' ''fails''),
             add_opt rsum (metric_val (wr_Metrics wr) ''checks'' ''rate''),
             (if metric_val (wr_Metrics wr) ''checks'' ''rate'' \<noteq> None then n + 1 else n))))"

definition set_rates :: "worker_result list \<Rightarrow> aggregated_metrics \<Rightarrow> aggregated_metrics" where
  "set_rates wrs agg =
    (let totalHTTP = fadd (am_HTTPSuccesses agg) (am_HTTPFailures agg)
     in if flt f0 totalHTTP
        then agg\<lparr>am_ErrorRate := fdiv (am_HTTPFailures agg) totalHTTP,
                 am_SuccessRate := fdiv (am_HTTPSuccesses agg) totalHTTP\<rparr>
        else (case fold add_checks wrs (f0, f0, f0, 0) of (p, f, rsum, n) \<Rightarrow>
               (let totalChecks = fadd p f
                in if flt f0 totalChecks
                   then agg\<lparr>am_SuccessRate := fdiv p totalChecks, am_ErrorRate := fdiv f totalChecks\<rparr>
                   else if 0 < n
                   then agg\<lparr>am_SuccessRate := fdiv rsum (f64_of_int n),
                            am_ErrorRate := fsub (Fin 1) (fdiv rsum (f64_of_int n))\<rparr>
                   else if flt f0 (am_TotalRequests agg)
                   then agg\<lparr>am_SuccessRate := f0, am_ErrorRate := Fin 1\<rparr>
                   else agg)))"

definition derive_counts :: "aggregated_metrics \<Rightarrow> aggregated_metrics" where
  "derive_counts agg =
    (if feq (am_HTTPSuccesses agg) f0 \<and> feq (am_HTTPFailures agg) f0 \<and> flt f0 (am_TotalRequests agg)
     then (let fl = fround (fmul (am_TotalRequests agg) (am_ErrorRate agg))
           in agg\<lparr>am_HTTPFailures := fl, am_HTTPSuccesses := fsub (am_TotalRequests agg) fl\<rparr>)
     else agg)"

definition Aggregate :: "worker_result list \<Rightarrow> aggregated_metrics" where
  "Aggregate wrs =
    (let acc = fold aggregate_worker wrs init_acc;
         agg1 = (if flt f0 (aa_totalWeight acc)
                 then (aa_agg acc)\<lparr>am_AvgLatency := fdiv (aa_avg acc) (aa_totalWeight acc),
                        am_MedLatency := fdiv (aa_med acc) (aa_totalWeight acc),
                        am_P90Latency := fdiv (aa_p90 acc) (aa_totalWeight acc),
                        am_P95Latency := fdiv (aa_p95 acc) (aa_totalWeight acc),
                        am_P99Latency := fdiv (aa_p99 acc) (aa_totalWeight acc)\<rparr>
                 else aa_agg acc);
         agg2 = agg1\<lparr>am_MinLatency := aa_min acc, am_MaxLatency := aa_max acc\<rparr>;
         agg3 = derive_counts (set_rates wrs agg2)
     in agg3\<lparr>am_Thresholds := map (\<lambda>(m, t). \<lparr>tr_Metric = m, tr_Passed = (\<not> t)\<rparr>) (aa_thresholds acc)\<rparr>)"

subsection \<open>The entries of the workers\<close>

lemma add_failures_workers [simp]: "am_Workers (add_failures ms n agg) = am_Workers agg"
  by (simp add: add_failures_def Let_def split: option.split)

lemma add_failures_vus [simp]: "am_TotalVUs (add_failures ms n agg) = am_TotalVUs agg"
  by (simp add: add_failures_def Let_def split: option.split)

lemma update_min_max [simp]:
  "aa_agg (update_min v acc) = aa_agg acc" "aa_agg (update_max v acc) = aa_agg acc"
  "aa_thresholds (update_min v acc) = aa_thresholds acc" "aa_thresholds (update_max v acc) = aa_thresholds acc"
  by (simp_all add: update_min_def update_max_def split: option.split)

lemma add_latency_frame [simp]:
  "aa_agg (add_latency ms n acc) = aa_agg acc"
  "aa_thresholds (add_latency ms n acc) = aa_thresholds acc"
  by (simp_all add: add_latency_def add_latency_sums_def)

lemma aggregate_worker_workers:
  "am_Workers (aa_agg (aggregate_worker wr acc)) = am_Workers (aa_agg acc) @ [worker_entry wr]"
  by (simp add: aggregate_worker_def Let_def split: option.split)

lemma fold_workers:
  "am_Workers (aa_agg (fold aggregate_worker wrs acc)) = am_Workers (aa_agg acc) @ map worker_entry wrs"
  by (induction wrs arbitrary: acc) (simp_all add: aggregate_worker_workers)

lemma worker_entry_error: "wr_Error wr \<noteq> None \<Longrightarrow> wm_VUs (worker_entry wr) = 0"
  by (auto simp: worker_entry_def Let_def zero_worker_metrics_def)

lemma fold_vus:
  "am_TotalVUs (aa_agg (fold aggregate_worker wrs acc)) =
    fold (\<lambda>wr n. if wr_Error wr = None then wrap64 (n + wm_VUs (worker_entry wr)) else n) wrs (am_TotalVUs (aa_agg acc))"
  by (induction wrs arbitrary: acc)
    (simp_all add: aggregate_worker_def Let_def split: option.split)

lemma set_rates_workers [simp]: "am_Workers (set_rates wrs agg) = am_Workers agg"
  "am_TotalVUs (set_rates wrs agg) = am_TotalVUs agg"
  by (simp_all add: set_rates_def Let_def split: prod.split)

lemma derive_counts_workers [simp]: "am_Workers (derive_counts agg) = am_Workers agg"
  "am_TotalVUs (derive_counts agg) = am_TotalVUs agg"
  by (simp_all add: derive_counts_def Let_def)

lemma Aggregate_workers: "am_Workers (Aggregate wrs) = map worker_entry wrs"
  by (simp add: Aggregate_def Let_def fold_workers init_acc_def zero_aggregated_metrics_def)

lemma Aggregate_vus:
  "am_TotalVUs (Aggregate wrs) =
    fold (\<lambda>wr n. if wr_Error wr = None then wrap64 (n + wm_VUs (worker_entry wr)) else n) wrs 0"
  by (simp add: Aggregate_def Let_def fold_vus init_acc_def zero_aggregated_metrics_def)

text \<open>Wrapped additions of values whose partial sums are in range.\<close>

lemma fold_wrap64:
  assumes "\<forall>wr \<in> set wrs. 0 \<le> f wr \<and> (P wr \<or> f wr = 0)" "0 \<le> n" "n + sum_list (map f wrs) < 2 ^ 63"
  shows "fold (\<lambda>wr n. if P wr then wrap64 (n + f wr) else n) wrs n = n + sum_list (map f wrs)"
  using assms
proof (induction wrs arbitrary: n)
  case (Cons wr wrs)
  have nn: "0 \<le> f wr" using Cons.prems(1) by simp
  have "0 \<le> sum_list (map f wrs)" using Cons.prems(1) by (intro sum_list_nonneg) auto
  with nn have "wrap64 (n + f wr) = n + f wr" using Cons.prems by (intro wrap64_id) (auto simp: in_int64_def)
  moreover have "fold (\<lambda>wr n. if P wr then wrap64 (n + f wr) else n) wrs (n + f wr) = n + f wr + sum_list (map f wrs)"
    using Cons.prems nn by (intro Cons.IH) auto
  ultimately show ?case using Cons.prems(1) by auto
qed simp

subsection \<open>Thresholds\<close>

lemma add_threshold_lookup:
  "map_of (add_threshold p thr) k =
    (if k = fst p then
       (case km_Tainted (snd p) of
          None \<Rightarrow> map_of thr k
        | Some t \<Rightarrow> Some ((map_of thr k = Some True) \<or> t))
     else map_of thr k)"
  by (auto simp: add_threshold_def update_conv split: option.split)

definition tainted_by :: "string \<Rightarrow> metrics \<Rightarrow> bool" where
  "tainted_by k ms \<longleftrightarrow> (\<exists>m. (k, m) \<in> set ms \<and> km_Tainted m = Some True)"

definition has_threshold :: "string \<Rightarrow> metrics \<Rightarrow> bool" where
  "has_threshold k ms \<longleftrightarrow> (\<exists>m. (k, m) \<in> set ms \<and> km_Tainted m \<noteq> None)"

lemma threshold_Cons:
  "has_threshold k ((n, m) # ms) \<longleftrightarrow> (n = k \<and> km_Tainted m \<noteq> None) \<or> has_threshold k ms"
  "tainted_by k ((n, m) # ms) \<longleftrightarrow> (n = k \<and> km_Tainted m = Some True) \<or> tainted_by k ms"
  by (auto simp: has_threshold_def tainted_by_def)

lemma tainted_has: "tainted_by k ms \<Longrightarrow> has_threshold k ms"
  by (auto simp: has_threshold_def tainted_by_def)

lemma fold_threshold:
  "map_of (fold add_threshold ms thr) k =
    (if has_threshold k ms \<or> map_of thr k \<noteq> None
     then Some (map_of thr k = Some True \<or> tainted_by k ms) else None)"
proof (induction ms arbitrary: thr)
  case Nil
  then show ?case by (cases "map_of thr k") (auto simp: has_threshold_def tainted_by_def)
next
  case (Cons p ms)
  obtain n m where p: "p = (n, m)" by (cases p)
  show ?case
  proof (cases "n = k")
    case True
    then show ?thesis
      by (cases "km_Tainted m"; cases "map_of thr k") (auto simp: p Cons.IH add_threshold_lookup threshold_Cons)
  next
    case False
    then show ?thesis by (simp add: p Cons.IH add_threshold_lookup threshold_Cons)
  qed
qed

lemma fold_worker_thresholds:
  "map_of (aa_thresholds (fold aggregate_worker wrs acc)) k =
    (if (\<exists>wr \<in> set wrs. wr_Error wr = None \<and> has_threshold k (wr_Metrics wr)) \<or> map_of (aa_thresholds acc) k \<noteq> None
     then Some (map_of (aa_thresholds acc) k = Some True \<or>
        (\<exists>wr \<in> set wrs. wr_Error wr = None \<and> tainted_by k (wr_Metrics wr))) else None)"
proof (induction wrs arbitrary: acc)
  case Nil
  then show ?case by (cases "map_of (aa_thresholds acc) k") auto
next
  case (Cons wr wrs)
  have one: "aa_thresholds (aggregate_worker wr acc) =
      (if wr_Error wr = None then fold add_threshold (wr_Metrics wr) (aa_thresholds acc) else aa_thresholds acc)"
    by (auto simp: aggregate_worker_def Let_def split: option.split)
  show ?case
  proof (cases "wr_Error wr = None")
    case False
    then obtain e where "wr_Error wr = Some e" by auto
    then show ?thesis by (simp add: Cons.IH one)
  next
    case True
    show ?thesis
    proof (cases "has_threshold k (wr_Metrics wr)")
      case h: True
      then show ?thesis using True by (simp add: Cons.IH one fold_threshold)
    next
      case h: False
      then have "\<not> tainted_by k (wr_Metrics wr)" using tainted_has by blast
      then show ?thesis using True h
        by (cases "map_of (aa_thresholds acc) k") (simp_all add: Cons.IH one fold_threshold)
    qed
  qed
qed

lemma distinct_thresholds: "distinct (map fst thr) \<Longrightarrow> distinct (map fst (fold add_threshold ms thr))"
  by (induction ms arbitrary: thr) (auto simp: add_threshold_def distinct_update split: option.split)

lemma distinct_worker_thresholds:
  "distinct (map fst (aa_thresholds acc)) \<Longrightarrow> distinct (map fst (aa_thresholds (fold aggregate_worker wrs acc)))"
  by (induction wrs arbitrary: acc)
    (auto simp: aggregate_worker_def Let_def distinct_thresholds split: option.split)

subsection \<open>Rates\<close>

lemma rate_unit:
  assumes "representable a" "representable b" "0 \<le> a" "0 \<le> b" "a + b \<le> 2 ^ 1000" "0 < a + b"
  shows "\<exists>t. fadd (Fin a) (Fin b) = Fin t \<and> 0 < t \<and> (\<exists>e. fdiv (Fin a) (Fin t) = Fin e \<and> 0 \<le> e \<and> e \<le> 1)"
proof -
  let ?t = "round_f64 (a + b)"
  have "?t \<le> 2 ^ 1000" using f64.rnd_mono [OF assms(5)] by (simp only: round_f64_pow2)
  moreover have nn: "0 \<le> ?t" using assms(3,4) by (intro f64.rnd_nonneg) simp
  moreover have "(2 :: rat) ^ 1000 < 2 ^ 1024" by (rule power_strict_increasing) auto
  ultimately have t: "mk_f64 (a + b) = Fin ?t" by (intro mk_f64_fin) linarith
  have "max a b \<le> ?t"
    using f64.rnd_mono [of a "a + b"] f64.rnd_mono [of b "a + b"] assms(1-4) by (simp add: representable_def)
  then have pos: "0 < ?t" using assms(3,4,6) by (cases "a = 0") auto
  note sh = rounded_share [OF assms(1-4)]
  then have "\<bar>round_f64 (a / ?t)\<bar> \<le> 2 ^ 53" by simp
  then have "mk_f64 (a / ?t) = Fin (round_f64 (a / ?t))" by (intro mk_f64_fin abs_lt_1024)
  then show ?thesis using t pos sh by (intro exI [of _ ?t]) simp
qed

lemma Aggregate_error_rate:
  assumes "acc = fold aggregate_worker wrs init_acc"
    and "am_HTTPFailures (aa_agg acc) = f" "am_HTTPSuccesses (aa_agg acc) = s" "flt f0 (fadd s f)"
  shows "am_ErrorRate (Aggregate wrs) = fdiv f (fadd s f) \<and> am_SuccessRate (Aggregate wrs) = fdiv s (fadd s f)"
  using assms by (simp add: Aggregate_def Let_def set_rates_def derive_counts_def)

lemma fadd_comm: "fadd x y = fadd y x"
  by (cases x; cases y) (auto simp: add.commute)

subsection \<open>Properties\<close>

definition demo_metric :: "(string \<times> f64) list \<Rightarrow> k6_metric" where
  "demo_metric vs = \<lparr>km_Type = [], km_Contains = [], km_Tainted = None, km_Sample = vs, km_Values = []\<rparr>"

text \<open>What a k6 worker reports during a run: a request count, and only the rate of failed requests.\<close>

definition live_worker :: "string \<Rightarrow> rat \<Rightarrow> rat \<Rightarrow> worker_result" where
  "live_worker addr requests failed =
    \<lparr>wr_Address = addr,
     wr_Metrics = [(''http_reqs'', demo_metric [(''count'', Fin requests)]),
                   (''http_req_failed'', demo_metric [(''rate'', Fin failed)])],
     wr_Error = None\<rparr>"

text \<open>
  The result has one entry per worker, in the order of the workers, with the status error exactly
  for the workers whose metrics could not be fetched; the total of virtual users is the sum over the
  reachable workers, where the counts are not negative and the total fits.
\<close>

theorem aggregate_worker_entries:
  assumes "\<forall>wr \<in> set wrs. 0 \<le> wm_VUs (worker_entry wr)" "sum_list (map (\<lambda>wr. wm_VUs (worker_entry wr)) wrs) < 2 ^ 63"
  shows "map wm_Address (am_Workers (Aggregate wrs)) = map wr_Address wrs \<and>
    (\<forall>i < length wrs. (wm_Status (am_Workers (Aggregate wrs) ! i) = ''error'') = (wr_Error (wrs ! i) \<noteq> None)) \<and>
    am_TotalVUs (Aggregate wrs) = sum_list (map wm_VUs (am_Workers (Aggregate wrs)))"
proof -
  have "wm_Address (worker_entry wr) = wr_Address wr" "(wm_Status (worker_entry wr) = ''error'') = (wr_Error wr \<noteq> None)" for wr
    by (auto simp: worker_entry_def Let_def split: option.split)
  moreover have "am_TotalVUs (Aggregate wrs) = sum_list (map (\<lambda>wr. wm_VUs (worker_entry wr)) wrs)"
    unfolding Aggregate_vus
    by (subst fold_wrap64) (use assms worker_entry_error in \<open>auto simp del: not_None_eq\<close>)
  ultimately show ?thesis by (simp add: Aggregate_workers comp_def)
qed

theorem aggregate_worker_entries_witness:
  "map wm_Address (am_Workers (Aggregate [live_worker ''a'' 1 0, (live_worker ''b'' 1 0)\<lparr>wr_Error := Some ''down''\<rparr>])) = [''a'', ''b'']"
  using aggregate_worker_entries [of "[live_worker ''a'' 1 0, (live_worker ''b'' 1 0)\<lparr>wr_Error := Some ''down''\<rparr>]"]
  by (simp add: live_worker_def worker_entry_def Let_def zero_worker_metrics_def metric_val_def)

text \<open>
  A threshold is reported exactly once for each metric for which a reachable worker has one, and it
  counts as passed exactly when no reachable worker reports it as breached.
\<close>

theorem aggregate_thresholds_correct:
  "distinct (map tr_Metric (am_Thresholds (Aggregate wrs))) \<and>
   (\<lparr>tr_Metric = k, tr_Passed = p\<rparr> \<in> set (am_Thresholds (Aggregate wrs)) \<longleftrightarrow>
     (\<exists>wr \<in> set wrs. wr_Error wr = None \<and> has_threshold k (wr_Metrics wr)) \<and>
     p = (\<not> (\<exists>wr \<in> set wrs. wr_Error wr = None \<and> tainted_by k (wr_Metrics wr))))"
proof -
  let ?thr = "aa_thresholds (fold aggregate_worker wrs init_acc)"
  have d: "distinct (map fst ?thr)" by (rule distinct_worker_thresholds) (simp add: init_acc_def)
  have th: "am_Thresholds (Aggregate wrs) = map (\<lambda>(m, t). \<lparr>tr_Metric = m, tr_Passed = (\<not> t)\<rparr>) ?thr"
    by (simp add: Aggregate_def Let_def)
  have "map tr_Metric (am_Thresholds (Aggregate wrs)) = map fst ?thr"
    unfolding th by (simp add: comp_def split_beta)
  moreover have "\<lparr>tr_Metric = k, tr_Passed = p\<rparr> \<in> set (am_Thresholds (Aggregate wrs)) \<longleftrightarrow> (k, \<not> p) \<in> set ?thr"
    unfolding th by (force simp: image_iff)
  moreover have "(k, \<not> p) \<in> set ?thr \<longleftrightarrow> map_of ?thr k = Some (\<not> p)"
    using map_of_eq_Some_iff [OF d] by simp
  moreover have "map_of ?thr k =
    (if \<exists>wr \<in> set wrs. wr_Error wr = None \<and> has_threshold k (wr_Metrics wr)
     then Some (\<exists>wr \<in> set wrs. wr_Error wr = None \<and> tainted_by k (wr_Metrics wr)) else None)"
    unfolding fold_worker_thresholds by (simp add: init_acc_def)
  ultimately show ?thesis using d by auto
qed

text \<open>
  When the counted failures and successes of all workers are representable, not negative and not
  both zero, the error rate and the success rate are numbers between 0 and 1, also after rounding.
\<close>

theorem aggregate_rates_in_unit_interval:
  assumes "am_HTTPFailures (aa_agg (fold aggregate_worker wrs init_acc)) = Fin f"
    and "am_HTTPSuccesses (aa_agg (fold aggregate_worker wrs init_acc)) = Fin s"
    and "representable f" "representable s" "0 \<le> f" "0 \<le> s" "0 < f + s" "f + s \<le> 2 ^ 1000"
  shows "\<exists>e g. am_ErrorRate (Aggregate wrs) = Fin e \<and> am_SuccessRate (Aggregate wrs) = Fin g \<and>
    0 \<le> e \<and> e \<le> 1 \<and> 0 \<le> g \<and> g \<le> 1"
proof -
  obtain t e where t: "fadd (Fin f) (Fin s) = Fin t" "0 < t" and e: "fdiv (Fin f) (Fin t) = Fin e" "0 \<le> e" "e \<le> 1"
    using rate_unit [OF assms(3-6) assms(8,7)] by blast
  obtain t' g where t': "fadd (Fin s) (Fin f) = Fin t'" and g: "fdiv (Fin s) (Fin t') = Fin g" "0 \<le> g" "g \<le> 1"
    using rate_unit [OF assms(4,3,6,5)] assms(7,8) by (auto simp: add.commute)
  have "t' = t" using t(1) t' fadd_comm [of "Fin s" "Fin f"] by simp
  have "flt f0 (fadd (Fin s) (Fin f))" using t t' \<open>t' = t\<close> by simp
  from Aggregate_error_rate [OF refl assms(1,2) this] show ?thesis
    using e g t t' \<open>t' = t\<close> by auto
qed

text \<open>A worker that reports counted failures and successes.\<close>

definition counting_worker :: "string \<Rightarrow> rat \<Rightarrow> rat \<Rightarrow> worker_result" where
  "counting_worker addr passes fails =
    \<lparr>wr_Address = addr,
     wr_Metrics = [(''http_req_failed'', demo_metric [(''passes'', Fin passes), (''fails'', Fin fails)])],
     wr_Error = None\<rparr>"

lemmas aggregate_eval = aggregate_worker_def worker_entry_def Let_def metric_val_def valid_val_def Val_def
  demo_metric_def add_failures_def add_opt_def add_threshold_def add_latency_def init_acc_def
  zero_aggregated_metrics_def zero_worker_metrics_def

theorem aggregate_rates_in_unit_interval_witness:
  "\<exists>e g. am_ErrorRate (Aggregate [counting_worker ''a'' 3 5]) = Fin e \<and>
    am_SuccessRate (Aggregate [counting_worker ''a'' 3 5]) = Fin g \<and> 0 \<le> e \<and> e \<le> 1 \<and> 0 \<le> g \<and> g \<le> 1"
proof (rule aggregate_rates_in_unit_interval)
  show "am_HTTPFailures (aa_agg (fold aggregate_worker [counting_worker ''a'' 3 5] init_acc)) = Fin 3"
    by (simp add: aggregate_eval counting_worker_def)
  show "am_HTTPSuccesses (aa_agg (fold aggregate_worker [counting_worker ''a'' 3 5] init_acc)) = Fin 5"
    by (simp add: aggregate_eval counting_worker_def)
  show "representable 3" "representable 5"
    using round_f64_int [of 3] round_f64_int [of 5] by (simp_all add: representable_def)
qed simp_all

text \<open>
  The fallback to the live failure rate looks at the totals of all workers so far, not at the
  counters of the worker at hand: after the first worker has contributed, the rates of the others are
  ignored. Of two workers with 100 requests each, of which the second fails every one, the aggregate
  reports 200 requests and an error rate of 0.
\<close>

theorem live_rate_of_later_workers_ignored:
  "am_TotalRequests (Aggregate [live_worker ''a'' 100 0, live_worker ''b'' 100 1]) = Fin 200 \<and>
   am_ErrorRate (Aggregate [live_worker ''a'' 100 0, live_worker ''b'' 100 1]) = Fin 0"
proof -
  let ?acc = "fold aggregate_worker [live_worker ''a'' 100 0, live_worker ''b'' 100 1] init_acc"
  have fl: "\<lfloor>1 / 2 :: rat\<rfloor> = 0" "\<lfloor>201 / 2 :: rat\<rfloor> = 100" by (simp_all add: floor_eq_iff)
  have "am_HTTPFailures (aa_agg ?acc) = Fin 0" "am_HTTPSuccesses (aa_agg ?acc) = Fin 100"
    "am_TotalRequests (aa_agg ?acc) = Fin 200"
    by (simp_all add: aggregate_eval live_worker_def fsub_def round_half_away_def fl)
  then show ?thesis
    by (simp add: Aggregate_def Let_def set_rates_def derive_counts_def)
qed

end
