(* ===== verification/Worker.thy ===== *)
theory Worker
  imports Aggregator
begin

text \<open>
  \<^verbatim>\<open>controller/internal/orchestrator/worker.go\<close>: the client of one k6 instance.

  The network is a parameter: each call gets the reply of the worker. A reply is the failure to build
  the request, the failure of \<^verbatim>\<open>client.Do\<close>, or a response with its status code, its body and what
  decoding the body as JSON gives. The bounds on the time of a call are part of the reply: a call that
  times out has a reply \<open>DoErr\<close>.
\<close>

record worker =
  w_Address :: string
  w_DashboardEnabled :: bool
  w_DashboardHost :: string
  w_DashboardPort :: int

definition NewWorker :: "string \<Rightarrow> bool \<Rightarrow> string \<Rightarrow> int \<Rightarrow> worker" where
  "NewWorker address enabled host port =
    \<lparr>w_Address = address, w_DashboardEnabled = enabled, w_DashboardHost = host, w_DashboardPort = port\<rparr>"

definition baseURL :: "worker \<Rightarrow> string" where
  "baseURL w = ''http://'' @ w_Address w"

subsection \<open>Host and port\<close>

text \<open>
  \<^verbatim>\<open>net.SplitHostPort\<close>: the port starts after the last colon; an address that starts with a bracket
  has its host up to the first closing bracket, any other host contains no colon; no further bracket
  is allowed. \<open>None\<close> stands for an error.
\<close>

fun last_colon :: "string \<Rightarrow> (string \<times> string) option" where
  "last_colon [] = None"
| "last_colon (c # cs) =
    (case last_colon cs of
       Some (pre, post) \<Rightarrow> Some (c # pre, post)
     | None \<Rightarrow> if c = CHR '':'' then Some ([], cs) else None)"

definition SplitHostPort :: "string \<Rightarrow> (string \<times> string) option" where
  "SplitHostPort hp =
    (case last_colon hp of
       None \<Rightarrow> None
     | Some (before, port) \<Rightarrow>
        (if hd hp = CHR ''['' then
           (let host = takeWhile (\<lambda>c. c \<noteq> CHR '']'') (tl hp)
            in if before = CHR ''['' # host @ '']'' \<and> CHR ''['' \<notin> set host \<and>
                  CHR ''['' \<notin> set port \<and> CHR '']'' \<notin> set port
               then Some (host, port) else None)
         else if CHR '':'' \<in> set before \<or> CHR ''['' \<in> set hp \<or> CHR '']'' \<in> set hp then None
         else Some (before, port)))"

definition worker_Name :: "worker \<Rightarrow> string" where
  "worker_Name w =
    (case SplitHostPort (w_Address w) of
       Some (host, port) \<Rightarrow> if host \<noteq> [] then host else w_Address w
     | None \<Rightarrow> w_Address w)"

definition DashboardURL :: "worker \<Rightarrow> string" where
  "DashboardURL w =
    (if \<not> w_DashboardEnabled w \<or> w_DashboardPort w \<le> 0 then []
     else (let host = (if w_DashboardHost w = [] \<or> w_DashboardHost w = ''0.0.0.0'' \<or> w_DashboardHost w = ''::''
                       then worker_Name w else w_DashboardHost w)
           in ''http://'' @ host @ '':'' @ itoa (w_DashboardPort w)))"

subsection \<open>Requests\<close>

datatype 'a http_reply = ReqErr string | DoErr string | Reply int string "'a res"

definition worker_err :: "worker \<Rightarrow> string \<Rightarrow> string \<Rightarrow> string" where
  "worker_err w what e = ''worker '' @ w_Address w @ what @ '': '' @ e"

fun GetStatus :: "worker \<Rightarrow> k6_status http_reply \<Rightarrow> k6_status res" where
  "GetStatus w (ReqErr e) = Inl e"
| "GetStatus w (DoErr e) = Inl (worker_err w [] e)"
| "GetStatus w (Reply code body (Inl e)) = Inl (worker_err w '' decode'' e)"
| "GetStatus w (Reply code body (Inr s)) = Inr s"

fun PatchStatus :: "worker \<Rightarrow> k6_status http_reply \<Rightarrow> k6_status res" where
  "PatchStatus w (ReqErr e) = Inl e"
| "PatchStatus w (DoErr e) = Inl (worker_err w '' patch'' e)"
| "PatchStatus w (Reply code body d) =
    (if 400 \<le> code then Inl (worker_err w ('' patch status '' @ itoa code) body)
     else (case d of Inl e \<Rightarrow> Inl (worker_err w '' decode'' e) | Inr s \<Rightarrow> Inr s))"

text \<open>
  The \<^verbatim>\<open>data\<close> of a metrics document: a list of items, an object with (\<open>Some\<close>) or without (\<open>None\<close>) a
  map of metrics, or anything else.
\<close>

datatype metrics_data = Items "(string \<times> k6_metric) list" | Nested "metrics option" | OtherData

fun GetMetrics :: "worker \<Rightarrow> metrics_data http_reply \<Rightarrow> metrics res" where
  "GetMetrics w (ReqErr e) = Inl e"
| "GetMetrics w (DoErr e) = Inl (worker_err w '' metrics'' e)"
| "GetMetrics w (Reply code body d) =
    (if 400 \<le> code then Inl (worker_err w ('' metrics status '' @ itoa code) body)
     else (case d of
             Inl e \<Rightarrow> Inl (worker_err w '' decode metrics outer'' e)
           | Inr (Items items) \<Rightarrow> Inr (fold (\<lambda>(k, m). AList.update k m) items [])
           | Inr (Nested (Some ms)) \<Rightarrow> Inr ms
           | Inr _ \<Rightarrow> Inr []))"

definition IsReachable :: "worker \<Rightarrow> k6_status http_reply \<Rightarrow> bool" where
  "IsReachable w r \<longleftrightarrow> \<not> is_err (GetStatus w r)"

definition worker_IsReadyForStart :: "worker \<Rightarrow> k6_status http_reply \<Rightarrow> bool" where
  "worker_IsReadyForStart w r = (case GetStatus w r of Inl e \<Rightarrow> False | Inr s \<Rightarrow> IsReadyForStart s)"

subsection \<open>Lemmas\<close>

lemma last_colon_Some: "last_colon s = Some (a, b) \<longleftrightarrow> s = a @ '':'' @ b \<and> CHR '':'' \<notin> set b"
proof (induction s arbitrary: a b)
  case (Cons c s)
  show ?case
  proof (cases "last_colon s")
    case None
    then have n: "CHR '':'' \<notin> set s"
      using Cons.IH by (metis append_Cons append_Nil split_list_last option.distinct(1))
    then show ?thesis using None by (cases a) auto
  next
    case (Some p)
    obtain x y where p: "p = (x, y)" by (cases p)
    with Some Cons.IH [of x y] have s: "s = x @ '':'' @ y" "CHR '':'' \<notin> set y" by auto
    show ?thesis
    proof (cases a)
      case Nil
      then show ?thesis using Some p s by auto
    next
      case (Cons a1 as)
      then show ?thesis using Some p Cons.IH [of as b] by auto
    qed
  qed
qed simp

lemma last_colon_append: "CHR '':'' \<notin> set b \<Longrightarrow> last_colon (a @ CHR '':'' # b) = Some (a, b)"
  using last_colon_Some [of "a @ CHR '':'' # b" a b] by simp

definition plain_host :: "string \<Rightarrow> bool" where
  "plain_host h \<longleftrightarrow> CHR '':'' \<notin> set h \<and> CHR ''['' \<notin> set h \<and> CHR '']'' \<notin> set h"

lemma SplitHostPort_plain:
  assumes "plain_host h" "plain_host p"
  shows "SplitHostPort (h @ '':'' @ p) = Some (h, p)"
proof -
  have "last_colon (h @ CHR '':'' # p) = Some (h, p)"
    using assms by (intro last_colon_append) (simp add: plain_host_def)
  moreover have "hd (h @ CHR '':'' # p) \<noteq> CHR ''[''" using assms by (cases h) (auto simp: plain_host_def)
  ultimately show ?thesis using assms by (simp add: SplitHostPort_def plain_host_def del: last_colon.simps)
qed

lemma SplitHostPort_sound:
  assumes "SplitHostPort s = Some (h, p)"
  shows "s = h @ '':'' @ p \<or> s = ''['' @ h @ '']:'' @ p"
  using assms
  by (auto simp: SplitHostPort_def Let_def last_colon_Some split: option.splits if_splits prod.splits)

end
