(* ===== verification/Ramping.thy ===== *)
theory Ramping
  imports Model
begin

text \<open>
  \<^verbatim>\<open>controller/internal/orchestrator/ramping.go\<close>: the controller-side ramping of virtual users.

  The state of a \<^verbatim>\<open>RampingManager\<close> is a record; \<open>rm_loop\<close> says whether its goroutine \<^verbatim>\<open>run\<close> is alive (a
  cancelled loop counts as ended at once), and \<open>rm_done\<close> is the channel \<^verbatim>\<open>done\<close>: \<open>None\<close> before the first
  start, otherwise whether it is closed. The clock is the argument \<open>now\<close>; what the calls to the workers
  return is an argument, and the value that a tick sends to \<^verbatim>\<open>ScaleVUs\<close> is part of its result.
  Floating point is that of amd64, without fused multiply-add.
\<close>

subsection \<open>Stages\<close>

text \<open>\<^verbatim>\<open>parseStageDuration\<close>: the last byte is the unit, everything before it the number.\<close>

definition parseStageDuration :: "string \<Rightarrow> duration" where
  "parseStageDuration d0 =
    (let d = trim_space d0
     in if d = [] then 0
        else (case atoi (butlast d) of
                None \<Rightarrow> 0
              | Some val \<Rightarrow>
                  (if last d = CHR ''s'' then wrap64 (val * second)
                   else if last d = CHR ''m'' then wrap64 (val * minute)
                   else if last d = CHR ''h'' then wrap64 (val * hour)
                   else wrap64 (val * second))))"

definition clamp01 :: "f64 \<Rightarrow> f64" where
  "clamp01 p = (let q = (if flt p f0 then f0 else p) in if flt (Fin 1) q then Fin 1 else q)"

definition interpolate :: "int \<Rightarrow> int \<Rightarrow> duration \<Rightarrow> duration \<Rightarrow> int" where
  "interpolate prev target intoStage stageDur =
    (let progress = clamp01 (fdiv (f64_of_int intoStage) (f64_of_int stageDur))
     in int_of_f64 (fadd (f64_of_int prev) (fmul progress (f64_of_int (wrap64 (target - prev))))))"

fun calculate_loop :: "int \<Rightarrow> duration \<Rightarrow> int \<Rightarrow> stage list \<Rightarrow> duration \<Rightarrow> int \<times> bool \<times> int" where
  "calculate_loop i cumulative prevTarget [] elapsed = (prevTarget, True, i - 1)"
| "calculate_loop i cumulative prevTarget (s # ss) elapsed =
    (let stageDur = parseStageDuration (stg_Duration s);
         stageEnd = wrap64 (cumulative + stageDur)
     in if elapsed < stageEnd
        then (interpolate prevTarget (stg_Target s) (wrap64 (elapsed - cumulative)) stageDur, False, i)
        else calculate_loop (i + 1) stageEnd (stg_Target s) ss elapsed)"

definition calculateVUs :: "stage list \<Rightarrow> duration \<Rightarrow> int \<times> bool \<times> int" where
  "calculateVUs stages elapsed =
    (if stages = [] then (0, True, - 1) else calculate_loop 0 0 0 stages elapsed)"

subsection \<open>The manager\<close>

record ramp_state =
  rm_stages :: "stage list"
  rm_cancel :: bool
  rm_loop :: bool
  rm_paused :: bool
  rm_elapsed :: duration
  rm_startTime :: time
  rm_done :: "bool option"
  rm_manualVUs :: int
  rm_overrideStageIdx :: int

definition NewRampingManager :: ramp_state where
  "NewRampingManager =
    \<lparr>rm_stages = [], rm_cancel = False, rm_loop = False, rm_paused = False, rm_elapsed = 0,
     rm_startTime = zero_time, rm_done = None, rm_manualVUs = 0, rm_overrideStageIdx = - 1\<rparr>"

text \<open>The loop ends, by its own return or by cancellation: its deferred function closes the channel.\<close>

definition end_loop :: "ramp_state \<Rightarrow> ramp_state" where
  "end_loop rm =
    (if rm_loop rm then rm\<lparr>rm_loop := False, rm_done := map_option (\<lambda>_. True) (rm_done rm)\<rparr> else rm)"

definition Start_ramp :: "time \<Rightarrow> stage list \<Rightarrow> ramp_state \<Rightarrow> ramp_state" where
  "Start_ramp now stages rm =
    \<lparr>rm_stages = stages, rm_cancel = True, rm_loop = True, rm_paused = False, rm_elapsed = 0,
     rm_startTime = now, rm_done = Some False, rm_manualVUs = 0, rm_overrideStageIdx = - 1\<rparr>"

definition ramp_elapsed :: "time \<Rightarrow> ramp_state \<Rightarrow> duration" where
  "ramp_elapsed now rm = (if rm_paused rm then rm_elapsed rm else rm_elapsed rm + (now - rm_startTime rm))"

definition SetManualOverride :: "time \<Rightarrow> int \<Rightarrow> ramp_state \<Rightarrow> ramp_state" where
  "SetManualOverride now vus rm =
    (if rm_stages rm = [] then rm
     else (case calculateVUs (rm_stages rm) (ramp_elapsed now rm) of
             (_, _, stageIdx) \<Rightarrow> rm\<lparr>rm_manualVUs := vus, rm_overrideStageIdx := stageIdx\<rparr>))"

text \<open>\<^verbatim>\<open>Pause\<close>; the last argument is what \<^verbatim>\<open>PauseAll\<close> returns.\<close>

definition Pause_ramp :: "time \<Rightarrow> unit res \<Rightarrow> ramp_state \<Rightarrow> unit res \<times> ramp_state" where
  "Pause_ramp now pauseAll rm =
    (if rm_paused rm then (Inr (), rm)
     else (let rm1 = (if rm_stages rm \<noteq> [] then rm\<lparr>rm_elapsed := rm_elapsed rm + (now - rm_startTime rm)\<rparr> else rm);
               rm2 = rm1\<lparr>rm_paused := True\<rparr>
           in (pauseAll, if rm_cancel rm2 then end_loop rm2 else rm2)))"

text \<open>\<^verbatim>\<open>Resume\<close>; the last argument is what \<^verbatim>\<open>ResumeAll\<close> returns.\<close>

definition Resume_ramp :: "time \<Rightarrow> unit res \<Rightarrow> ramp_state \<Rightarrow> unit res \<times> ramp_state" where
  "Resume_ramp now resumeAll rm =
    (case resumeAll of
       Inl e \<Rightarrow> (Inl e, rm)
     | Inr _ \<Rightarrow>
        (if \<not> rm_paused rm then (Inr (), rm)
         else (let rm1 = rm\<lparr>rm_paused := False\<rparr>
               in (Inr (), if rm_stages rm1 \<noteq> []
                           then rm1\<lparr>rm_startTime := now, rm_done := Some False, rm_cancel := True, rm_loop := True\<rparr>
                           else rm1))))"

definition Stop_ramp :: "ramp_state \<Rightarrow> ramp_state" where
  "Stop_ramp rm = (if rm_cancel rm then (end_loop rm)\<lparr>rm_cancel := False\<rparr> else rm)"

definition IsPaused :: "ramp_state \<Rightarrow> bool" where
  "IsPaused rm = rm_paused rm"

text \<open>\<^verbatim>\<open>Done\<close>: whether the channel it returns is closed.\<close>

definition Done_closed :: "ramp_state \<Rightarrow> bool" where
  "Done_closed rm = (case rm_done rm of None \<Rightarrow> True | Some c \<Rightarrow> c)"

text \<open>
  One tick of \<^verbatim>\<open>run\<close>: nothing when the loop is not alive; otherwise either all stages are done (the
  orchestrator is told so and the loop returns) or a scale command for the whole test. A failing
  command is retried at the next tick, so it does not change the state.
\<close>

datatype ramp_action = NoAction | RampingDone | Scale int

definition ramp_tick :: "time \<Rightarrow> ramp_state \<Rightarrow> ramp_action \<times> ramp_state" where
  "ramp_tick now rm =
    (if \<not> rm_loop rm then (NoAction, rm)
     else (case calculateVUs (rm_stages rm) (rm_elapsed rm + (now - rm_startTime rm)) of
             (targetVUs, allDone, stageIdx) \<Rightarrow>
               (if allDone then (RampingDone, end_loop rm)
                else if 0 < rm_manualVUs rm \<and> stageIdx = rm_overrideStageIdx rm
                then (Scale (rm_manualVUs rm), rm)
                else if 0 < rm_manualVUs rm
                then (Scale targetVUs, rm\<lparr>rm_manualVUs := 0, rm_overrideStageIdx := - 1\<rparr>)
                else (Scale targetVUs, rm))))"

subsection \<open>Interpolation stays between the targets\<close>

lemma interpolate_bounds:
  assumes "0 \<le> into" "into \<le> d" "0 < d" "in_int64 d" "\<bar>a\<bar> \<le> 2 ^ 52" "\<bar>b\<bar> \<le> 2 ^ 52"
  shows "min a b \<le> interpolate a b into d" "interpolate a b into d \<le> max a b"
proof -
  have into64: "in_int64 into" using assms(1,2,4) by (simp add: in_int64_def)
  define x y where "x = round_f64 (of_int into)" and "y = round_f64 (of_int d)"
  have f: "f64_of_int into = Fin x" "f64_of_int d = Fin y"
    using into64 assms(4) by (simp_all add: f64_of_int_int64 x_def y_def)
  have xy: "0 \<le> x" "x \<le> y" using assms(1,2) by (auto simp: x_def y_def intro: f64.rnd_nonneg f64.rnd_mono)
  have y: "0 < y" using assms(3) f64.rnd_ge_int [of 1 "of_int d"] by (simp add: y_def)
  define p where "p = round_f64 (x / y)"
  have p: "0 \<le> p" "p \<le> 1" using f64.rnd_div_unit [OF xy] by (simp_all add: p_def)
  have "\<bar>x / y\<bar> \<le> 2 ^ 53" using xy y by (simp add: divide_le_eq)
  then have "mk_f64 (x / y) = Fin p" by (simp add: mk_f64_small p_def)
  then have prog: "clamp01 (fdiv (f64_of_int into) (f64_of_int d)) = Fin p"
    using p y by (simp add: f clamp01_def Let_def)
  have diff: "wrap64 (b - a) = b - a" using assms(5,6) by (intro wrap64_id) (auto simp: in_int64_def)
  have fb: "f64_of_int (b - a) = Fin (of_int (b - a))" using assms(5,6) by (intro f64_of_int_small) simp
  have fa: "f64_of_int a = Fin (of_int a)" using assms(5) by (intro f64_of_int_small) simp
  let ?m = "of_int (b - a) * p :: rat"
  have "\<bar>of_int (b - a) :: rat\<bar> \<le> 2 ^ 53"
    using of_int_le_iff [of "\<bar>b - a\<bar>" "2 ^ 53", where 'a = rat] assms(5,6) by simp
  moreover have "\<bar>?m\<bar> \<le> \<bar>of_int (b - a) :: rat\<bar>"
    using p mult_left_mono [of p 1 "\<bar>of_int (b - a) :: rat\<bar>"] by (simp add: abs_mult)
  ultimately have m: "mk_f64 ?m = Fin (round_f64 ?m)" by (intro mk_f64_small) linarith
  let ?s = "of_int a + round_f64 ?m :: rat"
  note lerp = f64.rnd_lerp [OF p assms(5,6)]
  have mm: "\<bar>min a b\<bar> \<le> 2 ^ 52" "\<bar>max a b\<bar> \<le> 2 ^ 52" using assms(5,6) by linarith+
  have lo: "(of_int (- (2 ^ 52)) :: rat) \<le> of_int (min a b)"
    and hi: "(of_int (max a b) :: rat) \<le> of_int (2 ^ 52)"
    unfolding of_int_le_iff using mm by linarith+
  have "of_int (- (2 ^ 52)) \<le> round_f64 ?s" "round_f64 ?s \<le> of_int (2 ^ 52)"
    using order_trans [OF lo lerp(1)] order_trans [OF lerp(2) hi] by simp_all
  then have "\<bar>round_f64 ?s\<bar> \<le> 2 ^ 53" unfolding abs_le_iff by simp
  then have s: "mk_f64 ?s = Fin (round_f64 ?s)" by (intro mk_f64_fin abs_lt_1024)
  have val: "interpolate a b into d = int_of_f64 (Fin (round_f64 ?s))"
    using prog m s by (simp add: interpolate_def Let_def diff fa fb mult.commute)
  define i where "i = (if 0 \<le> round_f64 ?s then \<lfloor>round_f64 ?s\<rfloor> else \<lceil>round_f64 ?s\<rceil>)"
  have i: "min a b \<le> i" "i \<le> max a b"
    unfolding i_def by (rule trunc_bounds [OF lerp])+
  then have "- (2 ^ 52) \<le> i" "i \<le> 2 ^ 52" using mm by linarith+
  then have "in_int64 i" by (simp add: in_int64_def)
  then have "interpolate a b into d = i"
    by (simp only: val int_of_f64.simps Let_def i_def [symmetric] if_True)
  with i show "min a b \<le> interpolate a b into d" "interpolate a b into d \<le> max a b" by auto
qed

subsection \<open>The stage at a given time\<close>

definition stage_dur :: "stage \<Rightarrow> duration" where
  "stage_dur s = parseStageDuration (stg_Duration s)"

definition total_dur :: "stage list \<Rightarrow> duration" where
  "total_dur ss = sum_list (map stage_dur ss)"

definition stage_ok :: "stage \<Rightarrow> bool" where
  "stage_ok s \<longleftrightarrow> 0 \<le> stage_dur s \<and> \<bar>stg_Target s\<bar> \<le> 2 ^ 52"

lemma total_dur_simps [simp]: "total_dur [] = 0" "total_dur (s # ss) = stage_dur s + total_dur ss"
  by (simp_all add: total_dur_def)

lemma total_dur_nonneg: "list_all stage_ok ss \<Longrightarrow> 0 \<le> total_dur ss"
  by (induction ss) (auto simp: stage_ok_def)

lemma stage_ok_Cons:
  assumes "list_all stage_ok (s # ss)"
  shows "0 \<le> stage_dur s" "0 \<le> total_dur ss" "\<bar>stg_Target s\<bar> \<le> 2 ^ 52"
  using assms total_dur_nonneg [of ss] by (simp_all add: stage_ok_def)

lemma calculate_loop_done:
  assumes "list_all stage_ok ss" "0 \<le> cum" "cum + total_dur ss < 2 ^ 63" "cum + total_dur ss \<le> elapsed"
  shows "calculate_loop i cum prev ss elapsed = (last (prev # map stg_Target ss), True, i + int (length ss) - 1)"
  using assms
proof (induction ss arbitrary: i cum prev)
  case (Cons s ss)
  note nn = stage_ok_Cons [OF Cons.prems(1)]
  from nn have w: "wrap64 (cum + stage_dur s) = cum + stage_dur s"
    using Cons.prems by (intro wrap64_id) (auto simp: in_int64_def)
  have "calculate_loop i cum prev (s # ss) elapsed = calculate_loop (i + 1) (cum + stage_dur s) (stg_Target s) ss elapsed"
    using Cons.prems nn w by (simp add: Let_def stage_dur_def [symmetric])
  also have "\<dots> = (last (stg_Target s # map stg_Target ss), True, i + 1 + int (length ss) - 1)"
    using Cons.prems nn by (intro Cons.IH) auto
  finally show ?case by simp
qed simp

lemma calculate_loop_within:
  assumes "list_all stage_ok ss" "0 \<le> cum" "cum + total_dur ss < 2 ^ 63" "cum \<le> elapsed"
    and "elapsed < cum + total_dur ss" "\<bar>prev\<bar> \<le> 2 ^ 52"
  shows "\<exists>v k. calculate_loop i cum prev ss elapsed = (v, False, i + int k) \<and> k < length ss \<and>
    cum + total_dur (take k ss) \<le> elapsed \<and> elapsed < cum + total_dur (take (Suc k) ss) \<and>
    min (last (prev # map stg_Target (take k ss))) (stg_Target (ss ! k)) \<le> v \<and>
    v \<le> max (last (prev # map stg_Target (take k ss))) (stg_Target (ss ! k))"
  using assms
proof (induction ss arbitrary: i cum prev)
  case (Cons s ss)
  note nn = stage_ok_Cons [OF Cons.prems(1)]
  from nn have w: "wrap64 (cum + stage_dur s) = cum + stage_dur s"
    using Cons.prems by (intro wrap64_id) (auto simp: in_int64_def)
  show ?case
  proof (cases "elapsed < cum + stage_dur s")
    case True
    have w2: "wrap64 (elapsed - cum) = elapsed - cum"
      using Cons.prems True by (intro wrap64_id) (auto simp: in_int64_def)
    have d: "in_int64 (stage_dur s)" using Cons.prems nn by (auto simp: in_int64_def)
    let ?v = "interpolate prev (stg_Target s) (elapsed - cum) (stage_dur s)"
    have "min prev (stg_Target s) \<le> ?v" "?v \<le> max prev (stg_Target s)"
      using Cons.prems True nn d by (auto intro!: interpolate_bounds)
    moreover have "calculate_loop i cum prev (s # ss) elapsed = (?v, False, i)"
      using True w w2 by (simp add: Let_def stage_dur_def [symmetric])
    ultimately show ?thesis using Cons.prems True by (intro exI [of _ ?v] exI [of _ 0]) auto
  next
    case False
    have "\<exists>v k. calculate_loop (i + 1) (cum + stage_dur s) (stg_Target s) ss elapsed = (v, False, i + 1 + int k) \<and> k < length ss \<and>
      cum + stage_dur s + total_dur (take k ss) \<le> elapsed \<and> elapsed < cum + stage_dur s + total_dur (take (Suc k) ss) \<and>
      min (last (stg_Target s # map stg_Target (take k ss))) (stg_Target (ss ! k)) \<le> v \<and>
      v \<le> max (last (stg_Target s # map stg_Target (take k ss))) (stg_Target (ss ! k))"
      using Cons.prems False nn by (intro Cons.IH) auto
    then obtain v k where "calculate_loop (i + 1) (cum + stage_dur s) (stg_Target s) ss elapsed = (v, False, i + 1 + int k)"
      "k < length ss" "cum + stage_dur s + total_dur (take k ss) \<le> elapsed"
      "elapsed < cum + stage_dur s + total_dur (take (Suc k) ss)"
      "min (last (stg_Target s # map stg_Target (take k ss))) (stg_Target (ss ! k)) \<le> v"
      "v \<le> max (last (stg_Target s # map stg_Target (take k ss))) (stg_Target (ss ! k))" by blast
    moreover have "calculate_loop i cum prev (s # ss) elapsed = calculate_loop (i + 1) (cum + stage_dur s) (stg_Target s) ss elapsed"
      using False w by (simp add: Let_def stage_dur_def [symmetric])
    ultimately show ?thesis by (intro exI [of _ v] exI [of _ "Suc k"]) (simp add: add.assoc)
  qed
qed simp

subsection \<open>Reachable states of the manager\<close>

inductive ramp_step :: "ramp_state \<Rightarrow> ramp_state \<Rightarrow> bool" where
  "ramp_step rm (Start_ramp now stages rm)"
| "ramp_step rm (SetManualOverride now vus rm)"
| "ramp_step rm (snd (Pause_ramp now r rm))"
| "ramp_step rm (snd (Resume_ramp now r rm))"
| "ramp_step rm (Stop_ramp rm)"
| "ramp_step rm (snd (ramp_tick now rm))"

inductive ramp_reachable :: "ramp_state \<Rightarrow> bool" where
  "ramp_reachable NewRampingManager"
| "ramp_reachable rm \<Longrightarrow> ramp_step rm rm' \<Longrightarrow> ramp_reachable rm'"

inductive_cases ramp_stepE: "ramp_step rm rm'"

definition ramp_inv :: "ramp_state \<Rightarrow> bool" where
  "ramp_inv rm \<longleftrightarrow>
    (rm_loop rm \<longrightarrow> rm_cancel rm \<and> \<not> rm_paused rm \<and> rm_done rm = Some False) \<and>
    (rm_cancel rm \<longrightarrow> rm_done rm \<noteq> None) \<and>
    (rm_overrideStageIdx rm = - 1 \<longrightarrow> rm_manualVUs rm = 0)"

lemma calculateVUs_index: "stages \<noteq> [] \<Longrightarrow> calculateVUs stages e = (v, d, i) \<Longrightarrow> 0 \<le> i"
proof -
  have "calculate_loop k cum prev ss e = (v, d, i) \<Longrightarrow> 0 \<le> k \<Longrightarrow> ss \<noteq> [] \<Longrightarrow> 0 \<le> i" for k cum prev ss
  proof (induction ss arbitrary: k cum prev)
    case (Cons s ss)
    then show ?case by (cases "ss = []") (auto simp: Let_def split: if_splits)
  qed simp
  then show "stages \<noteq> [] \<Longrightarrow> calculateVUs stages e = (v, d, i) \<Longrightarrow> 0 \<le> i"
    by (auto simp: calculateVUs_def)
qed

lemma override_inv:
  assumes "ramp_inv rm"
  shows "ramp_inv (SetManualOverride now vus rm)"
proof (cases "rm_stages rm = []")
  case True
  then show ?thesis using assms by (simp add: SetManualOverride_def)
next
  case False
  obtain v d i where c: "calculateVUs (rm_stages rm) (ramp_elapsed now rm) = (v, d, i)"
    by (cases "calculateVUs (rm_stages rm) (ramp_elapsed now rm)")
  then have "0 \<le> i" using False by (rule calculateVUs_index [rotated])
  then show ?thesis using assms False c by (simp add: SetManualOverride_def ramp_inv_def)
qed

lemma ramp_reachable_inv: "ramp_reachable rm \<Longrightarrow> ramp_inv rm"
proof (induction rule: ramp_reachable.induct)
  case 1
  then show ?case by (simp add: ramp_inv_def NewRampingManager_def)
next
  case (2 rm rm')
  have "ramp_inv (Start_ramp now ss rm)" for now ss by (simp add: ramp_inv_def Start_ramp_def)
  moreover have "ramp_inv (snd (Pause_ramp now r rm))" for now r
    using 2 by (auto simp: ramp_inv_def Pause_ramp_def end_loop_def Let_def)
  moreover have "ramp_inv (snd (Resume_ramp now r rm))" for now r
    using 2 by (auto simp: ramp_inv_def Resume_ramp_def Let_def split: sum.split)
  moreover have "ramp_inv (Stop_ramp rm)"
    using 2 by (auto simp: ramp_inv_def Stop_ramp_def end_loop_def)
  moreover have "ramp_inv (snd (ramp_tick now rm))" for now
    using 2 by (auto simp: ramp_inv_def ramp_tick_def end_loop_def split: prod.split)
  ultimately show ?case using 2 override_inv by (auto elim!: ramp_stepE)
qed

subsection \<open>Properties\<close>

definition demo_stages :: "stage list" where
  "demo_stages = [\<lparr>stg_Duration = ''10s'', stg_Target = 100\<rparr>, \<lparr>stg_Duration = ''1m'', stg_Target = 20\<rparr>]"

lemma demo_stage_dur:
  "map stage_dur demo_stages = [10 * second, minute]"
proof -
  have "trim_space ''10s'' = ''10s''" "trim_space ''1m'' = ''1m''" "atoi ''10'' = Some 10" "atoi ''1'' = Some 1"
    by (simp_all add: is_plain_def atoi_def is_digit_def digits_val_def digit_val_def in_int64_def)
  then show ?thesis
    by (simp add: demo_stages_def stage_dur_def parseStageDuration_def Let_def wrap64_def)
qed

lemma demo_stages_ok: "list_all stage_ok demo_stages" "total_dur demo_stages = 70 * second"
  using demo_stage_dur by (simp_all add: stage_ok_def demo_stages_def total_dur_def)

text \<open>
  For stages with non-negative durations that sum to less than the range of a duration, and targets
  of at most \<open>2^52\<close> users, the computed number of users is right at every time: before the end of the
  stages it lies between the target of the previous stage (0 at the start) and the target of the stage
  that contains the time, whose index is reported; from the end of the stages on it is the last target,
  and the stages are reported as done. This is for the floating-point arithmetic of the code.
\<close>

theorem calculate_vus_correct:
  assumes "list_all stage_ok stages" "stages \<noteq> []" "total_dur stages < 2 ^ 63" "0 \<le> elapsed"
  shows "if total_dur stages \<le> elapsed
    then calculateVUs stages elapsed = (stg_Target (last stages), True, int (length stages) - 1)
    else \<exists>v k. calculateVUs stages elapsed = (v, False, int k) \<and> k < length stages \<and>
      total_dur (take k stages) \<le> elapsed \<and> elapsed < total_dur (take (Suc k) stages) \<and>
      min (last (0 # map stg_Target (take k stages))) (stg_Target (stages ! k)) \<le> v \<and>
      v \<le> max (last (0 # map stg_Target (take k stages))) (stg_Target (stages ! k))"
proof (cases "total_dur stages \<le> elapsed")
  case True
  then show ?thesis using assms calculate_loop_done [of stages 0 elapsed 0 0]
    by (simp add: calculateVUs_def last_map)
next
  case False
  then show ?thesis using assms calculate_loop_within [of stages 0 elapsed 0 0]
    by (simp add: calculateVUs_def)
qed

theorem calculate_vus_correct_witness:
  "calculateVUs demo_stages (70 * second) = (20, True, 1) \<and>
   (\<exists>v. calculateVUs demo_stages (5 * second) = (v, False, 0) \<and> 0 \<le> v \<and> v \<le> 100)"
proof
  have ne: "demo_stages \<noteq> []" and tot: "total_dur demo_stages < 2 ^ 63" and early: "\<not> total_dur demo_stages \<le> 5 * second"
    by (simp_all add: demo_stages_ok) (simp add: demo_stages_def)
  show "calculateVUs demo_stages (70 * second) = (20, True, 1)"
    using calculate_vus_correct [OF demo_stages_ok(1), of "70 * second"]
    by (simp add: demo_stages_ok) (simp add: demo_stages_def)
  have "\<exists>v k. calculateVUs demo_stages (5 * second) = (v, False, int k) \<and> k < length demo_stages \<and>
      total_dur (take k demo_stages) \<le> 5 * second \<and> 5 * second < total_dur (take (Suc k) demo_stages) \<and>
      min (last (0 # map stg_Target (take k demo_stages))) (stg_Target (demo_stages ! k)) \<le> v \<and>
      v \<le> max (last (0 # map stg_Target (take k demo_stages))) (stg_Target (demo_stages ! k))"
    using calculate_vus_correct [OF demo_stages_ok(1) ne tot, of "5 * second"] unfolding if_not_P [OF early] by simp
  then obtain v k where vk: "calculateVUs demo_stages (5 * second) = (v, False, int k)" "k < length demo_stages"
    "total_dur (take k demo_stages) \<le> 5 * second"
    "min (last (0 # map stg_Target (take k demo_stages))) (stg_Target (demo_stages ! k)) \<le> v"
    "v \<le> max (last (0 # map stg_Target (take k demo_stages))) (stg_Target (demo_stages ! k))" by blast
  have "k = 0"
  proof (rule ccontr)
    assume "k \<noteq> 0"
    with vk(2) have "k = 1" by (simp add: demo_stages_def)
    with vk(3) demo_stage_dur show False by (simp add: demo_stages_def)
  qed
  with vk show "\<exists>v. calculateVUs demo_stages (5 * second) = (v, False, 0) \<and> 0 \<le> v \<and> v \<le> 100"
    by (simp add: demo_stages_def)
qed

text \<open>
  Pausing and resuming keeps the position in the stages: after a pause at one time and a successful
  resume at a later one, the elapsed time of the ramp is the elapsed time at the pause plus the time
  since the resume, and the loop runs again; while it is paused no scale command is sent.
\<close>

theorem pause_resume_keeps_position:
  assumes "ramp_reachable rm" "rm_loop rm" "rm_stages rm \<noteq> []"
  shows "let rm1 = snd (Pause_ramp t1 r rm); rm2 = snd (Resume_ramp t2 (Inr ()) rm1)
    in fst (ramp_tick t rm1) = NoAction \<and> ramp_elapsed t rm1 = ramp_elapsed t1 rm \<and>
       ramp_elapsed t rm2 = ramp_elapsed t1 rm + (t - t2) \<and> rm_loop rm2 \<and> rm_stages rm2 = rm_stages rm"
  using ramp_reachable_inv [OF assms(1)] assms(2,3)
  by (simp add: ramp_inv_def Pause_ramp_def Resume_ramp_def end_loop_def ramp_tick_def ramp_elapsed_def Let_def)

theorem pause_resume_keeps_position_witness:
  "ramp_elapsed (30 * second) (snd (Resume_ramp (20 * second) (Inr ())
     (snd (Pause_ramp (5 * second) (Inr ()) (Start_ramp 0 demo_stages NewRampingManager))))) = 15 * second"
proof -
  have "ramp_reachable (Start_ramp 0 demo_stages NewRampingManager)"
    by (rule ramp_reachable.intros(2) [OF ramp_reachable.intros(1) ramp_step.intros(1)])
  from pause_resume_keeps_position [OF this, of "5 * second" "Inr ()" "20 * second" "30 * second"] show ?thesis
    by (simp add: Start_ramp_def demo_stages_def ramp_elapsed_def Let_def)
qed

text \<open>
  A manual override of a positive number of users is sent at every tick in the stage in which it was
  set, and at the first tick in another stage it is cleared for good and the scheduled number is sent.
\<close>

theorem manual_override_until_next_stage:
  assumes "ramp_reachable rm" "rm_loop rm" "rm_stages rm \<noteq> []" "0 < vus"
    and "calculateVUs (rm_stages rm) (ramp_elapsed t0 rm) = (v0, d0, i0)"
    and "calculateVUs (rm_stages rm) (ramp_elapsed t rm) = (v, False, i)"
  shows "if i = i0 then ramp_tick t (SetManualOverride t0 vus rm) = (Scale vus, SetManualOverride t0 vus rm)
    else fst (ramp_tick t (SetManualOverride t0 vus rm)) = Scale v \<and>
      rm_manualVUs (snd (ramp_tick t (SetManualOverride t0 vus rm))) = 0 \<and>
      (\<forall>t' v' i'. calculateVUs (rm_stages rm) (ramp_elapsed t' rm) = (v', False, i') \<longrightarrow>
        fst (ramp_tick t' (snd (ramp_tick t (SetManualOverride t0 vus rm)))) = Scale v')"
  using ramp_reachable_inv [OF assms(1)] assms(2-6)
  by (auto simp: ramp_inv_def SetManualOverride_def ramp_tick_def ramp_elapsed_def)

theorem manual_override_until_next_stage_witness:
  "fst (ramp_tick 0 (SetManualOverride 0 7 (Start_ramp 0 demo_stages NewRampingManager))) = Scale 7"
proof -
  let ?rm = "Start_ramp 0 demo_stages NewRampingManager"
  have r: "ramp_reachable ?rm"
    by (rule ramp_reachable.intros(2) [OF ramp_reachable.intros(1) ramp_step.intros(1)])
  have "\<exists>v k. calculateVUs demo_stages 0 = (v, False, int k)"
    using calculate_loop_within [of demo_stages 0 0 0 0] demo_stages_ok
    by (auto simp: calculateVUs_def demo_stages_def)
  then obtain v k where c: "calculateVUs (rm_stages ?rm) (ramp_elapsed 0 ?rm) = (v, False, int k)"
    by (auto simp: Start_ramp_def ramp_elapsed_def)
  have "ramp_tick 0 (SetManualOverride 0 7 ?rm) = (Scale 7, SetManualOverride 0 7 ?rm)"
    using manual_override_until_next_stage [OF r _ _ _ c c, of 7] by (simp add: Start_ramp_def demo_stages_def)
  then show ?thesis by simp
qed

end
