(* ===== verification/Orchestrator.thy ===== *)
theory Orchestrator
  imports Worker Ramping
begin

text \<open>
  \<^verbatim>\<open>controller/internal/orchestrator/orchestrator.go\<close>: the commands to the k6 workers, the start-up
  protocol, and the polling that collects metrics and detects the end of a run.

  The state is the record \<open>orch\<close>. A cancel function is the number of the context it cancels, and
  \<open>o_cancelled\<close> lists the contexts that have been cancelled. A command to all workers runs one
  goroutine per worker in an error group: the results of the goroutines are computed from the replies
  of the workers, and the error of the group is the first one in the order in which the goroutines
  end, which is a parameter. The wait for the workers gets the list of the rounds of checks that fit
  before its context ends (all callers give it a deadline). The polling loop gets the events of its
  \<^verbatim>\<open>select\<close>: a tick with the replies of the workers, the absolute deadline, or the end of its context.
\<close>

datatype test_phase = PhaseNone | PhaseScript | PhaseWorkers | PhaseRunning | PhaseCollecting | PhaseDone | PhaseError

record dashboard_config =
  dc_Enabled :: bool
  dc_Host :: string
  dc_Port :: int

record orch =
  o_workers :: "worker list"
  o_latestMetrics :: "aggregated_metrics option"
  o_timeSeries :: "time_point list"
  o_testStartTime :: time
  o_activeTestID :: string
  o_cancelPoll :: "nat option"
  o_pollInterval :: duration
  o_expectedRunDuration :: duration
  o_phase :: test_phase
  o_phaseMessage :: string
  o_rampingDone :: bool
  o_controllable :: bool
  o_hasManagedRamp :: bool
  o_seenRunning :: bool
  o_zeroMetricRun :: int
  o_peakWorkerVUs :: "string \<rightharpoonup> int"
  o_maxTestDuration :: duration
  o_workerReadyTimeout :: duration
  o_dashboard :: dashboard_config
  o_Ramping :: ramp_state
  o_contexts :: nat
  o_cancelled :: "nat list"

record poll_snapshot =
  sn_seenRunning :: bool
  sn_controllable :: bool
  sn_hasManagedRamp :: bool
  sn_zeroMetricRun :: int
  sn_rampingDone :: bool
  sn_expectedRunDuration :: duration
  sn_totalVUs :: int

definition New_orch :: "string list \<Rightarrow> duration \<Rightarrow> duration \<Rightarrow> dashboard_config \<Rightarrow> orch" where
  "New_orch addresses pollInterval maxTestDuration dashboard =
    \<lparr>o_workers = map (\<lambda>a. NewWorker a (dc_Enabled dashboard) (dc_Host dashboard) (dc_Port dashboard)) addresses,
     o_latestMetrics = None, o_timeSeries = [], o_testStartTime = zero_time, o_activeTestID = [],
     o_cancelPoll = None, o_pollInterval = pollInterval, o_expectedRunDuration = 0, o_phase = PhaseNone,
     o_phaseMessage = [], o_rampingDone = False, o_controllable = False, o_hasManagedRamp = False,
     o_seenRunning = False, o_zeroMetricRun = 0, o_peakWorkerVUs = Map.empty,
     o_maxTestDuration = (if maxTestDuration \<le> 0 then 2 * hour else maxTestDuration),
     o_workerReadyTimeout = 0, o_dashboard = dashboard, o_Ramping = NewRampingManager,
     o_contexts = 0, o_cancelled = []\<rparr>"

definition SetWorkerReadyTimeout :: "duration \<Rightarrow> orch \<Rightarrow> orch" where
  "SetWorkerReadyTimeout timeout o1 = o1\<lparr>o_workerReadyTimeout := (if timeout < 0 then 0 else timeout)\<rparr>"

definition SetPhase :: "test_phase \<Rightarrow> string \<Rightarrow> orch \<Rightarrow> orch" where
  "SetPhase p msg o1 = o1\<lparr>o_phase := p, o_phaseMessage := msg\<rparr>"

subsection \<open>Commands to all workers\<close>

text \<open>\<^verbatim>\<open>errgroup.Group.Wait\<close>: the first error in the order in which the goroutines end.\<close>

definition g_Wait :: "nat list \<Rightarrow> string option list \<Rightarrow> string option" where
  "g_Wait order errs =
    (case filter (\<lambda>e. e \<noteq> None) (map (\<lambda>i. if i < length errs then errs ! i else None) order @ errs) of
       [] \<Rightarrow> None
     | e # _ \<Rightarrow> e)"

definition err_of :: "'a res \<Rightarrow> string option" where
  "err_of r = (case r of Inl e \<Rightarrow> Some e | Inr x \<Rightarrow> None)"

definition isBenignStartupResumeError :: "string \<Rightarrow> bool" where
  "isBenignStartupResumeError msg \<longleftrightarrow>
    contains msg ''doesn't support pause and resume operations after its start'' \<or>
    contains msg ''cannot pause the externally controlled executor before it has started'' \<or>
    contains msg ''test execution wasn't paused''"

text \<open>
  The goroutine of one worker in \<^verbatim>\<open>resumeAll\<close>: \<open>n\<close> attempts are left, \<open>a\<close> have been made; the result is
  the error, if any, and the number of attempts.
\<close>

fun resume_worker :: "bool \<Rightarrow> bool \<Rightarrow> worker \<Rightarrow> (nat \<Rightarrow> k6_status http_reply) \<Rightarrow> nat \<Rightarrow> nat \<Rightarrow> string option \<Rightarrow> string option \<times> nat" where
  "resume_worker tolerate fastFail w replies 0 a lastErr = (lastErr, a)"
| "resume_worker tolerate fastFail w replies (Suc n) a lastErr =
    (case PatchStatus w (replies a) of
       Inr s \<Rightarrow> (None, Suc a)
     | Inl err \<Rightarrow>
        (if tolerate \<and> isBenignStartupResumeError err then (None, Suc a)
         else if fastFail \<and> isBenignStartupResumeError err then (Some err, Suc a)
         else resume_worker tolerate fastFail w replies n (Suc a) (Some err)))"

definition resumeAll :: "nat list \<Rightarrow> (nat \<Rightarrow> nat \<Rightarrow> k6_status http_reply) \<Rightarrow> bool \<Rightarrow> bool \<Rightarrow> orch \<Rightarrow> string option" where
  "resumeAll order replies tolerate fastFail o1 =
    g_Wait order (map (\<lambda>i. fst (resume_worker tolerate fastFail (o_workers o1 ! i) (replies i) 5 0 None)) [0..<length (o_workers o1)])"

definition ResumeAll :: "nat list \<Rightarrow> (nat \<Rightarrow> nat \<Rightarrow> k6_status http_reply) \<Rightarrow> orch \<Rightarrow> string option" where
  "ResumeAll order replies o1 = resumeAll order replies False False o1"

text \<open>One patch to every worker; the patch itself does not influence the control flow.\<close>

definition patch_all :: "nat list \<Rightarrow> (nat \<Rightarrow> k6_status http_reply) \<Rightarrow> orch \<Rightarrow> string option" where
  "patch_all order replies o1 =
    g_Wait order (map (\<lambda>i. err_of (PatchStatus (o_workers o1 ! i) (replies i))) [0..<length (o_workers o1)])"

definition patches_of :: "k6_status_patch \<Rightarrow> orch \<Rightarrow> (string \<times> k6_status_patch) list" where
  "patches_of p o1 = map (\<lambda>w. (w_Address w, p)) (o_workers o1)"

definition no_patch :: k6_status_patch where
  "no_patch = \<lparr>kp_Paused = None, kp_Stopped = None, kp_VUs = None, kp_VUsMax = None\<rparr>"

text \<open>\<^verbatim>\<open>PauseAll\<close>: the patches sent and the error.\<close>

definition PauseAll :: "nat list \<Rightarrow> (nat \<Rightarrow> k6_status http_reply) \<Rightarrow> orch \<Rightarrow> (string \<times> k6_status_patch) list \<times> string option" where
  "PauseAll order replies o1 = (patches_of (no_patch\<lparr>kp_Paused := Some True\<rparr>) o1, patch_all order replies o1)"

text \<open>
  \<^verbatim>\<open>ScaleVUs\<close>: the patches sent and the error; \<open>None\<close> is the panic of the integer division when there
  is no worker.
\<close>

definition vu_shares :: "int \<Rightarrow> nat \<Rightarrow> int list" where
  "vu_shares totalVUs n =
    map (\<lambda>i. if int i < rem totalVUs (int n) then wrap64 (quot totalVUs (int n) + 1) else quot totalVUs (int n)) [0..<n]"

definition ScaleVUs :: "nat list \<Rightarrow> (nat \<Rightarrow> k6_status http_reply) \<Rightarrow> int \<Rightarrow> orch \<Rightarrow> ((string \<times> k6_status_patch) list \<times> string option) option" where
  "ScaleVUs order replies totalVUs o1 =
    (if o_workers o1 = [] then None
     else Some (map2 (\<lambda>w vus. (w_Address w, no_patch\<lparr>kp_VUs := Some vus\<rparr>)) (o_workers o1)
                  (vu_shares totalVUs (length (o_workers o1))),
                patch_all order replies o1))"

definition clearActiveRunLocked :: "orch \<Rightarrow> orch" where
  "clearActiveRunLocked o1 =
    (case o_cancelPoll o1 of
       Some c \<Rightarrow> o1\<lparr>o_cancelled := c # o_cancelled o1, o_cancelPoll := None, o_activeTestID := []\<rparr>
     | None \<Rightarrow> o1\<lparr>o_activeTestID := []\<rparr>)"

definition StopAll :: "nat list \<Rightarrow> (nat \<Rightarrow> k6_status http_reply) \<Rightarrow> orch \<Rightarrow> string option \<times> orch" where
  "StopAll order replies o1 = (patch_all order replies o1, clearActiveRunLocked o1)"

subsection \<open>Starting the workers\<close>

definition startupReadyTimeoutForAttempt :: "int \<Rightarrow> orch \<Rightarrow> duration" where
  "startupReadyTimeoutForAttempt attempt0 o1 =
    (let attempt = (if attempt0 < 1 then 1 else attempt0)
     in if 0 < o_workerReadyTimeout o1 then o_workerReadyTimeout o1
        else (let pollBudget0 = wrap64 (o_pollInterval o1 * wrap64 (10 + wrap64 ((attempt - 1) * 2)));
                  pollBudget = (if pollBudget0 < 12 * second then 12 * second else pollBudget0);
                  workerBudget = wrap64 (wrap64 (int (length (o_workers o1)) * 3) * second);
                  timeout = wrap64 (wrap64 (10 * second + pollBudget) + workerBudget);
                  timeout1 = (if timeout < 25 * second then 25 * second else timeout)
              in if 2 * minute < timeout1 then 2 * minute else timeout1))"

text \<open>
  \<^verbatim>\<open>WaitForAllReady\<close>: a round holds the replies of the workers to one check; the context ends after the
  last round.
\<close>

definition all_ready :: "(nat \<Rightarrow> k6_status http_reply) \<Rightarrow> orch \<Rightarrow> bool" where
  "all_ready replies o1 =
    list_all (\<lambda>i. worker_IsReadyForStart (o_workers o1 ! i) (replies i)) [0..<length (o_workers o1)]"

fun wait_ready :: "nat \<Rightarrow> bool list \<Rightarrow> string option" where
  "wait_ready consecutive [] = Some ''timed out waiting for workers to become ready for start''"
| "wait_ready consecutive (ready # rounds) =
    (if ready then (if 2 \<le> Suc consecutive then None else wait_ready (Suc consecutive) rounds)
     else wait_ready 0 rounds)"

definition WaitForAllReady :: "(nat \<Rightarrow> k6_status http_reply) list \<Rightarrow> orch \<Rightarrow> string option" where
  "WaitForAllReady rounds o1 = wait_ready 0 (map (\<lambda>r. all_ready r o1) rounds)"

text \<open>The replies during one attempt of the start, and the orders in which the goroutines end.\<close>

record start_env =
  se_resumeOrder :: "nat list"
  se_resume :: "nat \<Rightarrow> nat \<Rightarrow> k6_status http_reply"
  se_stopOrder :: "nat list"
  se_stop :: "nat \<Rightarrow> k6_status http_reply"
  se_rounds :: "(nat \<Rightarrow> k6_status http_reply) list"

definition recoverWorkersForStart :: "start_env \<Rightarrow> orch \<Rightarrow> string option \<times> orch" where
  "recoverWorkersForStart env o1 =
    (case StopAll (se_stopOrder env) (se_stop env) o1 of
       (Some e, o2) \<Rightarrow> (Some e, o2)
     | (None, o2) \<Rightarrow> (WaitForAllReady (se_rounds env) o2, o2))"

definition maxRecoveryAttempts :: nat where
  "maxRecoveryAttempts = 3"

text \<open>\<open>n\<close> attempts are left, the first of them is attempt \<open>maxRecoveryAttempts - n + 1\<close>.\<close>

fun start_attempts :: "(nat \<Rightarrow> start_env) \<Rightarrow> nat \<Rightarrow> orch \<Rightarrow> string option \<times> orch" where
  "start_attempts env 0 o1 = (None, o1)"
| "start_attempts env (Suc n) o1 =
    (let e = env (maxRecoveryAttempts - n)
     in case resumeAll (se_resumeOrder e) (se_resume e) False True o1 of
          None \<Rightarrow> (None, o1)
        | Some err \<Rightarrow>
           (if \<not> isBenignStartupResumeError err then (Some err, o1)
            else if maxRecoveryAttempts - n = maxRecoveryAttempts then (Some err, o1)
            else (case recoverWorkersForStart e o1 of
                    (Some err2, o2) \<Rightarrow> (Some (''failed to recover workers after active-state resume race: '' @ err2), o2)
                  | (None, o2) \<Rightarrow> start_attempts env n o2)))"

definition ResumeAllForStart :: "(nat \<Rightarrow> start_env) \<Rightarrow> orch \<Rightarrow> string option \<times> orch" where
  "ResumeAllForStart env o1 = start_attempts env maxRecoveryAttempts o1"

subsection \<open>Polling\<close>

definition SetRampingDone :: "orch \<Rightarrow> orch" where
  "SetRampingDone o1 = o1\<lparr>o_rampingDone := True\<rparr>"

text \<open>\<^verbatim>\<open>ApplyPeakVUs\<close>; nil metrics are \<open>None\<close>.\<close>

definition apply_peak :: "orch \<Rightarrow> worker_metrics \<Rightarrow> worker_metrics" where
  "apply_peak o1 wm = (case o_peakWorkerVUs o1 (wm_Address wm) of None \<Rightarrow> wm | Some p \<Rightarrow> wm\<lparr>wm_VUs := p\<rparr>)"

definition ApplyPeakVUs :: "orch \<Rightarrow> aggregated_metrics option \<Rightarrow> aggregated_metrics option" where
  "ApplyPeakVUs o1 metrics =
    (case metrics of
       None \<Rightarrow> None
     | Some m \<Rightarrow>
        Some (m\<lparr>am_Workers := map (apply_peak o1) (am_Workers m),
                am_TotalVUs := fold (\<lambda>wm n. case o_peakWorkerVUs o1 (wm_Address wm) of None \<Rightarrow> n | Some p \<Rightarrow> wrap64 (n + p))
                                 (am_Workers m) 0\<rparr>))"

definition resetPollingStateLocked :: "time \<Rightarrow> string \<Rightarrow> nat \<Rightarrow> bool \<Rightarrow> bool \<Rightarrow> duration \<Rightarrow> orch \<Rightarrow> orch" where
  "resetPollingStateLocked now testID cancel controllable hasManagedRamp expected o1 =
    o1\<lparr>o_cancelPoll := Some cancel, o_activeTestID := testID, o_timeSeries := [], o_testStartTime := now,
       o_latestMetrics := None, o_rampingDone := False, o_controllable := controllable,
       o_hasManagedRamp := hasManagedRamp, o_expectedRunDuration := expected, o_seenRunning := False,
       o_zeroMetricRun := 0, o_peakWorkerVUs := Map.empty\<rparr>"

text \<open>The polling loop: its context, the test, whether there is a completion function, and its local state.\<close>

record poll_loop =
  pl_ctx :: nat
  pl_testID :: string
  pl_onComplete :: bool
  pl_tickCount :: int
  pl_returned :: bool

definition StartPolling :: "time \<Rightarrow> string \<Rightarrow> bool \<Rightarrow> bool \<Rightarrow> duration \<Rightarrow> bool \<Rightarrow> orch \<Rightarrow> poll_loop \<times> orch" where
  "StartPolling now testID controllable hasManagedRamp expected onComplete o1 =
    (let o2 = (case o_cancelPoll o1 of Some c \<Rightarrow> o1\<lparr>o_cancelled := c # o_cancelled o1\<rparr> | None \<Rightarrow> o1);
         c = o_contexts o2;
         o3 = resetPollingStateLocked now testID c controllable hasManagedRamp expected (o2\<lparr>o_contexts := Suc c\<rparr>)
     in (\<lparr>pl_ctx = c, pl_testID = testID, pl_onComplete = onComplete, pl_tickCount = 0, pl_returned = False\<rparr>, o3))"

definition StopPolling :: "orch \<Rightarrow> orch" where
  "StopPolling o1 = clearActiveRunLocked o1"

text \<open>\<^verbatim>\<open>Duration.Seconds\<close>.\<close>

definition dur_seconds :: "duration \<Rightarrow> f64" where
  "dur_seconds d = fadd (f64_of_int (quot d second)) (fdiv (f64_of_int (rem d second)) (Fin 1000000000))"

definition appendTimeSeriesPointLocked :: "time \<Rightarrow> aggregated_metrics \<Rightarrow> orch \<Rightarrow> orch" where
  "appendTimeSeriesPointLocked now agg o1 =
    o1\<lparr>o_timeSeries := o_timeSeries o1 @
      [\<lparr>tp_ElapsedSec = dur_seconds (now - o_testStartTime o1), tp_TotalVUs = am_TotalVUs agg, tp_RPS = am_RPS agg,
        tp_AvgLatency = am_AvgLatency agg, tp_P95Latency = am_P95Latency agg,
        tp_TotalRequests = am_TotalRequests agg, tp_BusinessRequests = am_BusinessRequests agg,
        tp_ErrorRate = am_ErrorRate agg, tp_Status4xx = am_Status4xx agg, tp_Status5xx = am_Status5xx agg\<rparr>]\<rparr>"

definition has_data :: "aggregated_metrics \<Rightarrow> bool" where
  "has_data agg \<longleftrightarrow> flt f0 (am_TotalRequests agg) \<or> 0 < am_TotalVUs agg"

definition peak_of :: "(string \<rightharpoonup> int) \<Rightarrow> string \<Rightarrow> int" where
  "peak_of peaks a = (case peaks a of None \<Rightarrow> 0 | Some p \<Rightarrow> p)"

definition update_peak :: "worker_metrics \<Rightarrow> (string \<rightharpoonup> int) \<Rightarrow> (string \<rightharpoonup> int)" where
  "update_peak wm peaks =
    (if peak_of peaks (wm_Address wm) < wm_VUs wm then peaks(wm_Address wm \<mapsto> wm_VUs wm) else peaks)"

definition snapshot_of :: "aggregated_metrics \<Rightarrow> orch \<Rightarrow> poll_snapshot" where
  "snapshot_of agg o1 =
    \<lparr>sn_seenRunning = o_seenRunning o1, sn_controllable = o_controllable o1,
     sn_hasManagedRamp = o_hasManagedRamp o1, sn_zeroMetricRun = o_zeroMetricRun o1,
     sn_rampingDone = o_rampingDone o1, sn_expectedRunDuration = o_expectedRunDuration o1,
     sn_totalVUs = am_TotalVUs agg\<rparr>"

definition updatePollingState :: "time \<Rightarrow> aggregated_metrics \<Rightarrow> orch \<Rightarrow> poll_snapshot \<times> orch" where
  "updatePollingState now agg o1 =
    (let o2 = o1\<lparr>o_latestMetrics := Some agg\<rparr>;
         o3 = (if has_data agg
               then appendTimeSeriesPointLocked now agg
                      (o2\<lparr>o_seenRunning := True, o_zeroMetricRun := 0,
                          o_peakWorkerVUs := fold update_peak (am_Workers agg) (o_peakWorkerVUs o2)\<rparr>)
               else if o_seenRunning o2 then o2\<lparr>o_zeroMetricRun := wrap64 (o_zeroMetricRun o2 + 1)\<rparr>
               else o2)
     in (snapshot_of agg o3, o3))"

fun workers_ended :: "bool \<Rightarrow> (worker \<times> k6_status http_reply) list \<Rightarrow> bool" where
  "workers_ended controllable [] = True"
| "workers_ended controllable ((w, r) # ws) =
    (case GetStatus w r of
       Inl e \<Rightarrow> False
     | Inr status \<Rightarrow>
        (if ks_Paused status then (if controllable then False else workers_ended controllable ws)
         else if IsRunning status then False
         else if IsFinished status then workers_ended controllable ws
         else False))"

definition allWorkersEnded :: "(nat \<Rightarrow> k6_status http_reply) \<Rightarrow> orch \<Rightarrow> bool" where
  "allWorkersEnded replies o1 =
    (if o_rampingDone o1 then True
     else workers_ended (o_controllable o1) (zip (o_workers o1) (map replies [0..<length (o_workers o1)])))"

definition shouldCompleteTest :: "time \<Rightarrow> (nat \<Rightarrow> k6_status http_reply) \<Rightarrow> int \<Rightarrow> poll_snapshot \<Rightarrow> orch \<Rightarrow> bool" where
  "shouldCompleteTest now replies tickCount state o1 =
    (if sn_hasManagedRamp state
     then (if sn_rampingDone state then True
           else sn_seenRunning state \<and> sn_totalVUs state = 0 \<and> 2 \<le> sn_zeroMetricRun state \<and> 5 \<le> tickCount \<and>
             allWorkersEnded replies o1)
     else if sn_controllable state
     then sn_seenRunning state \<and> 5 \<le> tickCount \<and> allWorkersEnded replies o1
     else if \<not> sn_seenRunning state then False
     else if 3 \<le> sn_zeroMetricRun state then True
     else if 0 < sn_expectedRunDuration state \<and>
             wrap64 (now - o_testStartTime o1 + o_pollInterval o1) < sn_expectedRunDuration state then False
     else 5 \<le> tickCount \<and> allWorkersEnded replies o1)"

definition fetchAllMetrics :: "(nat \<Rightarrow> metrics_data http_reply) \<Rightarrow> orch \<Rightarrow> worker_result list" where
  "fetchAllMetrics replies o1 =
    map (\<lambda>i. (let w = o_workers o1 ! i
              in case GetMetrics w (replies i) of
                   Inl e \<Rightarrow> \<lparr>wr_Address = w_Address w, wr_Metrics = [], wr_Error = Some e\<rparr>
                 | Inr ms \<Rightarrow> \<lparr>wr_Address = w_Address w, wr_Metrics = ms, wr_Error = None\<rparr>))
      [0..<length (o_workers o1)]"

definition FetchFinalMetrics :: "(nat \<Rightarrow> metrics_data http_reply) \<Rightarrow> orch \<Rightarrow> aggregated_metrics" where
  "FetchFinalMetrics replies o1 = Aggregate (fetchAllMetrics replies o1)"

text \<open>
  One turn of the loop. A tick carries the time, the replies to the requests for the metrics and the
  replies to the requests for the status. The result is the loop, the state, and the test whose
  completion is reported, if any.
\<close>

datatype poll_event = CtxDone | Deadline | Tick time "nat \<Rightarrow> metrics_data http_reply" "nat \<Rightarrow> k6_status http_reply"

definition neverStartedTimeout :: int where
  "neverStartedTimeout = 150"

definition complete_loop :: "poll_loop \<Rightarrow> orch \<Rightarrow> string option \<times> poll_loop \<times> orch" where
  "complete_loop l o1 = (if pl_onComplete l then Some (pl_testID l) else None, l\<lparr>pl_returned := True\<rparr>, o1)"

fun poll_turn :: "poll_event \<Rightarrow> poll_loop \<Rightarrow> orch \<Rightarrow> string option \<times> poll_loop \<times> orch" where
  "poll_turn CtxDone l o1 = (None, l\<lparr>pl_returned := True\<rparr>, o1)"
| "poll_turn Deadline l o1 = complete_loop l o1"
| "poll_turn (Tick now metrics status) l o1 =
    (let l1 = l\<lparr>pl_tickCount := pl_tickCount l + 1\<rparr>
     in case updatePollingState now (Aggregate (fetchAllMetrics metrics o1)) o1 of
          (state, o2) \<Rightarrow>
            (if shouldCompleteTest now status (pl_tickCount l1) state o2 then complete_loop l1 o2
             else if \<not> sn_seenRunning state \<and> neverStartedTimeout \<le> pl_tickCount l1 then complete_loop l1 o2
             else (None, l1, o2)))"

text \<open>The loop on a list of events, when nothing else happens in between: the completions it reports.\<close>

fun pollLoop :: "poll_event list \<Rightarrow> poll_loop \<Rightarrow> orch \<Rightarrow> string list \<times> poll_loop \<times> orch" where
  "pollLoop [] l o1 = ([], l, o1)"
| "pollLoop (e # es) l o1 =
    (if pl_returned l then ([], l, o1)
     else (case poll_turn e l o1 of
             (c, l1, o2) \<Rightarrow>
               (case pollLoop es l1 o2 of
                  (cs, l2, o3) \<Rightarrow> ((case c of None \<Rightarrow> cs | Some t \<Rightarrow> t # cs), l2, o3))))"

subsection \<open>Reading the state\<close>

definition GetTimeSeries :: "orch \<Rightarrow> time_point list" where
  "GetTimeSeries o1 = o_timeSeries o1"

definition WorkerCount :: "orch \<Rightarrow> nat" where
  "WorkerCount o1 = length (o_workers o1)"

definition WorkerNames :: "orch \<Rightarrow> string list" where
  "WorkerNames o1 = map worker_Name (o_workers o1)"

definition FindWorker :: "string \<Rightarrow> orch \<Rightarrow> worker option" where
  "FindWorker nameOrAddress o1 =
    find (\<lambda>w. w_Address w = nameOrAddress \<or> worker_Name w = nameOrAddress) (o_workers o1)"

definition workerDisplayStatus :: "k6_status \<Rightarrow> bool \<Rightarrow> string" where
  "workerDisplayStatus status testActive =
    (if IsRunning status \<and> \<not> ks_Paused status then ''running''
     else if ks_Paused status then ''paused''
     else if IsFinished status then (if testActive then ''done'' else ''online'')
     else ''online'')"

definition buildWorkerMetricsFromWorker :: "worker \<Rightarrow> k6_status res \<Rightarrow> bool \<Rightarrow> worker_metrics" where
  "buildWorkerMetricsFromWorker w r testActive =
    (let wm = zero_worker_metrics
           \<lparr>wm_Name := worker_Name w, wm_Address := w_Address w, wm_Status := ''unreachable'',
            wm_DashboardEnabled := w_DashboardEnabled w, wm_DashboardURL := DashboardURL w\<rparr>
     in case r of
          Inl e \<Rightarrow> wm\<lparr>wm_Error := e\<rparr>
        | Inr status \<Rightarrow> wm\<lparr>wm_Status := workerDisplayStatus status testActive, wm_VUs := ks_VUs status\<rparr>)"

definition CheckWorkers :: "(nat \<Rightarrow> k6_status http_reply) \<Rightarrow> orch \<Rightarrow> worker_metrics list" where
  "CheckWorkers replies o1 =
    map (\<lambda>i. buildWorkerMetricsFromWorker (o_workers o1 ! i) (GetStatus (o_workers o1 ! i) (replies i))
               (o_activeTestID o1 \<noteq> []))
      [0..<length (o_workers o1)]"

end
