(* ===== verification/OrchestratorProofs.thy ===== *)
theory OrchestratorProofs
  imports Orchestrator
begin

text \<open>
  Properties of the orchestrator: the commands to all workers, the start-up protocol, the end of a run
  and the interleavings of the polling loops with the operations that start and stop them.

  \<open>error_group\<close> is the contract of an error group that the commands rely on: it reports no error
  exactly when no goroutine has one, and otherwise the error of one of them. It is interpreted on
  \<open>g_Wait\<close>, for any order in which the goroutines end.
\<close>

subsection \<open>Error groups\<close>

locale error_group =
  fixes wait :: "'o \<Rightarrow> string option list \<Rightarrow> string option"
  assumes wait_None: "wait ord errs = None \<longleftrightarrow> (\<forall>e \<in> set errs. e = None)"
    and wait_Some: "wait ord errs = Some e \<Longrightarrow> Some e \<in> set errs"
begin

lemma wait_map_None: "wait ord (map f xs) = None \<longleftrightarrow> (\<forall>x \<in> set xs. f x = None)"
  by (simp add: wait_None)

lemma wait_map_Some: "wait ord (map f xs) = Some e \<Longrightarrow> \<exists>x \<in> set xs. f x = Some e"
  using wait_Some [of ord "map f xs" e] by force

lemma wait_order_irrelevant: "(wait ord errs = None) = (wait ord' errs = None)"
  by (simp add: wait_None)

end

interpretation group: error_group g_Wait
proof
  fix order :: "nat list" and errs :: "string option list" and e :: string
  let ?l = "filter (\<lambda>e. e \<noteq> None) (map (\<lambda>i. if i < length errs then errs ! i else None) order @ errs)"
  have sub: "x \<in> set errs \<and> x \<noteq> None" if "x \<in> set ?l" for x
    using that by (auto split: if_splits)
  show "g_Wait order errs = None \<longleftrightarrow> (\<forall>e \<in> set errs. e = None)"
  proof (cases ?l)
    case Nil
    then have "\<forall>e \<in> set errs. e = None" by (simp add: filter_empty_conv)
    then show ?thesis unfolding g_Wait_def Nil by simp
  next
    case (Cons x xs)
    then have "x \<in> set errs \<and> x \<noteq> None" by (intro sub) simp
    then show ?thesis unfolding g_Wait_def Cons by auto
  qed
  show "Some e \<in> set errs" if "g_Wait order errs = Some e"
  proof (cases ?l)
    case Nil
    then show ?thesis using that unfolding g_Wait_def Nil by simp
  next
    case (Cons x xs)
    then have "x \<in> set errs \<and> x \<noteq> None" by (intro sub) simp
    then show ?thesis using that unfolding g_Wait_def Cons by simp
  qed
qed

lemma err_of_None: "err_of r = None \<longleftrightarrow> \<not> is_err r"
  by (cases r) (auto simp: err_of_def)

lemma patch_all_None:
  "patch_all order replies o1 = None \<longleftrightarrow>
    (\<forall>i < length (o_workers o1). \<not> is_err (PatchStatus (o_workers o1 ! i) (replies i)))"
  by (simp add: patch_all_def group.wait_map_None err_of_None Ball_def)

subsection \<open>The share of a worker\<close>

lemma sum_shares:
  fixes q :: int
  shows "sum_list (map (\<lambda>i. if int i < r then q + 1 else q) [0..<n]) = int n * q + (if r < 0 then 0 else min r (int n))"
  by (induction n) (auto simp: algebra_simps min_def)

lemma vu_shares_nonneg:
  assumes "0 \<le> t" "t < 2 ^ 63" "0 < n"
  shows "vu_shares t n = map (\<lambda>i. if int i < t mod int n then t div int n + 1 else t div int n) [0..<n]"
proof -
  have qr: "quot t (int n) = t div int n" "rem t (int n) = t mod int n"
    using assms by (simp_all add: quot_nonneg rem_nonneg)
  have "t div int n + 1 < 2 ^ 63" if "0 < t mod int n"
  proof (cases "n = 1")
    case True
    then show ?thesis using that by simp
  next
    case False
    then have "2 \<le> int n" using assms(3) by simp
    then have "t div int n \<le> t div 2" using assms(1) by (intro zdiv_mono2) auto
    then show ?thesis using assms(2) by simp
  qed
  moreover have "0 \<le> t div int n" using assms by (simp add: pos_imp_zdiv_nonneg_iff)
  ultimately have "wrap64 (t div int n + 1) = t div int n + 1" if "0 < t mod int n"
    using that by (intro wrap64_id) (simp add: in_int64_def)
  then show ?thesis by (auto simp: vu_shares_def qr)
qed

lemma vu_shares_sum:
  assumes "0 \<le> t" "t < 2 ^ 63" "0 < n"
  shows "sum_list (vu_shares t n) = t"
proof -
  have "0 \<le> t mod int n" "t mod int n < int n" using assms(3) by simp_all
  then show ?thesis unfolding vu_shares_nonneg [OF assms] sum_shares by (simp add: min_def)
qed

lemma vu_shares_even:
  assumes "0 \<le> t" "t < 2 ^ 63" "0 < n" "x \<in> set (vu_shares t n)"
  shows "x = t div int n \<or> x = t div int n + 1"
  using assms(4) unfolding vu_shares_nonneg [OF assms(1-3)] by auto

subsection \<open>Starting\<close>

lemma resume_worker_ok:
  "fst (resume_worker False ff w replies n a le) = None \<longleftrightarrow>
    (n = 0 \<and> le = None) \<or>
    (\<exists>k < n. \<not> is_err (PatchStatus w (replies (a + k))) \<and>
      (\<forall>j < k. \<exists>e. PatchStatus w (replies (a + j)) = Inl e \<and> \<not> (ff \<and> isBenignStartupResumeError e)))"
proof (induction n arbitrary: a le)
  case (Suc n)
  have ex: "(\<exists>k < Suc n. P k) \<longleftrightarrow> P 0 \<or> (\<exists>k < n. P (Suc k))" for P by (auto simp: less_Suc_eq_0_disj)
  have al: "(\<forall>j < Suc k. Q j) \<longleftrightarrow> Q 0 \<and> (\<forall>j < k. Q (Suc j))" for Q k by (auto simp: less_Suc_eq_0_disj)
  show ?case
  proof (cases "PatchStatus w (replies a)")
    case (Inl e)
    then show ?thesis by (auto simp: ex al Suc.IH)
  next
    case (Inr s)
    then show ?thesis by (simp add: ex)
  qed
qed simp

lemma resume_worker_attempts: "snd (resume_worker tol ff w replies n a le) \<le> a + n"
proof (induction n arbitrary: a le)
  case (Suc n)
  show ?case
    using Suc.IH [of "Suc a"] by (simp split: sum.split)
qed simp

lemma wait_ready_None:
  "wait_ready c rounds = None \<longleftrightarrow>
    (1 \<le> c \<and> rounds \<noteq> [] \<and> hd rounds) \<or> (\<exists>i. Suc i < length rounds \<and> rounds ! i \<and> rounds ! Suc i)"
proof (induction rounds arbitrary: c)
  case (Cons r rs)
  have ex: "(\<exists>i. Suc i < length (r # rs) \<and> (r # rs) ! i \<and> (r # rs) ! Suc i) \<longleftrightarrow>
      (rs \<noteq> [] \<and> r \<and> hd rs) \<or> (\<exists>i. Suc i < length rs \<and> rs ! i \<and> rs ! Suc i)"
  proof (cases rs)
    case (Cons r2 rs2)
    have "(\<exists>i. P i) \<longleftrightarrow> P 0 \<or> (\<exists>i. P (Suc i))" for P :: "nat \<Rightarrow> bool" by (metis not0_implies_Suc)
    from this [of "\<lambda>i. Suc i < length (r # rs) \<and> (r # rs) ! i \<and> (r # rs) ! Suc i"]
    show ?thesis by (simp add: Cons)
  qed simp
  show ?case unfolding ex by (cases c) (auto simp: Cons.IH)
qed simp

subsection \<open>Polling\<close>

text \<open>
  The orchestrator with all the loops that were ever started and the completions they have reported.
  A loop whose context is cancelled may still take a tick: Go chooses among the ready cases of a
  \<^verbatim>\<open>select\<close> at random.
\<close>

record poll_sys =
  ps_orch :: orch
  ps_loops :: "poll_loop list"
  ps_reported :: "(nat \<times> string) list"

definition loop_turn :: "nat \<Rightarrow> poll_event \<Rightarrow> poll_sys \<Rightarrow> poll_sys" where
  "loop_turn i e s =
    (case poll_turn e (ps_loops s ! i) (ps_orch s) of
       (c, l, o1) \<Rightarrow>
         \<lparr>ps_orch = o1, ps_loops = (ps_loops s)[i := l],
          ps_reported = ps_reported s @ (case c of None \<Rightarrow> [] | Some t \<Rightarrow> [(i, t)])\<rparr>)"

inductive poll_step :: "poll_sys \<Rightarrow> poll_sys \<Rightarrow> bool" where
  start: "StartPolling now t ctl ramp d cb (ps_orch s) = (l, o1) \<Longrightarrow>
    poll_step s (s\<lparr>ps_orch := o1, ps_loops := ps_loops s @ [l]\<rparr>)"
| stop: "poll_step s (s\<lparr>ps_orch := StopPolling (ps_orch s)\<rparr>)"
| stop_all: "poll_step s (s\<lparr>ps_orch := snd (StopAll ord rs (ps_orch s))\<rparr>)"
| ramp_done: "poll_step s (s\<lparr>ps_orch := SetRampingDone (ps_orch s)\<rparr>)"
| phase: "poll_step s (s\<lparr>ps_orch := SetPhase p msg (ps_orch s)\<rparr>)"
| turn: "i < length (ps_loops s) \<Longrightarrow> \<not> pl_returned (ps_loops s ! i) \<Longrightarrow>
    (e = CtxDone \<Longrightarrow> i \<in> set (o_cancelled (ps_orch s))) \<Longrightarrow> poll_step s (loop_turn i e s)"

inductive poll_reachable :: "orch \<Rightarrow> poll_sys \<Rightarrow> bool" for o0 where
  init: "poll_reachable o0 \<lparr>ps_orch = o0, ps_loops = [], ps_reported = []\<rparr>"
| step: "poll_reachable o0 s \<Longrightarrow> poll_step s s' \<Longrightarrow> poll_reachable o0 s'"

inductive_cases poll_stepE: "poll_step s s'"

text \<open>The run that is active, its loop, and the contexts.\<close>

definition run_inv :: "poll_sys \<Rightarrow> bool" where
  "run_inv s \<longleftrightarrow>
    o_contexts (ps_orch s) = length (ps_loops s) \<and>
    (\<forall>i < length (ps_loops s). pl_ctx (ps_loops s ! i) = i \<and>
       (i \<in> set (o_cancelled (ps_orch s)) \<or> o_cancelPoll (ps_orch s) = Some i)) \<and>
    (case o_cancelPoll (ps_orch s) of
       None \<Rightarrow> o_activeTestID (ps_orch s) = []
     | Some c \<Rightarrow> c < length (ps_loops s) \<and> pl_testID (ps_loops s ! c) = o_activeTestID (ps_orch s))"

text \<open>The completions.\<close>

definition report_inv :: "poll_sys \<Rightarrow> bool" where
  "report_inv s \<longleftrightarrow>
    distinct (map fst (ps_reported s)) \<and>
    (\<forall>(i, t) \<in> set (ps_reported s). i < length (ps_loops s) \<and> pl_returned (ps_loops s ! i) \<and>
       pl_onComplete (ps_loops s ! i) \<and> pl_testID (ps_loops s ! i) = t)"

text \<open>The collected data.\<close>

definition data_inv :: "orch \<Rightarrow> bool" where
  "data_inv o1 \<longleftrightarrow>
    (o_seenRunning o1 \<longleftrightarrow> o_timeSeries o1 \<noteq> []) \<and>
    (o_timeSeries o1 \<noteq> [] \<longrightarrow> o_latestMetrics o1 \<noteq> None) \<and>
    (o_zeroMetricRun o1 \<noteq> 0 \<longrightarrow> o_seenRunning o1) \<and>
    (\<forall>a p. o_peakWorkerVUs o1 a = Some p \<longrightarrow> 0 < p)"

lemmas polling_defs = StartPolling_def StopPolling_def StopAll_def SetRampingDone_def SetPhase_def
  clearActiveRunLocked_def resetPollingStateLocked_def Let_def

lemma updatePollingState_frame:
  assumes "updatePollingState now agg o1 = (st, o2)"
  shows "o_contexts o2 = o_contexts o1" "o_cancelled o2 = o_cancelled o1" "o_cancelPoll o2 = o_cancelPoll o1"
    "o_activeTestID o2 = o_activeTestID o1" "o_workers o2 = o_workers o1" "st = snapshot_of agg o2"
    "o_rampingDone o2 = o_rampingDone o1" "o_hasManagedRamp o2 = o_hasManagedRamp o1"
    "o_controllable o2 = o_controllable o1"
  using assms by (auto simp: updatePollingState_def Let_def appendTimeSeriesPointLocked_def split: if_splits)

lemma poll_turn_frame:
  assumes "poll_turn e l o1 = (c, l2, o2)"
  shows "o_contexts o2 = o_contexts o1" "o_cancelled o2 = o_cancelled o1" "o_cancelPoll o2 = o_cancelPoll o1"
    "o_activeTestID o2 = o_activeTestID o1" "pl_ctx l2 = pl_ctx l" "pl_testID l2 = pl_testID l"
    "pl_onComplete l2 = pl_onComplete l"
    "c = Some t \<Longrightarrow> t = pl_testID l \<and> pl_onComplete l \<and> pl_returned l2"
  using assms
  by (cases e; auto simp: complete_loop_def Let_def updatePollingState_frame split: prod.splits if_splits)+

lemma loop_turn_frame:
  assumes "i < length (ps_loops s)"
  shows "o_contexts (ps_orch (loop_turn i e s)) = o_contexts (ps_orch s)"
    "o_cancelled (ps_orch (loop_turn i e s)) = o_cancelled (ps_orch s)"
    "o_cancelPoll (ps_orch (loop_turn i e s)) = o_cancelPoll (ps_orch s)"
    "o_activeTestID (ps_orch (loop_turn i e s)) = o_activeTestID (ps_orch s)"
    "length (ps_loops (loop_turn i e s)) = length (ps_loops s)"
    "pl_ctx (ps_loops (loop_turn i e s) ! j) = pl_ctx (ps_loops s ! j)"
    "pl_testID (ps_loops (loop_turn i e s) ! j) = pl_testID (ps_loops s ! j)"
    "pl_onComplete (ps_loops (loop_turn i e s) ! j) = pl_onComplete (ps_loops s ! j)"
proof -
  obtain c l2 o2 where t: "poll_turn e (ps_loops s ! i) (ps_orch s) = (c, l2, o2)" by (metis prod_cases3)
  note f = poll_turn_frame [OF t]
  show "o_contexts (ps_orch (loop_turn i e s)) = o_contexts (ps_orch s)"
    "o_cancelled (ps_orch (loop_turn i e s)) = o_cancelled (ps_orch s)"
    "o_cancelPoll (ps_orch (loop_turn i e s)) = o_cancelPoll (ps_orch s)"
    "o_activeTestID (ps_orch (loop_turn i e s)) = o_activeTestID (ps_orch s)"
    "length (ps_loops (loop_turn i e s)) = length (ps_loops s)"
    by (simp_all add: loop_turn_def t f)
  show "pl_ctx (ps_loops (loop_turn i e s) ! j) = pl_ctx (ps_loops s ! j)"
    "pl_testID (ps_loops (loop_turn i e s) ! j) = pl_testID (ps_loops s ! j)"
    "pl_onComplete (ps_loops (loop_turn i e s) ! j) = pl_onComplete (ps_loops s ! j)"
    using assms by (cases "j = i"; simp add: loop_turn_def t f)+
qed

lemma run_inv_step:
  assumes "run_inv s" "poll_step s s'"
  shows "run_inv s'"
  using assms(2)
proof cases
  case (start now t ctl ramp d cb l o1)
  then show ?thesis using assms(1)
    by (cases "o_cancelPoll (ps_orch s)") (auto simp: run_inv_def polling_defs nth_append less_Suc_eq)
next
  case (turn i e)
  then show ?thesis using assms(1)
    by (simp add: run_inv_def loop_turn_frame split: option.splits)
qed (use assms(1) in \<open>auto simp: run_inv_def polling_defs split: option.splits\<close>)

lemma report_inv_step:
  assumes "report_inv s" "poll_step s s'"
  shows "report_inv s'"
  using assms(2)
proof cases
  case (start now t ctl ramp d cb l o1)
  then show ?thesis using assms(1) by (auto simp: report_inv_def nth_append)
next
  case (turn i e)
  obtain c l2 o2 where t: "poll_turn e (ps_loops s ! i) (ps_orch s) = (c, l2, o2)" by (metis prod_cases3)
  have new: "i \<notin> fst ` set (ps_reported s)" using assms(1) turn by (force simp: report_inv_def)
  have old: "j < length (ps_loops (loop_turn i e s)) \<and> pl_returned (ps_loops (loop_turn i e s) ! j) \<and>
      pl_onComplete (ps_loops (loop_turn i e s) ! j) \<and> pl_testID (ps_loops (loop_turn i e s) ! j) = u"
    if "(j, u) \<in> set (ps_reported s)" for j u
  proof -
    have "j \<noteq> i" using new that by force
    then show ?thesis using that assms(1) turn by (auto simp: report_inv_def loop_turn_def t)
  qed
  show ?thesis
  proof (cases c)
    case None
    then have "ps_reported s' = ps_reported s" using turn by (simp add: loop_turn_def t)
    then show ?thesis using assms(1) old turn(1) by (auto simp: report_inv_def)
  next
    case (Some u)
    note f = poll_turn_frame(5-8) [OF t]
    have "ps_reported s' = ps_reported s @ [(i, u)]" using turn Some by (simp add: loop_turn_def t)
    moreover have "ps_loops s' ! i = l2" "i < length (ps_loops s')" using turn by (simp_all add: loop_turn_def t)
    ultimately show ?thesis using assms(1) old turn(1) new f Some by (auto simp: report_inv_def)
  qed
qed (use assms(1) in \<open>auto simp: report_inv_def\<close>)

lemma fold_update_peak_pos:
  assumes "\<And>a p. peaks a = Some p \<Longrightarrow> 0 < p" "fold update_peak wms peaks a = Some p"
  shows "0 < p"
  using assms
proof (induction wms arbitrary: peaks)
  case (Cons w wms)
  have "0 < q" if "update_peak w peaks b = Some q" for b q
    using that Cons.prems(1) [of "wm_Address w"] Cons.prems(1) [of b]
    by (auto simp: update_peak_def peak_of_def split: if_splits option.splits)
  then show ?case using Cons.IH Cons.prems(2) by auto
qed simp

lemma data_inv_update:
  assumes "data_inv o1" "updatePollingState now agg o1 = (st, o2)"
  shows "data_inv o2"
proof (cases "has_data agg")
  case True
  then show ?thesis using assms fold_update_peak_pos [of "o_peakWorkerVUs o1"]
    by (auto simp: updatePollingState_def Let_def appendTimeSeriesPointLocked_def data_inv_def)
next
  case False
  then show ?thesis using assms
    by (auto simp: updatePollingState_def Let_def data_inv_def split: if_splits)
qed

lemma data_inv_turn:
  assumes "data_inv o1" "poll_turn e l o1 = (c, l2, o2)"
  shows "data_inv o2"
  using assms
  by (cases e) (auto simp: complete_loop_def Let_def split: prod.splits if_splits intro: data_inv_update)

lemma data_inv_step:
  assumes "data_inv (ps_orch s)" "poll_step s s'"
  shows "data_inv (ps_orch s')"
  using assms(2)
proof cases
  case (start now t ctl ramp d cb l o1)
  then show ?thesis by (auto simp: polling_defs data_inv_def split: option.splits)
next
  case (turn i e)
  then show ?thesis using data_inv_turn [OF assms(1)]
    by (auto simp: loop_turn_def split: prod.splits)
qed (use assms(1) in \<open>auto simp: data_inv_def polling_defs split: option.splits\<close>)

lemma poll_reachable_inv:
  assumes "poll_reachable o0 s" "o0 = New_orch addrs itv mx dc"
  shows "run_inv s \<and> report_inv s \<and> data_inv (ps_orch s)"
  using assms
proof (induction rule: poll_reachable.induct)
  case init
  then show ?case by (simp add: run_inv_def report_inv_def data_inv_def New_orch_def)
next
  case (step s s')
  then show ?case using run_inv_step report_inv_step data_inv_step by blast
qed

lemma SetWorkerReadyTimeout_frame:
  "o_workers (SetWorkerReadyTimeout t o1) = o_workers o1" "0 \<le> o_workerReadyTimeout (SetWorkerReadyTimeout t o1)"
  by (simp_all add: SetWorkerReadyTimeout_def)

subsection \<open>The end of a run\<close>

text \<open>
  The worker has answered and has ended: it is paused, which for a native executor means that it was
  restarted, or it has finished.
\<close>

definition has_ended :: "bool \<Rightarrow> k6_status res \<Rightarrow> bool" where
  "has_ended controllable r =
    (case r of Inl e \<Rightarrow> False | Inr st \<Rightarrow> if ks_Paused st then \<not> controllable else IsFinished st)"

lemma workers_ended_Cons:
  "workers_ended ctl ((w, r) # ws) \<longleftrightarrow> has_ended ctl (GetStatus w r) \<and> workers_ended ctl ws"
proof (cases "GetStatus w r")
  case (Inr st)
  then show ?thesis using not_running_and_finished [of st] by (auto simp: has_ended_def)
qed (simp add: has_ended_def)

lemma workers_ended_all: "workers_ended ctl ws \<longleftrightarrow> list_all (\<lambda>(w, r). has_ended ctl (GetStatus w r)) ws"
  by (induction ws) (auto simp: workers_ended_Cons simp del: workers_ended.simps(2))

lemma allWorkersEnded_iff:
  "allWorkersEnded replies o1 \<longleftrightarrow> o_rampingDone o1 \<or>
    (\<forall>i < length (o_workers o1). has_ended (o_controllable o1) (GetStatus (o_workers o1 ! i) (replies i)))"
  by (auto simp: allWorkersEnded_def workers_ended_all list_all_length)

lemma pollLoop_returned: "pl_returned l \<Longrightarrow> pollLoop es l o1 = ([], l, o1)"
  by (cases es) auto

lemma pollLoop_reports: "pollLoop es l o1 = (cs, l2, o2) \<Longrightarrow> length cs \<le> 1 \<and> set cs \<subseteq> {pl_testID l}"
proof (induction es arbitrary: l o1 cs l2 o2)
  case (Cons e es)
  obtain c l1 oo where t: "poll_turn e l o1 = (c, l1, oo)" by (metis prod_cases3)
  obtain cs1 l3 o3 where r: "pollLoop es l1 oo = (cs1, l3, o3)" by (metis prod_cases3)
  note f = poll_turn_frame(5-8) [OF t]
  show ?case
  proof (cases c)
    case None
    then show ?thesis using Cons.prems Cons.IH [OF r] f by (auto simp: t r split: if_splits)
  next
    case (Some u)
    then have "cs1 = []" using f r by (simp add: pollLoop_returned)
    then show ?thesis using Cons.prems Some f by (auto simp: t r split: if_splits)
  qed
qed simp

subsection \<open>A run without any metrics\<close>

text \<open>A tick at which no worker reports a request or a virtual user.\<close>

fun silent_tick :: "orch \<Rightarrow> poll_event \<Rightarrow> bool" where
  "silent_tick o1 (Tick now metrics status) = (\<not> has_data (Aggregate (fetchAllMetrics metrics o1)))"
| "silent_tick o1 _ = False"

definition not_started :: "orch \<Rightarrow> bool" where
  "not_started o1 \<longleftrightarrow> \<not> o_seenRunning o1 \<and> \<not> (o_hasManagedRamp o1 \<and> o_rampingDone o1)"

lemma silent_tick_cong: "o_workers o1 = o_workers o2 \<Longrightarrow> silent_tick o1 e = silent_tick o2 e"
  by (cases e) (simp_all add: fetchAllMetrics_def)

lemma silent_turn:
  assumes "silent_tick o1 e" "not_started o1"
  shows "\<exists>o2. poll_turn e l o1 =
      (let l1 = l\<lparr>pl_tickCount := pl_tickCount l + 1\<rparr>
       in if neverStartedTimeout \<le> pl_tickCount l1 then complete_loop l1 o2 else (None, l1, o2)) \<and>
    o_workers o2 = o_workers o1 \<and> not_started o2"
proof (cases e)
  case (Tick now m st)
  let ?agg = "Aggregate (fetchAllMetrics m o1)" and ?o2 = "o1\<lparr>o_latestMetrics := Some (Aggregate (fetchAllMetrics m o1))\<rparr>"
  have u: "updatePollingState now ?agg o1 = (snapshot_of ?agg ?o2, ?o2)"
    using assms Tick by (simp add: updatePollingState_def Let_def not_started_def)
  have "\<not> sn_seenRunning (snapshot_of ?agg ?o2)" using assms by (simp add: snapshot_of_def not_started_def)
  moreover have "\<not> shouldCompleteTest now st n (snapshot_of ?agg ?o2) ?o2" for n
    using assms by (simp add: shouldCompleteTest_def snapshot_of_def not_started_def)
  ultimately show ?thesis using assms Tick u
    by (intro exI [of _ ?o2]) (simp add: Let_def not_started_def)
qed (use assms in simp_all)

lemma silent_loop:
  assumes "list_all (silent_tick o1) es" "not_started o1" "\<not> pl_returned l" "pl_onComplete l" "pl_tickCount l < 150"
  shows "\<exists>l2 o2. pollLoop es l o1 =
      ((if 150 \<le> pl_tickCount l + int (length es) then [pl_testID l] else []), l2, o2) \<and>
    pl_returned l2 = (150 \<le> pl_tickCount l + int (length es)) \<and>
    pl_tickCount l2 = min 150 (pl_tickCount l + int (length es))"
  using assms
proof (induction es arbitrary: l o1)
  case (Cons e es)
  let ?l1 = "l\<lparr>pl_tickCount := pl_tickCount l + 1\<rparr>"
  obtain o2 where t: "poll_turn e l o1 =
      (if 150 \<le> pl_tickCount l + 1 then complete_loop ?l1 o2 else (None, ?l1, o2))"
    and o2: "o_workers o2 = o_workers o1" "not_started o2"
    using silent_turn [of o1 e l] Cons.prems by (auto simp: Let_def neverStartedTimeout_def)
  show ?case
  proof (cases "150 \<le> pl_tickCount l + 1")
    case True
    then show ?thesis using Cons.prems by (simp add: t complete_loop_def pollLoop_returned)
  next
    case False
    have "list_all (silent_tick o2) es" using Cons.prems silent_tick_cong [OF o2(1)] by (simp add: list_all_iff)
    from Cons.IH [OF this o2(2), of ?l1] show ?thesis using False Cons.prems
      by (auto simp: t add.assoc)
  qed
qed simp

subsection \<open>Peaks\<close>

lemma update_peak_of: "peak_of (update_peak w peaks) a = (if a = wm_Address w then max (peak_of peaks a) (wm_VUs w) else peak_of peaks a)"
  by (auto simp: update_peak_def peak_of_def)

lemma fold_peak_of:
  "peak_of (fold update_peak wms peaks) a = fold (\<lambda>w m. if wm_Address w = a then max m (wm_VUs w) else m) wms (peak_of peaks a)"
  by (induction wms arbitrary: peaks) (auto simp: update_peak_of)

definition poll_updates :: "(time \<times> aggregated_metrics) list \<Rightarrow> orch \<Rightarrow> orch" where
  "poll_updates obs o1 = fold (\<lambda>(now, agg) o2. snd (updatePollingState now agg o2)) obs o1"

definition observed :: "(time \<times> aggregated_metrics) list \<Rightarrow> string \<Rightarrow> int list" where
  "observed obs a =
    concat (map (\<lambda>(now, agg). if has_data agg then map wm_VUs (filter (\<lambda>w. wm_Address w = a) (am_Workers agg)) else []) obs)"

lemma fold_max_filter:
  "fold (\<lambda>w m. if wm_Address w = a then max m (wm_VUs w) else m) wms m0 =
    fold (\<lambda>x m. max m x) (map wm_VUs (filter (\<lambda>w. wm_Address w = a) wms)) m0"
  by (induction wms arbitrary: m0) auto

lemma updatePollingState_peak:
  "peak_of (o_peakWorkerVUs (snd (updatePollingState now agg o1))) a =
    fold (\<lambda>x m. max m x) (observed [(now, agg)] a) (peak_of (o_peakWorkerVUs o1) a)"
  by (simp add: updatePollingState_def Let_def appendTimeSeriesPointLocked_def observed_def fold_peak_of fold_max_filter)

lemma poll_updates_peak:
  "peak_of (o_peakWorkerVUs (poll_updates obs o1)) a =
    fold (\<lambda>x m. max m x) (observed obs a) (peak_of (o_peakWorkerVUs o1) a)"
proof (induction obs arbitrary: o1)
  case Nil
  then show ?case by (simp add: poll_updates_def observed_def)
next
  case (Cons p obs)
  obtain now agg where p: "p = (now, agg)" by (cases p)
  have "observed (p # obs) a = observed [p] a @ observed obs a" by (simp add: observed_def)
  moreover have "poll_updates (p # obs) o1 = poll_updates obs (snd (updatePollingState now agg o1))"
    by (simp add: poll_updates_def p)
  ultimately show ?case by (simp add: Cons.IH updatePollingState_peak p)
qed

lemma fold_max_Max: "fold (\<lambda>x m. max m x) xs (m :: int) = Max (insert m (set xs))"
proof (induction xs arbitrary: m)
  case (Cons x xs)
  then show ?case by (cases "xs = []") (simp_all add: ac_simps)
qed simp

subsection \<open>Starting the workers\<close>

lemma clear_idem: "clearActiveRunLocked (clearActiveRunLocked o1) = clearActiveRunLocked o1"
  by (simp add: clearActiveRunLocked_def split: option.split)

lemma clear_workers [simp]: "o_workers (clearActiveRunLocked o1) = o_workers o1"
  by (simp add: clearActiveRunLocked_def split: option.split)

lemma commands_cong [simp]:
  "resumeAll ord rs tol ff (clearActiveRunLocked o1) = resumeAll ord rs tol ff o1"
  "patch_all ord ps (clearActiveRunLocked o1) = patch_all ord ps o1"
  "WaitForAllReady rounds (clearActiveRunLocked o1) = WaitForAllReady rounds o1"
  by (simp_all add: resumeAll_def patch_all_def WaitForAllReady_def all_ready_def)

text \<open>
  \<open>launch env o1 j\<close>: the error of the resume command of attempt \<open>j\<close>. \<open>recovered env o1 j\<close>: the workers
  could be stopped and became ready again after it.
\<close>

definition launch :: "(nat \<Rightarrow> start_env) \<Rightarrow> orch \<Rightarrow> nat \<Rightarrow> string option" where
  "launch env o1 j = resumeAll (se_resumeOrder (env j)) (se_resume (env j)) False True o1"

definition recovered :: "(nat \<Rightarrow> start_env) \<Rightarrow> orch \<Rightarrow> nat \<Rightarrow> bool" where
  "recovered env o1 j \<longleftrightarrow>
    patch_all (se_stopOrder (env j)) (se_stop (env j)) o1 = None \<and> WaitForAllReady (se_rounds (env j)) o1 = None"

definition raced :: "(nat \<Rightarrow> start_env) \<Rightarrow> orch \<Rightarrow> nat \<Rightarrow> bool" where
  "raced env o1 j \<longleftrightarrow> (case launch env o1 j of None \<Rightarrow> False | Some e \<Rightarrow> isBenignStartupResumeError e)"

lemma recover_eq:
  "recoverWorkersForStart e o1 =
    (case patch_all (se_stopOrder e) (se_stop e) o1 of
       Some err \<Rightarrow> (Some err, clearActiveRunLocked o1)
     | None \<Rightarrow> (WaitForAllReady (se_rounds e) o1, clearActiveRunLocked o1))"
  by (simp add: recoverWorkersForStart_def StopAll_def split: option.split)

lemma recover_fst: "fst (recoverWorkersForStart (env j) o1) = None \<longleftrightarrow> recovered env o1 j"
  by (simp add: recover_eq recovered_def split: option.split)

lemma start_attempts_Suc:
  "start_attempts env (Suc n) o1 = (None, o2) \<longleftrightarrow>
    (launch env o1 (3 - n) = None \<and> o2 = o1) \<or>
    (n \<noteq> 0 \<and> raced env o1 (3 - n) \<and> recovered env o1 (3 - n) \<and>
       start_attempts env n (clearActiveRunLocked o1) = (None, o2))"
proof (cases "launch env o1 (3 - n)")
  case None
  then show ?thesis by (auto simp: launch_def maxRecoveryAttempts_def raced_def)
next
  case (Some err)
  then show ?thesis
    using recover_fst [of env "3 - n" o1]
    by (auto simp: launch_def [symmetric] maxRecoveryAttempts_def raced_def recover_eq split: option.splits)
qed

subsection \<open>Properties\<close>

text \<open>
  C10. In every state that any interleaving of starting, stopping and polling can reach: at most one
  polling loop has a context that is not cancelled, and it is the loop of the active test; each loop
  reports the completion of its test at most once, and only its own test; a run counts as seen running
  exactly when data points were collected for it.
\<close>

theorem polling_invariant:
  assumes "poll_reachable (New_orch addrs itv mx dc) s"
  shows "(\<forall>i < length (ps_loops s). \<forall>j < length (ps_loops s).
      i \<notin> set (o_cancelled (ps_orch s)) \<and> j \<notin> set (o_cancelled (ps_orch s)) \<longrightarrow>
      i = j \<and> pl_testID (ps_loops s ! i) = o_activeTestID (ps_orch s)) \<and>
    distinct (map fst (ps_reported s)) \<and>
    (\<forall>(i, t) \<in> set (ps_reported s). pl_returned (ps_loops s ! i) \<and> pl_testID (ps_loops s ! i) = t) \<and>
    (o_seenRunning (ps_orch s) \<longleftrightarrow> o_timeSeries (ps_orch s) \<noteq> [])"
proof -
  from poll_reachable_inv [OF assms refl] have inv: "run_inv s" "report_inv s" "data_inv (ps_orch s)" by auto
  have "o_cancelPoll (ps_orch s) = Some i" if "i < length (ps_loops s)" "i \<notin> set (o_cancelled (ps_orch s))" for i
    using inv(1) that by (auto simp: run_inv_def)
  moreover have "pl_testID (ps_loops s ! i) = o_activeTestID (ps_orch s)" if "o_cancelPoll (ps_orch s) = Some i" for i
    using inv(1) that by (simp add: run_inv_def)
  ultimately have "i = j \<and> pl_testID (ps_loops s ! i) = o_activeTestID (ps_orch s)"
    if "i < length (ps_loops s)" "j < length (ps_loops s)"
      "i \<notin> set (o_cancelled (ps_orch s))" "j \<notin> set (o_cancelled (ps_orch s))" for i j
    using that by (metis option.inject)
  with inv(2,3) show ?thesis by (auto simp: report_inv_def data_inv_def)
qed

definition demo_orch :: orch where
  "demo_orch = New_orch [''w1:6565'', ''w2:6565''] (2 * second) 0 \<lparr>dc_Enabled = False, dc_Host = [], dc_Port = 0\<rparr>"

theorem polling_invariant_witness:
  "\<exists>s. poll_reachable demo_orch s \<and> length (ps_loops s) = 1 \<and> distinct (map fst (ps_reported s))"
proof -
  obtain l o1 where st: "StartPolling 0 ''t'' True False 0 True demo_orch = (l, o1)" by fastforce
  let ?init = "\<lparr>ps_orch = demo_orch, ps_loops = [], ps_reported = []\<rparr>"
  let ?s = "?init\<lparr>ps_orch := o1, ps_loops := ps_loops ?init @ [l]\<rparr>"
  have "poll_step ?init ?s" using st by (intro poll_step.start) simp
  then have r: "poll_reachable demo_orch ?s" by (rule poll_reachable.step [OF poll_reachable.init])
  then have "distinct (map fst (ps_reported ?s))"
    unfolding demo_orch_def using polling_invariant by blast
  with r show ?thesis by (intro exI [of _ ?s]) simp
qed


definition paused_status :: "bool \<Rightarrow> k6_status" where
  "paused_status p =
    \<lparr>ks_Status = RawInt 7, ks_Paused = p, ks_VUs = 0, ks_VUsMax = 0, ks_Stopped = False, ks_Running = False, ks_Tainted = False\<rparr>"

text \<open>A native run of one worker that has gone quiet for two ticks; the worker has been restarted.\<close>

definition quiet_orch :: orch where
  "quiet_orch = (New_orch [''w''] second 0 \<lparr>dc_Enabled = False, dc_Host = [], dc_Port = 0\<rparr>)
    \<lparr>o_seenRunning := True, o_zeroMetricRun := 2, o_expectedRunDuration := hour\<rparr>"

definition demo_loop :: poll_loop where
  "demo_loop = \<lparr>pl_ctx = 0, pl_testID = ''t'', pl_onComplete = True, pl_tickCount = 0, pl_returned = False\<rparr>"

lemma Aggregate_requests: "am_TotalRequests (Aggregate wrs) = am_TotalRequests (aa_agg (fold aggregate_worker wrs init_acc))"
  by (simp add: Aggregate_def set_rates_def derive_counts_def Let_def split: prod.split)

lemma unreachable_no_data:
  assumes "\<forall>wr \<in> set wrs. wr_Error wr \<noteq> None"
  shows "\<not> has_data (Aggregate wrs)"
proof -
  have "am_TotalRequests (aa_agg (fold aggregate_worker wrs acc)) = am_TotalRequests (aa_agg acc) \<and>
    am_TotalVUs (aa_agg (fold aggregate_worker wrs acc)) = am_TotalVUs (aa_agg acc)" for acc
    using assms by (induction wrs arbitrary: acc) (auto simp: aggregate_worker_def Let_def)
  moreover have "am_TotalVUs (Aggregate wrs) = am_TotalVUs (aa_agg (fold aggregate_worker wrs init_acc))"
    by (simp add: Aggregate_def Let_def)
  ultimately show ?thesis
    unfolding has_data_def Aggregate_requests by (simp add: init_acc_def zero_aggregated_metrics_def)
qed

lemma down_no_data: "\<not> has_data (Aggregate (fetchAllMetrics (\<lambda>i. DoErr e) o1))"
  by (rule unreachable_no_data) (auto simp: fetchAllMetrics_def Let_def)

lemma down_silent: "silent_tick o1 (Tick now (\<lambda>i. DoErr e) st)"
  by (simp add: down_no_data)


text \<open>
  The guard against runs that never start: on ticks without any data, a run whose ramp has not been
  completed is reported as complete exactly at tick 150, and on fewer ticks the loop reports nothing
  and goes on.
\<close>

theorem never_started_run_is_aborted:
  assumes "list_all (silent_tick o1) events" "not_started o1" "\<not> pl_returned l" "pl_onComplete l" "pl_tickCount l = 0"
  shows "\<exists>l2 o2. pollLoop events l o1 = ((if 150 \<le> length events then [pl_testID l] else []), l2, o2) \<and>
    pl_returned l2 = (150 \<le> length events) \<and> pl_tickCount l2 = min 150 (int (length events))"
  using silent_loop [OF assms(1-4)] assms(5) by simp

theorem never_started_run_is_aborted_witness:
  "\<exists>l2 o2. pollLoop (replicate 151 (Tick 0 (\<lambda>i. DoErr ''down'') (\<lambda>i. DoErr ''down''))) demo_loop demo_orch = ([''t''], l2, o2) \<and>
    pl_returned l2 \<and> pl_tickCount l2 = 150"
proof -
  have "list_all (silent_tick demo_orch) (replicate 151 (Tick 0 (\<lambda>i. DoErr ''down'') (\<lambda>i. DoErr ''down'')))"
    using down_silent by (auto simp only: list_all_iff set_replicate_conv_if split: if_splits)
  moreover have "not_started demo_orch" by (simp add: not_started_def demo_orch_def New_orch_def)
  moreover have "\<not> pl_returned demo_loop" "pl_onComplete demo_loop" "pl_tickCount demo_loop = 0" "pl_testID demo_loop = ''t''"
    by (simp_all add: demo_loop_def)
  ultimately show ?thesis using never_started_run_is_aborted [of demo_orch _ demo_loop] by fastforce
qed

text \<open>
  The peak recorded for a worker is the largest number of virtual users it reported in a poll that
  had data since the polling was started, and 0 when there was none.
\<close>

theorem peak_is_maximum_since_start:
  assumes "StartPolling now t ctl ramp d cb o0 = (l, o1)"
  shows "peak_of (o_peakWorkerVUs (poll_updates obs o1)) a = Max (insert 0 (set (observed obs a)))"
proof -
  have "o_peakWorkerVUs o1 = Map.empty" using assms by (auto simp: polling_defs)
  then show ?thesis unfolding poll_updates_peak fold_max_Max by (simp add: peak_of_def)
qed

theorem peak_is_maximum_since_start_witness:
  "peak_of (o_peakWorkerVUs (poll_updates
      (map (\<lambda>v. (0, zero_aggregated_metrics\<lparr>am_TotalVUs := v, am_Workers := [zero_worker_metrics\<lparr>wm_Address := ''w'', wm_VUs := v\<rparr>]\<rparr>)) [3, 7, 5])
      (snd (StartPolling 0 ''t'' True False 0 True demo_orch)))) ''w'' = 7"
  using peak_is_maximum_since_start [of 0 "''t''" True False 0 True demo_orch "fst (StartPolling 0 ''t'' True False 0 True demo_orch)"
      "snd (StartPolling 0 ''t'' True False 0 True demo_orch)"
      "map (\<lambda>v. (0, zero_aggregated_metrics\<lparr>am_TotalVUs := v, am_Workers := [zero_worker_metrics\<lparr>wm_Address := ''w'', wm_VUs := v\<rparr>]\<rparr>)) [3, 7, 5]" "''w''"]
  by (simp add: observed_def has_data_def)

text \<open>
  Scaling with at least one worker sends each worker one share; for a number of virtual users that
  is not negative the shares add up to it and two shares differ by at most one. The command succeeds
  exactly when every worker accepts its share.
\<close>

theorem scale_splits_evenly:
  assumes "o_workers o1 \<noteq> []" "0 \<le> vus" "vus < 2 ^ 63"
  shows "\<exists>ps err. ScaleVUs order replies vus o1 = Some (ps, err) \<and>
    map fst ps = map w_Address (o_workers o1) \<and>
    sum_list (map (\<lambda>p. the (kp_VUs (snd p))) ps) = vus \<and>
    (\<forall>p \<in> set ps. \<forall>q \<in> set ps. \<bar>the (kp_VUs (snd p)) - the (kp_VUs (snd q))\<bar> \<le> 1) \<and>
    (err = None \<longleftrightarrow> (\<forall>i < length (o_workers o1). \<not> is_err (PatchStatus (o_workers o1 ! i) (replies i))))"
proof -
  let ?n = "length (o_workers o1)" and ?sh = "vu_shares vus (length (o_workers o1))"
  let ?ps = "map2 (\<lambda>w vus. (w_Address w, no_patch\<lparr>kp_VUs := Some vus\<rparr>)) (o_workers o1) ?sh"
  have len: "length ?sh = ?n" by (simp add: vu_shares_def)
  have n: "0 < ?n" using assms(1) by simp
  have fst: "map fst ?ps = map w_Address (o_workers o1)" using len by (simp add: list_eq_iff_nth_eq)
  have shares: "map (\<lambda>p. the (kp_VUs (snd p))) ?ps = ?sh" using len by (simp add: list_eq_iff_nth_eq)
  have "(\<lambda>p. the (kp_VUs (snd p))) ` set ?ps = set ?sh" using arg_cong [OF shares, of set] by (simp only: set_map)
  then have "the (kp_VUs (snd p)) \<in> set ?sh" if "p \<in> set ?ps" for p using that by blast
  then have d: "the (kp_VUs (snd p)) = vus div int ?n \<or> the (kp_VUs (snd p)) = vus div int ?n + 1" if "p \<in> set ?ps" for p
    using that vu_shares_even [OF assms(2,3) n] by blast
  have "\<bar>the (kp_VUs (snd p)) - the (kp_VUs (snd q))\<bar> \<le> 1" if "p \<in> set ?ps" "q \<in> set ?ps" for p q
    using d [OF that(1)] d [OF that(2)] by (elim disjE) simp_all
  moreover have "sum_list (map (\<lambda>p. the (kp_VUs (snd p))) ?ps) = vus"
    unfolding shares by (rule vu_shares_sum [OF assms(2,3) n])
  moreover have "ScaleVUs order replies vus o1 = Some (?ps, patch_all order replies o1)"
    using assms(1) by (simp add: ScaleVUs_def)
  ultimately show ?thesis using fst patch_all_None by blast
qed

theorem scale_splits_evenly_witness:
  "\<exists>ps err. ScaleVUs [] (\<lambda>i. DoErr ''down'') 5 demo_orch = Some (ps, err) \<and> sum_list (map (\<lambda>p. the (kp_VUs (snd p))) ps) = 5 \<and> err \<noteq> None"
  using scale_splits_evenly [of demo_orch 5 "[]" "\<lambda>i. DoErr ''down''"]
  by (auto simp: demo_orch_def New_orch_def)

text \<open>
  C20. Starting the workers succeeds exactly when, within three attempts, all workers accept the resume
  command and each attempt before hit a worker that was already active, after which all workers could
  be stopped and became ready again. When a recovery was needed, no run is left active.
\<close>

theorem start_succeeds_iff:
  "ResumeAllForStart env o1 = (None, o2) \<longleftrightarrow>
    (\<exists>k. 1 \<le> k \<and> k \<le> 3 \<and> launch env o1 k = None \<and>
      list_all (\<lambda>j. raced env o1 j \<and> recovered env o1 j) [1..<k] \<and>
      o2 = (if k = 1 then o1 else clearActiveRunLocked o1))"
proof -
  let ?c = "clearActiveRunLocked o1"
  have c: "launch env ?c j = launch env o1 j" "raced env ?c j = raced env o1 j" "recovered env ?c j = recovered env o1 j" for j
    by (simp_all add: launch_def raced_def recovered_def)
  have nr: "launch env o1 j = None \<Longrightarrow> \<not> raced env o1 j" for j by (simp add: raced_def)
  have ex: "(\<exists>k. 1 \<le> k \<and> k \<le> (3 :: nat) \<and> P k) \<longleftrightarrow> P 1 \<or> P 2 \<or> P 3" for P
  proof -
    have "(1 \<le> k \<and> k \<le> 3) \<longleftrightarrow> k = 1 \<or> k = 2 \<or> k = (3 :: nat)" for k by auto
    then show ?thesis by (metis one_le_numeral order_refl numeral_le_iff semiring_norm(69,72))
  qed
  have below: "[1..<1] = []" "[1..<2] = [1]" "[1..<3] = [1, 2 :: nat]" by (simp_all add: upt_rec)
  have "start_attempts env (Suc (Suc (Suc 0))) o1 = (None, o2) \<longleftrightarrow>
      launch env o1 1 = None \<and> o2 = o1 \<or>
      raced env o1 1 \<and> recovered env o1 1 \<and>
        (launch env o1 2 = None \<and> o2 = ?c \<or>
         raced env o1 2 \<and> recovered env o1 2 \<and> launch env o1 3 = None \<and> o2 = ?c)"
    by (simp only: start_attempts_Suc c clear_idem) (simp add: numeral_3_eq_3 numeral_2_eq_2)
  moreover have "ResumeAllForStart env o1 = start_attempts env (Suc (Suc (Suc 0))) o1"
    by (simp only: ResumeAllForStart_def maxRecoveryAttempts_def numeral_3_eq_3)
  ultimately show ?thesis unfolding ex below by auto
qed

text \<open>
  The resume command succeeds exactly when every worker accepts one of its first five requests, and
  the requests before were refused; with \<^verbatim>\<open>fastFailBenign\<close> none of these refusals says that the worker
  is already active. No worker gets more than five requests. An error of the command is the error of
  one of the workers.
\<close>

theorem resume_all_succeeds_iff:
  "(resumeAll order replies False fastFail o1 = None \<longleftrightarrow>
     list_all (\<lambda>i. list_ex (\<lambda>k. \<not> is_err (PatchStatus (o_workers o1 ! i) (replies i k)) \<and>
         list_all (\<lambda>j. case PatchStatus (o_workers o1 ! i) (replies i j) of
             Inl e \<Rightarrow> \<not> (fastFail \<and> isBenignStartupResumeError e) | Inr s \<Rightarrow> False) [0..<k])
       [0..<5]) [0..<length (o_workers o1)]) \<and>
   list_all (\<lambda>i. snd (resume_worker False fastFail (o_workers o1 ! i) (replies i) 5 0 None) \<le> 5) [0..<length (o_workers o1)]"
proof -
  have ok: "fst (resume_worker False fastFail w rs 5 0 None) = None \<longleftrightarrow>
      list_ex (\<lambda>k. \<not> is_err (PatchStatus w (rs k)) \<and>
        list_all (\<lambda>j. case PatchStatus w (rs j) of
          Inl e \<Rightarrow> \<not> (fastFail \<and> isBenignStartupResumeError e) | Inr s \<Rightarrow> False) [0..<k]) [0..<5]" for w rs
  proof -
    have "(case PatchStatus w (rs j) of Inl e \<Rightarrow> \<not> (fastFail \<and> isBenignStartupResumeError e) | Inr s \<Rightarrow> False) \<longleftrightarrow>
        (\<exists>e. PatchStatus w (rs j) = Inl e \<and> \<not> (fastFail \<and> isBenignStartupResumeError e))" for j
      by (cases "PatchStatus w (rs j)") auto
    then show ?thesis unfolding resume_worker_ok by (auto simp: list_ex_iff list_all_iff)
  qed
  show ?thesis
    using resume_worker_attempts [of False fastFail _ _ 5 0 None]
    unfolding resumeAll_def group.wait_map_None ok by (simp add: list_all_iff)
qed

text \<open>
  Waiting for the workers ends without an error exactly when two consecutive rounds of checks that
  fit before the deadline found every worker reachable, paused, not stopped and not finished.
\<close>

theorem wait_needs_two_ready_rounds:
  "WaitForAllReady rounds o1 = None \<longleftrightarrow>
    (\<exists>i. Suc i < length rounds \<and> all_ready (rounds ! i) o1 \<and> all_ready (rounds ! Suc i) o1)"
proof -
  have "Suc i < length rounds \<and> map (\<lambda>r. all_ready r o1) rounds ! i \<and> map (\<lambda>r. all_ready r o1) rounds ! Suc i \<longleftrightarrow>
      Suc i < length rounds \<and> all_ready (rounds ! i) o1 \<and> all_ready (rounds ! Suc i) o1" for i
    by auto
  then show ?thesis unfolding WaitForAllReady_def wait_ready_None by auto
qed

text \<open>
  The time a start waits for the workers is the configured one, when there is one; otherwise it is
  between 25 seconds and two minutes, for every attempt, number of workers and polling interval, also
  where the products wrap around.
\<close>

theorem startup_timeout_bounds:
  "if 0 < o_workerReadyTimeout o1 then startupReadyTimeoutForAttempt k o1 = o_workerReadyTimeout o1
   else 25 * second \<le> startupReadyTimeoutForAttempt k o1 \<and> startupReadyTimeoutForAttempt k o1 \<le> 2 * minute"
  by (simp add: startupReadyTimeoutForAttempt_def Let_def)

end
