(* ===== verification/Json.thy ===== *)
theory Json
  imports Float64 "HOL-Library.AList" "HOL-Library.Multiset" "HOL-Library.List_Lexorder" "HOL-Library.Char_ord"
begin

text \<open>
  The values that \<^verbatim>\<open>encoding/json\<close> produces for \<^verbatim>\<open>any\<close>, and their serialisation.

  An object is an association list. Go iterates over a map in an unspecified order; a function of the
  controller that ranges over a map is modelled by the recursion over the list, so a theorem that holds
  for all lists holds for every order. \<^verbatim>\<open>json.Marshal\<close> writes the keys in increasing order and escapes
  control characters, quotes, backslashes, the characters that are special in HTML, and the line
  separators U+2028 and U+2029; the other characters of the (valid) UTF-8 of a string are copied.

  The parser, the decimal formatting of a \<^verbatim>\<open>float64\<close> (by \<^verbatim>\<open>json.Marshal\<close> and by \<^verbatim>\<open>%v\<close>) and the quoting
  by \<^verbatim>\<open>%q\<close> are fields of \<open>json_lib\<close>, a parameter of the
  definitions that use them.
\<close>

datatype json = JNull | JBool bool | JNum f64 | JStr string | JArr "json list" | JObj "(string \<times> json) list"

type_synonym json_obj = "(string \<times> json) list"

record json_lib =
  jl_unmarshal :: "string \<Rightarrow> json res"
  jl_num :: "f64 \<Rightarrow> string"
  jl_numv :: "f64 \<Rightarrow> string"
  jl_quote :: "string \<Rightarrow> string"

text \<open>
  \<^verbatim>\<open>json.Unmarshal\<close> into a \<^verbatim>\<open>map[string]any\<close>: \<open>None\<close> is the nil map, which the text \<^verbatim>\<open>null\<close> gives.
\<close>

fun json_kind :: "json \<Rightarrow> string" where
  "json_kind JNull = ''null''"
| "json_kind (JBool b) = ''bool''"
| "json_kind (JNum x) = ''number''"
| "json_kind (JStr s) = ''string''"
| "json_kind (JArr xs) = ''array''"
| "json_kind (JObj m) = ''object''"

definition unmarshal_map :: "json_lib \<Rightarrow> string \<Rightarrow> json_obj option res" where
  "unmarshal_map lib s =
    (case jl_unmarshal lib s of
       Inl e \<Rightarrow> Inl e
     | Inr (JObj m) \<Rightarrow> Inr (Some m)
     | Inr JNull \<Rightarrow> Inr None
     | Inr j \<Rightarrow> Inl (''json: cannot unmarshal '' @ json_kind j @ '' into Go value of type map[string]interface {}''))"

definition obj_of :: "json_obj option \<Rightarrow> json_obj" where
  "obj_of m = (case m of None \<Rightarrow> [] | Some o1 \<Rightarrow> o1)"

subsection \<open>Type assertions\<close>

text \<open>\<^verbatim>\<open>v, _ := m[key].(string)\<close> and the like.\<close>

fun as_str :: "json option \<Rightarrow> string option" where
  "as_str (Some (JStr s)) = Some s"
| "as_str _ = None"

fun as_num :: "json option \<Rightarrow> f64 option" where
  "as_num (Some (JNum x)) = Some x"
| "as_num _ = None"

fun as_arr :: "json option \<Rightarrow> json list option" where
  "as_arr (Some (JArr xs)) = Some xs"
| "as_arr _ = None"

fun as_obj :: "json option \<Rightarrow> json_obj option" where
  "as_obj (Some (JObj m)) = Some m"
| "as_obj _ = None"

definition str_or_empty :: "json option \<Rightarrow> string" where
  "str_or_empty v = (case as_str v of None \<Rightarrow> [] | Some s \<Rightarrow> s)"

lemma as_obj_Some [simp]: "as_obj v = Some m \<longleftrightarrow> v = Some (JObj m)"
  by (cases v rule: as_obj.cases) auto

lemma as_str_Some [simp]: "as_str v = Some s \<longleftrightarrow> v = Some (JStr s)"
  by (cases v rule: as_str.cases) auto

lemma as_arr_Some [simp]: "as_arr v = Some s \<longleftrightarrow> v = Some (JArr s)"
  by (cases v rule: as_arr.cases) auto

lemma as_num_Some [simp]: "as_num v = Some s \<longleftrightarrow> v = Some (JNum s)"
  by (cases v rule: as_num.cases) auto

subsection \<open>Serialisation\<close>

definition hex_digit :: "nat \<Rightarrow> char" where
  "hex_digit n = (if n < 10 then char_of (48 + n) else char_of (87 + n))"

definition escape_byte :: "char \<Rightarrow> string" where
  "escape_byte c =
    (let n = of_char c :: nat
     in if n = 34 \<or> n = 92 then [CHR 0x5C, c]
        else if n = 10 then [CHR 0x5C, CHR ''n'']
        else if n = 13 then [CHR 0x5C, CHR ''r'']
        else if n = 9 then [CHR 0x5C, CHR ''t'']
        else if n < 32 \<or> n = 38 \<or> n = 60 \<or> n = 62 then [CHR 0x5C, CHR ''u'', CHR ''0'', CHR ''0'', hex_digit (n div 16), hex_digit (n mod 16)]
        else [c])"

fun escape :: "string \<Rightarrow> string" where
  "escape [] = []"
| "escape (a # b # c # s) =
    (if a = CHR 0xE2 \<and> b = CHR 0x80 \<and> (c = CHR 0xA8 \<or> c = CHR 0xA9)
     then [CHR 0x5C, CHR ''u'', CHR ''2'', CHR ''0'', CHR ''2'', if c = CHR 0xA8 then CHR ''8'' else CHR ''9''] @ escape s
     else escape_byte a @ escape (b # c # s))"
| "escape [a] = escape_byte a"
| "escape [a, b] = escape_byte a @ escape_byte b"

definition quote :: "string \<Rightarrow> string" where
  "quote s = [CHR 0x22] @ escape s @ [CHR 0x22]"

text \<open>\<^verbatim>\<open>json.Marshal\<close>.\<close>

function marshal :: "json_lib \<Rightarrow> json \<Rightarrow> string" where
  "marshal lib JNull = ''null''"
| "marshal lib (JBool b) = (if b then ''true'' else ''false'')"
| "marshal lib (JNum x) = jl_num lib x"
| "marshal lib (JStr s) = quote s"
| "marshal lib (JArr xs) = ''['' @ join '','' (map (marshal lib) xs) @ '']''"
| "marshal lib (JObj m) =
    ''{'' @ join '','' (map (\<lambda>(k, v). quote k @ '':'' @ marshal lib v) (sort_key fst m)) @ ''}''"
  by pat_completeness auto
termination
proof (relation "measure (\<lambda>(lib, j). size j)")
  fix lib :: json_lib and m :: json_obj and p :: "string \<times> json" and k v
  assume "p \<in> set (sort_key fst m)" "(k, v) = p"
  then have "(k, v) \<in> set m" by simp
  then have "size v < size_list (size_prod (\<lambda>_. 0) size) m + 1"
    by (induction m) (auto simp: size_prod_def)
  then show "((lib, v), lib, JObj m) \<in> measure (\<lambda>(lib, j). size j)" by simp
qed (auto simp: less_Suc_eq_le intro: size_list_estimation')

text \<open>\<^verbatim>\<open>fmt.Sprintf("%v", value)\<close>; numbers by \<open>jl_numv\<close>.\<close>

function format_v :: "json_lib \<Rightarrow> json \<Rightarrow> string" where
  "format_v lib JNull = ''<nil>''"
| "format_v lib (JBool b) = (if b then ''true'' else ''false'')"
| "format_v lib (JNum x) = jl_numv lib x"
| "format_v lib (JStr s) = s"
| "format_v lib (JArr xs) = ''['' @ join '' '' (map (format_v lib) xs) @ '']''"
| "format_v lib (JObj m) =
    ''map['' @ join '' '' (map (\<lambda>(k, v). k @ '':'' @ format_v lib v) (sort_key fst m)) @ '']''"
  by pat_completeness auto
termination
proof (relation "measure (\<lambda>(lib, j). size j)")
  fix lib :: json_lib and m :: json_obj and p :: "string \<times> json" and k v
  assume "p \<in> set (sort_key fst m)" "(k, v) = p"
  then have "(k, v) \<in> set m" by simp
  then have "size v < size_list (size_prod (\<lambda>_. 0) size) m + 1"
    by (induction m) (auto simp: size_prod_def)
  then show "((lib, v), lib, JObj m) \<in> measure (\<lambda>(lib, j). size j)" by simp
qed (auto simp: less_Suc_eq_le intro: size_list_estimation')

subsection \<open>Lengths\<close>

lemma escape_append_plain: "of_char c < (128 :: nat) \<Longrightarrow> escape (s @ c # t) = escape s @ escape (c # t)"
proof (induction s rule: escape.induct)
  case 1
  then show ?case by simp
next
  case (2 a b c s)
  then show ?case by auto
next
  case (3 a)
  then show ?case by (cases t) auto
next
  case (4 a b)
  then show ?case by (cases t) auto
qed

lemma escape_Cons_plain: "of_char c < (128 :: nat) \<Longrightarrow> escape (c # s) = escape_byte c @ escape s"
  using escape_append_plain [of _ "[]"] by (cases s rule: escape.cases) auto

lemma length_join: "length (join sep xs) = sum_list (map length xs) + length sep * (length xs - 1)"
  by (induction sep xs rule: join.induct) auto

text \<open>The number of bytes of an object: the braces, the entries and the commas between them.\<close>

definition entry_len :: "json_lib \<Rightarrow> string \<times> json \<Rightarrow> nat" where
  "entry_len lib p = length (quote (fst p)) + 1 + length (marshal lib (snd p))"

lemma length_marshal_obj:
  "length (marshal lib (JObj m)) = 2 + sum_list (map (entry_len lib) m) + (length m - 1)"
proof -
  have "length \<circ> (\<lambda>(k, v). quote k @ '':'' @ marshal lib v) = entry_len lib"
    by (auto simp: entry_len_def)
  then have "length (marshal lib (JObj m)) = 2 + sum_list (map (entry_len lib) (sort_key fst m)) + (length m - 1)"
    by (simp add: length_join)
  moreover have "sum_list (map (entry_len lib) (sort_key fst m)) = sum_list (map (entry_len lib) m)"
    by (metis mset_map mset_sort sum_mset_sum_list)
  ultimately show ?thesis by simp
qed

lemma escape_plain_suffix:
  assumes "\<forall>c \<in> set t. of_char c < (128 :: nat) \<and> escape_byte c = [c]"
  shows "escape (s @ t) = escape s @ t"
proof -
  have "escape t = t" using assms
    by (induction t) (simp_all add: escape_Cons_plain)
  then show ?thesis using assms escape_append_plain [of "hd t" s "tl t"] by (cases t) auto
qed

lemma length_quote_pad: "length (quote (s @ replicate n (CHR ''x''))) = length (quote s) + n"
proof -
  have "escape_byte (CHR ''x'') = [CHR ''x'']" by (simp add: escape_byte_def)
  then have "escape (s @ replicate n (CHR ''x'')) = escape s @ replicate n (CHR ''x'')"
    by (intro escape_plain_suffix) simp
  then show ?thesis by (simp add: quote_def)
qed

lemma length_update_absent:
  assumes "map_of m k = None"
  shows "length (marshal lib (JObj (AList.update k v m))) =
    length (marshal lib (JObj m)) + entry_len lib (k, v) + (if m = [] then 0 else 1)"
proof -
  have "AList.update k v m = m @ [(k, v)]" using assms by (induction m) (auto split: if_splits)
  then show ?thesis unfolding length_marshal_obj by (cases m) simp_all
qed

lemma length_update_present:
  assumes "map_of m k = Some u" "distinct (map fst m)"
  shows "length (marshal lib (JObj (AList.update k v m))) + length (marshal lib u) =
    length (marshal lib (JObj m)) + length (marshal lib v)"
proof -
  have "sum_list (map (entry_len lib) (AList.update k v m)) + length (marshal lib u) =
      sum_list (map (entry_len lib) m) + length (marshal lib v)"
    using assms by (induction m) (auto simp: entry_len_def split: if_splits)
  moreover have "length (AList.update k v m) = length m" using assms(1) by (induction m) (auto split: if_splits)
  ultimately show ?thesis unfolding length_marshal_obj by simp
qed

text \<open>A JSON library that knows one text; numbers are not needed.\<close>

definition one_text_lib :: "string \<Rightarrow> json \<Rightarrow> json_lib" where
  "one_text_lib s j =
    \<lparr>jl_unmarshal = (\<lambda>t. if t = s then Inr j else Inl ''invalid''), jl_num = (\<lambda>x. ''0''), jl_numv = (\<lambda>x. ''0''),
     jl_quote = (\<lambda>t. t)\<rparr>"

end
