(* ===== verification/ScriptGen.thy ===== *)
theory ScriptGen
  imports Model Json Ramping
begin

text \<open>
  \<^verbatim>\<open>controller/internal/scriptgen/scriptgen.go\<close>: durations, the division of rates and virtual users
  among the workers, the processing of an uploaded k6 configuration, the environment of a builder run
  and the data of the builder templates.

  A parsed configuration is an association list, in the order in which Go happens to range over the
  map. The global \<^verbatim>\<open>completionBufferSeconds\<close> is the argument \<open>buffer\<close>. The rendering of a template is
  a parameter of the generators.
\<close>

subsection \<open>Executors\<close>

datatype executor_type = ExternallyControlled | ConstantVUs | RampingVUs | ConstantArrivalRate | RampingArrivalRate

fun executor_str :: "executor_type \<Rightarrow> string" where
  "executor_str ExternallyControlled = ''externally-controlled''"
| "executor_str ConstantVUs = ''constant-vus''"
| "executor_str RampingVUs = ''ramping-vus''"
| "executor_str ConstantArrivalRate = ''constant-arrival-rate''"
| "executor_str RampingArrivalRate = ''ramping-arrival-rate''"

fun IsControllable :: "executor_type \<Rightarrow> bool" where
  "IsControllable ExternallyControlled = True"
| "IsControllable ConstantVUs = True"
| "IsControllable RampingVUs = True"
| "IsControllable _ = False"

definition SetCompletionBufferSeconds :: "int \<Rightarrow> int" where
  "SetCompletionBufferSeconds seconds = (if seconds < 0 then 0 else seconds)"

subsection \<open>Durations and shares\<close>

definition parseDuration :: "string \<Rightarrow> int" where
  "parseDuration d0 =
    (let d = trim_space d0
     in if d = [] then 0
        else (case atoi (butlast d) of
                None \<Rightarrow> 0
              | Some v \<Rightarrow>
                 if last d = CHR ''s'' then v
                 else if last d = CHR ''m'' then wrap64 (v * 60)
                 else if last d = CHR ''h'' then wrap64 (v * 3600)
                 else v))"

definition ParseK6Duration :: "string \<Rightarrow> int" where
  "ParseK6Duration d = parseDuration d"

definition divideAcrossWorkers :: "int \<Rightarrow> int \<Rightarrow> int" where
  "divideAcrossWorkers totalVal workers =
    (if workers \<le> 1 then totalVal
     else max (quot (wrap64 (wrap64 (totalVal + workers) - 1)) workers) 1)"

definition divideIntVal :: "json_obj \<Rightarrow> string \<Rightarrow> int \<Rightarrow> json_obj" where
  "divideIntVal m key workers =
    (case as_num (map_of m key) of
       None \<Rightarrow> m
     | Some v \<Rightarrow>
        (if fle v f0 then m
         else (let divided = fceil (fdiv v (f64_of_int workers))
               in AList.update key (JNum (if flt divided (Fin 1) then Fin 1 else divided)) m)))"

subsection \<open>Requests of the builder\<close>

definition sleepVal :: "test_request \<Rightarrow> f64" where
  "sleepVal req =
    (case req_SleepSeconds req of
       Some s \<Rightarrow> s
     | None \<Rightarrow>
        (if req_Executor req = ''constant-arrival-rate'' \<or> req_Executor req = ''ramping-arrival-rate'' then f0
         else Fin (1 / 2)))"

definition NormalizeHTTPMethod :: "string \<Rightarrow> string" where
  "NormalizeHTTPMethod m = (let t = to_upper (trim_space m) in if t = [] then ''GET'' else t)"

definition NormalizeContentType :: "string \<Rightarrow> string" where
  "NormalizeContentType c = (let t = trim_space c in if t = [] then ''application/json'' else t)"

definition MethodAllowsBody :: "string \<Rightarrow> bool" where
  "MethodAllowsBody m \<longleftrightarrow> NormalizeHTTPMethod m \<in> {''POST'', ''PUT'', ''PATCH'', ''DELETE''}"

definition HasPayloadConfiguration :: "string \<Rightarrow> string \<Rightarrow> string \<Rightarrow> int \<Rightarrow> bool" where
  "HasPayloadConfiguration method contentType payloadJSON targetKiB \<longleftrightarrow>
    trim_space payloadJSON \<noteq> [] \<or> 0 < targetKiB \<or> NormalizeHTTPMethod method \<noteq> ''GET'' \<or>
    NormalizeContentType contentType \<noteq> ''application/json''"

definition validateBuilderHTTPMethod :: "string \<Rightarrow> string option" where
  "validateBuilderHTTPMethod m =
    (if NormalizeHTTPMethod m \<in> {''GET'', ''POST'', ''PUT'', ''PATCH'', ''DELETE''} then None
     else Some ''http_method must be one of GET, POST, PUT, PATCH, DELETE'')"

definition payloadTargetBytes :: "int \<Rightarrow> int" where
  "payloadTargetBytes k = (if k \<le> 0 then 0 else wrap64 (k * 1024))"

definition normalizeAuthMode :: "string \<Rightarrow> string" where
  "normalizeAuthMode m = (let t = trim_space m in if t = [] then ''oauth_client_credentials'' else t)"

definition normalizeAuthClientMethod :: "string \<Rightarrow> string" where
  "normalizeAuthClientMethod m = (let t = trim_space m in if t = [] then ''basic'' else t)"

definition normalizeAuthRefreshSkew :: "int \<Rightarrow> int" where
  "normalizeAuthRefreshSkew s = (if s \<le> 0 then 30 else s)"

definition format_bool :: "bool \<Rightarrow> string" where
  "format_bool b = (if b then ''true'' else ''false'')"

definition buildBuilderEnvContract :: "test_request \<Rightarrow> (string \<times> string) list" where
  "buildBuilderEnvContract req =
    [(''HTTP_METHOD'', NormalizeHTTPMethod (req_HTTPMethod req)),
     (''CONTENT_TYPE'', NormalizeContentType (req_ContentType req)),
     (''PAYLOAD_SOURCE_JSON'', trim_space (req_PayloadJSON req)),
     (''PAYLOAD_TARGET_BYTES'', itoa (payloadTargetBytes (req_PayloadTargetKiB req))),
     (''K6_WEB_DASHBOARD'', ''false''),
     (''AUTH_ENABLED'', format_bool (ai_Enabled (req_Auth req)))] @
    (if trim_space (req_URL req) \<noteq> [] then [(''TARGET_URL'', trim_space (req_URL req))] else []) @
    (if ai_Enabled (req_Auth req)
     then [(''AUTH_MODE'', normalizeAuthMode (ai_Mode (req_Auth req))),
           (''AUTH_TOKEN_URL'', trim_space (ai_TokenURL (req_Auth req))),
           (''AUTH_CLIENT_ID'', trim_space (ai_ClientID (req_Auth req))),
           (''AUTH_CLIENT_SECRET'', trim_space (ai_ClientSecret (req_Auth req))),
           (''AUTH_CLIENT_AUTH_METHOD'', normalizeAuthClientMethod (ai_ClientAuthMethod (req_Auth req))),
           (''AUTH_REFRESH_SKEW_SECONDS'', itoa (normalizeAuthRefreshSkew (ai_RefreshSkewSeconds (req_Auth req)))),
           (''AUTH_RETRY_LIMIT'', ''1''),
           (''AUTH_RETRYABLE_STATUS_CODES'', ''408,429,502,503,504''),
           (''AUTH_MAX_JITTER_MS'', ''5000''),
           (''AUTH_TOKEN_TIMEOUT'', ''10s'')]
     else [])"

text \<open>
  \<^verbatim>\<open>mergeEnvIntoConfigContent\<close>. The result \<open>None\<close> is a panic: on the content \<^verbatim>\<open>null\<close> the map is nil
  and the assignment of a default to it panics.
\<close>

definition applyBuilderConfigDefaults :: "json_obj \<Rightarrow> json_obj" where
  "applyBuilderConfigDefaults config =
    (if map_of config ''discardResponseBodies'' = None then config @ [(''discardResponseBodies'', JBool True)] else config)"

definition add_env :: "string \<times> string \<Rightarrow> json_obj \<Rightarrow> json_obj" where
  "add_env p block = (if map_of block (fst p) = None then block @ [(fst p, JStr (snd p))] else block)"

definition merge_env :: "json_lib \<Rightarrow> json_obj \<Rightarrow> (string \<times> string) list \<Rightarrow> json_obj res" where
  "merge_env lib config0 env =
    (let config = applyBuilderConfigDefaults config0
     in case (case map_of config ''env'' of
                None \<Rightarrow> Inr []
              | Some JNull \<Rightarrow> Inr []
              | Some (JObj m) \<Rightarrow> Inr (map (\<lambda>(k, v). (k, JStr (format_v lib v))) m)
              | Some _ \<Rightarrow> Inl (''\"env\" must be a JSON object with string values'')) of
          Inl e \<Rightarrow> Inl e
        | Inr block \<Rightarrow>
           (let block1 = fold add_env env block
            in Inr (if block1 = [] then config else AList.update ''env'' (JObj block1) config)))"

definition mergeEnvIntoConfigContent :: "json_lib \<Rightarrow> string \<Rightarrow> (string \<times> string) list \<Rightarrow> string res option" where
  "mergeEnvIntoConfigContent lib content env =
    (case (if trim_space content = [] then Inr (Some []) else unmarshal_map lib content) of
       Inl e \<Rightarrow> Some (Inl (''parse config: '' @ e))
     | Inr None \<Rightarrow> None
     | Inr (Some config) \<Rightarrow>
        Some (case merge_env lib config env of
                Inl e \<Rightarrow> Inl e
              | Inr merged \<Rightarrow> Inr (marshal lib (JObj merged))))"

definition EnrichBuilderConfig :: "json_lib \<Rightarrow> string \<Rightarrow> test_request \<Rightarrow> string res option" where
  "EnrichBuilderConfig lib content req = mergeEnvIntoConfigContent lib content (buildBuilderEnvContract req)"

definition jint :: "int \<Rightarrow> json" where
  "jint i = JNum (f64_of_int i)"

definition filterBuilderStages :: "stage list \<Rightarrow> json list" where
  "filterBuilderStages stages =
    map (\<lambda>s. JObj [(''duration'', JStr (stg_Duration s)), (''target'', jint (stg_Target s))])
      (filter (\<lambda>s. trim_space (stg_Duration s) \<noteq> []) stages)"

definition builder_scenario :: "test_request \<Rightarrow> json_obj" where
  "builder_scenario req =
    (let executor = (if req_Executor req = [] then ''ramping-vus'' else req_Executor req)
     in (''executor'', JStr executor) #
        (if executor = ''constant-vus'' then
           [(''vus'', jint (req_VUs req)), (''duration'', JStr (req_Duration req))]
         else if executor = ''ramping-vus'' then
           [(''startVUs'', jint 0), (''stages'', JArr (filterBuilderStages (req_Stages req)))]
         else if executor = ''constant-arrival-rate'' then
           [(''rate'', jint (req_Rate req)), (''timeUnit'', JStr (req_TimeUnit req)), (''duration'', JStr (req_Duration req)),
            (''preAllocatedVUs'', jint (req_PreAllocatedVUs req)), (''maxVUs'', jint (req_MaxVUs req))]
         else if executor = ''ramping-arrival-rate'' then
           [(''startRate'', jint (req_Rate req)), (''timeUnit'', JStr (req_TimeUnit req)),
            (''preAllocatedVUs'', jint (req_PreAllocatedVUs req)), (''maxVUs'', jint (req_MaxVUs req)),
            (''stages'', JArr (filterBuilderStages (req_Stages req)))]
         else []))"

definition builder_config :: "test_request \<Rightarrow> json_obj" where
  "builder_config req =
    [(''scenarios'', JObj [(''default'', JObj (builder_scenario req))]),
     (''discardResponseBodies'', JBool True),
     (''thresholds'', JObj
        [(''http_req_duration'', JArr [JStr ''p(95)<500'', JStr ''p(99)<1000'']),
         (''errors'', JArr [JStr ''rate<0.01'']),
         (''success_rate'', JArr [JStr ''rate>0.99''])])]"

definition BuildBuilderConfig :: "json_lib \<Rightarrow> test_request \<Rightarrow> string res option" where
  "BuildBuilderConfig lib req =
    mergeEnvIntoConfigContent lib (marshal lib (JObj (builder_config req))) (buildBuilderEnvContract req)"

subsection \<open>Builder scripts\<close>

record builder_template_data =
  td_URL :: string
  td_StartVUs :: int
  td_MaxVUs :: int
  td_TotalDuration :: string
  td_VUs :: int
  td_Duration :: string
  td_Rate :: int
  td_TimeUnit :: string
  td_PreAllocatedVUs :: int
  td_Stages :: "stage list"
  td_Sleep :: f64
  td_HTTPMethod :: string
  td_ContentType :: string
  td_PayloadSourceJSON :: string
  td_PayloadTargetBytes :: int
  td_AuthEnabled :: bool
  td_AuthMode :: string
  td_AuthTokenURL :: string
  td_AuthClientID :: string
  td_AuthClientAuthMethod :: string
  td_AuthRefreshSkewSeconds :: int

datatype builder_template = ExternallyControlledTemplate | ConstantArrivalRateTemplate | RampingArrivalRateTemplate

record builder_result =
  br_Script :: string
  br_ExecutorType :: executor_type

definition newBuilderTemplateData :: "test_request \<Rightarrow> builder_template_data" where
  "newBuilderTemplateData req =
    \<lparr>td_URL = req_URL req, td_StartVUs = 0, td_MaxVUs = 0, td_TotalDuration = [], td_VUs = 0, td_Duration = [],
     td_Rate = 0, td_TimeUnit = [], td_PreAllocatedVUs = 0, td_Stages = [], td_Sleep = sleepVal req,
     td_HTTPMethod = NormalizeHTTPMethod (req_HTTPMethod req), td_ContentType = NormalizeContentType (req_ContentType req),
     td_PayloadSourceJSON = trim_space (req_PayloadJSON req),
     td_PayloadTargetBytes = payloadTargetBytes (req_PayloadTargetKiB req), td_AuthEnabled = ai_Enabled (req_Auth req),
     td_AuthMode = ai_Mode (req_Auth req), td_AuthTokenURL = ai_TokenURL (req_Auth req),
     td_AuthClientID = ai_ClientID (req_Auth req), td_AuthClientAuthMethod = ai_ClientAuthMethod (req_Auth req),
     td_AuthRefreshSkewSeconds = ai_RefreshSkewSeconds (req_Auth req)\<rparr>"

definition secs :: "int \<Rightarrow> string" where
  "secs n = itoa n @ ''s''"

fun max_target :: "int \<Rightarrow> stage list \<Rightarrow> int" where
  "max_target m [] = m"
| "max_target m (s # ss) = max_target (if m < stg_Target s then stg_Target s else m) ss"

fun total_secs :: "int \<Rightarrow> string list \<Rightarrow> int" where
  "total_secs t [] = t"
| "total_secs t (d # ds) = total_secs (wrap64 (t + parseDuration d)) ds"

definition ramping_vus_data :: "int \<Rightarrow> test_request \<Rightarrow> int \<Rightarrow> builder_template_data" where
  "ramping_vus_data buffer req workerCount =
    (let m = max_target 0 (req_Stages req); maxVUs = (if m < 1 then 1 else m);
         totalDuration = wrap64 (total_secs 0 (map stg_Duration (req_Stages req)) + buffer)
     in (newBuilderTemplateData req)
          \<lparr>td_StartVUs := 0, td_MaxVUs := quot (wrap64 (wrap64 (maxVUs + workerCount) - 1)) workerCount,
           td_TotalDuration := secs totalDuration\<rparr>)"

definition constant_vus_data :: "int \<Rightarrow> test_request \<Rightarrow> int \<Rightarrow> builder_template_data" where
  "constant_vus_data buffer req workerCount =
    (let perWorker = divideAcrossWorkers (max (req_VUs req) 1) workerCount;
         d = parseDuration (req_Duration req);
         totalDuration = wrap64 ((if d < 1 then 60 else d) + buffer)
     in (newBuilderTemplateData req)
          \<lparr>td_StartVUs := perWorker, td_MaxVUs := perWorker, td_TotalDuration := secs totalDuration\<rparr>)"

definition max_vus :: "int \<Rightarrow> int \<Rightarrow> int \<Rightarrow> int" where
  "max_vus requested preAlloc workerCount =
    (if requested < preAlloc then wrap64 (preAlloc * 2)
     else (let m = divideAcrossWorkers requested workerCount
           in if m < preAlloc then wrap64 (preAlloc * 2) else m))"

definition constant_rate_data :: "test_request \<Rightarrow> int \<Rightarrow> builder_template_data" where
  "constant_rate_data req workerCount =
    (let rate = divideAcrossWorkers (max (req_Rate req) 1) workerCount;
         preAlloc = (if req_PreAllocatedVUs req < 1 then rate else divideAcrossWorkers (req_PreAllocatedVUs req) workerCount)
     in (newBuilderTemplateData req)
          \<lparr>td_Rate := rate, td_TimeUnit := (if req_TimeUnit req = [] then ''1s'' else req_TimeUnit req),
           td_Duration := (if req_Duration req = [] then ''1m'' else req_Duration req),
           td_PreAllocatedVUs := preAlloc, td_MaxVUs := max_vus (req_MaxVUs req) preAlloc workerCount\<rparr>)"

definition ramping_rate_data :: "test_request \<Rightarrow> int \<Rightarrow> builder_template_data" where
  "ramping_rate_data req workerCount =
    (let maxTarget = max_target 0 (req_Stages req);
         preAlloc = (if req_PreAllocatedVUs req < 1 then max (divideAcrossWorkers maxTarget workerCount) 1
                     else divideAcrossWorkers (req_PreAllocatedVUs req) workerCount)
     in (newBuilderTemplateData req)
          \<lparr>td_TimeUnit := (if req_TimeUnit req = [] then ''1s'' else req_TimeUnit req),
           td_PreAllocatedVUs := preAlloc, td_MaxVUs := max_vus (req_MaxVUs req) preAlloc workerCount,
           td_Stages := map (\<lambda>s. s\<lparr>stg_Target := divideAcrossWorkers (stg_Target s) workerCount\<rparr>) (req_Stages req)\<rparr>)"

type_synonym renderer = "builder_template \<Rightarrow> builder_template_data \<Rightarrow> string res"

definition render_script :: "renderer \<Rightarrow> builder_template \<Rightarrow> builder_template_data \<Rightarrow> executor_type \<Rightarrow> builder_result res" where
  "render_script render t data executor =
    (case render t data of Inl e \<Rightarrow> Inl e | Inr script \<Rightarrow> Inr \<lparr>br_Script = script, br_ExecutorType = executor\<rparr>)"

definition generateRampingVUs :: "renderer \<Rightarrow> int \<Rightarrow> test_request \<Rightarrow> int \<Rightarrow> builder_result res" where
  "generateRampingVUs render buffer req workerCount =
    render_script render ExternallyControlledTemplate (ramping_vus_data buffer req workerCount) ExternallyControlled"

definition generateConstantVUs :: "renderer \<Rightarrow> int \<Rightarrow> test_request \<Rightarrow> int \<Rightarrow> builder_result res" where
  "generateConstantVUs render buffer req workerCount =
    render_script render ExternallyControlledTemplate (constant_vus_data buffer req workerCount) ConstantVUs"

definition generateConstantArrivalRate :: "renderer \<Rightarrow> test_request \<Rightarrow> int \<Rightarrow> builder_result res" where
  "generateConstantArrivalRate render req workerCount =
    render_script render ConstantArrivalRateTemplate (constant_rate_data req workerCount) ConstantArrivalRate"

definition generateRampingArrivalRate :: "renderer \<Rightarrow> test_request \<Rightarrow> int \<Rightarrow> builder_result res" where
  "generateRampingArrivalRate render req workerCount =
    render_script render RampingArrivalRateTemplate (ramping_rate_data req workerCount) RampingArrivalRate"

definition GenerateFromBuilder :: "renderer \<Rightarrow> int \<Rightarrow> test_request \<Rightarrow> int \<Rightarrow> builder_result res" where
  "GenerateFromBuilder render buffer req workerCount0 =
    (let workerCount = (if workerCount0 < 1 then 1 else workerCount0);
         executor = (if req_Executor req = [] then ''ramping-vus'' else req_Executor req)
     in if executor = ''constant-vus'' then generateConstantVUs render buffer req workerCount
        else if executor = ''ramping-vus'' then generateRampingVUs render buffer req workerCount
        else if executor = ''constant-arrival-rate'' then generateConstantArrivalRate render req workerCount
        else if executor = ''ramping-arrival-rate'' then generateRampingArrivalRate render req workerCount
        else Inl (''unsupported executor: '' @ executor))"

definition ValidateUpload :: "string \<Rightarrow> string option" where
  "ValidateUpload content =
    (if trim_space content = [] then Some ''script is empty''
     else if 2 ^ 20 < length content then Some ''script exceeds 1 MB size limit''
     else if \<not> contains content ''export default function'' \<and> \<not> contains content ''export function setup''
     then Some (''script must contain '' @ [CHR 0x27] @ ''export default function'' @ [CHR 0x27])
     else None)"

subsection \<open>Uploaded configurations\<close>

fun detect_scenario :: "json_obj \<Rightarrow> executor_type" where
  "detect_scenario [] = ConstantVUs"
| "detect_scenario ((name, sc) # rest) =
    (case as_obj (Some sc) of
       None \<Rightarrow> detect_scenario rest
     | Some m \<Rightarrow>
        (case find (\<lambda>e. executor_str e = str_or_empty (map_of m ''executor''))
                [ExternallyControlled, ConstantVUs, RampingVUs, ConstantArrivalRate, RampingArrivalRate] of
           Some e \<Rightarrow> e
         | None \<Rightarrow> detect_scenario rest))"

definition DetectExecutorFromConfig :: "json_obj \<Rightarrow> executor_type" where
  "DetectExecutorFromConfig parsed =
    (case map_of parsed ''scenarios'' of
       None \<Rightarrow> (if map_of parsed ''stages'' \<noteq> None then RampingVUs else ConstantVUs)
     | Some sc \<Rightarrow> (case as_obj (Some sc) of None \<Rightarrow> ConstantVUs | Some m \<Rightarrow> detect_scenario m))"

definition DetectExecutorFromScript :: "string \<Rightarrow> executor_type" where
  "DetectExecutorFromScript content =
    (case find (\<lambda>e. contains content (executor_str e))
            [ExternallyControlled, ConstantArrivalRate, RampingArrivalRate, RampingVUs, ConstantVUs] of
       Some e \<Rightarrow> e
     | None \<Rightarrow> ConstantVUs)"

definition objects :: "json list \<Rightarrow> json_obj list" where
  "objects xs = List.map_filter (\<lambda>x. as_obj (Some x)) xs"

definition raw_stage :: "json_obj \<Rightarrow> stage" where
  "raw_stage m =
    \<lparr>stg_Duration = str_or_empty (map_of m ''duration''),
     stg_Target = (case as_num (map_of m ''target'') of None \<Rightarrow> 0 | Some t \<Rightarrow> int_of_f64 t)\<rparr>"

definition num_field :: "json_obj \<Rightarrow> string \<Rightarrow> int" where
  "num_field m key = (case as_num (map_of m key) of None \<Rightarrow> 0 | Some v \<Rightarrow> int_of_f64 v)"

definition external_scenario :: "int \<Rightarrow> int \<Rightarrow> json" where
  "external_scenario maxVUs durationSec =
    JObj [(''executor'', JStr ''externally-controlled''), (''vus'', jint 0), (''maxVUs'', jint maxVUs),
          (''duration'', JStr (secs durationSec))]"

text \<open>One scenario: what replaces it, and the stages extracted from it.\<close>

definition transform_scenario :: "int \<Rightarrow> json \<Rightarrow> json \<times> stage list" where
  "transform_scenario buffer sc =
    (case as_obj (Some sc) of
       None \<Rightarrow> (sc, [])
     | Some m \<Rightarrow>
        (let executor = str_or_empty (map_of m ''executor'')
         in if executor = ''ramping-vus'' then
              (case as_arr (map_of m ''stages'') of
                 None \<Rightarrow> (sc, [])
               | Some raw \<Rightarrow>
                  (let stages = map raw_stage (objects raw);
                       mx = max_target 0 stages;
                       maxVUs = (if mx < 1 then 1 else mx);
                       totalSec = wrap64 (total_secs 0 (map stg_Duration stages) + buffer)
                   in (external_scenario maxVUs totalSec, stages)))
            else if executor = ''constant-vus'' then
              (let v = num_field m ''vus''; vus = (if v < 1 then 1 else v);
                   dur = str_or_empty (map_of m ''duration'');
                   d = parseDuration dur;
                   durationSec = wrap64 ((if d < 1 then 60 else d) + buffer)
               in (external_scenario vus durationSec,
                   [\<lparr>stg_Duration = ''0s'', stg_Target = vus\<rparr>, \<lparr>stg_Duration = dur, stg_Target = vus\<rparr>]))
            else if executor = ''externally-controlled'' then
              (let v = num_field m ''maxVUs''; maxVUs = (if v < 1 then 50 else v);
                   d = parseDuration (str_or_empty (map_of m ''duration''));
                   durationSec = (if d < 1 then 120 else d)
               in (JObj (AList.update ''vus'' (jint 0) (AList.update ''maxVUs'' (jint maxVUs)
                     (AList.update ''duration'' (JStr (secs (wrap64 (durationSec + buffer)))) m))),
                   [\<lparr>stg_Duration = ''0s'', stg_Target = maxVUs\<rparr>, \<lparr>stg_Duration = secs durationSec, stg_Target = maxVUs\<rparr>]))
            else (sc, [])))"

definition transformVUScenarios :: "int \<Rightarrow> json_obj \<Rightarrow> json_obj \<times> stage list" where
  "transformVUScenarios buffer scenarios =
    (map (\<lambda>(name, sc). (name, fst (transform_scenario buffer sc))) scenarios,
     concat (map (\<lambda>(name, sc). snd (transform_scenario buffer sc)) scenarios))"

definition divide_stage :: "int \<Rightarrow> json \<Rightarrow> json" where
  "divide_stage workers st = (case as_obj (Some st) of None \<Rightarrow> st | Some m \<Rightarrow> JObj (divideIntVal m ''target'' workers))"

definition divide_scenario :: "int \<Rightarrow> json \<Rightarrow> json" where
  "divide_scenario workers sc =
    (case as_obj (Some sc) of
       None \<Rightarrow> sc
     | Some m \<Rightarrow>
        (let executor = str_or_empty (map_of m ''executor'')
         in if executor = ''constant-arrival-rate'' then
              JObj (divideIntVal (divideIntVal (divideIntVal m ''rate'' workers) ''preAllocatedVUs'' workers) ''maxVUs'' workers)
            else if executor = ''ramping-arrival-rate'' then
              (let m1 = divideIntVal (divideIntVal (divideIntVal m ''startRate'' workers) ''preAllocatedVUs'' workers) ''maxVUs'' workers
               in case as_arr (map_of m1 ''stages'') of
                    None \<Rightarrow> JObj m1
                  | Some stages \<Rightarrow> JObj (AList.update ''stages'' (JArr (map (divide_stage workers) stages)) m1))
            else sc))"

definition divideForWorkers :: "json_obj \<Rightarrow> int \<Rightarrow> json_obj" where
  "divideForWorkers scenarios workers = map (\<lambda>(name, sc). (name, divide_scenario workers sc)) scenarios"

definition knownKeys :: "string list" where
  "knownKeys =
    [''scenarios'', ''stages'', ''vus'', ''duration'', ''iterations'', ''thresholds'', ''noConnectionReuse'',
     ''userAgent'', ''hosts'', ''insecureSkipTLSVerify'', ''throw'', ''batch'', ''batchPerHost'', ''rps'',
     ''httpDebug'', ''noVUConnectionReuse'', ''maxRedirects'', ''discardResponseBodies'', ''setupTimeout'',
     ''teardownTimeout'', ''ext'', ''tags'', ''systemTags'', ''summaryTrendStats'', ''summaryTimeUnit'', ''dns'',
     ''tlsCipherSuites'', ''tlsVersion'', ''tlsAuth'', ''blacklistIPs'', ''blockHostnames'', ''noUsageReport'',
     ''cloud'', ''minIterationDuration'', ''gracefulRampDown'', ''gracefulStop'', ''executor'', ''env'']"

text \<open>
  \<^verbatim>\<open>ValidateAndProcessConfig\<close>; \<open>pc_Options\<close> is the object whose indented serialisation is \<^verbatim>\<open>OptionsJSON\<close>.
\<close>

record processed_config =
  pc_Options :: json_obj
  pc_EnvVars :: "(string \<times> string) list"
  pc_ExecutorType :: executor_type
  pc_Stages :: "stage list"

definition process_scenarios :: "int \<Rightarrow> int \<Rightarrow> json_obj \<Rightarrow> json_obj \<times> stage list" where
  "process_scenarios buffer workerCount parsed =
    (let executor = DetectExecutorFromConfig parsed;
         (parsed1, stages) =
           (if IsControllable executor \<and> executor \<noteq> ExternallyControlled
            then (case as_obj (map_of parsed ''scenarios'') of
                    None \<Rightarrow> (parsed, [])
                  | Some m \<Rightarrow>
                     (case transformVUScenarios buffer m of
                        (m1, st) \<Rightarrow> (AList.update ''scenarios'' (JObj m1) parsed, st)))
            else (parsed, []));
         parsed2 =
           (if 1 < workerCount
            then (case as_obj (map_of parsed1 ''scenarios'') of
                    None \<Rightarrow> parsed1
                  | Some m \<Rightarrow> AList.update ''scenarios'' (JObj (divideForWorkers m workerCount)) parsed1)
            else parsed1)
     in (parsed2, stages))"

definition process_config :: "json_lib \<Rightarrow> int \<Rightarrow> int \<Rightarrow> json_obj \<Rightarrow> processed_config res" where
  "process_config lib buffer workerCount parsed =
    (case (case map_of parsed ''env'' of
             None \<Rightarrow> Inr []
           | Some v \<Rightarrow>
              (case as_obj (Some v) of
                 Some m \<Rightarrow> Inr (map (\<lambda>(k, x). (k, format_v lib x)) m)
               | None \<Rightarrow> Inl (''\"env\" must be a JSON object with string values''))) of
       Inl e \<Rightarrow> Inl e
     | Inr envVars \<Rightarrow>
        (case find (\<lambda>(k, v). k \<notin> set knownKeys) parsed of
           Some (k, v) \<Rightarrow> Inl (''unknown k6 option key: '' @ jl_quote lib k)
         | None \<Rightarrow>
            (case process_scenarios buffer workerCount parsed of
               (options, stages) \<Rightarrow>
                 Inr \<lparr>pc_Options = options, pc_EnvVars = envVars, pc_ExecutorType = DetectExecutorFromConfig parsed,
                      pc_Stages = stages\<rparr>)))"

definition ValidateAndProcessConfig :: "json_lib \<Rightarrow> int \<Rightarrow> string \<Rightarrow> int \<Rightarrow> processed_config res" where
  "ValidateAndProcessConfig lib buffer content workerCount =
    (if trim_space content = [] then Inl ''config is empty''
     else if 2 ^ 20 < length content then Inl ''config exceeds 1 MB size limit''
     else (case unmarshal_map lib content of
             Inl e \<Rightarrow> Inl (''invalid JSON: '' @ e)
           | Inr parsed \<Rightarrow> process_config lib buffer workerCount (obj_of parsed)))"

subsection \<open>The configured run time\<close>

definition stage_durations :: "json list \<Rightarrow> string list" where
  "stage_durations raw = map (\<lambda>m. str_or_empty (map_of m ''duration'')) (objects raw)"

definition scenarioDurationSeconds :: "json_obj \<Rightarrow> int" where
  "scenarioDurationSeconds m =
    (if str_or_empty (map_of m ''executor'') \<in> {''ramping-vus'', ''ramping-arrival-rate''}
     then (case as_arr (map_of m ''stages'') of None \<Rightarrow> 0 | Some raw \<Rightarrow> total_secs 0 (stage_durations raw))
     else parseDuration (str_or_empty (map_of m ''duration'')))"

definition max_duration :: "json_obj list \<Rightarrow> int" where
  "max_duration ms = fold (\<lambda>m mx. if mx < scenarioDurationSeconds m then scenarioDurationSeconds m else mx) ms 0"

definition configured_seconds :: "json_obj \<Rightarrow> int" where
  "configured_seconds parsed =
    (let maxSeconds = (case as_obj (map_of parsed ''scenarios'') of
                         None \<Rightarrow> 0
                       | Some m \<Rightarrow> max_duration (objects (map snd m)))
     in if maxSeconds = 0
        then (case as_arr (map_of parsed ''stages'') of
                Some raw \<Rightarrow> total_secs 0 (stage_durations raw)
              | None \<Rightarrow>
                 (case as_str (map_of parsed ''duration'') of None \<Rightarrow> 0 | Some d \<Rightarrow> parseDuration d))
        else maxSeconds)"

definition EstimateConfiguredExecutionDuration :: "json_lib \<Rightarrow> string \<Rightarrow> duration" where
  "EstimateConfiguredExecutionDuration lib content =
    (if trim_space content = [] then 0
     else (case unmarshal_map lib content of
             Inl e \<Rightarrow> 0
           | Inr parsed \<Rightarrow>
              (let s = configured_seconds (obj_of parsed) in if s \<le> 0 then 0 else wrap64 (s * second))))"

end
