(* ===== verification/ScriptGenProofs.thy ===== *)
theory ScriptGenProofs
  imports ScriptGen
begin

text \<open>
  Properties of the script generator and of its interplay with the ramping manager: the stages that
  are extracted from a configuration, run by the ramping manager, end when the configuration says and
  never ask for more users than the transformed scenario allows.
\<close>

subsection \<open>Durations\<close>

lemma wrap64_shift: "wrap64 (x + k * 2 ^ 64) = wrap64 x"
proof -
  have "x + k * 2 ^ 64 + 2 ^ 63 = (x + 2 ^ 63) + k * 2 ^ 64" by simp
  then show ?thesis unfolding wrap64_def by (metis mod_mult_self1)
qed

lemma wrap64_ex: "\<exists>k. wrap64 a = a + k * 2 ^ 64"
proof
  have "(a + 2 ^ 63) mod 2 ^ 64 = a + 2 ^ 63 - (a + 2 ^ 63) div 2 ^ 64 * 2 ^ 64" by (simp only: minus_div_mult_eq_mod)
  then show "wrap64 a = a + (- ((a + 2 ^ 63) div 2 ^ 64)) * 2 ^ 64" by (simp add: wrap64_def)
qed

lemma wrap64_mult: "wrap64 (wrap64 a * b) = wrap64 (a * b)"
proof -
  obtain k where "wrap64 a = a + k * 2 ^ 64" using wrap64_ex by blast
  then have "wrap64 a * b = a * b + (k * b) * 2 ^ 64" by (simp add: algebra_simps)
  then show ?thesis by (metis wrap64_shift)
qed

text \<open>The two parsers of durations agree.\<close>

lemma parseStageDuration_eq: "parseStageDuration d = wrap64 (parseDuration d * second)"
proof -
  have "wrap64 (wrap64 (v * 60) * second) = wrap64 (v * minute)" "wrap64 (wrap64 (v * 3600) * second) = wrap64 (v * hour)" for v
    by (simp_all add: wrap64_mult mult.assoc)
  moreover have "wrap64 0 = 0" by (simp add: wrap64_def)
  ultimately show ?thesis
    by (simp add: parseStageDuration_def parseDuration_def Let_def split: option.split)
qed

lemmas parseDuration_eval = parseDuration_def Let_def is_plain_def atoi_def is_digit_def digits_val_def
  digit_val_def in_int64_def wrap64_def

definition sum_secs :: "string list \<Rightarrow> int" where
  "sum_secs ds = sum_list (map parseDuration ds)"

lemma total_secs_sum:
  assumes "\<forall>d \<in> set ds. 0 \<le> parseDuration d" "0 \<le> t" "t + sum_secs ds < 2 ^ 63"
  shows "total_secs t ds = t + sum_secs ds"
  using assms
proof (induction ds arbitrary: t)
  case (Cons d ds)
  have nn: "0 \<le> sum_secs ds" using Cons.prems(1) by (auto simp: sum_secs_def intro!: sum_list_nonneg)
  have "wrap64 (t + parseDuration d) = t + parseDuration d"
    using Cons.prems nn by (intro wrap64_id) (auto simp: in_int64_def sum_secs_def)
  then show ?case using Cons.prems Cons.IH [of "t + parseDuration d"] by (simp add: sum_secs_def add.assoc)
qed (simp add: sum_secs_def)

text \<open>Durations that are not negative and whose sum, in nanoseconds, fits into a duration.\<close>

definition durations_fit :: "stage list \<Rightarrow> bool" where
  "durations_fit stages \<longleftrightarrow>
    list_all (\<lambda>s. 0 \<le> parseDuration (stg_Duration s)) stages \<and> sum_secs (map stg_Duration stages) * second < 2 ^ 63"

definition targets_fit :: "stage list \<Rightarrow> bool" where
  "targets_fit stages \<longleftrightarrow> list_all (\<lambda>s. 0 \<le> stg_Target s \<and> stg_Target s \<le> 2 ^ 52) stages"

lemma stage_dur_fit:
  assumes "0 \<le> parseDuration (stg_Duration s)" "parseDuration (stg_Duration s) * second < 2 ^ 63"
  shows "stage_dur s = parseDuration (stg_Duration s) * second"
  unfolding stage_dur_def parseStageDuration_eq
  using assms by (intro wrap64_id) (simp add: in_int64_def)

lemma sum_secs_Cons: "sum_secs (d # ds) = parseDuration d + sum_secs ds"
  by (simp add: sum_secs_def)

lemma sum_secs_nonneg: "\<forall>d \<in> set ds. 0 \<le> parseDuration d \<Longrightarrow> 0 \<le> sum_secs ds"
  by (auto simp: sum_secs_def intro!: sum_list_nonneg)

lemma durations_fit_Cons:
  assumes "durations_fit (s # ss)"
  shows "durations_fit ss" "0 \<le> parseDuration (stg_Duration s)" "parseDuration (stg_Duration s) * second < 2 ^ 63"
proof -
  have nn: "0 \<le> parseDuration (stg_Duration s)" "0 \<le> sum_secs (map stg_Duration ss)"
    using assms by (auto simp: durations_fit_def list_all_iff intro!: sum_secs_nonneg)
  have "(parseDuration (stg_Duration s) + sum_secs (map stg_Duration ss)) * second < 2 ^ 63"
    using assms by (simp add: durations_fit_def sum_secs_Cons)
  with nn assms show "durations_fit ss" "0 \<le> parseDuration (stg_Duration s)" "parseDuration (stg_Duration s) * second < 2 ^ 63"
    by (simp_all add: durations_fit_def)
qed

lemma total_dur_fit: "durations_fit stages \<Longrightarrow> total_dur stages = sum_secs (map stg_Duration stages) * second"
proof (induction stages)
  case (Cons s ss)
  note f = durations_fit_Cons [OF Cons.prems]
  then show ?case using Cons.IH stage_dur_fit [OF f(2,3)] by (simp add: sum_secs_Cons algebra_simps)
qed (simp add: sum_secs_def)

lemma stages_ok:
  assumes "durations_fit stages" "targets_fit stages"
  shows "list_all stage_ok stages"
  using assms
proof (induction stages)
  case (Cons s ss)
  note f = durations_fit_Cons [OF Cons.prems(1)]
  then show ?case using Cons stage_dur_fit [OF f(2,3)] by (simp add: stage_ok_def targets_fit_def)
qed simp

lemma total_dur_range: "durations_fit stages \<Longrightarrow> total_dur stages < 2 ^ 63"
  by (simp add: total_dur_fit) (simp add: durations_fit_def)

subsection \<open>Targets\<close>

lemma max_target_ge: "m \<le> max_target m ss \<and> (\<forall>s \<in> set ss. stg_Target s \<le> max_target m ss)"
proof (induction ss arbitrary: m)
  case (Cons s ss)
  show ?case using Cons.IH [of "if m < stg_Target s then stg_Target s else m"] by auto
qed simp

lemma last_target_le:
  assumes "targets_fit ss" "k \<le> length ss"
  shows "0 \<le> last (0 # map stg_Target (take k ss))" "last (0 # map stg_Target (take k ss)) \<le> max_target 0 ss"
proof -
  have "x \<in> stg_Target ` set ss \<or> x = 0" if "x = last (0 # map stg_Target (take k ss))" for x
    using that in_set_takeD by (cases "take k ss = []") (fastforce simp: last_map dest: last_in_set)+
  then show "0 \<le> last (0 # map stg_Target (take k ss))" "last (0 # map stg_Target (take k ss)) \<le> max_target 0 ss"
    using assms max_target_ge [of 0 ss] by (fastforce simp: targets_fit_def list_all_iff)+
qed

text \<open>The ramp of well-formed stages: it never leaves the range of the targets and ends with the stages.\<close>

lemma ramp_within:
  assumes "durations_fit ss" "targets_fit ss" "ss \<noteq> []" "0 \<le> t" "calculateVUs ss t = (v, fin, i)"
  shows "0 \<le> v" "v \<le> max_target 0 ss" "fin \<longleftrightarrow> sum_secs (map stg_Duration ss) * second \<le> t"
proof -
  note ok = stages_ok [OF assms(1,2)] and tot = total_dur_fit [OF assms(1)]
  have "0 \<le> v \<and> v \<le> max_target 0 ss \<and> (fin \<longleftrightarrow> total_dur ss \<le> t)"
  proof (cases "total_dur ss \<le> t")
    case True
    have "calculateVUs ss t = (last (0 # map stg_Target ss), True, int (length ss) - 1)"
      using True calculate_loop_done [of ss 0 t 0 0] ok total_dur_range [OF assms(1)] assms(3) by (simp add: calculateVUs_def)
    then show ?thesis using assms(5) last_target_le [OF assms(2), of "length ss"] True by simp
  next
    case False
    from calculate_loop_within [of ss 0 t 0 0] ok total_dur_range [OF assms(1)] False assms(4)
    obtain w k where w: "calculate_loop 0 0 0 ss t = (w, False, int k)" "k < length ss"
      "min (last (0 # map stg_Target (take k ss))) (stg_Target (ss ! k)) \<le> w"
      "w \<le> max (last (0 # map stg_Target (take k ss))) (stg_Target (ss ! k))" by auto
    then have eq: "v = w" "\<not> fin" using assms(3,5) by (auto simp: calculateVUs_def)
    have "0 \<le> stg_Target (ss ! k)" "stg_Target (ss ! k) \<le> max_target 0 ss"
      using assms(2) w(2) max_target_ge [of 0 ss] by (auto simp: targets_fit_def list_all_length)
    then show ?thesis
      using w(2-4) last_target_le [OF assms(2), of k] eq False by (simp add: min_le_iff_disj le_max_iff_disj) linarith
  qed
  then show "0 \<le> v" "v \<le> max_target 0 ss" "fin \<longleftrightarrow> sum_secs (map stg_Duration ss) * second \<le> t"
    by (simp_all add: tot)
qed

subsection \<open>Scenarios\<close>

lemma transform_ramping:
  assumes "map_of m ''executor'' = Some (JStr ''ramping-vus'')" "map_of m ''stages'' = Some (JArr raw)"
    and "durations_fit (map raw_stage (objects raw))" "0 \<le> buffer" "buffer + sum_secs (map stg_Duration (map raw_stage (objects raw))) < 2 ^ 63"
  shows "transform_scenario buffer (JObj m) =
    (external_scenario (max 1 (max_target 0 (map raw_stage (objects raw))))
       (sum_secs (map stg_Duration (map raw_stage (objects raw))) + buffer), map raw_stage (objects raw))"
proof -
  let ?ss = "map raw_stage (objects raw)"
  have nn: "\<forall>d \<in> set (map stg_Duration ?ss). 0 \<le> parseDuration d"
    using assms(3) by (auto simp: durations_fit_def list_all_iff)
  have t: "total_secs 0 (map stg_Duration ?ss) = sum_secs (map stg_Duration ?ss)"
    using total_secs_sum [OF nn, of 0] assms(4,5) by simp
  have "wrap64 (sum_secs (map stg_Duration ?ss) + buffer) = sum_secs (map stg_Duration ?ss) + buffer"
    using sum_secs_nonneg [OF nn] assms(4,5) by (intro wrap64_id) (simp add: in_int64_def)
  then show ?thesis using assms(1,2) t
    by (simp add: transform_scenario_def str_or_empty_def Let_def max_def)
qed

lemma zero_stage: "parseDuration ''0s'' = 0"
  by (simp add: parseDuration_eval)

lemma transform_constant:
  assumes "map_of m ''executor'' = Some (JStr ''constant-vus'')"
  shows "transform_scenario buffer (JObj m) =
    (let vus = max 1 (num_field m ''vus''); dur = str_or_empty (map_of m ''duration''); d = parseDuration dur
     in (external_scenario vus (wrap64 ((if d < 1 then 60 else d) + buffer)),
         [\<lparr>stg_Duration = ''0s'', stg_Target = vus\<rparr>, \<lparr>stg_Duration = dur, stg_Target = vus\<rparr>]))"
  using assms by (simp add: transform_scenario_def str_or_empty_def Let_def max_def)

definition constant_stages :: "string \<Rightarrow> int \<Rightarrow> stage list" where
  "constant_stages dur vus = [\<lparr>stg_Duration = ''0s'', stg_Target = vus\<rparr>, \<lparr>stg_Duration = dur, stg_Target = vus\<rparr>]"

lemma constant_ramp:
  assumes "0 \<le> parseDuration dur" "parseDuration dur * second < 2 ^ 63" "\<bar>vus\<bar> \<le> 2 ^ 52" "0 \<le> t"
  shows "calculateVUs (constant_stages dur vus) t = (vus, parseDuration dur * second \<le> t, 1)"
proof -
  let ?d = "parseDuration dur * second"
  have z: "parseStageDuration ''0s'' = 0" by (simp add: parseStageDuration_eq zero_stage wrap64_def)
  have d: "parseStageDuration dur = ?d"
    unfolding parseStageDuration_eq using assms by (intro wrap64_id) (simp add: in_int64_def)
  have w: "wrap64 ?d = ?d" "wrap64 0 = 0" using assms by (auto intro!: wrap64_id simp: in_int64_def)
  show ?thesis
  proof (cases "t < ?d")
    case True
    then have "wrap64 t = t" using assms by (intro wrap64_id) (simp add: in_int64_def)
    moreover have "interpolate vus vus t ?d = vus"
      using interpolate_bounds [of t ?d vus vus] True assms w by (auto simp: in_int64_def)
    ultimately show ?thesis using True assms(4) by (simp add: calculateVUs_def constant_stages_def Let_def z d w)
  next
    case False
    then show ?thesis using assms(1,4) by (simp add: calculateVUs_def constant_stages_def Let_def z d w)
  qed
qed

subsection \<open>Environment\<close>

lemma add_env_lookup: "map_of (add_env p block) k =
    (case map_of block k of Some v \<Rightarrow> Some v | None \<Rightarrow> if fst p = k then Some (JStr (snd p)) else None)"
  by (auto simp: add_env_def map_add_def split: option.splits)

lemma fold_add_env_lookup:
  assumes "distinct (map fst env)"
  shows "map_of (fold add_env env block) k =
    (case map_of block k of Some v \<Rightarrow> Some v | None \<Rightarrow> map_option JStr (map_of env k))"
  using assms
proof (induction env arbitrary: block)
  case Nil
  then show ?case by (simp split: option.split)
next
  case (Cons p env)
  have "map_of env (fst p) = None" using Cons.prems by (simp add: map_of_eq_None_iff)
  then show ?case using Cons
    by (cases p) (auto simp: add_env_lookup split: option.splits)
qed

lemma contract_distinct: "distinct (map fst (buildBuilderEnvContract req))"
  by (cases "ai_Enabled (req_Auth req)"; cases "trim_space (req_URL req) = []") (simp_all add: buildBuilderEnvContract_def)

definition config_env :: "json_obj \<Rightarrow> json_obj" where
  "config_env config = (case map_of config ''env'' of Some (JObj m) \<Rightarrow> m | _ \<Rightarrow> [])"

text \<open>The \<^verbatim>\<open>env\<close> of a configuration is missing, null or an object.\<close>

definition env_ok :: "json_obj \<Rightarrow> bool" where
  "env_ok config \<longleftrightarrow> map_of config ''env'' \<in> {None, Some JNull} \<union> range (\<lambda>m. Some (JObj m))"

lemma map_of_format: "map_of (map (\<lambda>(k, v). (k, JStr (format_v lib v))) m) k = map_option (\<lambda>v. JStr (format_v lib v)) (map_of m k)"
  by (induction m) auto

lemma defaults_lookup: "k \<noteq> ''discardResponseBodies'' \<Longrightarrow> map_of (applyBuilderConfigDefaults config) k = map_of config k"
  by (simp add: applyBuilderConfigDefaults_def map_add_def split: option.split)

lemma merge_env_ok:
  assumes "env_ok config" "distinct (map fst env)" "env \<noteq> []"
  shows "\<exists>block. merge_env lib config env = Inr (AList.update ''env'' (JObj block) (applyBuilderConfigDefaults config)) \<and>
    (\<forall>k. map_of block k =
      (case map_of (config_env config) k of
         Some v \<Rightarrow> Some (JStr (format_v lib v)) | None \<Rightarrow> map_option JStr (map_of env k)))"
proof -
  let ?user = "map (\<lambda>(k, v). (k, JStr (format_v lib v))) (config_env config)"
  let ?block = "fold add_env env ?user"
  have e: "map_of (applyBuilderConfigDefaults config) ''env'' = map_of config ''env''" by (rule defaults_lookup) simp
  have l: "map_of ?block k = (case map_of (config_env config) k of
      Some v \<Rightarrow> Some (JStr (format_v lib v)) | None \<Rightarrow> map_option JStr (map_of env k))" for k
    unfolding fold_add_env_lookup [OF assms(2)] map_of_format by (simp split: option.split)
  have "?block \<noteq> []"
  proof
    obtain k v rest where env: "env = (k, v) # rest" using assms(3) by (cases env) auto
    assume "?block = []"
    then have "map_of ?block k = None" by simp
    then show False unfolding l by (simp add: env split: option.splits)
  qed
  then have "merge_env lib config env = Inr (AList.update ''env'' (JObj ?block) (applyBuilderConfigDefaults config))"
    using assms(1) by (auto simp: merge_env_def Let_def e env_ok_def config_env_def)
  with l show ?thesis by blast
qed

subsection \<open>Properties\<close>

text \<open>
  A scenario with ramping virtual users is replaced by an externally controlled one, and the stages
  extracted from it drive the ramping manager consistently with it: at every time the manager asks for
  at most the maximum of the scenario, it is done exactly when the durations of the stages are over,
  and the scenario runs for that time plus the completion buffer.
\<close>

theorem ramping_scenario_agrees_with_ramp:
  assumes "map_of m ''executor'' = Some (JStr ''ramping-vus'')" "map_of m ''stages'' = Some (JArr raw)"
    and "stages = map raw_stage (objects raw)" "stages \<noteq> []" "durations_fit stages" "targets_fit stages"
    and "0 \<le> buffer" "buffer + sum_secs (map stg_Duration stages) < 2 ^ 63"
    and "0 \<le> t" "calculateVUs stages t = (v, fin, i)"
  shows "\<exists>maxVUs. transform_scenario buffer (JObj m) =
      (external_scenario maxVUs (sum_secs (map stg_Duration stages) + buffer), stages) \<and>
    0 \<le> v \<and> v \<le> maxVUs \<and> (fin \<longleftrightarrow> sum_secs (map stg_Duration stages) * second \<le> t)"
proof -
  have "transform_scenario buffer (JObj m) =
      (external_scenario (max 1 (max_target 0 stages)) (sum_secs (map stg_Duration stages) + buffer), stages)"
    using transform_ramping [OF assms(1,2)] assms(3,5,7,8) by simp
  with ramp_within [OF assms(5,6,4,9,10)] show ?thesis by fastforce
qed

definition demo_raw_stages :: "json list" where
  "demo_raw_stages =
    [JObj [(''duration'', JStr ''10s''), (''target'', JNum (Fin 20))],
     JObj [(''duration'', JStr ''1m''), (''target'', JNum (Fin 50))]]"

lemma demo_raw: "map raw_stage (objects demo_raw_stages) =
    [\<lparr>stg_Duration = ''10s'', stg_Target = 20\<rparr>, \<lparr>stg_Duration = ''1m'', stg_Target = 50\<rparr>]"
  by (simp add: demo_raw_stages_def objects_def List.map_filter_def raw_stage_def str_or_empty_def in_int64_def)

lemma demo_durations: "parseDuration ''10s'' = 10" "parseDuration ''1m'' = 60"
  by (simp_all add: parseDuration_eval)

theorem ramping_scenario_agrees_with_ramp_witness:
  "\<exists>maxVUs v i. transform_scenario 30 (JObj [(''executor'', JStr ''ramping-vus''), (''stages'', JArr demo_raw_stages)]) =
      (external_scenario maxVUs 100, map raw_stage (objects demo_raw_stages)) \<and>
    calculateVUs (map raw_stage (objects demo_raw_stages)) (70 * second) = (v, True, i) \<and> v \<le> maxVUs"
proof -
  let ?ss = "map raw_stage (objects demo_raw_stages)"
  obtain v fin i where c: "calculateVUs ?ss (70 * second) = (v, fin, i)" by (metis prod_cases3)
  have s: "sum_secs (map stg_Duration ?ss) = 70" by (simp add: demo_raw sum_secs_def demo_durations)
  have f: "durations_fit ?ss" "targets_fit ?ss" "?ss \<noteq> []"
    using s by (simp_all add: durations_fit_def targets_fit_def demo_raw demo_durations)
  from ramping_scenario_agrees_with_ramp [of "[(''executor'', JStr ''ramping-vus''), (''stages'', JArr demo_raw_stages)]"
      demo_raw_stages ?ss 30 "70 * second" v fin i] f c s
  show ?thesis by auto
qed

text \<open>
  A scenario with a constant number of virtual users and a duration is run as such: the manager asks
  for exactly that number, at least one, from the start until the duration is over, when it is done,
  and the scenario that replaces it allows that number and runs for the duration plus the buffer.
\<close>

theorem constant_scenario_holds_users:
  assumes "map_of m ''executor'' = Some (JStr ''constant-vus'')" "map_of m ''duration'' = Some (JStr dur)"
    and "1 \<le> parseDuration dur" "parseDuration dur * second < 2 ^ 63" "num_field m ''vus'' \<le> 2 ^ 52"
    and "0 \<le> buffer" "buffer < 2 ^ 62" "0 \<le> t"
  shows "\<exists>stages. transform_scenario buffer (JObj m) =
      (external_scenario (max 1 (num_field m ''vus'')) (parseDuration dur + buffer), stages) \<and>
    calculateVUs stages t = (max 1 (num_field m ''vus''), parseDuration dur * second \<le> t, 1)"
proof -
  let ?vus = "max 1 (num_field m ''vus'')"
  have "wrap64 (parseDuration dur + buffer) = parseDuration dur + buffer"
    using assms(3,4,6,7) by (intro wrap64_id) (simp add: in_int64_def)
  then have "transform_scenario buffer (JObj m) = (external_scenario ?vus (parseDuration dur + buffer), constant_stages dur ?vus)"
    using assms(2,3) transform_constant [OF assms(1)] by (simp add: str_or_empty_def Let_def constant_stages_def)
  moreover have "\<bar>?vus\<bar> \<le> 2 ^ 52" using assms(5) by (simp add: max_def)
  ultimately show ?thesis using constant_ramp [of dur ?vus t] assms(3,4,8) by auto
qed

theorem constant_scenario_holds_users_witness:
  "\<exists>stages. transform_scenario 30 (JObj [(''executor'', JStr ''constant-vus''), (''vus'', JNum (Fin 20)), (''duration'', JStr ''1m'')]) =
      (external_scenario 20 90, stages) \<and> calculateVUs stages (59 * second) = (20, False, 1)"
proof -
  let ?m = "[(''executor'', JStr ''constant-vus''), (''vus'', JNum (Fin 20)), (''duration'', JStr ''1m'')]"
  have "num_field ?m ''vus'' = 20" by (simp add: num_field_def in_int64_def)
  then show ?thesis
    using constant_scenario_holds_users [of ?m "''1m''" 30 "59 * second"] by (simp add: demo_durations)
qed

text \<open>
  Without a duration, or with one that cannot be parsed, the scenario that replaces one with constant
  virtual users runs for 60 seconds plus the buffer, but the extracted stages have no length: the
  manager is done at once, which ends the run.
\<close>

theorem constant_scenario_without_duration:
  assumes "map_of m ''executor'' = Some (JStr ''constant-vus'')" "parseDuration (str_or_empty (map_of m ''duration'')) = 0"
    and "num_field m ''vus'' \<le> 2 ^ 52" "0 \<le> buffer" "buffer < 2 ^ 62" "0 \<le> t"
  shows "\<exists>stages. transform_scenario buffer (JObj m) =
      (external_scenario (max 1 (num_field m ''vus'')) (60 + buffer), stages) \<and>
    calculateVUs stages t = (max 1 (num_field m ''vus''), True, 1)"
proof -
  let ?vus = "max 1 (num_field m ''vus'')" and ?dur = "str_or_empty (map_of m ''duration'')"
  have "wrap64 (60 + buffer) = 60 + buffer" using assms(4,5) by (intro wrap64_id) (simp add: in_int64_def)
  then have "transform_scenario buffer (JObj m) = (external_scenario ?vus (60 + buffer), constant_stages ?dur ?vus)"
    using assms(2) transform_constant [OF assms(1)] by (simp add: Let_def constant_stages_def)
  moreover have "\<bar>?vus\<bar> \<le> 2 ^ 52" using assms(3) by (simp add: max_def)
  ultimately show ?thesis using constant_ramp [of ?dur ?vus t] assms(2,6) by auto
qed

theorem constant_scenario_without_duration_witness:
  "\<exists>stages. transform_scenario 30 (JObj [(''executor'', JStr ''constant-vus''), (''vus'', JNum (Fin 20))]) =
      (external_scenario 20 90, stages) \<and> calculateVUs stages 0 = (20, True, 1)"
proof -
  let ?m = "[(''executor'', JStr ''constant-vus''), (''vus'', JNum (Fin 20))]"
  have "num_field ?m ''vus'' = 20" by (simp add: num_field_def in_int64_def)
  moreover have "parseDuration (str_or_empty (map_of ?m ''duration'')) = 0" by (simp add: str_or_empty_def parseDuration_def)
  ultimately show ?thesis using constant_scenario_without_duration [of ?m 30 0] by simp
qed

text \<open>
  Enriching a configuration with the environment of a builder run keeps every variable that the
  configuration sets itself, adds every variable of the builder that it does not set, and changes
  nothing else but the default for discarding response bodies.
\<close>

theorem enrichment_keeps_user_environment:
  assumes "trim_space content \<noteq> []" "unmarshal_map lib content = Inr (Some config)" "env_ok config"
  shows "\<exists>merged block. EnrichBuilderConfig lib content req = Some (Inr (marshal lib (JObj merged))) \<and>
    map_of merged ''env'' = Some (JObj block) \<and>
    (\<forall>k. map_of block k =
      (case map_of (config_env config) k of
         Some v \<Rightarrow> Some (JStr (format_v lib v))
       | None \<Rightarrow> map_option JStr (map_of (buildBuilderEnvContract req) k))) \<and>
    (\<forall>k. k \<notin> {''env'', ''discardResponseBodies''} \<longrightarrow> map_of merged k = map_of config k)"
proof -
  have "buildBuilderEnvContract req \<noteq> []" by (simp add: buildBuilderEnvContract_def)
  from merge_env_ok [OF assms(3) contract_distinct this, of lib] obtain block where
    b: "merge_env lib config (buildBuilderEnvContract req) = Inr (AList.update ''env'' (JObj block) (applyBuilderConfigDefaults config))"
    and l: "\<forall>k. map_of block k =
      (case map_of (config_env config) k of
         Some v \<Rightarrow> Some (JStr (format_v lib v)) | None \<Rightarrow> map_option JStr (map_of (buildBuilderEnvContract req) k))" by blast
  let ?merged = "AList.update ''env'' (JObj block) (applyBuilderConfigDefaults config)"
  have "EnrichBuilderConfig lib content req = Some (Inr (marshal lib (JObj ?merged)))"
    using assms(1,2) b by (simp add: EnrichBuilderConfig_def mergeEnvIntoConfigContent_def)
  moreover have "\<forall>k. k \<notin> {''env'', ''discardResponseBodies''} \<longrightarrow> map_of ?merged k = map_of config k"
    by (simp add: update_conv defaults_lookup)
  ultimately show ?thesis using l by (intro exI [of _ ?merged] exI [of _ block]) (simp add: update_conv)
qed

theorem enrichment_keeps_user_environment_witness:
  "\<exists>merged block. EnrichBuilderConfig (one_text_lib ''c'' (JObj [(''env'', JObj [(''HTTP_METHOD'', JStr ''PUT'')])])) ''c'' zero_test_request =
      Some (Inr (marshal (one_text_lib ''c'' (JObj [(''env'', JObj [(''HTTP_METHOD'', JStr ''PUT'')])])) (JObj merged))) \<and>
    map_of merged ''env'' = Some (JObj block) \<and> map_of block ''HTTP_METHOD'' = Some (JStr ''PUT'') \<and>
    map_of block ''AUTH_ENABLED'' = Some (JStr ''false'')"
proof -
  let ?config = "[(''env'', JObj [(''HTTP_METHOD'', JStr ''PUT'')])]"
  let ?lib = "one_text_lib ''c'' (JObj ?config)"
  have u: "unmarshal_map ?lib ''c'' = Inr (Some ?config)" by (simp add: unmarshal_map_def one_text_lib_def)
  have ok: "env_ok ?config" by (simp add: env_ok_def)
  have "trim_space ''c'' \<noteq> []" by (simp add: is_plain_def)
  from enrichment_keeps_user_environment [OF this u ok, of zero_test_request] obtain merged block where
    mb: "EnrichBuilderConfig ?lib ''c'' zero_test_request = Some (Inr (marshal ?lib (JObj merged)))"
      "map_of merged ''env'' = Some (JObj block)"
    and b: "\<And>k. map_of block k =
      (case map_of (config_env ?config) k of
         Some v \<Rightarrow> Some (JStr (format_v ?lib v))
       | None \<Rightarrow> map_option JStr (map_of (buildBuilderEnvContract zero_test_request) k))" by blast
  have c: "config_env ?config = [(''HTTP_METHOD'', JStr ''PUT'')]" by (simp add: config_env_def)
  have "map_of (buildBuilderEnvContract zero_test_request) ''AUTH_ENABLED'' = Some ''false''"
    by (simp add: buildBuilderEnvContract_def zero_test_request_def zero_auth_input_def format_bool_def)
  then have "map_of block ''HTTP_METHOD'' = Some (JStr ''PUT'')" "map_of block ''AUTH_ENABLED'' = Some (JStr ''false'')"
    unfolding b c by simp_all
  with mb show ?thesis by blast
qed

end
