(* ===== verification/Payload.thy ===== *)
theory Payload
  imports ScriptGen
begin

text \<open>
  The request payload of a builder run, \<^verbatim>\<open>controller/internal/scriptgen/scriptgen.go\<close>:
  \<^verbatim>\<open>BuildBuilderPayloadArtifacts\<close> and the padding of a JSON object to an exact number of bytes.

  The outer \<open>option\<close> of a result is \<open>None\<close> when the code panics: slicing a string with a negative
  bound does.
\<close>

definition paddingField :: string where
  "paddingField = ''_shiva_padding''"

definition xs_pad :: "int \<Rightarrow> string" where
  "xs_pad n = replicate (nat n) (CHR ''x'')"

definition padding_of :: "json_obj \<Rightarrow> string" where
  "padding_of payload = str_or_empty (map_of payload paddingField)"

definition set_padding :: "json_obj \<Rightarrow> string \<Rightarrow> json_obj" where
  "set_padding payload s = AList.update paddingField (JStr s) payload"

text \<open>The correcting loop, with the number of turns that are left.\<close>

fun size_loop :: "json_lib \<Rightarrow> nat \<Rightarrow> int \<Rightarrow> json_obj \<Rightarrow> string option" where
  "size_loop lib 0 target payload = Some (marshal lib (JObj payload))"
| "size_loop lib (Suc n) target payload =
    (let content = marshal lib (JObj payload); diff = target - int (length content); current = padding_of payload
     in if diff = 0 then Some content
        else if 0 < diff then size_loop lib n target (set_padding payload (current @ xs_pad diff))
        else if int (length current) + diff < 0 then None
        else size_loop lib n target (set_padding payload (take (nat (int (length current) + diff)) current)))"

definition sizeObjectPayload :: "json_lib \<Rightarrow> json_obj \<Rightarrow> int \<Rightarrow> string res option" where
  "sizeObjectPayload lib payload target =
    (if map_of payload paddingField \<noteq> None \<and> as_str (map_of payload paddingField) = None
     then Some (Inl ''reserved payload padding field must be a string when present'')
     else (let content = marshal lib (JObj payload); actual = int (length content)
           in if actual = target then Some (Inr content)
              else if target < actual then Some (Inl ''payload_target_kib is smaller than the minimum serialized JSON payload size'')
              else (case size_loop lib 8 target (set_padding payload (padding_of payload @ xs_pad (target - actual))) of
                      None \<Rightarrow> None
                    | Some c \<Rightarrow>
                       Some (if int (length c) \<noteq> target
                             then Inl ''failed to size JSON payload to the exact target byte length''
                             else Inr c))))"

definition buildExactPayloadContent :: "json_lib \<Rightarrow> json \<Rightarrow> int \<Rightarrow> string res option" where
  "buildExactPayloadContent lib parsed target =
    (let content = marshal lib parsed; actual = int (length content)
     in if target = 0 then Some (Inr content)
        else if actual = target then Some (Inr content)
        else if target < actual then Some (Inl ''payload_target_kib is smaller than the minimum serialized JSON payload size'')
        else (case as_obj (Some parsed) of
                None \<Rightarrow> Some (Inl ''payload_target_kib requires an object payload unless the serialized JSON already matches the exact target size'')
              | Some payload \<Rightarrow> sizeObjectPayload lib payload target))"

record payload_artifacts =
  pa_SourceJSON :: string
  pa_Content :: string
  pa_HTTPMethod :: string
  pa_ContentType :: string
  pa_TargetBytes :: int
  pa_TargetKiB :: f64
  pa_TargetKB :: f64
  pa_ActualBytes :: int
  pa_ActualKiB :: f64
  pa_ActualKB :: f64

definition kibFromBytes :: "int \<Rightarrow> f64" where
  "kibFromBytes b = fdiv (f64_of_int b) (Fin 1024)"

definition kbFromBytes :: "int \<Rightarrow> f64" where
  "kbFromBytes b = fdiv (f64_of_int b) (Fin 1000)"

definition BuildBuilderPayloadArtifacts :: "json_lib \<Rightarrow> test_request \<Rightarrow> payload_artifacts res option" where
  "BuildBuilderPayloadArtifacts lib req =
    (let method = NormalizeHTTPMethod (req_HTTPMethod req);
         contentType = NormalizeContentType (req_ContentType req);
         sourceJSON = trim_space (req_PayloadJSON req);
         targetBytes = payloadTargetBytes (req_PayloadTargetKiB req);
         artifacts = \<lparr>pa_SourceJSON = sourceJSON, pa_Content = [], pa_HTTPMethod = method, pa_ContentType = contentType,
           pa_TargetBytes = targetBytes, pa_TargetKiB = kibFromBytes targetBytes, pa_TargetKB = kbFromBytes targetBytes,
           pa_ActualBytes = 0, pa_ActualKiB = f0, pa_ActualKB = f0\<rparr>
     in case validateBuilderHTTPMethod method of
          Some e \<Rightarrow> Some (Inl e)
        | None \<Rightarrow>
           (if \<not> MethodAllowsBody method then
              (if sourceJSON \<noteq> [] \<or> 0 < targetBytes
               then Some (Inl (method @ '' does not support a JSON request body in builder mode''))
               else Some (Inr artifacts))
            else if sourceJSON = [] \<and> targetBytes = 0 then Some (Inr artifacts)
            else (case jl_unmarshal lib (if sourceJSON = [] then ''{}'' else sourceJSON) of
                    Inl e \<Rightarrow> Some (Inl (''payload_json must be valid JSON: '' @ e))
                  | Inr parsed \<Rightarrow>
                     (case buildExactPayloadContent lib parsed targetBytes of
                        None \<Rightarrow> None
                      | Some (Inl e) \<Rightarrow> Some (Inl e)
                      | Some (Inr content) \<Rightarrow>
                         Some (Inr (artifacts\<lparr>pa_Content := content, pa_ActualBytes := int (length content),
                           pa_ActualKiB := kibFromBytes (int (length content)),
                           pa_ActualKB := kbFromBytes (int (length content))\<rparr>))))))"

subsection \<open>Sizes\<close>

declare marshal.simps(6) [simp del]

text \<open>The bytes that an empty padding field adds to an object without one.\<close>

definition overhead :: "json_obj \<Rightarrow> int" where
  "overhead payload = (if payload = [] then 19 else 20)"

definition payload_len :: "json_lib \<Rightarrow> json_obj \<Rightarrow> int" where
  "payload_len lib payload = int (length (marshal lib (JObj payload)))"

lemma padding_set [simp]: "padding_of (set_padding payload s) = s"
  by (simp add: padding_of_def set_padding_def str_or_empty_def update_conv)

lemma set_padding_set [simp]: "set_padding (set_padding payload s) t = set_padding payload t"
proof -
  have "AList.update k v (AList.update k u m) = AList.update k v m" for k v u and m :: json_obj
    by (induction m) auto
  then show ?thesis by (simp add: set_padding_def)
qed

lemma length_quote_xs: "length (quote (s @ xs_pad n)) = length (quote s) + nat n"
  by (simp add: xs_pad_def length_quote_pad)

lemma length_escape_padding: "length (quote paddingField) = 16"
proof -
  have "escape paddingField = paddingField"
    using escape_plain_suffix [of paddingField "[]"] by (simp add: paddingField_def escape_byte_def)
  then show ?thesis by (simp add: quote_def paddingField_def)
qed

lemma len_absent:
  assumes "map_of payload paddingField = None"
  shows "payload_len lib (set_padding payload (xs_pad n)) = payload_len lib payload + overhead payload + int (nat n)"
proof -
  have "length (quote (xs_pad n)) = 2 + nat n" using length_quote_xs [of "[]" n] by (simp add: quote_def)
  then show ?thesis
    unfolding payload_len_def set_padding_def length_update_absent [OF assms] overhead_def
    by (simp add: entry_len_def length_escape_padding)
qed

lemma len_present:
  assumes "map_of payload paddingField = Some (JStr s)" "distinct (map fst payload)"
  shows "payload_len lib (set_padding payload (s @ xs_pad n)) = payload_len lib payload + int (nat n)"
  using length_update_present [OF assms, of lib "JStr (s @ xs_pad n)"] length_quote_xs [of s n]
  by (simp add: payload_len_def set_padding_def)

lemma size_loop_exact: "payload_len lib payload = target \<Longrightarrow> size_loop lib (Suc n) target payload = Some (marshal lib (JObj payload))"
  by (simp add: payload_len_def)

lemma take_xs_pad: "0 \<le> k \<Longrightarrow> k \<le> n \<Longrightarrow> take (nat k) (xs_pad n) = xs_pad k"
  by (simp add: xs_pad_def min_def)

lemma size_present:
  assumes "map_of payload paddingField = Some (JStr s)" "distinct (map fst payload)" "payload_len lib payload < target"
  shows "\<exists>c. sizeObjectPayload lib payload target = Some (Inr c) \<and> int (length c) = target"
proof -
  let ?p = "set_padding payload (s @ xs_pad (target - payload_len lib payload))"
  have len: "payload_len lib ?p = target" using len_present [OF assms(1,2)] assms(3) by simp
  then have "size_loop lib 8 target ?p = Some (marshal lib (JObj ?p))"
    using size_loop_exact [of lib ?p target 7] by (simp add: eval_nat_numeral)
  then show ?thesis using assms len
    by (simp add: sizeObjectPayload_def Let_def payload_len_def [symmetric] padding_of_def str_or_empty_def)
qed

lemma size_absent:
  assumes "map_of payload paddingField = None" "payload_len lib payload < target"
  shows "if target - payload_len lib payload < overhead payload then sizeObjectPayload lib payload target = None
    else \<exists>c. sizeObjectPayload lib payload target = Some (Inr c) \<and> int (length c) = target"
proof -
  define gap where "gap = target - payload_len lib payload"
  let ?p = "set_padding payload (xs_pad gap)" and ?q = "set_padding payload (xs_pad (gap - overhead payload))"
  have gap: "0 < gap" using assms(2) by (simp add: gap_def)
  have ov: "0 < overhead payload" by (simp add: overhead_def)
  have lp: "target - payload_len lib ?p = - overhead payload"
    using len_absent [OF assms(1)] gap by (simp add: gap_def)
  have pad: "padding_of payload = []" using assms(1) by (simp add: padding_of_def str_or_empty_def)
  have lx: "int (length (xs_pad gap)) = gap" using gap by (simp add: xs_pad_def)
  have first: "sizeObjectPayload lib payload target =
      (case size_loop lib (Suc 7) target ?p of None \<Rightarrow> None
       | Some c \<Rightarrow> Some (if int (length c) \<noteq> target then Inl ''failed to size JSON payload to the exact target byte length'' else Inr c))"
    using assms pad by (simp add: sizeObjectPayload_def Let_def payload_len_def [symmetric] gap_def eval_nat_numeral)
  have step: "size_loop lib (Suc 7) target ?p =
      (if gap < overhead payload then None
       else size_loop lib 7 target (set_padding payload (take (nat (gap - overhead payload)) (xs_pad gap))))"
    unfolding size_loop.simps(2) Let_def payload_len_def [symmetric] lp padding_set lx using ov by simp
  show ?thesis
  proof (cases "gap < overhead payload")
    case True
    then show ?thesis unfolding first step gap_def [symmetric] by simp
  next
    case False
    then have t: "take (nat (gap - overhead payload)) (xs_pad gap) = xs_pad (gap - overhead payload)"
      using ov by (intro take_xs_pad) simp_all
    have len: "payload_len lib ?q = target" using len_absent [OF assms(1)] False by (simp add: gap_def)
    have "size_loop lib (Suc 6) target ?q = Some (marshal lib (JObj ?q))" by (rule size_loop_exact [OF len])
    moreover have "(7 :: nat) = Suc 6" by simp
    ultimately have "size_loop lib 7 target ?q = Some (marshal lib (JObj ?q))" by (simp only:)
    then have "size_loop lib (Suc 7) target ?p = Some (marshal lib (JObj ?q))"
      unfolding step t using False by (simp only: if_False)
    then have "sizeObjectPayload lib payload target = Some (Inr (marshal lib (JObj ?q)))"
      unfolding first using len by (simp only: option.case payload_len_def) simp
    then show ?thesis unfolding gap_def [symmetric] using False len by (simp add: payload_len_def)
  qed
qed

lemma content_exact:
  assumes "buildExactPayloadContent lib parsed target = Some (Inr c)" "target \<noteq> 0"
  shows "int (length c) = target"
  using assms
  by (auto simp: buildExactPayloadContent_def sizeObjectPayload_def Let_def split: if_splits option.splits)

subsection \<open>Properties\<close>

text \<open>
  C21. A payload that is built for a method with a body has exactly the requested size: when a target
  size is given, the content has that many KiB, and the recorded size is the size of the content.
\<close>

theorem payload_has_target_size:
  assumes "BuildBuilderPayloadArtifacts lib req = Some (Inr a)" "MethodAllowsBody (req_HTTPMethod req)"
    and "0 < req_PayloadTargetKiB req" "req_PayloadTargetKiB req < 2 ^ 53"
  shows "int (length (pa_Content a)) = req_PayloadTargetKiB req * 1024 \<and> pa_ActualBytes a = int (length (pa_Content a))"
proof -
  have t: "payloadTargetBytes (req_PayloadTargetKiB req) = req_PayloadTargetKiB req * 1024"
    using assms(3,4) by (simp add: payloadTargetBytes_def wrap64_id in_int64_def)
  have "to_upper (trim_space (NormalizeHTTPMethod (req_HTTPMethod req))) = NormalizeHTTPMethod (req_HTTPMethod req)"
    using assms(2) by (auto simp: MethodAllowsBody_def is_plain_def to_upper_def upper_char_def)
  then have "MethodAllowsBody (NormalizeHTTPMethod (req_HTTPMethod req))"
    using assms(2) by (auto simp: MethodAllowsBody_def NormalizeHTTPMethod_def Let_def split: if_splits)
  then obtain parsed c where "buildExactPayloadContent lib parsed (req_PayloadTargetKiB req * 1024) = Some (Inr c)"
    "pa_Content a = c" "pa_ActualBytes a = int (length c)"
    using assms(1,3) unfolding BuildBuilderPayloadArtifacts_def Let_def t
    by (auto split: option.splits sum.splits if_splits)
  then show ?thesis using content_exact assms(3) by simp
qed

definition payload_request :: test_request where
  "payload_request = zero_test_request\<lparr>req_HTTPMethod := ''POST'', req_PayloadTargetKiB := 1\<rparr>"

theorem payload_has_target_size_witness:
  "\<exists>a. BuildBuilderPayloadArtifacts (one_text_lib ''{}'' (JObj [])) payload_request = Some (Inr a) \<and> length (pa_Content a) = 1024"
proof -
  let ?lib = "one_text_lib ''{}'' (JObj [])"
  have n: "NormalizeHTTPMethod ''POST'' = ''POST''"
    by (simp add: NormalizeHTTPMethod_def Let_def is_plain_def to_upper_def upper_char_def)
  have "marshal ?lib (JObj []) = ''{}''" by (simp add: marshal.simps(6))
  then obtain c where "sizeObjectPayload ?lib [] 1024 = Some (Inr c)"
    using size_absent [of "[]" ?lib 1024] by (auto simp: payload_len_def overhead_def)
  then have "buildExactPayloadContent ?lib (JObj []) 1024 = Some (Inr c)"
    using \<open>marshal ?lib (JObj []) = ''{}''\<close> by (simp add: buildExactPayloadContent_def Let_def)
  then have "\<exists>a. BuildBuilderPayloadArtifacts ?lib payload_request = Some (Inr a)"
    by (simp add: BuildBuilderPayloadArtifacts_def payload_request_def zero_test_request_def n MethodAllowsBody_def
        validateBuilderHTTPMethod_def payloadTargetBytes_def wrap64_def one_text_lib_def)
  then obtain a where a: "BuildBuilderPayloadArtifacts ?lib payload_request = Some (Inr a)" by blast
  from payload_has_target_size [OF a] show ?thesis using a
    by (simp add: payload_request_def MethodAllowsBody_def n)
qed

text \<open>
  Padding an object to a larger size succeeds with exactly that size when the object has a padding
  field that is a string, or when the missing bytes are at least the 19 or 20 bytes of an empty padding
  field. When the object has no padding field and fewer bytes are missing, the code panics: it slices
  the padding with a negative bound.
\<close>

theorem padding_exact_or_panic:
  assumes "distinct (map fst payload)" "int (length (marshal lib (JObj payload))) < target"
  shows "case map_of payload paddingField of
      Some v \<Rightarrow> (case v of
        JStr s \<Rightarrow> (\<exists>c. sizeObjectPayload lib payload target = Some (Inr c) \<and> int (length c) = target)
      | _ \<Rightarrow> sizeObjectPayload lib payload target = Some (Inl ''reserved payload padding field must be a string when present''))
    | None \<Rightarrow>
       (if target - int (length (marshal lib (JObj payload))) < (if payload = [] then 19 else 20)
        then sizeObjectPayload lib payload target = None
        else \<exists>c. sizeObjectPayload lib payload target = Some (Inr c) \<and> int (length c) = target)"
proof (cases "map_of payload paddingField")
  case None
  then show ?thesis using size_absent [of payload lib target] assms(2) by (simp add: payload_len_def overhead_def)
next
  case (Some v)
  then show ?thesis
    using size_present [of payload _ lib target] assms
    by (cases v) (simp_all add: payload_len_def sizeObjectPayload_def)
qed

theorem padding_exact_or_panic_witness:
  "sizeObjectPayload (one_text_lib [] JNull) [] 20 = None"
proof -
  have "marshal (one_text_lib [] JNull) (JObj []) = ''{}''" by (simp add: marshal.simps(6))
  then show ?thesis using padding_exact_or_panic [of "[]" "one_text_lib [] JNull" 20] by simp
qed

end
