(* ===== verification/Duration.thy ===== *)
theory Duration
  imports ScriptGenProofs
begin

text \<open>
  \<^verbatim>\<open>controller/internal/scheduler/duration.go\<close>: the estimated run time of a schedule request, from the
  request's own estimate, the parameters of the builder, the configuration or the script, in this order.

  The regular expression for the last resort, \<^verbatim>\<open>duration:\s*['"](\d+[smh])['"]\<close>, is deterministic, so its
  matches are found by a scanner: the leftmost match first, the next search after its end.
\<close>

definition testBufferSeconds :: int where
  "testBufferSeconds = 30"

definition stages_of :: "create_schedule_request \<Rightarrow> stage list" where
  "stages_of req = (case cr_Stages req of None \<Rightarrow> [] | Some ss \<Rightarrow> ss)"

definition estimateFromBuilder :: "create_schedule_request \<Rightarrow> int" where
  "estimateFromBuilder req =
    (let executor = (if cr_Executor req = [] then ''ramping-vus'' else cr_Executor req)
     in if executor = ''ramping-vus'' \<or> executor = ''ramping-arrival-rate''
        then fold (\<lambda>s t. wrap64 (t + ParseK6Duration (stg_Duration s))) (stages_of req) 0
        else if executor = ''constant-vus'' \<or> executor = ''constant-arrival-rate''
        then (if cr_Duration req \<noteq> [] then ParseK6Duration (cr_Duration req) else 0)
        else 0)"

definition stage_total :: "json list \<Rightarrow> int" where
  "stage_total raw =
    fold (\<lambda>m t. case as_str (map_of m ''duration'') of
                   None \<Rightarrow> t
                 | Some d \<Rightarrow> wrap64 (t + ParseK6Duration d)) (objects raw) 0"

definition scenario_duration :: "json_obj \<Rightarrow> int" where
  "scenario_duration sc =
    (let d = (case as_str (map_of sc ''duration'') of None \<Rightarrow> 0 | Some s \<Rightarrow> ParseK6Duration s)
     in case as_arr (map_of sc ''stages'') of
          None \<Rightarrow> d
        | Some raw \<Rightarrow> (if d < stage_total raw then stage_total raw else d))"

definition estimateFromConfig :: "json_lib \<Rightarrow> string \<Rightarrow> int" where
  "estimateFromConfig lib configContent =
    (case unmarshal_map lib configContent of
       Inl e \<Rightarrow> 0
     | Inr parsed \<Rightarrow>
        (case map_of (obj_of parsed) ''scenarios'' of
           None \<Rightarrow>
             (case as_str (map_of (obj_of parsed) ''duration'') of
                Some d \<Rightarrow> ParseK6Duration d
              | None \<Rightarrow> 0)
         | Some scenarios \<Rightarrow>
             (case as_obj (Some scenarios) of
                None \<Rightarrow> 0
              | Some m \<Rightarrow>
                 fold (\<lambda>sc mx. if mx < scenario_duration sc then scenario_duration sc else mx)
                   (objects (map snd m)) 0)))"

subsection \<open>The durations in a script\<close>

definition is_regex_space :: "char \<Rightarrow> bool" where
  "is_regex_space c \<longleftrightarrow> (of_char c :: nat) \<in> {9, 10, 12, 13, 32}"

definition is_quote_mark :: "char \<Rightarrow> bool" where
  "is_quote_mark c \<longleftrightarrow> c = CHR 0x27 \<or> c = CHR 0x22"

text \<open>A match of the expression at the start of a string: the captured group and the rest.\<close>

definition match_duration :: "string \<Rightarrow> (string \<times> string) option" where
  "match_duration s =
    (if \<not> has_prefix s ''duration:'' then None
     else (case dropWhile is_regex_space (drop 9 s) of
             [] \<Rightarrow> None
           | q # r \<Rightarrow>
              (if \<not> is_quote_mark q then None
               else (let ds = takeWhile is_digit r; r1 = dropWhile is_digit r
                     in if ds = [] then None
                        else (case r1 of
                                u # q1 # rest \<Rightarrow>
                                  (if u \<in> {CHR ''s'', CHR ''m'', CHR ''h''} \<and> is_quote_mark q1
                                   then Some (ds @ [u], rest) else None)
                              | _ \<Rightarrow> None)))))"

lemma match_duration_shorter: "match_duration s = Some (d, rest) \<Longrightarrow> length rest < length s"
proof -
  assume m: "match_duration s = Some (d, rest)"
  then obtain q r u q1 where q: "dropWhile is_regex_space (drop 9 s) = q # r"
    and r: "dropWhile is_digit r = u # q1 # rest"
    by (auto simp: match_duration_def Let_def split: if_splits list.splits)
  have "length (q # r) \<le> length (drop 9 s)" unfolding q [symmetric] by (rule length_dropWhile_le)
  moreover have "length (u # q1 # rest) \<le> length r" unfolding r [symmetric] by (rule length_dropWhile_le)
  ultimately show "length rest < length s" by simp
qed

function find_durations :: "string \<Rightarrow> string list" where
  "find_durations [] = []"
| "find_durations (c # s) =
    (case match_duration (c # s) of
       None \<Rightarrow> find_durations s
     | Some (d, rest) \<Rightarrow> d # find_durations rest)"
  by pat_completeness auto
termination
  by (relation "measure length") (auto dest: match_duration_shorter)

definition estimateFromScript :: "string \<Rightarrow> int" where
  "estimateFromScript script =
    fold (\<lambda>m mx. if mx < ParseK6Duration m then ParseK6Duration m else mx) (find_durations script) 0"

subsection \<open>The estimate\<close>

definition EstimateDurationSeconds :: "json_lib \<Rightarrow> create_schedule_request \<Rightarrow> int res" where
  "EstimateDurationSeconds lib req =
    (if 0 < cr_EstimatedDurationS req then Inr (wrap64 (cr_EstimatedDurationS req + testBufferSeconds))
     else (let d1 = (if cr_Mode req = ''builder'' \<or> cr_Mode req = [] \<and> cr_URL req \<noteq> []
                     then estimateFromBuilder req else 0);
               d2 = (if d1 = 0 \<and> cr_ConfigContent req \<noteq> [] then estimateFromConfig lib (cr_ConfigContent req) else d1);
               d3 = (if d2 = 0 \<and> cr_ScriptContent req \<noteq> [] then estimateFromScript (cr_ScriptContent req) else d2)
           in if d3 \<le> 0
              then Inl ''cannot determine test duration: provide estimated_duration_s or ensure config/script has a duration''
              else Inr (wrap64 (d3 + testBufferSeconds))))"

definition zero_schedule_request :: create_schedule_request where
  "zero_schedule_request =
    \<lparr>cr_Name = [], cr_ProjectName = [], cr_URL = [], cr_Mode = [], cr_Executor = [], cr_Stages = None, cr_VUs = 0,
     cr_Duration = [], cr_Rate = 0, cr_TimeUnit = [], cr_PreAllocatedVUs = 0, cr_MaxVUs = 0, cr_SleepSeconds = None,
     cr_ScriptContent = [], cr_ConfigContent = [], cr_HTTPMethod = [], cr_ContentType = [], cr_PayloadJSON = [],
     cr_PayloadTargetKiB = 0, cr_Auth = zero_auth_input, cr_ScheduledAt = [], cr_EstimatedDurationS = 0,
     cr_Timezone = [], cr_RecurrenceType = [], cr_RecurrenceRule = [], cr_RecurrenceEnd = None\<rparr>"

subsection \<open>The maximum of a list of estimates\<close>

lemma fold_max_eq:
  "fold (\<lambda>x mx. if mx < f x then f x else mx) xs (m :: int) = Max (insert m (f ` set xs))"
proof (induction xs arbitrary: m)
  case (Cons x xs)
  have "(if m < f x then f x else m) = max m (f x)" by simp
  then have "fold (\<lambda>x mx. if mx < f x then f x else mx) (x # xs) m = Max (insert (max m (f x)) (f ` set xs))"
    using Cons.IH by simp
  also have "\<dots> = Max (insert m (f ` set (x # xs)))"
    by (cases "xs = []") (simp_all add: Max_insert max.assoc)
  finally show ?case .
qed simp

lemma fold_total_secs: "fold (\<lambda>s t. wrap64 (t + ParseK6Duration (stg_Duration s))) ss t = total_secs t (map stg_Duration ss)"
  by (induction ss arbitrary: t) (simp_all add: ParseK6Duration_def)

text \<open>Every duration that the scanner captures is a number with a unit, so it is never negative unless it overflows.\<close>

lemma match_duration_shape:
  "match_duration s = Some (d, rest) \<Longrightarrow>
    \<exists>ds u. d = ds @ [u] \<and> ds \<noteq> [] \<and> list_all is_digit ds \<and> u \<in> {CHR ''s'', CHR ''m'', CHR ''h''}"
  by (auto simp: match_duration_def Let_def list_all_iff split: if_splits list.splits dest: set_takeWhileD)

lemma find_durations_shape:
  "d \<in> set (find_durations s) \<Longrightarrow>
    \<exists>ds u. d = ds @ [u] \<and> ds \<noteq> [] \<and> list_all is_digit ds \<and> u \<in> {CHR ''s'', CHR ''m'', CHR ''h''}"
  by (induction s rule: find_durations.induct) (auto dest: match_duration_shape split: option.splits)

subsection \<open>The scanner finds every duration\<close>

text \<open>What a match consumes has its only \<^verbatim>\<open>d\<close> at the start, so no other match begins inside it.\<close>

lemma match_duration_consumed:
  assumes "match_duration s = Some (d, rest)"
  shows "\<exists>body. s = CHR ''d'' # body @ rest \<and> CHR ''d'' \<notin> set body"
proof -
  from assms have "take 9 s = ''duration:''"
    by (simp add: match_duration_def has_prefix_def numeral_eq_Suc split: if_splits)
  then have pre: "s = ''duration:'' @ drop 9 s" using append_take_drop_id [of 9 s] by simp
  from assms obtain q r u q1 where q: "dropWhile is_regex_space (drop 9 s) = q # r" "is_quote_mark q"
    and r: "dropWhile is_digit r = u # q1 # rest" "u \<in> {CHR ''s'', CHR ''m'', CHR ''h''}" "is_quote_mark q1"
    by (auto simp: match_duration_def Let_def split: if_splits list.splits)
  have "drop 9 s = takeWhile is_regex_space (drop 9 s) @ q # takeWhile is_digit r @ u # q1 # rest"
    using q(1) r(1) by (metis takeWhile_dropWhile_id)
  then have "''duration:'' @ drop 9 s =
      CHR ''d'' # (''uration:'' @ takeWhile is_regex_space (drop 9 s) @ q # takeWhile is_digit r @ [u, q1]) @ rest"
    by simp
  with pre have "s = CHR ''d'' # (''uration:'' @ takeWhile is_regex_space (drop 9 s) @ q # takeWhile is_digit r @ [u, q1]) @ rest"
    by (rule trans)
  moreover have "CHR ''d'' \<notin> set (takeWhile is_regex_space (drop 9 s))" "CHR ''d'' \<notin> set (takeWhile is_digit r)"
    by (auto dest!: set_takeWhileD simp: is_regex_space_def is_digit_def)
  moreover have "CHR ''d'' \<notin> {q, u, q1}" using q(2) r(2,3) by (auto simp: is_quote_mark_def)
  ultimately show ?thesis
    by (intro exI [of _ "''uration:'' @ takeWhile is_regex_space (drop 9 s) @ q # takeWhile is_digit r @ [u, q1]"] conjI) simp_all
qed

lemma match_duration_starts: "match_duration t = Some (d, rest) \<Longrightarrow> \<exists>t'. t = CHR ''d'' # t'"
  using match_duration_consumed by blast

definition durations_in :: "string \<Rightarrow> string set" where
  "durations_in s = {d. \<exists>pre t rest. s = pre @ t \<and> match_duration t = Some (d, rest)}"

lemma durations_in_Cons:
  "durations_in (c # s) = (case match_duration (c # s) of None \<Rightarrow> {} | Some (d, _) \<Rightarrow> {d}) \<union> durations_in s"
proof -
  have "c # s = pre @ t \<longleftrightarrow> pre = [] \<and> t = c # s \<or> (\<exists>pre'. pre = c # pre' \<and> s = pre' @ t)" for pre t
    by (cases pre) auto
  then have "durations_in (c # s) = {d. \<exists>rest. match_duration (c # s) = Some (d, rest)} \<union> durations_in s"
    unfolding durations_in_def by auto
  then show ?thesis by (auto split: option.split)
qed

lemma durations_in_skip: "CHR ''d'' \<notin> set body \<Longrightarrow> durations_in (body @ rest) = durations_in rest"
proof (induction body)
  case (Cons c body)
  have "match_duration (c # body @ rest) = None"
    using Cons.prems match_duration_starts [of "c # body @ rest"] by (cases "match_duration (c # body @ rest)") auto
  then show ?case using Cons by (simp add: durations_in_Cons)
qed simp

lemma find_durations_all: "set (find_durations s) = durations_in s"
proof (induction s rule: find_durations.induct)
  case 1
  have "match_duration [] = None" by (simp add: match_duration_def has_prefix_def)
  then show ?case by (simp add: durations_in_def)
next
  case (2 c s)
  show ?case
  proof (cases "match_duration (c # s)")
    case None
    then show ?thesis using 2(1) by (simp add: durations_in_Cons)
  next
    case (Some m)
    obtain d rest where m: "m = (d, rest)" by (cases m)
    from match_duration_consumed Some m obtain body where "s = body @ rest" "CHR ''d'' \<notin> set body" by force
    then show ?thesis using 2(2) Some m durations_in_skip by (simp add: durations_in_Cons)
  qed
qed

subsection \<open>Properties\<close>

text \<open>
  The estimate from a script is the longest of all the duration literals that occur anywhere in it (0 when
  there is none): scanning from match to match loses none of them.
\<close>

theorem script_estimate_is_longest_duration:
  "estimateFromScript script = Max (insert 0 (ParseK6Duration ` durations_in script))"
  unfolding estimateFromScript_def fold_max_eq find_durations_all ..

end
