(* ===== verification/Http.thy ===== *)
theory Http
  imports GoTime Json
begin

text \<open>
  What the HTTP handlers share: the response of a handler (\<^verbatim>\<open>httpError\<close> and \<^verbatim>\<open>writeJSON\<close> of
  \<^verbatim>\<open>controller/internal/handler/auth.go\<close>), the identity that \<^verbatim>\<open>controller/internal/middleware/auth.go\<close> puts
  into the context of a request, the middleware itself, and the route groups of
  \<^verbatim>\<open>controller/internal/server/server.go\<close>.

  A handler maps the identity and the state to a response and a state; the state is a parameter. The
  JSON Web Token package is the parameter \<open>jwt_lib\<close>: signing with HS256, and parsing with a function that
  gives the key for a signing method. (\<^verbatim>\<open>jwt.Parse\<close> always produces \<^verbatim>\<open>MapClaims\<close>, so the branch of \<^verbatim>\<open>JWTAuth\<close> for
  other claims is never taken.)
\<close>

subsection \<open>Responses\<close>

datatype 'a response = HttpError string int | HttpJson int 'a

fun status_code :: "'a response \<Rightarrow> int" where
  "status_code (HttpError msg code) = code"
| "status_code (HttpJson code v) = code"

record user_ctx =
  uc_UserID :: int
  uc_Username :: string
  uc_Role :: string

type_synonym ('a, 's) handler = "user_ctx \<Rightarrow> 's \<Rightarrow> 'a response \<times> 's"

subsection \<open>Numbers in strings\<close>

text \<open>
  The value of \<^verbatim>\<open>strconv.ParseInt(s, 10, 64)\<close>, whatever the error: 0 after a syntax error, the nearest bound
  when the number is out of range.
\<close>

definition parse_int64_value :: "string \<Rightarrow> int" where
  "parse_int64_value s =
    (let neg = (case s of c # _ \<Rightarrow> c = CHR ''-'' | [] \<Rightarrow> False);
         body = (case s of c # r \<Rightarrow> if c = CHR ''-'' \<or> c = CHR ''+'' then r else s | [] \<Rightarrow> [])
     in if body = [] \<or> \<not> list_all is_digit body then 0
        else if neg then max (- (2 ^ 63)) (- int (digits_val body)) else min (2 ^ 63 - 1) (int (digits_val body)))"

lemma parse_int64_atoi: "atoi s = Some v \<Longrightarrow> parse_int64_value s = v"
  by (auto simp: atoi_def parse_int64_value_def Let_def in_int64_def split: if_splits)

subsection \<open>Tokens\<close>

record jwt_lib =
  jw_sign :: "string \<Rightarrow> json_obj \<Rightarrow> string res"
  jw_parse :: "(string \<Rightarrow> string option) \<Rightarrow> time \<Rightarrow> string \<Rightarrow> json_obj option"

definition hmac_key :: "string \<Rightarrow> string \<Rightarrow> string option" where
  "hmac_key sec alg = (if alg \<in> {''HS256'', ''HS384'', ''HS512''} then Some sec else None)"

text \<open>\<^verbatim>\<open>strings.SplitN(s, " ", 2)\<close>.\<close>

definition split_space2 :: "string \<Rightarrow> string list" where
  "split_space2 s =
    (case dropWhile (\<lambda>c. c \<noteq> CHR '' '') s of
       [] \<Rightarrow> [s]
     | _ # rest \<Rightarrow> [takeWhile (\<lambda>c. c \<noteq> CHR '' '') s, rest])"

definition JWTAuth :: "jwt_lib \<Rightarrow> string \<Rightarrow> time \<Rightarrow> string \<Rightarrow> ('a, 's) handler \<Rightarrow> 's \<Rightarrow> 'a response \<times> 's" where
  "JWTAuth lib sec now authHeader next_handler s =
    (if authHeader = [] then (HttpError ''missing authorization header'' 401, s)
     else (case split_space2 authHeader of
             [scheme, raw] \<Rightarrow>
               (if to_lower scheme \<noteq> ''bearer'' then (HttpError ''invalid authorization format'' 401, s)
                else (case jw_parse lib (hmac_key sec) now raw of
                        None \<Rightarrow> (HttpError ''invalid token'' 401, s)
                      | Some claims \<Rightarrow>
                         next_handler
                           \<lparr>uc_UserID = parse_int64_value (str_or_empty (map_of claims ''sub'')),
                            uc_Username = str_or_empty (map_of claims ''username''),
                            uc_Role = str_or_empty (map_of claims ''role'')\<rparr> s))
           | _ \<Rightarrow> (HttpError ''invalid authorization format'' 401, s)))"

definition APIKeyAuth :: "string \<Rightarrow> string \<Rightarrow> ('a, 's) handler \<Rightarrow> ('a, 's) handler" where
  "APIKeyAuth apiKey key next_handler ctx s =
    (if apiKey = [] then next_handler ctx s
     else if key \<noteq> apiKey then (HttpError ''invalid api key'' 403, s)
     else next_handler ctx s)"

definition RequireAdmin :: "('a, 's) handler \<Rightarrow> ('a, 's) handler" where
  "RequireAdmin next_handler ctx s =
    (if uc_Role ctx \<noteq> ''admin'' then (HttpError ''admin access required'' 403, s) else next_handler ctx s)"

subsection \<open>Route groups\<close>

record request_headers =
  rh_Authorization :: string
  rh_APIKey :: string

record server_deps =
  sd_JWTSecret :: string
  sd_APIKey :: string

definition protected_group ::
  "jwt_lib \<Rightarrow> server_deps \<Rightarrow> time \<Rightarrow> request_headers \<Rightarrow> ('a, 's) handler \<Rightarrow> 's \<Rightarrow> 'a response \<times> 's" where
  "protected_group lib deps now hs next_handler =
    JWTAuth lib (sd_JWTSecret deps) now (rh_Authorization hs)
      (if sd_APIKey deps \<noteq> [] then APIKeyAuth (sd_APIKey deps) (rh_APIKey hs) next_handler else next_handler)"

definition admin_group ::
  "jwt_lib \<Rightarrow> server_deps \<Rightarrow> time \<Rightarrow> request_headers \<Rightarrow> ('a, 's) handler \<Rightarrow> 's \<Rightarrow> 'a response \<times> 's" where
  "admin_group lib deps now hs next_handler = protected_group lib deps now hs (RequireAdmin next_handler)"

subsection \<open>CORS\<close>

text \<open>
  \<^verbatim>\<open>controller/internal/middleware/cors.go\<close>: the headers set on every response, and whether the request
  goes on to the next handler.
\<close>

definition CORS :: "string list \<Rightarrow> string \<Rightarrow> string \<Rightarrow> (string \<times> string) list \<times> bool" where
  "CORS origins http_method origin =
    (let allowed = map trim_space origins
     in ((if origin \<in> set allowed \<or> ''*'' \<in> set allowed then [(''Access-Control-Allow-Origin'', origin)] else []) @
         [(''Access-Control-Allow-Methods'', ''GET, POST, PUT, PATCH, DELETE, OPTIONS''),
          (''Access-Control-Allow-Headers'', ''Content-Type, Authorization, X-API-Key''),
          (''Access-Control-Allow-Credentials'', ''true''),
          (''Access-Control-Max-Age'', ''3600'')],
         http_method \<noteq> ''OPTIONS''))"

lemma split_space2_pair:
  assumes "CHR '' '' \<notin> set a"
  shows "split_space2 (a @ CHR '' '' # b) = [a, b]"
proof -
  have ne: "\<And>x. x \<in> set a \<Longrightarrow> x \<noteq> CHR '' ''" using assms by auto
  have "dropWhile (\<lambda>c. c \<noteq> CHR '' '') (a @ CHR '' '' # b) = CHR '' '' # b"
    using dropWhile_append2 [of a "\<lambda>c. c \<noteq> CHR '' ''" "CHR '' '' # b"] ne by simp
  moreover have "takeWhile (\<lambda>c. c \<noteq> CHR '' '') (a @ CHR '' '' # b) = a"
    using takeWhile_append2 [of a "\<lambda>c. c \<noteq> CHR '' ''" "CHR '' '' # b"] ne by simp
  ultimately show ?thesis by (simp add: split_space2_def)
qed

end
