(* ===== verification/Requests.thy ===== *)
theory Requests
  imports Payload Duration Scheduler
begin

text \<open>
  The validation and normalisation of requests in \<^verbatim>\<open>controller/internal/handler/test.go\<close>, the authentication
  configuration that is stored with a template or a schedule (\<^verbatim>\<open>controller/internal/handler/auth_secret.go\<close>),
  and the encryption of the client secret (\<^verbatim>\<open>controller/internal/secrets/crypto.go\<close>).

  A normalisation that the source performs in place returns the normalised request. An option around a
  result is \<open>None\<close> when the sizing of the payload panics. The cryptographic packages of Go (SHA-256,
  AES-GCM, base64) and \<^verbatim>\<open>net/url\<close> are the parameters \<open>crypto_lib\<close> and \<open>url_lib\<close>.
\<close>

subsection \<open>Secrets\<close>

record crypto_lib =
  cl_sha256 :: "string \<Rightarrow> string"
  cl_seal :: "string \<Rightarrow> string \<Rightarrow> string \<Rightarrow> string"
  cl_open :: "string \<Rightarrow> string \<Rightarrow> string \<Rightarrow> string res"
  cl_b64enc :: "string \<Rightarrow> string"
  cl_b64dec :: "string \<Rightarrow> string res"

record secret_svc =
  svc_key :: string

definition NewService :: "crypto_lib \<Rightarrow> string \<Rightarrow> secret_svc res" where
  "NewService cl masterKey =
    (if masterKey = [] then Inl ''master key is required'' else Inr \<lparr>svc_key = cl_sha256 cl masterKey\<rparr>)"

text \<open>\<^verbatim>\<open>aes.NewCipher\<close> accepts keys of 16, 24 and 32 bytes; the nonces of GCM have 12 bytes.\<close>

definition new_gcm :: "secret_svc \<Rightarrow> unit res" where
  "new_gcm s =
    (if length (svc_key s) \<in> {16, 24, 32} then Inr ()
     else Inl (''new cipher: crypto/aes: invalid key size '' @ itoa (int (length (svc_key s)))))"

definition nonceSize :: nat where
  "nonceSize = 12"

text \<open>\<^verbatim>\<open>Encrypt\<close>; the argument \<open>rnd\<close> is what reading the nonce from the random source gives.\<close>

definition Encrypt :: "crypto_lib \<Rightarrow> string res \<Rightarrow> secret_svc \<Rightarrow> string \<Rightarrow> string res" where
  "Encrypt cl rnd s plain =
    (if plain = [] then Inr []
     else bind_res (new_gcm s) (\<lambda>_.
       bind_res (wrap_err ''nonce'' rnd) (\<lambda>nonce.
         Inr (cl_b64enc cl (nonce @ cl_seal cl (svc_key s) nonce plain)))))"

definition Decrypt :: "crypto_lib \<Rightarrow> secret_svc \<Rightarrow> string \<Rightarrow> string res" where
  "Decrypt cl s enc =
    (if enc = [] then Inr []
     else bind_res (wrap_err ''decode secret'' (cl_b64dec cl enc)) (\<lambda>raw.
       bind_res (new_gcm s) (\<lambda>_.
         if length raw < nonceSize then Inl ''encrypted secret is too short''
         else wrap_err ''decrypt secret'' (cl_open cl (svc_key s) (take nonceSize raw) (drop nonceSize raw)))))"

subsection \<open>Authentication\<close>

record url =
  u_Scheme :: string
  u_Opaque :: string
  u_User :: "string option"
  u_Host :: string
  u_Path :: string
  u_RawQuery :: string
  u_Fragment :: string

record url_lib =
  ul_parse :: "string \<Rightarrow> url option"
  ul_string :: "url \<Rightarrow> string"

definition is_token_url :: "url_lib \<Rightarrow> string \<Rightarrow> bool" where
  "is_token_url ul s \<longleftrightarrow>
    (case ul_parse ul s of
       None \<Rightarrow> False
     | Some p \<Rightarrow> u_Scheme p \<noteq> [] \<and> u_Scheme p \<in> {''http'', ''https''} \<and> trim_space (u_Host p) \<noteq> [])"

definition normalizeAuthInput :: "url_lib \<Rightarrow> auth_input \<Rightarrow> auth_input res" where
  "normalizeAuthInput ul auth0 =
    (let auth = auth0\<lparr>ai_Mode := trim_space (ai_Mode auth0), ai_TokenURL := trim_space (ai_TokenURL auth0),
           ai_ClientID := trim_space (ai_ClientID auth0), ai_ClientAuthMethod := trim_space (ai_ClientAuthMethod auth0)\<rparr>
     in if \<not> ai_Enabled auth then Inr zero_auth_input
        else (let auth1 = (if ai_Mode auth = [] then auth\<lparr>ai_Mode := ''oauth_client_credentials''\<rparr> else auth)
              in if ai_Mode auth1 \<noteq> ''oauth_client_credentials'' then Inl ''auth_mode must be oauth_client_credentials''
                 else if ai_TokenURL auth1 = [] then Inl ''auth_token_url is required when auth_enabled is true''
                 else if \<not> is_token_url ul (ai_TokenURL auth1) then Inl ''auth_token_url must be an absolute http or https URL''
                 else if ai_ClientID auth1 = [] then Inl ''auth_client_id is required when auth_enabled is true''
                 else (let auth2 = (if ai_ClientAuthMethod auth1 = [] then auth1\<lparr>ai_ClientAuthMethod := ''basic''\<rparr> else auth1)
                       in if ai_ClientAuthMethod auth2 \<notin> {''basic'', ''body''} then Inl ''auth_client_auth_method must be basic or body''
                          else Inr (if ai_RefreshSkewSeconds auth2 \<le> 0 then auth2\<lparr>ai_RefreshSkewSeconds := 30\<rparr> else auth2))))"

definition authConfigFromRuntimeInput :: "auth_input \<Rightarrow> auth_config" where
  "authConfigFromRuntimeInput input =
    (if \<not> ai_Enabled input then zero_auth_config
     else (let cfg = zero_auth_config\<lparr>ac_Enabled := True, ac_Mode := ai_Mode input, ac_TokenURL := ai_TokenURL input,
                 ac_ClientID := ai_ClientID input, ac_ClientAuthMethod := ai_ClientAuthMethod input,
                 ac_RefreshSkewSeconds := ai_RefreshSkewSeconds input\<rparr>
           in if ai_ClientSecret input \<noteq> [] then cfg\<lparr>ac_SecretSource := ''runtime_only'', ac_SecretConfigured := True\<rparr> else cfg))"

definition clear_secret :: "auth_config \<Rightarrow> auth_config" where
  "clear_secret cfg = cfg\<lparr>ac_ClientSecretEncrypted := [], ac_SecretSource := [], ac_SecretConfigured := False\<rparr>"

definition authConfigFromStoredInput :: "auth_input \<Rightarrow> auth_config option \<Rightarrow> auth_config" where
  "authConfigFromStoredInput input existing =
    (if \<not> ai_Enabled input then zero_auth_config
     else (let cfg = zero_auth_config\<lparr>ac_Enabled := True, ac_Mode := ai_Mode input, ac_TokenURL := ai_TokenURL input,
                 ac_ClientID := ai_ClientID input, ac_ClientAuthMethod := ai_ClientAuthMethod input,
                 ac_RefreshSkewSeconds := ai_RefreshSkewSeconds input\<rparr>;
               cfg1 = (case existing of
                         None \<Rightarrow> cfg
                       | Some e \<Rightarrow> cfg\<lparr>ac_ClientSecretEncrypted := ac_ClientSecretEncrypted e, ac_SecretSource := ac_SecretSource e,
                                      ac_SecretConfigured := ac_SecretConfigured e\<rparr>);
               cfg2 = (if ai_ClearSecret input then clear_secret cfg1 else cfg1)
           in if ac_ClientSecretEncrypted cfg2 \<noteq> []
              then cfg2\<lparr>ac_SecretSource := (if ac_SecretSource cfg2 = [] then ''persisted_encrypted'' else ac_SecretSource cfg2),
                        ac_SecretConfigured := True\<rparr>
              else cfg2))"

text \<open>
  \<^verbatim>\<open>buildStoredAuthConfig\<close>: the configuration stored with a template or a schedule. The service is \<open>None\<close> when no
  encryption key is configured; it comes with the source of nonces.
\<close>

record stored_secrets =
  ss_crypto :: crypto_lib
  ss_rnd :: "string res"
  ss_svc :: "secret_svc option"

definition buildStoredAuthConfig ::
  "stored_secrets \<Rightarrow> auth_input \<Rightarrow> auth_config option \<Rightarrow> bool \<Rightarrow> auth_config res" where
  "buildStoredAuthConfig ss input existing requireStoredSecret =
    (let cfg = authConfigFromStoredInput input existing
     in if \<not> ac_Enabled cfg then Inr cfg
        else (case ss_svc ss of
                None \<Rightarrow> Inl ''secret encryption service is not configured''
              | Some svc \<Rightarrow>
                 (let secretValue = trim_space (ai_ClientSecret input);
                      cfg1 = (if ai_ClearSecret input then clear_secret cfg else cfg)
                  in bind_res
                       (if secretValue = [] then Inr cfg1
                        else bind_res (wrap_err ''encrypt auth secret'' (Encrypt (ss_crypto ss) (ss_rnd ss) svc secretValue)) (\<lambda>enc.
                               Inr (cfg1\<lparr>ac_ClientSecretEncrypted := enc, ac_SecretConfigured := True,
                                        ac_SecretSource := ''persisted_encrypted''\<rparr>)))
                       (\<lambda>cfg2.
                         let shouldPersist = (requireStoredSecret \<or> ai_PersistSecret input);
                             cfg3 = (if \<not> shouldPersist \<and> secretValue = [] \<and> existing = None then clear_secret cfg2 else cfg2)
                         in if requireStoredSecret \<and> ac_ClientSecretEncrypted cfg3 = []
                            then Inl ''auth_client_secret is required when auth is enabled''
                            else if ai_PersistSecret input \<and> ac_ClientSecretEncrypted cfg3 = []
                            then Inl ''auth_client_secret is required when auth_persist_secret is true''
                            else Inr cfg3))))"

subsection \<open>Payload settings\<close>

definition normalizePayloadFields ::
  "json_lib \<Rightarrow> bool \<Rightarrow> string \<Rightarrow> string \<Rightarrow> string \<Rightarrow> int \<Rightarrow> (payload_artifacts option \<times> string \<times> string \<times> string) res option" where
  "normalizePayloadFields lib hasScript meth contentType payloadJSON targetKiB =
    (if targetKiB < 0 then Some (Inl ''payload_target_kib must be greater than or equal to 0'')
     else (let trimmed = trim_space payloadJSON
           in if hasScript
              then Some (if HasPayloadConfiguration meth contentType trimmed targetKiB
                         then Inl ''payload settings are only supported for builder-mode tests''
                         else Inr (None, meth, contentType, trimmed))
              else (let m = NormalizeHTTPMethod meth; c = NormalizeContentType contentType;
                        candidate = zero_test_request\<lparr>req_HTTPMethod := m, req_ContentType := c, req_PayloadJSON := trimmed,
                          req_PayloadTargetKiB := targetKiB\<rparr>
                    in map_option (\<lambda>r. bind_res r (\<lambda>a. Inr (Some a, m, c, trimmed))) (BuildBuilderPayloadArtifacts lib candidate))))"

definition normalizeTestRequestPayload :: "json_lib \<Rightarrow> test_request \<Rightarrow> test_request res option" where
  "normalizeTestRequestPayload lib req =
    map_option (\<lambda>r. bind_res r (\<lambda>(_, m, c, p). Inr (req\<lparr>req_HTTPMethod := m, req_ContentType := c, req_PayloadJSON := p\<rparr>)))
      (normalizePayloadFields lib (req_ScriptContent req \<noteq> []) (req_HTTPMethod req) (req_ContentType req)
        (req_PayloadJSON req) (req_PayloadTargetKiB req))"

definition normalizeScheduleRequestPayload ::
  "json_lib \<Rightarrow> url_lib \<Rightarrow> create_schedule_request \<Rightarrow> create_schedule_request res option" where
  "normalizeScheduleRequestPayload lib ul req =
    (case normalizeAuthInput ul (cr_Auth req) of
       Inl e \<Rightarrow> Some (Inl e)
     | Inr a \<Rightarrow>
        map_option (\<lambda>r. bind_res r (\<lambda>(_, m, c, p).
            Inr (req\<lparr>cr_Auth := a, cr_HTTPMethod := m, cr_ContentType := c, cr_PayloadJSON := p\<rparr>)))
          (normalizePayloadFields lib (cr_ScriptContent req \<noteq> []) (cr_HTTPMethod req) (cr_ContentType req)
            (cr_PayloadJSON req) (cr_PayloadTargetKiB req)))"

subsection \<open>Test requests\<close>

definition validateExecutionRequest :: "json_lib \<Rightarrow> url_lib \<Rightarrow> test_request \<Rightarrow> test_request res option" where
  "validateExecutionRequest lib ul req =
    (if req_ScriptContent req = [] \<and> req_URL req = []
     then Some (Inl ''provide either script_content or url (builder)'')
     else (case normalizeAuthInput ul (req_Auth req) of
             Inl e \<Rightarrow> Some (Inl e)
           | Inr a \<Rightarrow>
              (if ai_Enabled a \<and> trim_space (ai_ClientSecret a) = []
               then Some (Inl ''auth_client_secret is required when auth_enabled is true'')
               else normalizeTestRequestPayload lib (req\<lparr>req_Auth := a\<rparr>))))"

definition validateStartRequest :: "json_lib \<Rightarrow> url_lib \<Rightarrow> test_request \<Rightarrow> test_request res option" where
  "validateStartRequest lib ul req =
    (if req_ProjectName req = [] then Some (Inl ''project_name is required'') else validateExecutionRequest lib ul req)"

subsection \<open>The managed ramp of a request\<close>

text \<open>The stages and whether the ramping manager controls the run; \<^verbatim>\<open>(nil, false)\<close> is \<open>([], False)\<close>.\<close>

definition resolveBuilderRamping :: "test_request \<Rightarrow> stage list \<times> bool" where
  "resolveBuilderRamping req =
    (if req_Executor req = ''ramping-vus''
     then (if req_Stages req \<noteq> [] then (req_Stages req, True) else ([], False))
     else if req_Executor req = ''constant-vus''
     then (if req_VUs req \<le> 0 then ([], False)
           else (let dur = (if req_Duration req = [] then ''1m'' else req_Duration req)
                 in ([\<lparr>stg_Duration = ''0s'', stg_Target = req_VUs req\<rparr>, \<lparr>stg_Duration = dur, stg_Target = req_VUs req\<rparr>], True)))
     else ([], False))"

definition resolveUploadRamping :: "stage list \<Rightarrow> stage list \<times> bool" where
  "resolveUploadRamping configStages = (if configStages \<noteq> [] then (configStages, True) else ([], False))"

subsection \<open>Secrets come back\<close>

text \<open>
  What the code relies on: the digest has 32 bytes, opening what was sealed under the same key and nonce
  gives the plain text, and base64 can be decoded and does not turn a non-empty text into an empty one.
\<close>

definition crypto_ok :: "crypto_lib \<Rightarrow> bool" where
  "crypto_ok cl \<longleftrightarrow>
    (\<forall>m. length (cl_sha256 cl m) = 32) \<and>
    (\<forall>k n p. cl_open cl k n (cl_seal cl k n p) = Inr p) \<and>
    (\<forall>x. cl_b64dec cl (cl_b64enc cl x) = Inr x) \<and> (\<forall>x. x \<noteq> [] \<longrightarrow> cl_b64enc cl x \<noteq> [])"

lemma gcm_ready: "crypto_ok cl \<Longrightarrow> NewService cl key = Inr svc \<Longrightarrow> new_gcm svc = Inr ()"
  by (auto simp: NewService_def new_gcm_def crypto_ok_def split: if_splits)

lemma encrypt_nonempty:
  assumes "crypto_ok cl" "Encrypt cl (Inr nonce) svc plain = Inr enc" "plain \<noteq> []" "length nonce = nonceSize"
  shows "enc \<noteq> []"
proof -
  have "nonce @ x \<noteq> []" for x using assms(4) by (auto simp: nonceSize_def)
  then show ?thesis using assms by (auto simp: Encrypt_def bind_res_Inr crypto_ok_def)
qed

lemma decrypt_encrypt:
  assumes "crypto_ok cl" "NewService cl key = Inr svc" "length nonce = nonceSize"
  shows "\<exists>enc. Encrypt cl (Inr nonce) svc plain = Inr enc \<and> Decrypt cl svc enc = Inr plain"
proof (cases "plain = []")
  case True
  then show ?thesis by (simp add: Encrypt_def Decrypt_def)
next
  case False
  let ?raw = "nonce @ cl_seal cl (svc_key svc) nonce plain"
  have "?raw \<noteq> []" using assms(3) by (auto simp: nonceSize_def)
  then have "cl_b64enc cl ?raw \<noteq> []" "cl_b64dec cl (cl_b64enc cl ?raw) = Inr ?raw"
    "cl_open cl (svc_key svc) nonce (cl_seal cl (svc_key svc) nonce plain) = Inr plain"
    using assms(1) by (simp_all add: crypto_ok_def)
  then show ?thesis using False gcm_ready [OF assms(1,2)] assms(3) by (simp add: Encrypt_def Decrypt_def)
qed

text \<open>A new secret replaces whatever was stored.\<close>

lemma stored_config_with_secret:
  assumes "ai_Enabled input" "ss_svc ss = Some svc" "trim_space (ai_ClientSecret input) = sec" "sec \<noteq> []"
    and "Encrypt (ss_crypto ss) (ss_rnd ss) svc sec = Inr enc" "enc \<noteq> []"
  shows "\<exists>cfg. buildStoredAuthConfig ss input existing require = Inr cfg \<and> ac_Enabled cfg \<and>
    ac_ClientSecretEncrypted cfg = enc \<and> ac_SecretConfigured cfg \<and> ac_SecretSource cfg = ''persisted_encrypted'' \<and>
    ac_Mode cfg = ai_Mode input \<and> ac_TokenURL cfg = ai_TokenURL input \<and> ac_ClientID cfg = ai_ClientID input"
  using assms
  by (simp add: buildStoredAuthConfig_def authConfigFromStoredInput_def Let_def clear_secret_def zero_auth_config_def
      split: option.split)

subsection \<open>Properties\<close>

text \<open>
  C12. The client secret that is stored with a schedule is the one its test runs with: a schedule whose
  authentication was built from a request with a secret is turned by the scheduler into a request with
  exactly that secret (trimmed), whatever was stored before.
\<close>

theorem stored_secret_reaches_test:
  assumes "crypto_ok cl" "NewService cl key = Inr svc" "length nonce = nonceSize"
    and "ai_Enabled input" "trim_space (ai_ClientSecret input) \<noteq> []"
  shows "\<exists>cfg. buildStoredAuthConfig \<lparr>ss_crypto = cl, ss_rnd = Inr nonce, ss_svc = Some svc\<rparr> input existing require = Inr cfg \<and>
    scheduleTestRequest (Some (Decrypt cl svc)) (s\<lparr>st_AuthConfig := cfg\<rparr>) =
      Inr ((ToTestRequest (s\<lparr>st_AuthConfig := cfg\<rparr>))\<lparr>req_Auth :=
        (req_Auth (ToTestRequest (s\<lparr>st_AuthConfig := cfg\<rparr>)))\<lparr>ai_ClientSecret := trim_space (ai_ClientSecret input)\<rparr>\<rparr>)"
proof -
  let ?ss = "\<lparr>ss_crypto = cl, ss_rnd = Inr nonce, ss_svc = Some svc\<rparr>"
  obtain enc where enc: "Encrypt cl (Inr nonce) svc (trim_space (ai_ClientSecret input)) = Inr enc"
    "Decrypt cl svc enc = Inr (trim_space (ai_ClientSecret input))"
    using decrypt_encrypt [OF assms(1-3)] by blast
  have "enc \<noteq> []" using encrypt_nonempty [OF assms(1) enc(1) assms(5,3)] .
  with stored_config_with_secret [of input ?ss svc "trim_space (ai_ClientSecret input)" enc existing require] enc assms(4,5)
  obtain cfg where "buildStoredAuthConfig ?ss input existing require = Inr cfg" "ac_Enabled cfg"
    "ac_ClientSecretEncrypted cfg = enc" by auto
  then show ?thesis using enc(2) \<open>enc \<noteq> []\<close> by (intro exI [of _ cfg]) (simp add: scheduleTestRequest_def Let_def)
qed

definition demo_crypto :: crypto_lib where
  "demo_crypto = \<lparr>cl_sha256 = (\<lambda>m. replicate 32 (CHR ''k'')), cl_seal = (\<lambda>k n p. rev p), cl_open = (\<lambda>k n c. Inr (rev c)),
    cl_b64enc = (\<lambda>x. x), cl_b64dec = Inr\<rparr>"

theorem stored_secret_reaches_test_witness:
  "\<exists>cfg r. buildStoredAuthConfig \<lparr>ss_crypto = demo_crypto, ss_rnd = Inr (replicate 12 (CHR ''n'')),
      ss_svc = Some \<lparr>svc_key = replicate 32 (CHR ''k'')\<rparr>\<rparr>
      (zero_auth_input\<lparr>ai_Enabled := True, ai_ClientSecret := ''s3cret''\<rparr>) None True = Inr cfg \<and>
    scheduleTestRequest (Some (Decrypt demo_crypto \<lparr>svc_key = replicate 32 (CHR ''k'')\<rparr>))
      (zero_scheduled_test\<lparr>st_AuthConfig := cfg\<rparr>) = Inr r \<and> ai_ClientSecret (req_Auth r) = ''s3cret''"
proof -
  have ok: "crypto_ok demo_crypto" by (simp add: crypto_ok_def demo_crypto_def)
  have svc: "NewService demo_crypto ''key'' = Inr \<lparr>svc_key = replicate 32 (CHR ''k'')\<rparr>"
    by (simp add: NewService_def demo_crypto_def)
  have t: "trim_space ''s3cret'' = ''s3cret''" by (rule trim_space_plain) (simp_all add: is_plain_def)
  show ?thesis
    using stored_secret_reaches_test [OF ok svc, of "replicate 12 (CHR ''n'')"
        "zero_auth_input\<lparr>ai_Enabled := True, ai_ClientSecret := ''s3cret''\<rparr>" None True zero_scheduled_test] t
    by (fastforce simp: nonceSize_def)
qed

definition auth_complete :: "url_lib \<Rightarrow> auth_input \<Rightarrow> bool" where
  "auth_complete ul a \<longleftrightarrow>
    ai_Enabled a \<and> ai_Mode a = ''oauth_client_credentials'' \<and> is_token_url ul (ai_TokenURL a) \<and> ai_TokenURL a \<noteq> [] \<and>
    trim_space (ai_TokenURL a) = ai_TokenURL a \<and> ai_ClientID a \<noteq> [] \<and> trim_space (ai_ClientID a) = ai_ClientID a \<and>
    ai_ClientAuthMethod a \<in> {''basic'', ''body''} \<and> 0 < ai_RefreshSkewSeconds a"

lemma mode_trimmed: "trim_space ''oauth_client_credentials'' = ''oauth_client_credentials''"
  "trim_space ''basic'' = ''basic''" "trim_space ''body'' = ''body''"
  by (simp_all add: is_plain_def)

lemma normalize_complete: "auth_complete ul a \<Longrightarrow> normalizeAuthInput ul a = Inr a"
  unfolding auth_complete_def normalizeAuthInput_def Let_def
  by (elim conjE insertE emptyE) (simp_all add: mode_trimmed)

lemma normalize_cases:
  assumes "normalizeAuthInput ul a = Inr b"
  shows "b = zero_auth_input \<or> auth_complete ul b"
proof (cases "ai_Enabled a")
  case True
  then show ?thesis using assms
    by (simp add: normalizeAuthInput_def auth_complete_def Let_def split: if_split_asm; hypsubst; simp)
qed (use assms in \<open>simp add: normalizeAuthInput_def\<close>)

text \<open>
  A normalised authentication input is either empty (authentication disabled) or complete: client
  credentials mode, an absolute http or https token URL, a client id, a known client authentication method
  and a positive refresh skew, all trimmed. Normalising it again changes nothing.
\<close>

theorem normalize_auth_wellformed:
  assumes "normalizeAuthInput ul a = Inr b"
  shows "(b = zero_auth_input \<or> auth_complete ul b) \<and> normalizeAuthInput ul b = Inr b"
proof -
  have "normalizeAuthInput ul zero_auth_input = Inr zero_auth_input"
    by (simp add: normalizeAuthInput_def zero_auth_input_def)
  then show ?thesis using normalize_cases [OF assms] normalize_complete by auto
qed

definition demo_url_lib :: url_lib where
  "demo_url_lib =
    \<lparr>ul_parse = (\<lambda>s. Some \<lparr>u_Scheme = ''https'', u_Opaque = [], u_User = None, u_Host = ''idp'', u_Path = ''/token'', u_RawQuery = [],
        u_Fragment = []\<rparr>), ul_string = (\<lambda>u. ''https://idp/token'')\<rparr>"

theorem normalize_auth_wellformed_witness:
  "\<exists>b. normalizeAuthInput demo_url_lib (zero_auth_input\<lparr>ai_Enabled := True, ai_TokenURL := ''https://idp/token'', ai_ClientID := ''c''\<rparr>) = Inr b \<and>
    auth_complete demo_url_lib b \<and> ai_ClientAuthMethod b = ''basic'' \<and> normalizeAuthInput demo_url_lib b = Inr b"
proof -
  let ?a = "zero_auth_input\<lparr>ai_Enabled := True, ai_TokenURL := ''https://idp/token'', ai_ClientID := ''c''\<rparr>"
  let ?b = "?a\<lparr>ai_Mode := ''oauth_client_credentials'', ai_ClientAuthMethod := ''basic'', ai_RefreshSkewSeconds := 30\<rparr>"
  have "normalizeAuthInput demo_url_lib ?a = Inr ?b"
    by (simp add: normalizeAuthInput_def Let_def zero_auth_input_def is_token_url_def demo_url_lib_def is_plain_def)
  with normalize_auth_wellformed [OF this] show ?thesis
    by (intro exI [of _ ?b]) (auto simp: zero_auth_input_def)
qed

text \<open>
  A request without an executor gets the script of a ramp that the controller has to drive, but no ramp: the
  script is generated for the externally controlled executor while \<^verbatim>\<open>resolveBuilderRamping\<close> returns no
  stages, although the estimate of its run time counts the stages.
\<close>

theorem default_executor_is_not_ramped:
  assumes "req_Executor req = []" "cr_Executor creq = []" "cr_Stages creq = Some (req_Stages req)"
  shows "GenerateFromBuilder render buffer req n = GenerateFromBuilder render buffer (req\<lparr>req_Executor := ''ramping-vus''\<rparr>) n \<and>
    estimateFromBuilder creq = total_secs 0 (map stg_Duration (req_Stages req)) \<and>
    resolveBuilderRamping req = ([], False) \<and>
    (req_Stages req \<noteq> [] \<longleftrightarrow> resolveBuilderRamping (req\<lparr>req_Executor := ''ramping-vus''\<rparr>) = (req_Stages req, True))"
  using assms
  by (auto simp: GenerateFromBuilder_def resolveBuilderRamping_def estimateFromBuilder_def stages_of_def fold_total_secs
      generateRampingVUs_def ramping_vus_data_def newBuilderTemplateData_def sleepVal_def Let_def)

theorem default_executor_is_not_ramped_witness:
  "resolveBuilderRamping (zero_test_request\<lparr>req_Stages := [\<lparr>stg_Duration = ''30s'', stg_Target = 10\<rparr>]\<rparr>) = ([], False) \<and>
   estimateFromBuilder (zero_schedule_request\<lparr>cr_Stages := Some [\<lparr>stg_Duration = ''30s'', stg_Target = 10\<rparr>]\<rparr>) = 30"
  using default_executor_is_not_ramped [of "zero_test_request\<lparr>req_Stages := [\<lparr>stg_Duration = ''30s'', stg_Target = 10\<rparr>]\<rparr>"
      "zero_schedule_request\<lparr>cr_Stages := Some [\<lparr>stg_Duration = ''30s'', stg_Target = 10\<rparr>]\<rparr>"]
  by (simp add: zero_test_request_def zero_schedule_request_def parseDuration_eval)

end
