(* ===== verification/Rfc3339.thy ===== *)
theory Rfc3339
  imports GoTime
begin

text \<open>
  \<^verbatim>\<open>time.Parse(time.RFC3339, s)\<close> of Go's standard library, as an instant. The year has four digits, the month,
  the day, the minutes and the seconds have two, the hours one or two; a fraction of a second may follow
  the seconds, of which nine digits count; the zone is \<^verbatim>\<open>Z\<close> or a signed offset. Dates that do not exist
  and numbers out of range are errors (\<open>None\<close>).
\<close>

definition get_digits :: "nat \<Rightarrow> string \<Rightarrow> (int \<times> string) option" where
  "get_digits n s =
    (if n \<le> length s \<and> list_all is_digit (take n s) then Some (int (digits_val (take n s)), drop n s) else None)"

definition get_hour :: "string \<Rightarrow> (int \<times> string) option" where
  "get_hour s = (case get_digits 2 s of Some r \<Rightarrow> Some r | None \<Rightarrow> get_digits 1 s)"

definition skip_char :: "char \<Rightarrow> string \<Rightarrow> string option" where
  "skip_char c s = (case s of [] \<Rightarrow> None | d # r \<Rightarrow> if d = c then Some r else None)"

definition days_in :: "int \<Rightarrow> int \<Rightarrow> int" where
  "days_in y m = day_number y (m + 1) 1 - day_number y m 1"

definition get_fraction :: "string \<Rightarrow> int \<times> string" where
  "get_fraction s =
    (case s of
       p # d # r \<Rightarrow>
         (if (p = CHR ''.'' \<or> p = CHR '','') \<and> is_digit d
          then (let ds = take 9 (takeWhile is_digit (d # r))
                in (int (digits_val ds) * 10 ^ (9 - length ds), dropWhile is_digit (d # r)))
          else (0, s))
     | _ \<Rightarrow> (0, s))"

definition get_zone :: "string \<Rightarrow> (int \<times> string) option" where
  "get_zone s =
    (case s of
       [] \<Rightarrow> None
     | c # r \<Rightarrow>
        (if c = CHR ''Z'' then Some (0, r)
         else if length s < 6 \<or> s ! 3 \<noteq> CHR '':'' then None
         else Option.bind (get_digits 2 (take 2 r)) (\<lambda>(hr, _).
              Option.bind (get_digits 2 (take 2 (drop 4 s))) (\<lambda>(mm, _).
                if 24 < hr \<or> 60 < mm then None
                else if c = CHR ''+'' then Some ((hr * 60 + mm) * 60, drop 6 s)
                else if c = CHR ''-'' then Some (- ((hr * 60 + mm) * 60), drop 6 s)
                else None))))"

definition parse_rfc3339 :: "string \<Rightarrow> time option" where
  "parse_rfc3339 s =
    Option.bind (get_digits 4 s) (\<lambda>(y, s1).
    Option.bind (skip_char (CHR ''-'') s1) (\<lambda>s2.
    Option.bind (get_digits 2 s2) (\<lambda>(m, s3).
    Option.bind (skip_char (CHR ''-'') s3) (\<lambda>s4.
    Option.bind (get_digits 2 s4) (\<lambda>(d, s5).
    Option.bind (skip_char (CHR ''T'') s5) (\<lambda>s6.
    Option.bind (get_hour s6) (\<lambda>(h, s7).
    Option.bind (skip_char (CHR '':'') s7) (\<lambda>s8.
    Option.bind (get_digits 2 s8) (\<lambda>(mi, s9).
    Option.bind (skip_char (CHR '':'') s9) (\<lambda>s10.
    Option.bind (get_digits 2 s10) (\<lambda>(sec, s11).
    (case get_fraction s11 of (ns, s12) \<Rightarrow>
    Option.bind (get_zone s12) (\<lambda>(off, rest).
      if rest \<noteq> [] \<or> m < 1 \<or> 12 < m \<or> 24 \<le> h \<or> 60 \<le> mi \<or> 60 \<le> sec \<or> d < 1 \<or> days_in y m < d then None
      else Some ((day_number y m d * 86400 + h * 3600 + mi * 60 + sec - off) * second + ns))))))))))))))"

end
