(* ===== verification/ScheduleHandler.thy ===== *)
theory ScheduleHandler
  imports Requests Http Rfc3339 Overlap
begin

text \<open>
  \<^verbatim>\<open>controller/internal/handler/schedule.go\<close>: the HTTP handlers of schedules, over the schedule tables
  of the store.

  A handler is given what the request carries (the decoded body, \<open>None\<close> when decoding fails; the path and
  query parameters), the identity of the user, and the database. The clock is read once per request. A
  panic while the payload is sized is answered by the router with the status 500.
\<close>

subsection \<open>The handler's environment\<close>

record sched_handler =
  sh_env :: sched_env
  sh_here :: location
  sh_json :: json_lib
  sh_url :: url_lib
  sh_secrets :: stored_secrets
  sh_active :: "string \<times> time"

record calendar_event =
  ce_ID :: string
  ce_Name :: string
  ce_ProjectName :: string
  ce_Start :: string
  ce_End :: string
  ce_OccurrenceStart :: string
  ce_Status :: string
  ce_RecurrenceType :: string
  ce_Username :: string
  ce_UserID :: int

datatype sched_reply =
    ScheduleReply scheduled_test
  | SchedulesReply "scheduled_test list"
  | ConflictReply schedule_conflict
  | StatusReply "(string \<times> string) list"
  | EventsReply "calendar_event list"
  | CheckReply "schedule_conflict option"
  | ExecutionsReply "schedule_execution list"

type_synonym sched_out = "sched_reply response \<times> sched_db"

definition panic_response :: "'a response" where
  "panic_response = HttpError [] 500"

definition activeRunningTest :: "sched_handler \<Rightarrow> running_test_info option" where
  "activeRunningTest h =
    (case sh_active h of (activeID, started) \<Rightarrow>
      if activeID \<noteq> [] then Some \<lparr>rt_TestID = activeID, rt_StartTime = started, rt_EstimatedDurationS = 0\<rparr> else None)"

definition canManage :: "user_ctx \<Rightarrow> scheduled_test \<Rightarrow> bool" where
  "canManage ctx s \<longleftrightarrow> uc_Role ctx = ''admin'' \<or> st_UserID s = uc_UserID ctx"

definition managedSchedule ::
  "sched_handler \<Rightarrow> user_ctx \<Rightarrow> string \<Rightarrow> sched_db \<Rightarrow> (sched_reply response + scheduled_test) \<times> sched_db" where
  "managedSchedule h ctx i db =
    (case GetSchedule (sh_env h) i db of
       (Inr (Some existing), db1) \<Rightarrow>
         (if \<not> canManage ctx existing then (Inl (HttpError ''forbidden'' 403), db1) else (Inr existing, db1))
     | (_, db1) \<Rightarrow> (Inl (HttpError ''schedule not found'' 404), db1))"

subsection \<open>Creation\<close>

record validated_schedule =
  vs_scheduledAt :: time
  vs_timezone :: string
  vs_recType :: string
  vs_recEnd :: "time option"
  vs_durationS :: int

definition parseRecurrenceEnd :: "string option \<Rightarrow> time option option" where
  "parseRecurrenceEnd v =
    (case v of
       None \<Rightarrow> Some None
     | Some s \<Rightarrow> if s = [] then Some None else map_option Some (parse_rfc3339 s))"

definition valid_recurrences :: "string list" where
  "valid_recurrences = [''once'', ''hourly'', ''daily'', ''weekly'', ''monthly'']"

definition check_create :: "sched_handler \<Rightarrow> create_schedule_request \<Rightarrow> validated_schedule res" where
  "check_create h req =
    (if ai_Enabled (cr_Auth req) \<and> trim_space (ai_ClientSecret (cr_Auth req)) = []
     then Inl ''auth_client_secret is required when auth is enabled for schedules''
     else (case parse_rfc3339 (cr_ScheduledAt req) of
             None \<Rightarrow> Inl ''scheduled_at must be RFC3339 format (e.g. 2026-03-15T02:00:00Z)''
           | Some scheduledAt \<Rightarrow>
              (let tz = (if cr_Timezone req = [] then ''UTC'' else cr_Timezone req);
                   recType = (if cr_RecurrenceType req = [] then ''once'' else cr_RecurrenceType req)
               in if scheduledAt < env_now (sh_env h) - minute then Inl ''scheduled_at must be in the future''
                  else if env_tz (sh_env h) tz = None then Inl (''invalid timezone: '' @ tz)
                  else if recType \<notin> set valid_recurrences
                  then Inl ''recurrence_type must be one of: once, hourly, daily, weekly, monthly''
                  else bind_res (EstimateDurationSeconds (sh_json h) req) (\<lambda>durationS.
                         case parseRecurrenceEnd (cr_RecurrenceEnd req) of
                           None \<Rightarrow> Inl ''recurrence_end must be RFC3339 format''
                         | Some recEnd \<Rightarrow>
                            Inr \<lparr>vs_scheduledAt = scheduledAt, vs_timezone = tz, vs_recType = recType, vs_recEnd = recEnd,
                                 vs_durationS = durationS\<rparr>))))"

text \<open>\<^verbatim>\<open>validateCreateRequest\<close>: the validated fields and the normalised request; the status of an error is 400.\<close>

definition validateCreateRequest ::
  "sched_handler \<Rightarrow> create_schedule_request \<Rightarrow> (validated_schedule \<times> create_schedule_request) res option" where
  "validateCreateRequest h req =
    (if cr_Name req = [] then Some (Inl ''name is required'')
     else if cr_ProjectName req = [] then Some (Inl ''project_name is required'')
     else if cr_ScheduledAt req = [] then Some (Inl ''scheduled_at is required'')
     else if cr_ScriptContent req = [] \<and> cr_URL req = [] then Some (Inl ''provide either script_content or url (builder)'')
     else map_option (\<lambda>r. bind_res r (\<lambda>req1. bind_res (check_create h req1) (\<lambda>v. Inr (v, req1))))
            (normalizeScheduleRequestPayload (sh_json h) (sh_url h) req))"

definition checkScheduleOverlap ::
  "sched_handler \<Rightarrow> time \<Rightarrow> int \<Rightarrow> string \<Rightarrow> sched_db \<Rightarrow> schedule_conflict option res \<times> sched_db" where
  "checkScheduleOverlap h scheduledAt durationS excludeID =
    CheckOverlap (sh_env h) (sh_here h)
      \<lparr>ts_Start = scheduledAt, ts_End = scheduledAt + dur_seconds durationS\<rparr> excludeID (activeRunningTest h)"

definition new_schedule :: "sched_handler \<Rightarrow> user_ctx \<Rightarrow> validated_schedule \<Rightarrow> create_schedule_request \<Rightarrow> scheduled_test" where
  "new_schedule h ctx v req =
    \<lparr>st_ID = env_uuid (sh_env h), st_Name = cr_Name req, st_ProjectName = cr_ProjectName req, st_URL = cr_URL req,
     st_Mode = cr_Mode req, st_Executor = cr_Executor req, st_Stages = stages_of req, st_VUs = cr_VUs req,
     st_Duration = cr_Duration req, st_Rate = cr_Rate req, st_TimeUnit = cr_TimeUnit req,
     st_PreAllocatedVUs = cr_PreAllocatedVUs req, st_MaxVUs = cr_MaxVUs req, st_SleepSeconds = cr_SleepSeconds req,
     st_ScriptContent = cr_ScriptContent req, st_ConfigContent = cr_ConfigContent req,
     st_HTTPMethod = cr_HTTPMethod req, st_ContentType = cr_ContentType req, st_PayloadJSON = cr_PayloadJSON req,
     st_PayloadTargetKiB = cr_PayloadTargetKiB req, st_AuthConfig = zero_auth_config, st_ScheduledAt = vs_scheduledAt v,
     st_EstimatedDurationS = vs_durationS v, st_Timezone = vs_timezone v, st_RecurrenceType = vs_recType v,
     st_RecurrenceRule = cr_RecurrenceRule req, st_RecurrenceEnd = vs_recEnd v, st_SkippedOccurrences = [],
     st_Status = ''scheduled'', st_Paused = False, st_UserID = uc_UserID ctx, st_Username = uc_Username ctx,
     st_CreatedAt = zero_time, st_UpdatedAt = zero_time\<rparr>"

definition Create_schedule :: "sched_handler \<Rightarrow> create_schedule_request option \<Rightarrow> user_ctx \<Rightarrow> sched_db \<Rightarrow> sched_out" where
  "Create_schedule h body ctx db =
    (case body of
       None \<Rightarrow> (HttpError ''invalid request body'' 400, db)
     | Some req0 \<Rightarrow>
        (case validateCreateRequest h req0 of
           None \<Rightarrow> (panic_response, db)
         | Some (Inl msg) \<Rightarrow> (HttpError msg 400, db)
         | Some (Inr (v, req)) \<Rightarrow>
            (case checkScheduleOverlap h (vs_scheduledAt v) (vs_durationS v) [] db of
               (Inl e, db1) \<Rightarrow> (HttpError ''internal error during conflict check'' 500, db1)
             | (Inr (Some c), db1) \<Rightarrow> (HttpJson 409 (ConflictReply c), db1)
             | (Inr None, db1) \<Rightarrow>
                (case buildStoredAuthConfig (sh_secrets h) (cr_Auth req) None (ai_Enabled (cr_Auth req)) of
                   Inl msg \<Rightarrow> (HttpError msg 400, db1)
                 | Inr authCfg \<Rightarrow>
                    (let s = (new_schedule h ctx v req)\<lparr>st_AuthConfig := authCfg\<rparr>
                     in case CreateSchedule (sh_env h) s db1 of
                          (Inl e, db2) \<Rightarrow> (HttpError ''failed to create schedule'' 500, db2)
                        | (Inr _, db2) \<Rightarrow> (HttpJson 201 (ScheduleReply s), db2))))))"

subsection \<open>Listing\<close>

definition List_schedules :: "sched_handler \<Rightarrow> user_ctx \<Rightarrow> sched_db \<Rightarrow> sched_out" where
  "List_schedules h ctx db =
    (case ListSchedules (sh_env h) db of
       (Inl e, db1) \<Rightarrow> (HttpError ''failed to list schedules'' 500, db1)
     | (Inr ss, db1) \<Rightarrow> (HttpJson 200 (SchedulesReply ss), db1))"

definition Get_schedule :: "sched_handler \<Rightarrow> string \<Rightarrow> user_ctx \<Rightarrow> sched_db \<Rightarrow> sched_out" where
  "Get_schedule h i ctx db =
    (case GetSchedule (sh_env h) i db of
       (Inl e, db1) \<Rightarrow> (HttpError ''internal error'' 500, db1)
     | (Inr None, db1) \<Rightarrow> (HttpError ''schedule not found'' 404, db1)
     | (Inr (Some s), db1) \<Rightarrow> (HttpJson 200 (ScheduleReply s), db1))"

definition ListExecutions_schedule :: "sched_handler \<Rightarrow> string \<Rightarrow> user_ctx \<Rightarrow> sched_db \<Rightarrow> sched_out" where
  "ListExecutions_schedule h i ctx db =
    (case ListExecutions (sh_env h) i db of
       (Inl e, db1) \<Rightarrow> (HttpError ''failed to list executions'' 500, db1)
     | (Inr xs, db1) \<Rightarrow> (HttpJson 200 (ExecutionsReply xs), db1))"

subsection \<open>Updates\<close>

definition keep :: "string \<Rightarrow> string \<Rightarrow> string" where
  "keep old new = (if new \<noteq> [] then new else old)"

definition applyScheduleUpdates :: "json_lib \<Rightarrow> scheduled_test \<Rightarrow> create_schedule_request \<Rightarrow> scheduled_test option" where
  "applyScheduleUpdates lib existing req =
    (let s1 = existing\<lparr>st_Name := keep (st_Name existing) (cr_Name req),
           st_ProjectName := keep (st_ProjectName existing) (cr_ProjectName req),
           st_URL := keep (st_URL existing) (cr_URL req), st_Mode := keep (st_Mode existing) (cr_Mode req),
           st_Executor := keep (st_Executor existing) (cr_Executor req),
           st_Stages := (case cr_Stages req of None \<Rightarrow> st_Stages existing | Some ss \<Rightarrow> ss),
           st_ScriptContent := keep (st_ScriptContent existing) (cr_ScriptContent req),
           st_ConfigContent := keep (st_ConfigContent existing) (cr_ConfigContent req),
           st_HTTPMethod := keep (st_HTTPMethod existing) (cr_HTTPMethod req),
           st_ContentType := keep (st_ContentType existing) (cr_ContentType req),
           st_PayloadJSON := keep (st_PayloadJSON existing) (cr_PayloadJSON req),
           st_PayloadTargetKiB := (if 0 < cr_PayloadTargetKiB req then cr_PayloadTargetKiB req else st_PayloadTargetKiB existing)\<rparr>
     in case (if cr_ScheduledAt req = [] then Some (st_ScheduledAt s1) else parse_rfc3339 (cr_ScheduledAt req)) of
          None \<Rightarrow> None
        | Some t \<Rightarrow>
           Some (s1\<lparr>st_ScheduledAt := t, st_RecurrenceType := keep (st_RecurrenceType s1) (cr_RecurrenceType req),
                    st_Timezone := keep (st_Timezone s1) (cr_Timezone req),
                    st_EstimatedDurationS :=
                      (case EstimateDurationSeconds lib req of
                         Inr d \<Rightarrow> if 0 < d then d else st_EstimatedDurationS s1
                       | Inl _ \<Rightarrow> st_EstimatedDurationS s1),
                    st_Status := ''scheduled''\<rparr>))"

definition prepareUpdatedSchedule ::
  "sched_handler \<Rightarrow> scheduled_test \<Rightarrow> create_schedule_request \<Rightarrow> sched_db \<Rightarrow>
   ((string \<times> int) + (scheduled_test \<times> schedule_conflict option)) \<times> sched_db" where
  "prepareUpdatedSchedule h existing req db =
    (case applyScheduleUpdates (sh_json h) existing req of
       None \<Rightarrow> (Inl (''invalid scheduled_at'', 400), db)
     | Some candidate0 \<Rightarrow>
        (case buildStoredAuthConfig (sh_secrets h) (cr_Auth req) (Some (st_AuthConfig existing)) (ai_Enabled (cr_Auth req)) of
           Inl msg \<Rightarrow> (Inl (msg, 400), db)
         | Inr authCfg \<Rightarrow>
            (let candidate = candidate0\<lparr>st_AuthConfig := authCfg\<rparr>
             in case checkScheduleOverlap h (st_ScheduledAt candidate) (st_EstimatedDurationS candidate) (st_ID candidate) db of
                  (Inl e, db1) \<Rightarrow> (Inl (''internal error during conflict check'', 500), db1)
                | (Inr conflict, db1) \<Rightarrow> (Inr (candidate, conflict), db1))))"

definition Update_schedule ::
  "sched_handler \<Rightarrow> string \<Rightarrow> create_schedule_request option \<Rightarrow> user_ctx \<Rightarrow> sched_db \<Rightarrow> sched_out" where
  "Update_schedule h i body ctx db =
    (case managedSchedule h ctx i db of
       (Inl r, db1) \<Rightarrow> (r, db1)
     | (Inr existing, db1) \<Rightarrow>
        (if st_Status existing = ''running'' then (HttpError ''cannot modify a running schedule'' 409, db1)
         else (case body of
                 None \<Rightarrow> (HttpError ''invalid request body'' 400, db1)
               | Some req0 \<Rightarrow>
                  (case normalizeScheduleRequestPayload (sh_json h) (sh_url h) req0 of
                     None \<Rightarrow> (panic_response, db1)
                   | Some (Inl msg) \<Rightarrow> (HttpError msg 400, db1)
                   | Some (Inr req) \<Rightarrow>
                      (if ai_Enabled (cr_Auth req) \<and> trim_space (ai_ClientSecret (cr_Auth req)) = [] \<and>
                          \<not> ac_SecretConfigured (st_AuthConfig existing)
                       then (HttpError ''auth_client_secret is required when auth is enabled for schedules'' 400, db1)
                       else (case prepareUpdatedSchedule h existing req db1 of
                               (Inl (msg, code), db2) \<Rightarrow> (HttpError msg code, db2)
                             | (Inr (_, Some c), db2) \<Rightarrow> (HttpJson 409 (ConflictReply c), db2)
                             | (Inr (candidate, None), db2) \<Rightarrow>
                                (case UpdateSchedule (sh_env h) candidate db2 of
                                   (Inl e, db3) \<Rightarrow> (HttpError ''failed to update schedule'' 500, db3)
                                 | (Inr _, db3) \<Rightarrow> (HttpJson 200 (ScheduleReply candidate), db3))))))))"

subsection \<open>Deletion\<close>

definition normalizeOccurrence :: "time \<Rightarrow> time" where
  "normalizeOccurrence t = truncate_second t"

definition sameOccurrence :: "time \<Rightarrow> time \<Rightarrow> bool" where
  "sameOccurrence a b \<longleftrightarrow> normalizeOccurrence a = normalizeOccurrence b"

definition hasPastOccurrence :: "time \<Rightarrow> time \<Rightarrow> bool" where
  "hasPastOccurrence now candidate \<longleftrightarrow> normalizeOccurrence candidate < normalizeOccurrence (now - minute)"

definition skippedOccurrenceExists :: "time list \<Rightarrow> time \<Rightarrow> bool" where
  "skippedOccurrenceExists vs candidate \<longleftrightarrow> list_ex (\<lambda>v. sameOccurrence v candidate) vs"

definition appendSkippedOccurrence :: "time list \<Rightarrow> time \<Rightarrow> time list" where
  "appendSkippedOccurrence vs candidate =
    (if skippedOccurrenceExists vs candidate then vs else vs @ [normalizeOccurrence candidate])"

definition filterSkippedOccurrencesBefore :: "time list \<Rightarrow> time \<Rightarrow> time list" where
  "filterSkippedOccurrencesBefore vs cutoff =
    map normalizeOccurrence (filter (\<lambda>v. normalizeOccurrence v < normalizeOccurrence cutoff) vs)"

definition parseDeleteScope :: "string \<Rightarrow> bool \<Rightarrow> string \<times> bool" where
  "parseDeleteScope scope recurring =
    (if scope = ''single'' then (''single'', True)
     else if scope = ''future'' then (''future'', True)
     else if scope = [] then (if recurring then ''future'' else ''single'', False)
     else ([], False))"

definition parseDeleteOccurrence :: "string \<Rightarrow> time \<Rightarrow> time option" where
  "parseDeleteOccurrence raw0 fallback =
    (let raw = trim_space raw0
     in if raw = [] then Some (normalizeOccurrence fallback) else map_option normalizeOccurrence (parse_rfc3339 raw))"

definition deleted_reply :: "string \<Rightarrow> string \<Rightarrow> sched_reply response" where
  "deleted_reply status scope = HttpJson 200 (StatusReply [(''status'', status), (''scope'', scope)])"

definition delete_row :: "sched_handler \<Rightarrow> string \<Rightarrow> string \<Rightarrow> sched_db \<Rightarrow> sched_out" where
  "delete_row h i scope db =
    (case DeleteSchedule (sh_env h) i db of
       (Inl e, db1) \<Rightarrow> (HttpError ''failed to delete schedule'' 500, db1)
     | (Inr _, db1) \<Rightarrow> (deleted_reply ''deleted'' scope, db1))"

definition update_row :: "sched_handler \<Rightarrow> scheduled_test \<Rightarrow> string \<Rightarrow> sched_db \<Rightarrow> sched_out" where
  "update_row h existing scope db =
    (case UpdateSchedule (sh_env h) existing db of
       (Inl e, db1) \<Rightarrow> (HttpError ''failed to update schedule'' 500, db1)
     | (Inr _, db1) \<Rightarrow> (deleted_reply ''updated'' scope, db1))"

definition delete_single :: "sched_handler \<Rightarrow> string \<Rightarrow> scheduled_test \<Rightarrow> time \<Rightarrow> int \<Rightarrow> sched_db \<Rightarrow> sched_out" where
  "delete_single h i existing0 occurrence execCount db =
    (let existing = existing0\<lparr>st_SkippedOccurrences := appendSkippedOccurrence (st_SkippedOccurrences existing0) occurrence\<rparr>
     in if \<not> sameOccurrence (st_ScheduledAt existing) occurrence then update_row h existing ''single'' db
        else (case NextIncludedOccurrence (env_tz (sh_env h)) (st_ScheduledAt existing) (st_RecurrenceType existing)
                     (st_Timezone existing) (st_RecurrenceEnd existing) (st_SkippedOccurrences existing) of
                Inl e \<Rightarrow> (HttpError ''failed to advance recurring schedule'' 500, db)
              | Inr nextAt \<Rightarrow>
                 (if is_zero nextAt
                  then (if execCount = 0 then delete_row h i ''single'' db
                        else update_row h (existing\<lparr>st_RecurrenceEnd := Some (occurrence - second), st_Status := ''completed''\<rparr>) ''single'' db)
                  else update_row h (existing\<lparr>st_ScheduledAt := nextAt, st_Status := ''scheduled''\<rparr>) ''single'' db)))"

definition delete_future :: "sched_handler \<Rightarrow> string \<Rightarrow> scheduled_test \<Rightarrow> time \<Rightarrow> int \<Rightarrow> sched_db \<Rightarrow> sched_out" where
  "delete_future h i existing0 occurrence execCount db =
    (let existing = existing0\<lparr>st_RecurrenceEnd := Some (occurrence - second),
           st_SkippedOccurrences := filterSkippedOccurrencesBefore (st_SkippedOccurrences existing0) occurrence\<rparr>
     in if \<not> st_ScheduledAt existing < occurrence
        then (if execCount = 0 then delete_row h i ''future'' db
              else update_row h (existing\<lparr>st_Status := ''completed''\<rparr>) ''future'' db)
        else update_row h existing ''future'' db)"

definition Delete_schedule :: "sched_handler \<Rightarrow> string \<Rightarrow> string \<Rightarrow> string \<Rightarrow> user_ctx \<Rightarrow> sched_db \<Rightarrow> sched_out" where
  "Delete_schedule h i scopeParam occurrenceParam ctx db =
    (case managedSchedule h ctx i db of
       (Inl r, db1) \<Rightarrow> (r, db1)
     | (Inr existing, db1) \<Rightarrow>
        (let recurring = (st_RecurrenceType existing \<noteq> ''once''); (scope, validScope) = parseDeleteScope scopeParam recurring
         in if scope = [] then (HttpError ''invalid delete scope'' 400, db1)
            else if scopeParam \<noteq> [] \<and> \<not> validScope then (HttpError ''invalid delete scope'' 400, db1)
            else (case parseDeleteOccurrence occurrenceParam (st_ScheduledAt existing) of
                    None \<Rightarrow> (HttpError ''occurrence must be RFC3339 format'' 400, db1)
                  | Some occurrence \<Rightarrow>
                     (if hasPastOccurrence (env_now (sh_env h)) occurrence
                      then (HttpError ''past schedule occurrences are preserved and cannot be deleted'' 409, db1)
                      else if st_Status existing = ''running'' then (HttpError ''cannot delete a running schedule'' 409, db1)
                      else (case CountScheduleExecutions (sh_env h) i db1 of
                              (Inl e, db2) \<Rightarrow> (HttpError ''failed to inspect schedule history'' 500, db2)
                            | (Inr execCount, db2) \<Rightarrow>
                               (if \<not> recurring then delete_row h i ''single'' db2
                                else if scope = ''single'' then delete_single h i existing occurrence execCount db2
                                else delete_future h i existing occurrence execCount db2))))))"

subsection \<open>Pausing and triggering\<close>

definition pause_to :: "bool \<Rightarrow> string \<Rightarrow> string \<Rightarrow> sched_handler \<Rightarrow> string \<Rightarrow> user_ctx \<Rightarrow> sched_db \<Rightarrow> sched_out" where
  "pause_to paused msg status h i ctx db =
    (case managedSchedule h ctx i db of
       (Inl r, db1) \<Rightarrow> (r, db1)
     | (Inr _, db1) \<Rightarrow>
        (case PauseSchedule (sh_env h) i paused db1 of
           (Inl e, db2) \<Rightarrow> (HttpError msg 500, db2)
         | (Inr _, db2) \<Rightarrow> (HttpJson 200 (StatusReply [(''status'', status)]), db2)))"

definition Pause_schedule :: "sched_handler \<Rightarrow> string \<Rightarrow> user_ctx \<Rightarrow> sched_db \<Rightarrow> sched_out" where
  "Pause_schedule = pause_to True ''failed to pause schedule'' ''paused''"

definition Resume_schedule :: "sched_handler \<Rightarrow> string \<Rightarrow> user_ctx \<Rightarrow> sched_db \<Rightarrow> sched_out" where
  "Resume_schedule = pause_to False ''failed to resume schedule'' ''resumed''"

definition RunNow :: "sched_handler \<Rightarrow> string \<Rightarrow> user_ctx \<Rightarrow> sched_db \<Rightarrow> sched_out" where
  "RunNow h i ctx db =
    (case managedSchedule h ctx i db of
       (Inl r, db1) \<Rightarrow> (r, db1)
     | (Inr existing, db1) \<Rightarrow>
        (if fst (sh_active h) \<noteq> [] then (HttpError (''a test is already running: '' @ fst (sh_active h)) 409, db1)
         else (case UpdateSchedule (sh_env h)
                      (existing\<lparr>st_ScheduledAt := env_now (sh_env h) - second, st_Status := ''scheduled'', st_Paused := False\<rparr>) db1 of
                 (Inl e, db2) \<Rightarrow> (HttpError ''failed to trigger schedule'' 500, db2)
               | (Inr _, db2) \<Rightarrow>
                  (HttpJson 200 (StatusReply [(''status'', ''triggered''), (''message'', ''Schedule will execute within the next 10 seconds'')]), db2))))"

subsection \<open>Calendar and conflicts\<close>

definition truncate_day :: "time \<Rightarrow> time" where
  "truncate_day t = t - (t - zero_time) mod (24 * hour)"

definition events_of :: "tz_database \<Rightarrow> time \<Rightarrow> time \<Rightarrow> scheduled_test \<Rightarrow> calendar_event list" where
  "events_of load from_t to_t s =
    (if st_Status s = ''cancelled'' then []
     else map (\<lambda>slot. \<lparr>ce_ID = st_ID s, ce_Name = st_Name s, ce_ProjectName = st_ProjectName s,
                 ce_Start = format_rfc3339 utc_loc (ts_Start slot), ce_End = format_rfc3339 utc_loc (ts_End slot),
                 ce_OccurrenceStart = format_rfc3339 utc_loc (ts_Start slot), ce_Status = st_Status s,
                 ce_RecurrenceType = st_RecurrenceType s, ce_Username = st_Username s, ce_UserID = st_UserID s\<rparr>)
            (ExpandOccurrences load (st_ScheduledAt s) (st_EstimatedDurationS s) (st_RecurrenceType s) (st_Timezone s)
               (st_RecurrenceEnd s) (st_SkippedOccurrences s) from_t to_t))"

definition Calendar :: "sched_handler \<Rightarrow> string \<Rightarrow> string \<Rightarrow> user_ctx \<Rightarrow> sched_db \<Rightarrow> sched_out" where
  "Calendar h fromStr toStr ctx db =
    (let from_t = (case parse_rfc3339 fromStr of Some t \<Rightarrow> t | None \<Rightarrow> truncate_day (env_now (sh_env h)));
         to_t = (case parse_rfc3339 toStr of Some t \<Rightarrow> t | None \<Rightarrow> from_t + 7 * 24 * hour)
     in case ListSchedules (sh_env h) db of
          (Inl e, db1) \<Rightarrow> (HttpError ''internal error'' 500, db1)
        | (Inr ss, db1) \<Rightarrow>
           (HttpJson 200 (EventsReply (concat (map (events_of (env_tz (sh_env h)) from_t to_t) ss))), db1))"

record conflict_request =
  qr_Start :: string
  qr_DurationS :: int
  qr_ExcludeID :: string

definition CheckConflict :: "sched_handler \<Rightarrow> conflict_request option \<Rightarrow> user_ctx \<Rightarrow> sched_db \<Rightarrow> sched_out" where
  "CheckConflict h body ctx db =
    (case body of
       None \<Rightarrow> (HttpError ''invalid request'' 400, db)
     | Some req \<Rightarrow>
        (case parse_rfc3339 (qr_Start req) of
           None \<Rightarrow> (HttpError ''start must be RFC3339'' 400, db)
         | Some start \<Rightarrow>
            (case CheckOverlap (sh_env h) (sh_here h)
                    \<lparr>ts_Start = start, ts_End = start + dur_seconds (qr_DurationS req)\<rparr> (qr_ExcludeID req) (activeRunningTest h) db of
               (Inl e, db1) \<Rightarrow> (HttpError ''conflict check failed'' 500, db1)
             | (Inr conflict, db1) \<Rightarrow> (HttpJson 200 (CheckReply conflict), db1))))"

end
