(* ===== verification/ScheduleHandlerProofs.thy ===== *)
theory ScheduleHandlerProofs
  imports ScheduleHandler SchedulerProofs
begin

text \<open>
  What the handlers of schedules guarantee: strangers change nothing, the tables keep their integrity, a
  created schedule has valid fields and a free slot, the slot agrees with the ramp of the test, the
  deletion of an occurrence removes it from the calendar, and a triggered schedule is due. Some
  theorems state where the code does not do what it means to.
\<close>

subsection \<open>Tables\<close>

definition same_tables :: "sched_db \<Rightarrow> sched_db \<Rightarrow> bool" where
  "same_tables a b \<longleftrightarrow> db_schedules a = db_schedules b \<and> db_executions a = db_executions b"

lemma same_tables_refl [simp]: "same_tables a a"
  by (simp add: same_tables_def)

lemma same_tables_calls [simp]: "same_tables (a\<lparr>db_calls := n\<rparr>) b = same_tables a b"
  by (simp add: same_tables_def)

lemma wf_same_tables: "same_tables a b \<Longrightarrow> wf_db b \<Longrightarrow> wf_db a"
  by (simp add: same_tables_def wf_db_def)

lemma CheckOverlap_tables [simp]: "same_tables (snd (CheckOverlap env here p x run db)) db"
proof (cases "runningTestConflict here p run")
  case None
  obtain g d1 where g: "GetOverlappingSchedules env (ts_Start p) (ts_End p) x db = (g, d1)"
    by (cases "GetOverlappingSchedules env (ts_Start p) (ts_End p) x db")
  have d1: "d1 = db\<lparr>db_calls := Suc (db_calls db)\<rparr>"
    using query_snd(4) [of env "ts_Start p" "ts_End p" x db] g by simp
  obtain q d2 where q: "GetRecurringSchedules env d1 = (q, d2)" by (cases "GetRecurringSchedules env d1")
  have d2: "d2 = d1\<lparr>db_calls := Suc (db_calls d1)\<rparr>" using query_snd(5) [of env d1] q by simp
  show ?thesis using None g q d1 d2
    by (auto simp: CheckOverlap_def split: sum.split list.split)
qed (simp add: CheckOverlap_def)

lemma managedSchedule_cases:
  obtains (rejected) code msg where "managedSchedule h ctx i db = (Inl (HttpError msg code), db\<lparr>db_calls := Suc (db_calls db)\<rparr>)"
      "code \<in> {403, 404}"
  | (managed) r where "find (\<lambda>r. c_id r = i) (db_schedules db) = Some r"
      "managedSchedule h ctx i db = (Inr (scanScheduledTest r), db\<lparr>db_calls := Suc (db_calls db)\<rparr>)"
      "canManage ctx (scanScheduledTest r)"
proof -
  obtain g d where g: "GetSchedule (sh_env h) i db = (g, d)" by (cases "GetSchedule (sh_env h) i db")
  have d: "d = db\<lparr>db_calls := Suc (db_calls db)\<rparr>" using query_snd(1) [of "sh_env h" i db] g by simp
  consider "\<exists>e. g = Inl e" | "g = Inr None" | s where "g = Inr (Some s)"
    by (metis old.sum.exhaust option.exhaust)
  then show thesis
  proof cases
    case 3
    then obtain r where r: "find (\<lambda>r. c_id r = i) (db_schedules db) = Some r" "s = scanScheduledTest r"
      using g by (auto simp: GetSchedule_def db_call_def Let_def split: option.splits)
    show thesis
    proof (cases "canManage ctx s")
      case True
      then show thesis using managed [OF r(1)] 3 g d r(2) by (simp add: managedSchedule_def)
    next
      case False
      then show thesis using rejected [of "''forbidden''" 403] 3 g d by (simp add: managedSchedule_def)
    qed
  qed (use rejected [of "''schedule not found''" 404] g d in \<open>auto simp: managedSchedule_def\<close>)
qed

subsection \<open>Operations behind the ownership check\<close>

text \<open>
  An operation that first loads the schedule and checks the user. Its clients rely on one law: what it does
  after the check does not depend on the user.
\<close>

locale guarded_operation =
  fixes h :: sched_handler
    and i :: string
    and operation :: "user_ctx \<Rightarrow> sched_db \<Rightarrow> sched_out"
  assumes guard: "\<exists>body. \<forall>ctx db. operation ctx db =
      (case managedSchedule h ctx i db of (Inl r, db1) \<Rightarrow> (r, db1) | (Inr existing, db1) \<Rightarrow> body existing db1)"
begin

lemma stranger_rejected:
  assumes "uc_Role ctx \<noteq> ''admin''" "\<forall>r \<in> set (db_schedules db). c_id r = i \<longrightarrow> c_user_id r \<noteq> uc_UserID ctx"
  shows "same_tables (snd (operation ctx db)) db \<and> status_code (fst (operation ctx db)) \<in> {403, 404}"
proof -
  obtain body where op: "\<And>ctx db. operation ctx db =
      (case managedSchedule h ctx i db of (Inl r, db1) \<Rightarrow> (r, db1) | (Inr existing, db1) \<Rightarrow> body existing db1)"
    using guard by blast
  show ?thesis
  proof (cases rule: managedSchedule_cases [of h ctx i db])
    case (rejected code msg)
    then show ?thesis by (auto simp: op)
  next
    case (managed r)
    then have "r \<in> set (db_schedules db)" "c_id r = i" by (auto dest: find_Some_set)
    then show ?thesis using managed(3) assms by (auto simp: canManage_def scanScheduledTest_def)
  qed
qed

text \<open>A success comes from the loaded schedule.\<close>

lemma accepted:
  assumes "operation ctx db = (HttpJson code v, db')" "find (\<lambda>r. c_id r = i) (db_schedules db) = Some r"
  shows "managedSchedule h ctx i db = (Inr (scanScheduledTest r), db\<lparr>db_calls := Suc (db_calls db)\<rparr>)"
proof (cases rule: managedSchedule_cases [of h ctx i db])
  case (rejected code' msg)
  then have "\<exists>d. operation ctx db = (HttpError msg code', d)" using guard by auto
  then show ?thesis using assms(1) by simp
next
  case (managed r')
  then show ?thesis using assms(2) by simp
qed

text \<open>Two users who may both manage the schedule have the same powers.\<close>

lemma managers_alike:
  assumes "find (\<lambda>r. c_id r = i) (db_schedules db) = Some r" "canManage a (scanScheduledTest r)" "canManage b (scanScheduledTest r)"
  shows "operation a db = operation b db"
proof -
  obtain body where op: "\<And>ctx db. operation ctx db =
      (case managedSchedule h ctx i db of (Inl r, db1) \<Rightarrow> (r, db1) | (Inr existing, db1) \<Rightarrow> body existing db1)"
    using guard by blast
  have "managedSchedule h a i db = managedSchedule h b i db"
    using assms by (simp add: managedSchedule_def GetSchedule_def db_call_def Let_def split: option.split)
  then show ?thesis by (simp add: op)
qed

end

interpretation upd: guarded_operation h i "Update_schedule h i body" for h i body
  by unfold_locales (rule exI, unfold Update_schedule_def, intro allI, rule refl)

interpretation del: guarded_operation h i "Delete_schedule h i scope occ" for h i scope occ
  by unfold_locales (rule exI, unfold Delete_schedule_def, intro allI, rule refl)

interpretation pse: guarded_operation h i "Pause_schedule h i" for h i
  by unfold_locales (rule exI, unfold Pause_schedule_def pause_to_def, intro allI, rule refl)

interpretation res: guarded_operation h i "Resume_schedule h i" for h i
  by unfold_locales (rule exI, unfold Resume_schedule_def pause_to_def, intro allI, rule refl)

interpretation run: guarded_operation h i "RunNow h i" for h i
  by unfold_locales (rule exI, unfold RunNow_def, intro allI, rule refl)

subsection \<open>Integrity\<close>

lemma wf_delete_row: "wf_db db \<Longrightarrow> wf_db (snd (delete_row h i scope db))"
  using wf_DeleteSchedule [of db "sh_env h" i] by (auto simp: delete_row_def split: prod.split sum.split)

lemma wf_update_row: "wf_db db \<Longrightarrow> wf_db (snd (update_row h s scope db))"
  using wf_UpdateSchedule [of db "sh_env h" s] by (auto simp: update_row_def split: prod.split sum.split)

lemma wf_delete_single: "wf_db db \<Longrightarrow> wf_db (snd (delete_single h i e occ n db))"
  by (auto simp: delete_single_def Let_def wf_delete_row wf_update_row split: sum.split)

lemma wf_delete_future: "wf_db db \<Longrightarrow> wf_db (snd (delete_future h i e occ n db))"
  by (auto simp: delete_future_def Let_def wf_delete_row wf_update_row)

lemma wf_overlap: "wf_db db \<Longrightarrow> checkScheduleOverlap h t d x db = (r, db') \<Longrightarrow> wf_db db'"
  by (metis CheckOverlap_tables checkScheduleOverlap_def snd_conv wf_same_tables)

lemma wf_count: "wf_db db \<Longrightarrow> CountScheduleExecutions env i db = (r, db') \<Longrightarrow> wf_db db'"
  by (metis query_snd(7) snd_conv wf_db_calls)

lemma wf_prepare: "wf_db db \<Longrightarrow> prepareUpdatedSchedule h e req db = (r, db') \<Longrightarrow> wf_db db'"
  by (auto simp: prepareUpdatedSchedule_def Let_def wf_overlap split: option.splits sum.splits prod.splits)

lemma wf_managed: "wf_db db \<Longrightarrow> managedSchedule h ctx i db = (r, db') \<Longrightarrow> wf_db db'"
  by (cases rule: managedSchedule_cases [of h ctx i db]) auto

lemma wf_UpdateSchedule_out: "wf_db db \<Longrightarrow> UpdateSchedule env s db = (r, db') \<Longrightarrow> wf_db db'"
  by (metis wf_UpdateSchedule snd_conv)

lemma wf_CreateSchedule_out: "wf_db db \<Longrightarrow> CreateSchedule env s db = (r, db') \<Longrightarrow> wf_db db'"
  by (metis wf_CreateSchedule snd_conv)

lemma wf_PauseSchedule_out: "wf_db db \<Longrightarrow> PauseSchedule env i b db = (r, db') \<Longrightarrow> wf_db db'"
  by (metis wf_PauseSchedule snd_conv)

lemmas wf_outs = wf_overlap [rotated] wf_count [rotated] wf_prepare [rotated] wf_managed [rotated]
  wf_UpdateSchedule_out [rotated] wf_CreateSchedule_out [rotated] wf_PauseSchedule_out [rotated]

lemmas wf_parts = wf_delete_row wf_delete_single wf_delete_future

text \<open>Case distinctions of a handler, one rule for each kind.\<close>

lemma wf_cases:
  "(\<And>a b. p = (a, b) \<Longrightarrow> wf_db (snd (fp a b))) \<Longrightarrow> wf_db (snd (case p of (a, b) \<Rightarrow> fp a b))"
  "(\<And>x. s = Inl x \<Longrightarrow> wf_db (snd (fl x))) \<Longrightarrow> (\<And>y. s = Inr y \<Longrightarrow> wf_db (snd (fr y))) \<Longrightarrow>
    wf_db (snd (case s of Inl x \<Rightarrow> fl x | Inr y \<Rightarrow> fr y))"
  "(opt = None \<Longrightarrow> wf_db (snd fn)) \<Longrightarrow> (\<And>x. opt = Some x \<Longrightarrow> wf_db (snd (fs x))) \<Longrightarrow>
    wf_db (snd (case opt of None \<Rightarrow> fn | Some x \<Rightarrow> fs x))"
  "(b \<Longrightarrow> wf_db (snd t)) \<Longrightarrow> (\<not> b \<Longrightarrow> wf_db (snd e)) \<Longrightarrow> wf_db (snd (if b then t else e))"
  "wf_db d \<Longrightarrow> wf_db (snd (r, d))"
  by (simp_all split: prod.split sum.split option.split)

lemma wf_Create: "wf_db db \<Longrightarrow> wf_db (snd (Create_schedule h body ctx db))"
  unfolding Create_schedule_def Let_def
  by (intro wf_cases wf_parts) (assumption | (rule wf_outs, assumption))+

lemma wf_Update: "wf_db db \<Longrightarrow> wf_db (snd (Update_schedule h i body ctx db))"
  unfolding Update_schedule_def Let_def
  by (intro wf_cases wf_parts) (assumption | (rule wf_outs, assumption))+

lemma wf_Delete: "wf_db db \<Longrightarrow> wf_db (snd (Delete_schedule h i scope occ ctx db))"
  unfolding Delete_schedule_def Let_def
  by (intro wf_cases wf_parts) (assumption | (rule wf_outs, assumption))+

lemma wf_pause: "wf_db db \<Longrightarrow> wf_db (snd (pause_to b m s h i ctx db))"
  unfolding pause_to_def Let_def
  by (intro wf_cases wf_parts) (assumption | (rule wf_outs, assumption))+

lemma wf_RunNow: "wf_db db \<Longrightarrow> wf_db (snd (RunNow h i ctx db))"
  unfolding RunNow_def Let_def
  by (intro wf_cases wf_parts) (assumption | (rule wf_outs, assumption))+

subsection \<open>Skipping one occurrence\<close>

lemma skipped_append:
  "isSkippedOccurrence t (appendSkippedOccurrence vs occ) \<longleftrightarrow> isSkippedOccurrence t vs \<or> sameOccurrence t occ"
  by (auto simp: isSkippedOccurrence_def appendSkippedOccurrence_def skippedOccurrenceExists_def sameOccurrence_def
      normalizeOccurrenceTime_def normalizeOccurrence_def list_ex_iff)

lemma slot_included_append:
  "slot_included d (appendSkippedOccurrence vs occ) a b t \<longleftrightarrow> slot_included d vs a b t \<and> \<not> sameOccurrence t occ"
  by (auto simp: slot_included_def skipped_append)

lemma expand_loop_append:
  "expand_loop n l t d rt re (appendSkippedOccurrence vs occ) a b =
    filter (\<lambda>slot. \<not> sameOccurrence (ts_Start slot) occ) (expand_loop n l t d rt re vs a b)"
  by (induction n arbitrary: t) (auto simp: Let_def slot_included_append slot_at_def split: option.split)

lemma expand_append:
  "ExpandOccurrences load t d rt tz re (appendSkippedOccurrence vs occ) a b =
    filter (\<lambda>slot. \<not> sameOccurrence (ts_Start slot) occ) (ExpandOccurrences load t d rt tz re vs a b)"
  by (auto simp: ExpandOccurrences_def expand_loop_append skipped_append slot_at_def)

definition row_slots :: "tz_database \<Rightarrow> time \<Rightarrow> time \<Rightarrow> sched_row \<Rightarrow> time_slot list" where
  "row_slots load a b r =
    ExpandOccurrences load (c_scheduled_at r) (c_estimated_duration_s r) (c_recurrence_type r) (c_timezone r)
      (c_recurrence_end r) (decodeSkippedOccurrences (c_skipped_occurrences r)) a b"

lemma update_row_effect:
  assumes "update_row h s scope db = (deleted_reply ''updated'' scope, db')"
    "find (\<lambda>r. c_id r = i) (db_schedules db) = Some r" "st_ID s = i"
  shows "find (\<lambda>r. c_id r = i) (db_schedules db') =
    Some (touch (sh_env h) r (row_of s (c_user_id r) (c_username r) (c_created_at r) (c_updated_at r)))"
proof -
  let ?f = "\<lambda>r. row_of s (c_user_id r) (c_username r) (c_created_at r) (c_updated_at r)"
  have "db_schedules db' = db_schedules (update_schedules (sh_env h) (\<lambda>r. c_id r = st_ID s) ?f db)"
    using assms(1) by (auto simp: update_row_def UpdateSchedule_def db_call_def update_schedules_def Let_def
        deleted_reply_def split: option.splits sum.splits prod.splits)
  moreover have "c_id (touch (sh_env h) r (?f r)) = st_ID s" for r by (simp add: row_of_def)
  ultimately show ?thesis using assms(2,3)
  proof -
    have "find (\<lambda>r. c_id r = i) (map (\<lambda>r. if c_id r = st_ID s then touch (sh_env h) r (?f r) else r) rs) =
        map_option (\<lambda>r. if c_id r = st_ID s then touch (sh_env h) r (?f r) else r) (find (\<lambda>r. c_id r = i) rs)" for rs
      using assms(3) by (induction rs) (auto simp: row_of_def)
    then show ?thesis using assms(2,3) \<open>db_schedules db' = _\<close> find_Some_set [OF assms(2)]
      by (simp add: update_schedules_def)
  qed
qed

lemma managedSchedule_snd [simp]: "snd (managedSchedule h ctx i db) = db\<lparr>db_calls := Suc (db_calls db)\<rparr>"
  by (cases rule: managedSchedule_cases [of h ctx i db]) auto

subsection \<open>Properties\<close>

text \<open>
  C7. A user who is neither an administrator nor the owner of a schedule cannot change it: the update, the
  deletion, pausing, resuming and triggering are refused with the status 403 or 404 and leave the tables as
  they were.
\<close>

theorem strangers_change_nothing:
  assumes "uc_Role ctx \<noteq> ''admin''" "\<forall>r \<in> set (db_schedules db). c_id r = i \<longrightarrow> c_user_id r \<noteq> uc_UserID ctx"
    and "out \<in> {Update_schedule h i body ctx db, Delete_schedule h i scope occ ctx db, Pause_schedule h i ctx db,
      Resume_schedule h i ctx db, RunNow h i ctx db}"
  shows "same_tables (snd out) db \<and> status_code (fst out) \<in> {403, 404}"
  using assms(3) upd.stranger_rejected [OF assms(1,2)] del.stranger_rejected [OF assms(1,2)]
    pse.stranger_rejected [OF assms(1,2)] res.stranger_rejected [OF assms(1,2)] run.stranger_rejected [OF assms(1,2)]
  by blast

definition demo_sched_handler :: sched_handler where
  "demo_sched_handler =
    \<lparr>sh_env = \<lparr>env_fault = (\<lambda>_. None), env_now = 1000 * hour, env_tz = (\<lambda>tz. if tz = ''UTC'' then Some utc_loc else None), env_uuid = ''u''\<rparr>,
     sh_here = utc_loc, sh_json = one_text_lib [] JNull, sh_url = demo_url_lib,
     sh_secrets = \<lparr>ss_crypto = demo_crypto, ss_rnd = Inr (replicate 12 (CHR ''n'')), ss_svc = None\<rparr>, sh_active = ([], 0)\<rparr>"

definition demo_daily :: sched_row where
  "demo_daily = row_of (zero_scheduled_test\<lparr>st_ID := ''a'', st_Status := ''scheduled'', st_RecurrenceType := ''daily'',
    st_ScheduledAt := 1010 * hour, st_EstimatedDurationS := 60, st_RecurrenceEnd := Some (1100 * hour)\<rparr>) 1 ''ada'' 0 0"

definition demo_daily_db :: sched_db where
  "demo_daily_db = \<lparr>db_schedules = [demo_daily], db_executions = [], db_calls = 0\<rparr>"

theorem strangers_change_nothing_witness:
  "db_schedules (snd (Delete_schedule demo_sched_handler ''a'' [] [] \<lparr>uc_UserID = 2, uc_Username = ''bob'', uc_Role = ''user''\<rparr> demo_daily_db)) = [demo_daily]"
  using strangers_change_nothing [of "\<lparr>uc_UserID = 2, uc_Username = ''bob'', uc_Role = ''user''\<rparr>" demo_daily_db "''a''"
      "Delete_schedule demo_sched_handler ''a'' [] [] \<lparr>uc_UserID = 2, uc_Username = ''bob'', uc_Role = ''user''\<rparr> demo_daily_db"
      demo_sched_handler None "[]" "[]"]
  by (simp add: same_tables_def demo_daily_db_def demo_daily_def row_of_def)



text \<open>
  Deleting a single later occurrence of a recurring schedule removes exactly that occurrence: the slots of
  the schedule in any range of the calendar are those before, without the ones that start in the same second.
\<close>

theorem delete_single_removes_one:
  assumes "Delete_schedule h i ''single'' occStr ctx db = (deleted_reply ''updated'' ''single'', db')"
    and "find (\<lambda>r. c_id r = i) (db_schedules db) = Some r" "parse_rfc3339 (trim_space occStr) = Some t" "trim_space occStr \<noteq> []"
    and "\<not> sameOccurrence (c_scheduled_at r) t"
  shows "\<exists>r'. find (\<lambda>r. c_id r = i) (db_schedules db') = Some r' \<and>
    row_slots load a b r' = filter (\<lambda>slot. \<not> sameOccurrence (ts_Start slot) t) (row_slots load a b r)"
proof -
  let ?occ = "normalizeOccurrence t"
  let ?s = "(scanScheduledTest r)\<lparr>st_SkippedOccurrences := appendSkippedOccurrence (st_SkippedOccurrences (scanScheduledTest r)) ?occ\<rparr>"
  have same: "sameOccurrence x ?occ = sameOccurrence x t" for x by (simp add: sameOccurrence_def normalizeOccurrence_def)
  define d1 where "d1 = db\<lparr>db_calls := Suc (db_calls db)\<rparr>"
  have m: "managedSchedule h ctx i db = (Inr (scanScheduledTest r), d1)"
    using del.accepted [OF assms(1) [unfolded deleted_reply_def] assms(2)] by (simp add: d1_def)
  obtain c d2 where c: "CountScheduleExecutions (sh_env h) i d1 = (c, d2)" by (cases "CountScheduleExecutions (sh_env h) i d1")
  have d2: "d2 = d1\<lparr>db_calls := Suc (db_calls d1)\<rparr>" using query_snd(7) [of "sh_env h" i d1] c by simp
  have "update_row h ?s ''single'' d2 = (deleted_reply ''updated'' ''single'', db')"
    using assms m c
    by (auto simp: Delete_schedule_def parseDeleteScope_def parseDeleteOccurrence_def delete_single_def same Let_def
        deleted_reply_def delete_row_def split: if_splits sum.splits prod.splits)
  from update_row_effect [OF this, of i r] assms(2) d2 d1_def
  have "find (\<lambda>r. c_id r = i) (db_schedules db') =
      Some (touch (sh_env h) r (row_of ?s (c_user_id r) (c_username r) (c_created_at r) (c_updated_at r)))"
    using find_Some_set [OF assms(2)] by simp
  moreover have "row_slots load a b (touch (sh_env h) r (row_of ?s u n x y)) =
      filter (\<lambda>slot. \<not> sameOccurrence (ts_Start slot) t) (row_slots load a b r)" for u n x y
  proof -
    have "c_estimated_duration_s (touch (sh_env h) r r') = c_estimated_duration_s r'" for r' by (simp add: touch_def)
    then show ?thesis by (simp add: row_slots_def row_of_def expand_append same) (simp add: scanScheduledTest_def)
  qed
  ultimately show ?thesis by blast
qed

lemmas parse_time_eval = parse_rfc3339_def get_digits_def get_hour_def skip_char_def get_fraction_def get_zone_def
  days_in_def day_number_def days_from_civil_def year_start_def month_start_def is_digit_def digits_val_def digit_val_def

lemma demo_occurrence: "parse_rfc3339 ''1970-02-13T02:00:00Z'' = Some (1034 * hour)"
  by (simp add: parse_time_eval)

lemma demo_occurrence_trim: "trim_space ''1970-02-13T02:00:00Z'' = ''1970-02-13T02:00:00Z''"
  by (rule trim_space_plain) (simp_all add: is_plain_def)

abbreviation (input) demo_ada :: user_ctx where
  "demo_ada \<equiv> \<lparr>uc_UserID = 1, uc_Username = ''ada'', uc_Role = ''user''\<rparr>"

lemma demo_managed: "managedSchedule demo_sched_handler demo_ada ''a'' demo_daily_db =
    (Inr (scanScheduledTest demo_daily), demo_daily_db\<lparr>db_calls := 1\<rparr>)"
  by (simp add: managedSchedule_def GetSchedule_def db_call_def canManage_def demo_sched_handler_def demo_daily_db_def
      demo_daily_def scanScheduledTest_def row_of_def zero_scheduled_test_def)

lemma demo_truncate: "truncate_second (1034 * hour) = 1034 * hour" "truncate_second (1010 * hour) = 1010 * hour"
  "truncate_second (1000 * hour - minute) = 1000 * hour - minute"
  by (simp_all add: truncate_second_def zero_time_def)

lemma demo_delete_single:
  "\<exists>db'. Delete_schedule demo_sched_handler ''a'' ''single'' ''1970-02-13T02:00:00Z'' demo_ada demo_daily_db =
    (deleted_reply ''updated'' ''single'', db')"
  unfolding Delete_schedule_def demo_managed
  by (simp add: demo_occurrence demo_occurrence_trim parseDeleteScope_def parseDeleteOccurrence_def normalizeOccurrence_def
      hasPastOccurrence_def demo_truncate CountScheduleExecutions_def db_call_def delete_single_def update_row_def
      UpdateSchedule_def sameOccurrence_def demo_daily_db_def demo_daily_def row_of_def demo_sched_handler_def
      zero_scheduled_test_def truncate_second_def zero_time_def)

theorem delete_single_removes_one_witness:
  "\<exists>db' r'. Delete_schedule demo_sched_handler ''a'' ''single'' ''1970-02-13T02:00:00Z'' demo_ada demo_daily_db =
      (deleted_reply ''updated'' ''single'', db') \<and>
    find (\<lambda>r. c_id r = ''a'') (db_schedules db') = Some r' \<and>
    slot_at 60 (1034 * hour) \<notin> set (row_slots (\<lambda>_. Some utc_loc) 0 (1100 * hour) r')"
proof -
  obtain db' where d: "Delete_schedule demo_sched_handler ''a'' ''single'' ''1970-02-13T02:00:00Z'' demo_ada demo_daily_db =
      (deleted_reply ''updated'' ''single'', db')" using demo_delete_single by blast
  have f: "find (\<lambda>r. c_id r = ''a'') (db_schedules demo_daily_db) = Some demo_daily"
    by (simp add: demo_daily_db_def demo_daily_def row_of_def)
  have n: "\<not> sameOccurrence (c_scheduled_at demo_daily) (1034 * hour)"
    by (simp add: sameOccurrence_def normalizeOccurrence_def demo_daily_def row_of_def truncate_second_def zero_time_def)
  show ?thesis
    using delete_single_removes_one [OF d f, of "1034 * hour" "\<lambda>_. Some utc_loc" 0 "1100 * hour"] n d
    by (auto simp: demo_occurrence demo_occurrence_trim sameOccurrence_def slot_at_def)
qed

text \<open>
  Triggering a schedule makes it due: after a successful trigger its row is due at once, and the query of the
  scheduler's next tick, if it does not fail, finds a schedule. The time of the schedule is overwritten by the
  time of the trigger, so a recurring schedule continues from there.
\<close>

theorem triggered_schedule_is_due:
  assumes "RunNow h i ctx db = (HttpJson code v, db')" "find (\<lambda>r. c_id r = i) (db_schedules db) = Some r"
  shows "\<exists>r'. find (\<lambda>r. c_id r = i) (db_schedules db') = Some r' \<and> is_due (env_now (sh_env h)) r' \<and>
    c_scheduled_at r' = env_now (sh_env h) - second \<and> c_recurrence_type r' = c_recurrence_type r \<and>
    (env_fault (sh_env h) (db_calls db') = None \<longrightarrow> (\<exists>s. fst (GetDueSchedule (sh_env h) db') = Inr (Some s)))"
proof -
  define d1 where "d1 = db\<lparr>db_calls := Suc (db_calls db)\<rparr>"
  let ?s = "(scanScheduledTest r)\<lparr>st_ScheduledAt := env_now (sh_env h) - second, st_Status := ''scheduled'', st_Paused := False\<rparr>"
  have m: "managedSchedule h ctx i db = (Inr (scanScheduledTest r), d1)"
    using run.accepted [OF assms] by (simp add: d1_def)
  have "update_row h ?s ''single'' d1 = (deleted_reply ''updated'' ''single'', db')"
    using assms(1) m by (auto simp: RunNow_def update_row_def split: if_splits sum.splits prod.splits)
  from update_row_effect [OF this, of i r] assms(2)
  have f: "find (\<lambda>r. c_id r = i) (db_schedules db') =
      Some (touch (sh_env h) r (row_of ?s (c_user_id r) (c_username r) (c_created_at r) (c_updated_at r)))" (is "_ = Some ?r'")
    using find_Some_set [OF assms(2)] by (simp add: d1_def)
  have due: "is_due (env_now (sh_env h)) ?r'"
    using truncate_second_le(2) [of "env_now (sh_env h)"] by (simp add: is_due_def row_of_def)
  have "?r' \<in> set (db_schedules db')" using find_Some_set [OF f] by simp
  with due have "filter (is_due (env_now (sh_env h))) (db_schedules db') \<noteq> []" by (auto simp: filter_empty_conv)
  then obtain x xs where "sort_key c_scheduled_at (filter (is_due (env_now (sh_env h))) (db_schedules db')) = x # xs"
    by (metis length_0_conv length_sort neq_Nil_conv)
  then have "env_fault (sh_env h) (db_calls db') = None \<Longrightarrow> \<exists>s. fst (GetDueSchedule (sh_env h) db') = Inr (Some s)"
    by (simp add: GetDueSchedule_def db_call_def)
  then show ?thesis using f due by (simp add: row_of_def)
qed

theorem triggered_schedule_is_due_witness:
  "\<exists>db' r'. RunNow demo_sched_handler ''a'' demo_ada demo_daily_db =
      (HttpJson 200 (StatusReply [(''status'', ''triggered''), (''message'', ''Schedule will execute within the next 10 seconds'')]), db') \<and>
    find (\<lambda>r. c_id r = ''a'') (db_schedules db') = Some r' \<and> is_due (1000 * hour) r' \<and> c_scheduled_at r' = 1000 * hour - second"
proof -
  obtain db' where d: "RunNow demo_sched_handler ''a'' demo_ada demo_daily_db =
      (HttpJson 200 (StatusReply [(''status'', ''triggered''), (''message'', ''Schedule will execute within the next 10 seconds'')]), db')"
    unfolding RunNow_def demo_managed by (simp add: UpdateSchedule_def db_call_def demo_sched_handler_def demo_daily_db_def)
  have f: "find (\<lambda>r. c_id r = ''a'') (db_schedules demo_daily_db) = Some demo_daily"
    by (simp add: demo_daily_db_def demo_daily_def row_of_def)
  show ?thesis using triggered_schedule_is_due [OF d f] d by (auto simp: demo_sched_handler_def)
qed

subsection \<open>Created schedules\<close>

lemma check_create_ok:
  assumes "check_create h req = Inr v"
  shows "vs_recType v \<in> set valid_recurrences" "env_tz (sh_env h) (vs_timezone v) \<noteq> None"
    "env_now (sh_env h) - minute \<le> vs_scheduledAt v" "EstimateDurationSeconds (sh_json h) req = Inr (vs_durationS v)"
  using assms by (auto simp: check_create_def Let_def bind_res_Inr split: if_splits option.splits)

lemma create_201:
  assumes "Create_schedule h (Some req0) ctx db = (HttpJson 201 (ScheduleReply s), db')"
  obtains v req cfg db1 where "validateCreateRequest h req0 = Some (Inr (v, req))"
    "checkScheduleOverlap h (vs_scheduledAt v) (vs_durationS v) [] db = (Inr None, db1)"
    "s = (new_schedule h ctx v req)\<lparr>st_AuthConfig := cfg\<rparr>" "CreateSchedule (sh_env h) s db1 = (Inr (), db')"
  using assms
  by (auto simp: Create_schedule_def panic_response_def Let_def split: option.splits sum.splits prod.splits)


subsection \<open>The slot and the ramp\<close>

text \<open>The requests whose run the ramping manager drives: well-formed stages, or users for a time.\<close>

definition ramp_request :: "create_schedule_request \<Rightarrow> bool" where
  "ramp_request req \<longleftrightarrow>
    cr_Executor req = ''ramping-vus'' \<and> stages_of req \<noteq> [] \<and> durations_fit (stages_of req) \<and> targets_fit (stages_of req) \<or>
    cr_Executor req = ''constant-vus'' \<and> 0 < cr_VUs req \<and> cr_VUs req \<le> 2 ^ 52 \<and> cr_Duration req \<noteq> [] \<and>
      0 \<le> ParseK6Duration (cr_Duration req) \<and> ParseK6Duration (cr_Duration req) * second < 2 ^ 63"

lemma estimate_ramping:
  assumes "durations_fit (stages_of req)" "cr_Executor req = ''ramping-vus''"
  shows "estimateFromBuilder req = sum_secs (map stg_Duration (stages_of req))"
proof -
  have nn: "\<forall>d \<in> set (map stg_Duration (stages_of req)). 0 \<le> parseDuration d"
    using assms(1) by (auto simp: durations_fit_def list_all_iff)
  have "sum_secs (map stg_Duration (stages_of req)) * second < 2 ^ 63" using assms(1) by (simp add: durations_fit_def)
  with sum_secs_nonneg [OF nn] have "0 + sum_secs (map stg_Duration (stages_of req)) < 2 ^ 63" by simp
  from total_secs_sum [OF nn _ this] show ?thesis
    using assms(2) by (simp add: estimateFromBuilder_def fold_total_secs Let_def)
qed

lemma ramp_ends_with_estimate:
  assumes "ramp_request req" "0 \<le> t"
    and "req_Executor r = cr_Executor req" "req_Stages r = stages_of req" "req_VUs r = cr_VUs req" "req_Duration r = cr_Duration req"
  shows "snd (resolveBuilderRamping r) \<and>
    (fst (snd (calculateVUs (fst (resolveBuilderRamping r)) t)) \<longleftrightarrow> estimateFromBuilder req * second \<le> t) \<and>
    0 \<le> estimateFromBuilder req \<and> estimateFromBuilder req * second < 2 ^ 63"
proof (cases "cr_Executor req = ''ramping-vus''")
  case True
  with assms(1) have st: "stages_of req \<noteq> []" "durations_fit (stages_of req)" "targets_fit (stages_of req)"
    by (auto simp: ramp_request_def)
  note e = estimate_ramping [OF st(2) True]
  obtain v fin i where c: "calculateVUs (stages_of req) t = (v, fin, i)" by (cases "calculateVUs (stages_of req) t")
  have "fin \<longleftrightarrow> sum_secs (map stg_Duration (stages_of req)) * second \<le> t"
    using ramp_within(3) [OF st(2,3,1) assms(2) c] .
  moreover have "0 \<le> sum_secs (map stg_Duration (stages_of req))"
    using st(2) by (intro sum_secs_nonneg) (auto simp: durations_fit_def list_all_iff)
  ultimately show ?thesis using True assms(3,4) st(1,2) c e
    by (simp add: resolveBuilderRamping_def durations_fit_def)
next
  case False
  with assms(1) have k: "cr_Executor req = ''constant-vus''" "0 < cr_VUs req" "cr_VUs req \<le> 2 ^ 52" "cr_Duration req \<noteq> []"
    "0 \<le> parseDuration (cr_Duration req)" "parseDuration (cr_Duration req) * second < 2 ^ 63"
    by (auto simp: ramp_request_def ParseK6Duration_def)
  have "resolveBuilderRamping r = (constant_stages (cr_Duration req) (cr_VUs req), True)"
    using k assms(3-6) by (simp add: resolveBuilderRamping_def constant_stages_def Let_def)
  moreover have "estimateFromBuilder req = parseDuration (cr_Duration req)"
    using k by (simp add: estimateFromBuilder_def ParseK6Duration_def)
  ultimately show ?thesis using k constant_ramp [of "cr_Duration req" "cr_VUs req" t] assms(2) by simp
qed

text \<open>
  The slot reserved for a builder test agrees with its run: when the controller drives the ramp and the
  request gives no estimate of its own, the ramp of the created schedule is over exactly from the estimated
  duration less the buffer of 30 seconds on.
\<close>

theorem created_slot_matches_ramp:
  assumes "check_create h req = Inr v" "s = (new_schedule h ctx v req)\<lparr>st_AuthConfig := cfg\<rparr>"
    and "cr_EstimatedDurationS req \<le> 0" "cr_Mode req = ''builder''" "ramp_request req" "0 < estimateFromBuilder req" "0 \<le> t"
  shows "snd (resolveBuilderRamping (ToTestRequest s)) \<and>
    (fst (snd (calculateVUs (fst (resolveBuilderRamping (ToTestRequest s))) t)) \<longleftrightarrow> (st_EstimatedDurationS s - 30) * second \<le> t)"
proof -
  have r: "req_Executor (ToTestRequest s) = cr_Executor req" "req_Stages (ToTestRequest s) = stages_of req"
    "req_VUs (ToTestRequest s) = cr_VUs req" "req_Duration (ToTestRequest s) = cr_Duration req"
    by (simp_all add: ToTestRequest_def assms(2) new_schedule_def)
  note ramp = ramp_ends_with_estimate [OF assms(5,7) r]
  have "in_int64 (estimateFromBuilder req + 30)" using ramp by (auto simp: in_int64_def)
  then have "EstimateDurationSeconds (sh_json h) req = Inr (estimateFromBuilder req + 30)"
    using assms(3,4,6) by (simp add: EstimateDurationSeconds_def testBufferSeconds_def wrap64_id)
  then have "vs_durationS v = estimateFromBuilder req + 30" using check_create_ok(4) [OF assms(1)] by simp
  then show ?thesis using ramp by (simp add: assms(2) new_schedule_def)
qed

text \<open>A request that is accepted: five users for a minute.\<close>

definition demo_create :: create_schedule_request where
  "demo_create = zero_schedule_request\<lparr>cr_Name := ''n'', cr_ProjectName := ''p'', cr_URL := ''http://x'', cr_Mode := ''builder'',
    cr_Executor := ''constant-vus'', cr_VUs := 5, cr_Duration := ''1m'', cr_ScheduledAt := ''1970-02-13T02:00:00Z''\<rparr>"

definition demo_norm :: create_schedule_request where
  "demo_norm = demo_create\<lparr>cr_HTTPMethod := ''GET'', cr_ContentType := ''application/json''\<rparr>"

definition demo_validated :: validated_schedule where
  "demo_validated = \<lparr>vs_scheduledAt = 1034 * hour, vs_timezone = ''UTC'', vs_recType = ''once'', vs_recEnd = None, vs_durationS = 90\<rparr>"

text \<open>A request without payload settings gets the defaults of the builder.\<close>

lemma plain_payload_fields:
  "\<exists>a. normalizePayloadFields lib False [] [] [] 0 = Some (Inr (Some a, ''GET'', ''application/json'', []))"
  by (simp add: normalizePayloadFields_def BuildBuilderPayloadArtifacts_def NormalizeHTTPMethod_def NormalizeContentType_def
      validateBuilderHTTPMethod_def MethodAllowsBody_def payloadTargetBytes_def zero_test_request_def to_upper_def upper_char_def
      is_plain_def Let_def)

lemma demo_normalized:
  "normalizeScheduleRequestPayload (sh_json demo_sched_handler) (sh_url demo_sched_handler) demo_create = Some (Inr demo_norm)"
proof -
  obtain a where "normalizePayloadFields (sh_json demo_sched_handler) False [] [] [] 0 =
      Some (Inr (Some a, ''GET'', ''application/json'', []))" using plain_payload_fields by blast
  then show ?thesis
    by (simp add: normalizeScheduleRequestPayload_def normalizeAuthInput_def demo_create_def demo_norm_def zero_schedule_request_def
        zero_auth_input_def)
qed

lemma demo_estimate: "EstimateDurationSeconds lib demo_norm = Inr 90" "estimateFromBuilder demo_norm = 60"
  by (simp_all add: EstimateDurationSeconds_def estimateFromBuilder_def demo_norm_def demo_create_def zero_schedule_request_def
      ParseK6Duration_def parseDuration_eval testBufferSeconds_def)

lemma demo_checked: "check_create demo_sched_handler demo_norm = Inr demo_validated"
proof -
  have f: "cr_Auth demo_norm = zero_auth_input" "cr_ScheduledAt demo_norm = ''1970-02-13T02:00:00Z''" "cr_Timezone demo_norm = []"
    "cr_RecurrenceType demo_norm = []" "cr_RecurrenceEnd demo_norm = None"
    by (simp_all add: demo_norm_def demo_create_def zero_schedule_request_def)
  have "env_now (sh_env demo_sched_handler) = 1000 * hour" "env_tz (sh_env demo_sched_handler) ''UTC'' = Some utc_loc"
    by (simp_all add: demo_sched_handler_def)
  then show ?thesis
    by (simp add: check_create_def f demo_estimate demo_occurrence demo_validated_def zero_auth_input_def valid_recurrences_def
        parseRecurrenceEnd_def)
qed

theorem created_slot_matches_ramp_witness:
  "snd (resolveBuilderRamping (ToTestRequest (new_schedule demo_sched_handler demo_ada demo_validated demo_norm))) \<and>
   fst (snd (calculateVUs (fst (resolveBuilderRamping (ToTestRequest (new_schedule demo_sched_handler demo_ada demo_validated demo_norm)))) (60 * second)))"
proof -
  let ?s = "new_schedule demo_sched_handler demo_ada demo_validated demo_norm"
  have s: "?s = ?s\<lparr>st_AuthConfig := zero_auth_config\<rparr>" by (simp add: new_schedule_def)
  have "ramp_request demo_norm"
    by (simp add: ramp_request_def demo_norm_def demo_create_def zero_schedule_request_def ParseK6Duration_def parseDuration_eval)
  moreover have "cr_EstimatedDurationS demo_norm \<le> 0" "cr_Mode demo_norm = ''builder''"
    by (simp_all add: demo_norm_def demo_create_def zero_schedule_request_def)
  ultimately show ?thesis
    using created_slot_matches_ramp [OF demo_checked s, of "60 * second"] demo_estimate(2)
    by (simp add: new_schedule_def demo_validated_def)
qed


subsection \<open>Updates and deletions that go wrong\<close>

text \<open>
  An update of a schedule ignores the parameters of its run: the users, duration, rates, think time and the
  end of the recurrence stay as they were, while the estimated duration follows the request. A request
  without an HTTP method, as for a change of the name, sets the method to GET and, without a content type, the
  content type to JSON.
\<close>

theorem update_ignores_run_parameters:
  assumes "normalizeScheduleRequestPayload lib ul req0 = Some (Inr req)" "applyScheduleUpdates lib existing req = Some s"
  shows "st_VUs s = st_VUs existing \<and> st_Duration s = st_Duration existing \<and> st_Rate s = st_Rate existing \<and>
    st_TimeUnit s = st_TimeUnit existing \<and> st_PreAllocatedVUs s = st_PreAllocatedVUs existing \<and> st_MaxVUs s = st_MaxVUs existing \<and>
    st_SleepSeconds s = st_SleepSeconds existing \<and> st_RecurrenceRule s = st_RecurrenceRule existing \<and>
    st_RecurrenceEnd s = st_RecurrenceEnd existing \<and>
    (\<exists>d. st_EstimatedDurationS s = d \<and>
      (EstimateDurationSeconds lib req = Inr d \<and> 0 < d \<or>
       d = st_EstimatedDurationS existing \<and> (\<forall>d'. EstimateDurationSeconds lib req = Inr d' \<longrightarrow> d' \<le> 0))) \<and>
    (cr_ScriptContent req0 = [] \<and> trim_space (cr_HTTPMethod req0) = [] \<longrightarrow> st_HTTPMethod s = ''GET'') \<and>
    (cr_ScriptContent req0 = [] \<and> trim_space (cr_ContentType req0) = [] \<longrightarrow> st_ContentType s = ''application/json'')"
proof -
  have m: "cr_ScriptContent req0 = [] \<Longrightarrow> cr_HTTPMethod req = NormalizeHTTPMethod (cr_HTTPMethod req0) \<and>
      cr_ContentType req = NormalizeContentType (cr_ContentType req0)"
    using assms(1)
    by (auto simp: normalizeScheduleRequestPayload_def normalizePayloadFields_def bind_res_Inr Let_def split: sum.splits if_splits)
  have u: "st_HTTPMethod s = keep (st_HTTPMethod existing) (cr_HTTPMethod req)" "st_ContentType s = keep (st_ContentType existing) (cr_ContentType req)"
    "st_EstimatedDurationS s = (case EstimateDurationSeconds lib req of
        Inr d \<Rightarrow> if 0 < d then d else st_EstimatedDurationS existing | Inl _ \<Rightarrow> st_EstimatedDurationS existing)"
    "st_VUs s = st_VUs existing \<and> st_Duration s = st_Duration existing \<and> st_Rate s = st_Rate existing \<and>
     st_TimeUnit s = st_TimeUnit existing \<and> st_PreAllocatedVUs s = st_PreAllocatedVUs existing \<and> st_MaxVUs s = st_MaxVUs existing \<and>
     st_SleepSeconds s = st_SleepSeconds existing \<and> st_RecurrenceRule s = st_RecurrenceRule existing \<and>
     st_RecurrenceEnd s = st_RecurrenceEnd existing"
    using assms(2) by (auto simp: applyScheduleUpdates_def Let_def split: option.splits sum.splits)
  show ?thesis
    using m u by (cases "EstimateDurationSeconds lib req") (auto simp: keep_def NormalizeHTTPMethod_def NormalizeContentType_def to_upper_def)
qed

definition demo_post :: scheduled_test where
  "demo_post = zero_scheduled_test\<lparr>st_HTTPMethod := ''POST'', st_Duration := ''1h'', st_EstimatedDurationS := 3630\<rparr>"

theorem update_ignores_run_parameters_witness:
  "\<exists>s. applyScheduleUpdates (sh_json demo_sched_handler) demo_post demo_norm = Some s \<and> st_HTTPMethod s = ''GET'' \<and>
    st_EstimatedDurationS s = 90 \<and> st_Duration s = ''1h''"
proof -
  obtain s where s: "applyScheduleUpdates (sh_json demo_sched_handler) demo_post demo_norm = Some s"
    using demo_occurrence by (auto simp: applyScheduleUpdates_def demo_norm_def demo_create_def zero_schedule_request_def Let_def)
  have "cr_ScriptContent demo_create = []" "cr_HTTPMethod demo_create = []"
    by (simp_all add: demo_create_def zero_schedule_request_def)
  then show ?thesis
    using update_ignores_run_parameters [OF demo_normalized s] s demo_estimate by (auto simp: demo_post_def)
qed

text \<open>
  Deleting the future of a recurring schedule sets the end of the recurrence to one second before the given
  occurrence, also when the recurrence ended earlier: then the deletion extends the series.
\<close>

theorem delete_future_can_extend:
  assumes "Delete_schedule h i ''future'' occStr ctx db = (deleted_reply ''updated'' ''future'', db')"
    and "find (\<lambda>r. c_id r = i) (db_schedules db) = Some r" "parse_rfc3339 (trim_space occStr) = Some t" "trim_space occStr \<noteq> []"
    and "c_recurrence_end r = Some e" "e < truncate_second t - second" "c_scheduled_at r < truncate_second t"
  shows "\<exists>r' e'. find (\<lambda>r. c_id r = i) (db_schedules db') = Some r' \<and> c_recurrence_end r' = Some e' \<and> e < e' \<and>
    c_status r' = c_status r \<and> c_scheduled_at r' = c_scheduled_at r"
proof -
  let ?s = "(scanScheduledTest r)\<lparr>st_RecurrenceEnd := Some (normalizeOccurrence t - second),
    st_SkippedOccurrences := filterSkippedOccurrencesBefore (st_SkippedOccurrences (scanScheduledTest r)) (normalizeOccurrence t)\<rparr>"
  define d1 where "d1 = db\<lparr>db_calls := Suc (db_calls db)\<rparr>"
  have m: "managedSchedule h ctx i db = (Inr (scanScheduledTest r), d1)"
    using del.accepted [OF assms(1) [unfolded deleted_reply_def] assms(2)] by (simp add: d1_def)
  obtain c d2 where c: "CountScheduleExecutions (sh_env h) i d1 = (c, d2)" by (cases "CountScheduleExecutions (sh_env h) i d1")
  have d2: "d2 = d1\<lparr>db_calls := Suc (db_calls d1)\<rparr>" using query_snd(7) [of "sh_env h" i d1] c by simp
  have "update_row h ?s ''future'' d2 = (deleted_reply ''updated'' ''future'', db')"
    using assms(1,3,4,7) m c
    by (auto simp: Delete_schedule_def parseDeleteScope_def parseDeleteOccurrence_def delete_future_def Let_def normalizeOccurrence_def
        deleted_reply_def delete_row_def split: if_splits sum.splits prod.splits)
  from update_row_effect [OF this, of i r] assms(2) d2 d1_def find_Some_set [OF assms(2)] assms(6)
  show ?thesis by (simp add: row_of_def normalizeOccurrence_def)
qed

lemma demo_late: "parse_rfc3339 ''1970-04-01T00:00:00Z'' = Some (2160 * hour)"
  "trim_space ''1970-04-01T00:00:00Z'' = ''1970-04-01T00:00:00Z''"
  by (simp add: parse_time_eval) (rule trim_space_plain, simp_all add: is_plain_def)

theorem delete_future_can_extend_witness:
  "\<exists>db' r' e'. Delete_schedule demo_sched_handler ''a'' ''future'' ''1970-04-01T00:00:00Z'' demo_ada demo_daily_db =
      (deleted_reply ''updated'' ''future'', db') \<and>
    find (\<lambda>r. c_id r = ''a'') (db_schedules db') = Some r' \<and> c_recurrence_end r' = Some e' \<and> 1100 * hour < e'"
proof -
  obtain db' where d: "Delete_schedule demo_sched_handler ''a'' ''future'' ''1970-04-01T00:00:00Z'' demo_ada demo_daily_db =
      (deleted_reply ''updated'' ''future'', db')"
    unfolding Delete_schedule_def demo_managed
    by (simp add: demo_late parseDeleteScope_def parseDeleteOccurrence_def normalizeOccurrence_def
        hasPastOccurrence_def CountScheduleExecutions_def db_call_def delete_future_def update_row_def
        UpdateSchedule_def demo_daily_db_def demo_daily_def row_of_def demo_sched_handler_def
        zero_scheduled_test_def truncate_second_def zero_time_def)
  have f: "find (\<lambda>r. c_id r = ''a'') (db_schedules demo_daily_db) = Some demo_daily"
    by (simp add: demo_daily_db_def demo_daily_def row_of_def)
  show ?thesis
    using delete_future_can_extend [OF d f, of "2160 * hour" "1100 * hour"] d
    by (auto simp: demo_late demo_daily_def row_of_def truncate_second_def zero_time_def)
qed

end
