(* ===== verification/Tables.thy ===== *)
theory Tables
  imports ScheduleStore
begin

text \<open>
  Statements on one table of the store, for the tables of templates, users and load tests: a table is the list
  of its rows with the number of statements executed so far. As for the schedule tables, the environment
  gives the error of the n-th statement, if any, the clock, and the UUID that is generated before it; a
  statement that fails changes nothing.
\<close>

record store_env =
  se_fault :: "nat \<Rightarrow> string option"
  se_now :: time
  se_uuid :: "nat \<Rightarrow> string"

type_synonym 'r table = "'r list \<times> nat"

definition stmt :: "store_env \<Rightarrow> string \<Rightarrow> ('r list \<Rightarrow> 'a res \<times> 'r list) \<Rightarrow> 'r table \<Rightarrow> 'a res \<times> 'r table" where
  "stmt env msg f tab =
    (case tab of (rs, n) \<Rightarrow>
      (case se_fault env n of
         Some e \<Rightarrow> (Inl (msg @ '': '' @ e), (rs, Suc n))
       | None \<Rightarrow> (case f rs of (r, rs') \<Rightarrow> (wrap_err msg r, (rs', Suc n)))))"

definition stmt_query :: "store_env \<Rightarrow> string \<Rightarrow> ('r list \<Rightarrow> 'a) \<Rightarrow> 'r table \<Rightarrow> 'a res \<times> 'r table" where
  "stmt_query env msg q = stmt env msg (\<lambda>rs. (Inr (q rs), rs))"

definition stmt_update :: "store_env \<Rightarrow> string \<Rightarrow> ('r \<Rightarrow> bool) \<Rightarrow> ('r \<Rightarrow> 'r) \<Rightarrow> 'r table \<Rightarrow> unit res \<times> 'r table" where
  "stmt_update env msg wh f = stmt env msg (\<lambda>rs. (Inr (), map (\<lambda>r. if wh r then f r else r) rs))"

definition stmt_delete :: "store_env \<Rightarrow> string \<Rightarrow> ('r \<Rightarrow> bool) \<Rightarrow> 'r table \<Rightarrow> unit res \<times> 'r table" where
  "stmt_delete env msg wh = stmt env msg (\<lambda>rs. (Inr (), filter (\<lambda>r. \<not> wh r) rs))"

text \<open>\<^verbatim>\<open>INSERT\<close> under a unique condition: \<open>clash\<close> says that a row stands in the way of the new one.\<close>

definition stmt_insert :: "store_env \<Rightarrow> string \<Rightarrow> ('r \<Rightarrow> bool) \<Rightarrow> 'r \<Rightarrow> 'r table \<Rightarrow> unit res \<times> 'r table" where
  "stmt_insert env msg clash r =
    stmt env msg (\<lambda>rs. if list_ex clash rs then (Inl ''Duplicate entry'', rs) else (Inr (), rs @ [r]))"

lemma stmt_rows: "fst (snd (stmt env msg f (rs, n))) = (if se_fault env n = None then snd (f rs) else rs)"
  by (simp add: stmt_def split: option.split prod.split)

lemma stmt_calls [simp]: "snd (snd (stmt env msg f tab)) = Suc (snd tab)"
  by (simp add: stmt_def split: option.split prod.split)

lemma stmt_ok: "fst (stmt env msg f (rs, n)) = Inr x \<longleftrightarrow> se_fault env n = None \<and> fst (f rs) = Inr x"
  by (auto simp: stmt_def split: option.split prod.split)

lemma stmt_query_rows [simp]: "fst (snd (stmt_query env msg q tab)) = fst tab"
  by (cases tab) (simp add: stmt_query_def stmt_rows)

lemma stmt_query_ok [simp]: "fst (stmt_query env msg q (rs, n)) = Inr x \<longleftrightarrow> se_fault env n = None \<and> q rs = x"
  by (auto simp: stmt_query_def stmt_ok)

lemma stmt_query_eq:
  "stmt_query env msg q (rs, n) =
    (case se_fault env n of Some e \<Rightarrow> (Inl (msg @ '': '' @ e), (rs, Suc n)) | None \<Rightarrow> (Inr (q rs), (rs, Suc n)))"
  by (simp add: stmt_query_def stmt_def split: option.split)

lemma stmt_query_cases:
  obtains (failed) e where "stmt_query env msg q tab = (Inl e, (fst tab, Suc (snd tab)))"
  | (found) "stmt_query env msg q tab = (Inr (q (fst tab)), (fst tab, Suc (snd tab)))"
proof -
  obtain rs n where tab: "tab = (rs, n)" by (cases tab)
  show thesis using that by (cases "se_fault env n") (simp_all add: tab stmt_query_eq)
qed

text \<open>A table with a key keeps its keys distinct.\<close>

lemma distinct_insert:
  assumes "distinct (map k rs)" "k r = key" "\<And>x. x \<in> set rs \<Longrightarrow> k x = key \<Longrightarrow> clash x"
  shows "distinct (map k (fst (snd (stmt_insert env msg clash r (rs, n)))))"
  using assms by (auto simp: stmt_insert_def stmt_rows list_ex_iff)

lemma distinct_update:
  assumes "distinct (map k rs)" "\<And>r. wh r \<Longrightarrow> k (f r) = k r"
  shows "distinct (map k (fst (snd (stmt_update env msg wh f (rs, n)))))"
proof -
  have "map k (map (\<lambda>r. if wh r then f r else r) rs) = map k rs" using assms(2) by simp
  then show ?thesis using assms(1) by (simp add: stmt_update_def stmt_rows del: map_map)
qed

lemma distinct_delete:
  assumes "distinct (map k rs)"
  shows "distinct (map k (fst (snd (stmt_delete env msg wh (rs, n)))))"
  using assms by (simp add: stmt_delete_def stmt_rows distinct_map_filter)

end
