(* ===== verification/Templates.thy ===== *)
theory Templates
  imports Tables Requests Http
begin

text \<open>
  Test templates: the table \<^verbatim>\<open>test_templates\<close> of \<^verbatim>\<open>controller/internal/store/store.go\<close> and the handlers of
  \<^verbatim>\<open>controller/internal/handler/template.go\<close>, with \<^verbatim>\<open>normalizeTemplateRequestPayload\<close> of
  \<^verbatim>\<open>controller/internal/handler/test.go\<close>.

  The handlers are given the decoded body of the request; for the import of system templates, which tries
  three formats, what each attempt to decode gives.
\<close>

subsection \<open>Data\<close>

record test_template =
  tt_ID :: string
  tt_Name :: string
  tt_Description :: string
  tt_Mode :: string
  tt_URL :: string
  tt_Stages :: "stage list"
  tt_ScriptContent :: string
  tt_ConfigContent :: string
  tt_HTTPMethod :: string
  tt_ContentType :: string
  tt_PayloadJSON :: string
  tt_PayloadTargetKiB :: int
  tt_AuthConfig :: auth_config
  tt_Executor :: string
  tt_System :: bool
  tt_UserID :: int
  tt_Username :: string
  tt_CreatedAt :: time
  tt_UpdatedAt :: time

record template_request =
  tq_Name :: string
  tq_Description :: string
  tq_Mode :: string
  tq_URL :: string
  tq_Stages :: "stage list"
  tq_ScriptContent :: string
  tq_ConfigContent :: string
  tq_HTTPMethod :: string
  tq_ContentType :: string
  tq_PayloadJSON :: string
  tq_PayloadTargetKiB :: int
  tq_Auth :: auth_input

text \<open>
  A row is kept as the template that \<^verbatim>\<open>scanTemplate\<close> reads from it: a NULL and an empty text, which are both
  read as the empty string, are not distinguished. The column for the executor does not exist.
\<close>

definition stored_auth :: "auth_config \<Rightarrow> auth_config" where
  "stored_auth cfg =
    applyAuthConfig (zero_auth_config\<lparr>ac_Enabled := ac_Enabled cfg\<rparr>) (ac_Enabled cfg) (nullString (ac_Mode cfg)) (nullString (ac_TokenURL cfg))
      (nullString (ac_ClientID cfg)) (nullString (ac_ClientSecretEncrypted cfg)) (defaultAuthClientAuthMethod (ac_ClientAuthMethod cfg))
      (defaultAuthRefreshSkewSeconds (ac_RefreshSkewSeconds cfg)) (nullString (ac_SecretSource cfg)) (authConfigured cfg)"

definition scanTemplate :: "test_template \<Rightarrow> test_template" where
  "scanTemplate t =
    t\<lparr>tt_HTTPMethod := defaultHTTPMethod (tt_HTTPMethod t), tt_ContentType := defaultContentType (tt_ContentType t),
      tt_AuthConfig := stored_auth (tt_AuthConfig t), tt_Executor := []\<rparr>"

subsection \<open>The table\<close>

definition tpl_stamp :: "store_env \<Rightarrow> time" where
  "tpl_stamp env = truncate_second (se_now env)"

definition tpl_touch :: "store_env \<Rightarrow> test_template \<Rightarrow> test_template \<Rightarrow> test_template" where
  "tpl_touch env old t = (if t = old then old else t\<lparr>tt_UpdatedAt := tpl_stamp env\<rparr>)"

definition CreateTemplate :: "store_env \<Rightarrow> test_template \<Rightarrow> test_template table \<Rightarrow> unit res \<times> test_template table" where
  "CreateTemplate env t =
    stmt_insert env ''create template'' (\<lambda>r. tt_ID r = tt_ID t)
      ((scanTemplate t)\<lparr>tt_CreatedAt := tpl_stamp env, tt_UpdatedAt := tpl_stamp env\<rparr>)"

definition GetTemplate :: "store_env \<Rightarrow> string \<Rightarrow> test_template table \<Rightarrow> test_template option res \<times> test_template table" where
  "GetTemplate env i = stmt_query env ''get template'' (find (\<lambda>t. tt_ID t = i))"

definition order_templates :: "test_template list \<Rightarrow> test_template list" where
  "order_templates ts =
    sort_key (\<lambda>t. - tt_UpdatedAt t) (filter tt_System ts) @ sort_key (\<lambda>t. - tt_UpdatedAt t) (filter (\<lambda>t. \<not> tt_System t) ts)"

definition ListTemplates :: "store_env \<Rightarrow> int \<Rightarrow> string \<Rightarrow> test_template table \<Rightarrow> test_template list res \<times> test_template table" where
  "ListTemplates env uid role =
    stmt_query env ''list templates''
      (\<lambda>ts. order_templates (if role = ''admin'' then ts else filter (\<lambda>t. tt_System t \<or> tt_UserID t = uid) ts))"

text \<open>The columns for the mode, the owner and the system flag are not written by an update.\<close>

definition UpdateTemplate :: "store_env \<Rightarrow> test_template \<Rightarrow> test_template table \<Rightarrow> unit res \<times> test_template table" where
  "UpdateTemplate env t =
    stmt_update env ''update template'' (\<lambda>r. tt_ID r = tt_ID t)
      (\<lambda>r. tpl_touch env r ((scanTemplate t)\<lparr>tt_Mode := tt_Mode r, tt_System := tt_System r, tt_UserID := tt_UserID r,
              tt_Username := tt_Username r, tt_CreatedAt := tt_CreatedAt r, tt_UpdatedAt := tt_UpdatedAt r\<rparr>))"

definition DeleteTemplate :: "store_env \<Rightarrow> string \<Rightarrow> test_template table \<Rightarrow> unit res \<times> test_template table" where
  "DeleteTemplate env i = stmt_delete env ''delete template'' (\<lambda>t. tt_ID t = i)"

definition SetTemplateSystem :: "store_env \<Rightarrow> string \<Rightarrow> bool \<Rightarrow> test_template table \<Rightarrow> unit res \<times> test_template table" where
  "SetTemplateSystem env i system =
    stmt_update env ''set template system'' (\<lambda>t. tt_ID t = i) (\<lambda>t. tpl_touch env t (t\<lparr>tt_System := system\<rparr>))"

definition ListSystemTemplates :: "store_env \<Rightarrow> test_template table \<Rightarrow> test_template list res \<times> test_template table" where
  "ListSystemTemplates env =
    stmt_query env ''list system templates'' (\<lambda>ts. sort_key (\<lambda>t. - tt_UpdatedAt t) (filter tt_System ts))"

subsection \<open>Requests\<close>

definition canViewTemplate :: "string \<Rightarrow> int \<Rightarrow> test_template \<Rightarrow> bool" where
  "canViewTemplate role uid t \<longleftrightarrow> role = ''admin'' \<or> tt_System t \<or> tt_UserID t = uid"

definition canManageTemplate :: "string \<Rightarrow> int \<Rightarrow> test_template \<Rightarrow> bool" where
  "canManageTemplate role uid t = (if role = ''admin'' then True else if tt_System t then False else tt_UserID t = uid)"

definition templateRequestHasBuilderSignals :: "template_request \<Rightarrow> bool" where
  "templateRequestHasBuilderSignals req \<longleftrightarrow>
    trim_space (tq_URL req) \<noteq> [] \<or> tq_Stages req \<noteq> [] \<or> trim_space (tq_HTTPMethod req) \<noteq> [] \<or>
    trim_space (tq_ContentType req) \<noteq> [] \<or> trim_space (tq_PayloadJSON req) \<noteq> [] \<or> 0 < tq_PayloadTargetKiB req \<or>
    ai_Enabled (tq_Auth req)"

definition inferTemplateMode :: "template_request \<Rightarrow> string" where
  "inferTemplateMode req =
    (let mode = to_lower (trim_space (tq_Mode req)); signals = templateRequestHasBuilderSignals req
     in if mode = ''builder'' then ''builder''
        else if mode = ''upload'' then (if signals then ''builder'' else ''upload'')
        else if signals then ''builder''
        else if trim_space (tq_ScriptContent req) \<noteq> [] then ''upload'' else ''builder'')"

definition normalizeTemplateRequestPayload :: "json_lib \<Rightarrow> url_lib \<Rightarrow> template_request \<Rightarrow> template_request res option" where
  "normalizeTemplateRequestPayload lib ul req =
    (case normalizeAuthInput ul (tq_Auth req) of
       Inl e \<Rightarrow> Some (Inl e)
     | Inr a \<Rightarrow>
        (let hasScript = (tq_ScriptContent req \<noteq> [] \<and> to_lower (trim_space (tq_Mode req)) \<noteq> ''builder'')
         in map_option (\<lambda>r. bind_res r (\<lambda>(_, m, c, p).
                Inr (req\<lparr>tq_Auth := a, tq_HTTPMethod := m, tq_ContentType := c, tq_PayloadJSON := p\<rparr>)))
              (normalizePayloadFields lib hasScript (tq_HTTPMethod req) (tq_ContentType req) (tq_PayloadJSON req) (tq_PayloadTargetKiB req))))"

definition validateTemplateRequest :: "json_lib \<Rightarrow> url_lib \<Rightarrow> template_request \<Rightarrow> template_request res option" where
  "validateTemplateRequest lib ul req =
    (if tq_Name req = [] then Some (Inl ''name is required'')
     else normalizeTemplateRequestPayload lib ul (req\<lparr>tq_Mode := inferTemplateMode req\<rparr>))"

definition newTemplateFromRequest :: "string \<Rightarrow> template_request \<Rightarrow> user_ctx \<Rightarrow> test_template" where
  "newTemplateFromRequest uuid req ctx =
    \<lparr>tt_ID = uuid, tt_Name = tq_Name req, tt_Description = tq_Description req, tt_Mode = inferTemplateMode req,
     tt_URL = tq_URL req, tt_Stages = tq_Stages req, tt_ScriptContent = tq_ScriptContent req, tt_ConfigContent = tq_ConfigContent req,
     tt_HTTPMethod = tq_HTTPMethod req, tt_ContentType = tq_ContentType req, tt_PayloadJSON = tq_PayloadJSON req,
     tt_PayloadTargetKiB = tq_PayloadTargetKiB req, tt_AuthConfig = authConfigFromStoredInput (tq_Auth req) None, tt_Executor = [],
     tt_System = False, tt_UserID = uc_UserID ctx, tt_Username = uc_Username ctx, tt_CreatedAt = zero_time, tt_UpdatedAt = zero_time\<rparr>"

text \<open>An error of the export carries the status of the response.\<close>

definition exportableTemplateRequest :: "stored_secrets \<Rightarrow> test_template \<Rightarrow> (string \<times> int) + template_request" where
  "exportableTemplateRequest ss t =
    (let cfg = tt_AuthConfig t;
         authInput = \<lparr>ai_Enabled = ac_Enabled cfg, ai_Mode = ac_Mode cfg, ai_TokenURL = ac_TokenURL cfg, ai_ClientID = ac_ClientID cfg,
           ai_ClientSecret = [], ai_ClientAuthMethod = ac_ClientAuthMethod cfg, ai_RefreshSkewSeconds = ac_RefreshSkewSeconds cfg,
           ai_PersistSecret = ac_SecretConfigured cfg, ai_ClearSecret = False\<rparr>;
         req = (\<lambda>a. \<lparr>tq_Name = tt_Name t, tq_Description = tt_Description t, tq_Mode = tt_Mode t, tq_URL = tt_URL t, tq_Stages = tt_Stages t,
           tq_ScriptContent = tt_ScriptContent t, tq_ConfigContent = tt_ConfigContent t, tq_HTTPMethod = tt_HTTPMethod t,
           tq_ContentType = tt_ContentType t, tq_PayloadJSON = tt_PayloadJSON t, tq_PayloadTargetKiB = tt_PayloadTargetKiB t, tq_Auth = a\<rparr>)
     in if ac_SecretConfigured cfg \<and> ac_ClientSecretEncrypted cfg \<noteq> []
        then (case ss_svc ss of
                None \<Rightarrow> Inl (''template auth secret export is unavailable because encryption is not configured'', 409)
              | Some svc \<Rightarrow>
                 (case Decrypt (ss_crypto ss) svc (ac_ClientSecretEncrypted cfg) of
                    Inl e \<Rightarrow> Inl (''failed to decrypt template auth secret for export'', 500)
                  | Inr sec \<Rightarrow> Inr (req (authInput\<lparr>ai_ClientSecret := sec\<rparr>))))
        else Inr (req authInput))"

record import_payload =
  ip_envelope :: "(template_request option \<times> template_request list) option"
  ip_single :: "template_request option"
  ip_many :: "template_request list option"

definition parseSystemTemplateImportPayload :: "import_payload \<Rightarrow> template_request list option" where
  "parseSystemTemplateImportPayload body =
    (let single = (case ip_single body of
                     Some r \<Rightarrow> if trim_space (tq_Name r) \<noteq> [] then Some [r] else None
                   | None \<Rightarrow> None);
         many = (case ip_many body of Some rs \<Rightarrow> if rs \<noteq> [] then Some rs else None | None \<Rightarrow> None);
         rest = (case single of Some rs \<Rightarrow> Some rs | None \<Rightarrow> many)
     in case ip_envelope body of
          Some (Some r, _) \<Rightarrow> Some [r]
        | Some (None, rs) \<Rightarrow> if rs \<noteq> [] then Some rs else rest
        | None \<Rightarrow> rest)"

end
