(* ===== verification/TemplateHandler.thy ===== *)
theory TemplateHandler
  imports Templates
begin

text \<open>
  The HTTP handlers of \<^verbatim>\<open>controller/internal/handler/template.go\<close> over the table of templates, and what they
  guarantee: access by owner, administrator and system flag; templates of the builder survive an export and
  an import; uploaded templates do not.
\<close>

record tpl_handler =
  th_env :: store_env
  th_json :: json_lib
  th_url :: url_lib
  th_secrets :: stored_secrets

datatype tpl_reply =
    TemplateReply test_template
  | TemplatesReply "test_template list"
  | TemplateStatus string
  | ExportReply time "template_request option" "template_request list"

type_synonym tpl_out = "tpl_reply response \<times> test_template table"

definition managedTemplate ::
  "tpl_handler \<Rightarrow> user_ctx \<Rightarrow> string \<Rightarrow> test_template table \<Rightarrow> (tpl_reply response + test_template) \<times> test_template table" where
  "managedTemplate h ctx i db =
    (case GetTemplate (th_env h) i db of
       (Inl e, db1) \<Rightarrow> (Inl (HttpError ''internal error'' 500), db1)
     | (Inr None, db1) \<Rightarrow> (Inl (HttpError ''template not found'' 404), db1)
     | (Inr (Some existing), db1) \<Rightarrow>
        (if \<not> canManageTemplate (uc_Role ctx) (uc_UserID ctx) existing then (Inl (HttpError ''forbidden'' 403), db1)
         else (Inr existing, db1)))"

definition List_templates :: "tpl_handler \<Rightarrow> user_ctx \<Rightarrow> test_template table \<Rightarrow> tpl_out" where
  "List_templates h ctx db =
    (case ListTemplates (th_env h) (uc_UserID ctx) (uc_Role ctx) db of
       (Inl e, db1) \<Rightarrow> (HttpError ''internal error'' 500, db1)
     | (Inr ts, db1) \<Rightarrow> (HttpJson 200 (TemplatesReply ts), db1))"

definition Get_template :: "tpl_handler \<Rightarrow> string \<Rightarrow> user_ctx \<Rightarrow> test_template table \<Rightarrow> tpl_out" where
  "Get_template h i ctx db =
    (case GetTemplate (th_env h) i db of
       (Inl e, db1) \<Rightarrow> (HttpError ''internal error'' 500, db1)
     | (Inr None, db1) \<Rightarrow> (HttpError ''template not found'' 404, db1)
     | (Inr (Some t), db1) \<Rightarrow>
        (if \<not> canViewTemplate (uc_Role ctx) (uc_UserID ctx) t then (HttpError ''forbidden'' 403, db1)
         else (HttpJson 200 (TemplateReply t), db1)))"

definition Create_template :: "tpl_handler \<Rightarrow> template_request option \<Rightarrow> user_ctx \<Rightarrow> test_template table \<Rightarrow> tpl_out" where
  "Create_template h body ctx db =
    (case body of
       None \<Rightarrow> (HttpError ''invalid request body'' 400, db)
     | Some req0 \<Rightarrow>
        (case validateTemplateRequest (th_json h) (th_url h) req0 of
           None \<Rightarrow> (HttpError [] 500, db)
         | Some (Inl msg) \<Rightarrow> (HttpError msg 400, db)
         | Some (Inr req) \<Rightarrow>
            (case buildStoredAuthConfig (th_secrets h) (tq_Auth req) None False of
               Inl msg \<Rightarrow> (HttpError msg 400, db)
             | Inr cfg \<Rightarrow>
                (let t = (newTemplateFromRequest (se_uuid (th_env h) (snd db)) req ctx)\<lparr>tt_AuthConfig := cfg\<rparr>
                 in case CreateTemplate (th_env h) t db of
                      (Inl e, db1) \<Rightarrow> (HttpError ''failed to create template'' 500, db1)
                    | (Inr _, db1) \<Rightarrow> (HttpJson 201 (TemplateReply t), db1)))))"

definition apply_template_update :: "test_template \<Rightarrow> template_request \<Rightarrow> auth_config \<Rightarrow> test_template" where
  "apply_template_update existing req cfg =
    existing\<lparr>tt_Name := tq_Name req, tt_Description := tq_Description req, tt_URL := tq_URL req, tt_Stages := tq_Stages req,
      tt_ScriptContent := tq_ScriptContent req, tt_ConfigContent := tq_ConfigContent req, tt_HTTPMethod := tq_HTTPMethod req,
      tt_ContentType := tq_ContentType req, tt_PayloadJSON := tq_PayloadJSON req, tt_PayloadTargetKiB := tq_PayloadTargetKiB req,
      tt_AuthConfig := cfg\<rparr>"

definition Update_template :: "tpl_handler \<Rightarrow> string \<Rightarrow> template_request option \<Rightarrow> user_ctx \<Rightarrow> test_template table \<Rightarrow> tpl_out" where
  "Update_template h i body ctx db =
    (case managedTemplate h ctx i db of
       (Inl r, db1) \<Rightarrow> (r, db1)
     | (Inr existing, db1) \<Rightarrow>
        (case body of
           None \<Rightarrow> (HttpError ''invalid request body'' 400, db1)
         | Some req0 \<Rightarrow>
            (case validateTemplateRequest (th_json h) (th_url h) req0 of
               None \<Rightarrow> (HttpError [] 500, db1)
             | Some (Inl msg) \<Rightarrow> (HttpError msg 400, db1)
             | Some (Inr req) \<Rightarrow>
                (case buildStoredAuthConfig (th_secrets h) (tq_Auth req) (Some (tt_AuthConfig existing)) False of
                   Inl msg \<Rightarrow> (HttpError msg 400, db1)
                 | Inr cfg \<Rightarrow>
                    (let t = apply_template_update existing req cfg
                     in case UpdateTemplate (th_env h) t db1 of
                          (Inl e, db2) \<Rightarrow> (HttpError ''failed to update template'' 500, db2)
                        | (Inr _, db2) \<Rightarrow> (HttpJson 200 (TemplateReply t), db2))))))"

definition Delete_template :: "tpl_handler \<Rightarrow> string \<Rightarrow> user_ctx \<Rightarrow> test_template table \<Rightarrow> tpl_out" where
  "Delete_template h i ctx db =
    (case managedTemplate h ctx i db of
       (Inl r, db1) \<Rightarrow> (r, db1)
     | (Inr _, db1) \<Rightarrow>
        (case DeleteTemplate (th_env h) i db1 of
           (Inl e, db2) \<Rightarrow> (HttpError ''failed to delete template'' 500, db2)
         | (Inr _, db2) \<Rightarrow> (HttpJson 200 (TemplateStatus ''deleted''), db2)))"

definition set_system :: "bool \<Rightarrow> string \<Rightarrow> tpl_handler \<Rightarrow> string \<Rightarrow> user_ctx \<Rightarrow> test_template table \<Rightarrow> tpl_out" where
  "set_system system msg h i ctx db =
    (case GetTemplate (th_env h) i db of
       (Inl e, db1) \<Rightarrow> (HttpError ''internal error'' 500, db1)
     | (Inr None, db1) \<Rightarrow> (HttpError ''template not found'' 404, db1)
     | (Inr (Some existing), db1) \<Rightarrow>
        (case SetTemplateSystem (th_env h) i system db1 of
           (Inl e, db2) \<Rightarrow> (HttpError msg 500, db2)
         | (Inr _, db2) \<Rightarrow> (HttpJson 200 (TemplateReply (existing\<lparr>tt_System := system\<rparr>)), db2)))"

definition PromoteToSystem :: "tpl_handler \<Rightarrow> string \<Rightarrow> user_ctx \<Rightarrow> test_template table \<Rightarrow> tpl_out" where
  "PromoteToSystem = set_system True ''failed to promote template''"

definition DemoteFromSystem :: "tpl_handler \<Rightarrow> string \<Rightarrow> user_ctx \<Rightarrow> test_template table \<Rightarrow> tpl_out" where
  "DemoteFromSystem = set_system False ''failed to demote template''"

definition Export_template :: "tpl_handler \<Rightarrow> string \<Rightarrow> user_ctx \<Rightarrow> test_template table \<Rightarrow> tpl_out" where
  "Export_template h i ctx db =
    (case GetTemplate (th_env h) i db of
       (Inl e, db1) \<Rightarrow> (HttpError ''internal error'' 500, db1)
     | (Inr None, db1) \<Rightarrow> (HttpError ''template not found'' 404, db1)
     | (Inr (Some existing), db1) \<Rightarrow>
        (if \<not> tt_System existing then (HttpError ''only system templates can be exported here'' 400, db1)
         else (case exportableTemplateRequest (th_secrets h) existing of
                 Inl (msg, code) \<Rightarrow> (HttpError msg code, db1)
               | Inr req \<Rightarrow> (HttpJson 200 (ExportReply (se_now (th_env h)) (Some req) []), db1))))"

fun export_all :: "stored_secrets \<Rightarrow> test_template list \<Rightarrow> (string \<times> int) + template_request list" where
  "export_all ss [] = Inr []"
| "export_all ss (t # ts) =
    (case exportableTemplateRequest ss t of
       Inl e \<Rightarrow> Inl e
     | Inr r \<Rightarrow> (case export_all ss ts of Inl e \<Rightarrow> Inl e | Inr rs \<Rightarrow> Inr (r # rs)))"

definition ExportSystemTemplates :: "tpl_handler \<Rightarrow> user_ctx \<Rightarrow> test_template table \<Rightarrow> tpl_out" where
  "ExportSystemTemplates h ctx db =
    (case ListSystemTemplates (th_env h) db of
       (Inl e, db1) \<Rightarrow> (HttpError ''internal error'' 500, db1)
     | (Inr ts, db1) \<Rightarrow>
        (case export_all (th_secrets h) ts of
           Inl (msg, code) \<Rightarrow> (HttpError msg code, db1)
         | Inr rs \<Rightarrow> (HttpJson 200 (ExportReply (se_now (th_env h)) None rs), db1)))"

text \<open>The templates are imported one by one; the first error ends the import, what was imported stays.\<close>

fun import_all ::
  "tpl_handler \<Rightarrow> user_ctx \<Rightarrow> template_request list \<Rightarrow> test_template list \<Rightarrow> test_template table \<Rightarrow> tpl_out" where
  "import_all h ctx [] imported db = (HttpJson 201 (TemplatesReply imported), db)"
| "import_all h ctx (req0 # reqs) imported db =
    (case validateTemplateRequest (th_json h) (th_url h) req0 of
       None \<Rightarrow> (HttpError [] 500, db)
     | Some (Inl msg) \<Rightarrow> (HttpError msg 400, db)
     | Some (Inr req1) \<Rightarrow>
        (let req = (if ai_Enabled (tq_Auth req1) \<and> trim_space (ai_ClientSecret (tq_Auth req1)) \<noteq> []
                    then req1\<lparr>tq_Auth := (tq_Auth req1)\<lparr>ai_PersistSecret := True\<rparr>\<rparr> else req1)
         in case buildStoredAuthConfig (th_secrets h) (tq_Auth req) None False of
              Inl msg \<Rightarrow> (HttpError msg 400, db)
            | Inr cfg \<Rightarrow>
               (let t = (newTemplateFromRequest (se_uuid (th_env h) (snd db)) req ctx)\<lparr>tt_System := True, tt_AuthConfig := cfg\<rparr>
                in case CreateTemplate (th_env h) t db of
                     (Inl e, db1) \<Rightarrow> (HttpError ''failed to import system template'' 500, db1)
                   | (Inr _, db1) \<Rightarrow> import_all h ctx reqs (imported @ [t]) db1)))"

definition ImportSystemTemplates :: "tpl_handler \<Rightarrow> import_payload option \<Rightarrow> user_ctx \<Rightarrow> test_template table \<Rightarrow> tpl_out" where
  "ImportSystemTemplates h body ctx db =
    (case body of
       None \<Rightarrow> (HttpError ''failed to read request body'' 400, db)
     | Some payload \<Rightarrow>
        (case parseSystemTemplateImportPayload payload of
           None \<Rightarrow> (HttpError ''invalid system template import payload'' 400, db)
         | Some reqs \<Rightarrow> import_all h ctx reqs [] db))"

subsection \<open>Normalised requests stay as they are\<close>

lemma method_normal [simp]: "NormalizeHTTPMethod (NormalizeHTTPMethod m) = NormalizeHTTPMethod m"
proof (cases "to_upper (trim_space m) = []")
  case True
  then show ?thesis by (simp add: NormalizeHTTPMethod_def is_plain_def to_upper_def upper_char_def)
next
  case False
  then show ?thesis by (simp add: NormalizeHTTPMethod_def trim_space_upper)
qed

lemma method_not_empty [simp]: "NormalizeHTTPMethod m \<noteq> []"
  by (simp add: NormalizeHTTPMethod_def Let_def)

lemma content_type_normal [simp]: "NormalizeContentType (NormalizeContentType c) = NormalizeContentType c"
  by (simp add: NormalizeContentType_def is_plain_def Let_def)

lemma content_type_not_empty [simp]: "NormalizeContentType c \<noteq> []"
  by (simp add: NormalizeContentType_def Let_def)

lemma payload_fields_fixed:
  assumes "normalizePayloadFields lib False m c p k = Some (Inr (a, m', c', p'))"
  shows "normalizePayloadFields lib False m' c' p' k = Some (Inr (a, m', c', p'))"
    "m' = NormalizeHTTPMethod m" "c' = NormalizeContentType c" "p' = trim_space p" "0 \<le> k"
  using assms by (auto simp: normalizePayloadFields_def Let_def bind_res_Inr split: if_splits)

lemma validated_builder:
  assumes "validateTemplateRequest lib ul req0 = Some (Inr req)" "tq_Mode req = ''builder''"
  obtains a art where "normalizeAuthInput ul (tq_Auth req0) = Inr a" "tq_Auth req = a" "tq_Name req \<noteq> []"
    "normalizePayloadFields lib False (tq_HTTPMethod req) (tq_ContentType req) (tq_PayloadJSON req) (tq_PayloadTargetKiB req) =
      Some (Inr (art, tq_HTTPMethod req, tq_ContentType req, tq_PayloadJSON req))"
    "tq_HTTPMethod req = NormalizeHTTPMethod (tq_HTTPMethod req0)" "tq_ContentType req = NormalizeContentType (tq_ContentType req0)"
proof -
  have name: "tq_Name req0 \<noteq> []" using assms(1) by (auto simp: validateTemplateRequest_def split: if_splits)
  then have n: "normalizeTemplateRequestPayload lib ul (req0\<lparr>tq_Mode := inferTemplateMode req0\<rparr>) = Some (Inr req)"
    using assms(1) by (simp add: validateTemplateRequest_def)
  then have mode: "inferTemplateMode req0 = ''builder''"
    using assms(2) by (auto simp: normalizeTemplateRequestPayload_def Let_def bind_res_Inr split: sum.splits)
  have low: "to_lower (trim_space ''builder'') = ''builder''" by (simp add: is_plain_def to_lower_def lower_char_def)
  obtain a where a: "normalizeAuthInput ul (tq_Auth req0) = Inr a"
    using n by (auto simp: normalizeTemplateRequestPayload_def split: sum.splits)
  obtain art m c p where f: "normalizePayloadFields lib False (tq_HTTPMethod req0) (tq_ContentType req0) (tq_PayloadJSON req0) (tq_PayloadTargetKiB req0) =
      Some (Inr (art, m, c, p))"
    and req: "req = req0\<lparr>tq_Mode := ''builder'', tq_Auth := a, tq_HTTPMethod := m, tq_ContentType := c, tq_PayloadJSON := p\<rparr>"
    using n a by (auto simp: normalizeTemplateRequestPayload_def mode low Let_def bind_res_Inr)
  show thesis using that [OF a, of art] payload_fields_fixed [OF f] name by (simp add: req)
qed

subsection \<open>Access\<close>

lemma GetTemplate_eq:
  "GetTemplate env i (ts, n) =
    (case se_fault env n of Some e \<Rightarrow> (Inl (''get template'' @ '': '' @ e), (ts, Suc n)) | None \<Rightarrow> (Inr (find (\<lambda>t. tt_ID t = i) ts), (ts, Suc n)))"
  by (simp add: GetTemplate_def stmt_query_eq)

lemma managedTemplate_cases:
  obtains (rejected) msg code where "managedTemplate h ctx i (ts, n) = (Inl (HttpError msg code), (ts, Suc n))"
  | (managed) t where "find (\<lambda>t. tt_ID t = i) ts = Some t" "managedTemplate h ctx i (ts, n) = (Inr t, (ts, Suc n))"
      "canManageTemplate (uc_Role ctx) (uc_UserID ctx) t"
proof (cases "se_fault (th_env h) n")
  case None
  show thesis
  proof (cases "find (\<lambda>t. tt_ID t = i) ts")
    case (Some t)
    show thesis
    proof (cases "canManageTemplate (uc_Role ctx) (uc_UserID ctx) t")
      case True
      then show thesis using managed [OF Some] None Some by (simp add: managedTemplate_def GetTemplate_eq)
    next
      case False
      then show thesis using rejected None Some by (simp add: managedTemplate_def GetTemplate_eq)
    qed
  qed (use rejected None in \<open>simp add: managedTemplate_def GetTemplate_eq\<close>)
qed (use rejected in \<open>simp add: managedTemplate_def GetTemplate_eq\<close>)

subsection \<open>Properties\<close>

text \<open>
  C13. A user who is not an administrator can neither change nor delete a system template or a template of another
  user, and is shown only system templates and own ones.
\<close>

theorem template_access:
  assumes "uc_Role ctx \<noteq> ''admin''" "list_all (\<lambda>t. tt_ID t = i \<longrightarrow> tt_System t \<or> tt_UserID t \<noteq> uc_UserID ctx) ts"
  shows "fst (snd (Update_template h i body ctx (ts, n))) = ts \<and> fst (snd (Delete_template h i ctx (ts, n))) = ts \<and>
    (\<forall>t. fst (Get_template h j ctx (ts, n)) = HttpJson 200 (TemplateReply t) \<longrightarrow> tt_System t \<or> tt_UserID t = uc_UserID ctx) \<and>
    (\<forall>vs. fst (List_templates h ctx (ts, n)) = HttpJson 200 (TemplatesReply vs) \<longrightarrow>
      set vs = {t \<in> set ts. tt_System t \<or> tt_UserID t = uc_UserID ctx})"
proof -
  obtain msg code where m: "managedTemplate h ctx i (ts, n) = (Inl (HttpError msg code), (ts, Suc n))"
  proof (cases rule: managedTemplate_cases [of h ctx i ts n])
    case (managed t)
    then show thesis using assms by (auto simp: canManageTemplate_def list_all_iff dest: find_Some_set split: if_splits)
  qed
  have "tt_System t \<or> tt_UserID t = uc_UserID ctx" if "fst (Get_template h j ctx (ts, n)) = HttpJson 200 (TemplateReply t)" for t
    using that assms(1) by (auto simp: Get_template_def GetTemplate_eq canViewTemplate_def split: option.splits if_splits)
  moreover have "set vs = {t \<in> set ts. tt_System t \<or> tt_UserID t = uc_UserID ctx}"
    if "fst (List_templates h ctx (ts, n)) = HttpJson 200 (TemplatesReply vs)" for vs
  proof -
    have "vs = order_templates (filter (\<lambda>t. tt_System t \<or> tt_UserID t = uc_UserID ctx) ts)"
      using that assms(1) by (auto simp: List_templates_def ListTemplates_def stmt_query_eq split: option.splits)
    then show ?thesis by (auto simp: order_templates_def)
  qed
  ultimately show ?thesis by (simp add: m Update_template_def Delete_template_def)
qed

definition demo_store_env :: store_env where
  "demo_store_env = \<lparr>se_fault = (\<lambda>_. None), se_now = 0, se_uuid = (\<lambda>_. ''t9'')\<rparr>"

definition demo_json :: json_lib where
  "demo_json = \<lparr>jl_unmarshal = (\<lambda>_. Inl ''invalid''), jl_num = (\<lambda>_. ''0''), jl_numv = (\<lambda>_. ''0''), jl_quote = (\<lambda>s. s)\<rparr>"

definition demo_secrets :: stored_secrets where
  "demo_secrets = \<lparr>ss_crypto = demo_crypto, ss_rnd = Inr (replicate 12 (CHR ''n'')), ss_svc = Some \<lparr>svc_key = replicate 32 (CHR ''k'')\<rparr>\<rparr>"

definition zero_template_request :: template_request where
  "zero_template_request = \<lparr>tq_Name = ''t'', tq_Description = [], tq_Mode = [], tq_URL = [], tq_Stages = [], tq_ScriptContent = [],
    tq_ConfigContent = [], tq_HTTPMethod = [], tq_ContentType = [], tq_PayloadJSON = [], tq_PayloadTargetKiB = 0, tq_Auth = zero_auth_input\<rparr>"

definition demo_template :: test_template where
  "demo_template = (newTemplateFromRequest ''t1'' zero_template_request \<lparr>uc_UserID = 1, uc_Username = ''ann'', uc_Role = ''user''\<rparr>)"

definition demo_tpl_handler :: tpl_handler where
  "demo_tpl_handler = \<lparr>th_env = demo_store_env, th_json = demo_json, th_url = demo_url_lib, th_secrets = demo_secrets\<rparr>"

theorem template_access_witness:
  "fst (snd (Delete_template demo_tpl_handler ''t1'' \<lparr>uc_UserID = 2, uc_Username = ''bob'', uc_Role = ''user''\<rparr> ([demo_template], 0))) = [demo_template] \<and>
   fst (snd (Delete_template demo_tpl_handler ''t1'' \<lparr>uc_UserID = 1, uc_Username = ''ann'', uc_Role = ''user''\<rparr> ([demo_template], 0))) = []"
proof -
  have "fst (snd (Delete_template demo_tpl_handler ''t1'' \<lparr>uc_UserID = 1, uc_Username = ''ann'', uc_Role = ''user''\<rparr> ([demo_template], 0))) = []"
    by (simp add: Delete_template_def managedTemplate_def GetTemplate_eq DeleteTemplate_def stmt_delete_def stmt_def demo_tpl_handler_def demo_store_env_def
        demo_template_def newTemplateFromRequest_def canManageTemplate_def)
  then show ?thesis
    using template_access [of "\<lparr>uc_UserID = 2, uc_Username = ''bob'', uc_Role = ''user''\<rparr>" "''t1''" "[demo_template]" demo_tpl_handler None 0 "''t1''"]
    by (simp add: demo_template_def newTemplateFromRequest_def)
qed

subsection \<open>Export and import\<close>

lemma stored_auth_eq:
  "stored_auth cfg = cfg\<lparr>ac_ClientAuthMethod := defaultAuthClientAuthMethod (ac_ClientAuthMethod cfg),
     ac_RefreshSkewSeconds := defaultAuthRefreshSkewSeconds (ac_RefreshSkewSeconds cfg), ac_SecretConfigured := authConfigured cfg\<rparr>"
  by (cases cfg) (auto simp: stored_auth_def applyAuthConfig_def zero_auth_config_def authConfigured_def Let_def)

lemma fresh_auth:
  "ai_Enabled a \<Longrightarrow> authConfigFromStoredInput a None =
    \<lparr>ac_Enabled = True, ac_Mode = ai_Mode a, ac_TokenURL = ai_TokenURL a, ac_ClientID = ai_ClientID a, ac_ClientAuthMethod = ai_ClientAuthMethod a,
     ac_RefreshSkewSeconds = ai_RefreshSkewSeconds a, ac_SecretSource = [], ac_SecretConfigured = False, ac_ClientSecretEncrypted = []\<rparr>"
  by (simp add: authConfigFromStoredInput_def zero_auth_config_def clear_secret_def Let_def)

lemma stored_disabled: "\<not> ai_Enabled a \<Longrightarrow> buildStoredAuthConfig ss a None False = Inr zero_auth_config"
  by (simp add: buildStoredAuthConfig_def authConfigFromStoredInput_def zero_auth_config_def)

definition secrets_ok :: "stored_secrets \<Rightarrow> bool" where
  "secrets_ok ss \<longleftrightarrow> crypto_ok (ss_crypto ss) \<and> (\<exists>nonce. ss_rnd ss = Inr nonce \<and> length nonce = nonceSize) \<and>
    (\<forall>svc. ss_svc ss = Some svc \<longrightarrow> (\<exists>key. NewService (ss_crypto ss) key = Inr svc))"

text \<open>What is stored for a new authentication without an earlier one.\<close>

lemma stored_enabled:
  assumes "secrets_ok ss" "ai_Enabled a" "buildStoredAuthConfig ss a None False = Inr cfg"
  obtains svc enc where "ss_svc ss = Some svc" "cfg = authConfigFromStoredInput a None\<lparr>ac_ClientSecretEncrypted := enc,
      ac_SecretConfigured := (enc \<noteq> []), ac_SecretSource := (if enc = [] then [] else ''persisted_encrypted'')\<rparr>"
    "enc = [] \<longleftrightarrow> trim_space (ai_ClientSecret a) = []" "Decrypt (ss_crypto ss) svc enc = Inr (trim_space (ai_ClientSecret a))"
proof -
  let ?sec = "trim_space (ai_ClientSecret a)"
  obtain svc where svc: "ss_svc ss = Some svc"
    using assms(2,3) by (cases "ss_svc ss") (auto simp: buildStoredAuthConfig_def fresh_auth Let_def)
  obtain nonce key where n: "ss_rnd ss = Inr nonce" "length nonce = nonceSize" "NewService (ss_crypto ss) key = Inr svc"
    and ok: "crypto_ok (ss_crypto ss)" using assms(1) svc by (auto simp: secrets_ok_def)
  show thesis
  proof (cases "?sec = []")
    case True
    then show thesis using that [OF svc, of "[]"] assms(2,3) svc
      by (auto simp: buildStoredAuthConfig_def fresh_auth Let_def clear_secret_def Decrypt_def split: if_splits)
  next
    case False
    obtain enc where enc: "Encrypt (ss_crypto ss) (Inr nonce) svc ?sec = Inr enc" "Decrypt (ss_crypto ss) svc enc = Inr ?sec"
      using decrypt_encrypt [OF ok n(3,2)] by blast
    have "enc \<noteq> []" by (rule encrypt_nonempty [OF ok enc(1) False n(2)])
    then show thesis using that [OF svc, of enc] enc assms(2,3) svc False n(1)
      by (auto simp: buildStoredAuthConfig_def fresh_auth Let_def clear_secret_def split: if_splits)
  qed
qed

lemma infer_builder: "tq_Mode r = ''builder'' \<Longrightarrow> inferTemplateMode r = ''builder''"
proof -
  have "to_lower (trim_space ''builder'') = ''builder''" by (simp add: is_plain_def to_lower_def lower_char_def)
  then show "tq_Mode r = ''builder'' \<Longrightarrow> inferTemplateMode r = ''builder''" by (simp add: inferTemplateMode_def Let_def)
qed

lemma validate_builder:
  assumes "tq_Mode r = ''builder''" "tq_Name r \<noteq> []" "normalizeAuthInput ul (tq_Auth r) = Inr a"
    and "normalizePayloadFields lib False (tq_HTTPMethod r) (tq_ContentType r) (tq_PayloadJSON r) (tq_PayloadTargetKiB r) =
      Some (Inr (art, tq_HTTPMethod r, tq_ContentType r, tq_PayloadJSON r))"
  shows "validateTemplateRequest lib ul r = Some (Inr (r\<lparr>tq_Auth := a\<rparr>))"
proof -
  have low: "to_lower (trim_space ''builder'') = ''builder''" by (simp add: is_plain_def to_lower_def lower_char_def)
  have "r\<lparr>tq_Mode := ''builder''\<rparr> = r" using assms(1) by (metis template_request.surjective template_request.update_convs(3))
  then show ?thesis using assms
    by (simp add: validateTemplateRequest_def infer_builder normalizeTemplateRequestPayload_def low Let_def)
qed

lemma export_fields:
  assumes "exportableTemplateRequest ss (scanTemplate ((newTemplateFromRequest i req ctx)\<lparr>tt_AuthConfig := cfg\<rparr>)) = Inr e"
    and "tq_Mode req = ''builder''" "tq_HTTPMethod req \<noteq> []" "tq_ContentType req \<noteq> []"
  shows "e = req\<lparr>tq_Auth := tq_Auth e\<rparr>"
  using assms
  by (cases req) (auto simp: exportableTemplateRequest_def scanTemplate_def newTemplateFromRequest_def infer_builder Let_def
      defaultHTTPMethod_def defaultContentType_def split: if_splits option.splits sum.splits)

lemma exported_auth:
  assumes "secrets_ok ss" "a = zero_auth_input \<or> auth_complete ul a" "buildStoredAuthConfig ss a None False = Inr cfg" "tt_AuthConfig t = stored_auth cfg"
  obtains e b where "exportableTemplateRequest ss t = Inr e" "normalizeAuthInput ul (tq_Auth e) = Inr b"
    "b = zero_auth_input \<and> a = zero_auth_input \<or>
     b = a\<lparr>ai_ClientSecret := trim_space (ai_ClientSecret a), ai_PersistSecret := (trim_space (ai_ClientSecret a) \<noteq> []), ai_ClearSecret := False\<rparr>"
proof (cases "ai_Enabled a")
  case False
  then have a: "a = zero_auth_input" using assms(2) by (auto simp: auth_complete_def)
  have "cfg = zero_auth_config" using assms(3) stored_disabled [of a ss] False by simp
  then show thesis using a assms(4) that
    by (simp add: exportableTemplateRequest_def stored_auth_eq zero_auth_config_def authConfigured_def normalizeAuthInput_def Let_def)
next
  case True
  obtain svc enc where svc: "ss_svc ss = Some svc" and cfg: "cfg = authConfigFromStoredInput a None\<lparr>ac_ClientSecretEncrypted := enc,
      ac_SecretConfigured := (enc \<noteq> []), ac_SecretSource := (if enc = [] then [] else ''persisted_encrypted'')\<rparr>"
    and enc: "enc = [] \<longleftrightarrow> trim_space (ai_ClientSecret a) = []" "Decrypt (ss_crypto ss) svc enc = Inr (trim_space (ai_ClientSecret a))"
    by (rule stored_enabled [OF assms(1) True assms(3)]) (rule that)
  have c: "auth_complete ul a" using assms(2) True by (auto simp: zero_auth_input_def)
  let ?b = "a\<lparr>ai_ClientSecret := trim_space (ai_ClientSecret a), ai_PersistSecret := (enc \<noteq> []), ai_ClearSecret := False\<rparr>"
  have "auth_complete ul ?b" using c by (simp add: auth_complete_def)
  then have n: "normalizeAuthInput ul ?b = Inr ?b" by (rule normalize_complete)
  have "ai_ClientAuthMethod a \<noteq> []" "0 < ai_RefreshSkewSeconds a" using c by (auto simp: auth_complete_def)
  then have "\<exists>e. exportableTemplateRequest ss t = Inr e \<and> tq_Auth e = ?b"
    using enc True svc assms(4)
    by (cases a) (auto simp: exportableTemplateRequest_def stored_auth_eq cfg fresh_auth authConfigured_def Let_def
        defaultAuthClientAuthMethod_def defaultAuthRefreshSkewSeconds_def)
  then obtain e where e: "exportableTemplateRequest ss t = Inr e" "tq_Auth e = ?b" by blast
  have "?b = a\<lparr>ai_ClientSecret := trim_space (ai_ClientSecret a), ai_PersistSecret := (trim_space (ai_ClientSecret a) \<noteq> []), ai_ClearSecret := False\<rparr>"
    by (simp only: enc(1))
  then show thesis by (intro that [OF e(1), of ?b] disjI2) (use n in \<open>simp only: e(2)\<close>)
qed

text \<open>
  A template made with the builder survives its export and import: what is exported from the stored
  template is accepted again, with every field of the request that created it and with its client secret in
  plain text (trimmed).
\<close>

theorem builder_template_survives_export:
  assumes "secrets_ok ss" "validateTemplateRequest lib ul req0 = Some (Inr req)" "tq_Mode req = ''builder''"
    and "buildStoredAuthConfig ss (tq_Auth req) None False = Inr cfg"
  shows "\<exists>e e'. exportableTemplateRequest ss (scanTemplate ((newTemplateFromRequest i req ctx)\<lparr>tt_AuthConfig := cfg\<rparr>)) = Inr e \<and>
    validateTemplateRequest lib ul e = Some (Inr e') \<and> e'\<lparr>tq_Auth := tq_Auth req\<rparr> = req \<and>
    authConfigFromRuntimeInput (tq_Auth e') = authConfigFromRuntimeInput ((tq_Auth req)\<lparr>ai_ClientSecret := trim_space (ai_ClientSecret (tq_Auth req))\<rparr>) \<and>
    ai_ClientSecret (tq_Auth e') = trim_space (ai_ClientSecret (tq_Auth req))"
proof -
  let ?t = "scanTemplate ((newTemplateFromRequest i req ctx)\<lparr>tt_AuthConfig := cfg\<rparr>)"
  obtain a art where a: "normalizeAuthInput ul (tq_Auth req0) = Inr a" "tq_Auth req = a" "tq_Name req \<noteq> []"
    and p: "normalizePayloadFields lib False (tq_HTTPMethod req) (tq_ContentType req) (tq_PayloadJSON req) (tq_PayloadTargetKiB req) =
      Some (Inr (art, tq_HTTPMethod req, tq_ContentType req, tq_PayloadJSON req))"
    and mc: "tq_HTTPMethod req = NormalizeHTTPMethod (tq_HTTPMethod req0)" "tq_ContentType req = NormalizeContentType (tq_ContentType req0)"
    using validated_builder [OF assms(2,3)] .
  have t: "tt_AuthConfig ?t = stored_auth cfg" by (simp add: scanTemplate_def)
  obtain e b where e: "exportableTemplateRequest ss ?t = Inr e" "normalizeAuthInput ul (tq_Auth e) = Inr b"
    and b: "b = zero_auth_input \<and> a = zero_auth_input \<or>
     b = a\<lparr>ai_ClientSecret := trim_space (ai_ClientSecret a), ai_PersistSecret := (trim_space (ai_ClientSecret a) \<noteq> []), ai_ClearSecret := False\<rparr>"
    using exported_auth [OF assms(1) normalize_cases [OF a(1)] assms(4) [unfolded a(2)] t] .
  have "e = req\<lparr>tq_Auth := tq_Auth e\<rparr>" by (rule export_fields [OF e(1) assms(3)]) (simp_all add: mc)
  then obtain x where x: "e = req\<lparr>tq_Auth := x\<rparr>" ..
  have "validateTemplateRequest lib ul e = Some (Inr (e\<lparr>tq_Auth := b\<rparr>))"
    by (rule validate_builder [where art = art]) (use e(2) a(3) p assms(3) in \<open>simp_all add: x\<close>)
  moreover have "authConfigFromRuntimeInput b = authConfigFromRuntimeInput (a\<lparr>ai_ClientSecret := trim_space (ai_ClientSecret a)\<rparr>)"
    "ai_ClientSecret b = trim_space (ai_ClientSecret a)"
    using b by (elim disjE; simp add: authConfigFromRuntimeInput_def zero_auth_input_def)+
  moreover have "e\<lparr>tq_Auth := tq_Auth req\<rparr> = req" by (simp add: x)
  ultimately show ?thesis using e(1) a(2) by (intro exI [of _ e] exI [of _ "e\<lparr>tq_Auth := b\<rparr>"]) simp
qed

theorem builder_template_survives_export_witness:
  "\<exists>e e'. exportableTemplateRequest demo_secrets (scanTemplate ((newTemplateFromRequest ''t1''
      (zero_template_request\<lparr>tq_Mode := ''builder'', tq_HTTPMethod := ''GET'', tq_ContentType := ''application/json''\<rparr>)
      \<lparr>uc_UserID = 1, uc_Username = ''ann'', uc_Role = ''user''\<rparr>)\<lparr>tt_AuthConfig := zero_auth_config\<rparr>)) = Inr e \<and>
    validateTemplateRequest demo_json demo_url_lib e = Some (Inr e') \<and> tq_Name e' = ''t'' \<and> tq_HTTPMethod e' = ''GET''"
proof -
  let ?r = "zero_template_request\<lparr>tq_Mode := ''builder'', tq_HTTPMethod := ''GET'', tq_ContentType := ''application/json''\<rparr>"
  have "crypto_ok demo_crypto" by (simp add: crypto_ok_def demo_crypto_def)
  moreover have "NewService demo_crypto ''key'' = Inr \<lparr>svc_key = replicate 32 (CHR ''k'')\<rparr>" by (simp add: NewService_def demo_crypto_def)
  ultimately have ok: "secrets_ok demo_secrets" by (auto simp: secrets_ok_def demo_secrets_def nonceSize_def intro: exI [of _ "''key''"])
  obtain art where "normalizePayloadFields demo_json False ''GET'' ''application/json'' [] 0 = Some (Inr (art, ''GET'', ''application/json'', []))"
    by (simp add: normalizePayloadFields_def BuildBuilderPayloadArtifacts_def NormalizeHTTPMethod_def NormalizeContentType_def
        validateBuilderHTTPMethod_def MethodAllowsBody_def payloadTargetBytes_def is_plain_def to_upper_def upper_char_def Let_def zero_test_request_def)
  then have v: "validateTemplateRequest demo_json demo_url_lib ?r = Some (Inr ?r)"
    by (subst validate_builder [where a = zero_auth_input]) (simp_all add: zero_template_request_def normalizeAuthInput_def zero_auth_input_def)
  have b: "buildStoredAuthConfig demo_secrets (tq_Auth ?r) None False = Inr zero_auth_config"
    by (rule stored_disabled) (simp add: zero_template_request_def zero_auth_input_def)
  have m: "tq_Mode ?r = ''builder''" by simp
  obtain e e' where "exportableTemplateRequest demo_secrets (scanTemplate ((newTemplateFromRequest ''t1'' ?r
      \<lparr>uc_UserID = 1, uc_Username = ''ann'', uc_Role = ''user''\<rparr>)\<lparr>tt_AuthConfig := zero_auth_config\<rparr>)) = Inr e"
    "validateTemplateRequest demo_json demo_url_lib e = Some (Inr e')" "e'\<lparr>tq_Auth := tq_Auth ?r\<rparr> = ?r"
    using builder_template_survives_export [OF ok v m b, of "''t1''" "\<lparr>uc_UserID = 1, uc_Username = ''ann'', uc_Role = ''user''\<rparr>"]
    by blast
  moreover from this(3) have "tq_Name e' = ''t''" "tq_HTTPMethod e' = ''GET''"
    by (cases e', simp add: zero_template_request_def)+
  ultimately show ?thesis by blast
qed

text \<open>
  An uploaded template does not survive its export: the store gives it the method GET, which the import takes
  as a sign of the builder, so that the imported template has the mode of the builder and its script is
  not the one that is run.
\<close>

theorem exported_upload_becomes_builder:
  assumes "validateTemplateRequest lib ul req0 = Some (Inr req)" "tq_Mode req = ''upload''" "tq_HTTPMethod req0 = []" "tq_ScriptContent req0 \<noteq> []"
    and "buildStoredAuthConfig ss (tq_Auth req) None False = Inr cfg"
  shows "\<exists>e. exportableTemplateRequest ss (scanTemplate ((newTemplateFromRequest i req ctx)\<lparr>tt_AuthConfig := cfg\<rparr>)) = Inr e \<and>
    tq_Mode e = ''upload'' \<and> inferTemplateMode e = ''builder''"
proof -
  have n: "normalizeTemplateRequestPayload lib ul (req0\<lparr>tq_Mode := inferTemplateMode req0\<rparr>) = Some (Inr req)"
    using assms(1) by (auto simp: validateTemplateRequest_def split: if_splits)
  then have mode: "inferTemplateMode req0 = ''upload''"
    using assms(2) by (auto simp: normalizeTemplateRequestPayload_def Let_def bind_res_Inr split: sum.splits)
  then have sig: "\<not> templateRequestHasBuilderSignals req0" by (auto simp: inferTemplateMode_def Let_def split: if_splits)
  have low: "to_lower (trim_space ''upload'') = ''upload''" by (simp add: is_plain_def to_lower_def lower_char_def)
  have a: "normalizeAuthInput ul (tq_Auth req0) = Inr zero_auth_input"
    using sig by (simp add: templateRequestHasBuilderSignals_def normalizeAuthInput_def)
  have req: "req = req0\<lparr>tq_Mode := ''upload'', tq_Auth := zero_auth_input, tq_PayloadJSON := trim_space (tq_PayloadJSON req0)\<rparr>"
    using n a assms(3,4)
    by (intro template_request.equality) (auto simp: normalizeTemplateRequestPayload_def mode low Let_def normalizePayloadFields_def bind_res_Inr split: if_splits)
  have sig': "\<not> templateRequestHasBuilderSignals req" using sig by (simp add: req templateRequestHasBuilderSignals_def zero_auth_input_def)
  then have mode': "inferTemplateMode req = ''upload''" by (simp add: inferTemplateMode_def low assms(2) Let_def)
  have get: "trim_space ''GET'' = ''GET''" by (simp add: is_plain_def)
  have "cfg = zero_auth_config" using assms(5) stored_disabled [of "tq_Auth req" ss] by (simp add: req zero_auth_input_def)
  moreover have "tq_HTTPMethod req = []" using assms(3) by (simp add: req)
  ultimately obtain e where "exportableTemplateRequest ss (scanTemplate ((newTemplateFromRequest i req ctx)\<lparr>tt_AuthConfig := cfg\<rparr>)) = Inr e"
    "tq_Mode e = ''upload''" "tq_HTTPMethod e = ''GET''"
    by (simp add: exportableTemplateRequest_def scanTemplate_def newTemplateFromRequest_def mode' defaultHTTPMethod_def stored_auth_eq
        zero_auth_config_def authConfigured_def Let_def)
  then show ?thesis by (auto simp: inferTemplateMode_def templateRequestHasBuilderSignals_def get low Let_def)
qed

theorem exported_upload_becomes_builder_witness:
  "\<exists>e. exportableTemplateRequest demo_secrets (scanTemplate ((newTemplateFromRequest ''t1''
      (zero_template_request\<lparr>tq_Mode := ''upload'', tq_ScriptContent := ''x''\<rparr>)
      \<lparr>uc_UserID = 1, uc_Username = ''ann'', uc_Role = ''user''\<rparr>)\<lparr>tt_AuthConfig := zero_auth_config\<rparr>)) = Inr e \<and> inferTemplateMode e = ''builder''"
proof -
  let ?r = "zero_template_request\<lparr>tq_Mode := ''upload'', tq_ScriptContent := ''x''\<rparr>"
  have low: "to_lower (trim_space ''upload'') = ''upload''" by (simp add: is_plain_def to_lower_def lower_char_def)
  have v: "validateTemplateRequest demo_json demo_url_lib ?r = Some (Inr ?r)"
    by (simp add: validateTemplateRequest_def zero_template_request_def inferTemplateMode_def low templateRequestHasBuilderSignals_def zero_auth_input_def
        normalizeTemplateRequestPayload_def normalizeAuthInput_def normalizePayloadFields_def HasPayloadConfiguration_def
        NormalizeHTTPMethod_def NormalizeContentType_def to_upper_def Let_def)
  have b: "buildStoredAuthConfig demo_secrets (tq_Auth ?r) None False = Inr zero_auth_config"
    by (rule stored_disabled) (simp add: zero_template_request_def zero_auth_input_def)
  show ?thesis
    using exported_upload_becomes_builder [OF v _ _ _ b, of "''t1''" "\<lparr>uc_UserID = 1, uc_Username = ''ann'', uc_Role = ''user''\<rparr>"]
    by (simp add: zero_template_request_def) blast
qed

end
