(* ===== verification/Accounts.thy ===== *)
theory Accounts
  imports Tables Requests Http
begin

text \<open>
  User accounts: the tables \<^verbatim>\<open>users\<close> and \<^verbatim>\<open>password_reset_tokens\<close> of \<^verbatim>\<open>controller/internal/store/store.go\<close> and the
  handlers of \<^verbatim>\<open>controller/internal/handler/auth.go\<close> that read and write them. (The lists of users with their
  numbers of tests are in \<open>UserMetrics\<close>.)

  The two tables are one state, because two operations change both in a transaction: begin, the
  statements and the commit are numbered like any other statement and can fail; on a failure everything
  since the begin is rolled back. Texts are compared under the collation of the database, given as the
  function \<open>ae_key\<close> to keys that are compared exactly. Where a query with \<^verbatim>\<open>LIMIT 1\<close> and no order finds several
  rows, \<open>ae_pick\<close> says which one comes. The lengths of columns are not modelled.

  Parameters for other code: \<open>bcrypt_lib\<close> (the salt of a hash is an argument), SHA-256 from \<open>crypto_lib\<close>, the
  random bytes, and the mail server. What is mailed or logged is kept in the state.
\<close>

subsection \<open>Data\<close>

record user =
  us_ID :: int
  us_Username :: string
  us_Email :: string
  us_HashedPassword :: string
  us_Role :: string
  us_MustChangePassword :: bool
  us_CreatedAt :: time
  us_UpdatedAt :: time

record reset_token =
  rt_ID :: int
  rt_UserID :: int
  rt_TokenHash :: string
  rt_ExpiresAt :: time
  rt_UsedAt :: "time option"
  rt_CreatedAt :: time

datatype delivery =
    Logged int string string string string
  | Mailed string "(string \<times> string \<times> string) option" string string string

record acct_db =
  ad_users :: "user list"
  ad_tokens :: "reset_token list"
  ad_nextUser :: int
  ad_nextToken :: int
  ad_calls :: nat
  ad_sent :: "delivery list"

record acct_env =
  ae_store :: store_env
  ae_key :: "string \<Rightarrow> string"
  ae_pick :: nat

definition acct_stamp :: "acct_env \<Rightarrow> time" where
  "acct_stamp env = truncate_second (se_now (ae_store env))"

definition acct_now :: "acct_env \<Rightarrow> time" where
  "acct_now env = se_now (ae_store env)"

subsection \<open>Statements\<close>

definition acct_stmt :: "acct_env \<Rightarrow> string \<Rightarrow> (acct_db \<Rightarrow> 'a res \<times> acct_db) \<Rightarrow> acct_db \<Rightarrow> 'a res \<times> acct_db" where
  "acct_stmt env msg f db =
    (let db' = db\<lparr>ad_calls := Suc (ad_calls db)\<rparr>
     in case se_fault (ae_store env) (ad_calls db) of
          Some e \<Rightarrow> (Inl (msg @ '': '' @ e), db')
        | None \<Rightarrow> (case f db' of (r, db'') \<Rightarrow> (wrap_err msg r, db'')))"

definition acct_query :: "acct_env \<Rightarrow> string \<Rightarrow> (acct_db \<Rightarrow> 'a) \<Rightarrow> acct_db \<Rightarrow> 'a res \<times> acct_db" where
  "acct_query env msg q = acct_stmt env msg (\<lambda>db. (Inr (q db), db))"

definition acct_change :: "acct_env \<Rightarrow> string \<Rightarrow> (acct_db \<Rightarrow> acct_db) \<Rightarrow> acct_db \<Rightarrow> unit res \<times> acct_db" where
  "acct_change env msg f = acct_stmt env msg (\<lambda>db. (Inr (), f db))"

text \<open>A failed step of a transaction restores the tables as they were before it.\<close>

definition rollback :: "acct_db \<Rightarrow> acct_db \<Rightarrow> acct_db" where
  "rollback old db = db\<lparr>ad_users := ad_users old, ad_tokens := ad_tokens old\<rparr>"

definition touch_user :: "acct_env \<Rightarrow> user \<Rightarrow> user \<Rightarrow> user" where
  "touch_user env old u = (if u = old then old else u\<lparr>us_UpdatedAt := acct_stamp env\<rparr>)"

definition set_password :: "acct_env \<Rightarrow> int \<Rightarrow> string \<Rightarrow> bool \<Rightarrow> acct_db \<Rightarrow> acct_db" where
  "set_password env uid hash must db =
    db\<lparr>ad_users := map (\<lambda>u. if us_ID u = uid then touch_user env u (u\<lparr>us_HashedPassword := hash, us_MustChangePassword := must\<rparr>) else u) (ad_users db)\<rparr>"

subsection \<open>Users\<close>

definition CreateUser :: "acct_env \<Rightarrow> user \<Rightarrow> acct_db \<Rightarrow> user res \<times> acct_db" where
  "CreateUser env u =
    acct_stmt env ''create user'' (\<lambda>db.
      if list_ex (\<lambda>v. ae_key env (us_Username v) = ae_key env (us_Username u) \<or> ae_key env (us_Email v) = ae_key env (us_Email u)) (ad_users db)
      then (Inl ''Duplicate entry'', db\<lparr>ad_nextUser := ad_nextUser db + 1\<rparr>)
      else (Inr (u\<lparr>us_ID := ad_nextUser db\<rparr>),
            db\<lparr>ad_users := ad_users db @ [u\<lparr>us_ID := ad_nextUser db, us_CreatedAt := acct_stamp env, us_UpdatedAt := acct_stamp env\<rparr>],
               ad_nextUser := ad_nextUser db + 1\<rparr>))"

definition GetUserByUsername :: "acct_env \<Rightarrow> string \<Rightarrow> acct_db \<Rightarrow> user option res \<times> acct_db" where
  "GetUserByUsername env username =
    acct_query env ''get user by username'' (\<lambda>db. find (\<lambda>u. ae_key env (us_Username u) = ae_key env username) (ad_users db))"

definition GetUserByIdentifier :: "acct_env \<Rightarrow> string \<Rightarrow> acct_db \<Rightarrow> user option res \<times> acct_db" where
  "GetUserByIdentifier env identifier =
    acct_query env ''get user by identifier'' (\<lambda>db.
      let us = filter (\<lambda>u. ae_key env (us_Username u) = ae_key env identifier \<or> ae_key env (us_Email u) = ae_key env identifier) (ad_users db)
      in if us = [] then None else Some (us ! (ae_pick env mod length us)))"

definition GetUserByID :: "acct_env \<Rightarrow> int \<Rightarrow> acct_db \<Rightarrow> user option res \<times> acct_db" where
  "GetUserByID env uid = acct_query env ''get user by id'' (\<lambda>db. find (\<lambda>u. us_ID u = uid) (ad_users db))"

definition UpdatePassword :: "acct_env \<Rightarrow> int \<Rightarrow> string \<Rightarrow> acct_db \<Rightarrow> unit res \<times> acct_db" where
  "UpdatePassword env uid hash = acct_change env ''update password'' (set_password env uid hash False)"

definition AdminResetPassword :: "acct_env \<Rightarrow> int \<Rightarrow> string \<Rightarrow> acct_db \<Rightarrow> unit res \<times> acct_db" where
  "AdminResetPassword env uid hash = acct_change env ''admin reset password'' (set_password env uid hash True)"

definition UserCount :: "acct_env \<Rightarrow> acct_db \<Rightarrow> nat res \<times> acct_db" where
  "UserCount env db =
    (let db' = db\<lparr>ad_calls := Suc (ad_calls db)\<rparr>
     in case se_fault (ae_store env) (ad_calls db) of Some e \<Rightarrow> (Inl e, db') | None \<Rightarrow> (Inr (length (ad_users db)), db'))"

definition zero_user :: user where
  "zero_user = \<lparr>us_ID = 0, us_Username = [], us_Email = [], us_HashedPassword = [], us_Role = [], us_MustChangePassword = False,
    us_CreatedAt = zero_time, us_UpdatedAt = zero_time\<rparr>"

definition EnsureAdmin :: "acct_env \<Rightarrow> string \<Rightarrow> string \<Rightarrow> string \<Rightarrow> acct_db \<Rightarrow> unit res \<times> acct_db" where
  "EnsureAdmin env username email hash db =
    (case UserCount env db of
       (Inl e, db1) \<Rightarrow> (Inl e, db1)
     | (Inr n, db1) \<Rightarrow>
        (if 0 < n then (Inr (), db1)
         else (case CreateUser env (zero_user\<lparr>us_Username := username, us_Email := email, us_HashedPassword := hash, us_Role := ''admin''\<rparr>) db1 of
                 (Inl e, db2) \<Rightarrow> (Inl e, db2)
               | (Inr _, db2) \<Rightarrow> (Inr (), db2))))"

subsection \<open>Reset tokens\<close>

definition CreatePasswordResetToken :: "acct_env \<Rightarrow> int \<Rightarrow> string \<Rightarrow> time \<Rightarrow> acct_db \<Rightarrow> unit res \<times> acct_db" where
  "CreatePasswordResetToken env uid hash expiresAt db =
    (case acct_query env ''begin password reset token tx'' (\<lambda>_. ()) db of
       (Inl e, db1) \<Rightarrow> (Inl e, db1)
     | (Inr _, db1) \<Rightarrow>
        (case acct_change env ''clear existing password reset tokens''
                (\<lambda>d. d\<lparr>ad_tokens := filter (\<lambda>t. \<not> (rt_UserID t = uid \<and> rt_UsedAt t = None)) (ad_tokens d)\<rparr>) db1 of
           (Inl e, db2) \<Rightarrow> (Inl e, rollback db db2)
         | (Inr _, db2) \<Rightarrow>
            (case acct_stmt env ''create password reset token'' (\<lambda>d.
                    if list_ex (\<lambda>t. ae_key env (rt_TokenHash t) = ae_key env hash) (ad_tokens d)
                    then (Inl ''Duplicate entry'', d\<lparr>ad_nextToken := ad_nextToken d + 1\<rparr>)
                    else if \<not> list_ex (\<lambda>u. us_ID u = uid) (ad_users d)
                    then (Inl ''Cannot add or update a child row'', d\<lparr>ad_nextToken := ad_nextToken d + 1\<rparr>)
                    else (Inr (), d\<lparr>ad_tokens := ad_tokens d @ [\<lparr>rt_ID = ad_nextToken d, rt_UserID = uid, rt_TokenHash = hash, rt_ExpiresAt = expiresAt,
                             rt_UsedAt = None, rt_CreatedAt = acct_stamp env\<rparr>], ad_nextToken := ad_nextToken d + 1\<rparr>)) db2 of
               (Inl e, db3) \<Rightarrow> (Inl e, rollback db db3)
             | (Inr _, db3) \<Rightarrow>
                (case acct_query env ''commit password reset token tx'' (\<lambda>_. ()) db3 of
                   (Inl e, db4) \<Rightarrow> (Inl e, rollback db db4)
                 | (Inr _, db4) \<Rightarrow> (Inr (), db4)))))"

text \<open>
  The token is found by its hash; a used or expired one gives no user. The password is written before the
  token is marked as used, both in one transaction.
\<close>

definition ResetPasswordWithToken :: "acct_env \<Rightarrow> string \<Rightarrow> string \<Rightarrow> acct_db \<Rightarrow> user option res \<times> acct_db" where
  "ResetPasswordWithToken env tokenHash hash db =
    (let this = (\<lambda>t. ae_key env (rt_TokenHash t) = ae_key env tokenHash)
     in case acct_query env ''begin password reset tx'' (\<lambda>_. ()) db of
       (Inl e, db1) \<Rightarrow> (Inl e, db1)
     | (Inr _, db1) \<Rightarrow>
        (case acct_query env ''load password reset token'' (\<lambda>d. find this (ad_tokens d)) db1 of
           (Inl e, db2) \<Rightarrow> (Inl e, db2)
         | (Inr None, db2) \<Rightarrow> (Inr None, db2)
         | (Inr (Some t), db2) \<Rightarrow>
            (if rt_UsedAt t \<noteq> None \<or> rt_ExpiresAt t < acct_now env then (Inr None, db2)
             else (case acct_change env ''update password from reset token'' (set_password env (rt_UserID t) hash False) db2 of
                     (Inl e, db3) \<Rightarrow> (Inl e, rollback db db3)
                   | (Inr _, db3) \<Rightarrow>
                      (case acct_change env ''mark password reset token used''
                              (\<lambda>d. d\<lparr>ad_tokens := map (\<lambda>x. if this x then x\<lparr>rt_UsedAt := Some (acct_now env)\<rparr> else x) (ad_tokens d)\<rparr>) db3 of
                         (Inl e, db4) \<Rightarrow> (Inl e, rollback db db4)
                       | (Inr _, db4) \<Rightarrow>
                          (case acct_stmt env ''load updated user after password reset'' (\<lambda>d.
                                  case find (\<lambda>u. us_ID u = rt_UserID t) (ad_users d) of
                                    None \<Rightarrow> (Inl ''sql: no rows in result set'', d)
                                  | Some u \<Rightarrow> (Inr u, d)) db4 of
                             (Inl e, db5) \<Rightarrow> (Inl e, rollback db db5)
                           | (Inr u, db5) \<Rightarrow>
                              (case acct_query env ''commit password reset tx'' (\<lambda>_. ()) db5 of
                                 (Inl e, db6) \<Rightarrow> (Inl e, rollback db db6)
                               | (Inr _, db6) \<Rightarrow> (Inr (Some u), db6))))))))"

end
