(* ===== verification/AccountHandler.thy ===== *)
theory AccountHandler
  imports Accounts
begin

text \<open>
  The handlers of \<^verbatim>\<open>controller/internal/handler/auth.go\<close>: login, users and the reset of passwords. The fields
  of a user are those of the struct; its hashed password is never encoded in a response
  (\<^verbatim>\<open>json:"-"\<close>).
\<close>

record bcrypt_lib =
  bc_generate :: "string \<Rightarrow> string \<Rightarrow> string res"
  bc_compare :: "string \<Rightarrow> string \<Rightarrow> bool"

record auth_handler =
  ah_env :: acct_env
  ah_jwt :: jwt_lib
  ah_bcrypt :: bcrypt_lib
  ah_salt :: string
  ah_crypto :: crypto_lib
  ah_rand :: "string res"
  ah_draws :: "nat \<Rightarrow> nat res"
  ah_sendmail :: "string \<Rightarrow> (string \<times> string \<times> string) option \<Rightarrow> string \<Rightarrow> string \<Rightarrow> string \<Rightarrow> unit res"
  ah_jwtSecret :: string
  ah_publicAppURL :: string
  ah_passwordResetTokenTTL :: int
  ah_smtpHost :: string
  ah_smtpPort :: int
  ah_smtpUser :: string
  ah_smtpPassword :: string
  ah_smtpFromEmail :: string
  ah_smtpFromName :: string

datatype acct_reply =
    LoginReply string user
  | UserReply user
  | PasswordReply string user
  | MessageReply string
  | TempPasswordReply string string user

type_synonym acct_out = "acct_reply response \<times> acct_db"

subsection \<open>Helpers\<close>

text \<open>\<^verbatim>\<open>hex.EncodeToString\<close> and \<^verbatim>\<open>strings.TrimRight(s, "/")\<close>.\<close>

definition hex_char :: "nat \<Rightarrow> char" where
  "hex_char n = ''0123456789abcdef'' ! (n mod 16)"

definition hex_encode :: "string \<Rightarrow> string" where
  "hex_encode s = concat (map (\<lambda>c. [hex_char (of_char c div 16), hex_char (of_char c mod 16)]) s)"

definition trim_right_slash :: "string \<Rightarrow> string" where
  "trim_right_slash s = rev (dropWhile (\<lambda>c. c = CHR ''/'') (rev s))"

definition new_auth_handler :: "auth_handler \<Rightarrow> auth_handler" where
  "new_auth_handler opts = opts\<lparr>ah_publicAppURL := trim_right_slash (ah_publicAppURL opts)\<rparr>"

definition tempPasswordAlphabet :: string where
  "tempPasswordAlphabet = ''ABCDEFGHJKLMNPQRSTUVWXYZabcdefghijkmnopqrstuvwxyz23456789''"

fun temp_password_loop :: "(nat \<Rightarrow> nat res) \<Rightarrow> nat \<Rightarrow> nat \<Rightarrow> string res" where
  "temp_password_loop draws i 0 = Inr []"
| "temp_password_loop draws i (Suc k) =
    (case draws i of
       Inl e \<Rightarrow> Inl e
     | Inr n \<Rightarrow> (case temp_password_loop draws (Suc i) k of Inl e \<Rightarrow> Inl e | Inr s \<Rightarrow> Inr (tempPasswordAlphabet ! n # s)))"

definition generateTemporaryPassword :: "(nat \<Rightarrow> nat res) \<Rightarrow> int \<Rightarrow> string res" where
  "generateTemporaryPassword draws len =
    (if len \<le> 0 then Inl ''invalid temp password length'' else temp_password_loop draws 0 (nat len))"

definition hashResetToken :: "crypto_lib \<Rightarrow> string \<Rightarrow> string" where
  "hashResetToken cl token = hex_encode (cl_sha256 cl token)"

definition generateResetToken :: "crypto_lib \<Rightarrow> string res \<Rightarrow> (string \<times> string) res" where
  "generateResetToken cl rnd =
    (case rnd of Inl e \<Rightarrow> Inl e | Inr raw \<Rightarrow> Inr (hex_encode raw, hashResetToken cl (hex_encode raw)))"

definition effectivePasswordResetTTL :: "auth_handler \<Rightarrow> int" where
  "effectivePasswordResetTTL h = (if ah_passwordResetTokenTTL h \<le> 0 then 30 * 60 * second else ah_passwordResetTokenTTL h)"

definition buildPasswordResetURL :: "auth_handler \<Rightarrow> string \<Rightarrow> string" where
  "buildPasswordResetURL h token =
    (let baseURL = (if ah_publicAppURL h = [] then ''http://localhost:3000'' else ah_publicAppURL h)
     in trim_right_slash baseURL @ ''/reset-password?token='' @ token)"

definition formatEmailAddress :: "string \<Rightarrow> string \<Rightarrow> string" where
  "formatEmailAddress name email = (let n = trim_space name in if n = [] then email else n @ '' <'' @ email @ ''>'')"

text \<open>\<^verbatim>\<open>Time.Format(time.RFC1123)\<close> in UTC.\<close>

definition format_rfc1123_utc :: "time \<Rightarrow> string" where
  "format_rfc1123_utc t =
    (let s = unix_sec t; days = s div 86400; sod = s mod 86400; (y, m, d) = civil_from_days days
     in [''Sun'', ''Mon'', ''Tue'', ''Wed'', ''Thu'', ''Fri'', ''Sat''] ! nat ((days + 4) mod 7) @ '', '' @ pad0 2 d @ '' '' @
        [''Jan'', ''Feb'', ''Mar'', ''Apr'', ''May'', ''Jun'', ''Jul'', ''Aug'', ''Sep'', ''Oct'', ''Nov'', ''Dec''] ! nat (m - 1) @ '' '' @ pad0 4 y @ '' '' @
        pad0 2 (sod div 3600) @ '':'' @ pad0 2 (sod mod 3600 div 60) @ '':'' @ pad0 2 (sod mod 60) @ '' UTC'')"

definition crlf :: string where
  "crlf = [char_of (13 :: nat), char_of (10 :: nat)]"

definition reset_message :: "auth_handler \<Rightarrow> user \<Rightarrow> string \<Rightarrow> string \<Rightarrow> time \<Rightarrow> string" where
  "reset_message h u fromAddress resetURL expiresAt =
    join crlf [''From: '' @ formatEmailAddress (ah_smtpFromName h) fromAddress, ''To: '' @ us_Email u, ''Subject: Password reset request'',
      ''MIME-Version: 1.0'', ''Content-Type: text/plain; charset=UTF-8''] @ crlf @ crlf @
    ''Hello '' @ us_Username u @ '','' @ crlf @ crlf @ ''Use the following link to reset your password:'' @ crlf @ resetURL @ crlf @ crlf @
    ''The link expires at '' @ format_rfc1123_utc expiresAt @ ''.'' @ crlf @
    ''If you did not request this change, you can ignore this email.'' @ crlf"

definition sendPasswordResetEmail :: "auth_handler \<Rightarrow> user \<Rightarrow> string \<Rightarrow> time \<Rightarrow> unit res \<times> delivery list" where
  "sendPasswordResetEmail h u resetURL expiresAt =
    (let fromAddress = trim_space (ah_smtpFromEmail h)
     in if fromAddress = [] then (Inl ''smtp from email is required'', [])
        else (let message = reset_message h u fromAddress resetURL expiresAt;
                  address = ah_smtpHost h @ '':'' @ itoa (ah_smtpPort h);
                  auth = (if trim_space (ah_smtpUser h) \<noteq> [] then Some (ah_smtpUser h, ah_smtpPassword h, ah_smtpHost h) else None)
              in case ah_sendmail h address auth fromAddress (us_Email u) message of
                   Inl e \<Rightarrow> (Inl e, [])
                 | Inr _ \<Rightarrow> (Inr (), [Mailed address auth fromAddress (us_Email u) message])))"

definition deliverPasswordReset :: "auth_handler \<Rightarrow> user \<Rightarrow> string \<Rightarrow> time \<Rightarrow> unit res \<times> delivery list" where
  "deliverPasswordReset h u resetURL expiresAt =
    (if trim_space (ah_smtpHost h) = []
     then (Inr (), [Logged (us_ID u) (us_Username u) (us_Email u) resetURL (format_rfc3339 utc_loc expiresAt)])
     else sendPasswordResetEmail h u resetURL expiresAt)"

definition unix_num :: "time \<Rightarrow> json" where
  "unix_num t = JNum (f64_of_int (unix_sec t))"

definition token_claims :: "auth_handler \<Rightarrow> user \<Rightarrow> json_obj" where
  "token_claims h u =
    [(''sub'', JStr (itoa (us_ID u))), (''username'', JStr (us_Username u)), (''role'', JStr (us_Role u)),
     (''exp'', unix_num (acct_now (ah_env h) + 24 * 3600 * second)), (''iat'', unix_num (acct_now (ah_env h)))]"

definition generateToken :: "auth_handler \<Rightarrow> user \<Rightarrow> string res" where
  "generateToken h u = jw_sign (ah_jwt h) (ah_jwtSecret h) (token_claims h u)"

definition HashPassword :: "auth_handler \<Rightarrow> string \<Rightarrow> string res" where
  "HashPassword h password = bc_generate (ah_bcrypt h) (ah_salt h) password"

subsection \<open>Handlers\<close>

record login_request =
  lq_Username :: string
  lq_Password :: string

definition Login :: "auth_handler \<Rightarrow> login_request option \<Rightarrow> acct_db \<Rightarrow> acct_out" where
  "Login h body db =
    (case body of
       None \<Rightarrow> (HttpError ''invalid request body'' 400, db)
     | Some req \<Rightarrow>
        (case GetUserByUsername (ah_env h) (lq_Username req) db of
           (Inl e, db1) \<Rightarrow> (HttpError ''internal error'' 500, db1)
         | (Inr None, db1) \<Rightarrow> (HttpError ''invalid credentials'' 401, db1)
         | (Inr (Some u), db1) \<Rightarrow>
            (if \<not> bc_compare (ah_bcrypt h) (us_HashedPassword u) (lq_Password req) then (HttpError ''invalid credentials'' 401, db1)
             else (case generateToken h u of
                     Inl e \<Rightarrow> (HttpError ''internal error'' 500, db1)
                   | Inr token \<Rightarrow> (HttpJson 200 (LoginReply token u), db1)))))"

record create_user_request =
  cu_Username :: string
  cu_Email :: string
  cu_Password :: string
  cu_Role :: string

definition Create_user :: "auth_handler \<Rightarrow> create_user_request option \<Rightarrow> user_ctx \<Rightarrow> acct_db \<Rightarrow> acct_out" where
  "Create_user h body ctx db =
    (case body of
       None \<Rightarrow> (HttpError ''invalid request body'' 400, db)
     | Some req \<Rightarrow>
        (if cu_Username req = [] \<or> cu_Email req = [] \<or> cu_Password req = []
         then (HttpError ''username, email and password are required'' 400, db)
         else (case HashPassword h (cu_Password req) of
                 Inl e \<Rightarrow> (HttpError ''internal error'' 500, db)
               | Inr hashed \<Rightarrow>
                  (case CreateUser (ah_env h) (zero_user\<lparr>us_Username := cu_Username req, us_Email := cu_Email req, us_HashedPassword := hashed,
                          us_Role := (if cu_Role req = [] then ''user'' else cu_Role req)\<rparr>) db of
                     (Inl e, db1) \<Rightarrow> (HttpError (''could not create user: '' @ e) 409, db1)
                   | (Inr u, db1) \<Rightarrow> (HttpJson 201 (UserReply u), db1)))))"

record update_password_request =
  up_OldPassword :: string
  up_NewPassword :: string

definition Update_password :: "auth_handler \<Rightarrow> update_password_request option \<Rightarrow> user_ctx \<Rightarrow> acct_db \<Rightarrow> acct_out" where
  "Update_password h body ctx db =
    (case body of
       None \<Rightarrow> (HttpError ''invalid request body'' 400, db)
     | Some req \<Rightarrow>
        (case GetUserByID (ah_env h) (uc_UserID ctx) db of
           (Inl e, db1) \<Rightarrow> (HttpError ''user not found'' 404, db1)
         | (Inr None, db1) \<Rightarrow> (HttpError ''user not found'' 404, db1)
         | (Inr (Some u), db1) \<Rightarrow>
            (if \<not> bc_compare (ah_bcrypt h) (us_HashedPassword u) (up_OldPassword req)
             then (HttpError ''current password is incorrect'' 401, db1)
             else (case HashPassword h (up_NewPassword req) of
                     Inl e \<Rightarrow> (HttpError ''internal error'' 500, db1)
                   | Inr hashed \<Rightarrow>
                      (case UpdatePassword (ah_env h) (uc_UserID ctx) hashed db1 of
                         (Inl e, db2) \<Rightarrow> (HttpError ''internal error'' 500, db2)
                       | (Inr _, db2) \<Rightarrow>
                          (HttpJson 200 (PasswordReply ''password updated'' (u\<lparr>us_HashedPassword := [], us_MustChangePassword := False\<rparr>)), db2))))))"

definition forgot_message :: string where
  "forgot_message = ''If an account matches that identifier, a password reset link has been sent.''"

definition ForgotPassword :: "auth_handler \<Rightarrow> string option \<Rightarrow> acct_db \<Rightarrow> acct_out" where
  "ForgotPassword h body db =
    (case body of
       None \<Rightarrow> (HttpError ''invalid request body'' 400, db)
     | Some ident \<Rightarrow>
        (let identifier = trim_space ident; resp = HttpJson 200 (MessageReply forgot_message)
         in if identifier = [] then (resp, db)
            else (case GetUserByIdentifier (ah_env h) identifier db of
                    (Inl e, db1) \<Rightarrow> (HttpError ''internal error'' 500, db1)
                  | (Inr None, db1) \<Rightarrow> (resp, db1)
                  | (Inr (Some u), db1) \<Rightarrow>
                     (case generateResetToken (ah_crypto h) (ah_rand h) of
                        Inl e \<Rightarrow> (HttpError ''internal error'' 500, db1)
                      | Inr (rawToken, tokenHash) \<Rightarrow>
                         (let expiresAt = acct_now (ah_env h) + effectivePasswordResetTTL h
                          in case CreatePasswordResetToken (ah_env h) (us_ID u) tokenHash expiresAt db1 of
                               (Inl e, db2) \<Rightarrow> (HttpError ''internal error'' 500, db2)
                             | (Inr _, db2) \<Rightarrow>
                                (case deliverPasswordReset h u (buildPasswordResetURL h rawToken) expiresAt of
                                   (Inl e, out) \<Rightarrow> (HttpError ''internal error'' 500, db2\<lparr>ad_sent := ad_sent db2 @ out\<rparr>)
                                 | (Inr _, out) \<Rightarrow> (resp, db2\<lparr>ad_sent := ad_sent db2 @ out\<rparr>)))))))"

record complete_reset_request =
  cp_Token :: string
  cp_NewPassword :: string

definition CompletePasswordReset :: "auth_handler \<Rightarrow> complete_reset_request option \<Rightarrow> acct_db \<Rightarrow> acct_out" where
  "CompletePasswordReset h body db =
    (case body of
       None \<Rightarrow> (HttpError ''invalid request body'' 400, db)
     | Some req \<Rightarrow>
        (if trim_space (cp_Token req) = [] \<or> trim_space (cp_NewPassword req) = []
         then (HttpError ''token and new password are required'' 400, db)
         else (case HashPassword h (cp_NewPassword req) of
                 Inl e \<Rightarrow> (HttpError ''internal error'' 500, db)
               | Inr hashed \<Rightarrow>
                  (case ResetPasswordWithToken (ah_env h) (hashResetToken (ah_crypto h) (cp_Token req)) hashed db of
                     (Inl e, db1) \<Rightarrow> (HttpError ''internal error'' 500, db1)
                   | (Inr None, db1) \<Rightarrow> (HttpError ''invalid or expired reset token'' 400, db1)
                   | (Inr (Some _), db1) \<Rightarrow> (HttpJson 200 (MessageReply ''password reset successful''), db1)))))"

definition ResetUserPassword :: "auth_handler \<Rightarrow> string \<Rightarrow> user_ctx \<Rightarrow> acct_db \<Rightarrow> acct_out" where
  "ResetUserPassword h i ctx db =
    (case atoi i of
       None \<Rightarrow> (HttpError ''invalid user id'' 400, db)
     | Some uid \<Rightarrow>
        (if uid \<le> 0 then (HttpError ''invalid user id'' 400, db)
         else (case GetUserByID (ah_env h) uid db of
                 (Inl e, db1) \<Rightarrow> (HttpError ''internal error'' 500, db1)
               | (Inr None, db1) \<Rightarrow> (HttpError ''user not found'' 404, db1)
               | (Inr (Some u), db1) \<Rightarrow>
                  (case generateTemporaryPassword (ah_draws h) 14 of
                     Inl e \<Rightarrow> (HttpError ''internal error'' 500, db1)
                   | Inr tempPassword \<Rightarrow>
                      (case HashPassword h tempPassword of
                         Inl e \<Rightarrow> (HttpError ''internal error'' 500, db1)
                       | Inr hashed \<Rightarrow>
                          (case AdminResetPassword (ah_env h) uid hashed db1 of
                             (Inl e, db2) \<Rightarrow> (HttpError ''internal error'' 500, db2)
                           | (Inr _, db2) \<Rightarrow>
                              (HttpJson 200 (TempPasswordReply ''password reset'' tempPassword
                                 (u\<lparr>us_HashedPassword := [], us_MustChangePassword := True\<rparr>)), db2)))))))"

end
