(* ===== verification/AccountProofs.thy ===== *)
theory AccountProofs
  imports AccountHandler
begin

text \<open>
  What the account handlers guarantee: the integrity of the two tables under every sequence of requests and
  failures, the reset of a password with a token (once, in time, for one account), and the way from a login
  to the identity of later requests.
\<close>

subsection \<open>Statements\<close>

lemma acct_query_eq:
  "acct_query env msg q db =
    (case se_fault (ae_store env) (ad_calls db) of
       Some e \<Rightarrow> (Inl (msg @ '': '' @ e), db\<lparr>ad_calls := Suc (ad_calls db)\<rparr>)
     | None \<Rightarrow> (Inr (q (db\<lparr>ad_calls := Suc (ad_calls db)\<rparr>)), db\<lparr>ad_calls := Suc (ad_calls db)\<rparr>))"
  by (simp add: acct_query_def acct_stmt_def Let_def split: option.split)

lemma acct_change_eq:
  "acct_change env msg f db =
    (case se_fault (ae_store env) (ad_calls db) of
       Some e \<Rightarrow> (Inl (msg @ '': '' @ e), db\<lparr>ad_calls := Suc (ad_calls db)\<rparr>)
     | None \<Rightarrow> (Inr (), f (db\<lparr>ad_calls := Suc (ad_calls db)\<rparr>)))"
  by (simp add: acct_change_def acct_stmt_def Let_def split: option.split)

lemma touch_user_fields [simp]:
  "us_HashedPassword (touch_user env u (u\<lparr>us_HashedPassword := hash, us_MustChangePassword := must\<rparr>)) = hash"
  "us_ID (touch_user env u (u\<lparr>us_HashedPassword := hash, us_MustChangePassword := must\<rparr>)) = us_ID u"
  "us_Username (touch_user env u (u\<lparr>us_HashedPassword := hash, us_MustChangePassword := must\<rparr>)) = us_Username u"
  "us_Role (touch_user env u (u\<lparr>us_HashedPassword := hash, us_MustChangePassword := must\<rparr>)) = us_Role u"
  by (auto simp: touch_user_def dest: arg_cong [of _ _ us_HashedPassword])

lemma set_password_calls [simp]: "ad_calls (set_password env uid hash must db) = ad_calls db"
  "ad_tokens (set_password env uid hash must db) = ad_tokens db" "ad_nextToken (set_password env uid hash must db) = ad_nextToken db"
  "ad_nextUser (set_password env uid hash must db) = ad_nextUser db" "ad_sent (set_password env uid hash must db) = ad_sent db"
  by (simp_all add: set_password_def)

lemma set_password_ids [simp]: "map us_ID (ad_users (set_password env uid hash must db)) = map us_ID (ad_users db)"
  "map us_Username (ad_users (set_password env uid hash must db)) = map us_Username (ad_users db)"
  "map us_Email (ad_users (set_password env uid hash must db)) = map us_Email (ad_users db)"
  "map us_Role (ad_users (set_password env uid hash must db)) = map us_Role (ad_users db)"
  by (simp_all add: set_password_def touch_user_def)

definition mark_used :: "acct_env \<Rightarrow> string \<Rightarrow> acct_db \<Rightarrow> acct_db" where
  "mark_used env hash db =
    db\<lparr>ad_tokens := map (\<lambda>x. if ae_key env (rt_TokenHash x) = ae_key env hash then x\<lparr>rt_UsedAt := Some (acct_now env)\<rparr> else x) (ad_tokens db)\<rparr>"

lemmas acct_eqs = acct_query_eq acct_change_eq acct_stmt_def rollback_def Let_def

lemma CreatePasswordResetToken_outcome:
  "(\<exists>e k nt. CreatePasswordResetToken env uid hash expiresAt db = (Inl e, db\<lparr>ad_calls := k, ad_nextToken := nt\<rparr>) \<and> ad_nextToken db \<le> nt) \<or>
   (\<exists>k. CreatePasswordResetToken env uid hash expiresAt db =
        (Inr (), db\<lparr>ad_calls := k, ad_nextToken := ad_nextToken db + 1,
           ad_tokens := filter (\<lambda>t. \<not> (rt_UserID t = uid \<and> rt_UsedAt t = None)) (ad_tokens db) @
             [\<lparr>rt_ID = ad_nextToken db, rt_UserID = uid, rt_TokenHash = hash, rt_ExpiresAt = expiresAt, rt_UsedAt = None, rt_CreatedAt = acct_stamp env\<rparr>]\<rparr>) \<and>
      \<not> list_ex (\<lambda>t. ae_key env (rt_TokenHash t) = ae_key env hash) (filter (\<lambda>t. \<not> (rt_UserID t = uid \<and> rt_UsedAt t = None)) (ad_tokens db)) \<and>
      list_ex (\<lambda>u. us_ID u = uid) (ad_users db))"
  (is "?failed \<or> ?stored")
proof (cases db)
  case (fields us ts nu nt n out)
  let ?f = "se_fault (ae_store env)"
  show ?thesis
  proof (cases "?f n = None \<and> ?f (Suc n) = None \<and> ?f (Suc (Suc n)) = None")
    case False
    then have ?failed
      by (cases "?f n"; cases "?f (Suc n)"; cases "?f (Suc (Suc n))") (simp_all add: CreatePasswordResetToken_def acct_eqs fields)
    then show ?thesis ..
  next
    case True
    then show ?thesis by (cases "?f (Suc (Suc (Suc n)))") (simp_all add: CreatePasswordResetToken_def acct_eqs fields)
  qed
qed

lemma ResetPasswordWithToken_outcome:
  "(\<exists>e k. ResetPasswordWithToken env tokenHash hash db = (Inl e, db\<lparr>ad_calls := k\<rparr>)) \<or>
   (\<exists>k. ResetPasswordWithToken env tokenHash hash db = (Inr None, db\<lparr>ad_calls := k\<rparr>)) \<or>
   (\<exists>k t u. ResetPasswordWithToken env tokenHash hash db =
      (Inr (Some u), (mark_used env tokenHash (set_password env (rt_UserID t) hash False db))\<lparr>ad_calls := k\<rparr>) \<and>
      find (\<lambda>t. ae_key env (rt_TokenHash t) = ae_key env tokenHash) (ad_tokens db) = Some t \<and> rt_UsedAt t = None \<and> acct_now env \<le> rt_ExpiresAt t)"
  (is "?failed \<or> ?refused \<or> ?reset")
proof (cases db)
  case (fields us ts nu nt n out)
  let ?f = "se_fault (ae_store env)" and ?hit = "\<lambda>t. ae_key env (rt_TokenHash t) = ae_key env tokenHash"
  show ?thesis
  proof (cases "?f n = None \<and> ?f (Suc n) = None \<and> (\<exists>t. find ?hit ts = Some t \<and> rt_UsedAt t = None \<and> acct_now env \<le> rt_ExpiresAt t)")
    case False
    then show ?thesis
      by (cases "?f n"; cases "?f (Suc n)"; cases "find ?hit ts") (auto simp: ResetPasswordWithToken_def acct_eqs fields)
  next
    case True
    then obtain t where t: "find ?hit ts = Some t" "rt_UsedAt t = None" "acct_now env \<le> rt_ExpiresAt t" by blast
    let ?us = "ad_users (set_password env (rt_UserID t) hash False db)"
    show ?thesis
    proof (cases "?f (Suc (Suc n)) = None \<and> ?f (Suc (Suc (Suc n))) = None \<and> ?f (Suc (Suc (Suc (Suc n)))) = None")
      case False
      then have ?failed using True t
        by (cases "?f (Suc (Suc n))"; cases "?f (Suc (Suc (Suc n)))"; cases "?f (Suc (Suc (Suc (Suc n))))")
          (simp_all add: ResetPasswordWithToken_def acct_eqs fields set_password_def)
      then show ?thesis ..
    next
      case ok: True
      show ?thesis
      proof (cases "find (\<lambda>u. us_ID u = rt_UserID t) ?us")
        case None
        then have ?failed using True t ok by (simp add: ResetPasswordWithToken_def acct_eqs fields set_password_def)
        then show ?thesis ..
      next
        case (Some u)
        then show ?thesis using True t ok
          by (cases "?f (Suc (Suc (Suc (Suc (Suc n)))))") (simp_all add: ResetPasswordWithToken_def acct_eqs fields set_password_def mark_used_def)
      qed
    qed
  qed
qed

subsection \<open>Integrity\<close>

definition acct_wf :: "(string \<Rightarrow> string) \<Rightarrow> acct_db \<Rightarrow> bool" where
  "acct_wf key db \<longleftrightarrow>
    distinct (map us_ID (ad_users db)) \<and> list_all (\<lambda>i. i < ad_nextUser db) (map us_ID (ad_users db)) \<and>
    distinct (map (\<lambda>u. key (us_Username u)) (ad_users db)) \<and> distinct (map (\<lambda>u. key (us_Email u)) (ad_users db)) \<and>
    distinct (map rt_ID (ad_tokens db)) \<and> list_all (\<lambda>i. i < ad_nextToken db) (map rt_ID (ad_tokens db)) \<and>
    distinct (map (\<lambda>t. key (rt_TokenHash t)) (ad_tokens db)) \<and>
    distinct (map rt_UserID (filter (\<lambda>t. rt_UsedAt t = None) (ad_tokens db))) \<and>
    set (map rt_UserID (ad_tokens db)) \<subseteq> set (map us_ID (ad_users db))"

lemma acct_wf_calls [simp]: "acct_wf key (db\<lparr>ad_calls := k\<rparr>) = acct_wf key db" "acct_wf key (db\<lparr>ad_sent := out\<rparr>) = acct_wf key db"
  by (simp_all add: acct_wf_def)

lemma acct_wf_next: "acct_wf key db \<Longrightarrow> ad_nextToken db \<le> nt \<Longrightarrow> acct_wf key (db\<lparr>ad_calls := k, ad_nextToken := nt\<rparr>)"
  by (auto simp: acct_wf_def list_all_iff)

lemma set_password_map:
  assumes "\<And>u. g (touch_user env u (u\<lparr>us_HashedPassword := hash, us_MustChangePassword := must\<rparr>)) = g u"
  shows "map g (ad_users (set_password env uid hash must db)) = map g (ad_users db)"
  using assms by (simp add: set_password_def)

lemma set_password_wf [simp]: "acct_wf key (set_password env uid hash must db) = acct_wf key db"
  unfolding acct_wf_def by (simp add: set_password_map touch_user_def del: set_map)

lemma filter_mark: "filter (\<lambda>t. rt_UsedAt t = None) (map (\<lambda>x. if h x then x\<lparr>rt_UsedAt := Some w\<rparr> else x) ts) =
    filter (\<lambda>t. \<not> h t) (filter (\<lambda>t. rt_UsedAt t = None) ts)"
  by (induction ts) simp_all

lemma mark_used_map:
  assumes "\<And>x w. g (x\<lparr>rt_UsedAt := w\<rparr>) = g x"
  shows "map g (ad_tokens (mark_used env hash db)) = map g (ad_tokens db)"
  using assms by (simp add: mark_used_def)

lemma mark_used_users [simp]: "ad_users (mark_used env hash db) = ad_users db" "ad_nextUser (mark_used env hash db) = ad_nextUser db"
  "ad_nextToken (mark_used env hash db) = ad_nextToken db"
  by (simp_all add: mark_used_def)

lemma mark_used_unused:
  "filter (\<lambda>t. rt_UsedAt t = None) (ad_tokens (mark_used env hash db)) =
    filter (\<lambda>t. ae_key env (rt_TokenHash t) \<noteq> ae_key env hash) (filter (\<lambda>t. rt_UsedAt t = None) (ad_tokens db))"
  using filter_mark [of "\<lambda>x. ae_key env (rt_TokenHash x) = ae_key env hash" "acct_now env" "ad_tokens db"] by (simp add: mark_used_def)

lemma mark_used_wf:
  assumes "acct_wf key db"
  shows "acct_wf key (mark_used env hash db)"
proof -
  have "distinct (map rt_UserID (filter (\<lambda>t. rt_UsedAt t = None) (ad_tokens (mark_used env hash db))))"
    unfolding mark_used_unused by (rule distinct_map_filter) (use assms in \<open>simp add: acct_wf_def\<close>)
  then show ?thesis using assms unfolding acct_wf_def by (simp add: mark_used_map del: map_map set_map)
qed

lemma store_token_wf:
  assumes "acct_wf key db" "\<not> list_ex (\<lambda>t. key (rt_TokenHash t) = key hash) (filter (\<lambda>t. \<not> (rt_UserID t = uid \<and> rt_UsedAt t = None)) (ad_tokens db))"
    and "list_ex (\<lambda>u. us_ID u = uid) (ad_users db)"
  shows "acct_wf key (db\<lparr>ad_calls := k, ad_nextToken := ad_nextToken db + 1,
     ad_tokens := filter (\<lambda>t. \<not> (rt_UserID t = uid \<and> rt_UsedAt t = None)) (ad_tokens db) @
       [\<lparr>rt_ID = ad_nextToken db, rt_UserID = uid, rt_TokenHash = hash, rt_ExpiresAt = x, rt_UsedAt = None, rt_CreatedAt = c\<rparr>]\<rparr>)"
proof -
  let ?keep = "\<lambda>t. \<not> (rt_UserID t = uid \<and> rt_UsedAt t = None)"
  let ?ts = "filter ?keep (ad_tokens db)" and ?open = "filter (\<lambda>t. rt_UsedAt t = None)"
  note wf = assms(1) [unfolded acct_wf_def]
  have comm: "?open ?ts = filter ?keep (?open (ad_tokens db))" by (simp only: filter_filter conj_commute)
  have "distinct (map rt_UserID (?open ?ts))" unfolding comm by (rule distinct_map_filter) (use wf in blast)
  moreover have "uid \<notin> set (map rt_UserID (?open ?ts))" by auto
  moreover have "distinct (map rt_ID ?ts)" "distinct (map (\<lambda>t. key (rt_TokenHash t)) ?ts)" using wf by (simp_all add: distinct_map_filter)
  moreover have "list_all (\<lambda>i. i < ad_nextToken db) (map rt_ID ?ts)" using wf by (auto simp: list_all_iff)
  moreover have "set (map rt_UserID ?ts) \<subseteq> set (map us_ID (ad_users db))" using wf by auto
  moreover have "uid \<in> set (map us_ID (ad_users db))" using assms(3) by (auto simp: list_ex_iff)
  moreover have "key hash \<notin> set (map (\<lambda>t. key (rt_TokenHash t)) ?ts)" using assms(2) by (auto simp: list_ex_iff)
  ultimately show ?thesis using wf unfolding acct_wf_def
    by (fastforce simp: list_all_iff simp del: set_map filter_filter)
qed

lemma CreatePasswordResetToken_wf:
  assumes "acct_wf (ae_key env) db"
  shows "acct_wf (ae_key env) (snd (CreatePasswordResetToken env uid hash x db))"
  using CreatePasswordResetToken_outcome [of env uid hash x db] store_token_wf [of "ae_key env" db hash uid] acct_wf_next [of "ae_key env" db] assms
  by auto

lemma ResetPasswordWithToken_wf:
  assumes "acct_wf (ae_key env) db"
  shows "acct_wf (ae_key env) (snd (ResetPasswordWithToken env tokenHash hash db))"
  using ResetPasswordWithToken_outcome [of env tokenHash hash db] assms by (auto simp: mark_used_wf)

lemma acct_query_wf [simp]: "acct_wf key (snd (acct_query env msg q db)) = acct_wf key db"
  by (simp add: acct_query_eq split: option.split)

lemma CreateUser_wf:
  assumes "acct_wf (ae_key env) db"
  shows "acct_wf (ae_key env) (snd (CreateUser env u db))"
  using assms by (auto simp: CreateUser_def acct_stmt_def Let_def acct_wf_def list_all_iff list_ex_iff split: option.split)

lemma password_wf [simp]:
  "acct_wf key (snd (UpdatePassword env uid hash db)) = acct_wf key db" "acct_wf key (snd (AdminResetPassword env uid hash db)) = acct_wf key db"
  by (simp_all add: UpdatePassword_def AdminResetPassword_def acct_change_eq split: option.split)

subsection \<open>Requests in any order\<close>

text \<open>
  A step serves one request (or the start-up's creation of the first administrator) with any parameters;
  only the collation of the database stays the same.
\<close>

inductive acct_step :: "(string \<Rightarrow> string) \<Rightarrow> acct_db \<Rightarrow> acct_db \<Rightarrow> bool" for key where
  step_login: "ae_key (ah_env h) = key \<Longrightarrow> acct_step key db (snd (Login h lq db))"
| step_create: "ae_key (ah_env h) = key \<Longrightarrow> acct_step key db (snd (Create_user h cu ctx db))"
| step_update: "ae_key (ah_env h) = key \<Longrightarrow> acct_step key db (snd (Update_password h upr ctx db))"
| step_forgot: "ae_key (ah_env h) = key \<Longrightarrow> acct_step key db (snd (ForgotPassword h ident db))"
| step_complete: "ae_key (ah_env h) = key \<Longrightarrow> acct_step key db (snd (CompletePasswordReset h cp db))"
| step_reset: "ae_key (ah_env h) = key \<Longrightarrow> acct_step key db (snd (ResetUserPassword h i ctx db))"
| step_admin: "ae_key env = key \<Longrightarrow> acct_step key db (snd (EnsureAdmin env username email hash db))"

definition empty_accounts :: acct_db where
  "empty_accounts = \<lparr>ad_users = [], ad_tokens = [], ad_nextUser = 1, ad_nextToken = 1, ad_calls = 0, ad_sent = []\<rparr>"

lemma lookup_wf [simp]:
  "acct_wf key (snd (GetUserByUsername env n db)) = acct_wf key db" "acct_wf key (snd (GetUserByIdentifier env n db)) = acct_wf key db"
  "acct_wf key (snd (GetUserByID env uid db)) = acct_wf key db"
  by (simp_all add: GetUserByUsername_def GetUserByIdentifier_def GetUserByID_def)

lemma wf_snd: "x = (r, d) \<Longrightarrow> acct_wf key (snd x) \<Longrightarrow> acct_wf key d"
  by simp

lemma Login_wf: "acct_wf (ae_key (ah_env h)) db \<Longrightarrow> acct_wf (ae_key (ah_env h)) (snd (Login h lq db))"
  unfolding Login_def
  by (auto split: option.split prod.split sum.split dest!: wf_snd [where key = "ae_key (ah_env h)"])

lemma Create_user_wf: "acct_wf (ae_key (ah_env h)) db \<Longrightarrow> acct_wf (ae_key (ah_env h)) (snd (Create_user h cu ctx db))"
  unfolding Create_user_def
  by (auto split: option.split prod.split sum.split dest!: wf_snd [where key = "ae_key (ah_env h)"] simp: CreateUser_wf)

lemma Update_password_wf: "acct_wf (ae_key (ah_env h)) db \<Longrightarrow> acct_wf (ae_key (ah_env h)) (snd (Update_password h upr ctx db))"
  unfolding Update_password_def
  by (auto split: option.split prod.split sum.split dest!: wf_snd [where key = "ae_key (ah_env h)"])

lemma ForgotPassword_wf: "acct_wf (ae_key (ah_env h)) db \<Longrightarrow> acct_wf (ae_key (ah_env h)) (snd (ForgotPassword h ident db))"
  unfolding ForgotPassword_def Let_def
  by (auto split: option.split prod.split sum.split dest!: wf_snd [where key = "ae_key (ah_env h)"] simp: CreatePasswordResetToken_wf)

lemma CompletePasswordReset_wf: "acct_wf (ae_key (ah_env h)) db \<Longrightarrow> acct_wf (ae_key (ah_env h)) (snd (CompletePasswordReset h cp db))"
  unfolding CompletePasswordReset_def
  by (auto split: option.split prod.split sum.split dest!: wf_snd [where key = "ae_key (ah_env h)"] simp: ResetPasswordWithToken_wf)

lemma ResetUserPassword_wf: "acct_wf (ae_key (ah_env h)) db \<Longrightarrow> acct_wf (ae_key (ah_env h)) (snd (ResetUserPassword h i ctx db))"
  unfolding ResetUserPassword_def
  by (auto split: option.split prod.split sum.split dest!: wf_snd [where key = "ae_key (ah_env h)"])

lemma EnsureAdmin_wf: "acct_wf (ae_key env) db \<Longrightarrow> acct_wf (ae_key env) (snd (EnsureAdmin env username email hash db))"
  by (auto simp: EnsureAdmin_def UserCount_def Let_def split: option.split prod.split sum.split dest!: wf_snd [where key = "ae_key env"] simp: CreateUser_wf)

lemma acct_step_wf: "acct_step key db db' \<Longrightarrow> acct_wf key db \<Longrightarrow> acct_wf key db'"
  by (induction rule: acct_step.induct)
    (auto simp: Login_wf Create_user_wf Update_password_wf ForgotPassword_wf CompletePasswordReset_wf ResetUserPassword_wf EnsureAdmin_wf)

text \<open>
  C22. After every sequence of account requests, with any statement failing, user names, addresses and ids are
  unique under the collation, every reset token belongs to a user, token hashes are unique, and a user has at
  most one token that is not yet used.
\<close>

theorem accounts_invariant:
  assumes "(acct_step key)\<^sup>*\<^sup>* empty_accounts db"
  shows "acct_wf key db"
  using assms
proof (induction rule: rtranclp_induct)
  case base
  show ?case by (simp add: acct_wf_def empty_accounts_def)
next
  case (step db db')
  then show ?case by (blast intro: acct_step_wf)
qed

subsection \<open>Reset of a password\<close>

lemma find_distinct_key:
  assumes "distinct (map g ts)" "t \<in> set ts" "g t = k"
  shows "find (\<lambda>x. g x = k) ts = Some t"
  using assms by (induction ts) auto

lemma used_token_refused:
  assumes "t \<in> set (ad_tokens db)" "ae_key env (rt_TokenHash t) = ae_key env tokenHash" "rt_UsedAt t \<noteq> None" "acct_wf (ae_key env) db"
  shows "\<exists>r k. ResetPasswordWithToken env tokenHash hash db = (r, db\<lparr>ad_calls := k\<rparr>) \<and> (\<forall>u. r \<noteq> Inr (Some u))"
proof -
  have "find (\<lambda>x. ae_key env (rt_TokenHash x) = ae_key env tokenHash) (ad_tokens db) = Some t"
    using assms by (intro find_distinct_key) (auto simp: acct_wf_def)
  then show ?thesis using ResetPasswordWithToken_outcome [of env tokenHash hash db] assms(3) by auto
qed

text \<open>
  A password reset succeeds only with a token that was issued, is not used and has not expired; it changes the
  password of the account the token was issued for, to the hash of the new password, and of no other; and the same
  token is refused from then on, whoever presents it and whenever.
\<close>

theorem reset_token_works_once:
  assumes "acct_wf (ae_key (ah_env h)) db" "CompletePasswordReset h (Some req) db = (HttpJson 200 r, db')"
    and "ae_key (ah_env h2) = ae_key (ah_env h)" "hashResetToken (ah_crypto h2) (cp_Token req2) = hashResetToken (ah_crypto h) (cp_Token req)"
  shows "(\<exists>t hashed. t \<in> set (ad_tokens db) \<and> ae_key (ah_env h) (rt_TokenHash t) = ae_key (ah_env h) (hashResetToken (ah_crypto h) (cp_Token req)) \<and>
      rt_UsedAt t = None \<and> acct_now (ah_env h) \<le> rt_ExpiresAt t \<and> HashPassword h (cp_NewPassword req) = Inr hashed \<and>
      ad_users db' = map (\<lambda>u. if us_ID u = rt_UserID t
        then touch_user (ah_env h) u (u\<lparr>us_HashedPassword := hashed, us_MustChangePassword := False\<rparr>) else u) (ad_users db)) \<and>
    status_code (fst (CompletePasswordReset h2 (Some req2) db')) \<noteq> 200 \<and> ad_users (snd (CompletePasswordReset h2 (Some req2) db')) = ad_users db'"
proof -
  let ?env = "ah_env h" and ?th = "hashResetToken (ah_crypto h) (cp_Token req)"
  obtain hashed u where hashed: "HashPassword h (cp_NewPassword req) = Inr hashed"
    and res: "ResetPasswordWithToken ?env ?th hashed db = (Inr (Some u), db')"
    using assms(2) by (auto simp: CompletePasswordReset_def split: if_splits sum.splits prod.splits option.splits)
  obtain k t where db': "db' = (mark_used ?env ?th (set_password ?env (rt_UserID t) hashed False db))\<lparr>ad_calls := k\<rparr>"
    and t: "find (\<lambda>t. ae_key ?env (rt_TokenHash t) = ae_key ?env ?th) (ad_tokens db) = Some t" "rt_UsedAt t = None" "acct_now ?env \<le> rt_ExpiresAt t"
    using ResetPasswordWithToken_outcome [of ?env ?th hashed db] res by auto
  from t(1) have tin: "t \<in> set (ad_tokens db)" "ae_key ?env (rt_TokenHash t) = ae_key ?env ?th" by (auto simp: find_Some_iff)
  have wf': "acct_wf (ae_key ?env) db'" using CompletePasswordReset_wf [OF assms(1), of "Some req"] assms(2) by simp
  let ?t' = "t\<lparr>rt_UsedAt := Some (acct_now ?env)\<rparr>"
  have "?t' \<in> set (ad_tokens db')" using tin by (auto simp: db' mark_used_def image_iff)
  then have used: "\<exists>r k. ResetPasswordWithToken (ah_env h2) ?th hash db' = (r, db'\<lparr>ad_calls := k\<rparr>) \<and> (\<forall>u. r \<noteq> Inr (Some u))" for hash
    using used_token_refused [of ?t' db' "ah_env h2" ?th] wf' tin(2) assms(3) by simp
  have "status_code (fst (CompletePasswordReset h2 (Some req2) db')) \<noteq> 200 \<and> ad_users (snd (CompletePasswordReset h2 (Some req2) db')) = ad_users db'"
  proof (cases "HashPassword h2 (cp_NewPassword req2)")
    case (Inr hash)
    then show ?thesis using used [of hash] by (auto simp: CompletePasswordReset_def assms(4) split: sum.splits option.splits)
  qed (simp add: CompletePasswordReset_def)
  moreover have "ad_users db' = map (\<lambda>u. if us_ID u = rt_UserID t
      then touch_user ?env u (u\<lparr>us_HashedPassword := hashed, us_MustChangePassword := False\<rparr>) else u) (ad_users db)"
    by (simp add: db' set_password_def)
  ultimately show ?thesis using tin t(2,3) hashed by blast
qed

definition demo_bcrypt :: bcrypt_lib where
  "demo_bcrypt = \<lparr>bc_generate = (\<lambda>salt p. Inr (''$$'' @ p)), bc_compare = (\<lambda>hash p. drop 2 hash = p)\<rparr>"

definition demo_jwt :: jwt_lib where
  "demo_jwt = \<lparr>jw_sign = (\<lambda>sec claims. Inr (sec @ CHR ''.'' # str_or_empty (map_of claims ''sub''))),
    jw_parse = (\<lambda>key now tok. Some [(''sub'', JStr (drop 2 tok)), (''username'', JStr ''ann''), (''role'', JStr ''user'')])\<rparr>"

definition demo_auth :: "time \<Rightarrow> auth_handler" where
  "demo_auth now = \<lparr>ah_env = \<lparr>ae_store = \<lparr>se_fault = (\<lambda>_. None), se_now = now, se_uuid = (\<lambda>_. [])\<rparr>, ae_key = (\<lambda>s. s), ae_pick = 0\<rparr>,
    ah_jwt = demo_jwt, ah_bcrypt = demo_bcrypt, ah_salt = ''$$'', ah_crypto = demo_crypto, ah_rand = Inr ''r'', ah_draws = (\<lambda>_. Inr 0),
    ah_sendmail = (\<lambda>_ _ _ _ _. Inr ()), ah_jwtSecret = ''k'', ah_publicAppURL = [], ah_passwordResetTokenTTL = 0, ah_smtpHost = [], ah_smtpPort = 25,
    ah_smtpUser = [], ah_smtpPassword = [], ah_smtpFromEmail = [], ah_smtpFromName = []\<rparr>"

definition demo_accounts :: acct_db where
  "demo_accounts = empty_accounts\<lparr>ad_users := [zero_user\<lparr>us_ID := 1, us_Username := ''ann'', us_Email := ''a@b'', us_HashedPassword := ''$$old'', us_Role := ''user''\<rparr>],
    ad_tokens := [\<lparr>rt_ID = 1, rt_UserID = 1, rt_TokenHash = hashResetToken demo_crypto ''72'', rt_ExpiresAt = 100, rt_UsedAt = None, rt_CreatedAt = 0\<rparr>],
    ad_nextUser := 2, ad_nextToken := 2\<rparr>"

lemma demo_accounts_wf: "acct_wf (ae_key (ah_env (demo_auth now))) demo_accounts"
  by (simp add: acct_wf_def demo_accounts_def demo_auth_def)

theorem reset_token_works_once_witness:
  "\<exists>db'. CompletePasswordReset (demo_auth 50) (Some \<lparr>cp_Token = ''72'', cp_NewPassword = ''new''\<rparr>) demo_accounts =
      (HttpJson 200 (MessageReply ''password reset successful''), db') \<and> map us_HashedPassword (ad_users db') = [''$$new''] \<and>
    status_code (fst (CompletePasswordReset (demo_auth 60) (Some \<lparr>cp_Token = ''72'', cp_NewPassword = ''evil''\<rparr>) db')) \<noteq> 200"
proof -
  let ?r = "CompletePasswordReset (demo_auth 50) (Some \<lparr>cp_Token = ''72'', cp_NewPassword = ''new''\<rparr>) demo_accounts"
  have "trim_space ''72'' = ''72''" "trim_space ''new'' = ''new''" by (simp_all add: is_plain_def)
  then obtain db' where r: "?r = (HttpJson 200 (MessageReply ''password reset successful''), db')" and u: "map us_HashedPassword (ad_users db') = [''$$new'']"
    by (simp add: CompletePasswordReset_def ResetPasswordWithToken_def acct_eqs set_password_def touch_user_def demo_auth_def demo_accounts_def
        HashPassword_def demo_bcrypt_def acct_now_def zero_user_def)
  show ?thesis
    using reset_token_works_once [OF demo_accounts_wf r, of "demo_auth 60" "\<lparr>cp_Token = ''72'', cp_NewPassword = ''evil''\<rparr>"] r u
    by (auto simp: demo_auth_def)
qed

theorem accounts_invariant_witness:
  "\<exists>db. (acct_step (\<lambda>s. s))\<^sup>*\<^sup>* empty_accounts db \<and> map us_Role (ad_users db) = [''admin''] \<and> acct_wf (\<lambda>s. s) db"
proof -
  let ?env = "ah_env (demo_auth 0)"
  let ?db = "snd (EnsureAdmin ?env ''root'' ''r@b'' ''$$pw'' empty_accounts)"
  have "acct_step (\<lambda>s. s) empty_accounts ?db" by (rule step_admin) (simp add: demo_auth_def)
  then have r: "(acct_step (\<lambda>s. s))\<^sup>*\<^sup>* empty_accounts ?db" by blast
  have "map us_Role (ad_users ?db) = [''admin'']"
    by (simp add: EnsureAdmin_def UserCount_def CreateUser_def acct_stmt_def demo_auth_def empty_accounts_def Let_def)
  then show ?thesis by (intro exI [of _ ?db] conjI r accounts_invariant [OF r])
qed

text \<open>What the code relies on: a password compares equal with its own hash.\<close>

definition bcrypt_ok :: "bcrypt_lib \<Rightarrow> bool" where
  "bcrypt_ok bc \<longleftrightarrow> (\<forall>salt p hash. bc_generate bc salt p = Inr hash \<longrightarrow> bc_compare bc hash p)"

definition no_faults :: "acct_env \<Rightarrow> bool" where
  "no_faults env \<longleftrightarrow> (\<forall>n. se_fault (ae_store env) n = None)"

lemma no_faults_eqs:
  assumes "no_faults env"
  shows "acct_query env msg q db = (Inr (q (db\<lparr>ad_calls := Suc (ad_calls db)\<rparr>)), db\<lparr>ad_calls := Suc (ad_calls db)\<rparr>)"
    "acct_change env msg f db = (Inr (), f (db\<lparr>ad_calls := Suc (ad_calls db)\<rparr>))"
    "acct_stmt env msg g db = (case g (db\<lparr>ad_calls := Suc (ad_calls db)\<rparr>) of (r, d) \<Rightarrow> (wrap_err msg r, d))"
  using assms by (simp_all add: no_faults_def acct_query_eq acct_change_eq acct_stmt_def Let_def)

lemma identified:
  assumes "no_faults env" "acct_wf (ae_key env) db" "u \<in> set (ad_users db)" "ae_key env (us_Username u) = ae_key env ident"
    "list_all (\<lambda>v. ae_key env (us_Email v) = ae_key env ident \<longrightarrow> v = u) (ad_users db)"
  shows "GetUserByIdentifier env ident db = (Inr (Some u), db\<lparr>ad_calls := Suc (ad_calls db)\<rparr>)"
proof -
  let ?us = "filter (\<lambda>v. ae_key env (us_Username v) = ae_key env ident \<or> ae_key env (us_Email v) = ae_key env ident) (ad_users db)"
  have inj: "v = u" if "v \<in> set (ad_users db)" "ae_key env (us_Username v) = ae_key env ident" for v
    using that assms(2-4) by (auto simp: acct_wf_def distinct_map inj_on_def)
  have "\<forall>v \<in> set ?us. v = u" using inj assms(5) by (auto simp: list_all_iff)
  moreover have "?us \<noteq> []" using assms(3,4) by (auto simp: filter_empty_conv)
  ultimately have "?us ! (ae_pick env mod length ?us) = u" by (meson length_greater_0_conv mod_less_divisor nth_mem)
  then show ?thesis using \<open>?us \<noteq> []\<close> by (simp add: GetUserByIdentifier_def no_faults_eqs [OF assms(1)] Let_def)
qed

lemma issue_token:
  assumes "no_faults env" "u \<in> set (ad_users db)"
    and "list_all (\<lambda>t. ae_key env (rt_TokenHash t) \<noteq> ae_key env hash) (ad_tokens db)"
  shows "\<exists>k. CreatePasswordResetToken env (us_ID u) hash x db =
    (Inr (), db\<lparr>ad_calls := k, ad_nextToken := ad_nextToken db + 1,
           ad_tokens := filter (\<lambda>t. \<not> (rt_UserID t = us_ID u \<and> rt_UsedAt t = None)) (ad_tokens db) @
             [\<lparr>rt_ID = ad_nextToken db, rt_UserID = us_ID u, rt_TokenHash = hash, rt_ExpiresAt = x, rt_UsedAt = None, rt_CreatedAt = acct_stamp env\<rparr>]\<rparr>)"
proof -
  have "\<not> list_ex (\<lambda>t. ae_key env (rt_TokenHash t) = ae_key env hash) (filter (\<lambda>t. \<not> (rt_UserID t = us_ID u \<and> rt_UsedAt t = None)) (ad_tokens db))"
    "list_ex (\<lambda>v. us_ID v = us_ID u) (ad_users db)" using assms(2,3) by (auto simp: list_ex_iff list_all_iff)
  then show ?thesis by (cases db) (simp add: CreatePasswordResetToken_def no_faults_eqs [OF assms(1)])
qed

lemma use_token:
  assumes "no_faults env" "acct_wf (ae_key env) db" "t \<in> set (ad_tokens db)" "ae_key env (rt_TokenHash t) = ae_key env tokenHash"
    "rt_UsedAt t = None" "acct_now env \<le> rt_ExpiresAt t"
  shows "\<exists>k u. ResetPasswordWithToken env tokenHash hash db =
    (Inr (Some u), (mark_used env tokenHash (set_password env (rt_UserID t) hash False db))\<lparr>ad_calls := k\<rparr>)"
proof -
  have f: "find (\<lambda>t. ae_key env (rt_TokenHash t) = ae_key env tokenHash) (ad_tokens db) = Some t"
    using assms by (intro find_distinct_key) (auto simp: acct_wf_def)
  have "rt_UserID t \<in> us_ID ` set (ad_users db)" using assms(2,3) by (auto simp: acct_wf_def)
  then have "rt_UserID t \<in> set (map us_ID (ad_users (set_password env (rt_UserID t) hash False db)))" by simp
  then obtain u where "find (\<lambda>u. us_ID u = rt_UserID t) (ad_users (set_password env (rt_UserID t) hash False db)) = Some u"
    by (fastforce simp: find_None_iff simp del: set_password_ids dest: find_None_iff [THEN iffD1] split: option.splits)
  then show ?thesis using f assms(5,6)
    by (cases db) (simp add: ResetPasswordWithToken_def no_faults_eqs [OF assms(1)] rollback_def set_password_def mark_used_def)
qed

lemma hex_char_plain: "is_plain (hex_char n)"
proof -
  have "list_all is_plain ''0123456789abcdef''" by (simp add: is_plain_def)
  moreover have "n mod 16 < length ''0123456789abcdef''" by simp
  ultimately show ?thesis unfolding hex_char_def list_all_length by blast
qed

lemma hex_encode_simps: "hex_encode (c # s) = hex_char (of_char c div 16) # hex_char (of_char c mod 16) # hex_encode s"
  "hex_encode (s @ [c]) = hex_encode s @ [hex_char (of_char c div 16), hex_char (of_char c mod 16)]"
  by (simp_all add: hex_encode_def)

lemma hex_encode_trim:
  assumes "raw \<noteq> []"
  shows "trim_space (hex_encode raw) \<noteq> []"
proof -
  have "hex_encode raw \<noteq> []" "is_plain (hd (hex_encode raw))" using assms by (cases raw; simp add: hex_encode_simps hex_char_plain)+
  moreover have "is_plain (last (hex_encode raw))" using assms by (cases raw rule: rev_cases) (simp_all add: hex_encode_simps hex_char_plain)
  ultimately show ?thesis by simp
qed



text \<open>
  As long as the database and the delivery work, the answer to a forgotten password does not tell whether the
  account exists: it is the same for every identifier.
\<close>

theorem forgot_password_answers_alike:
  assumes "no_faults (ah_env h)" "trim_space (ah_smtpHost h) = []" "ah_rand h = Inr raw"
    and "list_all (\<lambda>t. ae_key (ah_env h) (rt_TokenHash t) \<noteq> ae_key (ah_env h) (hashResetToken (ah_crypto h) (hex_encode raw))) (ad_tokens db)"
  shows "fst (ForgotPassword h (Some ident) db) = HttpJson 200 (MessageReply forgot_message)"
proof (cases "trim_space ident = []")
  case False
  let ?env = "ah_env h" and ?d = "db\<lparr>ad_calls := Suc (ad_calls db)\<rparr>"
  obtain uo where o: "GetUserByIdentifier ?env (trim_space ident) db = (Inr uo, ?d)" "\<And>u. uo = Some u \<Longrightarrow> u \<in> set (ad_users ?d)"
  proof -
    let ?us = "filter (\<lambda>u. ae_key ?env (us_Username u) = ae_key ?env (trim_space ident) \<or> ae_key ?env (us_Email u) = ae_key ?env (trim_space ident)) (ad_users db)"
    have "?us \<noteq> [] \<Longrightarrow> ?us ! (ae_pick ?env mod length ?us) \<in> set ?us" by (intro nth_mem) simp
    then show thesis by (intro that [of "if ?us = [] then None else Some (?us ! (ae_pick ?env mod length ?us))"])
      (auto simp: GetUserByIdentifier_def no_faults_eqs [OF assms(1)] Let_def split: if_splits)
  qed
  show ?thesis
  proof (cases uo)
    case (Some u)
    then obtain k where "CreatePasswordResetToken ?env (us_ID u) (hashResetToken (ah_crypto h) (hex_encode raw)) (acct_now ?env + effectivePasswordResetTTL h) ?d = (Inr (), k)"
      using issue_token [of ?env u ?d] o(2) assms(1,4) by fastforce
    then show ?thesis using False o(1) Some assms(2,3) by (simp add: ForgotPassword_def generateResetToken_def deliverPasswordReset_def)
  qed (use False o(1) in \<open>simp add: ForgotPassword_def\<close>)
qed (simp add: ForgotPassword_def)

theorem forgot_password_answers_alike_witness:
  "fst (ForgotPassword (demo_auth 0) (Some ''ann'') (demo_accounts\<lparr>ad_tokens := []\<rparr>)) = fst (ForgotPassword (demo_auth 0) (Some ''bob'') (demo_accounts\<lparr>ad_tokens := []\<rparr>))"
  using forgot_password_answers_alike [of "demo_auth 0" "''r''" "demo_accounts\<lparr>ad_tokens := []\<rparr>" "''ann''"]
    forgot_password_answers_alike [of "demo_auth 0" "''r''" "demo_accounts\<lparr>ad_tokens := []\<rparr>" "''bob''"]
  by (simp add: no_faults_def demo_auth_def)

subsection \<open>From the login to the identity of a request\<close>

text \<open>
  What the code relies on: a token signed with a key is accepted with this key before its expiry, with the claims
  that were signed.
\<close>

definition jwt_ok :: "jwt_lib \<Rightarrow> bool" where
  "jwt_ok lib \<longleftrightarrow>
    (\<forall>sec key claims tok now x. jw_sign lib sec claims = Inr tok \<longrightarrow> key ''HS256'' = Some sec \<longrightarrow>
      map_of claims ''exp'' = Some (unix_num x) \<longrightarrow> unix_sec now < unix_sec x \<longrightarrow> jw_parse lib key now tok = Some claims)"

text \<open>
  A login succeeds only with the password of the account; the token it returns, sent in the Authorization header
  within a day, gives every protected handler the id, name and role of this account, and reaches a handler for
  administrators exactly when this role is admin.
\<close>

theorem login_token_identifies_user:
  assumes "jwt_ok (ah_jwt h)" "Login h (Some req) db = (HttpJson 200 (LoginReply tok u), db')" "in_int64 (us_ID u)"
    and "unix_sec now < unix_sec (acct_now (ah_env h) + 24 * 3600 * second)"
  shows "u \<in> set (ad_users db) \<and> ae_key (ah_env h) (us_Username u) = ae_key (ah_env h) (lq_Username req) \<and>
    bc_compare (ah_bcrypt h) (us_HashedPassword u) (lq_Password req) \<and>
    protected_group (ah_jwt h) \<lparr>sd_JWTSecret = ah_jwtSecret h, sd_APIKey = []\<rparr> now \<lparr>rh_Authorization = ''Bearer '' @ tok, rh_APIKey = []\<rparr> next_handler s =
      next_handler \<lparr>uc_UserID = us_ID u, uc_Username = us_Username u, uc_Role = us_Role u\<rparr> s \<and>
    admin_group (ah_jwt h) \<lparr>sd_JWTSecret = ah_jwtSecret h, sd_APIKey = []\<rparr> now \<lparr>rh_Authorization = ''Bearer '' @ tok, rh_APIKey = []\<rparr> next_handler s =
      (if us_Role u = ''admin'' then next_handler \<lparr>uc_UserID = us_ID u, uc_Username = us_Username u, uc_Role = us_Role u\<rparr> s
       else (HttpError ''admin access required'' 403, s))"
proof -
  have l: "find (\<lambda>u. ae_key (ah_env h) (us_Username u) = ae_key (ah_env h) (lq_Username req)) (ad_users db) = Some u"
    "bc_compare (ah_bcrypt h) (us_HashedPassword u) (lq_Password req)" "generateToken h u = Inr tok"
    using assms(2) by (auto simp: Login_def GetUserByUsername_def acct_query_eq split: option.splits if_splits sum.splits)
  have "jw_parse (ah_jwt h) (hmac_key (ah_jwtSecret h)) now tok = Some (token_claims h u)"
    using assms(1,4) l(3) unfolding jwt_ok_def generateToken_def
    by (elim allE [of _ "ah_jwtSecret h"] allE [of _ "hmac_key (ah_jwtSecret h)"] allE [of _ "token_claims h u"] allE [of _ tok] allE [of _ now]
        allE [of _ "acct_now (ah_env h) + 24 * 3600 * second"]) (simp add: hmac_key_def token_claims_def)
  moreover have "split_space2 (''Bearer '' @ tok) = [''Bearer'', tok]" using split_space2_pair [of "''Bearer''" tok] by simp
  moreover have "to_lower ''Bearer'' = ''bearer''" by code_simp
  moreover have "parse_int64_value (itoa (us_ID u)) = us_ID u" by (rule parse_int64_atoi [OF atoi_itoa [OF assms(3)]])
  ultimately show ?thesis using l(1,2)
    by (auto simp: protected_group_def admin_group_def RequireAdmin_def JWTAuth_def token_claims_def str_or_empty_def find_Some_iff)
qed

text \<open>A library of tokens for the witness: the signed text is the number of the user.\<close>

definition demo_claims :: "string \<Rightarrow> json_obj" where
  "demo_claims sub = token_claims (demo_auth 0) (zero_user\<lparr>us_ID := int (digits_val sub), us_Username := ''ann'', us_Role := ''user''\<rparr>)"

definition only_jwt :: jwt_lib where
  "only_jwt = \<lparr>jw_sign = (\<lambda>sec claims. if claims = demo_claims ''1'' then Inr sec else Inl ''unsupported''),
    jw_parse = (\<lambda>key now tok. if key ''HS256'' = Some tok then Some (demo_claims ''1'') else None)\<rparr>"

theorem login_token_identifies_user_witness:
  "\<exists>tok u db'. Login ((demo_auth 0)\<lparr>ah_jwt := only_jwt\<rparr>) (Some \<lparr>lq_Username = ''ann'', lq_Password = ''old''\<rparr>) demo_accounts = (HttpJson 200 (LoginReply tok u), db') \<and>
    protected_group only_jwt \<lparr>sd_JWTSecret = ''k'', sd_APIKey = []\<rparr> second \<lparr>rh_Authorization = ''Bearer '' @ tok, rh_APIKey = []\<rparr>
      (\<lambda>ctx s. (HttpJson 200 (uc_UserID ctx), s)) () = (HttpJson 200 1, ())"
proof -
  let ?h = "(demo_auth 0)\<lparr>ah_jwt := only_jwt\<rparr>"
  let ?u = "zero_user\<lparr>us_ID := 1, us_Username := ''ann'', us_Email := ''a@b'', us_HashedPassword := ''$$old'', us_Role := ''user''\<rparr>"
  have claims: "token_claims ?h ?u = demo_claims ''1''"
    by (simp add: demo_claims_def token_claims_def demo_auth_def digits_val_def digit_val_def)
  have ok: "jwt_ok (ah_jwt ?h)" by (auto simp: jwt_ok_def only_jwt_def split: if_splits)
  obtain db' where l: "Login ?h (Some \<lparr>lq_Username = ''ann'', lq_Password = ''old''\<rparr>) demo_accounts = (HttpJson 200 (LoginReply ''k'' ?u), db')"
    using claims by (simp add: Login_def GetUserByUsername_def acct_query_eq demo_accounts_def demo_auth_def demo_bcrypt_def generateToken_def only_jwt_def)
  have "unix_sec second < unix_sec (acct_now (ah_env ?h) + 24 * 3600 * second)" by (simp add: unix_sec_def acct_now_def demo_auth_def)
  then show ?thesis
    using login_token_identifies_user [OF ok l, of second "\<lambda>ctx s. (HttpJson 200 (uc_UserID ctx), s)" "()"] l
    by (simp add: demo_auth_def in_int64_def)
qed

text \<open>
  C24. A handler for administrators runs only for a token that the key of the server verifies and whose role is
  admin; every other request is answered with 401 or 403 and leaves the state as it is.
\<close>

theorem admin_routes_need_admin:
  "(\<exists>scheme raw claims. split_space2 (rh_Authorization hs) = [scheme, raw] \<and>
      jw_parse lib (hmac_key (sd_JWTSecret deps)) now raw = Some claims \<and> map_of claims ''role'' = Some (JStr ''admin'') \<and>
      (sd_APIKey deps = [] \<or> rh_APIKey hs = sd_APIKey deps)) \<or>
   (\<exists>msg code. admin_group lib deps now hs next_handler s = (HttpError msg code, s) \<and> code \<in> {401, 403})"
proof (cases "\<exists>scheme raw. split_space2 (rh_Authorization hs) = [scheme, raw]")
  case True
  then obtain scheme raw where sp: "split_space2 (rh_Authorization hs) = [scheme, raw]" by blast
  show ?thesis
  proof (cases "jw_parse lib (hmac_key (sd_JWTSecret deps)) now raw")
    case (Some claims)
    have "map_of claims ''role'' = Some (JStr ''admin'')" if "str_or_empty (map_of claims ''role'') = ''admin''"
      using that by (auto simp: str_or_empty_def split: option.splits elim: as_str.elims)
    then show ?thesis using sp Some by (auto simp: admin_group_def protected_group_def JWTAuth_def RequireAdmin_def APIKeyAuth_def)
  qed (use sp in \<open>auto simp: admin_group_def protected_group_def JWTAuth_def\<close>)
next
  case False
  then show ?thesis by (auto simp: admin_group_def protected_group_def JWTAuth_def split: list.split)
qed

end
