(* ===== verification/Summary.thy ===== *)
theory Summary
  imports Json Model Registry
begin

text \<open>
  The summaries that the workers write at the end of a test: \<^verbatim>\<open>controller/internal/scriptgen/summary.go\<close>.

  A map of the source is an association list; where the source iterates over one to build a list
  (\<^verbatim>\<open>mergeThresholds\<close>), the model uses the order of insertion, one of the orders that Go may take. The output
  directory is the list of its files in the order of \<^verbatim>\<open>filepath.Glob\<close>, with what reading each gives.
  Decoding into a struct starts from the parsed JSON value: a field is found by its name regardless of
  case, null leaves the zero value, and a value of another type is an error.
\<close>

subsection \<open>Decoding into structs\<close>

definition field :: "json_obj \<Rightarrow> string \<Rightarrow> json" where
  "field m k = (case find (\<lambda>(k', v). to_lower k' = k) (rev m) of Some (_, v) \<Rightarrow> v | None \<Rightarrow> JNull)"

fun dec_f64 :: "json \<Rightarrow> f64 option" where
  "dec_f64 JNull = Some f0"
| "dec_f64 (JNum x) = Some x"
| "dec_f64 _ = None"

fun dec_int :: "json \<Rightarrow> int option" where
  "dec_int JNull = Some 0"
| "dec_int (JNum (Fin x)) = (if x = of_int \<lfloor>x\<rfloor> \<and> in_int64 \<lfloor>x\<rfloor> then Some \<lfloor>x\<rfloor> else None)"
| "dec_int _ = None"

fun dec_bool :: "json \<Rightarrow> bool option" where
  "dec_bool JNull = Some False"
| "dec_bool (JBool b) = Some b"
| "dec_bool _ = None"

fun dec_str :: "json \<Rightarrow> string option" where
  "dec_str JNull = Some []"
| "dec_str (JStr s) = Some s"
| "dec_str _ = None"

fun dec_obj :: "json \<Rightarrow> json_obj option" where
  "dec_obj JNull = Some []"
| "dec_obj (JObj m) = Some m"
| "dec_obj _ = None"

fun dec_map :: "(json \<Rightarrow> 'a option) \<Rightarrow> json \<Rightarrow> (string \<times> 'a) list option" where
  "dec_map f JNull = Some []"
| "dec_map f (JObj m) = those (map (\<lambda>(k, v). map_option (Pair k) (f v)) m)"
| "dec_map f _ = None"

fun dec_list :: "(json \<Rightarrow> 'a option) \<Rightarrow> json \<Rightarrow> 'a list option" where
  "dec_list f JNull = Some []"
| "dec_list f (JArr vs) = those (map f vs)"
| "dec_list f _ = None"

subsection \<open>Data\<close>

record summary_metric =
  sm_Type :: string
  sm_Contains :: string
  sm_Values :: "(string \<times> f64) list"
  sm_Thresholds :: "(string \<times> bool) list"

record summary_data =
  ks_Metrics :: "(string \<times> summary_metric) list"
  ks_TestRunDurationMs :: f64

definition dec_metric :: "json \<Rightarrow> summary_metric option" where
  "dec_metric j =
    Option.bind (dec_obj j) (\<lambda>m. Option.bind (dec_str (field m ''type'')) (\<lambda>t. Option.bind (dec_str (field m ''contains'')) (\<lambda>c.
      Option.bind (dec_map dec_f64 (field m ''values'')) (\<lambda>vs.
      Option.bind (dec_map (\<lambda>th. Option.bind (dec_obj th) (\<lambda>o1. dec_bool (field o1 ''ok''))) (field m ''thresholds'')) (\<lambda>ths.
        Some \<lparr>sm_Type = t, sm_Contains = c, sm_Values = vs, sm_Thresholds = ths\<rparr>)))))"

definition dec_summary :: "json \<Rightarrow> summary_data option" where
  "dec_summary j =
    Option.bind (dec_obj j) (\<lambda>m. Option.bind (dec_map dec_metric (field m ''metrics'')) (\<lambda>ms.
      Option.bind (dec_obj (field m ''state'')) (\<lambda>st. Option.bind (dec_f64 (field st ''testrundurationms'')) (\<lambda>d.
        Some \<lparr>ks_Metrics = ms, ks_TestRunDurationMs = d\<rparr>))))"

definition unmarshal_summary :: "json_lib \<Rightarrow> string \<Rightarrow> summary_data option" where
  "unmarshal_summary lib s = (case jl_unmarshal lib s of Inl e \<Rightarrow> None | Inr j \<Rightarrow> dec_summary j)"

record latency_stats =
  ls_Avg :: f64
  ls_Med :: f64
  ls_P90 :: f64
  ls_P95 :: f64
  ls_P99 :: f64
  ls_Min :: f64
  ls_Max :: f64

definition zero_latency :: latency_stats where
  "zero_latency = \<lparr>ls_Avg = f0, ls_Med = f0, ls_P90 = f0, ls_P95 = f0, ls_P99 = f0, ls_Min = f0, ls_Max = f0\<rparr>"

record breakdown_stats =
  bd_Blocked :: latency_stats
  bd_Waiting :: latency_stats
  bd_Sending :: latency_stats
  bd_Receiving :: latency_stats
  bd_Connecting :: latency_stats
  bd_TLSHandshaking :: latency_stats

record worker_summary =
  ws_Name :: string
  ws_Requests :: f64
  ws_BusinessRequests :: f64
  ws_BusinessSuccesses :: f64
  ws_BusinessFailures :: f64
  ws_BusinessStatus2xx :: f64
  ws_BusinessStatus4xx :: f64
  ws_BusinessStatus5xx :: f64
  ws_BusinessTransportFailures :: f64
  ws_AuthRequests :: f64
  ws_ErrorRate :: f64
  ws_Latency :: latency_stats
  ws_BusinessLatency :: latency_stats
  ws_DurationMs :: f64

record merged_summary =
  mg_RawWorkerCount :: int
  mg_HasBusinessMetrics :: bool
  mg_TotalRequests :: f64
  mg_TotalSuccesses :: f64
  mg_TotalFailures :: f64
  mg_TotalStatus4xx :: f64
  mg_TotalStatus5xx :: f64
  mg_Iterations :: f64
  mg_ChecksPasses :: f64
  mg_ChecksFails :: f64
  mg_TotalLatency :: latency_stats
  mg_BusinessRequests :: f64
  mg_BusinessSuccesses :: f64
  mg_BusinessFailures :: f64
  mg_BusinessStatus2xx :: f64
  mg_BusinessStatus4xx :: f64
  mg_BusinessStatus5xx :: f64
  mg_BusinessTransportFailures :: f64
  mg_BusinessLatency :: latency_stats
  mg_BusinessBreakdown :: "breakdown_stats option"
  mg_Workers :: "worker_summary list"
  mg_Thresholds :: "threshold_result list"

type_synonym named_summary = "string \<times> summary_data"

subsection \<open>Values\<close>

definition metricValue :: "summary_metric \<Rightarrow> string \<Rightarrow> f64" where
  "metricValue m key = (case map_of (sm_Values m) key of None \<Rightarrow> f0 | Some v \<Rightarrow> v)"

definition zero_metric :: summary_metric where
  "zero_metric = \<lparr>sm_Type = [], sm_Contains = [], sm_Values = [], sm_Thresholds = []\<rparr>"

definition metric_of :: "named_summary \<Rightarrow> string \<Rightarrow> summary_metric" where
  "metric_of s k = (case map_of (ks_Metrics (snd s)) k of None \<Rightarrow> zero_metric | Some m \<Rightarrow> m)"

definition count_of :: "named_summary \<Rightarrow> string \<Rightarrow> f64" where
  "count_of s k = metricValue (metric_of s k) ''count''"

definition max0 :: "f64 \<Rightarrow> f64" where
  "max0 v = (if flt v f0 then f0 else v)"

definition normalizeRoundedCount :: "f64 \<Rightarrow> f64" where
  "normalizeRoundedCount v = (if fle v f0 then f0 else fround v)"

definition shouldUseLatencyMin :: "string \<Rightarrow> f64 \<Rightarrow> bool" where
  "shouldUseLatencyMin metricName mn =
    (if flt mn f0 then False
     else if metricName = ''http_req_duration'' \<or> metricName = ''business_http_duration_ms'' then flt f0 mn
     else True)"

definition weightedLatency :: "latency_stats \<Rightarrow> summary_metric \<Rightarrow> f64 \<Rightarrow> latency_stats" where
  "weightedLatency st m w =
    st\<lparr>ls_Avg := fadd (ls_Avg st) (fmul (metricValue m ''avg'') w), ls_Med := fadd (ls_Med st) (fmul (metricValue m ''med'') w),
       ls_P90 := fadd (ls_P90 st) (fmul (metricValue m ''p(90)'') w), ls_P95 := fadd (ls_P95 st) (fmul (metricValue m ''p(95)'') w),
       ls_P99 := fadd (ls_P99 st) (fmul (metricValue m ''p(99)'') w)\<rparr>"

definition finalizeWeightedLatency :: "latency_stats \<Rightarrow> f64 \<Rightarrow> f64 \<Rightarrow> f64 \<Rightarrow> bool \<Rightarrow> latency_stats" where
  "finalizeWeightedLatency st w mn mx minSet =
    (let st1 = (if flt f0 w
                then st\<lparr>ls_Avg := fdiv (ls_Avg st) w, ls_Med := fdiv (ls_Med st) w, ls_P90 := fdiv (ls_P90 st) w, ls_P95 := fdiv (ls_P95 st) w,
                        ls_P99 := fdiv (ls_P99 st) w\<rparr> else st);
         st2 = (if minSet then st1\<lparr>ls_Min := mn\<rparr> else st1)
     in st2\<lparr>ls_Max := mx\<rparr>)"

record latency_acc =
  la_weighted :: latency_stats
  la_totalW :: f64
  la_minV :: f64
  la_maxV :: f64
  la_minSet :: bool
  la_foundAny :: bool

definition latency_weight :: "named_summary \<Rightarrow> string \<Rightarrow> f64" where
  "latency_weight s weightMetricName =
    (let w = count_of s weightMetricName;
         w1 = (if fle w f0 then count_of s ''http_reqs'' else w)
     in if fle w1 f0 then Fin 1 else w1)"

definition add_latency_metric :: "string \<Rightarrow> string \<Rightarrow> named_summary \<Rightarrow> latency_acc \<Rightarrow> latency_acc" where
  "add_latency_metric metricName weightMetricName s acc =
    (case map_of (ks_Metrics (snd s)) metricName of
       None \<Rightarrow> acc
     | Some m \<Rightarrow>
        (let w = latency_weight s weightMetricName; mn = metricValue m ''min''; mx = metricValue m ''max'';
             useMin = (shouldUseLatencyMin metricName mn \<and> (\<not> la_minSet acc \<or> flt mn (la_minV acc)))
         in \<lparr>la_weighted = weightedLatency (la_weighted acc) m w, la_totalW = fadd (la_totalW acc) w,
             la_minV = (if useMin then mn else la_minV acc), la_maxV = (if flt (la_maxV acc) mx then mx else la_maxV acc),
             la_minSet = (la_minSet acc \<or> useMin), la_foundAny = True\<rparr>))"

definition zero_acc :: latency_acc where
  "zero_acc = \<lparr>la_weighted = zero_latency, la_totalW = f0, la_minV = f0, la_maxV = f0, la_minSet = False, la_foundAny = False\<rparr>"

definition aggregateLatencyMetric :: "named_summary list \<Rightarrow> string \<Rightarrow> string \<Rightarrow> latency_stats \<times> bool" where
  "aggregateLatencyMetric ss metricName weightMetricName =
    (let acc = fold (add_latency_metric metricName weightMetricName) ss zero_acc
     in if \<not> la_foundAny acc then (zero_latency, False)
        else (finalizeWeightedLatency (la_weighted acc) (la_totalW acc) (la_minV acc) (la_maxV acc) (la_minSet acc), True))"

subsection \<open>Merging\<close>

definition merge_threshold :: "string \<Rightarrow> bool \<Rightarrow> (string \<times> bool) list \<Rightarrow> (string \<times> bool) list" where
  "merge_threshold k ok merged =
    (case map_of merged k of
       Some existing \<Rightarrow> AList.update k (existing \<and> ok) merged
     | None \<Rightarrow> AList.update k ok merged)"

definition mergeThresholds :: "named_summary list \<Rightarrow> threshold_result list" where
  "mergeThresholds ss =
    map (\<lambda>(k, p). \<lparr>tr_Metric = k, tr_Passed = p\<rparr>)
      (fold (\<lambda>s merged. fold (\<lambda>(k, m) merged. fold (\<lambda>(_, ok). merge_threshold k ok) (sm_Thresholds m) merged) (ks_Metrics (snd s)) merged) ss [])"

definition buildWorkerSummaryMetrics :: "named_summary \<Rightarrow> worker_summary" where
  "buildWorkerSummaryMetrics s =
    \<lparr>ws_Name = fst s, ws_Requests = count_of s ''http_reqs'', ws_BusinessRequests = count_of s ''business_http_requests_total'',
     ws_BusinessSuccesses = count_of s ''business_http_success_total'', ws_BusinessFailures = count_of s ''business_http_failure_total'',
     ws_BusinessStatus2xx = count_of s ''business_status_2xx'', ws_BusinessStatus4xx = count_of s ''business_status_4xx'',
     ws_BusinessStatus5xx = count_of s ''business_status_5xx'', ws_BusinessTransportFailures = count_of s ''business_transport_failures_total'',
     ws_AuthRequests = count_of s ''auth_token_requests_total'', ws_ErrorRate = metricValue (metric_of s ''http_req_failed'') ''rate'',
     ws_Latency = fst (aggregateLatencyMetric [s] ''http_req_duration'' ''http_reqs''),
     ws_BusinessLatency = fst (aggregateLatencyMetric [s] ''business_http_duration_ms'' ''business_http_requests_total''),
     ws_DurationMs = ks_TestRunDurationMs (snd s)\<rparr>"

definition business_keys :: "string list" where
  "business_keys =
    [''business_http_requests_total'', ''business_http_success_total'', ''business_http_failure_total'', ''business_status_2xx'',
     ''business_status_4xx'', ''business_status_5xx'', ''business_transport_failures_total'', ''business_http_duration_ms'']"

definition summaryHasBusinessMetrics :: "summary_data \<Rightarrow> bool" where
  "summaryHasBusinessMetrics d \<longleftrightarrow> list_ex (\<lambda>k. map_of (ks_Metrics d) k \<noteq> None) business_keys"

definition add_summary :: "named_summary \<Rightarrow> merged_summary \<Rightarrow> merged_summary" where
  "add_summary s m =
    (let httpReqs = count_of s ''http_reqs''; failedRate = metricValue (metric_of s ''http_req_failed'') ''rate'';
         httpFailures = normalizeRoundedCount (fmul httpReqs failedRate); httpSuccesses = max0 (fsub httpReqs httpFailures)
     in m\<lparr>mg_HasBusinessMetrics := (mg_HasBusinessMetrics m \<or> summaryHasBusinessMetrics (snd s)),
          mg_TotalRequests := fadd (mg_TotalRequests m) httpReqs, mg_TotalFailures := fadd (mg_TotalFailures m) httpFailures,
          mg_TotalSuccesses := fadd (mg_TotalSuccesses m) httpSuccesses, mg_TotalStatus4xx := fadd (mg_TotalStatus4xx m) (count_of s ''status_4xx''),
          mg_TotalStatus5xx := fadd (mg_TotalStatus5xx m) (count_of s ''status_5xx''), mg_Iterations := fadd (mg_Iterations m) (count_of s ''iterations''),
          mg_ChecksPasses := fadd (mg_ChecksPasses m) (metricValue (metric_of s ''checks'') ''passes''),
          mg_ChecksFails := fadd (mg_ChecksFails m) (metricValue (metric_of s ''checks'') ''fails''),
          mg_BusinessRequests := fadd (mg_BusinessRequests m) (count_of s ''business_http_requests_total''),
          mg_BusinessSuccesses := fadd (mg_BusinessSuccesses m) (count_of s ''business_http_success_total''),
          mg_BusinessFailures := fadd (mg_BusinessFailures m) (count_of s ''business_http_failure_total''),
          mg_BusinessStatus2xx := fadd (mg_BusinessStatus2xx m) (count_of s ''business_status_2xx''),
          mg_BusinessStatus4xx := fadd (mg_BusinessStatus4xx m) (count_of s ''business_status_4xx''),
          mg_BusinessStatus5xx := fadd (mg_BusinessStatus5xx m) (count_of s ''business_status_5xx''),
          mg_BusinessTransportFailures := fadd (mg_BusinessTransportFailures m) (count_of s ''business_transport_failures_total''),
          mg_Workers := mg_Workers m @ [buildWorkerSummaryMetrics s]\<rparr>)"

definition init_merged :: "named_summary list \<Rightarrow> merged_summary" where
  "init_merged ss =
    \<lparr>mg_RawWorkerCount = int (length ss), mg_HasBusinessMetrics = False, mg_TotalRequests = f0, mg_TotalSuccesses = f0, mg_TotalFailures = f0,
     mg_TotalStatus4xx = f0, mg_TotalStatus5xx = f0, mg_Iterations = f0, mg_ChecksPasses = f0, mg_ChecksFails = f0, mg_TotalLatency = zero_latency,
     mg_BusinessRequests = f0, mg_BusinessSuccesses = f0, mg_BusinessFailures = f0, mg_BusinessStatus2xx = f0, mg_BusinessStatus4xx = f0,
     mg_BusinessStatus5xx = f0, mg_BusinessTransportFailures = f0, mg_BusinessLatency = zero_latency, mg_BusinessBreakdown = None,
     mg_Workers = [], mg_Thresholds = mergeThresholds ss\<rparr>"

text \<open>A part of the breakdown that no summary has keeps the zero value, which is also what the aggregation then returns.\<close>

definition business_breakdown :: "named_summary list \<Rightarrow> breakdown_stats" where
  "business_breakdown ss =
    (let part = (\<lambda>k. fst (aggregateLatencyMetric ss k ''business_http_requests_total''))
     in \<lparr>bd_Blocked = part ''business_http_blocked_ms'', bd_Waiting = part ''business_http_waiting_ms'', bd_Sending = part ''business_http_sending_ms'',
         bd_Receiving = part ''business_http_receiving_ms'', bd_Connecting = part ''business_http_connecting_ms'',
         bd_TLSHandshaking = part ''business_http_tls_handshaking_ms''\<rparr>)"

definition mergeSummaryMetrics :: "named_summary list \<Rightarrow> merged_summary res" where
  "mergeSummaryMetrics ss =
    (if ss = [] then Inl ''no summaries to merge''
     else (let m = (fold add_summary ss (init_merged ss))\<lparr>mg_TotalLatency := fst (aggregateLatencyMetric ss ''http_req_duration'' ''http_reqs'')\<rparr>
           in Inr (case aggregateLatencyMetric ss ''business_http_duration_ms'' ''business_http_requests_total'' of
                     (l, True) \<Rightarrow> m\<lparr>mg_BusinessLatency := l, mg_BusinessBreakdown := Some (business_breakdown ss)\<rparr>
                   | (_, False) \<Rightarrow> m)))"

end
