(* ===== verification/SummaryText.thy ===== *)
theory SummaryText
  imports Summary
begin

text \<open>
  The rest of \<^verbatim>\<open>controller/internal/scriptgen/summary.go\<close>: the text that collects the summaries of all workers, the
  files of the output directory, and the summaries of the token requests.
\<close>

subsection \<open>Splitting\<close>

text \<open>\<^verbatim>\<open>strings.Split\<close> with a non-empty separator: \<open>acc\<close> is the current piece, reversed.\<close>

function split_on :: "string \<Rightarrow> string \<Rightarrow> string \<Rightarrow> string list" where
  "split_on sep acc [] = [rev acc]"
| "split_on sep acc (c # s) =
    (if has_prefix (c # s) sep then rev acc # split_on sep [] (drop (length sep - 1) s) else split_on sep (c # acc) s)"
  by pat_completeness auto
termination by (relation "measure (\<lambda>(sep, acc, s). length s)") auto

definition newline :: char where
  "newline = CHR 0x0A"

text \<open>\<^verbatim>\<open>strings.SplitN(s, "\n", 2)\<close>.\<close>

definition split_line :: "string \<Rightarrow> string list" where
  "split_line s =
    (case dropWhile (\<lambda>c. c \<noteq> newline) s of
       [] \<Rightarrow> [s]
     | _ # rest \<Rightarrow> [takeWhile (\<lambda>c. c \<noteq> newline) s, rest])"

definition block_sep :: string where
  "block_sep = newline # ''--- ''"

subsection \<open>The raw summary\<close>

text \<open>One block of the text: its name and its body; \<open>None\<close> for a block that is skipped before it is decoded.\<close>

definition summary_block :: "nat \<Rightarrow> string \<Rightarrow> (string \<times> string) option" where
  "summary_block idx block0 =
    (let block1 = (if 0 < idx then ''--- '' @ block0 else block0)
     in case split_line (trim_prefix block1 ''--- '') of
          [l0, l1] \<Rightarrow>
            (let name = trim_suffix (trim_space l0) '' ---''; body = trim_space l1
             in if name = [] \<or> body = [] then None else Some (name, body))
        | _ \<Rightarrow> None)"

definition indexed :: "'a list \<Rightarrow> (nat \<times> 'a) list" where
  "indexed xs = zip [0 ..< length xs] xs"

definition named_summaries :: "json_lib \<Rightarrow> (nat \<times> string) list \<Rightarrow> named_summary list" where
  "named_summaries lib blocks =
    concat (map (\<lambda>(idx, b).
      case summary_block idx b of
        None \<Rightarrow> []
      | Some (name, body) \<Rightarrow> (case unmarshal_summary lib body of None \<Rightarrow> [] | Some d \<Rightarrow> [(name, d)])) blocks)"

definition ParseRawSummaryContent :: "json_lib \<Rightarrow> string \<Rightarrow> merged_summary res" where
  "ParseRawSummaryContent lib content =
    (let trimmed = trim_space content
     in if trimmed = [] then Inl ''empty raw summary content''
        else (let ss = named_summaries lib (indexed (split_on block_sep [] trimmed))
              in if ss = [] then Inl ''no valid summaries in artifact'' else mergeSummaryMetrics ss))"

subsection \<open>The output directory\<close>

type_synonym out_dir = "(string \<times> string res) list"

definition glob :: "string \<Rightarrow> out_dir \<Rightarrow> out_dir" where
  "glob pre dir = filter (\<lambda>(n, _). has_prefix n pre \<and> has_suffix n ''.json'' \<and> length pre + 5 \<le> length n) dir"

definition base_name :: "string \<Rightarrow> string \<Rightarrow> string" where
  "base_name pre n = trim_prefix (trim_suffix n ''.json'') pre"

definition readSummaryFiles :: "json_lib \<Rightarrow> string \<Rightarrow> out_dir \<Rightarrow> named_summary list res" where
  "readSummaryFiles lib outputDir dir =
    (let files = glob ''summary-'' dir
     in if files = [] then Inl (''no summary files found in '' @ outputDir)
        else (let ss = concat (map (\<lambda>(n, r). case r of Inl e \<Rightarrow> []
                         | Inr c \<Rightarrow> (case unmarshal_summary lib c of None \<Rightarrow> [] | Some d \<Rightarrow> [(base_name ''summary-'' n, d)])) files)
              in if ss = [] then Inl (''no valid summary files found in '' @ outputDir) else Inr ss))"

definition ReadMergedSummaryMetrics :: "json_lib \<Rightarrow> string \<Rightarrow> out_dir \<Rightarrow> merged_summary res" where
  "ReadMergedSummaryMetrics lib outputDir dir = bind_res (wrap_err ''glob summaries'' (readSummaryFiles lib outputDir dir)) mergeSummaryMetrics"

definition ReadAndMergeSummaries :: "json_lib \<Rightarrow> string \<Rightarrow> out_dir \<Rightarrow> (f64 \<times> f64 \<times> f64) res" where
  "ReadAndMergeSummaries lib outputDir dir =
    bind_res (ReadMergedSummaryMetrics lib outputDir dir)
      (\<lambda>m. Inr (ls_P90 (mg_TotalLatency m), ls_P95 (mg_TotalLatency m), ls_P99 (mg_TotalLatency m)))"

definition raw_parts :: "json_lib \<Rightarrow> string \<Rightarrow> out_dir \<Rightarrow> string" where
  "raw_parts lib pre dir =
    join [newline, newline] (concat (map (\<lambda>(n, r). case r of Inl e \<Rightarrow> []
      | Inr c \<Rightarrow> (case jl_unmarshal lib c of Inl e \<Rightarrow> [] | Inr j \<Rightarrow> [''--- '' @ base_name pre n @ '' ---'' @ [newline] @ c])) (glob pre dir)))"

definition ReadRawSummaries :: "json_lib \<Rightarrow> out_dir \<Rightarrow> string" where
  "ReadRawSummaries lib dir = raw_parts lib ''summary-'' dir"

definition ReadRawAuthSummaries :: "json_lib \<Rightarrow> out_dir \<Rightarrow> string" where
  "ReadRawAuthSummaries lib dir = raw_parts lib ''auth-summary-'' dir"

definition ReadPayloadArtifact :: "out_dir \<Rightarrow> string" where
  "ReadPayloadArtifact dir =
    (case find (\<lambda>(n, r). case r of Inl e \<Rightarrow> False | Inr c \<Rightarrow> trim_space c \<noteq> []) (glob ''payload-'' dir) of
       Some (n, Inr c) \<Rightarrow> c
     | _ \<Rightarrow> [])"

text \<open>A file that cannot be removed stays.\<close>

definition cleanup :: "string \<Rightarrow> (string \<Rightarrow> bool) \<Rightarrow> out_dir \<Rightarrow> out_dir" where
  "cleanup pre removable dir = filter (\<lambda>f. \<not> (f \<in> set (glob pre dir) \<and> removable (fst f))) dir"

definition CleanupSummaries :: "(string \<Rightarrow> bool) \<Rightarrow> out_dir \<Rightarrow> out_dir" where
  "CleanupSummaries = cleanup ''summary-''"

definition CleanupPayloadArtifacts :: "(string \<Rightarrow> bool) \<Rightarrow> out_dir \<Rightarrow> out_dir" where
  "CleanupPayloadArtifacts = cleanup ''payload-''"

definition CleanupAuthSummaries :: "(string \<Rightarrow> bool) \<Rightarrow> out_dir \<Rightarrow> out_dir" where
  "CleanupAuthSummaries = cleanup ''auth-summary-''"

subsection \<open>Token requests\<close>

record status_code_count =
  sc_Code :: int
  sc_Count :: f64

record auth_runtime_metrics =
  rm_TokenRequestsTotal :: f64
  rm_TokenSuccessTotal :: f64
  rm_TokenFailureTotal :: f64
  rm_TokenSuccessRate :: f64
  rm_TokenRequestAvgMs :: f64
  rm_TokenRequestP95Ms :: f64
  rm_TokenRequestP99Ms :: f64
  rm_TokenRequestMaxMs :: f64
  rm_TokenRefreshTotal :: f64
  rm_TokenReuseHitsTotal :: f64
  rm_ResponseStatusCodes :: "status_code_count list"
  rm_AbortTriggered :: bool
  rm_AbortCause :: string
  rm_AbortReason :: string
  rm_AbortHTTPStatusCodes :: "int list"
  rm_AbortRetryable :: bool

definition zero_auth_metrics :: auth_runtime_metrics where
  "zero_auth_metrics =
    \<lparr>rm_TokenRequestsTotal = f0, rm_TokenSuccessTotal = f0, rm_TokenFailureTotal = f0, rm_TokenSuccessRate = f0, rm_TokenRequestAvgMs = f0,
     rm_TokenRequestP95Ms = f0, rm_TokenRequestP99Ms = f0, rm_TokenRequestMaxMs = f0, rm_TokenRefreshTotal = f0, rm_TokenReuseHitsTotal = f0,
     rm_ResponseStatusCodes = [], rm_AbortTriggered = False, rm_AbortCause = [], rm_AbortReason = [], rm_AbortHTTPStatusCodes = [],
     rm_AbortRetryable = False\<rparr>"

record auth_summary =
  au_Status :: string
  au_Message :: string
  au_Mode :: string
  au_TokenURL :: string
  au_ClientAuthMethod :: string
  au_RefreshSkewSeconds :: int
  au_Metrics :: auth_runtime_metrics

definition appendUniqueStatusCodes :: "int list \<Rightarrow> int list \<Rightarrow> int list" where
  "appendUniqueStatusCodes target values =
    (if values = [] then target
     else sort (fold (\<lambda>code ts. if code \<le> 0 \<or> code \<in> set ts then ts else ts @ [code]) values target))"

definition add_count :: "status_code_count \<Rightarrow> (int \<times> f64) list \<Rightarrow> (int \<times> f64) list" where
  "add_count e merged =
    (if sc_Code e \<le> 0 \<or> fle (sc_Count e) f0 then merged
     else AList.update (sc_Code e) (fadd (case map_of merged (sc_Code e) of None \<Rightarrow> f0 | Some v \<Rightarrow> v) (sc_Count e)) merged)"

definition mergeStatusCodeCounts :: "status_code_count list \<Rightarrow> status_code_count list \<Rightarrow> status_code_count list" where
  "mergeStatusCodeCounts target values =
    (if values = [] then target
     else (let merged = fold add_count values (fold add_count target [])
           in map (\<lambda>c. \<lparr>sc_Code = c, sc_Count = the (map_of merged c)\<rparr>) (sort (map fst merged))))"

record auth_acc =
  aq_merged :: auth_summary
  aq_totalWeight :: f64
  aq_avg :: f64
  aq_p95 :: f64
  aq_p99 :: f64

definition first_nonempty :: "string \<Rightarrow> string \<Rightarrow> string" where
  "first_nonempty a b = (if a = [] then b else a)"

definition add_auth_metrics :: "auth_runtime_metrics \<Rightarrow> auth_runtime_metrics \<Rightarrow> auth_runtime_metrics" where
  "add_auth_metrics s m =
    m\<lparr>rm_TokenRequestsTotal := fadd (rm_TokenRequestsTotal m) (rm_TokenRequestsTotal s),
      rm_TokenSuccessTotal := fadd (rm_TokenSuccessTotal m) (rm_TokenSuccessTotal s),
      rm_TokenFailureTotal := fadd (rm_TokenFailureTotal m) (rm_TokenFailureTotal s),
      rm_TokenRefreshTotal := fadd (rm_TokenRefreshTotal m) (rm_TokenRefreshTotal s),
      rm_TokenReuseHitsTotal := fadd (rm_TokenReuseHitsTotal m) (rm_TokenReuseHitsTotal s),
      rm_ResponseStatusCodes := mergeStatusCodeCounts (rm_ResponseStatusCodes m) (rm_ResponseStatusCodes s),
      rm_AbortTriggered := (rm_AbortTriggered m \<or> rm_AbortTriggered s),
      rm_AbortCause := first_nonempty (rm_AbortCause m) (rm_AbortCause s),
      rm_AbortReason := first_nonempty (rm_AbortReason m) (rm_AbortReason s),
      rm_AbortRetryable := (rm_AbortRetryable m \<or> rm_AbortRetryable s),
      rm_AbortHTTPStatusCodes := appendUniqueStatusCodes (rm_AbortHTTPStatusCodes m) (rm_AbortHTTPStatusCodes s),
      rm_TokenRequestMaxMs := (if flt (rm_TokenRequestMaxMs m) (rm_TokenRequestMaxMs s) then rm_TokenRequestMaxMs s else rm_TokenRequestMaxMs m)\<rparr>"

definition add_auth_summary :: "auth_summary \<Rightarrow> auth_acc \<Rightarrow> auth_acc" where
  "add_auth_summary s acc =
    (let m = aq_merged acc;
         m1 = m\<lparr>au_Mode := first_nonempty (au_Mode m) (au_Mode s), au_TokenURL := first_nonempty (au_TokenURL m) (au_TokenURL s),
                au_ClientAuthMethod := first_nonempty (au_ClientAuthMethod m) (au_ClientAuthMethod s),
                au_RefreshSkewSeconds := (if au_RefreshSkewSeconds m = 0 then au_RefreshSkewSeconds s else au_RefreshSkewSeconds m),
                au_Message := first_nonempty (au_Message m) (au_Message s),
                au_Status := (if au_Status s = ''aborted'' then ''aborted'' else au_Status m),
                au_Metrics := add_auth_metrics (au_Metrics s) (au_Metrics m)\<rparr>;
         w = rm_TokenRequestsTotal (au_Metrics s); acc1 = acc\<lparr>aq_merged := m1\<rparr>
     in if fle w f0 then acc1
        else acc1\<lparr>aq_totalWeight := fadd (aq_totalWeight acc) w, aq_avg := fadd (aq_avg acc) (fmul (rm_TokenRequestAvgMs (au_Metrics s)) w),
                  aq_p95 := fadd (aq_p95 acc) (fmul (rm_TokenRequestP95Ms (au_Metrics s)) w),
                  aq_p99 := fadd (aq_p99 acc) (fmul (rm_TokenRequestP99Ms (au_Metrics s)) w)\<rparr>)"

definition zero_auth_acc :: auth_acc where
  "zero_auth_acc =
    \<lparr>aq_merged = \<lparr>au_Status = ''complete'', au_Message = [], au_Mode = [], au_TokenURL = [], au_ClientAuthMethod = [], au_RefreshSkewSeconds = 0,
       au_Metrics = zero_auth_metrics\<rparr>, aq_totalWeight = f0, aq_avg = f0, aq_p95 = f0, aq_p99 = f0\<rparr>"

definition finish_auth :: "auth_acc \<Rightarrow> auth_summary" where
  "finish_auth acc =
    (let m = aq_merged acc; x = au_Metrics m;
         x1 = (if flt f0 (rm_TokenRequestsTotal x) then x\<lparr>rm_TokenSuccessRate := fdiv (rm_TokenSuccessTotal x) (rm_TokenRequestsTotal x)\<rparr> else x);
         m1 = (if au_Status m = ''aborted'' \<and> au_Message m = [] \<and> rm_AbortReason x \<noteq> [] then m\<lparr>au_Message := rm_AbortReason x\<rparr> else m);
         x2 = (if flt f0 (aq_totalWeight acc)
               then x1\<lparr>rm_TokenRequestAvgMs := fdiv (aq_avg acc) (aq_totalWeight acc), rm_TokenRequestP95Ms := fdiv (aq_p95 acc) (aq_totalWeight acc),
                       rm_TokenRequestP99Ms := fdiv (aq_p99 acc) (aq_totalWeight acc)\<rparr> else x1)
     in m1\<lparr>au_Metrics := x2\<rparr>)"

definition mergeAuthSummaries :: "auth_summary list \<Rightarrow> auth_summary res" where
  "mergeAuthSummaries ss =
    (if ss = [] then Inl ''no valid auth summary data found''
     else (let m = finish_auth (fold add_auth_summary ss zero_auth_acc)
           in if au_Mode m = [] \<and> feq (rm_TokenRequestsTotal (au_Metrics m)) f0 \<and> feq (rm_TokenFailureTotal (au_Metrics m)) f0
              then Inl ''no valid auth summary data found'' else Inr m))"

definition dec_status_count :: "json \<Rightarrow> status_code_count option" where
  "dec_status_count j =
    Option.bind (dec_obj j) (\<lambda>m. Option.bind (dec_int (field m ''code'')) (\<lambda>c. Option.bind (dec_f64 (field m ''count'')) (\<lambda>n.
      Some \<lparr>sc_Code = c, sc_Count = n\<rparr>)))"

definition dec_auth_metrics :: "json \<Rightarrow> auth_runtime_metrics option" where
  "dec_auth_metrics j =
    Option.bind (dec_obj j) (\<lambda>m. let num = (\<lambda>k. dec_f64 (field m k)) in
      Option.bind (num ''token_requests_total'') (\<lambda>a. Option.bind (num ''token_success_total'') (\<lambda>b. Option.bind (num ''token_failure_total'') (\<lambda>c.
      Option.bind (num ''token_success_rate'') (\<lambda>d. Option.bind (num ''token_request_avg_ms'') (\<lambda>e. Option.bind (num ''token_request_p95_ms'') (\<lambda>f.
      Option.bind (num ''token_request_p99_ms'') (\<lambda>g. Option.bind (num ''token_request_max_ms'') (\<lambda>h. Option.bind (num ''token_refresh_total'') (\<lambda>i.
      Option.bind (num ''token_reuse_hits_total'') (\<lambda>k. Option.bind (dec_list dec_status_count (field m ''response_status_codes'')) (\<lambda>l.
      Option.bind (dec_bool (field m ''abort_triggered'')) (\<lambda>n. Option.bind (dec_str (field m ''abort_cause'')) (\<lambda>p.
      Option.bind (dec_str (field m ''abort_reason'')) (\<lambda>q. Option.bind (dec_list dec_int (field m ''abort_http_status_codes'')) (\<lambda>r.
      Option.bind (dec_bool (field m ''abort_retryable'')) (\<lambda>t.
        Some \<lparr>rm_TokenRequestsTotal = a, rm_TokenSuccessTotal = b, rm_TokenFailureTotal = c, rm_TokenSuccessRate = d, rm_TokenRequestAvgMs = e,
          rm_TokenRequestP95Ms = f, rm_TokenRequestP99Ms = g, rm_TokenRequestMaxMs = h, rm_TokenRefreshTotal = i, rm_TokenReuseHitsTotal = k,
          rm_ResponseStatusCodes = l, rm_AbortTriggered = n, rm_AbortCause = p, rm_AbortReason = q, rm_AbortHTTPStatusCodes = r,
          rm_AbortRetryable = t\<rparr>)))))))))))))))))"

definition dec_auth_summary :: "json \<Rightarrow> auth_summary option" where
  "dec_auth_summary j =
    Option.bind (dec_obj j) (\<lambda>m. let str = (\<lambda>k. dec_str (field m k)) in
      Option.bind (str ''status'') (\<lambda>a. Option.bind (str ''message'') (\<lambda>b. Option.bind (str ''mode'') (\<lambda>c. Option.bind (str ''token_url'') (\<lambda>d.
      Option.bind (str ''client_auth_method'') (\<lambda>e. Option.bind (dec_int (field m ''refresh_skew_seconds'')) (\<lambda>f.
      Option.bind (dec_auth_metrics (field m ''metrics'')) (\<lambda>g.
        Some \<lparr>au_Status = a, au_Message = b, au_Mode = c, au_TokenURL = d, au_ClientAuthMethod = e, au_RefreshSkewSeconds = f, au_Metrics = g\<rparr>))))))))"

definition unmarshal_auth_summary :: "json_lib \<Rightarrow> string \<Rightarrow> auth_summary option" where
  "unmarshal_auth_summary lib s = (case jl_unmarshal lib s of Inl e \<Rightarrow> None | Inr j \<Rightarrow> dec_auth_summary j)"

text \<open>The name of a block is checked and not used further; the prefix is put before every block but a first one without it.\<close>

definition auth_block :: "nat \<Rightarrow> string \<Rightarrow> string option" where
  "auth_block idx block0 =
    (let block1 = (if idx = 0 \<and> \<not> has_prefix block0 ''--- '' then trim_prefix block0 ''--- '' else ''--- '' @ block0)
     in case split_line block1 of
          [l0, l1] \<Rightarrow>
            (let name = trim_suffix (trim_prefix (trim_space l0) ''--- '') '' ---''; body = trim_space l1
             in if name = [] \<or> body = [] then None else Some body)
        | _ \<Rightarrow> None)"

definition ParseRawAuthSummaryContent :: "json_lib \<Rightarrow> string \<Rightarrow> auth_summary res" where
  "ParseRawAuthSummaryContent lib content =
    (let trimmed = trim_space content
     in if trimmed = [] then Inl ''empty raw auth summary content''
        else mergeAuthSummaries (concat (map (\<lambda>(idx, b).
               case auth_block idx b of
                 None \<Rightarrow> []
               | Some body \<Rightarrow> (case unmarshal_auth_summary lib body of None \<Rightarrow> [] | Some d \<Rightarrow> [d])) (indexed (split_on block_sep [] trimmed)))))"

definition ReadAndMergeAuthSummaries :: "json_lib \<Rightarrow> string \<Rightarrow> out_dir \<Rightarrow> auth_summary res" where
  "ReadAndMergeAuthSummaries lib outputDir dir =
    (let files = glob ''auth-summary-'' dir
     in if files = [] then Inl (''no auth summary files found in '' @ outputDir)
        else mergeAuthSummaries (concat (map (\<lambda>(n, r). case r of Inl e \<Rightarrow> []
               | Inr c \<Rightarrow> (case unmarshal_auth_summary lib c of None \<Rightarrow> [] | Some d \<Rightarrow> [d])) files)))"

end
