(* ===== verification/MetricsV2.thy ===== *)
theory MetricsV2
  imports SummaryText Requests Orchestrator
begin

text \<open>
  The result of a test: its metadata (\<^verbatim>\<open>controller/internal/handler/test.go\<close>), the authentication part of it
  (\<^verbatim>\<open>controller/internal/handler/auth_summary_metadata.go\<close>) and the metrics that are derived from the live
  snapshot, the summaries and the metadata (\<^verbatim>\<open>controller/internal/handler/metrics_v2.go\<close>, with \<^verbatim>\<open>clampLatencyValue\<close> and
  \<^verbatim>\<open>normalizeResultMetrics\<close> of \<^verbatim>\<open>controller/internal/handler/result.go\<close>). A pointer that may be nil is an \<open>option\<close>;
  so is the list of missing workers, because its comparison distinguishes a nil slice from an empty one.
\<close>

subsection \<open>Metadata\<close>

record artifact_collection =
  ac2_Status :: string
  ac2_ExpectedWorkerCount :: int
  ac2_ReceivedWorkerSummaryCount :: int
  ac2_MissingWorkers :: "string list option"

record payload_metadata =
  pm_HTTPMethod :: string
  pm_ContentType :: string
  pm_TargetBytes :: int
  pm_TargetKiB :: f64
  pm_TargetKB :: f64
  pm_ActualBytes :: int
  pm_ActualKiB :: f64
  pm_ActualKB :: f64

record auth_metadata =
  am2_Mode :: string
  am2_TokenURL :: string
  am2_ClientAuthMethod :: string
  am2_RefreshSkewSeconds :: int
  am2_SecretSource :: string
  am2_MetricsStatus :: string
  am2_MetricsMessage :: string
  am2_Metrics :: "auth_runtime_metrics option"

record test_metadata =
  md_StartedAt :: time
  md_EndedAt :: time
  md_DurationS :: f64
  md_WorkerCount :: int
  md_ArtifactCollection :: "artifact_collection option"
  md_Stages :: "stage list"
  md_ScriptURL :: string
  md_Payload :: "payload_metadata option"
  md_Auth :: "auth_metadata option"

definition zero_metadata :: test_metadata where
  "zero_metadata = \<lparr>md_StartedAt = zero_time, md_EndedAt = zero_time, md_DurationS = f0, md_WorkerCount = 0, md_ArtifactCollection = None,
    md_Stages = [], md_ScriptURL = [], md_Payload = None, md_Auth = None\<rparr>"

definition newPayloadMetadata :: "payload_artifacts option \<Rightarrow> payload_metadata option" where
  "newPayloadMetadata payload =
    map_option (\<lambda>p. \<lparr>pm_HTTPMethod = pa_HTTPMethod p, pm_ContentType = pa_ContentType p, pm_TargetBytes = pa_TargetBytes p, pm_TargetKiB = pa_TargetKiB p,
      pm_TargetKB = pa_TargetKB p, pm_ActualBytes = pa_ActualBytes p, pm_ActualKiB = pa_ActualKiB p, pm_ActualKB = pa_ActualKB p\<rparr>) payload"

text \<open>
  \<^verbatim>\<open>normalizeAuthTokenURL\<close> removes user, query and fragment; of a text that is not a URL it removes what follows
  the first question mark or hash, and what stands before the last at-sign after the scheme.
\<close>

fun index_str :: "string \<Rightarrow> string \<Rightarrow> nat option" where
  "index_str [] p = (if p = [] then Some 0 else None)"
| "index_str (c # s) p = (if has_prefix (c # s) p then Some 0 else map_option Suc (index_str s p))"

definition drop_user :: "string \<Rightarrow> string" where
  "drop_user s =
    (case index_str s ''://'' of
       None \<Rightarrow> s
     | Some i \<Rightarrow>
        (let pre = take (i + 3) s; rest = drop (i + 3) s
         in if CHR ''@'' \<in> set rest then pre @ rev (takeWhile (\<lambda>c. c \<noteq> CHR ''@'') (rev rest)) else s))"

definition normalizeAuthTokenURL :: "url_lib \<Rightarrow> string \<Rightarrow> string" where
  "normalizeAuthTokenURL ul raw =
    (let trimmed = trim_space raw
     in if trimmed = [] then []
        else (case ul_parse ul trimmed of
                Some u \<Rightarrow> ul_string ul (u\<lparr>u_User := None, u_RawQuery := [], u_Fragment := []\<rparr>)
              | None \<Rightarrow> drop_user (takeWhile (\<lambda>c. c \<noteq> CHR ''?'' \<and> c \<noteq> CHR ''#'') trimmed)))"

definition newAuthMetadata :: "url_lib \<Rightarrow> auth_config \<Rightarrow> auth_metadata option" where
  "newAuthMetadata ul cfg =
    (if \<not> ac_Enabled cfg then None
     else Some \<lparr>am2_Mode = ac_Mode cfg, am2_TokenURL = normalizeAuthTokenURL ul (ac_TokenURL cfg), am2_ClientAuthMethod = ac_ClientAuthMethod cfg,
       am2_RefreshSkewSeconds = ac_RefreshSkewSeconds cfg, am2_SecretSource = ac_SecretSource cfg, am2_MetricsStatus = [], am2_MetricsMessage = [],
       am2_Metrics = None\<rparr>)"

definition refreshPayloadMetadata :: "test_metadata \<Rightarrow> string \<Rightarrow> test_metadata" where
  "refreshPayloadMetadata md payloadContent =
    (case md_Payload md of
       None \<Rightarrow> md
     | Some p \<Rightarrow>
        (if payloadContent = []
         then (if pm_TargetBytes p = 0 then md\<lparr>md_Payload := Some (p\<lparr>pm_ActualBytes := 0, pm_ActualKiB := f0, pm_ActualKB := f0\<rparr>)\<rparr> else md)
         else (let n = int (length payloadContent)
               in md\<lparr>md_Payload := Some (p\<lparr>pm_ActualBytes := n, pm_ActualKiB := kibFromBytes n, pm_ActualKB := kbFromBytes n\<rparr>)\<rparr>)))"

text \<open>\<^verbatim>\<open>Time.Sub\<close> gives the nearest duration when the difference does not fit.\<close>

definition time_sub :: "time \<Rightarrow> time \<Rightarrow> duration" where
  "time_sub t u = max (- (2 ^ 63)) (min (2 ^ 63 - 1) (t - u))"

definition newTestMetadata :: "time \<Rightarrow> time \<Rightarrow> string list \<Rightarrow> test_metadata" where
  "newTestMetadata startTime endTime workerNames =
    zero_metadata\<lparr>md_StartedAt := startTime, md_EndedAt := endTime, md_DurationS := Orchestrator.dur_seconds (time_sub endTime startTime),
      md_WorkerCount := int (length workerNames),
      md_ArtifactCollection := Some \<lparr>ac2_Status = ''missing'', ac2_ExpectedWorkerCount = int (length workerNames), ac2_ReceivedWorkerSummaryCount = 0,
        ac2_MissingWorkers = Some (filter (\<lambda>w. trim_space w \<noteq> []) workerNames)\<rparr>\<rparr>"

definition missing_workers :: "artifact_collection \<Rightarrow> string list" where
  "missing_workers c = (case ac2_MissingWorkers c of None \<Rightarrow> [] | Some ws \<Rightarrow> ws)"

definition artifactCollectionReason :: "artifact_collection \<Rightarrow> string" where
  "artifactCollectionReason c =
    (if ac2_Status c = ''complete''
     then ''Received worker summaries for all '' @ itoa (ac2_ExpectedWorkerCount c) @ '' expected workers.''
     else if ac2_Status c = ''partial''
     then ''Received '' @ itoa (ac2_ReceivedWorkerSummaryCount c) @ '' of '' @ itoa (ac2_ExpectedWorkerCount c) @ '' expected worker summaries.'' @
          (if missing_workers c \<noteq> [] then '' Missing workers: '' @ join '', '' (missing_workers c) @ ''.'' else [])
     else if ac2_Status c = ''missing''
     then (if 0 < ac2_ExpectedWorkerCount c
           then ''No worker summary artifacts were collected for '' @ itoa (ac2_ExpectedWorkerCount c) @ '' expected workers.''
           else ''No worker summary artifacts were collected before result persistence.'')
     else [])"

definition classifyArtifactCollection :: "string list \<Rightarrow> merged_summary option \<Rightarrow> artifact_collection" where
  "classifyArtifactCollection expectedWorkers merged =
    (let names = (case merged of None \<Rightarrow> [] | Some m \<Rightarrow> filter (\<lambda>n. n \<noteq> []) (map (\<lambda>w. trim_space (ws_Name w)) (mg_Workers m)));
         receivedCount = (case merged of None \<Rightarrow> 0 | Some m \<Rightarrow> int (length (mg_Workers m)));
         expectedCount = (if expectedWorkers = [] then (case merged of None \<Rightarrow> 0 | Some m \<Rightarrow> mg_RawWorkerCount m) else int (length expectedWorkers));
         missing = filter (\<lambda>w. w \<noteq> [] \<and> w \<notin> set names) (map trim_space expectedWorkers);
         status = (if expectedCount = 0 \<and> 0 < receivedCount then ''complete''
                   else if receivedCount \<le> 0 then ''missing''
                   else if 0 < expectedCount \<and> expectedCount \<le> receivedCount \<and> missing = [] then ''complete''
                   else ''partial'')
     in \<lparr>ac2_Status = status, ac2_ExpectedWorkerCount = expectedCount, ac2_ReceivedWorkerSummaryCount = receivedCount,
         ac2_MissingWorkers = Some missing\<rparr>)"

text \<open>\<open>seconds\<close> is \<^verbatim>\<open>float64(time.Second)\<close>; the product is converted to nanoseconds.\<close>

definition artifactCollectionGraceWindow :: "test_metadata option \<Rightarrow> int" where
  "artifactCollectionGraceWindow md =
    (case md of
       None \<Rightarrow> 10 * second
     | Some m \<Rightarrow>
        (let durationBased = int_of_f64 (fmul (fmul (md_DurationS m) (mk_f64 (15 / 100))) (f64_of_int second));
             grace = wrap64 (durationBased + min (md_WorkerCount m) 10 * second)
         in if grace < 10 * second then 10 * second else if 90 * second < grace then 90 * second else grace))"

definition artifactCollectionDeadlines :: "time \<Rightarrow> int \<Rightarrow> int \<Rightarrow> bool \<Rightarrow> time \<times> time" where
  "artifactCollectionDeadlines now window followUpReserve reserve =
    (let finalDeadline = now + window
     in (if reserve \<and> 0 < followUpReserve \<and> followUpReserve < window then finalDeadline - followUpReserve else finalDeadline, finalDeadline))"

subsection \<open>Authentication\<close>

definition hasConfiguredAuth :: "test_metadata option \<Rightarrow> bool" where
  "hasConfiguredAuth md =
    (case Option.bind md md_Auth of
       None \<Rightarrow> False
     | Some a \<Rightarrow> am2_Mode a \<noteq> [] \<or> am2_TokenURL a \<noteq> [] \<or> am2_ClientAuthMethod a \<noteq> [] \<or> am2_SecretSource a \<noteq> [] \<or> 0 < am2_RefreshSkewSeconds a)"

definition apply_auth_summary :: "url_lib \<Rightarrow> auth_summary \<Rightarrow> auth_metadata \<Rightarrow> auth_metadata" where
  "apply_auth_summary ul s a =
    a\<lparr>am2_Mode := first_nonempty (am2_Mode a) (au_Mode s),
      am2_TokenURL := (if am2_TokenURL a = [] then normalizeAuthTokenURL ul (au_TokenURL s) else am2_TokenURL a),
      am2_ClientAuthMethod := first_nonempty (am2_ClientAuthMethod a) (au_ClientAuthMethod s),
      am2_RefreshSkewSeconds := (if am2_RefreshSkewSeconds a = 0 then au_RefreshSkewSeconds s else am2_RefreshSkewSeconds a),
      am2_MetricsStatus := (if am2_MetricsStatus a = [] then (if au_Status s \<noteq> [] then au_Status s else ''complete'') else am2_MetricsStatus a),
      am2_MetricsMessage := first_nonempty (am2_MetricsMessage a) (au_Message s), am2_Metrics := Some (au_Metrics s)\<rparr>"

definition applyAuthSummaryToMetadata :: "url_lib \<Rightarrow> test_metadata \<Rightarrow> auth_summary \<Rightarrow> test_metadata" where
  "applyAuthSummaryToMetadata ul md s =
    (if \<not> hasConfiguredAuth (Some md) then md else md\<lparr>md_Auth := map_option (apply_auth_summary ul s) (md_Auth md)\<rparr>)"

text \<open>(The branch of the source that makes new metadata is not reached: without metadata no authentication is configured.)\<close>

definition hydrateAuthMetadataFromRawSummary :: "json_lib \<Rightarrow> url_lib \<Rightarrow> test_metadata option \<Rightarrow> string \<Rightarrow> test_metadata option" where
  "hydrateAuthMetadataFromRawSummary lib ul md raw =
    (if trim_space raw = [] \<or> \<not> hasConfiguredAuth md then md
     else (case ParseRawAuthSummaryContent lib raw of
             Inl e \<Rightarrow> md
           | Inr s \<Rightarrow> map_option (\<lambda>m. applyAuthSummaryToMetadata ul m s) md))"

definition markAuthMetricsUnavailable :: "test_metadata \<Rightarrow> test_metadata" where
  "markAuthMetricsUnavailable md =
    md\<lparr>md_Auth := map_option (\<lambda>a. if am2_Metrics a \<noteq> None then a
        else a\<lparr>am2_MetricsStatus := first_nonempty (am2_MetricsStatus a) ''unavailable'',
               am2_MetricsMessage := first_nonempty (am2_MetricsMessage a)
                 ''Authentication was configured for this run, but no auth summary artifact was produced.''\<rparr>) (md_Auth md)\<rparr>"

subsection \<open>Derived metrics\<close>

record quality_flag =
  qf_Key :: string
  qf_Status :: string
  qf_Source :: string
  qf_Scope :: string
  qf_ApproximationReason :: string

record metric_counter =
  mc_Count :: f64
  mc_Rate :: f64

record check_metrics =
  ck_Passes :: f64
  ck_Fails :: f64
  ck_PassRate :: f64
  ck_FailRate :: f64

record http_block =
  hb_Requests :: f64
  hb_RPS :: f64
  hb_Successes :: f64
  hb_Failures :: f64
  hb_SuccessRate :: f64
  hb_ErrorRate :: f64
  hb_Status2xx :: f64
  hb_Status4xx :: f64
  hb_Status5xx :: f64
  hb_OtherFailures :: f64
  hb_NetworkErrors :: f64
  hb_DataReceivedBytes :: f64
  hb_DataSentBytes :: f64

record latency_block =
  lb_Metric :: string
  lb_Scope :: string
  lb_AvgMs :: f64
  lb_MedMs :: f64
  lb_P90Ms :: f64
  lb_P95Ms :: f64
  lb_P99Ms :: f64
  lb_MinMs :: f64
  lb_MaxMs :: f64

record breakdown_metric =
  bm_AvgMs :: f64
  bm_P95Ms :: f64
  bm_P99Ms :: f64
  bm_MaxMs :: f64

record breakdown_block =
  bb_Blocked :: breakdown_metric
  bb_Waiting :: breakdown_metric
  bb_Sending :: breakdown_metric
  bb_Receiving :: breakdown_metric
  bb_Connecting :: breakdown_metric
  bb_TLSHandshaking :: breakdown_metric

record worker_v2 =
  wv_Address :: string
  wv_Status :: string
  wv_Error :: string
  wv_Requests :: f64
  wv_BusinessRequests :: f64
  wv_AuxiliaryRequests :: f64
  wv_AvgLatencyMs :: f64
  wv_P95LatencyMs :: f64
  wv_P99LatencyMs :: f64
  wv_ErrorRate :: f64
  wv_ActiveDurationS :: f64

record metrics_v2 =
  v2_HTTPTotal :: http_block
  v2_HTTPBusiness :: http_block
  v2_HTTPAuxiliary :: http_block
  v2_Iterations :: metric_counter
  v2_Checks :: check_metrics
  v2_PrimaryLatency :: latency_block
  v2_LatencyBreakdown :: "breakdown_block option"
  v2_Workers :: "worker_v2 list"
  v2_Thresholds :: "threshold_result list"
  v2_QualityFlags :: "quality_flag list"

definition zero_http :: http_block where
  "zero_http = \<lparr>hb_Requests = f0, hb_RPS = f0, hb_Successes = f0, hb_Failures = f0, hb_SuccessRate = f0, hb_ErrorRate = f0, hb_Status2xx = f0,
    hb_Status4xx = f0, hb_Status5xx = f0, hb_OtherFailures = f0, hb_NetworkErrors = f0, hb_DataReceivedBytes = f0, hb_DataSentBytes = f0\<rparr>"

definition zero_checks :: check_metrics where
  "zero_checks = \<lparr>ck_Passes = f0, ck_Fails = f0, ck_PassRate = f0, ck_FailRate = f0\<rparr>"

definition zero_latency_block :: "string \<Rightarrow> string \<Rightarrow> latency_block" where
  "zero_latency_block metric scope = \<lparr>lb_Metric = metric, lb_Scope = scope, lb_AvgMs = f0, lb_MedMs = f0, lb_P90Ms = f0, lb_P95Ms = f0, lb_P99Ms = f0,
    lb_MinMs = f0, lb_MaxMs = f0\<rparr>"

definition zero_v2 :: metrics_v2 where
  "zero_v2 = \<lparr>v2_HTTPTotal = zero_http, v2_HTTPBusiness = zero_http, v2_HTTPAuxiliary = zero_http, v2_Iterations = \<lparr>mc_Count = f0, mc_Rate = f0\<rparr>,
    v2_Checks = zero_checks, v2_PrimaryLatency = zero_latency_block [] [], v2_LatencyBreakdown = None, v2_Workers = [], v2_Thresholds = [],
    v2_QualityFlags = []\<rparr>"

definition clampLatencyValue :: "f64 \<Rightarrow> f64" where
  "clampLatencyValue v = (if v = NaN \<or> v = PInf \<or> v = NInf \<or> flt v f0 then f0 else v)"

definition normalizeResultMetrics :: "aggregated_metrics \<Rightarrow> aggregated_metrics" where
  "normalizeResultMetrics m =
    m\<lparr>am_AvgLatency := clampLatencyValue (am_AvgLatency m), am_MedLatency := clampLatencyValue (am_MedLatency m),
      am_P90Latency := clampLatencyValue (am_P90Latency m), am_P95Latency := clampLatencyValue (am_P95Latency m),
      am_P99Latency := clampLatencyValue (am_P99Latency m), am_MinLatency := clampLatencyValue (am_MinLatency m),
      am_MaxLatency := clampLatencyValue (am_MaxLatency m),
      am_Workers := map (\<lambda>w. w\<lparr>wm_AvgLatency := clampLatencyValue (wm_AvgLatency w)\<rparr>) (am_Workers m)\<rparr>"

definition safeRate :: "f64 \<Rightarrow> f64 \<Rightarrow> f64 \<times> f64" where
  "safeRate successes tot =
    (if fle tot f0 then (f0, f0) else (let r = fdiv successes tot in (r, fsub (Fin 1) r)))"

definition upsertMetricQuality :: "quality_flag list \<Rightarrow> quality_flag \<Rightarrow> quality_flag list" where
  "upsertMetricQuality flags flag =
    (if list_ex (\<lambda>q. qf_Key q = qf_Key flag) flags
     then takeWhile (\<lambda>q. qf_Key q \<noteq> qf_Key flag) flags @ flag # tl (dropWhile (\<lambda>q. qf_Key q \<noteq> qf_Key flag) flags)
     else flags @ [flag])"

definition sanitizedLatencyBlock :: "string \<Rightarrow> string \<Rightarrow> latency_stats \<Rightarrow> latency_block" where
  "sanitizedLatencyBlock metric scope st =
    \<lparr>lb_Metric = metric, lb_Scope = scope, lb_AvgMs = clampLatencyValue (ls_Avg st), lb_MedMs = clampLatencyValue (ls_Med st),
     lb_P90Ms = clampLatencyValue (ls_P90 st), lb_P95Ms = clampLatencyValue (ls_P95 st), lb_P99Ms = clampLatencyValue (ls_P99 st),
     lb_MinMs = clampLatencyValue (ls_Min st), lb_MaxMs = clampLatencyValue (ls_Max st)\<rparr>"

definition sanitizedLegacyLatencyBlock :: "string \<Rightarrow> string \<Rightarrow> aggregated_metrics option \<Rightarrow> latency_block" where
  "sanitizedLegacyLatencyBlock metric scope metrics =
    (case metrics of
       None \<Rightarrow> zero_latency_block metric scope
     | Some m \<Rightarrow>
        \<lparr>lb_Metric = metric, lb_Scope = scope, lb_AvgMs = clampLatencyValue (am_AvgLatency m), lb_MedMs = clampLatencyValue (am_MedLatency m),
         lb_P90Ms = clampLatencyValue (am_P90Latency m), lb_P95Ms = clampLatencyValue (am_P95Latency m), lb_P99Ms = clampLatencyValue (am_P99Latency m),
         lb_MinMs = clampLatencyValue (am_MinLatency m), lb_MaxMs = clampLatencyValue (am_MaxLatency m)\<rparr>)"

definition sanitizedBreakdownMetric :: "latency_stats \<Rightarrow> breakdown_metric" where
  "sanitizedBreakdownMetric st =
    \<lparr>bm_AvgMs = clampLatencyValue (ls_Avg st), bm_P95Ms = clampLatencyValue (ls_P95 st), bm_P99Ms = clampLatencyValue (ls_P99 st),
     bm_MaxMs = clampLatencyValue (ls_Max st)\<rparr>"

definition rateFromDuration :: "f64 \<Rightarrow> test_metadata option \<Rightarrow> f64" where
  "rateFromDuration cnt md =
    (case md of None \<Rightarrow> f0 | Some m \<Rightarrow> if fle (md_DurationS m) f0 then f0 else fdiv cnt (md_DurationS m))"

definition buildCheckMetrics :: "merged_summary \<Rightarrow> check_metrics" where
  "buildCheckMetrics s =
    (let tot = fadd (mg_ChecksPasses s) (mg_ChecksFails s)
     in if fle tot f0 then zero_checks
        else \<lparr>ck_Passes = mg_ChecksPasses s, ck_Fails = mg_ChecksFails s, ck_PassRate = fdiv (mg_ChecksPasses s) tot,
              ck_FailRate = fdiv (mg_ChecksFails s) tot\<rparr>)"

definition selectWorkerAuxiliaryRequests :: "worker_summary \<Rightarrow> f64" where
  "selectWorkerAuxiliaryRequests w =
    (let derived = max0 (fsub (ws_Requests w) (ws_BusinessRequests w)) in if flt f0 derived then derived else max0 (ws_AuthRequests w))"

definition selectWorkerLatency :: "worker_summary \<Rightarrow> latency_stats" where
  "selectWorkerLatency w = (if fle (ws_BusinessRequests w) f0 then ws_Latency w else ws_BusinessLatency w)"

text \<open>\<^verbatim>\<open>math.Max(x, 0)\<close> is NaN on NaN.\<close>

definition fmax0 :: "f64 \<Rightarrow> f64" where
  "fmax0 v = (if v = NaN then NaN else if flt v f0 then f0 else v)"

definition worker_v2_of :: "aggregated_metrics option \<Rightarrow> nat \<Rightarrow> worker_summary \<Rightarrow> worker_v2" where
  "worker_v2_of legacy idx w =
    (let lw = (case legacy of None \<Rightarrow> None | Some m \<Rightarrow> if idx < length (am_Workers m) then Some (am_Workers m ! idx) else None);
         address = (case lw of Some x \<Rightarrow> if wm_Address x \<noteq> [] then wm_Address x else ws_Name w | None \<Rightarrow> ws_Name w);
         status = (case lw of Some x \<Rightarrow> if wm_Status x \<noteq> [] then wm_Status x else ''ok'' | None \<Rightarrow> ''ok'');
         err = (case lw of Some x \<Rightarrow> wm_Error x | None \<Rightarrow> []); l = selectWorkerLatency w
     in \<lparr>wv_Address = address, wv_Status = status, wv_Error = err, wv_Requests = ws_Requests w, wv_BusinessRequests = ws_BusinessRequests w,
         wv_AuxiliaryRequests = selectWorkerAuxiliaryRequests w, wv_AvgLatencyMs = clampLatencyValue (ls_Avg l), wv_P95LatencyMs = clampLatencyValue (ls_P95 l),
         wv_P99LatencyMs = clampLatencyValue (ls_P99 l), wv_ErrorRate = fmax0 (ws_ErrorRate w), wv_ActiveDurationS = fdiv (ws_DurationMs w) (Fin 1000)\<rparr>)"

definition buildWorkerMetricsV2 :: "merged_summary \<Rightarrow> aggregated_metrics option \<Rightarrow> worker_v2 list" where
  "buildWorkerMetricsV2 s legacy = map (\<lambda>(i, w). worker_v2_of legacy i w) (indexed (mg_Workers s))"

definition authHTTPMetrics :: "test_metadata option \<Rightarrow> http_block \<times> bool" where
  "authHTTPMetrics md =
    (case Option.bind (Option.bind md md_Auth) am2_Metrics of
       None \<Rightarrow> (zero_http, False)
     | Some a \<Rightarrow>
        (let requests = rm_TokenRequestsTotal a; (sr, er) = safeRate (rm_TokenSuccessTotal a) requests
         in (zero_http\<lparr>hb_Requests := requests, hb_Successes := rm_TokenSuccessTotal a, hb_Failures := rm_TokenFailureTotal a, hb_SuccessRate := sr,
               hb_ErrorRate := er\<rparr>, flt f0 requests \<or> flt f0 (rm_TokenFailureTotal a))))"

definition http_rest :: "http_block \<Rightarrow> http_block \<Rightarrow> test_metadata option \<Rightarrow> http_block" where
  "http_rest tot part md =
    (let requests = max0 (fsub (hb_Requests tot) (hb_Requests part)); successes = max0 (fsub (hb_Successes tot) (hb_Successes part));
         failures = max0 (fsub (hb_Failures tot) (hb_Failures part)); s4 = max0 (fsub (hb_Status4xx tot) (hb_Status4xx part));
         s5 = max0 (fsub (hb_Status5xx tot) (hb_Status5xx part)); (sr, er) = safeRate successes requests
     in zero_http\<lparr>hb_Requests := requests, hb_RPS := rateFromDuration requests md, hb_Successes := successes, hb_Failures := failures,
          hb_SuccessRate := sr, hb_ErrorRate := er, hb_Status4xx := s4, hb_Status5xx := s5, hb_OtherFailures := max0 (fsub (fsub failures s4) s5)\<rparr>)"

definition derivedAuxiliaryHTTPMetrics :: "http_block \<Rightarrow> http_block \<Rightarrow> test_metadata option \<Rightarrow> http_block \<times> bool" where
  "derivedAuxiliaryHTTPMetrics tot business md =
    (let r = http_rest tot business md
     in if fle (hb_Requests r) f0 \<and> fle (hb_Successes r) f0 \<and> fle (hb_Failures r) f0 then (zero_http, False) else (r, True))"

subsection \<open>The metrics of a result\<close>

text \<open>
  \<^verbatim>\<open>buildMetricsV2\<close> works through the sources of the metrics one after the other; every step records in a flag
  where its numbers come from. The flags are those of the result from the beginning.
\<close>

definition metricQuality :: "string \<Rightarrow> string \<Rightarrow> string \<Rightarrow> string \<Rightarrow> string \<Rightarrow> quality_flag" where
  "metricQuality key status source scope reason =
    \<lparr>qf_Key = key, qf_Status = status, qf_Source = source, qf_Scope = scope, qf_ApproximationReason = reason\<rparr>"

definition set_flag :: "string \<Rightarrow> string \<Rightarrow> string \<Rightarrow> string \<Rightarrow> string \<Rightarrow> metrics_v2 \<Rightarrow> metrics_v2" where
  "set_flag key status source scope reason v =
    v\<lparr>v2_QualityFlags := upsertMetricQuality (v2_QualityFlags v) (metricQuality key status source scope reason)\<rparr>"

definition v2_legacy :: "aggregated_metrics option \<Rightarrow> test_metadata option \<Rightarrow> metrics_v2 \<Rightarrow> metrics_v2" where
  "v2_legacy legacy md v =
    (case legacy of
       None \<Rightarrow> v
     | Some m \<Rightarrow>
        set_flag ''http_total'' ''legacy'' ''legacy_result_metrics'' ''global''
          ''Final total HTTP metrics currently fall back to the stored live snapshot because no parsed summary total has been applied yet.''
          (v\<lparr>v2_HTTPTotal := zero_http\<lparr>hb_Requests := am_TotalRequests m, hb_RPS := am_RPS m, hb_Successes := am_HTTPSuccesses m,
               hb_Failures := am_HTTPFailures m, hb_SuccessRate := am_SuccessRate m, hb_ErrorRate := am_ErrorRate m,
               hb_Status4xx := am_Status4xx m, hb_Status5xx := am_Status5xx m,
               hb_OtherFailures := max0 (fsub (fsub (am_HTTPFailures m) (am_Status4xx m)) (am_Status5xx m)),
               hb_DataReceivedBytes := am_DataReceived m, hb_DataSentBytes := am_DataSent m\<rparr>,
             v2_Iterations := \<lparr>mc_Count = am_Iterations m, mc_Rate = rateFromDuration (am_Iterations m) md\<rparr>,
             v2_PrimaryLatency := sanitizedLegacyLatencyBlock ''http_req_duration'' ''http_total'' legacy,
             v2_Thresholds := v2_Thresholds v @ am_Thresholds m\<rparr>))"

definition v2_totals :: "merged_summary \<Rightarrow> aggregated_metrics option \<Rightarrow> test_metadata option \<Rightarrow> metrics_v2 \<Rightarrow> metrics_v2" where
  "v2_totals s legacy md v =
    (let (sr, er) = safeRate (mg_TotalSuccesses s) (mg_TotalRequests s);
         v1 = set_flag ''http_total'' ''exact'' ''summary_http_reqs'' ''global'' []
           (v\<lparr>v2_HTTPTotal := zero_http\<lparr>hb_Requests := mg_TotalRequests s, hb_RPS := rateFromDuration (mg_TotalRequests s) md,
                hb_Successes := mg_TotalSuccesses s, hb_Failures := mg_TotalFailures s, hb_SuccessRate := sr, hb_ErrorRate := er,
                hb_Status4xx := mg_TotalStatus4xx s, hb_Status5xx := mg_TotalStatus5xx s,
                hb_OtherFailures := max0 (fsub (fsub (mg_TotalFailures s) (mg_TotalStatus4xx s)) (mg_TotalStatus5xx s)),
                hb_DataReceivedBytes := hb_DataReceivedBytes (v2_HTTPTotal v), hb_DataSentBytes := hb_DataSentBytes (v2_HTTPTotal v)\<rparr>,
              v2_Iterations := \<lparr>mc_Count = mg_Iterations s, mc_Rate = rateFromDuration (mg_Iterations s) md\<rparr>\<rparr>)
     in v1\<lparr>v2_Checks := buildCheckMetrics s, v2_Workers := buildWorkerMetricsV2 s legacy,
          v2_Thresholds := (if v2_Thresholds v1 = [] then mg_Thresholds s else v2_Thresholds v1)\<rparr>)"

definition breakdown_of :: "breakdown_stats \<Rightarrow> breakdown_block" where
  "breakdown_of b =
    \<lparr>bb_Blocked = sanitizedBreakdownMetric (bd_Blocked b), bb_Waiting = sanitizedBreakdownMetric (bd_Waiting b),
     bb_Sending = sanitizedBreakdownMetric (bd_Sending b), bb_Receiving = sanitizedBreakdownMetric (bd_Receiving b),
     bb_Connecting = sanitizedBreakdownMetric (bd_Connecting b), bb_TLSHandshaking = sanitizedBreakdownMetric (bd_TLSHandshaking b)\<rparr>"

definition v2_business :: "merged_summary \<Rightarrow> test_metadata option \<Rightarrow> metrics_v2 \<Rightarrow> metrics_v2" where
  "v2_business s md v =
    (if \<not> flt f0 (mg_BusinessRequests s) then v
     else
       (let (sr, er) = safeRate (mg_BusinessSuccesses s) (mg_BusinessRequests s);
            v1 = set_flag ''http_business'' ''exact'' ''summary_custom_business_counters'' ''global'' []
              (v\<lparr>v2_HTTPBusiness := zero_http\<lparr>hb_Requests := mg_BusinessRequests s, hb_RPS := rateFromDuration (mg_BusinessRequests s) md,
                   hb_Successes := mg_BusinessSuccesses s, hb_Failures := mg_BusinessFailures s, hb_SuccessRate := sr, hb_ErrorRate := er,
                   hb_Status2xx := mg_BusinessStatus2xx s, hb_Status4xx := mg_BusinessStatus4xx s, hb_Status5xx := mg_BusinessStatus5xx s,
                   hb_NetworkErrors := mg_BusinessTransportFailures s,
                   hb_OtherFailures := max0 (fsub (fsub (fsub (mg_BusinessFailures s) (mg_BusinessStatus4xx s)) (mg_BusinessStatus5xx s))
                     (mg_BusinessTransportFailures s))\<rparr>,
                 v2_PrimaryLatency := sanitizedLatencyBlock ''business_http_duration_ms'' ''http_business'' (mg_BusinessLatency s)\<rparr>);
            v2 = set_flag ''latency_primary'' ''approximate'' ''summary_weighted_worker_percentiles'' ''global''
              ''Global percentiles are reconstructed from per-worker handleSummary trend values.'' v1
        in case mg_BusinessBreakdown s of
             None \<Rightarrow> v2
           | Some b \<Rightarrow>
              set_flag ''latency_breakdown'' ''approximate'' ''summary_weighted_worker_percentiles'' ''global''
                ''Latency breakdown percentiles are reconstructed from per-worker trend summaries.''
                (v2\<lparr>v2_LatencyBreakdown := Some (breakdown_of b)\<rparr>)))"

definition v2_auxiliary :: "merged_summary option \<Rightarrow> test_metadata option \<Rightarrow> metrics_v2 \<Rightarrow> metrics_v2" where
  "v2_auxiliary merged md v =
    (if (case merged of None \<Rightarrow> False | Some s \<Rightarrow> mg_HasBusinessMetrics s)
     then (case derivedAuxiliaryHTTPMetrics (v2_HTTPTotal v) (v2_HTTPBusiness v) md of
             (aux, has_aux) \<Rightarrow>
               if has_aux then set_flag ''http_auxiliary'' ''exact'' ''summary_total_minus_business'' ''global'' [] (v\<lparr>v2_HTTPAuxiliary := aux\<rparr>)
               else v)
     else (case authHTTPMetrics md of
             (aux, has_aux) \<Rightarrow>
               if has_aux
               then set_flag ''http_auxiliary'' ''approximate'' ''auth_summary_logical_token_requests'' ''global''
                 ''Auxiliary HTTP traffic falls back to logical token acquisition attempts because exact non-business HTTP totals could not be derived.''
                 (v\<lparr>v2_HTTPAuxiliary := aux\<rparr>)
               else v))"

definition v2_business_fallback :: "aggregated_metrics option \<Rightarrow> test_metadata option \<Rightarrow> metrics_v2 \<Rightarrow> metrics_v2" where
  "v2_business_fallback legacy md v =
    (if feq (hb_Requests (v2_HTTPBusiness v)) f0 \<and> legacy \<noteq> None
     then
       (if flt f0 (hb_Requests (v2_HTTPAuxiliary v)) \<and> flt f0 (hb_Requests (v2_HTTPTotal v))
        then set_flag ''http_business'' ''approximate'' ''total_minus_auth'' ''global''
          ''Business traffic was approximated by subtracting auth token requests from total HTTP requests.''
          (v\<lparr>v2_HTTPBusiness := http_rest (v2_HTTPTotal v) (v2_HTTPAuxiliary v) md\<rparr>)
        else set_flag ''latency_primary'' ''approximate'' ''legacy_total_http'' ''global''
          ''Primary latency falls back to total HTTP duration because no business latency metric was captured.''
          (set_flag ''http_business'' ''legacy'' ''legacy_total_http'' ''global''
            ''Run has no business-specific counters; total HTTP traffic is used as a legacy fallback.''
            (v\<lparr>v2_HTTPBusiness := v2_HTTPTotal v\<rparr>)))
     else v)"

definition v2_latency_fallback :: "aggregated_metrics option \<Rightarrow> metrics_v2 \<Rightarrow> metrics_v2" where
  "v2_latency_fallback legacy v =
    (if lb_Metric (v2_PrimaryLatency v) = []
     then v\<lparr>v2_PrimaryLatency := sanitizedLegacyLatencyBlock ''http_req_duration'' ''http_total'' legacy\<rparr> else v)"

definition legacy_worker :: "worker_metrics \<Rightarrow> worker_v2" where
  "legacy_worker w =
    \<lparr>wv_Address = wm_Address w, wv_Status = wm_Status w, wv_Error = wm_Error w, wv_Requests = wm_Requests w, wv_BusinessRequests = f0,
     wv_AuxiliaryRequests = f0, wv_AvgLatencyMs = clampLatencyValue (wm_AvgLatency w), wv_P95LatencyMs = f0, wv_P99LatencyMs = f0,
     wv_ErrorRate = f0, wv_ActiveDurationS = f0\<rparr>"

definition v2_workers_step :: "aggregated_metrics option \<Rightarrow> metrics_v2 \<Rightarrow> metrics_v2" where
  "v2_workers_step legacy v =
    (case (v2_Workers v, legacy) of
       ([], Some m) \<Rightarrow>
         set_flag ''workers'' ''legacy'' ''legacy_worker_snapshot'' ''per_worker''
           ''Worker drilldown falls back to the coarse live aggregate because no parsed worker summary is available.''
           (v\<lparr>v2_Workers := map legacy_worker (am_Workers m)\<rparr>)
     | ([], None) \<Rightarrow> v
     | (_ # _, _) \<Rightarrow>
         set_flag ''workers'' ''approximate'' ''summary_worker_metrics'' ''per_worker''
           ''Per-worker latency percentiles are taken from worker summaries; global worker timing windows remain controller-based.'' v)"

definition v2_checks_step :: "merged_summary option \<Rightarrow> metrics_v2 \<Rightarrow> metrics_v2" where
  "v2_checks_step merged v =
    (if merged = None
     then set_flag ''checks'' ''unavailable'' ''summary_content'' ''global''
       ''No parsed handleSummary artifact was available for check aggregation.'' (v\<lparr>v2_Checks := zero_checks\<rparr>)
     else v)"

definition v2_artifacts_step :: "test_metadata option \<Rightarrow> metrics_v2 \<Rightarrow> metrics_v2" where
  "v2_artifacts_step md v =
    (case Option.bind md md_ArtifactCollection of
       None \<Rightarrow> v
     | Some c \<Rightarrow>
        set_flag ''worker_artifacts''
          (if ac2_Status c = ''partial'' then ''partial'' else if ac2_Status c = ''missing'' then ''unavailable'' else ''exact'')
          ''summary_artifact_collection'' ''per_worker'' (artifactCollectionReason c) v)"

definition v2_summary :: "json_lib \<Rightarrow> string \<Rightarrow> metrics_v2 \<Rightarrow> merged_summary option \<times> metrics_v2" where
  "v2_summary lib raw v =
    (if raw = [] then (None, v)
     else (case ParseRawSummaryContent lib raw of
             Inr s \<Rightarrow> (Some s, v)
           | Inl e \<Rightarrow> (None, v\<lparr>v2_QualityFlags := v2_QualityFlags v @ [metricQuality ''summary_artifact'' ''unavailable'' ''summary_content'' ''global'' e]\<rparr>)))"

definition buildMetricsV2 ::
  "json_lib \<Rightarrow> aggregated_metrics option \<Rightarrow> string \<Rightarrow> test_metadata option \<Rightarrow> metrics_v2 option" where
  "buildMetricsV2 lib legacy rawSummary md =
    (if legacy = None \<and> rawSummary = [] \<and> md = None then None
     else (case v2_summary lib rawSummary (v2_legacy legacy md zero_v2) of
             (merged, v) \<Rightarrow>
               Some (v2_artifacts_step md (v2_checks_step merged (v2_workers_step legacy (v2_latency_fallback legacy
                 (v2_business_fallback legacy md (v2_auxiliary merged md
                   (case merged of None \<Rightarrow> v | Some s \<Rightarrow> v2_business s md (v2_totals s legacy md v))))))))))"

end
