(* ===== verification/SummaryProofs.thy ===== *)
theory SummaryProofs
  imports SummaryText
begin

text \<open>
  What the merging of summaries guarantees: the text that collects the uploads of all workers is read back
  block by block, thresholds are merged by conjunction, the extremes of the latency are those of
  the workers, and status codes come out sorted and once each.
\<close>

subsection \<open>Splitting\<close>

lemma contains_append_free:
  assumes "newline \<notin> set a"
  shows "contains (a @ s) (newline # x) \<longleftrightarrow> contains s (newline # x)"
  using assms by (induction a) (auto simp: has_prefix_def)

lemma contains_snoc:
  assumes "contains (s @ [d]) p" "p \<noteq> []" "last p \<noteq> d"
  shows "contains s p"
proof -
  obtain a b where ab: "s @ [d] = a @ p @ b" using assms(1) unfolding contains_iff by blast
  show ?thesis
  proof (cases b rule: rev_cases)
    case Nil
    then have "last (s @ [d]) = last p" using ab assms(2) by simp
    then show ?thesis using assms(3) by simp
  next
    case (snoc b' e)
    then have "s = a @ p @ b'" using ab by simp
    then show ?thesis unfolding contains_iff by blast
  qed
qed

lemma has_prefix_contains: "has_prefix s p \<Longrightarrow> contains s p"
  by (cases s) (auto simp: has_prefix_def)

lemma split_none:
  assumes "\<not> contains s sep"
  shows "split_on sep acc s = [rev acc @ s]"
  using assms by (induction s arbitrary: acc) auto

lemma split_first:
  assumes "newline \<notin> set x" "\<not> contains s (newline # x)"
  shows "split_on (newline # x) acc (s @ newline # x @ rest) = (rev acc @ s) # split_on (newline # x) [] rest"
  using assms(2)
proof (induction s arbitrary: acc)
  case Nil
  then show ?case by (simp add: has_prefix_def)
next
  case (Cons c s)
  have "\<not> has_prefix ((c # s) @ newline # x @ rest) (newline # x)"
  proof
    assume p: "has_prefix ((c # s) @ newline # x @ rest) (newline # x)"
    show False
    proof (cases "length x \<le> length s")
      case True
      then have "has_prefix (c # s) (newline # x)" using p by (simp add: has_prefix_def)
      then show False using Cons.prems by simp
    next
      case False
      then have "x ! length s = newline" using p by (auto simp: has_prefix_def take_Cons' nth_append dest: arg_cong [of _ _ "\<lambda>l. l ! length s"])
      then show False using False assms(1) nth_mem [of "length s" x] by auto
    qed
  qed
  then show ?case using Cons by simp
qed

subsection \<open>The raw summary is read back\<close>

definition block_ok :: "string \<times> string \<Rightarrow> bool" where
  "block_ok p \<longleftrightarrow>
    (case p of (w, c) \<Rightarrow> w \<noteq> [] \<and> is_plain (hd w) \<and> newline \<notin> set w \<and>
      c \<noteq> [] \<and> is_plain (hd c) \<and> is_plain (last c) \<and> \<not> contains (newline # c) block_sep)"

fun rest_text :: "(string \<times> string) list \<Rightarrow> string" where
  "rest_text [] = []"
| "rest_text [(w, c)] = w @ '' ---'' @ newline # c"
| "rest_text ((w, c) # q # ps) = (w @ '' ---'' @ newline # c @ [newline]) @ newline # ''--- '' @ rest_text (q # ps)"

fun tails :: "(string \<times> string) list \<Rightarrow> string list" where
  "tails [] = []"
| "tails [(w, c)] = [w @ '' ---'' @ newline # c]"
| "tails ((w, c) # q # ps) = (w @ '' ---'' @ newline # c @ [newline]) # tails (q # ps)"

lemma tails_nonempty: "tails (p # ps) \<noteq> []"
  by (cases p; cases ps) auto

lemma join_parts:
  "join [newline, newline] (map (\<lambda>(w, c). ''--- '' @ w @ '' ---'' @ [newline] @ c) (p # ps)) = ''--- '' @ rest_text (p # ps)"
proof (induction ps arbitrary: p)
  case Nil
  then show ?case by (cases p) simp
next
  case (Cons q ps)
  then show ?case by (cases p) simp
qed

lemma newline_ne: "newline \<notin> set ''--- ''" "newline \<notin> set '' ---''"
  by (simp_all add: newline_def)

lemma header_free:
  assumes "block_ok (w, c)"
  shows "\<not> contains (w @ '' ---'' @ newline # c) block_sep" "\<not> contains (w @ '' ---'' @ newline # c @ [newline]) block_sep"
proof -
  have "newline \<notin> set (w @ '' ---'')" using assms newline_ne by (simp add: block_ok_def)
  from contains_append_free [OF this]
  have e: "contains ((w @ '' ---'') @ s) block_sep \<longleftrightarrow> contains s block_sep" for s by (simp add: block_sep_def)
  have n: "\<not> contains (newline # c) block_sep" using assms by (simp add: block_ok_def)
  show "\<not> contains (w @ '' ---'' @ newline # c) block_sep" using e [of "newline # c"] n by simp
  have "\<not> contains ((newline # c) @ [newline]) block_sep"
    using contains_snoc [of "newline # c" newline block_sep] n by (auto simp: block_sep_def newline_def)
  then show "\<not> contains (w @ '' ---'' @ newline # c @ [newline]) block_sep" using e [of "(newline # c) @ [newline]"] by simp
qed

lemma split_rest:
  assumes "list_all block_ok (p # ps)"
  shows "split_on block_sep acc (rest_text (p # ps)) = (rev acc @ hd (tails (p # ps))) # tl (tails (p # ps))"
  using assms
proof (induction ps arbitrary: p acc)
  case Nil
  obtain w c where "p = (w, c)" by (cases p)
  then show ?case using Nil split_none [OF header_free(1), of w c] by simp
next
  case (Cons q ps)
  obtain w c where p: "p = (w, c)" by (cases p)
  have "split_on block_sep acc (rest_text (p # q # ps)) =
      (rev acc @ w @ '' ---'' @ newline # c @ [newline]) # split_on block_sep [] (rest_text (q # ps))"
    using split_first [of "''--- ''" "w @ '' ---'' @ newline # c @ [newline]" acc "rest_text (q # ps)"] header_free(2) [of w c] Cons.prems newline_ne(1)
    by (simp add: p block_sep_def)
  then show ?case using Cons.IH [of q "[]"] Cons.prems tails_nonempty [of q ps] by (simp add: p)
qed

lemma trim_newline:
  assumes "c \<noteq> []" "is_plain (hd c)" "is_plain (last c)"
  shows "trim_space (c @ [newline]) = c"
proof -
  have l: "strip_all (length (c @ [newline])) space_encodings (c @ [newline]) = c @ [newline]"
    using assms space_encodings_plain by (intro strip_all_plain) auto
  have a: "list_all (\<lambda>p. hd p = newline \<longrightarrow> p = [newline]) (map rev space_encodings)" "list_ex (\<lambda>p. p = [newline]) (map rev space_encodings)"
    by (simp_all add: space_encodings_def newline_def upt_rec_numeral char_of_eq_iff take_bit_eq_mod)
  have "[newline] \<in> set (map rev space_encodings)" "has_prefix (newline # rev c) [newline]"
    using a(2) unfolding list_ex_iff by (blast, simp add: has_prefix_def)
  then have "find (has_prefix (newline # rev c)) (map rev space_encodings) \<noteq> None" unfolding find_None_iff by blast
  then obtain q where q: "find (has_prefix (newline # rev c)) (map rev space_encodings) = Some q" by blast
  then have m: "q \<in> set (map rev space_encodings)" "has_prefix (newline # rev c) q"
    by (auto simp: find_Some_iff)
  then have "q \<noteq> []" using space_encodings_nonempty(2) by blast
  then have "hd q = newline" using m(2) by (cases q) (simp_all add: has_prefix_def)
  then have "q = [newline]" using a(1) m(1) unfolding list_all_iff by blast
  then have "find (has_prefix (newline # rev c)) (map rev space_encodings) = Some [newline]" using q by simp
  then have "strip_one (map rev space_encodings) (newline # rev c) = Some (rev c)" by (simp add: strip_one_def)
  moreover have "strip_all (length c) (map rev space_encodings) (rev c) = rev c"
    using assms space_encodings_plain by (intro strip_all_plain) (auto simp: hd_rev)
  ultimately show ?thesis by (simp add: trim_space_def trim_left_space_def trim_right_space_def l [simplified])
qed

lemma split_line_eq: "newline \<notin> set a \<Longrightarrow> split_line (a @ newline # b) = [a, b]"
proof -
  assume "newline \<notin> set a"
  then have "dropWhile (\<lambda>c. c \<noteq> newline) (a @ newline # b) = newline # b" "takeWhile (\<lambda>c. c \<noteq> newline) (a @ newline # b) = a"
    by (induction a) auto
  then show "split_line (a @ newline # b) = [a, b]" by (simp add: split_line_def)
qed

lemma summary_block_eq:
  assumes "block_ok (w, c)" "e = [] \<or> e = [newline]"
    and "b = (if idx = 0 then ''--- '' else []) @ w @ '' ---'' @ newline # c @ e"
  shows "summary_block idx b = Some (w, c)"
proof -
  have ok: "w \<noteq> []" "is_plain (hd w)" "newline \<notin> set (w @ '' ---'')" "c \<noteq> []" "is_plain (hd c)" "is_plain (last c)"
    using assms(1) newline_ne(2) by (simp_all add: block_ok_def)
  have "trim_space (w @ '' ---'') = w @ '' ---''" using ok(1,2) by (intro trim_space_plain) (simp_all add: is_plain_def)
  moreover have "trim_suffix (w @ '' ---'') '' ---'' = w" by (simp add: trim_suffix_def has_suffix_def)
  moreover have "trim_space (c @ e) = c" using assms(2) ok(4-6) trim_newline [of c] by auto
  moreover have "trim_prefix (''--- '' @ w @ '' ---'' @ newline # c @ e) ''--- '' = (w @ '' ---'') @ newline # c @ e"
    by (simp add: trim_prefix_def has_prefix_def)
  moreover have "(if 0 < idx then ''--- '' @ b else b) = ''--- '' @ w @ '' ---'' @ newline # c @ e" using assms(3) by simp
  ultimately show ?thesis using ok(1,4) split_line_eq [OF ok(3), of "c @ e"] by (simp only: summary_block_def Let_def list.case) simp
qed

definition decoded :: "json_lib \<Rightarrow> (string \<times> string) list \<Rightarrow> named_summary list" where
  "decoded lib ps = concat (map (\<lambda>(w, c). case unmarshal_summary lib c of None \<Rightarrow> [] | Some d \<Rightarrow> [(w, d)]) ps)"

lemma named_tails:
  assumes "list_all block_ok ps" "0 < n"
  shows "named_summaries lib (zip [n ..< n + length (tails ps)] (tails ps)) = decoded lib ps"
  using assms
proof (induction ps arbitrary: n rule: tails.induct)
  case (2 w c)
  then show ?case using summary_block_eq [of w c "[]" _ n] by (simp add: named_summaries_def decoded_def)
next
  case (3 w c q ps)
  have "summary_block n (w @ '' ---'' @ newline # c @ [newline]) = Some (w, c)"
    by (rule summary_block_eq [where e = "[newline]"]) (use 3 in simp_all)
  moreover have "[n ..< n + length (tails ((w, c) # q # ps))] = n # [Suc n ..< Suc n + length (tails (q # ps))]"
    by (simp add: upt_conv_Cons del: upt_Suc)
  moreover have "named_summaries lib (zip [Suc n ..< Suc n + length (tails (q # ps))] (tails (q # ps))) = decoded lib (q # ps)"
    using "3.IH" [of "Suc n"] "3.prems" by simp
  ultimately show ?case by (simp add: named_summaries_def decoded_def)
qed (simp add: named_summaries_def decoded_def)

lemma named_blocks:
  assumes "list_all block_ok (p # ps)"
  shows "named_summaries lib (indexed ((''--- '' @ hd (tails (p # ps))) # tl (tails (p # ps)))) = decoded lib (p # ps)"
proof -
  obtain w c where p: "p = (w, c)" by (cases p)
  define e where "e = (if ps = [] then [] else [newline])"
  have h: "hd (tails (p # ps)) = w @ '' ---'' @ newline # c @ e" and t: "tl (tails (p # ps)) = tails ps"
    by (cases ps; simp add: p e_def)+
  have "summary_block 0 (''--- '' @ w @ '' ---'' @ newline # c @ e) = Some (w, c)"
    by (rule summary_block_eq [where e = e]) (use assms in \<open>simp_all add: p e_def\<close>)
  moreover have "named_summaries lib (zip [Suc 0 ..< Suc (length (tails ps))] (tails ps)) = decoded lib ps"
    using named_tails [of ps 1 lib] assms by simp
  ultimately show ?thesis unfolding h t by (simp add: indexed_def upt_conv_Cons named_summaries_def decoded_def p del: upt_Suc)
qed

lemma rest_text_ends:
  assumes "list_all block_ok (p # ps)"
  shows "rest_text (p # ps) \<noteq> [] \<and> is_plain (last (rest_text (p # ps)))"
  using assms
proof (induction ps arbitrary: p)
  case Nil
  then show ?case by (cases p) (simp add: block_ok_def)
next
  case (Cons q ps)
  then show ?case by (cases p) simp
qed

lemma parse_built_summary:
  assumes "list_all block_ok (contents_in_order sn ArtifactSummary)" "contents_in_order sn ArtifactSummary \<noteq> []"
  shows "ParseRawSummaryContent lib (BuildRawSummary sn ArtifactSummary) =
    (if decoded lib (contents_in_order sn ArtifactSummary) = [] then Inl ''no valid summaries in artifact''
     else mergeSummaryMetrics (decoded lib (contents_in_order sn ArtifactSummary)))"
proof -
  obtain p ps where ps: "contents_in_order sn ArtifactSummary = p # ps" using assms(2) by (cases "contents_in_order sn ArtifactSummary") auto
  have ok: "list_all block_ok (p # ps)" using assms(1) ps by simp
  have "artifacts_of sn ArtifactSummary \<noteq> []" using assms(2) by (auto simp: contents_in_order_def orderedArtifactWorkers_def)
  then have raw: "BuildRawSummary sn ArtifactSummary = ''--- '' @ rest_text (p # ps)"
    using join_parts [of p ps] by (simp add: BuildRawSummary_def ps newline_def)
  have "trim_space (''--- '' @ rest_text (p # ps)) = ''--- '' @ rest_text (p # ps)"
    using rest_text_ends [OF ok] by (intro trim_space_plain) (simp_all add: is_plain_def)
  moreover have "split_on block_sep [] (''--- '' @ rest_text (p # ps)) = (''--- '' @ hd (tails (p # ps))) # tl (tails (p # ps))"
    using split_rest [OF ok, of "rev ''--- ''"] by (simp add: has_prefix_def block_sep_def newline_def)
  ultimately show ?thesis using named_blocks [OF ok, of lib] by (simp add: ParseRawSummaryContent_def raw ps Let_def)
qed

text \<open>
  What the controller stores as the raw summary of a run is read back completely: the summaries that are merged are
  those of the uploaded artifacts, under the names of their workers and in their order, without the artifacts that are
  not valid summaries.
\<close>

theorem raw_summary_parses_back:
  assumes "list_all block_ok (contents_in_order sn ArtifactSummary)" "contents_in_order sn ArtifactSummary \<noteq> []"
  shows "ParseRawSummaryContent lib (BuildRawSummary sn ArtifactSummary) =
    (if decoded lib (contents_in_order sn ArtifactSummary) = [] then Inl ''no valid summaries in artifact''
     else mergeSummaryMetrics (decoded lib (contents_in_order sn ArtifactSummary)))"
  using assms by (rule parse_built_summary)

definition demo_summary_lib :: json_lib where
  "demo_summary_lib = \<lparr>jl_unmarshal = (\<lambda>t. if t = ''{}'' then Inr (JObj []) else Inl ''invalid''), jl_num = (\<lambda>_. ''0''), jl_numv = (\<lambda>_. ''0''), jl_quote = (\<lambda>s. s)\<rparr>"

definition demo_snapshot :: snapshot where
  "demo_snapshot = \<lparr>sn_TestID = ''t'', sn_ExpectedWorkers = [''w2'', ''w1''], sn_UploadToken = ''u'',
    sn_Artifacts = [(ArtifactSummary, [(''w1'', \<lparr>ar_WorkerID = ''w1'', ar_Content = ''{}'', ar_ContentType = [], ar_ReceivedAt = 0\<rparr>),
      (''w2'', \<lparr>ar_WorkerID = ''w2'', ar_Content = ''{}'', ar_ContentType = [], ar_ReceivedAt = 0\<rparr>)])], sn_CreatedAt = 0\<rparr>"

lemma demo_contents:
  "contents_in_order demo_snapshot ArtifactSummary = [(''w2'', ''{}''), (''w1'', ''{}'')]"
  "list_all block_ok (contents_in_order demo_snapshot ArtifactSummary)"
proof -
  have "trim_space ''{}'' = ''{}''" by (simp add: is_plain_def)
  then show c: "contents_in_order demo_snapshot ArtifactSummary = [(''w2'', ''{}''), (''w1'', ''{}'')]"
    by (simp add: contents_in_order_def artifacts_of_def demo_snapshot_def orderedArtifactWorkers_def)
  show "list_all block_ok (contents_in_order demo_snapshot ArtifactSummary)"
    by (simp add: c block_ok_def is_plain_def newline_def block_sep_def has_prefix_def)
qed

theorem raw_summary_parses_back_witness:
  "\<exists>m. ParseRawSummaryContent demo_summary_lib (BuildRawSummary demo_snapshot ArtifactSummary) = Inr m \<and> mg_RawWorkerCount m = 2"
proof -
  have "decoded demo_summary_lib [(''w2'', ''{}''), (''w1'', ''{}'')] =
      [(''w2'', \<lparr>ks_Metrics = [], ks_TestRunDurationMs = f0\<rparr>), (''w1'', \<lparr>ks_Metrics = [], ks_TestRunDurationMs = f0\<rparr>)]"
    by (simp add: decoded_def unmarshal_summary_def demo_summary_lib_def dec_summary_def field_def)
  then show ?thesis using raw_summary_parses_back [OF demo_contents(2), of demo_summary_lib]
    by (simp add: demo_contents(1) mergeSummaryMetrics_def init_merged_def add_summary_def Let_def split: prod.split bool.split)
qed

subsection \<open>Thresholds\<close>

definition thresholds_of :: "named_summary list \<Rightarrow> (string \<times> bool) list" where
  "thresholds_of ss = concat (map (\<lambda>s. concat (map (\<lambda>(k, m). map (\<lambda>(_, ok). (k, ok)) (sm_Thresholds m)) (ks_Metrics (snd s)))) ss)"

lemma fold_thresholds_of:
  "fold (\<lambda>s merged. fold (\<lambda>(k, m) merged. fold (\<lambda>(_, ok). merge_threshold k ok) (sm_Thresholds m) merged) (ks_Metrics (snd s)) merged) ss acc =
    fold (\<lambda>(k, ok). merge_threshold k ok) (thresholds_of ss) acc"
proof -
  have metric: "(case p of (k, m) \<Rightarrow> \<lambda>merged. fold (\<lambda>(_, ok). merge_threshold k ok) (sm_Thresholds m) merged) merged =
    fold (\<lambda>(k, ok). merge_threshold k ok) (case p of (k, m) \<Rightarrow> map (\<lambda>(_, ok). (k, ok)) (sm_Thresholds m)) merged" for p merged
    by (cases p) (simp add: fold_map case_prod_unfold comp_def)
  have summary: "fold (\<lambda>(k, m) merged. fold (\<lambda>(_, ok). merge_threshold k ok) (sm_Thresholds m) merged) ms merged =
    fold (\<lambda>(k, ok). merge_threshold k ok) (concat (map (\<lambda>(k, m). map (\<lambda>(_, ok). (k, ok)) (sm_Thresholds m)) ms)) merged" for ms merged
    by (induction ms arbitrary: merged) (simp_all add: metric fold_append)
  show ?thesis unfolding summary by (induction ss arbitrary: acc) (simp_all add: thresholds_of_def fold_append)
qed

lemma mergeThresholds_eq:
  "mergeThresholds ss = map (\<lambda>(k, p). \<lparr>tr_Metric = k, tr_Passed = p\<rparr>) (fold (\<lambda>(k, ok). merge_threshold k ok) (thresholds_of ss) [])"
  unfolding mergeThresholds_def fold_thresholds_of ..

lemma merge_threshold_lookup:
  "map_of (merge_threshold k ok merged) k' = (if k' = k then Some ((map_of merged k \<noteq> Some False) \<and> ok) else map_of merged k')"
  by (auto simp: merge_threshold_def update_conv split: option.split)

lemma fold_thresholds:
  "map_of (fold (\<lambda>(k, ok). merge_threshold k ok) ths acc) k =
    (if k \<in> fst ` set ths then Some (map_of acc k \<noteq> Some False \<and> (k, False) \<notin> set ths) else map_of acc k)"
proof (induction ths arbitrary: acc)
  case (Cons a ths)
  obtain k0 ok where a: "a = (k0, ok)" by (cases a)
  show ?case by (cases ok) (force simp: a Cons merge_threshold_lookup)+
qed simp

lemma distinct_merged_thresholds: "distinct (map fst acc) \<Longrightarrow> distinct (map fst (fold (\<lambda>(k, ok). merge_threshold k ok) ths acc))"
  by (induction ths arbitrary: acc) (auto simp: merge_threshold_def distinct_update split: option.split)

text \<open>
  Of the thresholds in the summaries every metric is reported once, and as passed exactly when every worker met every
  threshold of this metric.
\<close>

theorem merged_thresholds_correct:
  "distinct (map tr_Metric (mergeThresholds ss)) \<and>
   (\<lparr>tr_Metric = k, tr_Passed = p\<rparr> \<in> set (mergeThresholds ss) \<longleftrightarrow> k \<in> fst ` set (thresholds_of ss) \<and> p = ((k, False) \<notin> set (thresholds_of ss)))"
proof -
  let ?m = "fold (\<lambda>(k, ok). merge_threshold k ok) (thresholds_of ss) []"
  have d: "distinct (map fst ?m)" by (rule distinct_merged_thresholds) simp
  have "map tr_Metric (mergeThresholds ss) = map fst ?m" by (simp add: mergeThresholds_eq case_prod_unfold)
  moreover have "\<lparr>tr_Metric = k, tr_Passed = p\<rparr> \<in> set (mergeThresholds ss) \<longleftrightarrow> map_of ?m k = Some p"
    using d by (force simp: mergeThresholds_eq)
  ultimately show ?thesis using d by (auto simp: fold_thresholds)
qed

end
