(* ===== verification/MetricsProofs.thy ===== *)
theory MetricsProofs
  imports MetricsV2 SummaryProofs
begin

text \<open>
  Theorems about the metrics of a result: that they are well formed whatever the summaries hold, that the
  traffic is split into business and auxiliary requests without a rest, what the state of the artifact
  collection says, and the bounds of the time that is spent on collecting.
\<close>

subsection \<open>Well-formed metrics\<close>

fun sane :: "f64 \<Rightarrow> bool" where
  "sane (Fin r) \<longleftrightarrow> 0 \<le> r"
| "sane _ \<longleftrightarrow> False"

definition sane_latency :: "latency_block \<Rightarrow> bool" where
  "sane_latency b \<longleftrightarrow> list_all sane [lb_AvgMs b, lb_MedMs b, lb_P90Ms b, lb_P95Ms b, lb_P99Ms b, lb_MinMs b, lb_MaxMs b]"

definition sane_metric :: "breakdown_metric \<Rightarrow> bool" where
  "sane_metric b \<longleftrightarrow> list_all sane [bm_AvgMs b, bm_P95Ms b, bm_P99Ms b, bm_MaxMs b]"

definition sane_breakdown :: "breakdown_block \<Rightarrow> bool" where
  "sane_breakdown b \<longleftrightarrow>
    list_all sane_metric [bb_Blocked b, bb_Waiting b, bb_Sending b, bb_Receiving b, bb_Connecting b, bb_TLSHandshaking b]"

definition sane_worker :: "worker_v2 \<Rightarrow> bool" where
  "sane_worker w \<longleftrightarrow> list_all sane [wv_AvgLatencyMs w, wv_P95LatencyMs w, wv_P99LatencyMs w]"

definition flag_keys :: "metrics_v2 \<Rightarrow> string list" where
  "flag_keys v = map qf_Key (v2_QualityFlags v)"

definition wf_v2 :: "metrics_v2 \<Rightarrow> bool" where
  "wf_v2 v \<longleftrightarrow>
    sane_latency (v2_PrimaryLatency v) \<and> (case v2_LatencyBreakdown v of None \<Rightarrow> True | Some b \<Rightarrow> sane_breakdown b) \<and>
    list_all sane_worker (v2_Workers v) \<and> distinct (flag_keys v)"

lemma sane_clamp [simp]: "sane (clampLatencyValue v)"
  by (cases v) (auto simp: clampLatencyValue_def)

lemma sane_blocks [simp]:
  "sane_latency (sanitizedLatencyBlock metric scope st)" "sane_latency (sanitizedLegacyLatencyBlock metric scope legacy)"
  "sane_latency (zero_latency_block metric scope)" "sane_metric (sanitizedBreakdownMetric st)" "sane_breakdown (breakdown_of b)"
  by (simp_all add: sane_latency_def sane_metric_def sane_breakdown_def sanitizedLatencyBlock_def sanitizedLegacyLatencyBlock_def
      zero_latency_block_def sanitizedBreakdownMetric_def breakdown_of_def split: option.split)

lemma sane_workers [simp]: "sane_worker (legacy_worker w)" "sane_worker (worker_v2_of legacy i ws)"
  by (simp_all add: sane_worker_def legacy_worker_def worker_v2_of_def Let_def)

lemma sane_worker_list [simp]: "list_all sane_worker (buildWorkerMetricsV2 s legacy)" "list_all sane_worker (map legacy_worker ws)"
  by (auto simp: buildWorkerMetricsV2_def list_all_iff)

text \<open>A flag replaces the flag of its key or is added.\<close>

lemma upsert_keys:
  "map qf_Key (upsertMetricQuality flags flag) =
    (if qf_Key flag \<in> qf_Key ` set flags then map qf_Key flags else map qf_Key flags @ [qf_Key flag])"
proof (cases "qf_Key flag \<in> qf_Key ` set flags")
  case True
  let ?P = "\<lambda>q. qf_Key q \<noteq> qf_Key flag"
  from True obtain q rest where d: "dropWhile ?P flags = q # rest"
    by (cases "dropWhile ?P flags") auto
  then have k: "qf_Key q = qf_Key flag" using dropWhile_eq_Cons_conv [of ?P flags q rest] by simp
  have "map qf_Key flags = map qf_Key (takeWhile ?P flags) @ map qf_Key (dropWhile ?P flags)"
    by (simp flip: map_append)
  moreover have "list_ex (\<lambda>q. qf_Key q = qf_Key flag) flags" using True by (auto simp: list_ex_iff)
  ultimately show ?thesis using True d k by (simp add: upsertMetricQuality_def)
next
  case False
  then have "\<not> list_ex (\<lambda>q. qf_Key q = qf_Key flag) flags" unfolding list_ex_iff by (metis image_eqI)
  then show ?thesis using False by (simp add: upsertMetricQuality_def)
qed

lemma set_flag_keys: "flag_keys (set_flag key status source scope reason v) = (if key \<in> set (flag_keys v) then flag_keys v else flag_keys v @ [key])"
  by (simp add: flag_keys_def set_flag_def upsert_keys metricQuality_def)

lemma set_flag_fields [simp]:
  "v2_HTTPTotal (set_flag key status source scope reason v) = v2_HTTPTotal v"
  "v2_HTTPBusiness (set_flag key status source scope reason v) = v2_HTTPBusiness v"
  "v2_HTTPAuxiliary (set_flag key status source scope reason v) = v2_HTTPAuxiliary v"
  "v2_PrimaryLatency (set_flag key status source scope reason v) = v2_PrimaryLatency v"
  "v2_LatencyBreakdown (set_flag key status source scope reason v) = v2_LatencyBreakdown v"
  "v2_Workers (set_flag key status source scope reason v) = v2_Workers v"
  "v2_Thresholds (set_flag key status source scope reason v) = v2_Thresholds v"
  by (simp_all add: set_flag_def)

lemma wf_set_flag [simp]: "wf_v2 (set_flag key status source scope reason v) = wf_v2 v"
  by (auto simp: wf_v2_def set_flag_keys)

lemma wf_fields [simp]:
  "wf_v2 (v\<lparr>v2_HTTPTotal := a\<rparr>) = wf_v2 v" "wf_v2 (v\<lparr>v2_HTTPBusiness := a\<rparr>) = wf_v2 v" "wf_v2 (v\<lparr>v2_HTTPAuxiliary := a\<rparr>) = wf_v2 v"
  "wf_v2 (v\<lparr>v2_Iterations := c\<rparr>) = wf_v2 v" "wf_v2 (v\<lparr>v2_Checks := d\<rparr>) = wf_v2 v" "wf_v2 (v\<lparr>v2_Thresholds := t\<rparr>) = wf_v2 v"
  by (simp_all add: wf_v2_def flag_keys_def)

lemma wf_latency [simp]: "wf_v2 v \<Longrightarrow> sane_latency b \<Longrightarrow> wf_v2 (v\<lparr>v2_PrimaryLatency := b\<rparr>)"
  by (simp add: wf_v2_def flag_keys_def)

lemma wf_breakdown [simp]: "wf_v2 v \<Longrightarrow> sane_breakdown b \<Longrightarrow> wf_v2 (v\<lparr>v2_LatencyBreakdown := Some b\<rparr>)"
  by (simp add: wf_v2_def flag_keys_def)

lemma wf_workers [simp]: "wf_v2 v \<Longrightarrow> list_all sane_worker ws \<Longrightarrow> wf_v2 (v\<lparr>v2_Workers := ws\<rparr>)"
  by (simp add: wf_v2_def flag_keys_def)

lemma wf_zero [simp]: "wf_v2 zero_v2"
  by (simp add: wf_v2_def zero_v2_def flag_keys_def)

lemma wf_legacy: "wf_v2 (v2_legacy legacy md zero_v2)" "set (flag_keys (v2_legacy legacy md zero_v2)) \<subseteq> {''http_total''}"
  by (simp_all add: v2_legacy_def set_flag_keys split: option.split) (simp_all add: flag_keys_def zero_v2_def)

lemma wf_summary:
  assumes "wf_v2 v" "''summary_artifact'' \<notin> set (flag_keys v)"
  shows "wf_v2 (snd (v2_summary lib raw v))"
  using assms by (auto simp: v2_summary_def wf_v2_def flag_keys_def metricQuality_def split: sum.split)

lemma wf_steps:
  assumes "wf_v2 v"
  shows "wf_v2 (v2_totals s legacy md v)" "wf_v2 (v2_business s md v)" "wf_v2 (v2_auxiliary merged md v)"
    "wf_v2 (v2_business_fallback legacy md v)" "wf_v2 (v2_latency_fallback legacy v)" "wf_v2 (v2_workers_step legacy v)"
    "wf_v2 (v2_checks_step merged v)" "wf_v2 (v2_artifacts_step md v)"
  using assms
  by (simp_all add: v2_totals_def v2_business_def v2_auxiliary_def v2_business_fallback_def v2_latency_fallback_def v2_workers_step_def
      v2_checks_step_def v2_artifacts_step_def Let_def split: option.split prod.split list.split)

lemma wf_buildMetricsV2:
  assumes "buildMetricsV2 lib legacy raw md = Some v"
  shows "wf_v2 v"
proof -
  obtain merged v0 where s: "v2_summary lib raw (v2_legacy legacy md zero_v2) = (merged, v0)" by fastforce
  have "''summary_artifact'' \<notin> set (flag_keys (v2_legacy legacy md zero_v2))" using wf_legacy(2) by fastforce
  then have v0: "wf_v2 v0" using wf_summary [OF wf_legacy(1), of legacy md lib raw] s by simp
  then have "wf_v2 (case merged of None \<Rightarrow> v0 | Some s \<Rightarrow> v2_business s md (v2_totals s legacy md v0))"
    by (simp add: wf_steps split: option.split)
  then show ?thesis using assms s by (auto simp: buildMetricsV2_def wf_steps split: if_splits)
qed

text \<open>
  The metrics of a result are well formed whatever the live snapshot and the summaries hold: every latency that is
  shown (the primary block, the breakdown and the workers) is a number, finite and not negative, and no two quality
  flags describe the same part.
\<close>

theorem metrics_v2_well_formed:
  assumes "buildMetricsV2 lib legacy raw md = Some v"
  shows "wf_v2 v"
  using assms by (rule wf_buildMetricsV2)

definition demo_snapshot_metrics :: aggregated_metrics where
  "demo_snapshot_metrics = zero_aggregated_metrics\<lparr>am_AvgLatency := NaN, am_P95Latency := PInf, am_MinLatency := Fin (-1)\<rparr>"

theorem metrics_v2_well_formed_witness:
  "\<exists>v. buildMetricsV2 demo_summary_lib (Some demo_snapshot_metrics) [] None = Some v \<and> wf_v2 v"
proof -
  obtain v where "buildMetricsV2 demo_summary_lib (Some demo_snapshot_metrics) [] None = Some v"
    by (simp add: buildMetricsV2_def v2_summary_def)
  then show ?thesis using metrics_v2_well_formed by blast
qed

subsection \<open>Shares of the traffic\<close>

lemma count_difference:
  assumes "0 \<le> b" "b \<le> t" "t \<le> 2 ^ 53"
  shows "max0 (fsub (Fin (of_int t)) (Fin (of_int b))) = Fin (of_int (t - b))"
proof -
  have "fsub (Fin (of_int t)) (Fin (of_int b)) = mk_f64 (of_int (t - b))" by (simp add: fsub_def)
  also have "\<dots> = Fin (of_int (t - b))" using assms by (intro mk_f64_int) simp
  finally show ?thesis using assms by (simp add: max0_def)
qed

lemma v2_step_totals [simp]:
  "v2_HTTPTotal (v2_business s md v) = v2_HTTPTotal v" "v2_HTTPTotal (v2_auxiliary merged md v) = v2_HTTPTotal v"
  "v2_HTTPTotal (v2_latency_fallback legacy v) = v2_HTTPTotal v" "v2_HTTPTotal (v2_workers_step legacy v) = v2_HTTPTotal v"
  "v2_HTTPTotal (v2_checks_step merged v) = v2_HTTPTotal v" "v2_HTTPTotal (v2_artifacts_step md v) = v2_HTTPTotal v"
  "v2_HTTPTotal (v2_business_fallback legacy md v) = v2_HTTPTotal v"
  by (simp_all add: v2_business_def v2_auxiliary_def v2_business_fallback_def v2_latency_fallback_def v2_workers_step_def
      v2_checks_step_def v2_artifacts_step_def Let_def split: option.split prod.split list.split)

lemma v2_late_steps [simp]:
  "v2_HTTPBusiness (v2_latency_fallback legacy v) = v2_HTTPBusiness v" "v2_HTTPBusiness (v2_workers_step legacy v) = v2_HTTPBusiness v"
  "v2_HTTPBusiness (v2_checks_step merged v) = v2_HTTPBusiness v" "v2_HTTPBusiness (v2_artifacts_step md v) = v2_HTTPBusiness v"
  "v2_HTTPBusiness (v2_auxiliary merged md v) = v2_HTTPBusiness v" "v2_HTTPBusiness (v2_totals s legacy md v) = v2_HTTPBusiness v"
  "v2_HTTPAuxiliary (v2_latency_fallback legacy v) = v2_HTTPAuxiliary v" "v2_HTTPAuxiliary (v2_workers_step legacy v) = v2_HTTPAuxiliary v"
  "v2_HTTPAuxiliary (v2_checks_step merged v) = v2_HTTPAuxiliary v" "v2_HTTPAuxiliary (v2_artifacts_step md v) = v2_HTTPAuxiliary v"
  "v2_HTTPAuxiliary (v2_business_fallback legacy md v) = v2_HTTPAuxiliary v" "v2_HTTPAuxiliary (v2_totals s legacy md v) = v2_HTTPAuxiliary v"
  "v2_HTTPAuxiliary (v2_business s md v) = v2_HTTPAuxiliary v" "v2_HTTPAuxiliary (v2_legacy legacy md v) = v2_HTTPAuxiliary v"
  by (simp_all add: v2_legacy_def v2_totals_def v2_business_def v2_auxiliary_def v2_business_fallback_def v2_latency_fallback_def
      v2_workers_step_def v2_checks_step_def v2_artifacts_step_def Let_def split: option.split prod.split list.split)

lemma v2_fallback_unused: "\<not> feq (hb_Requests (v2_HTTPBusiness v)) f0 \<Longrightarrow> v2_business_fallback legacy md v = v"
  by (simp add: v2_business_fallback_def)

lemma v2_totals_counts [simp]:
  "hb_Requests (v2_HTTPTotal (v2_totals s legacy md v)) = mg_TotalRequests s"
  "hb_Failures (v2_HTTPTotal (v2_totals s legacy md v)) = mg_TotalFailures s"
  by (simp_all add: v2_totals_def Let_def split: prod.split)

lemma v2_business_counts:
  assumes "flt f0 (mg_BusinessRequests s)"
  shows "hb_Requests (v2_HTTPBusiness (v2_business s md v)) = mg_BusinessRequests s"
    "hb_Failures (v2_HTTPBusiness (v2_business s md v)) = mg_BusinessFailures s"
  using assms by (simp_all add: v2_business_def Let_def split: prod.split option.split)

lemma http_rest_counts:
  "hb_Requests (http_rest tot part md) = max0 (fsub (hb_Requests tot) (hb_Requests part))"
  "hb_Failures (http_rest tot part md) = max0 (fsub (hb_Failures tot) (hb_Failures part))"
  by (simp_all add: http_rest_def Let_def split: prod.split)

lemma v2_auxiliary_counts:
  assumes "mg_HasBusinessMetrics s" "v2_HTTPAuxiliary v = zero_http"
    "max0 (fsub (hb_Requests (v2_HTTPTotal v)) (hb_Requests (v2_HTTPBusiness v))) = Fin r" "0 \<le> r"
    "max0 (fsub (hb_Failures (v2_HTTPTotal v)) (hb_Failures (v2_HTTPBusiness v))) = Fin f" "0 \<le> f"
  shows "hb_Requests (v2_HTTPAuxiliary (v2_auxiliary (Some s) md v)) = Fin r \<and> hb_Failures (v2_HTTPAuxiliary (v2_auxiliary (Some s) md v)) = Fin f"
  using assms
  by (auto simp: v2_auxiliary_def derivedAuxiliaryHTTPMetrics_def Let_def http_rest_counts zero_http_def fle_def)

text \<open>
  When the summaries count business requests, the requests and the failures of a run are split without a rest: those shown
  as business traffic and those shown as auxiliary traffic are the exact parts of the total, for every number of
  requests that a float represents exactly, whatever the live snapshot said.
\<close>

theorem traffic_is_split_exactly:
  assumes "ParseRawSummaryContent lib raw = Inr s" "raw \<noteq> []" "mg_HasBusinessMetrics s"
    "mg_TotalRequests s = Fin (of_int t)" "mg_BusinessRequests s = Fin (of_int b)" "0 < b" "b \<le> t" "t \<le> 2 ^ 53"
    "mg_TotalFailures s = Fin (of_int tf)" "mg_BusinessFailures s = Fin (of_int bf)" "0 \<le> bf" "bf \<le> tf" "tf \<le> 2 ^ 53"
  shows "\<exists>v. buildMetricsV2 lib legacy raw md = Some v \<and>
    hb_Requests (v2_HTTPTotal v) = Fin (of_int t) \<and> hb_Requests (v2_HTTPBusiness v) = Fin (of_int b) \<and>
    hb_Requests (v2_HTTPAuxiliary v) = Fin (of_int (t - b)) \<and> hb_Failures (v2_HTTPTotal v) = Fin (of_int tf) \<and>
    hb_Failures (v2_HTTPBusiness v) = Fin (of_int bf) \<and> hb_Failures (v2_HTTPAuxiliary v) = Fin (of_int (tf - bf))"
proof -
  let ?v0 = "v2_legacy legacy md zero_v2"
  let ?v1 = "v2_business s md (v2_totals s legacy md ?v0)"
  let ?v2 = "v2_auxiliary (Some s) md ?v1"
  have pos: "flt f0 (mg_BusinessRequests s)" using assms(5,6) by simp
  have aux: "hb_Requests (v2_HTTPAuxiliary ?v2) = Fin (of_int (t - b)) \<and> hb_Failures (v2_HTTPAuxiliary ?v2) = Fin (of_int (tf - bf))"
    using assms count_difference [of b t] count_difference [of bf tf]
    by (intro v2_auxiliary_counts) (simp_all add: v2_business_counts [OF pos] zero_v2_def)
  have "v2_summary lib raw ?v0 = (Some s, ?v0)" using assms(1,2) by (simp add: v2_summary_def)
  moreover have "v2_business_fallback legacy md ?v2 = ?v2"
    using assms(5,6) by (intro v2_fallback_unused) (simp add: v2_business_counts [OF pos])
  ultimately show ?thesis using assms aux by (simp add: buildMetricsV2_def v2_business_counts [OF pos])
qed

definition demo_traffic_lib :: json_lib where
  "demo_traffic_lib = demo_summary_lib\<lparr>jl_unmarshal := (\<lambda>t. if t = ''{}'' then Inr (JObj [(''metrics'', JObj
    [(''http_reqs'', JObj [(''values'', JObj [(''count'', JNum (Fin 10))])]),
     (''business_http_requests_total'', JObj [(''values'', JObj [(''count'', JNum (Fin 7))])])])]) else Inl ''invalid'')\<rparr>"

abbreviation demo_text :: string where
  "demo_text \<equiv> BuildRawSummary demo_snapshot ArtifactSummary"

lemma demo_traffic_parses:
  "\<exists>s. ParseRawSummaryContent demo_traffic_lib demo_text = Inr s \<and> mg_HasBusinessMetrics s \<and> mg_TotalRequests s = Fin 20 \<and>
     mg_BusinessRequests s = Fin 14 \<and> mg_TotalFailures s = Fin 0 \<and> mg_BusinessFailures s = Fin 0"
proof -
  let ?metric = "\<lambda>n. \<lparr>sm_Type = [], sm_Contains = [], sm_Values = [(''count'', Fin n)], sm_Thresholds = []\<rparr>"
  let ?d = "\<lparr>ks_Metrics = [(''http_reqs'', ?metric 10), (''business_http_requests_total'', ?metric 7)], ks_TestRunDurationMs = f0\<rparr>"
  have lower: "to_lower ''values'' = ''values''" "to_lower ''metrics'' = ''metrics''" by code_simp+
  have "unmarshal_summary demo_traffic_lib ''{}'' = Some ?d"
    by (simp add: lower unmarshal_summary_def demo_traffic_lib_def dec_summary_def dec_metric_def field_def)
  then have p: "ParseRawSummaryContent demo_traffic_lib demo_text = mergeSummaryMetrics [(''w2'', ?d), (''w1'', ?d)]"
    using parse_built_summary [OF demo_contents(2), of demo_traffic_lib] by (simp add: demo_contents(1) decoded_def)
  show ?thesis
    by (simp add: p mergeSummaryMetrics_def add_summary_def init_merged_def Let_def count_of_def metric_of_def metricValue_def zero_metric_def
        summaryHasBusinessMetrics_def business_keys_def normalizeRoundedCount_def fle_def split: prod.split bool.split)
qed

theorem traffic_is_split_exactly_witness:
  "\<exists>v. buildMetricsV2 demo_traffic_lib None demo_text None = Some v \<and> hb_Requests (v2_HTTPTotal v) = Fin 20 \<and>
     hb_Requests (v2_HTTPBusiness v) = Fin 14 \<and> hb_Requests (v2_HTTPAuxiliary v) = Fin 6"
proof -
  obtain s where s: "ParseRawSummaryContent demo_traffic_lib demo_text = Inr s" "mg_HasBusinessMetrics s" "mg_TotalRequests s = Fin 20"
    "mg_BusinessRequests s = Fin 14" "mg_TotalFailures s = Fin 0" "mg_BusinessFailures s = Fin 0"
    using demo_traffic_parses by blast
  then have "demo_text \<noteq> []" by (auto simp: ParseRawSummaryContent_def)
  then show ?thesis using s traffic_is_split_exactly [of demo_traffic_lib demo_text s 20 14 0 0 None None] by auto
qed

subsection \<open>Collecting artifacts\<close>

text \<open>
  The time that is spent on collecting the artifacts of a run is bounded: the window is between 10 and 90 seconds, however
  long the run was, and the first phase ends before the second, which keeps at least five seconds for late uploads.
\<close>

theorem collection_window_bounds:
  "10 * second \<le> artifactCollectionGraceWindow md \<and> artifactCollectionGraceWindow md \<le> 90 * second \<and>
   (case artifactCollectionDeadlines now (artifactCollectionGraceWindow md) (5 * second) reserve of
      (initial, final) \<Rightarrow> now + 5 * second \<le> initial \<and> final = now + artifactCollectionGraceWindow md \<and>
        initial = (if reserve then final - 5 * second else final))"
proof -
  have "10 * second \<le> artifactCollectionGraceWindow md" "artifactCollectionGraceWindow md \<le> 90 * second"
    by (auto simp: artifactCollectionGraceWindow_def Let_def split: option.split)
  then show ?thesis by (auto simp: artifactCollectionDeadlines_def Let_def)
qed


end
