(* ===== verification/LoadTests.thy ===== *)
theory LoadTests
  imports Tables Templates MetricsV2
begin

text \<open>
  Load tests: the table \<^verbatim>\<open>load_tests\<close> of \<^verbatim>\<open>controller/internal/store/store.go\<close>, the type \<^verbatim>\<open>LoadTest\<close> and the result of a
  test (\<^verbatim>\<open>TestResult\<close>) of \<^verbatim>\<open>controller/internal/model/model.go\<close>.

  A row is kept as the load test that \<^verbatim>\<open>scanLoadTest\<close> reads from it. The column \<^verbatim>\<open>result_json\<close> holds a JSON document or NULL.
  The conversion of a result to its document and back is that of \<^verbatim>\<open>encoding/json\<close> for the type \<^verbatim>\<open>TestResult\<close>, through a JSON
  column of the database: the parameter \<open>result_codec\<close>. Converting to JSON fails for a result with an infinite number
  or a NaN. \<open>like\<close> is the operator \<^verbatim>\<open>LIKE\<close> of the database under its collation. The foreign key of the owner is one of the
  reasons for which a statement can fail.
\<close>

subsection \<open>Data\<close>

record load_test =
  lt_ID :: string
  lt_ProjectName :: string
  lt_URL :: string
  lt_Status :: string
  lt_ResultJSON :: "string option"
  lt_Executor :: string
  lt_Stages :: "stage list"
  lt_VUs :: int
  lt_Duration :: string
  lt_Rate :: int
  lt_TimeUnit :: string
  lt_PreAllocatedVUs :: int
  lt_MaxVUs :: int
  lt_SleepSeconds :: "f64 option"
  lt_ScriptContent :: string
  lt_ConfigContent :: string
  lt_PayloadSourceJSON :: string
  lt_PayloadContent :: string
  lt_HTTPMethod :: string
  lt_ContentType :: string
  lt_AuthConfig :: auth_config
  lt_UserID :: int
  lt_Username :: string
  lt_CreatedAt :: time

record test_result =
  rs_ID :: string
  rs_ProjectName :: string
  rs_URL :: string
  rs_Status :: string
  rs_Metrics :: "aggregated_metrics option"
  rs_MetricsV2 :: "metrics_v2 option"
  rs_TimeSeries :: "time_point list"
  rs_Metadata :: "test_metadata option"
  rs_Warnings :: "conflict_warning list"
  rs_SummaryContent :: string
  rs_AuthSummaryContent :: string
  rs_CreatedAt :: time
  rs_Username :: string

record result_codec =
  rc_marshal :: "test_result \<Rightarrow> string res"
  rc_unmarshal :: "string \<Rightarrow> test_result res"

definition zero_load_test :: load_test where
  "zero_load_test = \<lparr>lt_ID = [], lt_ProjectName = [], lt_URL = [], lt_Status = [], lt_ResultJSON = None, lt_Executor = [], lt_Stages = [], lt_VUs = 0,
    lt_Duration = [], lt_Rate = 0, lt_TimeUnit = [], lt_PreAllocatedVUs = 0, lt_MaxVUs = 0, lt_SleepSeconds = None, lt_ScriptContent = [],
    lt_ConfigContent = [], lt_PayloadSourceJSON = [], lt_PayloadContent = [], lt_HTTPMethod = [], lt_ContentType = [],
    lt_AuthConfig = zero_auth_config, lt_UserID = 0, lt_Username = [], lt_CreatedAt = zero_time\<rparr>"

definition result_text :: "load_test \<Rightarrow> string" where
  "result_text lt = (case lt_ResultJSON lt of None \<Rightarrow> [] | Some s \<Rightarrow> s)"

subsection \<open>The table\<close>

text \<open>What is read back of a new row. The encrypted client secret is not stored with a load test.\<close>

definition scanLoadTest :: "load_test \<Rightarrow> load_test" where
  "scanLoadTest lt =
    (let cfg = lt_AuthConfig lt
     in lt\<lparr>lt_ResultJSON := None, lt_HTTPMethod := defaultHTTPMethod (lt_HTTPMethod lt), lt_ContentType := defaultContentType (lt_ContentType lt),
          lt_AuthConfig :=
            applyAuthConfig (zero_auth_config\<lparr>ac_Enabled := ac_Enabled cfg\<rparr>) (ac_Enabled cfg) (nullString (ac_Mode cfg)) (nullString (ac_TokenURL cfg))
              (nullString (ac_ClientID cfg)) None (defaultAuthClientAuthMethod (ac_ClientAuthMethod cfg))
              (defaultAuthRefreshSkewSeconds (ac_RefreshSkewSeconds cfg)) (nullString (ac_SecretSource cfg)) (authConfigured cfg)\<rparr>)"

definition CreateLoadTest :: "store_env \<Rightarrow> load_test \<Rightarrow> load_test table \<Rightarrow> unit res \<times> load_test table" where
  "CreateLoadTest env lt =
    stmt_insert env ''create load test'' (\<lambda>r. lt_ID r = lt_ID lt) ((scanLoadTest lt)\<lparr>lt_CreatedAt := truncate_second (se_now env)\<rparr>)"

definition UpdateLoadTestResult :: "store_env \<Rightarrow> string \<Rightarrow> string \<Rightarrow> string option \<Rightarrow> load_test table \<Rightarrow> unit res \<times> load_test table" where
  "UpdateLoadTestResult env i status resultJSON =
    stmt_update env ''update load test'' (\<lambda>r. lt_ID r = i) (\<lambda>r. r\<lparr>lt_Status := status, lt_ResultJSON := resultJSON\<rparr>)"

definition UpdateLoadTestPayloadContent :: "store_env \<Rightarrow> string \<Rightarrow> string \<Rightarrow> load_test table \<Rightarrow> unit res \<times> load_test table" where
  "UpdateLoadTestPayloadContent env i payloadContent =
    stmt_update env ''update load test payload'' (\<lambda>r. lt_ID r = i) (\<lambda>r. r\<lparr>lt_PayloadContent := payloadContent\<rparr>)"

definition GetLoadTest :: "store_env \<Rightarrow> string \<Rightarrow> load_test table \<Rightarrow> load_test option res \<times> load_test table" where
  "GetLoadTest env i = stmt_query env ''get load test'' (find (\<lambda>r. lt_ID r = i))"

definition scanLoadTestSummary :: "load_test \<Rightarrow> load_test" where
  "scanLoadTestSummary lt =
    zero_load_test\<lparr>lt_ID := lt_ID lt, lt_ProjectName := lt_ProjectName lt, lt_URL := lt_URL lt, lt_Status := lt_Status lt, lt_ResultJSON := lt_ResultJSON lt,
      lt_UserID := lt_UserID lt, lt_Username := lt_Username lt, lt_CreatedAt := lt_CreatedAt lt\<rparr>"

text \<open>The condition of the two queries for a list.\<close>

definition buildLoadTestListQueries :: "(string \<Rightarrow> string \<Rightarrow> bool) \<Rightarrow> int \<Rightarrow> string \<Rightarrow> string \<Rightarrow> load_test \<Rightarrow> bool" where
  "buildLoadTestListQueries like uid role search lt \<longleftrightarrow>
    (role = ''admin'' \<or> lt_UserID lt = uid) \<and>
    (search = [] \<or> like (''%'' @ search @ ''%'') (lt_ProjectName lt) \<or> like (''%'' @ search @ ''%'') (lt_URL lt))"

definition ListLoadTests ::
  "(string \<Rightarrow> string \<Rightarrow> bool) \<Rightarrow> store_env \<Rightarrow> int \<Rightarrow> string \<Rightarrow> nat \<Rightarrow> nat \<Rightarrow> string \<Rightarrow> load_test table \<Rightarrow>
   (load_test list \<times> nat) res \<times> load_test table" where
  "ListLoadTests like env uid role limit offset search tab =
    (let wh = buildLoadTestListQueries like uid role search
     in case stmt_query env ''count load tests'' (\<lambda>rs. length (filter wh rs)) tab of
          (Inl e, tab1) \<Rightarrow> (Inl e, tab1)
        | (Inr tot, tab1) \<Rightarrow>
           (case stmt_query env ''list load tests''
                   (\<lambda>rs. map scanLoadTestSummary (take limit (drop offset (sort_key (\<lambda>r. - lt_CreatedAt r) (filter wh rs))))) tab1 of
              (Inl e, tab2) \<Rightarrow> (Inl e, tab2)
            | (Inr lts, tab2) \<Rightarrow> (Inr (lts, tot), tab2)))"

text \<open>\<^verbatim>\<open>ResetData\<close> returns the error of the statement as it is.\<close>

definition ResetData :: "store_env \<Rightarrow> load_test table \<Rightarrow> unit res \<times> load_test table" where
  "ResetData env tab =
    (case tab of (rs, n) \<Rightarrow> (case se_fault env n of Some e \<Rightarrow> (Inl e, (rs, Suc n)) | None \<Rightarrow> (Inr (), ([], Suc n))))"

definition is_stale :: "load_test \<Rightarrow> bool" where
  "is_stale lt \<longleftrightarrow> lt_Status lt = ''running'' \<or> lt_Status lt = ''pending''"

definition MarkStaleRunningTests :: "store_env \<Rightarrow> load_test table \<Rightarrow> nat res \<times> load_test table" where
  "MarkStaleRunningTests env =
    stmt env ''mark stale tests'' (\<lambda>rs. (Inr (length (filter is_stale rs)), map (\<lambda>r. if is_stale r then r\<lparr>lt_Status := ''aborted''\<rparr> else r) rs))"

subsection \<open>Statements and rows\<close>

definition row_of_test :: "string \<Rightarrow> load_test table \<Rightarrow> load_test option" where
  "row_of_test i tab = find (\<lambda>r. lt_ID r = i) (fst tab)"

definition wf_tests :: "load_test table \<Rightarrow> bool" where
  "wf_tests tab \<longleftrightarrow> distinct (map lt_ID (fst tab))"

lemma find_map_key:
  assumes "\<And>r. k (f r) = k r"
  shows "find (\<lambda>r. k r = i) (map (\<lambda>r. if k r = j then f r else r) rs) =
    (if i = j then map_option f (find (\<lambda>r. k r = i) rs) else find (\<lambda>r. k r = i) rs)"
  using assms by (induction rs) auto

lemma row_of_GetLoadTest:
  "fst (GetLoadTest env i (rs, n)) = (case se_fault env n of Some e \<Rightarrow> Inl (''get load test: '' @ e) | None \<Rightarrow> Inr (row_of_test i (rs, n)))"
  "snd (GetLoadTest env i (rs, n)) = (rs, Suc n)"
  by (simp_all add: GetLoadTest_def stmt_query_eq row_of_test_def split: option.split)

text \<open>What an update of one test leaves.\<close>

definition set_test :: "string \<Rightarrow> (load_test \<Rightarrow> load_test) \<Rightarrow> load_test table \<Rightarrow> load_test table" where
  "set_test i f tab = (map (\<lambda>r. if lt_ID r = i then f r else r) (fst tab), Suc (snd tab))"

lemma row_of_set_test:
  "(\<And>r. lt_ID (f r) = lt_ID r) \<Longrightarrow>
   row_of_test j (set_test i f tab) = (if j = i then map_option f (row_of_test j tab) else row_of_test j tab)"
  using find_map_key [of lt_ID f j i "fst tab"] by (simp add: row_of_test_def set_test_def)

lemma snd_set_test [simp]: "snd (set_test i f tab) = Suc (snd tab)"
  by (simp add: set_test_def)

lemma update_ok:
  assumes "se_fault env (snd tab) = None"
  shows "UpdateLoadTestResult env i status res tab = (Inr (), set_test i (\<lambda>r. r\<lparr>lt_Status := status, lt_ResultJSON := res\<rparr>) tab)"
    "UpdateLoadTestPayloadContent env i p tab = (Inr (), set_test i (\<lambda>r. r\<lparr>lt_PayloadContent := p\<rparr>) tab)"
  using assms
  by (cases tab; simp add: UpdateLoadTestResult_def UpdateLoadTestPayloadContent_def stmt_update_def stmt_def set_test_def)+

end
