(* ===== verification/Enrichment.thy ===== *)
theory Enrichment
  imports LoadTests Registry
begin

text \<open>
  How the artifacts that the workers upload get into the result of a run: \<^verbatim>\<open>summaryCollectionFromRaw\<close> and
  \<^verbatim>\<open>applySummaryPercentiles\<close> of \<^verbatim>\<open>controller/internal/handler/test.go\<close>, \<^verbatim>\<open>controller/internal/handler/artifact_enrichment.go\<close> and the
  upload handler \<^verbatim>\<open>controller/internal/handler/artifacts.go\<close>.

  The Go functions get the result by value, but share its metrics and its metadata through pointers and change
  them in place. Here they return the changed result. A comparison of a pointer with itself after such a change is
  always equal: \<^verbatim>\<open>before := result.Metadata.Payload\<close> followed by \<^verbatim>\<open>refreshPayloadMetadata\<close> never sees a change, and so for
  the authentication.
\<close>

subsection \<open>Summaries\<close>

record summary_collection =
  sc_Raw :: string
  sc_Loaded :: bool
  sc_ArtifactCollection :: artifact_collection

definition applySummaryPercentiles :: "f64 \<Rightarrow> f64 \<Rightarrow> f64 \<Rightarrow> aggregated_metrics \<Rightarrow> aggregated_metrics" where
  "applySummaryPercentiles p90 p95 p99 m =
    m\<lparr>am_P99Latency := p99, am_P90Latency := (if flt f0 p90 then p90 else am_P90Latency m),
      am_P95Latency := (if flt f0 p95 then p95 else am_P95Latency m)\<rparr>"

definition no_collection :: "string list \<Rightarrow> summary_collection" where
  "no_collection expectedWorkers =
    \<lparr>sc_Raw = [], sc_Loaded = False, sc_ArtifactCollection = classifyArtifactCollection expectedWorkers None\<rparr>"

text \<open>The collection, the error, and the live metrics with the percentiles of the summaries.\<close>

definition summaryCollectionFromRaw ::
  "json_lib \<Rightarrow> string list \<Rightarrow> string \<Rightarrow> aggregated_metrics option \<Rightarrow> summary_collection \<times> string option \<times> aggregated_metrics option" where
  "summaryCollectionFromRaw lib expectedWorkers raw finalMetrics =
    (if trim_space raw = [] then (no_collection expectedWorkers, Some ''empty raw summary content'', finalMetrics)
     else (case ParseRawSummaryContent lib raw of
             Inl e \<Rightarrow> (no_collection expectedWorkers, Some e, finalMetrics)
           | Inr m \<Rightarrow>
              (\<lparr>sc_Raw = raw, sc_Loaded = True, sc_ArtifactCollection = classifyArtifactCollection expectedWorkers (Some m)\<rparr>, None,
               map_option (applySummaryPercentiles (ls_P90 (mg_TotalLatency m)) (ls_P95 (mg_TotalLatency m)) (ls_P99 (mg_TotalLatency m))) finalMetrics)))"

subsection \<open>Merging into a result\<close>

definition set_collection :: "artifact_collection \<Rightarrow> test_result \<times> bool \<Rightarrow> test_result \<times> bool" where
  "set_collection c rc =
    (case rc of (r, changed) \<Rightarrow>
      (case rs_Metadata r of
         None \<Rightarrow> (r, changed)
       | Some md \<Rightarrow> if md_ArtifactCollection md = Some c then (r, changed) else (r\<lparr>rs_Metadata := Some (md\<lparr>md_ArtifactCollection := Some c\<rparr>)\<rparr>, True)))"

definition merge_summary :: "json_lib \<Rightarrow> snapshot \<Rightarrow> test_result \<Rightarrow> test_result \<times> bool" where
  "merge_summary lib sn r =
    (let raw = BuildRawSummary sn ArtifactSummary
     in if trim_space raw \<noteq> []
        then (case summaryCollectionFromRaw lib (sn_ExpectedWorkers sn) raw (rs_Metrics r) of
                (c, Some e, metrics) \<Rightarrow> (r, False)
              | (c, None, metrics) \<Rightarrow>
                 set_collection (sc_ArtifactCollection c) (r\<lparr>rs_Metrics := metrics, rs_SummaryContent := sc_Raw c\<rparr>, rs_SummaryContent r \<noteq> sc_Raw c))
        else set_collection (classifyArtifactCollection (sn_ExpectedWorkers sn) None) (r, False))"

definition merge_payload :: "string \<Rightarrow> test_result \<Rightarrow> test_result" where
  "merge_payload payloadContent r =
    (if payloadContent = [] then r else r\<lparr>rs_Metadata := map_option (\<lambda>md. refreshPayloadMetadata md payloadContent) (rs_Metadata r)\<rparr>)"

definition merge_auth :: "json_lib \<Rightarrow> url_lib \<Rightarrow> snapshot \<Rightarrow> test_result \<times> bool \<Rightarrow> test_result \<times> bool" where
  "merge_auth lib ul sn rc =
    (case rc of (r, changed) \<Rightarrow>
      (let raw = BuildRawSummary sn ArtifactAuthSummary
       in if trim_space raw = [] then (r, changed)
          else (case ParseRawAuthSummaryContent lib raw of
                  Inl e \<Rightarrow> (r, changed)
                | Inr s \<Rightarrow>
                   (r\<lparr>rs_AuthSummaryContent := raw, rs_Metadata := map_option (\<lambda>md. applyAuthSummaryToMetadata ul md s) (rs_Metadata r)\<rparr>,
                    changed \<or> rs_AuthSummaryContent r \<noteq> raw))))"

definition payload_of :: "snapshot \<Rightarrow> string \<Rightarrow> string" where
  "payload_of sn payloadFallback =
    (let p = trim_space (FirstArtifactContent sn ArtifactPayload) in if p = [] then trim_space payloadFallback else p)"

definition mergeResultArtifacts :: "json_lib \<Rightarrow> url_lib \<Rightarrow> test_result \<Rightarrow> snapshot \<Rightarrow> string \<Rightarrow> test_result \<times> string \<times> bool" where
  "mergeResultArtifacts lib ul result sn payloadFallback =
    (let payloadContent = payload_of sn payloadFallback;
         r0 = result\<lparr>rs_Metadata := Some (case rs_Metadata result of None \<Rightarrow> zero_metadata | Some md \<Rightarrow> md)\<rparr>;
         (r1, c1) = merge_summary lib sn r0;
         (r2, c2) = merge_auth lib ul sn (merge_payload payloadContent r1, c1);
         r3 = (if c2 then r2\<lparr>rs_MetricsV2 := buildMetricsV2 lib (rs_Metrics r2) (rs_SummaryContent r2) (rs_Metadata r2)\<rparr> else r2)
     in (r3, payloadContent, c2))"

definition mergeRegistryArtifactsIntoResult ::
  "json_lib \<Rightarrow> url_lib \<Rightarrow> time \<Rightarrow> test_result \<Rightarrow> string \<Rightarrow> string \<Rightarrow> registry \<Rightarrow> (test_result \<times> string \<times> bool) \<times> registry" where
  "mergeRegistryArtifactsIntoResult lib ul now result testID payloadFallback reg =
    (case Snapshot_run now testID reg of
       (None, reg1) \<Rightarrow> ((result, trim_space payloadFallback, False), reg1)
     | (Some sn, reg1) \<Rightarrow> (mergeResultArtifacts lib ul result sn payloadFallback, reg1))"

subsection \<open>Late artifacts\<close>

definition enrich_row ::
  "json_lib \<Rightarrow> url_lib \<Rightarrow> result_codec \<Rightarrow> store_env \<Rightarrow> string \<Rightarrow> snapshot \<Rightarrow> load_test \<Rightarrow> load_test table \<Rightarrow> unit res \<times> load_test table" where
  "enrich_row lib ul rc env testID sn lt tab =
    (if lt_Status lt \<noteq> ''completed'' \<or> result_text lt = [] then (Inr (), tab)
     else (case rc_unmarshal rc (result_text lt) of
             Inl e \<Rightarrow> (Inl e, tab)
           | Inr result \<Rightarrow>
              (case mergeResultArtifacts lib ul result sn (lt_PayloadContent lt) of
                 (enriched, payloadContent, changed) \<Rightarrow>
                   if \<not> changed then (Inr (), tab)
                   else (case rc_marshal rc enriched of
                           Inl e \<Rightarrow> (Inl e, tab)
                         | Inr text \<Rightarrow>
                            (case (if payloadContent \<noteq> [] \<and> payloadContent \<noteq> lt_PayloadContent lt
                                   then UpdateLoadTestPayloadContent env testID payloadContent tab else (Inr (), tab)) of
                               (Inl e, tab1) \<Rightarrow> (Inl e, tab1)
                             | (Inr _, tab1) \<Rightarrow> UpdateLoadTestResult env testID (lt_Status lt) (Some text) tab1)))))"

definition enrichCompletedResultFromRegistry ::
  "json_lib \<Rightarrow> url_lib \<Rightarrow> result_codec \<Rightarrow> store_env \<Rightarrow> string \<Rightarrow> registry \<times> load_test table \<Rightarrow> unit res \<times> registry \<times> load_test table" where
  "enrichCompletedResultFromRegistry lib ul rc env testID s =
    (case s of (reg, tab) \<Rightarrow>
      (case Snapshot_run (se_now env) testID reg of
         (None, reg1) \<Rightarrow> (Inr (), reg1, tab)
       | (Some sn, reg1) \<Rightarrow>
          (case GetLoadTest env testID tab of
             (Inl e, tab1) \<Rightarrow> (Inl e, reg1, tab1)
           | (Inr None, tab1) \<Rightarrow> (Inr (), reg1, tab1)
           | (Inr (Some lt), tab1) \<Rightarrow> (case enrich_row lib ul rc env testID sn lt tab1 of (r, tab2) \<Rightarrow> (r, reg1, tab2)))))"

text \<open>
  The handler of an upload. \<open>None\<close> as a body is one that cannot be read or is longer than 4 MB. The error of the registry
  is told apart by its text. A failed enrichment is only logged.
\<close>

record artifact_upload =
  up_TestID :: string
  up_WorkerID :: string
  up_ArtifactType :: string
  up_Token :: string
  up_ContentType :: string
  up_Body :: "string option"

definition accepted_response :: "artifact_upload \<Rightarrow> (string \<times> string) list" where
  "accepted_response u = [(''status'', ''accepted''), (''test_id'', up_TestID u), (''worker_id'', trim_space (up_WorkerID u)),
    (''artifact_type'', trim_space (up_ArtifactType u))]"

definition UploadArtifact ::
  "json_lib \<Rightarrow> url_lib \<Rightarrow> result_codec \<Rightarrow> auth_decoder \<Rightarrow> store_env \<Rightarrow> artifact_upload \<Rightarrow> registry \<times> load_test table \<Rightarrow>
   (string \<times> string) list response \<times> registry \<times> load_test table" where
  "UploadArtifact lib ul rc decode env u s =
    (case s of (reg, tab) \<Rightarrow>
      (case up_Body u of
         None \<Rightarrow> (HttpError ''invalid artifact upload body'' 400, reg, tab)
       | Some body \<Rightarrow>
          (case StoreArtifact decode (se_now env) (up_TestID u) (trim_space (up_WorkerID u)) (trim_space (up_Token u))
                  (trim_space (up_ArtifactType u)) (up_ContentType u) body reg of
             (Inl e, reg1) \<Rightarrow>
               ((if e = ''unknown run'' then HttpError ''unknown test run'' 404
                 else if e = ''unauthorized artifact upload'' then HttpError ''unauthorized artifact upload'' 403
                 else HttpError e 400), reg1, tab)
           | (Inr _, reg1) \<Rightarrow>
              (case enrichCompletedResultFromRegistry lib ul rc env (up_TestID u) (reg1, tab) of
                 (_, reg2, tab2) \<Rightarrow> (HttpJson 202 (accepted_response u), reg2, tab2)))))"

end
