(* ===== verification/EnrichmentProofs.thy ===== *)
theory EnrichmentProofs
  imports Enrichment SummaryProofs
begin

text \<open>
  Theorems about the merging of uploaded artifacts into results: merging again changes nothing, what a merge keeps, when
  the collection is complete, that a late summary reaches the stored result, and that a late payload does not.
\<close>

subsection \<open>Merging again\<close>

lemma percentiles_idem [simp]: "applySummaryPercentiles a b c (applySummaryPercentiles a b c m) = applySummaryPercentiles a b c m"
  by (simp add: applySummaryPercentiles_def)

lemma refresh_idem [simp]: "refreshPayloadMetadata (refreshPayloadMetadata md p) p = refreshPayloadMetadata md p"
  by (simp add: refreshPayloadMetadata_def Let_def split: option.split)

lemma first_nonempty_idem [simp]: "first_nonempty (first_nonempty a b) b = first_nonempty a b"
  by (simp add: first_nonempty_def)

lemma apply_auth_idem [simp]: "apply_auth_summary ul s (apply_auth_summary ul s a) = apply_auth_summary ul s a"
  by (simp add: apply_auth_summary_def)

lemma configured_apply: "hasConfiguredAuth (Some md) \<Longrightarrow> hasConfiguredAuth (Some (applyAuthSummaryToMetadata ul md s))"
  by (auto simp: hasConfiguredAuth_def applyAuthSummaryToMetadata_def apply_auth_summary_def first_nonempty_def split: option.splits)

lemma apply_metadata_idem [simp]:
  "applyAuthSummaryToMetadata ul (applyAuthSummaryToMetadata ul md s) s = applyAuthSummaryToMetadata ul md s"
proof (cases "hasConfiguredAuth (Some md)")
  case True
  then show ?thesis using configured_apply [OF True, of ul s]
    by (simp add: applyAuthSummaryToMetadata_def [of ul "applyAuthSummaryToMetadata ul md s"])
      (simp add: applyAuthSummaryToMetadata_def option.map_comp comp_def)
qed (simp add: applyAuthSummaryToMetadata_def)

lemma metadata_frame [simp]:
  "md_ArtifactCollection (refreshPayloadMetadata md p) = md_ArtifactCollection md"
  "md_ArtifactCollection (applyAuthSummaryToMetadata ul md s) = md_ArtifactCollection md"
  "md_Payload (applyAuthSummaryToMetadata ul md s) = md_Payload md"
  "md_Auth (refreshPayloadMetadata md p) = md_Auth md"
  by (simp_all add: refreshPayloadMetadata_def applyAuthSummaryToMetadata_def Let_def split: option.split)

text \<open>The order in which payload and authentication are merged does not matter.\<close>

lemma configured_frame [simp]: "hasConfiguredAuth (Some (md\<lparr>md_Payload := p\<rparr>)) = hasConfiguredAuth (Some md)"
  by (simp add: hasConfiguredAuth_def)

lemma refresh_apply_auth:
  "refreshPayloadMetadata (applyAuthSummaryToMetadata ul md s) p = applyAuthSummaryToMetadata ul (refreshPayloadMetadata md p) s"
  by (cases "md_Payload md") (simp_all add: refreshPayloadMetadata_def applyAuthSummaryToMetadata_def Let_def)

text \<open>What a summary contributes: the percentiles, the text and the collection.\<close>

definition summary_percentiles :: "merged_summary \<Rightarrow> aggregated_metrics \<Rightarrow> aggregated_metrics" where
  "summary_percentiles m = applySummaryPercentiles (ls_P90 (mg_TotalLatency m)) (ls_P95 (mg_TotalLatency m)) (ls_P99 (mg_TotalLatency m))"

lemma merge_summary_read:
  assumes "ParseRawSummaryContent lib (BuildRawSummary sn ArtifactSummary) = Inr m" "rs_Metadata r = Some md"
  shows "merge_summary lib sn r =
    (r\<lparr>rs_Metrics := map_option (summary_percentiles m) (rs_Metrics r), rs_SummaryContent := BuildRawSummary sn ArtifactSummary,
       rs_Metadata := Some (md\<lparr>md_ArtifactCollection := Some (classifyArtifactCollection (sn_ExpectedWorkers sn) (Some m))\<rparr>)\<rparr>,
     rs_SummaryContent r \<noteq> BuildRawSummary sn ArtifactSummary \<or>
     md_ArtifactCollection md \<noteq> Some (classifyArtifactCollection (sn_ExpectedWorkers sn) (Some m)))"
proof -
  have "trim_space (BuildRawSummary sn ArtifactSummary) \<noteq> []" using assms(1) by (auto simp: ParseRawSummaryContent_def)
  then show ?thesis using assms
    by (auto simp: merge_summary_def summaryCollectionFromRaw_def set_collection_def summary_percentiles_def Let_def)
qed

lemma merge_summary_unreadable:
  assumes "trim_space (BuildRawSummary sn ArtifactSummary) \<noteq> []" "ParseRawSummaryContent lib (BuildRawSummary sn ArtifactSummary) = Inl e"
  shows "merge_summary lib sn r = (r, False)"
  using assms by (simp add: merge_summary_def summaryCollectionFromRaw_def Let_def)

lemma merge_summary_none:
  assumes "trim_space (BuildRawSummary sn ArtifactSummary) = []" "rs_Metadata r = Some md"
  shows "merge_summary lib sn r =
    (r\<lparr>rs_Metadata := Some (md\<lparr>md_ArtifactCollection := Some (classifyArtifactCollection (sn_ExpectedWorkers sn) None)\<rparr>)\<rparr>,
     md_ArtifactCollection md \<noteq> Some (classifyArtifactCollection (sn_ExpectedWorkers sn) None))"
  using assms by (auto simp: merge_summary_def set_collection_def Let_def)

text \<open>The result of a merge of summaries, for a result with metadata.\<close>

lemma merge_summary_settled:
  assumes "rs_Metadata r = Some md" "merge_summary lib sn r = (r1, c)"
    and "rs_Metrics r2 = rs_Metrics r1" "rs_SummaryContent r2 = rs_SummaryContent r1"
    and "rs_Metadata r1 = Some md1" "rs_Metadata r2 = Some md2" "md_ArtifactCollection md2 = md_ArtifactCollection md1"
  shows "merge_summary lib sn r2 = (r2, False)"
proof (cases "trim_space (BuildRawSummary sn ArtifactSummary) = []")
  case True
  then show ?thesis using assms merge_summary_none [OF True assms(1)] merge_summary_none [OF True assms(6)] by (cases r2; cases md2) auto
next
  case False
  show ?thesis
  proof (cases "ParseRawSummaryContent lib (BuildRawSummary sn ArtifactSummary)")
    case (Inr m)
    then have "rs_Metrics r2 = map_option (summary_percentiles m) (rs_Metrics r)" "rs_SummaryContent r2 = BuildRawSummary sn ArtifactSummary"
      "md_ArtifactCollection md2 = Some (classifyArtifactCollection (sn_ExpectedWorkers sn) (Some m))"
      using assms merge_summary_read [OF Inr assms(1)] by auto
    moreover from this(1) have "map_option (summary_percentiles m) (rs_Metrics r2) = rs_Metrics r2"
      by (cases "rs_Metrics r") (simp_all add: summary_percentiles_def)
    ultimately show ?thesis using merge_summary_read [OF Inr assms(6)] assms(6) by (cases r2; cases md2) auto
  qed (use False merge_summary_unreadable in blast)
qed

lemma record_self [simp]:
  "rs_Metadata r = Some md \<Longrightarrow> r\<lparr>rs_Metadata := Some md\<rparr> = r"
  "md_ArtifactCollection md = c \<Longrightarrow> md\<lparr>md_ArtifactCollection := c\<rparr> = md"
  by (cases r; cases md; simp)+

text \<open>A result that a merge of the snapshot with this payload leaves as it is.\<close>

definition settled_result :: "json_lib \<Rightarrow> url_lib \<Rightarrow> snapshot \<Rightarrow> test_result \<Rightarrow> bool" where
  "settled_result lib ul sn r \<longleftrightarrow>
    merge_summary lib sn r = (r, False) \<and> merge_auth lib ul sn (r, False) = (r, False) \<and> rs_Metadata r \<noteq> None"

lemma settled_merge:
  assumes "settled_result lib ul sn r"
  shows "snd (snd (mergeResultArtifacts lib ul r sn fb)) = False"
proof -
  obtain md where md: "rs_Metadata r = Some md" using assms by (auto simp: settled_result_def)
  then have "r\<lparr>rs_Metadata := Some (case rs_Metadata r of None \<Rightarrow> zero_metadata | Some md \<Rightarrow> md)\<rparr> = r" by simp
  moreover have "snd (merge_auth lib ul sn (merge_payload p r, False)) = False" for p
    using assms by (auto simp: settled_result_def merge_auth_def merge_payload_def Let_def split: if_splits sum.splits)
  ultimately show ?thesis using assms
    by (simp add: mergeResultArtifacts_def settled_result_def Let_def split: prod.split) (metis snd_conv)
qed

lemma merge_payload_frame [simp]:
  "rs_Metrics (merge_payload p r) = rs_Metrics r" "rs_SummaryContent (merge_payload p r) = rs_SummaryContent r"
  "rs_AuthSummaryContent (merge_payload p r) = rs_AuthSummaryContent r" "rs_MetricsV2 (merge_payload p r) = rs_MetricsV2 r"
  "rs_ID (merge_payload p r) = rs_ID r" "rs_Status (merge_payload p r) = rs_Status r" "rs_TimeSeries (merge_payload p r) = rs_TimeSeries r"
  "rs_Warnings (merge_payload p r) = rs_Warnings r"
  by (simp_all add: merge_payload_def)

lemma merge_auth_frame [simp]:
  "rs_Metrics (fst (merge_auth lib ul sn (r, c))) = rs_Metrics r" "rs_SummaryContent (fst (merge_auth lib ul sn (r, c))) = rs_SummaryContent r"
  "rs_MetricsV2 (fst (merge_auth lib ul sn (r, c))) = rs_MetricsV2 r" "rs_ID (fst (merge_auth lib ul sn (r, c))) = rs_ID r"
  "rs_Status (fst (merge_auth lib ul sn (r, c))) = rs_Status r" "rs_TimeSeries (fst (merge_auth lib ul sn (r, c))) = rs_TimeSeries r"
  "rs_Warnings (fst (merge_auth lib ul sn (r, c))) = rs_Warnings r"
  by (simp_all add: merge_auth_def Let_def split: sum.split)

lemma merge_auth_idem: "merge_auth lib ul sn (fst (merge_auth lib ul sn (r, c)), False) = (fst (merge_auth lib ul sn (r, c)), False)"
  by (simp add: merge_auth_def Let_def option.map_comp comp_def split: sum.split)

lemma merge_payload_idem: "merge_payload p (fst (merge_auth lib ul sn (merge_payload p r, c))) = fst (merge_auth lib ul sn (merge_payload p r, c))"
  by (simp add: merge_payload_def merge_auth_def Let_def option.map_comp comp_def refresh_apply_auth split: sum.split)

lemma merge_v2:
  "merge_payload p (r\<lparr>rs_MetricsV2 := v\<rparr>) = (merge_payload p r)\<lparr>rs_MetricsV2 := v\<rparr>"
  "merge_auth lib ul sn (r\<lparr>rs_MetricsV2 := v\<rparr>, c) = (case merge_auth lib ul sn (r, c) of (r', c') \<Rightarrow> (r'\<lparr>rs_MetricsV2 := v\<rparr>, c'))"
  by (simp_all add: merge_payload_def merge_auth_def Let_def split: sum.split)

lemma payload_of_again: "payload_of sn (payload_of sn fb) = payload_of sn fb"
  by (simp add: payload_of_def Let_def)

lemma merge_summary_metadata: "rs_Metadata r \<noteq> None \<Longrightarrow> rs_Metadata (fst (merge_summary lib sn r)) \<noteq> None"
  by (auto simp: merge_summary_def summaryCollectionFromRaw_def set_collection_def Let_def split: sum.split)

lemma collection_after:
  "rs_Metadata (fst (merge_auth lib ul sn (merge_payload p r, c))) = None \<longleftrightarrow> rs_Metadata r = None"
  "map_option md_ArtifactCollection (rs_Metadata (fst (merge_auth lib ul sn (merge_payload p r, c)))) = map_option md_ArtifactCollection (rs_Metadata r)"
  by (simp_all add: merge_auth_def merge_payload_def Let_def option.map_comp comp_def split: sum.split)

text \<open>The parts of a merge.\<close>

abbreviation with_metadata :: "test_result \<Rightarrow> test_result" where
  "with_metadata r \<equiv> r\<lparr>rs_Metadata := Some (case rs_Metadata r of None \<Rightarrow> zero_metadata | Some md \<Rightarrow> md)\<rparr>"

lemma mergeResultArtifacts_eq:
  assumes "merge_summary lib sn (with_metadata result) = (r1, c1)"
    "merge_auth lib ul sn (merge_payload (payload_of sn fb) r1, c1) = (r2, c2)"
  shows "mergeResultArtifacts lib ul result sn fb =
    (if c2 then r2\<lparr>rs_MetricsV2 := buildMetricsV2 lib (rs_Metrics r2) (rs_SummaryContent r2) (rs_Metadata r2)\<rparr> else r2, payload_of sn fb, c2)"
  using assms by (simp add: mergeResultArtifacts_def Let_def)

lemma merged_is_settled:
  assumes "mergeResultArtifacts lib ul result sn fb = (r, p, c)"
  shows "settled_result lib ul sn r" "merge_payload p r = r" "p = payload_of sn fb"
proof -
  obtain r1 c1 where m: "merge_summary lib sn (with_metadata result) = (r1, c1)" by fastforce
  obtain md1 where md1: "rs_Metadata r1 = Some md1" using merge_summary_metadata [of "with_metadata result" lib sn] m by auto
  let ?p = "payload_of sn fb"
  obtain r2 c2 where a: "merge_auth lib ul sn (merge_payload ?p r1, c1) = (r2, c2)" by fastforce
  have r: "r = (if c2 then r2\<lparr>rs_MetricsV2 := buildMetricsV2 lib (rs_Metrics r2) (rs_SummaryContent r2) (rs_Metadata r2)\<rparr> else r2)"
    and p: "p = ?p" using assms mergeResultArtifacts_eq [OF m a] by (auto simp del: if_split)
  have r2: "fst (merge_auth lib ul sn (merge_payload ?p r1, c1)) = r2" by (simp add: a)
  have f: "rs_Metrics r = rs_Metrics r1" "rs_SummaryContent r = rs_SummaryContent r1" "rs_Metadata r = rs_Metadata r2"
    using merge_auth_frame(1,2) [of lib ul sn "merge_payload ?p r1" c1] by (simp_all add: r r2)
  obtain md2 where md2: "rs_Metadata r = Some md2" "md_ArtifactCollection md2 = md_ArtifactCollection md1"
    using collection_after [of lib ul sn ?p r1 c1] f(3) md1 by (cases "rs_Metadata r2") (auto simp: r2)
  have s: "merge_summary lib sn r = (r, False)" using merge_summary_settled [OF _ m f(1,2) md1 md2] by simp
  have "merge_payload ?p r2 = r2" "merge_auth lib ul sn (r2, False) = (r2, False)"
    using merge_payload_idem [of ?p lib ul sn r1 c1] merge_auth_idem [of lib ul sn "merge_payload ?p r1" c1] by (simp_all add: r2)
  then have "merge_payload ?p r = r" "merge_auth lib ul sn (r, False) = (r, False)" by (simp_all add: r merge_v2)
  then show "settled_result lib ul sn r" "merge_payload p r = r" "p = payload_of sn fb"
    using s md2(1) by (simp_all add: settled_result_def p)
qed

text \<open>
  Merging the artifacts of a run into its result is idempotent: a second merge of the same snapshot changes neither the
  result nor the payload, and reports no change.
\<close>

theorem merging_again_changes_nothing:
  "case mergeResultArtifacts lib ul result sn fb of
     (r, p, _) \<Rightarrow> mergeResultArtifacts lib ul r sn p = (r, p, False)"
proof -
  obtain r p c where m: "mergeResultArtifacts lib ul result sn fb = (r, p, c)" by (cases "mergeResultArtifacts lib ul result sn fb")
  then have "mergeResultArtifacts lib ul r sn p = (r, p, False)"
    using merged_is_settled [OF m] by (auto simp: settled_result_def mergeResultArtifacts_def payload_of_again Let_def)
  then show ?thesis by (simp add: m)
qed

subsection \<open>What a merge keeps\<close>

definition metrics_core :: "aggregated_metrics \<Rightarrow> aggregated_metrics" where
  "metrics_core m = m\<lparr>am_P90Latency := f0, am_P95Latency := f0, am_P99Latency := f0\<rparr>"

definition metadata_core :: "test_metadata \<Rightarrow> test_metadata" where
  "metadata_core md = md\<lparr>md_ArtifactCollection := None, md_Payload := None, md_Auth := None\<rparr>"

lemma metrics_core_percentiles [simp]: "metrics_core (applySummaryPercentiles a b c m) = metrics_core m"
  by (simp add: metrics_core_def applySummaryPercentiles_def)

lemma metadata_core_simps [simp]:
  "metadata_core (md\<lparr>md_ArtifactCollection := c\<rparr>) = metadata_core md" "metadata_core (refreshPayloadMetadata md p) = metadata_core md"
  "metadata_core (applyAuthSummaryToMetadata ul md s) = metadata_core md"
  by (simp_all add: metadata_core_def refreshPayloadMetadata_def applyAuthSummaryToMetadata_def Let_def split: option.split)

lemma merge_summary_keeps:
  "rs_ID (fst (merge_summary lib sn r)) = rs_ID r" "rs_Status (fst (merge_summary lib sn r)) = rs_Status r"
  "rs_TimeSeries (fst (merge_summary lib sn r)) = rs_TimeSeries r" "rs_Warnings (fst (merge_summary lib sn r)) = rs_Warnings r"
  "map_option metrics_core (rs_Metrics (fst (merge_summary lib sn r))) = map_option metrics_core (rs_Metrics r)"
  "map_option metadata_core (rs_Metadata (fst (merge_summary lib sn r))) = map_option metadata_core (rs_Metadata r)"
  by (simp_all add: merge_summary_def summaryCollectionFromRaw_def set_collection_def Let_def
      option.map_comp comp_def split: sum.split option.split)

lemma merge_rest_keeps:
  "map_option metadata_core (rs_Metadata (fst (merge_auth lib ul sn (merge_payload p r, c)))) = map_option metadata_core (rs_Metadata r)"
  by (simp add: merge_auth_def merge_payload_def Let_def option.map_comp comp_def split: sum.split)

lemma merge_keeps:
  "rs_ID (fst (mergeResultArtifacts lib ul result sn fb)) = rs_ID result" "rs_Status (fst (mergeResultArtifacts lib ul result sn fb)) = rs_Status result"
  "rs_TimeSeries (fst (mergeResultArtifacts lib ul result sn fb)) = rs_TimeSeries result"
  "rs_Warnings (fst (mergeResultArtifacts lib ul result sn fb)) = rs_Warnings result"
  "map_option metrics_core (rs_Metrics (fst (mergeResultArtifacts lib ul result sn fb))) = map_option metrics_core (rs_Metrics result)"
  "map_option metadata_core (rs_Metadata (fst (mergeResultArtifacts lib ul result sn fb))) =
    Some (metadata_core (case rs_Metadata result of None \<Rightarrow> zero_metadata | Some md \<Rightarrow> md))"
proof -
  obtain r1 c1 where m: "merge_summary lib sn (with_metadata result) = (r1, c1)" by fastforce
  obtain r2 c2 where a: "merge_auth lib ul sn (merge_payload (payload_of sn fb) r1, c1) = (r2, c2)" by fastforce
  note facts = merge_summary_keeps [of lib sn "with_metadata result"] merge_auth_frame [of lib ul sn "merge_payload (payload_of sn fb) r1" c1]
    merge_rest_keeps [of lib ul sn "payload_of sn fb" r1 c1]
  show "rs_ID (fst (mergeResultArtifacts lib ul result sn fb)) = rs_ID result" "rs_Status (fst (mergeResultArtifacts lib ul result sn fb)) = rs_Status result"
    "rs_TimeSeries (fst (mergeResultArtifacts lib ul result sn fb)) = rs_TimeSeries result"
    "rs_Warnings (fst (mergeResultArtifacts lib ul result sn fb)) = rs_Warnings result"
    "map_option metrics_core (rs_Metrics (fst (mergeResultArtifacts lib ul result sn fb))) = map_option metrics_core (rs_Metrics result)"
    "map_option metadata_core (rs_Metadata (fst (mergeResultArtifacts lib ul result sn fb))) =
      Some (metadata_core (case rs_Metadata result of None \<Rightarrow> zero_metadata | Some md \<Rightarrow> md))"
    using facts by (auto simp: mergeResultArtifacts_eq [OF m a] m a)
qed

text \<open>
  A merge never touches what was measured: the identity, the status, the time series and the warnings of a result, the
  metrics but for the three percentiles, and the times, the stages and the target in the metadata stay as they are.
\<close>

theorem merging_keeps_measurements:
  "case mergeResultArtifacts lib ul result sn fb of
     (r, _, _) \<Rightarrow> rs_ID r = rs_ID result \<and> rs_Status r = rs_Status result \<and> rs_TimeSeries r = rs_TimeSeries result \<and>
       rs_Warnings r = rs_Warnings result \<and> map_option metrics_core (rs_Metrics r) = map_option metrics_core (rs_Metrics result) \<and>
       map_option metadata_core (rs_Metadata r) = Some (metadata_core (case rs_Metadata result of None \<Rightarrow> zero_metadata | Some md \<Rightarrow> md))"
  using merge_keeps [of lib ul result sn fb] by (simp add: case_prod_beta)

subsection \<open>A late payload\<close>

lemma contents_cong:
  assumes "artifacts_of sn' t = artifacts_of sn t" "sn_ExpectedWorkers sn' = sn_ExpectedWorkers sn"
  shows "BuildRawSummary sn' t = BuildRawSummary sn t"
  using assms by (simp add: BuildRawSummary_def contents_in_order_def)



definition zero_result :: test_result where
  "zero_result = \<lparr>rs_ID = ''t'', rs_ProjectName = [], rs_URL = [], rs_Status = ''completed'', rs_Metrics = None, rs_MetricsV2 = None, rs_TimeSeries = [],
    rs_Metadata = None, rs_Warnings = [], rs_SummaryContent = [], rs_AuthSummaryContent = [], rs_CreatedAt = zero_time, rs_Username = []\<rparr>"

definition demo_test :: load_test where
  "demo_test = zero_load_test\<lparr>lt_ID := ''t'', lt_Status := ''completed'', lt_ResultJSON := Some ''{}''\<rparr>"

definition demo_codec :: "test_result \<Rightarrow> result_codec" where
  "demo_codec r = \<lparr>rc_marshal = (\<lambda>_. Inr ''{}''), rc_unmarshal = (\<lambda>_. Inr r)\<rparr>"

definition demo_store_env :: store_env where
  "demo_store_env = \<lparr>se_fault = (\<lambda>_. None), se_now = 1, se_uuid = (\<lambda>_. [])\<rparr>"


subsection \<open>Complete collections\<close>

definition reported :: "json_lib \<Rightarrow> snapshot \<Rightarrow> string \<Rightarrow> bool" where
  "reported lib sn w \<longleftrightarrow>
    (case map_of (artifacts_of sn ArtifactSummary) w of None \<Rightarrow> False | Some a \<Rightarrow> trim_space (ar_Content a) \<noteq> [] \<and> unmarshal_summary lib (ar_Content a) \<noteq> None)"

lemma fold_add_summary_workers: "mg_Workers (fold add_summary ss m) = mg_Workers m @ map buildWorkerSummaryMetrics ss"
  by (induction ss arbitrary: m) (simp_all add: add_summary_def Let_def)

lemma merged_names:
  assumes "mergeSummaryMetrics ss = Inr m"
  shows "map ws_Name (mg_Workers m) = map fst ss"
proof -
  have "mg_Workers m = map buildWorkerSummaryMetrics ss"
    using assms by (auto simp: mergeSummaryMetrics_def fold_add_summary_workers init_merged_def Let_def split: if_splits prod.splits bool.splits)
  then show ?thesis by (simp add: buildWorkerSummaryMetrics_def)
qed

lemma decoded_names:
  assumes "fst ` set (artifacts_of sn ArtifactSummary) \<subseteq> set (sn_ExpectedWorkers sn)"
  shows "map fst (decoded lib (contents_in_order sn ArtifactSummary)) = filter (reported lib sn) (sn_ExpectedWorkers sn)"
proof -
  let ?c = "\<lambda>w. case map_of (artifacts_of sn ArtifactSummary) w of None \<Rightarrow> [] | Some a \<Rightarrow> if trim_space (ar_Content a) = [] then [] else [(w, ar_Content a)]"
  let ?d = "\<lambda>(w, c). case unmarshal_summary lib c of None \<Rightarrow> [] | Some d \<Rightarrow> [(w, d)]"
  have one: "map fst (concat (map ?d (?c w))) = (if reported lib sn w then [w] else [])" for w
    by (cases "map_of (artifacts_of sn ArtifactSummary) w") (auto simp: reported_def split: option.split)
  have "map fst (concat (map ?d (concat (map ?c ws)))) = filter (reported lib sn) ws" for ws
    using one by (induction ws) (auto simp del: map_concat)
  moreover have "filter (reported lib sn) (filter (\<lambda>w. map_of (artifacts_of sn ArtifactSummary) w \<noteq> None) (sn_ExpectedWorkers sn)) =
      filter (reported lib sn) (sn_ExpectedWorkers sn)"
    by (auto simp: reported_def intro!: filter_cong split: option.splits)
  ultimately show ?thesis
    by (simp add: decoded_def contents_in_order_def Let_def ordered_expected_only [OF assms] del: filter_filter map_concat)
qed

lemma trimmed_names:
  assumes "ws = normalize_workers [] ws0"
  shows "map trim_space ws = ws" "\<And>P. filter (\<lambda>w. w \<noteq> []) (filter P ws) = filter P ws"
    "\<And>w. w \<in> set ws \<Longrightarrow> trim_space w = w"
proof -
  have s: "set ws = trim_space ` set ws0 - {[]}" using normalize_workers_spec [of "[]" ws0] assms by simp
  then show "\<And>w. w \<in> set ws \<Longrightarrow> trim_space w = w" by auto
  then show "map trim_space ws = ws" by (auto intro!: map_idI)
  show "filter (\<lambda>w. w \<noteq> []) (filter P ws) = filter P ws" for P using s by (auto intro!: filter_cong)
qed

lemma classify_complete:
  assumes "ws = normalize_workers [] ws0" "ws \<noteq> []" "map ws_Name (mg_Workers m) = filter P ws"
  shows "ac2_Status (classifyArtifactCollection ws (Some m)) = ''complete'' \<longleftrightarrow> list_all P ws"
proof -
  have len: "length (mg_Workers m) = length (filter P ws)" using arg_cong [OF assms(3), of length] by simp
  have tr: "map trim_space (filter P ws) = filter P ws" using trimmed_names(3) [OF assms(1)] by (auto intro!: map_idI)
  have "map (\<lambda>w. trim_space (ws_Name w)) (mg_Workers m) = filter P ws"
    using arg_cong [OF assms(3), of "map trim_space"] tr by (simp add: comp_def)
  then have names: "set (filter (\<lambda>n. n \<noteq> []) (map (\<lambda>w. trim_space (ws_Name w)) (mg_Workers m))) = set (filter P ws)"
    using trimmed_names(2) [OF assms(1), of P] by (simp only:)
  have nonempty: "\<forall>w \<in> set ws. w \<noteq> []" using normalize_workers_spec [of "[]" ws0] assms(1) by blast
  have missing: "filter (\<lambda>w. w \<noteq> [] \<and> w \<notin> set (filter P ws)) (map trim_space ws) = [] \<longleftrightarrow> list_all P ws"
    unfolding trimmed_names(1) [OF assms(1)] using nonempty by (auto simp: filter_empty_conv list_all_iff)
  have "list_all P ws \<Longrightarrow> filter P ws = ws" by (simp add: list_all_iff)
  then show ?thesis using assms(2) missing
    by (auto simp: classifyArtifactCollection_def Let_def names len simp del: set_filter)
qed

text \<open>
  The collection of the summaries of a run is complete exactly when every expected worker has uploaded a summary that
  can be decoded.
\<close>

theorem collection_complete_iff_all_reported:
  assumes "sn_ExpectedWorkers sn = normalize_workers [] ws" "sn_ExpectedWorkers sn \<noteq> []"
    "fst ` set (artifacts_of sn ArtifactSummary) \<subseteq> set (sn_ExpectedWorkers sn)" "list_all block_ok (contents_in_order sn ArtifactSummary)"
  shows "case summaryCollectionFromRaw lib (sn_ExpectedWorkers sn) (BuildRawSummary sn ArtifactSummary) metrics of
    (c, _, _) \<Rightarrow> ac2_Status (sc_ArtifactCollection c) = ''complete'' \<longleftrightarrow> list_all (reported lib sn) (sn_ExpectedWorkers sn)"
proof -
  let ?raw = "BuildRawSummary sn ArtifactSummary" and ?ss = "decoded lib (contents_in_order sn ArtifactSummary)"
  have names: "map fst ?ss = filter (reported lib sn) (sn_ExpectedWorkers sn)" using decoded_names [OF assms(3)] .
  have none: "ac2_Status (classifyArtifactCollection (sn_ExpectedWorkers sn) None) \<noteq> ''complete''"
    by (simp add: classifyArtifactCollection_def Let_def)
  show ?thesis
  proof (cases "?ss = []")
    case True
    then have no: "\<not> list_all (reported lib sn) (sn_ExpectedWorkers sn)" using names assms(2) by (cases "sn_ExpectedWorkers sn") auto
    have "trim_space ?raw = [] \<or> (\<exists>e. ParseRawSummaryContent lib ?raw = Inl e)"
    proof (cases "contents_in_order sn ArtifactSummary = []")
      case True
      then show ?thesis by (simp add: BuildRawSummary_def)
    next
      case False
      then show ?thesis using parse_built_summary [OF assms(4) False, of lib] \<open>?ss = []\<close> by simp
    qed
    then show ?thesis using no none by (auto simp: summaryCollectionFromRaw_def no_collection_def)
  next
    case False
    then have ne: "contents_in_order sn ArtifactSummary \<noteq> []" by (auto simp: decoded_def)
    obtain m where m: "mergeSummaryMetrics ?ss = Inr m" using False by (simp add: mergeSummaryMetrics_def Let_def)
    then have p: "ParseRawSummaryContent lib ?raw = Inr m" using parse_built_summary [OF assms(4) ne, of lib] False by simp
    then have "trim_space ?raw \<noteq> []" by (auto simp: ParseRawSummaryContent_def)
    then show ?thesis using p classify_complete [OF assms(1,2), of m "reported lib sn"] merged_names [OF m] names
      by (simp add: summaryCollectionFromRaw_def)
  qed
qed

theorem collection_complete_iff_all_reported_witness:
  "case summaryCollectionFromRaw demo_summary_lib (sn_ExpectedWorkers demo_snapshot) (BuildRawSummary demo_snapshot ArtifactSummary) None of
    (c, _, _) \<Rightarrow> ac2_Status (sc_ArtifactCollection c) = ''complete''"
proof -
  have trim: "trim_space ''{}'' = ''{}''" "trim_space ''w1'' = ''w1''" "trim_space ''w2'' = ''w2''" by (simp_all add: is_plain_def)
  have "list_all (reported demo_summary_lib demo_snapshot) (sn_ExpectedWorkers demo_snapshot)"
    using trim by (simp add: reported_def demo_snapshot_def artifacts_of_def unmarshal_summary_def demo_summary_lib_def dec_summary_def field_def)
  moreover have "sn_ExpectedWorkers demo_snapshot = normalize_workers [] [''w2'', ''w1'']" "sn_ExpectedWorkers demo_snapshot \<noteq> []"
    "fst ` set (artifacts_of demo_snapshot ArtifactSummary) \<subseteq> set (sn_ExpectedWorkers demo_snapshot)"
    using trim by (simp_all add: demo_snapshot_def artifacts_of_def Let_def)
  ultimately show ?thesis
    using collection_complete_iff_all_reported [OF _ _ _ demo_contents(2), of "[''w2'', ''w1'']" demo_summary_lib None] by (auto split: prod.splits)
qed

subsection \<open>A late summary\<close>

lemma merge_auth_changed: "snd (merge_auth lib ul sn (r, True))"
  by (simp add: merge_auth_def Let_def split: sum.split)

lemma merge_new_summary:
  assumes "mergeResultArtifacts lib ul r sn fb = (r', p, c)" "ParseRawSummaryContent lib (BuildRawSummary sn ArtifactSummary) = Inr m"
    "rs_SummaryContent r \<noteq> BuildRawSummary sn ArtifactSummary"
  shows "c" "rs_SummaryContent r' = BuildRawSummary sn ArtifactSummary"
    "rs_MetricsV2 r' = buildMetricsV2 lib (rs_Metrics r') (BuildRawSummary sn ArtifactSummary) (rs_Metadata r')"
    "map_option md_ArtifactCollection (rs_Metadata r') = Some (Some (classifyArtifactCollection (sn_ExpectedWorkers sn) (Some m)))"
proof -
  obtain r1 c1 where m: "merge_summary lib sn (with_metadata r) = (r1, c1)" by fastforce
  obtain r2 c2 where a: "merge_auth lib ul sn (merge_payload (payload_of sn fb) r1, c1) = (r2, c2)" by fastforce
  have r1: "c1" "rs_SummaryContent r1 = BuildRawSummary sn ArtifactSummary"
    "map_option md_ArtifactCollection (rs_Metadata r1) = Some (Some (classifyArtifactCollection (sn_ExpectedWorkers sn) (Some m)))"
    using merge_summary_read [OF assms(2), of "with_metadata r"] m assms(3) by auto
  have r2: "c2" "rs_SummaryContent r2 = rs_SummaryContent r1"
    "map_option md_ArtifactCollection (rs_Metadata r2) = map_option md_ArtifactCollection (rs_Metadata r1)"
    using merge_auth_changed [of lib ul sn "merge_payload (payload_of sn fb) r1"] a r1(1) merge_auth_frame(2) [of lib ul sn "merge_payload (payload_of sn fb) r1" c1]
      collection_after(2) [of lib ul sn "payload_of sn fb" r1 c1] by auto
  then have "r' = r2\<lparr>rs_MetricsV2 := buildMetricsV2 lib (rs_Metrics r2) (rs_SummaryContent r2) (rs_Metadata r2)\<rparr>" "c = c2"
    using assms(1) mergeResultArtifacts_eq [OF m a] by auto
  then show "c" "rs_SummaryContent r' = BuildRawSummary sn ArtifactSummary"
    "rs_MetricsV2 r' = buildMetricsV2 lib (rs_Metrics r') (BuildRawSummary sn ArtifactSummary) (rs_Metadata r')"
    "map_option md_ArtifactCollection (rs_Metadata r') = Some (Some (classifyArtifactCollection (sn_ExpectedWorkers sn) (Some m)))"
    using r1 r2 by simp_all
qed

definition enriched_row :: "string \<Rightarrow> string \<Rightarrow> load_test \<Rightarrow> load_test" where
  "enriched_row text p lt = lt\<lparr>lt_ResultJSON := Some text, lt_PayloadContent := (if p = [] then lt_PayloadContent lt else p)\<rparr>"

lemma enrich_row_changed:
  assumes "\<And>n. se_fault env n = None" "row_of_test i tab = Some lt" "lt_Status lt = ''completed''" "result_text lt \<noteq> []"
    "rc_unmarshal rc (result_text lt) = Inr r" "mergeResultArtifacts lib ul r sn (lt_PayloadContent lt) = (r', p, True)" "rc_marshal rc r' = Inr text"
  shows "\<exists>tab'. enrich_row lib ul rc env i sn lt tab = (Inr (), tab') \<and>
    (\<forall>j. row_of_test j tab' = (if j = i then Some (enriched_row text p lt) else row_of_test j tab))"
proof -
  define tab1 where "tab1 = (if p \<noteq> [] \<and> p \<noteq> lt_PayloadContent lt then set_test i (\<lambda>r. r\<lparr>lt_PayloadContent := p\<rparr>) tab else tab)"
  let ?f = "\<lambda>r. r\<lparr>lt_Status := ''completed'', lt_ResultJSON := Some text\<rparr>"
  have "enrich_row lib ul rc env i sn lt tab = (Inr (), set_test i ?f tab1)"
    using assms by (simp add: enrich_row_def update_ok tab1_def)
  moreover have row1: "row_of_test j tab1 = (if j = i then Some (lt\<lparr>lt_PayloadContent := (if p = [] then lt_PayloadContent lt else p)\<rparr>) else row_of_test j tab)" for j
    using assms(2) by (simp add: tab1_def row_of_set_test)
  moreover have "row_of_test j (set_test i ?f tab1) = (if j = i then Some (enriched_row text p lt) else row_of_test j tab)" for j
    using assms(3) by (simp add: row_of_set_test row1 enriched_row_def)
  ultimately show ?thesis by blast
qed

text \<open>
  C29. A summary that a worker uploads after its run has been stored as completed reaches the stored result: the upload is
  accepted, and afterwards the row holds the result with the new raw summary, with the collection that follows from it
  and with metrics that are derived from it again; the rows of other tests stay as they are.
\<close>

theorem late_summary_reaches_result:
  assumes "\<And>n. se_fault env n = None" "up_TestID u = i" "up_Body u = Some body"
    "StoreArtifact decode (se_now env) i (trim_space (up_WorkerID u)) (trim_space (up_Token u)) (trim_space (up_ArtifactType u)) (up_ContentType u) body reg = (Inr (), reg1)"
    "Snapshot_run (se_now env) i reg1 = (Some sn, reg2)"
    "row_of_test i tab = Some lt" "lt_Status lt = ''completed''" "result_text lt \<noteq> []" "rc_unmarshal rc (result_text lt) = Inr r"
    "ParseRawSummaryContent lib (BuildRawSummary sn ArtifactSummary) = Inr m" "rs_SummaryContent r \<noteq> BuildRawSummary sn ArtifactSummary"
    "mergeResultArtifacts lib ul r sn (lt_PayloadContent lt) = (r', p, c)" "rc_marshal rc r' = Inr text"
  shows "\<exists>tab'. UploadArtifact lib ul rc decode env u (reg, tab) = (HttpJson 202 (accepted_response u), reg2, tab') \<and>
    row_of_test i tab' = Some (enriched_row text p lt) \<and> list_all (\<lambda>j. j = i \<or> row_of_test j tab' = row_of_test j tab) js \<and>
    rs_SummaryContent r' = BuildRawSummary sn ArtifactSummary \<and>
    map_option md_ArtifactCollection (rs_Metadata r') = Some (Some (classifyArtifactCollection (sn_ExpectedWorkers sn) (Some m))) \<and>
    rs_MetricsV2 r' = buildMetricsV2 lib (rs_Metrics r') (BuildRawSummary sn ArtifactSummary) (rs_Metadata r')"
proof -
  note merged = merge_new_summary [OF assms(12,10,11)]
  obtain rs n where tab: "tab = (rs, n)" by (cases tab)
  have get: "GetLoadTest env i tab = (Inr (Some lt), (rs, Suc n))"
    using row_of_GetLoadTest [of env i rs n] assms(1,6) by (simp add: tab prod_eq_iff)
  have row: "row_of_test j (rs, Suc n) = row_of_test j tab" for j by (simp add: row_of_test_def tab)
  have lt: "row_of_test i (rs, Suc n) = Some lt" using assms(6) by (simp add: row)
  have "mergeResultArtifacts lib ul r sn (lt_PayloadContent lt) = (r', p, True)" using assms(12) merged(1) by simp
  from enrich_row_changed [OF assms(1) lt assms(7,8,9) this assms(13)]
  obtain tab' where t: "enrich_row lib ul rc env i sn lt (rs, Suc n) = (Inr (), tab')"
    "\<And>j. row_of_test j tab' = (if j = i then Some (enriched_row text p lt) else row_of_test j tab)"
    unfolding row by blast
  have "UploadArtifact lib ul rc decode env u (reg, tab) = (HttpJson 202 (accepted_response u), reg2, tab')"
    using assms(2-5) get t(1) by (simp add: UploadArtifact_def enrichCompletedResultFromRegistry_def)
  then show ?thesis using t(2) merged(2-4) by (auto simp: list_all_iff)
qed

definition demo_upload :: artifact_upload where
  "demo_upload = \<lparr>up_TestID = ''t'', up_WorkerID = ''w1'', up_ArtifactType = ArtifactSummary, up_Token = ''tok'', up_ContentType = [], up_Body = Some ''{}''\<rparr>"

definition demo_late :: snapshot where
  "demo_late = \<lparr>sn_TestID = ''t'', sn_ExpectedWorkers = [''w1'', ''w2''], sn_UploadToken = ''tok'',
    sn_Artifacts = [(ArtifactSummary, [(''w1'', \<lparr>ar_WorkerID = ''w1'', ar_Content = ''{}'', ar_ContentType = [], ar_ReceivedAt = 1\<rparr>)]),
      (ArtifactAuthSummary, []), (ArtifactPayload, [])], sn_CreatedAt = 0\<rparr>"

lemma demo_late_parses: "\<exists>m. ParseRawSummaryContent demo_summary_lib (BuildRawSummary demo_late ArtifactSummary) = Inr m"
proof -
  have trim: "trim_space ''{}'' = ''{}''" by (simp add: is_plain_def)
  have c: "contents_in_order demo_late ArtifactSummary = [(''w1'', ''{}'')]"
    using trim by (simp add: contents_in_order_def artifacts_of_def demo_late_def orderedArtifactWorkers_def)
  have "list_all block_ok (contents_in_order demo_late ArtifactSummary)"
    by (simp add: c block_ok_def is_plain_def newline_def block_sep_def has_prefix_def)
  moreover have "decoded demo_summary_lib [(''w1'', ''{}'')] = [(''w1'', \<lparr>ks_Metrics = [], ks_TestRunDurationMs = f0\<rparr>)]"
    by (simp add: decoded_def unmarshal_summary_def demo_summary_lib_def dec_summary_def field_def)
  ultimately show ?thesis using parse_built_summary [of demo_late demo_summary_lib] by (simp add: c mergeSummaryMetrics_def Let_def)
qed

theorem late_summary_reaches_result_witness:
  "\<exists>text p reg2 tab'. UploadArtifact demo_summary_lib demo_url_lib (demo_codec zero_result) (\<lambda>_. None) demo_store_env demo_upload (demo_registry, ([demo_test], 0)) =
      (HttpJson 202 (accepted_response demo_upload), reg2, tab') \<and> row_of_test ''t'' tab' = Some (enriched_row text p demo_test)"
proof -
  let ?rc = "demo_codec zero_result"
  have trim: "trim_space ''w1'' = ''w1''" "trim_space ''tok'' = ''tok''" "trim_space ArtifactSummary = ArtifactSummary" by (simp_all add: is_plain_def)
  obtain reg1 where st: "StoreArtifact (\<lambda>_. None) 1 ''t'' ''w1'' ''tok'' ArtifactSummary [] ''{}'' demo_registry = (Inr (), reg1)"
    "reg_runs reg1 ''t'' = Some (put_artifact ArtifactSummary ''w1'' \<lparr>ar_WorkerID = ''w1'', ar_Content = ''{}'', ar_ContentType = [], ar_ReceivedAt = 1\<rparr>
       (the (reg_runs demo_registry ''t'')))"
    by (simp add: StoreArtifact_def Let_def demo_run demo_cleanup)
  then have "fst (Snapshot_run 1 ''t'' reg1) = Some demo_late"
    by (simp add: Snapshot_run_def Let_def cleanupExpiredLocked_def run_expired_def is_zero_def put_artifact_def demo_run demo_late_def)
  then obtain reg2 where sn: "Snapshot_run 1 ''t'' reg1 = (Some demo_late, reg2)" by (cases "Snapshot_run 1 ''t'' reg1") auto
  obtain m where parse: "ParseRawSummaryContent demo_summary_lib (BuildRawSummary demo_late ArtifactSummary) = Inr m" using demo_late_parses by blast
  then have new: "rs_SummaryContent zero_result \<noteq> BuildRawSummary demo_late ArtifactSummary" by (auto simp: zero_result_def ParseRawSummaryContent_def)
  obtain r' p c where merge: "mergeResultArtifacts demo_summary_lib demo_url_lib zero_result demo_late (lt_PayloadContent demo_test) = (r', p, c)"
    by (cases "mergeResultArtifacts demo_summary_lib demo_url_lib zero_result demo_late (lt_PayloadContent demo_test)")
  have row: "row_of_test ''t'' ([demo_test], 0) = Some demo_test" "lt_Status demo_test = ''completed''" "result_text demo_test \<noteq> []"
    by (simp_all add: row_of_test_def demo_test_def result_text_def)
  have codec: "rc_unmarshal ?rc (result_text demo_test) = Inr zero_result" "rc_marshal ?rc r' = Inr ''{}''" by (simp_all add: demo_codec_def)
  have env: "\<And>n. se_fault demo_store_env n = None" "se_now demo_store_env = 1" by (simp_all add: demo_store_env_def)
  have up: "up_TestID demo_upload = ''t''" "up_Body demo_upload = Some ''{}''" by (simp_all add: demo_upload_def)
  have "StoreArtifact (\<lambda>_. None) (se_now demo_store_env) ''t'' (trim_space (up_WorkerID demo_upload)) (trim_space (up_Token demo_upload))
      (trim_space (up_ArtifactType demo_upload)) (up_ContentType demo_upload) ''{}'' demo_registry = (Inr (), reg1)"
    using st(1) trim by (simp add: env(2) demo_upload_def)
  from late_summary_reaches_result [OF env(1) up this _ row codec(1) parse new merge codec(2)] sn
  show ?thesis unfolding env(2) by blast
qed

end
