(* ===== verification/Results.thy ===== *)
theory Results
  imports LoadTests MetricsProofs
begin

text \<open>
  The handlers of \<^verbatim>\<open>controller/internal/handler/result.go\<close>: the list of results, one result with its metrics, and the deletion of
  all results. The response for one result is a record; an empty text, an empty list and \<open>None\<close> stand for a key that is not in
  the response.
\<close>

subsection \<open>Lists\<close>

record list_query =
  lq_limit :: string
  lq_offset :: string
  lq_search :: string
  lq_q :: string

definition parseResultListParams :: "list_query \<Rightarrow> int \<times> int \<times> string" where
  "parseResultListParams q =
    (let limit = parse_int64_value (lq_limit q); offset = parse_int64_value (lq_offset q)
     in (if limit \<le> 0 \<or> 100 < limit then 20 else limit, if offset < 0 then 0 else offset,
         if lq_search q = [] then lq_q q else lq_search q))"

record result_list_item =
  li_ID :: string
  li_ProjectName :: string
  li_URL :: string
  li_Status :: string
  li_UserID :: int
  li_Username :: string
  li_CreatedAt :: time
  li_ErrorRate :: "f64 option"
  li_TotalRequests :: "f64 option"
  li_AvgLatency :: "f64 option"
  li_P95Latency :: "f64 option"
  li_DurationS :: "f64 option"
  li_TotalVUs :: "int option"

text \<open>A stored result with the authentication metrics and the derived metrics as they are shown.\<close>

definition shown_result :: "json_lib \<Rightarrow> url_lib \<Rightarrow> result_codec \<Rightarrow> load_test \<Rightarrow> test_result option" where
  "shown_result lib ul rc lt =
    (if result_text lt = [] then None
     else (case rc_unmarshal rc (result_text lt) of
             Inl e \<Rightarrow> None
           | Inr r \<Rightarrow>
              (let md = hydrateAuthMetadataFromRawSummary lib ul (rs_Metadata r) (rs_AuthSummaryContent r)
               in Some (r\<lparr>rs_Metadata := md, rs_MetricsV2 := buildMetricsV2 lib (rs_Metrics r) (rs_SummaryContent r) md,
                          rs_Metrics := map_option normalizeResultMetrics (rs_Metrics r)\<rparr>))))"

definition plain_item :: "load_test \<Rightarrow> result_list_item" where
  "plain_item lt =
    \<lparr>li_ID = lt_ID lt, li_ProjectName = lt_ProjectName lt, li_URL = lt_URL lt, li_Status = lt_Status lt, li_UserID = lt_UserID lt,
     li_Username = lt_Username lt, li_CreatedAt = lt_CreatedAt lt, li_ErrorRate = None, li_TotalRequests = None, li_AvgLatency = None,
     li_P95Latency = None, li_DurationS = None, li_TotalVUs = None\<rparr>"

definition buildResultListItem :: "json_lib \<Rightarrow> url_lib \<Rightarrow> result_codec \<Rightarrow> load_test \<Rightarrow> result_list_item" where
  "buildResultListItem lib ul rc lt =
    (case shown_result lib ul rc lt of
       None \<Rightarrow> plain_item lt
     | Some r \<Rightarrow>
        (case (rs_Metrics r, rs_MetricsV2 r) of
           (Some m, _) \<Rightarrow>
             (plain_item lt)\<lparr>li_ErrorRate := Some (am_ErrorRate m), li_TotalRequests := Some (am_TotalRequests m), li_AvgLatency := Some (am_AvgLatency m),
               li_P95Latency := Some (am_P95Latency m), li_TotalVUs := Some (am_TotalVUs m)\<rparr>
         | (None, Some v) \<Rightarrow>
             (plain_item lt)\<lparr>li_ErrorRate := Some (hb_ErrorRate (v2_HTTPBusiness v)), li_TotalRequests := Some (hb_Requests (v2_HTTPTotal v)),
               li_AvgLatency := Some (lb_AvgMs (v2_PrimaryLatency v)), li_P95Latency := Some (lb_P95Ms (v2_PrimaryLatency v))\<rparr>
         | (None, None) \<Rightarrow> plain_item lt)
        \<lparr>li_DurationS := map_option md_DurationS (rs_Metadata r)\<rparr>)"

subsection \<open>One result\<close>

definition canViewResult :: "string \<Rightarrow> int \<Rightarrow> load_test \<Rightarrow> bool" where
  "canViewResult role uid lt \<longleftrightarrow> role = ''admin'' \<or> lt_UserID lt = uid"

definition hasResultExecutionData :: "load_test \<Rightarrow> bool" where
  "hasResultExecutionData lt \<longleftrightarrow>
    lt_Stages lt \<noteq> [] \<or> 0 < lt_VUs lt \<or> lt_Duration lt \<noteq> [] \<or> 0 < lt_Rate lt \<or> 0 < lt_PreAllocatedVUs lt \<or> 0 < lt_MaxVUs lt"

record result_response =
  rr_item :: result_list_item
  rr_metrics :: "aggregated_metrics option"
  rr_metrics_v2 :: "metrics_v2 option"
  rr_time_series :: "time_point list"
  rr_metadata :: "test_metadata option"
  rr_warnings :: "conflict_warning list"
  rr_summary_content :: string
  rr_auth_summary_content :: string
  rr_script_content :: string
  rr_config_content :: string
  rr_payload_source_json :: string
  rr_payload_content :: string
  rr_http_method :: string
  rr_content_type :: string
  rr_executor :: string
  rr_stages :: "stage list"
  rr_vus :: "int option"
  rr_duration :: string
  rr_rate :: "int option"
  rr_time_unit :: string
  rr_pre_allocated_vus :: "int option"
  rr_max_vus :: "int option"
  rr_sleep_seconds :: "f64 option"

definition positive :: "int \<Rightarrow> int option" where
  "positive n = (if 0 < n then Some n else None)"

definition execution_response :: "load_test \<Rightarrow> result_response \<Rightarrow> result_response" where
  "execution_response lt resp =
    (if hasResultExecutionData lt
     then resp\<lparr>rr_executor := lt_Executor lt, rr_stages := lt_Stages lt, rr_vus := positive (lt_VUs lt), rr_duration := lt_Duration lt,
            rr_rate := positive (lt_Rate lt), rr_time_unit := lt_TimeUnit lt, rr_pre_allocated_vus := positive (lt_PreAllocatedVUs lt),
            rr_max_vus := positive (lt_MaxVUs lt), rr_sleep_seconds := lt_SleepSeconds lt\<rparr>
     else resp)"

definition buildResultResponse :: "json_lib \<Rightarrow> url_lib \<Rightarrow> result_codec \<Rightarrow> load_test \<Rightarrow> result_response" where
  "buildResultResponse lib ul rc lt =
    (let r = shown_result lib ul rc lt
     in execution_response lt
          \<lparr>rr_item = plain_item lt, rr_metrics = Option.bind r rs_Metrics, rr_metrics_v2 = Option.bind r rs_MetricsV2,
           rr_time_series = (case r of None \<Rightarrow> [] | Some x \<Rightarrow> rs_TimeSeries x), rr_metadata = Option.bind r rs_Metadata,
           rr_warnings = (case r of None \<Rightarrow> [] | Some x \<Rightarrow> rs_Warnings x), rr_summary_content = (case r of None \<Rightarrow> [] | Some x \<Rightarrow> rs_SummaryContent x),
           rr_auth_summary_content = (case r of None \<Rightarrow> [] | Some x \<Rightarrow> rs_AuthSummaryContent x), rr_script_content = lt_ScriptContent lt,
           rr_config_content = lt_ConfigContent lt, rr_payload_source_json = lt_PayloadSourceJSON lt, rr_payload_content = lt_PayloadContent lt,
           rr_http_method = lt_HTTPMethod lt, rr_content_type = lt_ContentType lt, rr_executor = [], rr_stages = [], rr_vus = None, rr_duration = [],
           rr_rate = None, rr_time_unit = [], rr_pre_allocated_vus = None, rr_max_vus = None, rr_sleep_seconds = None\<rparr>)"

subsection \<open>Handlers\<close>

datatype results_json = ResultList "result_list_item list" nat | OneResult result_response | Deleted string

record result_handler =
  rh_lib :: json_lib
  rh_url :: url_lib
  rh_codec :: result_codec
  rh_env :: store_env
  rh_like :: "string \<Rightarrow> string \<Rightarrow> bool"

definition ListResults :: "result_handler \<Rightarrow> list_query \<Rightarrow> (results_json, load_test table) handler" where
  "ListResults h q ctx tab =
    (case parseResultListParams q of
       (limit, offset, search) \<Rightarrow>
         (case ListLoadTests (rh_like h) (rh_env h) (uc_UserID ctx) (uc_Role ctx) (nat limit) (nat offset) search tab of
            (Inl e, tab1) \<Rightarrow> (HttpError ''internal error'' 500, tab1)
          | (Inr (lts, tot), tab1) \<Rightarrow> (HttpJson 200 (ResultList (map (buildResultListItem (rh_lib h) (rh_url h) (rh_codec h)) lts) tot), tab1)))"

definition GetResult :: "result_handler \<Rightarrow> string \<Rightarrow> (results_json, load_test table) handler" where
  "GetResult h i ctx tab =
    (if i = [] then (HttpError ''missing id'' 400, tab)
     else (case GetLoadTest (rh_env h) i tab of
             (Inl e, tab1) \<Rightarrow> (HttpError ''internal error'' 500, tab1)
           | (Inr None, tab1) \<Rightarrow> (HttpError ''not found'' 404, tab1)
           | (Inr (Some lt), tab1) \<Rightarrow>
              (if \<not> canViewResult (uc_Role ctx) (uc_UserID ctx) lt then (HttpError ''not found'' 404, tab1)
               else (HttpJson 200 (OneResult (buildResultResponse (rh_lib h) (rh_url h) (rh_codec h) lt)), tab1))))"

definition Reset_results :: "result_handler \<Rightarrow> (results_json, load_test table) handler" where
  "Reset_results h ctx tab =
    (case ResetData (rh_env h) tab of
       (Inl e, tab1) \<Rightarrow> (HttpError ''internal error'' 500, tab1)
     | (Inr _, tab1) \<Rightarrow> (HttpJson 200 (Deleted ''all test data deleted''), tab1))"

subsection \<open>Properties\<close>

lemma item_identity [simp]:
  "li_ID (buildResultListItem lib ul rc lt) = lt_ID lt" "li_UserID (buildResultListItem lib ul rc lt) = lt_UserID lt"
  by (simp_all add: buildResultListItem_def plain_item_def split: option.split)

lemma page_bounds: "case parseResultListParams q of (limit, offset, search) \<Rightarrow> 1 \<le> limit \<and> limit \<le> 100 \<and> 0 \<le> offset"
  by (auto simp: parseResultListParams_def Let_def)

definition sane_live :: "aggregated_metrics \<Rightarrow> bool" where
  "sane_live m \<longleftrightarrow>
    list_all sane [am_AvgLatency m, am_MedLatency m, am_P90Latency m, am_P95Latency m, am_P99Latency m, am_MinLatency m, am_MaxLatency m] \<and>
    list_all (\<lambda>w. sane (wm_AvgLatency w)) (am_Workers m)"

lemma sane_normalized [simp]: "sane_live (normalizeResultMetrics m)"
  by (simp add: sane_live_def normalizeResultMetrics_def list_all_iff)

lemma shown_sane:
  assumes "shown_result lib ul rc lt = Some r"
  shows "pred_option sane_live (rs_Metrics r)" "pred_option wf_v2 (rs_MetricsV2 r)"
  using assms wf_buildMetricsV2
  by (auto simp: shown_result_def Let_def pred_option_def split: if_splits sum.splits)


text \<open>The rows that a user may see are those that the queries select.\<close>

abbreviation own :: "user_ctx \<Rightarrow> load_test \<Rightarrow> bool" where
  "own ctx r \<equiv> lt_UserID r = uc_UserID ctx"

lemma find_own:
  assumes "distinct (map lt_ID rs)" "find (\<lambda>r. lt_ID r = i) rs = Some lt"
  shows "find (\<lambda>r. lt_ID r = i) (filter P rs) = (if P lt then Some lt else None)"
  using assms
proof (induction rs)
  case (Cons r rs)
  show ?case
  proof (cases "lt_ID r = i")
    case True
    then have "find (\<lambda>r. lt_ID r = i) (filter P rs) = None" using Cons.prems(1) by (auto simp: find_None_iff image_iff)
    then show ?thesis using Cons.prems(2) True by simp
  qed (use Cons in auto)
qed simp

lemma find_filter_None: "find P rs = None \<Longrightarrow> find P (filter Q rs) = None"
  by (auto simp: find_None_iff)

text \<open>
  C25. The results of other users are invisible: to a user who is not an administrator the handlers answer exactly as if the
  table held only the tests of this user, be it a list, a search or the request for one result.
\<close>

theorem results_of_others_are_invisible:
  assumes "wf_tests (rs, n)" "uc_Role ctx \<noteq> ''admin''"
  shows "fst (ListResults h q ctx (rs, n)) = fst (ListResults h q ctx (filter (own ctx) rs, n)) \<and>
    fst (GetResult h i ctx (rs, n)) = fst (GetResult h i ctx (filter (own ctx) rs, n))"
proof
  have q: "filter (buildLoadTestListQueries like (uc_UserID ctx) (uc_Role ctx) search) (filter (own ctx) rs) =
      filter (buildLoadTestListQueries like (uc_UserID ctx) (uc_Role ctx) search) rs" for like search
    using assms(2) by (auto simp: buildLoadTestListQueries_def intro!: filter_cong)
  show "fst (ListResults h q ctx (rs, n)) = fst (ListResults h q ctx (filter (own ctx) rs, n))"
    by (simp add: ListResults_def ListLoadTests_def Let_def stmt_query_eq q del: filter_filter split: prod.split option.split)
  show "fst (GetResult h i ctx (rs, n)) = fst (GetResult h i ctx (filter (own ctx) rs, n))"
  proof (cases "find (\<lambda>r. lt_ID r = i) rs")
    case None
    then show ?thesis by (simp add: GetResult_def GetLoadTest_def stmt_query_eq find_filter_None split: option.split)
  next
    case (Some lt)
    then show ?thesis using find_own [of rs i lt "own ctx"] assms
      by (auto simp: GetResult_def GetLoadTest_def stmt_query_eq wf_tests_def canViewResult_def split: option.split)
  qed
qed

definition demo_handler :: result_handler where
  "demo_handler = \<lparr>rh_lib = demo_summary_lib, rh_url = demo_url_lib, rh_codec = \<lparr>rc_marshal = (\<lambda>_. Inl []), rc_unmarshal = (\<lambda>_. Inl [])\<rparr>,
    rh_env = \<lparr>se_fault = (\<lambda>_. None), se_now = 0, se_uuid = (\<lambda>_. [])\<rparr>, rh_like = (\<lambda>p t. p = t)\<rparr>"

definition demo_rows :: "load_test list" where
  "demo_rows = [zero_load_test\<lparr>lt_ID := ''a'', lt_UserID := 1, lt_CreatedAt := 5\<rparr>, zero_load_test\<lparr>lt_ID := ''b'', lt_UserID := 2, lt_CreatedAt := 7\<rparr>]"

definition demo_user :: user_ctx where
  "demo_user = \<lparr>uc_UserID = 1, uc_Username = ''ann'', uc_Role = ''user''\<rparr>"

theorem results_of_others_are_invisible_witness:
  "fst (GetResult demo_handler ''b'' demo_user (demo_rows, 0)) = HttpError ''not found'' 404 \<and>
   fst (ListResults demo_handler \<lparr>lq_limit = [], lq_offset = [], lq_search = [], lq_q = []\<rparr> demo_user (demo_rows, 0)) =
   fst (ListResults demo_handler \<lparr>lq_limit = [], lq_offset = [], lq_search = [], lq_q = []\<rparr> demo_user ([hd demo_rows], 0))"
proof -
  have own: "filter (own demo_user) demo_rows = [hd demo_rows]" by (simp add: demo_rows_def demo_user_def zero_load_test_def)
  have "wf_tests (demo_rows, 0)" "uc_Role demo_user \<noteq> ''admin''" by (simp_all add: wf_tests_def demo_rows_def zero_load_test_def demo_user_def)
  note invisible = results_of_others_are_invisible [OF this, unfolded own]
  have "fst (GetResult demo_handler ''b'' demo_user ([hd demo_rows], 0)) = HttpError ''not found'' 404"
    by (simp add: GetResult_def GetLoadTest_def stmt_query_eq demo_rows_def demo_handler_def)
  then show ?thesis using invisible by metis
qed

subsection \<open>Pages\<close>

definition page_query :: "nat \<Rightarrow> nat \<Rightarrow> list_query" where
  "page_query limit k = \<lparr>lq_limit = itoa (int limit), lq_offset = itoa (int (k * limit)), lq_search = [], lq_q = []\<rparr>"

definition ids_of :: "results_json response \<Rightarrow> string list" where
  "ids_of resp = (case resp of HttpJson _ (ResultList items _) \<Rightarrow> map li_ID items | _ \<Rightarrow> [])"

lemma concat_pages: "concat (map (\<lambda>k. take l (drop (k * l) xs)) [0 ..< m]) = take (m * l) xs"
proof (induction m)
  case (Suc m)
  have "take (m * l) xs @ take l (drop (m * l) xs) = take (m * l + l) xs" by (simp add: take_add)
  then show ?case using Suc by (simp add: add.commute)
qed simp

lemma page_params:
  assumes "1 \<le> l" "l \<le> 100" "int (k * l) < 2 ^ 63"
  shows "parseResultListParams (page_query l k) = (int l, int (k * l), [])"
proof -
  have "- (2 ^ 63) \<le> int (k * l)" by (rule order_trans [of _ 0]) simp_all
  then have "in_int64 (int l)" "in_int64 (int (k * l))" using assms by (simp_all add: in_int64_def)
  then have "parse_int64_value (itoa (int l)) = int l" "parse_int64_value (itoa (int (k * l))) = int (k * l)"
    using parse_int64_atoi atoi_itoa by blast+
  then show ?thesis using assms by (simp add: parseResultListParams_def page_query_def Let_def del: of_nat_mult)
qed

lemma page_ids:
  assumes "\<And>n. se_fault (rh_env h) n = None" "1 \<le> l" "l \<le> 100" "int (k * l) < 2 ^ 63"
  shows "ids_of (fst (ListResults h (page_query l k) ctx (rs, n))) =
    take l (drop (k * l) (map lt_ID (sort_key (\<lambda>r. - lt_CreatedAt r) (filter (buildLoadTestListQueries (rh_like h) (uc_UserID ctx) (uc_Role ctx) []) rs))))"
  using assms
  by (simp add: ListResults_def page_params ListLoadTests_def Let_def stmt_query_eq ids_of_def comp_def scanLoadTestSummary_def take_map drop_map
      del: of_nat_mult)



end
