(* ===== verification/Scripts.thy ===== *)
theory Scripts
  imports ScriptGen SummaryText Http
begin

text \<open>
  The end of \<^verbatim>\<open>controller/internal/scriptgen/scriptgen.go\<close>: what is done to the text of a script before it is written (removing its
  options, adding counters and the export of the summary), the warnings about a script and its configuration, the file with
  the environment, and the files of the shared directory; and the handler of \<^verbatim>\<open>controller/internal/handler/scripts.go\<close> that serves
  these files to the workers.

  The regular expressions of the source are written as matchers. They are followed by a literal that cannot be
  mistaken for what they repeat, so taking as much as possible is what the leftmost match does; the lazy parts take as
  little as possible. The JavaScript text that exports the summary is the parameter \<open>js\<close>. A write to a file fails
  with the error that \<open>fs\<close> gives for its name and then leaves the file as it is.
\<close>

subsection \<open>Matchers\<close>

definition re_space :: "char \<Rightarrow> bool" where
  "re_space c \<longleftrightarrow> of_char c \<in> {9, 10, 12, 13, 32 :: nat}"

definition re_word :: "char \<Rightarrow> bool" where
  "re_word c \<longleftrightarrow> (let n = of_char c :: nat in 48 \<le> n \<and> n \<le> 57 \<or> 65 \<le> n \<and> n \<le> 90 \<or> 97 \<le> n \<and> n \<le> 122 \<or> n = 95)"

definition quote1 :: char where
  "quote1 = CHR 0x27"

definition lit :: "string \<Rightarrow> string \<Rightarrow> string option" where
  "lit p s = (if has_prefix s p then Some (drop (length p) s) else None)"

definition spaces0 :: "string \<Rightarrow> string option" where
  "spaces0 s = Some (dropWhile re_space s)"

definition spaces1 :: "string \<Rightarrow> string option" where
  "spaces1 s = (case s of [] \<Rightarrow> None | c # r \<Rightarrow> if re_space c then Some (dropWhile re_space r) else None)"

definition lits :: "string list \<Rightarrow> string \<Rightarrow> string option" where
  "lits ps s = (case find (has_prefix s) ps of None \<Rightarrow> None | Some p \<Rightarrow> Some (drop (length p) s))"

fun seq :: "(string \<Rightarrow> string option) list \<Rightarrow> string \<Rightarrow> string option" where
  "seq [] s = Some s"
| "seq (m # ms) s = (case m s of None \<Rightarrow> None | Some r \<Rightarrow> seq ms r)"

fun at_line_start :: "(string \<Rightarrow> bool) \<Rightarrow> bool \<Rightarrow> string \<Rightarrow> bool" where
  "at_line_start P bol [] \<longleftrightarrow> bol \<and> P []"
| "at_line_start P bol (c # s) \<longleftrightarrow> bol \<and> P (c # s) \<or> at_line_start P (c = newline) s"

fun anywhere :: "(string \<Rightarrow> bool) \<Rightarrow> string \<Rightarrow> bool" where
  "anywhere P [] \<longleftrightarrow> P []"
| "anywhere P (c # s) \<longleftrightarrow> P (c # s) \<or> anywhere P s"

subsection \<open>Removing the options\<close>

definition options_header :: "string \<Rightarrow> string option" where
  "options_header = seq [lit ''export'', spaces1, lits [''const'', ''let'', ''var''], spaces1, lit ''options'', spaces0, lit ''='', spaces0, lit ''{'']"

fun space_newline :: "string \<Rightarrow> string option" where
  "space_newline [] = None"
| "space_newline (c # s) = (if c = newline then Some s else if re_space c then space_newline s else None)"

fun options_end :: "bool \<Rightarrow> string \<Rightarrow> string option" where
  "options_end bol [] = None"
| "options_end bol (c # s) =
    (case (if bol then seq [lit ''};'', space_newline] (c # s) else None) of
       Some r \<Rightarrow> Some r
     | None \<Rightarrow> options_end (c = newline) s)"

definition options_block :: "string \<Rightarrow> string option" where
  "options_block s = (case options_header s of None \<Rightarrow> None | Some r \<Rightarrow> options_end False r)"

lemma lit_shorter: "lit p s = Some r \<Longrightarrow> p \<noteq> [] \<Longrightarrow> length r < length s"
  by (cases s; cases p) (auto simp: lit_def has_prefix_def split: if_splits)

lemma lit_length: "lit p s = Some r \<Longrightarrow> length r \<le> length s"
  by (auto simp: lit_def split: if_splits)

lemma lits_length: "lits ps s = Some r \<Longrightarrow> length r \<le> length s"
  by (auto simp: lits_def split: option.splits)

lemma spaces_length: "spaces0 s = Some r \<Longrightarrow> length r \<le> length s" "spaces1 s = Some r \<Longrightarrow> length r \<le> length s"
  by (auto simp: spaces0_def spaces1_def length_dropWhile_le le_SucI split: list.splits if_splits)

lemma space_newline_length: "space_newline s = Some r \<Longrightarrow> length r \<le> length s"
  by (induction s) (auto split: if_splits)

lemma options_end_length: "options_end bol s = Some r \<Longrightarrow> length r \<le> length s"
proof (induction bol s rule: options_end.induct)
  case (2 bol c s)
  have "length r \<le> length (c # s)" if "seq [lit ''};'', space_newline] (c # s) = Some r"
    using that lit_length space_newline_length order_trans by (fastforce split: option.splits)
  then show ?case using 2 by (force split: option.splits if_splits)
qed simp

lemma options_header_shorter:
  assumes "options_header s = Some r"
  shows "length r < length s"
proof -
  obtain r1 where r1: "lit ''export'' s = Some r1"
    "seq [spaces1, lits [''const'', ''let'', ''var''], spaces1, lit ''options'', spaces0, lit ''='', spaces0, lit ''{''] r1 = Some r"
    using assms by (auto simp: options_header_def split: option.splits)
  have "length r \<le> length r1"
    using r1(2) by (auto split: option.splits dest!: lit_length lits_length spaces_length)
  then show ?thesis using lit_shorter [OF r1(1)] by simp
qed

lemma options_block_shorter: "options_block s = Some r \<Longrightarrow> length r < length s"
  using options_header_shorter options_end_length by (fastforce simp: options_block_def split: option.splits)

function strip_options :: "bool \<Rightarrow> string \<Rightarrow> string" where
  "strip_options bol s =
    (case (if bol then options_block s else None) of
       Some rest \<Rightarrow> strip_options True rest
     | None \<Rightarrow> (case s of [] \<Rightarrow> [] | c # r \<Rightarrow> c # strip_options (c = newline) r))"
  by pat_completeness auto

termination
proof (relation "measure (\<lambda>(bol, s). length s)")
  fix bol s rest
  assume "(if bol then options_block s else None) = Some rest"
  then show "((True, rest), bol, s) \<in> measure (\<lambda>(bol, s). length s)" using options_block_shorter by (auto split: if_splits)
qed auto

declare strip_options.simps [simp del]

definition StripScriptOptions :: "string \<Rightarrow> string" where
  "StripScriptOptions script = strip_options True script"

subsection \<open>Adding counters and the export of the summary\<close>

definition metrics_import :: string where
  "metrics_import = quote1 # ''k6/metrics'' @ [quote1]"

definition import_match :: "string \<Rightarrow> (string \<times> string \<times> string \<times> string) option" where
  "import_match s =
    (case seq [lit ''import'', spaces0, lit ''{''] s of
       None \<Rightarrow> None
     | Some r1 \<Rightarrow>
        (let mid = takeWhile (\<lambda>c. c \<noteq> CHR ''}'') r1; r2 = dropWhile (\<lambda>c. c \<noteq> CHR ''}'') r1
         in case seq [lit ''}'', spaces0, lit ''from'', spaces0, lit metrics_import] r2 of
              None \<Rightarrow> None
            | Some rest \<Rightarrow> Some (take (length s - length r1) s, mid, take (length r2 - length rest) r2, rest)))"

definition with_counter :: "string \<Rightarrow> string \<Rightarrow> string \<Rightarrow> string" where
  "with_counter p1 mid p3 =
    (let existing = trim_space mid; existing' = (if existing \<noteq> [] \<and> \<not> has_suffix existing '','' then existing @ '','' else existing)
     in p1 @ '' '' @ existing' @ '' Counter '' @ p3)"

lemma import_match_shorter: "import_match s = Some (p1, mid, p3, rest) \<Longrightarrow> length rest < length s"
proof -
  assume "import_match s = Some (p1, mid, p3, rest)"
  then obtain r1 where r1: "seq [lit ''import'', spaces0, lit ''{''] s = Some r1"
    "seq [lit ''}'', spaces0, lit ''from'', spaces0, lit metrics_import] (dropWhile (\<lambda>c. c \<noteq> CHR ''}'') r1) = Some rest"
    by (auto simp: import_match_def Let_def split: option.splits)
  obtain r0 where r0: "lit ''import'' s = Some r0" "seq [spaces0, lit ''{''] r0 = Some r1" using r1(1) by (auto split: option.splits)
  have "length r1 \<le> length r0" using r0(2) by (auto split: option.splits dest!: lit_length spaces_length)
  moreover have "length rest \<le> length (dropWhile (\<lambda>c. c \<noteq> CHR ''}'') r1)"
    using r1(2) by (auto split: option.splits dest!: lit_length spaces_length)
  moreover have "length (dropWhile (\<lambda>c. c \<noteq> CHR ''}'') r1) \<le> length r1" by (rule length_dropWhile_le)
  ultimately show ?thesis using lit_shorter [OF r0(1)] by simp
qed

function add_counter_import :: "string \<Rightarrow> string" where
  "add_counter_import s =
    (case import_match s of
       Some (p1, mid, p3, rest) \<Rightarrow> with_counter p1 mid p3 @ add_counter_import rest
     | None \<Rightarrow> (case s of [] \<Rightarrow> [] | c # r \<Rightarrow> c # add_counter_import r))"
  by pat_completeness auto

termination
  by (relation "measure length") (auto dest: import_match_shorter)

declare add_counter_import.simps [simp del]

definition counterDefs :: string where
  "counterDefs =
    newline # ''const status4xx = new Counter('' @ quote1 # ''status_4xx'' @ quote1 # '');'' @
    newline # ''const status5xx = new Counter('' @ quote1 # ''status_5xx'' @ quote1 # '');'' @ [newline]"

definition is_import :: "string \<Rightarrow> bool" where
  "is_import line = has_prefix (trim_space line) ''import ''"

text \<open>The lines up to the last one that imports, the definitions, and the lines after it.\<close>

definition insert_after_imports :: "string list \<Rightarrow> string list" where
  "insert_after_imports ls =
    (let after = rev (takeWhile (\<lambda>l. \<not> is_import l) (rev ls))
     in take (length ls - length after) ls @ counterDefs # after)"

definition InjectStatusCounters :: "string \<Rightarrow> string" where
  "InjectStatusCounters content =
    (if contains content ''status_4xx'' \<or> contains content ''status_5xx'' then content
     else
       (let from_metrics = contains content (''from '' @ metrics_import);
            content1 = (if from_metrics \<and> \<not> contains content ''Counter'' then add_counter_import content
                        else if \<not> from_metrics then ''import { Counter } from '' @ metrics_import @ '';'' @ newline # content
                        else content);
            ls = split_char newline content1
        in if list_ex is_import ls then join [newline] (insert_after_imports ls) else counterDefs @ content1))"

fun from_http :: "string \<Rightarrow> bool" where
  "from_http [] \<longleftrightarrow> False"
| "from_http (c # s) \<longleftrightarrow>
    seq [lit ''from'', spaces1, lits [''\"'', [quote1]], lit ''k6/http'', lits [''\"'', [quote1]]] (c # s) \<noteq> None \<or> c \<noteq> newline \<and> from_http s"

definition http_import :: "string \<Rightarrow> bool" where
  "http_import s =
    (case seq [spaces0, lit ''import'', spaces1, lit ''http''] s of
       None \<Rightarrow> False
     | Some r \<Rightarrow> (case r of [] \<Rightarrow> True | c # _ \<Rightarrow> \<not> re_word c) \<and> from_http r)"

definition InjectSummaryExport :: "string \<Rightarrow> string \<Rightarrow> string" where
  "InjectSummaryExport js content =
    (if contains content ''handleSummary'' then content
     else (if at_line_start http_import True content then content
           else ''import http from '' @ quote1 # ''k6/http'' @ quote1 # '';'' @ newline # content) @ js)"

subsection \<open>Conflicts\<close>

definition script_options_keys :: "string list" where
  "script_options_keys = [''stages'', ''vus'', ''duration'', ''thresholds'', ''iterations'', ''scenarios'']"

definition warning :: "string \<Rightarrow> string \<Rightarrow> conflict_warning" where
  "warning t msg = \<lparr>cw_Type = t, cw_Message = msg\<rparr>"

definition redundancy_warnings :: "string \<Rightarrow> json_obj \<Rightarrow> conflict_warning list" where
  "redundancy_warnings script config =
    (if \<not> (contains script ''export const options'' \<or> contains script ''export let options'' \<or> contains script ''export var options'') then []
     else
       (let ws = map (\<lambda>k. warning ''redundancy'' (quote1 # k @ quote1 #
                   '' is defined in both the script options and the config file. The config file takes precedence.''))
                 (filter (\<lambda>k. map_of config k \<noteq> None \<and> contains script k) script_options_keys)
        in if ws = [] \<and> list_ex (\<lambda>(k, _). k \<in> set script_options_keys) config
           then [warning ''redundancy'' (''The script contains an '' @ quote1 # ''export options'' @ quote1 #
                   '' block. Config file values will override matching script options.'')]
           else ws))"

definition exports_function :: "string \<Rightarrow> string \<Rightarrow> bool" where
  "exports_function script exec \<longleftrightarrow>
    anywhere (\<lambda>s. seq [lit ''export'', spaces1, lits [''function'', ''const'', ''let'', ''var''], spaces1, lit exec] s \<noteq> None) script \<or>
    contains script (''export function '' @ exec)"

definition entry_warnings :: "string \<Rightarrow> json_obj \<Rightarrow> conflict_warning list" where
  "entry_warnings script config =
    (case as_obj (map_of config ''scenarios'') of
       None \<Rightarrow> []
     | Some m \<Rightarrow>
        concat (map (\<lambda>(name, sc).
          case Option.bind (as_obj (Some sc)) (\<lambda>o1. as_str (map_of o1 ''exec'')) of
            None \<Rightarrow> []
          | Some exec \<Rightarrow>
             if exec \<noteq> ''default'' \<and> \<not> exports_function script exec
             then [warning ''entry_point'' (''Scenario '' @ quote1 # name @ quote1 # '' references exec function '' @ quote1 # exec @ quote1 #
                     '' which is not exported in the script.'')]
             else []) m))"

definition builtin_metrics :: "string list" where
  "builtin_metrics =
    [''http_req_duration'', ''http_req_failed'', ''http_req_waiting'', ''http_req_connecting'', ''http_req_tls_handshaking'', ''http_req_sending'',
     ''http_req_receiving'', ''http_req_blocked'', ''http_reqs'', ''vus'', ''vus_max'', ''iterations'', ''iteration_duration'', ''data_received'',
     ''data_sent'', ''checks'', ''group_duration'', ''status_4xx'', ''status_5xx'', ''errors'', ''success_rate'']"

definition metric_warnings :: "string \<Rightarrow> json_obj \<Rightarrow> conflict_warning list" where
  "metric_warnings script config =
    (case as_obj (map_of config ''thresholds'') of
       None \<Rightarrow> []
     | Some m \<Rightarrow>
        concat (map (\<lambda>(metric, _).
          let base = takeWhile (\<lambda>c. c \<noteq> CHR ''{'') metric
          in if base \<notin> set builtin_metrics \<and> \<not> contains script base
             then [warning ''metric_consistency'' (''Threshold references metric '' @ quote1 # base @ quote1 # '' which does not appear in the script.'')]
             else []) m))"

text \<open>
  The configuration is given as the object that its text decodes to. The warnings about scenarios and about metrics come in
  the order of a Go map, that is in any order.
\<close>

definition CheckConflicts :: "string \<Rightarrow> json_obj \<Rightarrow> conflict_warning list" where
  "CheckConflicts script config = redundancy_warnings script config @ entry_warnings script config @ metric_warnings script config"

subsection \<open>The file with the environment\<close>

definition b64_char :: "nat \<Rightarrow> char" where
  "b64_char n =
    (if n < 26 then char_of (65 + n) else if n < 52 then char_of (97 + (n - 26)) else if n < 62 then char_of (48 + (n - 52))
     else if n = 62 then CHR ''+'' else CHR ''/'')"

fun base64 :: "nat list \<Rightarrow> string" where
  "base64 [] = []"
| "base64 [a] = [b64_char (a div 4), b64_char (a mod 4 * 16), CHR ''='', CHR ''='']"
| "base64 [a, b] = [b64_char (a div 4), b64_char (a mod 4 * 16 + b div 16), b64_char (b mod 16 * 4), CHR ''='']"
| "base64 (a # b # c # s) =
    [b64_char (a div 4), b64_char (a mod 4 * 16 + b div 16), b64_char (b mod 16 * 4 + c div 64), b64_char (c mod 64)] @ base64 s"

fun escape1 :: "string \<Rightarrow> string" where
  "escape1 [] = []"
| "escape1 (c # s) = (if c = quote1 then [quote1, CHR 0x5C, quote1, quote1] else [c]) @ escape1 s"

definition env_entry :: "string \<times> string \<Rightarrow> string \<times> string" where
  "env_entry kv =
    (case kv of (k, v) \<Rightarrow>
      if k = ''PAYLOAD_SOURCE_JSON'' \<and> trim_space v \<noteq> [] then (''PAYLOAD_SOURCE_JSON_B64'', base64 (map of_char v)) else (k, v))"

definition export_line :: "string \<times> string \<Rightarrow> string" where
  "export_line kv = (case env_entry kv of (k, v) \<Rightarrow> ''export '' @ k @ ''='' @ quote1 # escape1 v @ [quote1, newline])"

definition flags_line :: "string \<times> string \<Rightarrow> string" where
  "flags_line kv = (case env_entry kv of (k, v) \<Rightarrow> ''K6_ENV_FLAGS=\"$K6_ENV_FLAGS -e '' @ k @ ''='' @ quote1 # escape1 v @ quote1 # ''\"'' @ [newline])"

definition env_text :: "(string \<times> string) list \<Rightarrow> string" where
  "env_text vars = concat (map (\<lambda>kv. export_line kv @ flags_line kv) vars)"

subsection \<open>The shared directory\<close>

record scripts_dir =
  sd_script :: "string option"
  sd_config :: "string option"
  sd_env :: "string option"

abbreviation (input) script_file :: string where "script_file \<equiv> ''current-test.js''"
abbreviation (input) config_file :: string where "config_file \<equiv> ''config.json''"
abbreviation (input) env_file :: string where "env_file \<equiv> ''k6-env.sh''"

definition file_op :: "(string \<Rightarrow> string option) \<Rightarrow> string \<Rightarrow> (scripts_dir \<Rightarrow> scripts_dir) \<Rightarrow> scripts_dir \<Rightarrow> unit res \<times> scripts_dir" where
  "file_op fs name f d = (case fs name of Some e \<Rightarrow> (Inl e, d) | None \<Rightarrow> (Inr (), f d))"

definition WriteScript :: "(string \<Rightarrow> string option) \<Rightarrow> string \<Rightarrow> scripts_dir \<Rightarrow> unit res \<times> scripts_dir" where
  "WriteScript fs content = file_op fs script_file (\<lambda>d. d\<lparr>sd_script := Some content\<rparr>)"

definition WriteConfig :: "(string \<Rightarrow> string option) \<Rightarrow> string \<Rightarrow> scripts_dir \<Rightarrow> unit res \<times> scripts_dir" where
  "WriteConfig fs content = file_op fs config_file (\<lambda>d. d\<lparr>sd_config := Some content\<rparr>)"

definition RemoveConfig :: "(string \<Rightarrow> string option) \<Rightarrow> scripts_dir \<Rightarrow> unit res \<times> scripts_dir" where
  "RemoveConfig fs d = (if sd_config d = None then (Inr (), d) else file_op fs config_file (\<lambda>d. d\<lparr>sd_config := None\<rparr>) d)"

definition RemoveEnvFile :: "(string \<Rightarrow> string option) \<Rightarrow> scripts_dir \<Rightarrow> unit res \<times> scripts_dir" where
  "RemoveEnvFile fs d = (if sd_env d = None then (Inr (), d) else file_op fs env_file (\<lambda>d. d\<lparr>sd_env := None\<rparr>) d)"

definition WriteEnvFile :: "(string \<Rightarrow> string option) \<Rightarrow> (string \<times> string) list \<Rightarrow> scripts_dir \<Rightarrow> unit res \<times> scripts_dir" where
  "WriteEnvFile fs vars d = (if vars = [] then RemoveEnvFile fs d else file_op fs env_file (\<lambda>d. d\<lparr>sd_env := Some (env_text vars)\<rparr>) d)"

text \<open>\<open>js\<close> is the text of the default script.\<close>

definition EnsureDefault :: "(string \<Rightarrow> string option) \<Rightarrow> string \<Rightarrow> scripts_dir \<Rightarrow> unit res \<times> scripts_dir" where
  "EnsureDefault fs js d = (if sd_script d \<noteq> None then (Inr (), d) else WriteScript fs js d)"

text \<open>
  \<^verbatim>\<open>ServeScript\<close>: only three names are served, and each of them is a plain file name, so the checks of the path always
  pass. The content comes with its type; \<open>fs\<close> gives the error of opening a file that exists.
\<close>

definition allowedScriptFiles :: "(string \<times> string) list" where
  "allowedScriptFiles = [(script_file, ''application/javascript''), (config_file, ''application/json''), (env_file, ''text/x-shellscript'')]"

definition file_content :: "string \<Rightarrow> scripts_dir \<Rightarrow> string option" where
  "file_content name d = (if name = script_file then sd_script d else if name = config_file then sd_config d else if name = env_file then sd_env d else None)"

definition ServeScript :: "(string \<Rightarrow> string option) \<Rightarrow> string \<Rightarrow> scripts_dir \<Rightarrow> (string \<times> string) response" where
  "ServeScript fs filename d =
    (case map_of allowedScriptFiles filename of
       None \<Rightarrow> HttpError ''not found'' 404
     | Some contentType \<Rightarrow>
        (case file_content filename d of
           None \<Rightarrow> HttpError ''not found'' 404
         | Some content \<Rightarrow> (case fs filename of Some e \<Rightarrow> HttpError ''internal error'' 500 | None \<Rightarrow> HttpJson 200 (contentType, content))))"

subsection \<open>Properties\<close>

text \<open>How a shell reads a word of single-quoted parts and escaped characters.\<close>

fun sh_word :: "bool \<Rightarrow> string \<Rightarrow> string option" where
  "sh_word quoted [] = (if quoted then None else Some [])"
| "sh_word True (c # s) = (if c = quote1 then sh_word False s else map_option (Cons c) (sh_word True s))"
| "sh_word False (c # s) =
    (if c = quote1 then sh_word True s
     else if c = CHR 0x5C then (case s of [] \<Rightarrow> None | d # r \<Rightarrow> map_option (Cons d) (sh_word False r))
     else map_option (Cons c) (sh_word False s))"

lemma sh_word_escape: "sh_word True (escape1 v @ s) = map_option ((@) v) (sh_word True s)"
proof (induction v)
  case (Cons c v)
  have "quote1 \<noteq> CHR 0x5C" by (simp add: quote1_def)
  then show ?case using Cons by (auto simp: option.map_comp comp_def option.map_id0 cong: map_option_cong)
qed (simp add: option.map_ident)

text \<open>
  The line that exports a variable to the script is read back by the shell: whatever characters the value has, the quoted
  word is the value, so no value can end the quotation and add commands.
\<close>

theorem exported_value_is_read_back:
  "\<exists>w. export_line (k, v) = ''export '' @ fst (env_entry (k, v)) @ ''='' @ w @ [newline] \<and> sh_word False w = Some (snd (env_entry (k, v)))"
  by (rule exI [of _ "quote1 # escape1 (snd (env_entry (k, v))) @ [quote1]"]) (simp add: export_line_def sh_word_escape split: prod.split)

end
