(* ===== verification/TestRun.thy ===== *)
theory TestRun
  imports Enrichment Scripts Overlap
begin

text \<open>
  The life of a test in \<^verbatim>\<open>controller/internal/handler/test.go\<close>: preparing and starting it, watching and controlling it, collecting
  its artifacts and storing its result.

  The state is the record \<open>test_handler\<close>: the table of load tests, the registry of uploads, the orchestrator, the information kept
  for the running test, the two shared directories, and the calls of the scheduler's notifier. The record \<open>run_env\<close> holds what
  comes from outside during one call: the libraries, the failures of statements and of file operations, the replies of the
  workers, the generated identifiers. A panic is \<open>None\<close>; the state after it is not described.

  The collection of artifacts polls until a deadline while other goroutines go on: step \<open>n\<close> of the wait gives the time of the
  attempt, what the others have done to the handler before it, and whether the context has been cancelled. It is a function
  that need not return; that it does is a theorem of \<open>TestRunProofs\<close>.

  The metrics, the metadata and the pointers in them are shared between the orchestrator, the collected data and the result. The
  result and the data get the changes made through any of them; the orchestrator's own reference to the metrics is not read again
  before the next run resets it, and does not get them. Logging is left out.
\<close>

subsection \<open>State and environment\<close>

record pending_info =
  pt_Meta :: test_metadata
  pt_Warnings :: "conflict_warning list"
  pt_Executor :: string
  pt_Controllable :: bool

record exec_prep =
  ep_scriptContent :: string
  ep_configContent :: string
  ep_conflictWarnings :: "conflict_warning list"
  ep_configStages :: "stage list"
  ep_envVars :: "(string \<times> string) list"
  ep_executorType :: executor_type
  ep_controllable :: bool
  ep_payload :: "payload_artifacts option"

record completion_data =
  cd_metrics :: "aggregated_metrics option"
  cd_timeSeries :: "time_point list"
  cd_metadata :: test_metadata
  cd_warnings :: "conflict_warning list"

record test_handler =
  th_tests :: "load_test table"
  th_registry :: registry
  th_orch :: orch
  th_pending :: "string \<rightharpoonup> pending_info"
  th_scripts :: scripts_dir
  th_output :: out_dir
  th_controllerURL :: string
  th_notifier :: bool
  th_notified :: "(string \<times> string \<times> string) list"
  th_loops :: "poll_loop list"

record run_env =
  en_store :: store_env
  en_json :: json_lib
  en_url :: url_lib
  en_codec :: result_codec
  en_render :: renderer
  en_buffer :: int
  en_summaryJS :: string
  en_indent :: "json_obj \<Rightarrow> string"
  en_fs :: "string \<Rightarrow> string option"
  en_removable :: "string \<Rightarrow> bool"
  en_outputDir :: string
  en_token :: string
  en_stopOrder :: "nat list"
  en_stop :: "nat \<Rightarrow> k6_status http_reply"
  en_rounds :: "(nat \<Rightarrow> k6_status http_reply) list"
  en_start :: "nat \<Rightarrow> start_env"
  en_metrics :: "nat \<Rightarrow> metrics_data http_reply"

abbreviation en_now :: "run_env \<Rightarrow> time" where
  "en_now env \<equiv> se_now (en_store env)"

definition NewTestHandler :: "orch \<Rightarrow> registry option \<Rightarrow> string \<Rightarrow> test_handler" where
  "NewTestHandler orch1 reg url =
    \<lparr>th_tests = ([], 0), th_registry = (case reg of None \<Rightarrow> NewRegistry | Some r \<Rightarrow> r), th_orch = orch1, th_pending = Map.empty,
     th_scripts = \<lparr>sd_script = None, sd_config = None, sd_env = None\<rparr>, th_output = [],
     th_controllerURL = (if trim_space url = [] then ''http://controller:8080'' else url), th_notifier = False, th_notified = [], th_loops = []\<rparr>"

definition SetScheduleCompletionNotifier :: "test_handler \<Rightarrow> test_handler" where
  "SetScheduleCompletionNotifier h = h\<lparr>th_notifier := True\<rparr>"

definition set_phase :: "test_phase \<Rightarrow> string \<Rightarrow> test_handler \<Rightarrow> test_handler" where
  "set_phase p msg h = h\<lparr>th_orch := SetPhase p msg (th_orch h)\<rparr>"

abbreviation active :: "test_handler \<Rightarrow> string" where
  "active h \<equiv> o_activeTestID (th_orch h)"

definition stop_workers :: "run_env \<Rightarrow> test_handler \<Rightarrow> test_handler" where
  "stop_workers env h = h\<lparr>th_orch := snd (StopAll (en_stopOrder env) (en_stop env) (th_orch h))\<rparr>"

definition stop_ramping :: "test_handler \<Rightarrow> test_handler" where
  "stop_ramping h = h\<lparr>th_orch := (th_orch h)\<lparr>o_Ramping := Stop_ramp (o_Ramping (th_orch h))\<rparr>\<rparr>"

definition save_test :: "run_env \<Rightarrow> string \<Rightarrow> string \<Rightarrow> string option \<Rightarrow> test_handler \<Rightarrow> test_handler" where
  "save_test env testID status resultJSON h =
    h\<lparr>th_tests := snd (UpdateLoadTestResult (en_store env) testID status resultJSON (th_tests h))\<rparr>"

definition remove_run :: "time \<Rightarrow> string \<Rightarrow> test_handler \<Rightarrow> test_handler" where
  "remove_run now testID h = h\<lparr>th_registry := RemoveRun now testID (th_registry h)\<rparr>"

subsection \<open>Information about the running test\<close>

definition savePendingMeta ::
  "run_env \<Rightarrow> string \<Rightarrow> test_request \<Rightarrow> conflict_warning list \<Rightarrow> executor_type \<Rightarrow> bool \<Rightarrow> payload_artifacts option \<Rightarrow> test_handler \<Rightarrow> test_handler" where
  "savePendingMeta env testID req warnings executorType controllable payload h =
    h\<lparr>th_pending := (th_pending h)(testID \<mapsto>
      \<lparr>pt_Meta = zero_metadata\<lparr>md_Stages := req_Stages req, md_ScriptURL := req_URL req, md_Payload := newPayloadMetadata payload,
         md_Auth := newAuthMetadata (en_url env) (authConfigFromRuntimeInput (req_Auth req))\<rparr>,
       pt_Warnings = warnings, pt_Executor = executor_str executorType, pt_Controllable = controllable\<rparr>)\<rparr>"

definition takePendingMeta :: "string \<Rightarrow> test_handler \<Rightarrow> (test_metadata \<times> conflict_warning list) option \<times> test_handler" where
  "takePendingMeta testID h =
    (case th_pending h testID of
       None \<Rightarrow> (None, h)
     | Some p \<Rightarrow> (Some (pt_Meta p, pt_Warnings p), h\<lparr>th_pending := (th_pending h)(testID := None)\<rparr>))"

definition mergePendingMeta :: "string \<Rightarrow> test_metadata \<Rightarrow> test_handler \<Rightarrow> (test_metadata \<times> conflict_warning list) \<times> test_handler" where
  "mergePendingMeta testID md h =
    (case takePendingMeta testID h of
       (None, h1) \<Rightarrow> ((md, []), h1)
     | (Some (p, warnings), h1) \<Rightarrow>
        ((md\<lparr>md_Stages := md_Stages p, md_ScriptURL := md_ScriptURL p, md_Payload := md_Payload p, md_Auth := md_Auth p\<rparr>, warnings), h1))"

subsection \<open>Preparing a test\<close>

definition prep_script :: "run_env \<Rightarrow> test_request \<Rightarrow> int \<Rightarrow> (string \<times> executor_type) res" where
  "prep_script env req workers =
    (if req_ScriptContent req \<noteq> []
     then (case ValidateUpload (req_ScriptContent req) of
             Some e \<Rightarrow> Inl (''invalid script: '' @ e)
           | None \<Rightarrow> Inr (req_ScriptContent req, DetectExecutorFromScript (req_ScriptContent req)))
     else (case GenerateFromBuilder (en_render env) (en_buffer env) req workers of
             Inl e \<Rightarrow> Inl (''script generation failed: '' @ e)
           | Inr r \<Rightarrow> Inr (br_Script r, br_ExecutorType r)))"

definition prep_config :: "run_env \<Rightarrow> test_request \<Rightarrow> string res option" where
  "prep_config env req =
    (if req_URL req = [] then Some (Inr (req_ConfigContent req))
     else if trim_space (req_ConfigContent req) = []
     then map_option (wrap_err ''failed to generate builder config'') (BuildBuilderConfig (en_json env) req)
     else map_option (wrap_err ''failed to enrich builder config'') (EnrichBuilderConfig (en_json env) (req_ConfigContent req) req))"

definition prep_payload :: "run_env \<Rightarrow> test_request \<Rightarrow> payload_artifacts option res option" where
  "prep_payload env req =
    (if req_URL req = [] then Some (Inr None)
     else map_option (\<lambda>r. case r of Inl e \<Rightarrow> Inl (''invalid builder payload: '' @ e) | Inr p \<Rightarrow> Inr (Some p))
            (BuildBuilderPayloadArtifacts (en_json env) req))"

text \<open>
  The configuration with its warnings; the second component is the processed configuration that is written. The conflicts are
  checked on the text of it, which decodes to the same object.
\<close>

definition apply_config :: "run_env \<Rightarrow> test_request \<Rightarrow> int \<Rightarrow> string \<Rightarrow> exec_prep \<Rightarrow> (exec_prep \<times> json_obj option) res" where
  "apply_config env req workers configContent p =
    (if configContent = [] then Inr (p, None)
     else (case ValidateAndProcessConfig (en_json env) (en_buffer env) configContent workers of
             Inl e \<Rightarrow> Inl (''invalid config: '' @ e)
           | Inr pc \<Rightarrow>
              (let p1 = p\<lparr>ep_configContent := configContent, ep_configStages := pc_Stages pc, ep_envVars := pc_EnvVars pc,
                          ep_conflictWarnings := CheckConflicts (ep_scriptContent p) (pc_Options pc)\<rparr>
               in Inr (if req_ScriptContent req \<noteq> []
                       then p1\<lparr>ep_executorType := pc_ExecutorType pc, ep_controllable := IsControllable (pc_ExecutorType pc)\<rparr> else p1,
                       Some (pc_Options pc)))))"

definition add_run_env :: "test_request \<Rightarrow> exec_prep \<Rightarrow> exec_prep" where
  "add_run_env req p =
    (if req_URL req = [] then p
     else (let vars = AList.update ''TARGET_URL'' (req_URL req) (ep_envVars p);
               secret = trim_space (ai_ClientSecret (req_Auth req))
           in p\<lparr>ep_envVars := (if ai_Enabled (req_Auth req) \<and> secret \<noteq> [] then AList.update ''AUTH_CLIENT_SECRET'' secret vars else vars)\<rparr>))"

definition prepare :: "run_env \<Rightarrow> test_request \<Rightarrow> int \<Rightarrow> (exec_prep \<times> json_obj option) res option" where
  "prepare env req workers =
    (case prep_script env req workers of
       Inl e \<Rightarrow> Some (Inl e)
     | Inr (script, executorType) \<Rightarrow>
        (case prep_config env req of
           None \<Rightarrow> None
         | Some (Inl e) \<Rightarrow> Some (Inl e)
         | Some (Inr configContent) \<Rightarrow>
            (case prep_payload env req of
               None \<Rightarrow> None
             | Some (Inl e) \<Rightarrow> Some (Inl e)
             | Some (Inr payload) \<Rightarrow>
                Some (bind_res
                  (apply_config env req workers configContent
                    \<lparr>ep_scriptContent = (if req_ScriptContent req = [] \<and> configContent \<noteq> [] then StripScriptOptions script else script),
                     ep_configContent = [], ep_conflictWarnings = [], ep_configStages = [], ep_envVars = [], ep_executorType = executorType,
                     ep_controllable = IsControllable executorType, ep_payload = payload\<rparr>)
                  (\<lambda>(p, options). Inr (add_run_env req p, options))))))"

definition write_config :: "run_env \<Rightarrow> json_obj option \<Rightarrow> scripts_dir \<Rightarrow> unit res \<times> scripts_dir" where
  "write_config env options d =
    (case options of
       None \<Rightarrow> (Inr (), snd (RemoveConfig (en_fs env) d))
     | Some obj \<Rightarrow> (case WriteConfig (en_fs env) (en_indent env obj) d of (r, d1) \<Rightarrow> (wrap_err ''failed to write config'' r, d1)))"

definition write_env :: "run_env \<Rightarrow> (string \<times> string) list \<Rightarrow> scripts_dir \<Rightarrow> unit res \<times> scripts_dir" where
  "write_env env vars d =
    (if vars \<noteq> [] then (case WriteEnvFile (en_fs env) vars d of (r, d1) \<Rightarrow> (wrap_err ''failed to write env file'' r, d1))
     else (Inr (), snd (RemoveEnvFile (en_fs env) d)))"

definition write_files :: "run_env \<Rightarrow> json_obj option \<Rightarrow> exec_prep \<Rightarrow> scripts_dir \<Rightarrow> exec_prep res \<times> scripts_dir" where
  "write_files env options p d =
    (case write_config env options d of
       (Inl e, d1) \<Rightarrow> (Inl e, d1)
     | (Inr _, d1) \<Rightarrow>
        (case write_env env (ep_envVars p) d1 of
           (Inl e, d2) \<Rightarrow> (Inl e, d2)
         | (Inr _, d2) \<Rightarrow>
            (let p1 = p\<lparr>ep_scriptContent := InjectStatusCounters (ep_scriptContent p)\<rparr>
             in case WriteScript (en_fs env) (InjectSummaryExport (en_summaryJS env) (ep_scriptContent p1)) d2 of
                  (Inl e, d3) \<Rightarrow> (Inl (''failed to write script: '' @ e), d3)
                | (Inr _, d3) \<Rightarrow> (Inr p1, d3))))"

definition prepareExecution :: "run_env \<Rightarrow> test_request \<Rightarrow> test_handler \<Rightarrow> (exec_prep res \<times> test_handler) option" where
  "prepareExecution env req h =
    (let h1 = set_phase PhaseScript ''Preparing k6 script...'' h
     in case prepare env req (int (WorkerCount (th_orch h))) of
          None \<Rightarrow> None
        | Some (Inl e) \<Rightarrow> Some (Inl e, h1)
        | Some (Inr (p, options)) \<Rightarrow>
           (case write_files env options p (th_scripts h1) of (r, d) \<Rightarrow> Some (r, h1\<lparr>th_scripts := d\<rparr>)))"

definition effectiveTestURL :: "test_request \<Rightarrow> (string \<times> string) list \<Rightarrow> string" where
  "effectiveTestURL req vars =
    (let var = (\<lambda>k. case map_of vars k of None \<Rightarrow> [] | Some v \<Rightarrow> v)
     in if req_URL req \<noteq> [] then req_URL req else if var ''TARGET_URL'' \<noteq> [] then var ''TARGET_URL'' else var ''BASE_URL'')"

definition expectedRuntimeForExecution :: "run_env \<Rightarrow> test_request \<Rightarrow> exec_prep \<Rightarrow> duration" where
  "expectedRuntimeForExecution env req p =
    (if ep_controllable p then 0
     else if trim_space (ep_configContent p) \<noteq> [] then EstimateConfiguredExecutionDuration (en_json env) (ep_configContent p)
     else (case ep_executorType p of
             ConstantArrivalRate \<Rightarrow> (if trim_space (req_Duration req) = [] then minute else wrap64 (ParseK6Duration (req_Duration req) * second))
           | RampingArrivalRate \<Rightarrow> wrap64 (total_secs 0 (map stg_Duration (req_Stages req)) * second)
           | _ \<Rightarrow> 0))"

subsection \<open>Starting a test\<close>

definition new_load_test :: "string \<Rightarrow> test_request \<Rightarrow> int \<Rightarrow> string \<Rightarrow> exec_prep \<Rightarrow> load_test" where
  "new_load_test testID req uid username p =
    zero_load_test\<lparr>lt_ID := testID, lt_ProjectName := req_ProjectName req, lt_URL := effectiveTestURL req (ep_envVars p), lt_Status := ''running'',
      lt_Executor := req_Executor req, lt_Stages := req_Stages req, lt_VUs := req_VUs req, lt_Duration := req_Duration req, lt_Rate := req_Rate req,
      lt_TimeUnit := req_TimeUnit req, lt_PreAllocatedVUs := req_PreAllocatedVUs req, lt_MaxVUs := req_MaxVUs req,
      lt_SleepSeconds := req_SleepSeconds req, lt_ScriptContent := ep_scriptContent p, lt_ConfigContent := ep_configContent p,
      lt_PayloadSourceJSON := req_PayloadJSON req, lt_HTTPMethod := req_HTTPMethod req, lt_ContentType := req_ContentType req,
      lt_AuthConfig := authConfigFromRuntimeInput (req_Auth req), lt_UserID := uid, lt_Username := username,
      lt_PayloadContent := (case ep_payload p of None \<Rightarrow> [] | Some a \<Rightarrow> pa_Content a)\<rparr>"

definition createRunningLoadTest ::
  "run_env \<Rightarrow> test_request \<Rightarrow> int \<Rightarrow> string \<Rightarrow> exec_prep \<Rightarrow> test_handler \<Rightarrow> string res \<times> test_handler" where
  "createRunningLoadTest env req uid username p h =
    (let testID = se_uuid (en_store env) (snd (th_tests h))
     in case CreateLoadTest (en_store env) (new_load_test testID req uid username p) (th_tests h) of
          (Inl e, tab) \<Rightarrow> (Inl (''failed to create load test record: '' @ e), h\<lparr>th_tests := tab\<rparr>)
        | (Inr _, tab) \<Rightarrow> (Inr testID, h\<lparr>th_tests := tab\<rparr>))"

fun trim_right_char :: "char \<Rightarrow> string \<Rightarrow> string" where
  "trim_right_char c s = rev (dropWhile (\<lambda>x. x = c) (rev s))"

definition upload_vars :: "string \<Rightarrow> string \<Rightarrow> string \<Rightarrow> (string \<times> string) list" where
  "upload_vars url token testID =
    [(''SHIVA_ARTIFACT_UPLOAD_ENABLED'', ''true''), (''SHIVA_ARTIFACT_UPLOAD_URL'', trim_right_char (CHR ''/'') url),
     (''SHIVA_ARTIFACT_UPLOAD_TOKEN'', token), (''SHIVA_ARTIFACT_TEST_ID'', testID), (''SHIVA_ARTIFACT_UPLOAD_POST_RUN_GRACE_S'', ''5''),
     (''SHIVA_ARTIFACT_UPLOAD_SETTLE_WINDOW_S'', ''2''), (''SHIVA_ARTIFACT_UPLOAD_WATCH_TIMEOUT_S'', ''90'')]"

definition configureArtifactUploads :: "run_env \<Rightarrow> string \<Rightarrow> exec_prep \<Rightarrow> test_handler \<Rightarrow> unit res \<times> exec_prep \<times> test_handler" where
  "configureArtifactUploads env testID p h =
    (let h1 = h\<lparr>th_registry := RegisterRun (en_now env) testID (WorkerNames (th_orch h)) (en_token env) (th_registry h)\<rparr>;
         p1 = p\<lparr>ep_envVars := fold (\<lambda>(k, v). AList.update k v) (upload_vars (th_controllerURL h) (en_token env) testID) (ep_envVars p)\<rparr>
     in case WriteEnvFile (en_fs env) (ep_envVars p1) (th_scripts h1) of
          (Inl e, d) \<Rightarrow> (Inl (''failed to write env file for artifact uploads: '' @ e), p1, remove_run (en_now env) testID (h1\<lparr>th_scripts := d\<rparr>))
        | (Inr _, d) \<Rightarrow> (Inr (), p1, h1\<lparr>th_scripts := d\<rparr>))"

definition reloadWorkersForExecution :: "run_env \<Rightarrow> test_handler \<Rightarrow> unit res \<times> test_handler" where
  "reloadWorkersForExecution env h =
    (let h1 = set_phase PhaseWorkers ''Restarting workers to load new script...'' h;
         h2 = set_phase PhaseWorkers ''Waiting for k6 workers to reload...'' (stop_workers env h1)
     in case WaitForAllReady (en_rounds env) (th_orch h2) of
          Some e \<Rightarrow> (Inl (''workers not ready: '' @ e), set_phase PhaseError (''Workers not ready: '' @ e) h2)
        | None \<Rightarrow> (Inr (), h2))"

definition start_ramping :: "time \<Rightarrow> stage list \<Rightarrow> test_handler \<Rightarrow> test_handler" where
  "start_ramping now stages h = h\<lparr>th_orch := (th_orch h)\<lparr>o_Ramping := Start_ramp now stages (o_Ramping (th_orch h))\<rparr>\<rparr>"

definition start_polling :: "run_env \<Rightarrow> string \<Rightarrow> test_request \<Rightarrow> exec_prep \<Rightarrow> bool \<Rightarrow> test_handler \<Rightarrow> test_handler" where
  "start_polling env testID req p hasManagedRamp h =
    (case StartPolling (en_now env) testID (ep_controllable p) hasManagedRamp (expectedRuntimeForExecution env req p) True (th_orch h) of
       (l, o1) \<Rightarrow> h\<lparr>th_orch := o1, th_loops := th_loops h @ [l]\<rparr>)"

definition startPreparedExecution :: "run_env \<Rightarrow> string \<Rightarrow> test_request \<Rightarrow> exec_prep \<Rightarrow> test_handler \<Rightarrow> unit res \<times> test_handler" where
  "startPreparedExecution env testID req p h =
    (let h1 = set_phase PhaseRunning ''Running load test...'' h
     in case ResumeAllForStart (en_start env) (th_orch h1) of
          (Some e, o1) \<Rightarrow>
            (Inl (''failed to start workers: '' @ e),
             set_phase PhaseError ''Failed to start workers'' (save_test env testID ''error'' None (h1\<lparr>th_orch := o1\<rparr>)))
        | (None, o1) \<Rightarrow>
           (let h2 = savePendingMeta env testID req (ep_conflictWarnings p) (ep_executorType p) (ep_controllable p) (ep_payload p) (h1\<lparr>th_orch := o1\<rparr>);
                (stages, hasManagedRamp) = (if req_URL req \<noteq> [] then resolveBuilderRamping req else resolveUploadRamping (ep_configStages p));
                h3 = (if hasManagedRamp \<and> stages \<noteq> [] then start_ramping (en_now env) stages h2 else h2)
            in (Inr (), start_polling env testID req p hasManagedRamp h3)))"

definition cleanup_output :: "run_env \<Rightarrow> test_handler \<Rightarrow> test_handler" where
  "cleanup_output env h =
    h\<lparr>th_output := CleanupAuthSummaries (en_removable env) (CleanupPayloadArtifacts (en_removable env) (CleanupSummaries (en_removable env) (th_output h)))\<rparr>"

definition run_prepared ::
  "run_env \<Rightarrow> test_request \<Rightarrow> int \<Rightarrow> string \<Rightarrow> exec_prep \<Rightarrow> test_handler \<Rightarrow> (string \<times> bool \<times> conflict_warning list) res \<times> test_handler" where
  "run_prepared env req uid username p h =
    (case createRunningLoadTest env req uid username p (cleanup_output env h) of
       (Inl e, h1) \<Rightarrow> (Inl e, h1)
     | (Inr testID, h1) \<Rightarrow>
        (case configureArtifactUploads env testID p h1 of
           (Inl e, p1, h2) \<Rightarrow> (Inl e, save_test env testID ''error'' None h2)
         | (Inr _, p1, h2) \<Rightarrow>
            (case reloadWorkersForExecution env h2 of
               (Inl e, h3) \<Rightarrow> (Inl e, save_test env testID ''error'' None (remove_run (en_now env) testID h3))
             | (Inr _, h3) \<Rightarrow>
                (case startPreparedExecution env testID req p1 h3 of
                   (Inl e, h4) \<Rightarrow> (Inl e, remove_run (en_now env) testID h4)
                 | (Inr _, h4) \<Rightarrow> (Inr (testID, ep_controllable p1, ep_conflictWarnings p1), h4)))))"

definition ExecuteTest ::
  "run_env \<Rightarrow> test_request \<Rightarrow> int \<Rightarrow> string \<Rightarrow> test_handler \<Rightarrow> ((string \<times> bool \<times> conflict_warning list) res \<times> test_handler) option" where
  "ExecuteTest env req0 uid username h =
    (case validateExecutionRequest (en_json env) (en_url env) req0 of
       None \<Rightarrow> None
     | Some (Inl e) \<Rightarrow> Some (Inl e, h)
     | Some (Inr req) \<Rightarrow>
        (if active h \<noteq> [] then Some (Inl (''a test is already running: '' @ active h), h)
         else (case prepareExecution env req h of
                 None \<Rightarrow> None
               | Some (Inl e, h1) \<Rightarrow> Some (Inl e, h1)
               | Some (Inr p, h1) \<Rightarrow> Some (run_prepared env req uid username p h1))))"

end
