(* ===== verification/TestCompletion.thy ===== *)
theory TestCompletion
  imports TestRun
begin

text \<open>
  The end of a test and the requests about a running test (\<^verbatim>\<open>controller/internal/handler/test.go\<close>): the collection of artifacts, the
  stored result, \<^verbatim>\<open>onTestComplete\<close>, \<^verbatim>\<open>StopTest\<close>, \<^verbatim>\<open>StartTest\<close>, live metrics, pause, resume and scale, and the upload of a script.
\<close>

subsection \<open>The data of a completed test\<close>

definition latestCompletionMetrics :: "run_env \<Rightarrow> test_handler \<Rightarrow> aggregated_metrics" where
  "latestCompletionMetrics env h =
    (case o_latestMetrics (th_orch h) of None \<Rightarrow> FetchFinalMetrics (en_metrics env) (th_orch h) | Some m \<Rightarrow> m)"

definition buildCompletionData :: "string \<Rightarrow> aggregated_metrics \<Rightarrow> time \<Rightarrow> test_handler \<Rightarrow> completion_data \<times> test_handler" where
  "buildCompletionData testID finalMetrics endTime h =
    (case mergePendingMeta testID (newTestMetadata (o_testStartTime (th_orch h)) endTime (WorkerNames (th_orch h))) h of
       ((md, warnings), h1) \<Rightarrow>
         (\<lparr>cd_metrics = ApplyPeakVUs (th_orch h) (Some finalMetrics), cd_timeSeries = GetTimeSeries (th_orch h), cd_metadata = md,
           cd_warnings = warnings\<rparr>, h1))"

definition buildCompletedResult ::
  "string \<Rightarrow> aggregated_metrics option \<Rightarrow> metrics_v2 option \<Rightarrow> time_point list \<Rightarrow> test_metadata \<Rightarrow> conflict_warning list \<Rightarrow> string \<Rightarrow> string \<Rightarrow> test_result" where
  "buildCompletedResult testID metrics v2 series md warnings rawSummary rawAuthSummary =
    \<lparr>rs_ID = testID, rs_ProjectName = [], rs_URL = [], rs_Status = ''completed'', rs_Metrics = metrics, rs_MetricsV2 = v2, rs_TimeSeries = series,
     rs_Metadata = Some md, rs_Warnings = warnings, rs_SummaryContent = rawSummary, rs_AuthSummaryContent = rawAuthSummary,
     rs_CreatedAt = zero_time, rs_Username = []\<rparr>"

text \<open>The metadata after the payload and the authentication summary have been entered.\<close>

definition final_metadata :: "run_env \<Rightarrow> string \<Rightarrow> auth_summary option \<Rightarrow> test_metadata \<Rightarrow> test_metadata" where
  "final_metadata env payloadContent authSummary md =
    (let md1 = refreshPayloadMetadata md payloadContent
     in case authSummary of None \<Rightarrow> markAuthMetricsUnavailable md1 | Some s \<Rightarrow> applyAuthSummaryToMetadata (en_url env) md1 s)"

definition completed_result :: "run_env \<Rightarrow> string \<Rightarrow> completion_data \<Rightarrow> string \<Rightarrow> string \<Rightarrow> test_result" where
  "completed_result env testID data rawSummary rawAuthSummary =
    buildCompletedResult testID (cd_metrics data) (buildMetricsV2 (en_json env) (cd_metrics data) rawSummary (Some (cd_metadata data)))
      (cd_timeSeries data) (cd_metadata data) (cd_warnings data) rawSummary rawAuthSummary"

text \<open>
  The result that is stored and its payload: the artifacts of the registry are merged in once more. When nothing has changed,
  the result still has the metadata and metrics that the merge has written through its pointers, and the payload stays.
\<close>

definition merged_result ::
  "run_env \<Rightarrow> time \<Rightarrow> string \<Rightarrow> test_result \<Rightarrow> string \<Rightarrow> registry \<Rightarrow> (test_result \<times> string) \<times> registry" where
  "merged_result env now testID result payloadContent reg =
    (case mergeRegistryArtifactsIntoResult (en_json env) (en_url env) now result testID payloadContent reg of
       ((enriched, mergedPayload, changed), reg1) \<Rightarrow> ((enriched, if changed then mergedPayload else payloadContent), reg1))"

definition store_result :: "run_env \<Rightarrow> string \<Rightarrow> test_result \<Rightarrow> string \<Rightarrow> load_test table \<Rightarrow> unit res \<times> load_test table" where
  "store_result env testID result payloadContent tab =
    (case rc_marshal (en_codec env) result of
       Inl e \<Rightarrow> (Inl (''marshal result: '' @ e), tab)
     | Inr text \<Rightarrow>
        (case (if payloadContent = [] then (Inr (), tab) else UpdateLoadTestPayloadContent (en_store env) testID payloadContent tab) of
           (Inl e, tab1) \<Rightarrow> (Inl (''save payload artifact: '' @ e), tab1)
         | (Inr _, tab1) \<Rightarrow>
            (case UpdateLoadTestResult (en_store env) testID ''completed'' (Some text) tab1 of
               (r, tab2) \<Rightarrow> (wrap_err ''save result'' r, tab2))))"

definition persistCompletedResult ::
  "run_env \<Rightarrow> time \<Rightarrow> string \<Rightarrow> completion_data \<Rightarrow> string \<Rightarrow> string \<Rightarrow> string \<Rightarrow> auth_summary option \<Rightarrow> test_handler \<Rightarrow>
   unit res \<times> completion_data \<times> test_handler" where
  "persistCompletedResult env now testID data rawSummary rawAuthSummary payloadContent authSummary h =
    (let data1 = data\<lparr>cd_metadata := final_metadata env payloadContent authSummary (cd_metadata data)\<rparr>
     in case merged_result env now testID (completed_result env testID data1 rawSummary rawAuthSummary) payloadContent (th_registry h) of
          ((result, payload), reg1) \<Rightarrow>
            (case store_result env testID result payload (th_tests h) of
               (r, tab) \<Rightarrow>
                 (r, data1\<lparr>cd_metrics := rs_Metrics result,
                        cd_metadata := (case rs_Metadata result of None \<Rightarrow> cd_metadata data1 | Some md \<Rightarrow> md)\<rparr>,
                  h\<lparr>th_registry := reg1, th_tests := tab\<rparr>)))"

subsection \<open>Collecting artifacts\<close>

definition loadUploadedSummary ::
  "run_env \<Rightarrow> time \<Rightarrow> string \<Rightarrow> aggregated_metrics option \<Rightarrow> string list \<Rightarrow> registry \<Rightarrow>
   (summary_collection \<times> aggregated_metrics option) \<times> registry" where
  "loadUploadedSummary env now testID fm expectedWorkers reg =
    (case Snapshot_run now testID reg of
       (None, reg1) \<Rightarrow> ((no_collection expectedWorkers, fm), reg1)
     | (Some sn, reg1) \<Rightarrow>
        (case summaryCollectionFromRaw (en_json env) expectedWorkers (BuildRawSummary sn ArtifactSummary) fm of
           (c, None, fm1) \<Rightarrow> ((c, fm1), reg1)
         | (c, Some e, fm1) \<Rightarrow> ((no_collection expectedWorkers, fm1), reg1)))"

abbreviation received :: "summary_collection \<Rightarrow> int" where
  "received c \<equiv> ac2_ReceivedWorkerSummaryCount (sc_ArtifactCollection c)"

abbreviation complete :: "summary_collection \<Rightarrow> bool" where
  "complete c \<equiv> ac2_Status (sc_ArtifactCollection c) = ''complete''"

definition better :: "summary_collection \<Rightarrow> summary_collection \<Rightarrow> summary_collection" where
  "better c best = (if received best < received c then c else best)"

text \<open>One attempt: whether the collection is complete, and the best collection so far. First the uploads are tried, then the files.\<close>

definition file_attempt ::
  "run_env \<Rightarrow> string list \<Rightarrow> summary_collection \<Rightarrow> aggregated_metrics option \<Rightarrow> out_dir \<Rightarrow> bool \<times> summary_collection \<times> aggregated_metrics option" where
  "file_attempt env expectedWorkers best fm dir =
    (let raw = ReadRawSummaries (en_json env) dir
     in if trim_space raw = [] then (False, best, fm)
        else (case summaryCollectionFromRaw (en_json env) expectedWorkers raw fm of
                (c, Some e, fm1) \<Rightarrow> (False, best, fm1)
              | (c, None, fm1) \<Rightarrow> if complete c then (True, c, fm1) else (False, better c best, fm1)))"

definition collect_attempt ::
  "run_env \<Rightarrow> time \<Rightarrow> string \<Rightarrow> string list \<Rightarrow> summary_collection \<Rightarrow> aggregated_metrics option \<Rightarrow> test_handler \<Rightarrow>
   (bool \<times> summary_collection \<times> aggregated_metrics option) \<times> test_handler" where
  "collect_attempt env now testID expectedWorkers best fm h =
    (case loadUploadedSummary env now testID fm expectedWorkers (th_registry h) of
       ((c, fm1), reg1) \<Rightarrow>
         (if sc_Loaded c \<and> complete c then (True, c, fm1)
          else file_attempt env expectedWorkers (if sc_Loaded c then better c best else best) fm1 (th_output h),
          h\<lparr>th_registry := reg1\<rparr>))"

record wait_step =
  ws_now :: time
  ws_others :: "test_handler \<Rightarrow> test_handler"
  ws_cancelled :: bool

definition give_up :: "string list \<Rightarrow> summary_collection \<Rightarrow> summary_collection" where
  "give_up expectedWorkers best = (if sc_Loaded best then best else no_collection expectedWorkers)"

partial_function (option) collect_loop ::
  "run_env \<Rightarrow> string \<Rightarrow> string list \<Rightarrow> time \<Rightarrow> (nat \<Rightarrow> wait_step) \<Rightarrow> nat \<Rightarrow> summary_collection \<Rightarrow> aggregated_metrics option \<Rightarrow> test_handler \<Rightarrow>
   (summary_collection \<times> aggregated_metrics option \<times> nat \<times> test_handler) option" where
  "collect_loop env testID expectedWorkers deadline w n best fm h =
    (case collect_attempt env (ws_now (w n)) testID expectedWorkers best fm (ws_others (w n) h) of
       ((all_in, best1, fm1), h1) \<Rightarrow>
         if all_in then Some (best1, fm1, n, h1)
         else if deadline \<le> ws_now (w n) \<or> ws_cancelled (w n) then Some (give_up expectedWorkers best1, fm1, n, h1)
         else collect_loop env testID expectedWorkers deadline w (Suc n) best1 fm1 h1)"

declare collect_loop.simps [code]

definition loadCompletionSummary ::
  "run_env \<Rightarrow> string \<Rightarrow> string list \<Rightarrow> time \<Rightarrow> (nat \<Rightarrow> wait_step) \<Rightarrow> nat \<Rightarrow> aggregated_metrics option \<Rightarrow> test_handler \<Rightarrow>
   (summary_collection \<times> aggregated_metrics option \<times> nat \<times> test_handler) option" where
  "loadCompletionSummary env testID expectedWorkers0 deadline w n fm h =
    (let expectedWorkers = (if expectedWorkers0 = [] then WorkerNames (th_orch h) else expectedWorkers0)
     in if deadline \<le> ws_now (w n) then Some (no_collection expectedWorkers, fm, n, h)
        else collect_loop env testID expectedWorkers deadline w n (no_collection expectedWorkers) fm h)"

definition loadCompletionPayloadArtifact :: "time \<Rightarrow> string \<Rightarrow> test_handler \<Rightarrow> string \<times> test_handler" where
  "loadCompletionPayloadArtifact now testID h =
    (case Snapshot_run now testID (th_registry h) of
       (sn, reg1) \<Rightarrow>
         (let content = (case sn of None \<Rightarrow> [] | Some s \<Rightarrow> FirstArtifactContent s ArtifactPayload)
          in (if trim_space content \<noteq> [] then content else ReadPayloadArtifact (th_output h), h\<lparr>th_registry := reg1\<rparr>)))"

definition loadCompletionAuthSummary ::
  "run_env \<Rightarrow> time \<Rightarrow> string \<Rightarrow> test_metadata \<Rightarrow> test_handler \<Rightarrow> (auth_summary option \<times> string) \<times> test_handler" where
  "loadCompletionAuthSummary env now testID md h =
    (if \<not> hasConfiguredAuth (Some md) then ((None, []), h)
     else (case Snapshot_run now testID (th_registry h) of
             (sn, reg1) \<Rightarrow>
               (let raw = (case sn of None \<Rightarrow> [] | Some s \<Rightarrow> BuildRawSummary s ArtifactAuthSummary);
                    from_files = (case ReadAndMergeAuthSummaries (en_json env) (en_outputDir env) (th_output h) of
                                    Inl e \<Rightarrow> (None, [])
                                  | Inr s \<Rightarrow> (Some s, ReadRawAuthSummaries (en_json env) (th_output h)))
                in (if trim_space raw = [] then from_files
                    else (case ParseRawAuthSummaryContent (en_json env) raw of Inl e \<Rightarrow> from_files | Inr s \<Rightarrow> (Some s, raw)),
                    h\<lparr>th_registry := reg1\<rparr>))))"

subsection \<open>Completion\<close>

definition notifyScheduleCompletion :: "string \<Rightarrow> string \<Rightarrow> string \<Rightarrow> test_handler \<Rightarrow> test_handler" where
  "notifyScheduleCompletion testID status errMsg h =
    (if th_notifier h then h\<lparr>th_notified := th_notified h @ [(testID, status, errMsg)]\<rparr> else h)"

text \<open>The first part of \<^verbatim>\<open>onTestComplete\<close>, up to the end of the polling.\<close>

definition begin_completion :: "run_env \<Rightarrow> string \<Rightarrow> test_handler \<Rightarrow> completion_data \<times> test_handler" where
  "begin_completion env testID h =
    (let h1 = set_phase PhaseCollecting ''Collecting final metrics and summary data...'' (stop_ramping h)
     in case buildCompletionData testID (latestCompletionMetrics env h1) (en_now env) h1 of
          (data, h2) \<Rightarrow> (data, h2\<lparr>th_orch := StopPolling (th_orch h2)\<rparr>))"

text \<open>
  The second part: the first collection, the stopping of the workers, and the second collection when the first one was not
  complete. The last component is the step of the wait that comes next.
\<close>

definition collect_artifacts ::
  "run_env \<Rightarrow> string \<Rightarrow> (nat \<Rightarrow> wait_step) \<Rightarrow> completion_data \<Rightarrow> test_handler \<Rightarrow> (completion_data \<times> string \<times> nat \<times> test_handler) option" where
  "collect_artifacts env testID w data h =
    (let expectedWorkers = WorkerNames (th_orch h);
         (deadline1, deadline2) = artifactCollectionDeadlines (en_now env) (artifactCollectionGraceWindow (Some (cd_metadata data))) (5 * second) True
     in case loadCompletionSummary env testID expectedWorkers deadline1 w 0 (cd_metrics data) h of
          None \<Rightarrow> None
        | Some (c1, fm1, n1, h1) \<Rightarrow>
           (let h2 = stop_workers env h1;
                data1 = data\<lparr>cd_metrics := fm1, cd_metadata := (cd_metadata data)\<lparr>md_ArtifactCollection := Some (sc_ArtifactCollection c1)\<rparr>\<rparr>
            in if complete c1 \<or> deadline2 \<le> ws_now (w (Suc n1)) then Some (data1, sc_Raw c1, n1, h2)
               else (case loadCompletionSummary env testID expectedWorkers deadline2 w (Suc n1) fm1 h2 of
                       None \<Rightarrow> None
                     | Some (c2, fm2, n2, h3) \<Rightarrow>
                        (if sc_Loaded c2 \<or> received c1 < received c2
                         then Some (data1\<lparr>cd_metrics := fm2, cd_metadata := (cd_metadata data1)\<lparr>md_ArtifactCollection := Some (sc_ArtifactCollection c2)\<rparr>\<rparr>,
                                    sc_Raw c2, n2, h3)
                         else Some (data1\<lparr>cd_metrics := fm2\<rparr>, sc_Raw c1, n2, h3)))))"

text \<open>The last part. An error of storing the result is only logged.\<close>

definition finish_completion :: "run_env \<Rightarrow> time \<Rightarrow> string \<Rightarrow> completion_data \<Rightarrow> string \<Rightarrow> test_handler \<Rightarrow> test_handler" where
  "finish_completion env now testID data rawSummary h =
    (case loadCompletionPayloadArtifact now testID h of
       (payload, h1) \<Rightarrow>
         (case loadCompletionAuthSummary env now testID (cd_metadata data) h1 of
            ((authSummary, rawAuthSummary), h2) \<Rightarrow>
              (case persistCompletedResult env now testID data rawSummary rawAuthSummary payload authSummary h2 of
                 (r, data1, h3) \<Rightarrow>
                   remove_run now testID (notifyScheduleCompletion testID ''completed'' [] (set_phase PhaseDone testID h3)))))"

definition onTestComplete :: "run_env \<Rightarrow> string \<Rightarrow> (nat \<Rightarrow> wait_step) \<Rightarrow> test_handler \<Rightarrow> test_handler option" where
  "onTestComplete env testID w h =
    (case begin_completion env testID h of
       (data, h1) \<Rightarrow>
         (case collect_artifacts env testID w data h1 of
            None \<Rightarrow> None
          | Some (data1, rawSummary, n, h2) \<Rightarrow> Some (finish_completion env (ws_now (w n)) testID data1 rawSummary h2)))"

subsection \<open>Stopping a test\<close>

definition requireActiveTest :: "test_handler \<Rightarrow> string option" where
  "requireActiveTest h = (if active h = [] then None else Some (active h))"

abbreviation no_test :: "'a response" where
  "no_test \<equiv> HttpError ''no test is currently running'' 404"

definition StopTest :: "run_env \<Rightarrow> test_handler \<Rightarrow> test_result response \<times> test_handler" where
  "StopTest env h =
    (case requireActiveTest h of
       None \<Rightarrow> (no_test, h)
     | Some testID \<Rightarrow>
        (let now = en_now env; h1 = stop_ramping h
         in case buildCompletionData testID (FetchFinalMetrics (en_metrics env) (th_orch h1)) now h1 of
              (data, h2) \<Rightarrow>
                (let h3 = stop_workers env (h2\<lparr>th_orch := StopPolling (th_orch h2)\<rparr>)
                 in case loadCompletionPayloadArtifact now testID h3 of
                      (payload, h4) \<Rightarrow>
                        (case loadCompletionAuthSummary env now testID (cd_metadata data) h4 of
                           ((authSummary, rawAuthSummary), h5) \<Rightarrow>
                             (case persistCompletedResult env now testID data [] rawAuthSummary payload authSummary h5 of
                                (Inl e, data1, h6) \<Rightarrow> (HttpError ''internal error'' 500, h6)
                              | (Inr _, data1, h6) \<Rightarrow>
                                 (HttpJson 200 (completed_result env testID data1 [] rawAuthSummary),
                                  notifyScheduleCompletion testID ''completed'' [] (set_phase PhaseDone testID (remove_run now testID h6))))))))"

subsection \<open>Manual start\<close>

record start_response =
  sr_TestID :: string
  sr_Controllable :: bool
  sr_Warnings :: "conflict_warning list"

datatype start_json = Started start_response | StartConflict schedule_conflict

definition checkManualStartConflict ::
  "sched_env \<Rightarrow> location \<Rightarrow> time \<Rightarrow> bool \<Rightarrow> sched_db \<Rightarrow> schedule_conflict option \<times> sched_db" where
  "checkManualStartConflict env here now confirm db =
    (if confirm then (None, db)
     else (case CheckOverlap env here \<lparr>ts_Start = now, ts_End = now + 2 * hour\<rparr> [] None db of
             (Inl e, db1) \<Rightarrow> (None, db1)
           | (Inr c, db1) \<Rightarrow> (c, db1)))"

definition StartTest ::
  "run_env \<Rightarrow> sched_env \<Rightarrow> location \<Rightarrow> test_request option \<Rightarrow> bool \<Rightarrow> user_ctx \<Rightarrow> test_handler \<times> sched_db \<Rightarrow>
   (start_json response \<times> test_handler \<times> sched_db) option" where
  "StartTest env senv here body confirm ctx s =
    (case s of (h, db) \<Rightarrow>
      (case body of
         None \<Rightarrow> Some (HttpError ''invalid request body'' 400, h, db)
       | Some req0 \<Rightarrow>
          (case validateStartRequest (en_json env) (en_url env) req0 of
             None \<Rightarrow> None
           | Some (Inl e) \<Rightarrow> Some (HttpError e 400, h, db)
           | Some (Inr req) \<Rightarrow>
              (if active h \<noteq> [] then Some (HttpError (''a test is already running: '' @ active h) 409, h, db)
               else (case checkManualStartConflict senv here (en_now env) confirm db of
                       (Some c, db1) \<Rightarrow> Some (HttpJson 409 (StartConflict c), h, db1)
                     | (None, db1) \<Rightarrow>
                        (case ExecuteTest env req (uc_UserID ctx) (uc_Username ctx) h of
                           None \<Rightarrow> None
                         | Some (Inl e, h1) \<Rightarrow> Some (HttpError e 500, h1, db1)
                         | Some (Inr (testID, controllable, warnings), h1) \<Rightarrow>
                            Some (HttpJson 200 (Started \<lparr>sr_TestID = testID, sr_Controllable = controllable, sr_Warnings = warnings\<rparr>), h1, db1)))))))"

subsection \<open>Requests about the running test\<close>

fun phase_str :: "test_phase \<Rightarrow> string" where
  "phase_str PhaseNone = []"
| "phase_str PhaseScript = ''script''"
| "phase_str PhaseWorkers = ''workers''"
| "phase_str PhaseRunning = ''running''"
| "phase_str PhaseCollecting = ''collecting''"
| "phase_str PhaseDone = ''done''"
| "phase_str PhaseError = ''error''"

record live_response =
  lr_TestID :: string
  lr_Status :: string
  lr_Phase :: string
  lr_Message :: "string option"
  lr_Metrics :: "aggregated_metrics option"
  lr_Executor :: "string option"
  lr_Controllable :: "bool option"

definition live :: "string \<Rightarrow> string \<Rightarrow> string \<Rightarrow> string option \<Rightarrow> live_response" where
  "live testID status phase msg =
    \<lparr>lr_TestID = testID, lr_Status = status, lr_Phase = phase, lr_Message = msg, lr_Metrics = None, lr_Executor = None, lr_Controllable = None\<rparr>"

definition GetLiveMetrics :: "test_handler \<Rightarrow> live_response response" where
  "GetLiveMetrics h =
    (let testID = active h; phase = o_phase (th_orch h); msg = o_phaseMessage (th_orch h)
     in HttpJson 200
       (if phase = PhaseDone then live msg ''completed'' (phase_str phase) None
        else if phase = PhaseCollecting then live testID ''running'' (phase_str phase) (Some msg)
        else if testID = [] then live [] ''idle'' ''idle'' (Some ''no test is currently running'')
        else (live testID ''running'' (phase_str phase) (Some msg))
               \<lparr>lr_Metrics := o_latestMetrics (th_orch h), lr_Executor := map_option pt_Executor (th_pending h testID),
                lr_Controllable := map_option pt_Controllable (th_pending h testID)\<rparr>))"

definition classifyK6Error :: "string \<Rightarrow> string \<Rightarrow> string \<times> int" where
  "classifyK6Error msg action =
    (if contains msg ''doesn't support pause and resume''
     then (''Pause/Resume is only supported for the Ramp Up/Down (Builder) executor. Native k6 executors manage their own schedule.'', 409)
     else if contains msg ''externally-controlled executor needs to be configured''
     then (''VU scaling is only available for the Ramp Up/Down (Builder) executor.'', 409)
     else (''Failed to '' @ action @ '': '' @ msg, 502))"

definition k6_error :: "string \<Rightarrow> string \<Rightarrow> 'a response" where
  "k6_error msg action = (case classifyK6Error msg action of (m, code) \<Rightarrow> HttpError m code)"

definition res_of :: "string option \<Rightarrow> unit res" where
  "res_of e = (case e of None \<Rightarrow> Inr () | Some m \<Rightarrow> Inl m)"

definition executeRampingAction ::
  "string \<Rightarrow> string \<Rightarrow> (ramp_state \<Rightarrow> unit res \<times> ramp_state) \<Rightarrow> test_handler \<Rightarrow> (string \<times> string) response \<times> test_handler" where
  "executeRampingAction action successStatus run h =
    (case requireActiveTest h of
       None \<Rightarrow> (no_test, h)
     | Some testID \<Rightarrow>
        (case run (o_Ramping (th_orch h)) of
           (r, rm) \<Rightarrow>
             (case r of Inl e \<Rightarrow> k6_error e action | Inr _ \<Rightarrow> HttpJson 200 (successStatus, testID),
              h\<lparr>th_orch := (th_orch h)\<lparr>o_Ramping := rm\<rparr>\<rparr>)))"

definition PauseTest :: "time \<Rightarrow> nat list \<Rightarrow> (nat \<Rightarrow> k6_status http_reply) \<Rightarrow> test_handler \<Rightarrow> (string \<times> string) response \<times> test_handler" where
  "PauseTest now order replies h =
    executeRampingAction ''pause'' ''paused'' (Pause_ramp now (res_of (snd (PauseAll order replies (th_orch h))))) h"

definition ResumeTest :: "time \<Rightarrow> nat list \<Rightarrow> (nat \<Rightarrow> nat \<Rightarrow> k6_status http_reply) \<Rightarrow> test_handler \<Rightarrow> (string \<times> string) response \<times> test_handler" where
  "ResumeTest now order replies h =
    executeRampingAction ''resume'' ''running'' (Resume_ramp now (res_of (ResumeAll order replies (th_orch h)))) h"

text \<open>The third component are the commands that are sent. Without workers the division panics.\<close>

definition ScaleTest ::
  "time \<Rightarrow> nat list \<Rightarrow> (nat \<Rightarrow> k6_status http_reply) \<Rightarrow> int option \<Rightarrow> test_handler \<Rightarrow>
   ((string \<times> int) response \<times> (string \<times> k6_status_patch) list \<times> test_handler) option" where
  "ScaleTest now order replies body h =
    (case requireActiveTest h of
       None \<Rightarrow> Some (no_test, [], h)
     | Some testID \<Rightarrow>
        (case body of
           None \<Rightarrow> Some (HttpError ''invalid request body'' 400, [], h)
         | Some vus \<Rightarrow>
            (if vus < 1 then Some (HttpError ''vus must be at least 1'' 400, [], h)
             else (let h1 = h\<lparr>th_orch := (th_orch h)\<lparr>o_Ramping := SetManualOverride now vus (o_Ramping (th_orch h))\<rparr>\<rparr>
                   in case ScaleVUs order replies vus (th_orch h1) of
                        None \<Rightarrow> None
                      | Some (sent, Some e) \<Rightarrow> Some (k6_error e ''scale VUs'', sent, h1)
                      | Some (sent, None) \<Rightarrow> Some (HttpJson 200 (testID, vus), sent, h1)))))"

definition GetWorkerStatus :: "(nat \<Rightarrow> k6_status http_reply) \<Rightarrow> test_handler \<Rightarrow> (worker_metrics list \<times> string) response" where
  "GetWorkerStatus replies h = HttpJson 200 (CheckWorkers replies (th_orch h), active h)"

text \<open>The form of an upload: whether it can be parsed, the file with its name, and its content when it can be read.\<close>

record script_form =
  sf_parsed :: bool
  sf_file :: "(string \<times> string option) option"

definition UploadScript :: "(string \<Rightarrow> string option) \<Rightarrow> script_form \<Rightarrow> test_handler \<Rightarrow> (string \<times> string) response \<times> test_handler" where
  "UploadScript fs form h =
    (if \<not> sf_parsed form then (HttpError ''file too large or invalid form'' 400, h)
     else (case sf_file form of
             None \<Rightarrow> (HttpError (''missing '' @ quote1 # ''script'' @ quote1 # '' file field'') 400, h)
           | Some (filename, None) \<Rightarrow> (HttpError ''failed to read file'' 500, h)
           | Some (filename, Some content) \<Rightarrow>
              (case ValidateUpload content of
                 Some e \<Rightarrow> (HttpError (''invalid script: '' @ e) 400, h)
               | None \<Rightarrow>
                  (case WriteScript fs content (th_scripts h) of
                     (Inl e, d) \<Rightarrow> (HttpError ''failed to save script'' 500, h\<lparr>th_scripts := d\<rparr>)
                   | (Inr _, d) \<Rightarrow> (HttpJson 200 (''uploaded'', filename), h\<lparr>th_scripts := d\<rparr>)))))"

end
