(* ===== verification/TestRunProofs.thy ===== *)
theory TestRunProofs
  imports TestCompletion EnrichmentProofs
begin

text \<open>
  Properties of the life of a test: what a start that is accepted sets up and what a failed one leaves behind, that the completion
  of a test ends, stores its result and tells the scheduler, and two ways in which a run is lost: a test that is started during
  the collection for the previous one, and a stop whose result cannot be stored.
\<close>

subsection \<open>Steps of a start\<close>

lemmas handler_defs = set_phase_def stop_workers_def stop_ramping_def save_test_def remove_run_def cleanup_output_def start_ramping_def

lemma SetPhase_active [simp]:
  "o_activeTestID (SetPhase p msg o1) = o_activeTestID o1" "o_workers (SetPhase p msg o1) = o_workers o1"
  by (simp_all add: SetPhase_def)

lemma clear_active [simp]:
  "o_activeTestID (clearActiveRunLocked o1) = []" "o_workers (clearActiveRunLocked o1) = o_workers o1"
  by (simp_all add: clearActiveRunLocked_def split: option.split)

lemma start_attempts_idle:
  "o_activeTestID o1 = [] \<Longrightarrow> o_activeTestID (snd (start_attempts env n o1)) = [] \<and> o_workers (snd (start_attempts env n o1)) = o_workers o1"
  by (induction n arbitrary: o1) (auto simp: Let_def recoverWorkersForStart_def StopAll_def split: option.splits)

definition no_faults :: "store_env \<Rightarrow> bool" where
  "no_faults env \<longleftrightarrow> (\<forall>n. se_fault env n = None)"

lemma save_test_rows:
  assumes "no_faults (en_store env)"
  shows "fst (th_tests (save_test env i status res h)) =
    map (\<lambda>r. if lt_ID r = i then r\<lparr>lt_Status := status, lt_ResultJSON := res\<rparr> else r) (fst (th_tests h))"
  using assms by (simp add: save_test_def update_ok set_test_def no_faults_def)

definition new_row :: "run_env \<Rightarrow> string \<Rightarrow> test_request \<Rightarrow> int \<Rightarrow> string \<Rightarrow> exec_prep \<Rightarrow> load_test" where
  "new_row env i req uid username p = (scanLoadTest (new_load_test i req uid username p))\<lparr>lt_CreatedAt := truncate_second (en_now env)\<rparr>"

lemma new_row_sel:
  "lt_ID (new_row env i req uid username p) = i" "lt_Status (new_row env i req uid username p) = ''running''"
  "lt_UserID (new_row env i req uid username p) = uid" "lt_ProjectName (new_row env i req uid username p) = req_ProjectName req"
  "lt_ScriptContent (new_row env i req uid username p) = ep_scriptContent p"
  by (simp_all add: new_row_def scanLoadTest_def new_load_test_def Let_def)

lemma create_cases:
  assumes "createRunningLoadTest env req uid username p h = (r, h1)"
  obtains (created) i tab where "r = Inr i" "h1 = h\<lparr>th_tests := tab\<rparr>" "i = se_uuid (en_store env) (snd (th_tests h))"
      "fst tab = fst (th_tests h) @ [new_row env i req uid username p]" "i \<notin> lt_ID ` set (fst (th_tests h))"
  | (failed) e tab where "r = Inl e" "h1 = h\<lparr>th_tests := tab\<rparr>" "fst tab = fst (th_tests h)"
proof -
  obtain rs n where tab: "th_tests h = (rs, n)" by (cases "th_tests h")
  let ?i = "se_uuid (en_store env) n"
  have [simp]: "lt_ID (new_load_test i req uid username p) = i" for i by (simp add: new_load_test_def)
  note defs = createRunningLoadTest_def CreateLoadTest_def stmt_insert_def stmt_def tab
  consider (f) e where "se_fault (en_store env) n = Some e" | (k) "se_fault (en_store env) n = None" "list_ex (\<lambda>r. lt_ID r = ?i) rs"
    | (u) "se_fault (en_store env) n = None" "\<not> list_ex (\<lambda>r. lt_ID r = ?i) rs" by fastforce
  then show thesis
  proof cases
    case f
    then show thesis using assms by (intro failed [of _ "(rs, Suc n)"]) (auto simp: defs Let_def)
  next
    case k
    then show thesis using assms by (intro failed [of _ "(rs, Suc n)"]) (auto simp: defs Let_def)
  next
    case u
    then have "?i \<notin> lt_ID ` set rs" by (auto simp: list_ex_iff)
    then show thesis using assms u by (intro created [of ?i "(rs @ [new_row env ?i req uid username p], Suc n)"]) (simp_all add: defs Let_def new_row_def)
  qed
qed

lemma configure_cases:
  assumes "configureArtifactUploads env i p h = (r, p1, h1)"
  obtains d where "r = Inr ()" "h1 = h\<lparr>th_registry := RegisterRun (en_now env) i (WorkerNames (th_orch h)) (en_token env) (th_registry h), th_scripts := d\<rparr>"
      "WriteEnvFile (en_fs env) (ep_envVars p1) (th_scripts h) = (Inr (), d)"
      "p1 = p\<lparr>ep_envVars := fold (\<lambda>(k, v). AList.update k v) (upload_vars (th_controllerURL h) (en_token env) i) (ep_envVars p)\<rparr>"
  | e d where "r = Inl e" "h1 = remove_run (en_now env) i (h\<lparr>th_registry := RegisterRun (en_now env) i (WorkerNames (th_orch h)) (en_token env) (th_registry h), th_scripts := d\<rparr>)"
  using assms by (auto simp: configureArtifactUploads_def Let_def split: prod.splits sum.splits)

lemma reload_cases:
  assumes "reloadWorkersForExecution env h = (r, h1)"
  obtains o1 where "h1 = h\<lparr>th_orch := o1\<rparr>" "o_activeTestID o1 = []" "o_workers o1 = o_workers (th_orch h)"
  using assms by (auto simp: reloadWorkersForExecution_def Let_def handler_defs StopAll_def split: option.splits)

lemma savePendingMeta_orch: "savePendingMeta env i req ws e c pl (h\<lparr>th_orch := o1\<rparr>) = (savePendingMeta env i req ws e c pl h)\<lparr>th_orch := o1\<rparr>"
  by (cases h) (simp add: savePendingMeta_def)

lemma start_cases:
  assumes "startPreparedExecution env i req p h = (r, h1)" "active h = []"
  obtains e o1 where "r = Inl e" "h1 = (save_test env i ''error'' None h)\<lparr>th_orch := o1\<rparr>" "o_activeTestID o1 = []"
  | o1 managed where "r = Inr ()" "o_activeTestID o1 = []" "h1 = start_polling env i req p managed
        ((savePendingMeta env i req (ep_conflictWarnings p) (ep_executorType p) (ep_controllable p) (ep_payload p) h)\<lparr>th_orch := o1\<rparr>)"
proof -
  obtain err o1 where st: "ResumeAllForStart (en_start env) (SetPhase PhaseRunning ''Running load test...'' (th_orch h)) = (err, o1)" by fastforce
  then have idle: "o_activeTestID o1 = []"
    using start_attempts_idle [of "SetPhase PhaseRunning ''Running load test...'' (th_orch h)" "en_start env" maxRecoveryAttempts] assms(2)
    by (simp add: ResumeAllForStart_def)
  show thesis
  proof (cases err)
    case (Some e)
    then show thesis using assms(1) st idle that(1) [of _ "SetPhase PhaseError ''Failed to start workers'' o1"]
      by (auto simp: startPreparedExecution_def Let_def handler_defs)
  next
    case None
    obtain stages managed where sm: "(if req_URL req \<noteq> [] then resolveBuilderRamping req else resolveUploadRamping (ep_configStages p)) = (stages, managed)"
      by fastforce
    let ?o = "if managed \<and> stages \<noteq> [] then o1\<lparr>o_Ramping := Start_ramp (en_now env) stages (o_Ramping o1)\<rparr> else o1"
    have "r = Inr ()" and "h1 = start_polling env i req p managed
        ((savePendingMeta env i req (ep_conflictWarnings p) (ep_executorType p) (ep_controllable p) (ep_payload p) h)\<lparr>th_orch := ?o\<rparr>)"
      using assms(1) st None sm by (auto simp: startPreparedExecution_def Let_def set_phase_def start_ramping_def savePendingMeta_orch)
    moreover have "o_activeTestID ?o = []" using idle by simp
    ultimately show thesis using that(2) by blast
  qed
qed

subsection \<open>A start that fails\<close>

text \<open>What a failed start may leave: the shared directories and the phase change, and rows and runs are closed.\<close>

definition untouched :: "test_handler \<Rightarrow> test_handler \<Rightarrow> bool" where
  "untouched h h' \<longleftrightarrow>
    active h' = active h \<and> th_loops h' = th_loops h \<and> th_pending h' = th_pending h \<and> th_notified h' = th_notified h \<and>
    (\<forall>r \<in> set (fst (th_tests h')). r \<in> set (fst (th_tests h)) \<or> lt_Status r = ''error'') \<and>
    (\<forall>r \<in> set (fst (th_tests h)). r \<in> set (fst (th_tests h'))) \<and>
    (\<forall>i. run_open i (th_registry h') \<longrightarrow> run_open i (th_registry h))"

lemma run_open_RemoveRun:
  assumes "0 < reg_lateUploadTTL r" "zero_time \<le> now"
  shows "run_open j (RemoveRun now i r) \<longleftrightarrow> j \<noteq> i \<and> run_open j r"
  using assms
  by (auto simp: run_open_def RemoveRun_def Let_def cleanupExpiredLocked_def run_open_not_expired is_zero_def split: option.splits if_splits)

lemma run_open_RegisterRun: "run_open j (RegisterRun now i ws token r) \<longleftrightarrow> j = i \<or> run_open j r"
  by (auto simp: run_open_def RegisterRun_def Let_def cleanupExpiredLocked_def run_open_not_expired is_zero_def split: option.splits if_splits)

lemma ttl_RegisterRun [simp]: "reg_lateUploadTTL (RegisterRun now i ws token r) = reg_lateUploadTTL r"
  by (simp add: RegisterRun_def Let_def cleanupExpiredLocked_def)

text \<open>The new row of a failed start is closed with an error.\<close>

lemma closed_rows:
  assumes "no_faults (en_store env)" "i \<notin> lt_ID ` set rows" "fst (th_tests h) = rows @ [new_row env i req uid username p]"
  shows "fst (th_tests (save_test env i ''error'' None h)) = rows @ [(new_row env i req uid username p)\<lparr>lt_Status := ''error'', lt_ResultJSON := None\<rparr>]"
proof -
  have "map (\<lambda>r. if lt_ID r = i then f r else r) rows = rows" for f using assms(2) by (intro map_idI) auto
  then show ?thesis using assms by (simp add: save_test_rows new_row_sel)
qed

lemma run_prepared_failed:
  assumes "run_prepared env req uid username p h = (Inl e, h')" "active h = []" "no_faults (en_store env)"
    "0 < reg_lateUploadTTL (th_registry h)" "zero_time \<le> en_now env"
  shows "untouched h h'"
proof -
  obtain r1 h1 where c: "createRunningLoadTest env req uid username p (cleanup_output env h) = (r1, h1)" by fastforce
  from c show ?thesis
  proof (cases rule: create_cases)
    case (failed e1 tab)
    then have "h' = h1" using assms(1) c by (simp add: run_prepared_def)
    then show ?thesis using failed assms(2) by (simp add: untouched_def cleanup_output_def)
  next
    case (created i tab)
    note Inr1 = created(1)
    obtain r2 p1 h2 where cf: "configureArtifactUploads env i p h1 = (r2, p1, h2)" by (metis prod_cases3)
    note rows = closed_rows [OF assms(3) created(5), of _ req uid username p]
    from cf show ?thesis
    proof (cases rule: configure_cases)
      case (2 e2 d)
      then have "h' = save_test env i ''error'' None h2" using assms(1) c cf Inr1 by (simp add: run_prepared_def)
      then show ?thesis using 2 created(2,4) rows [of h2] assms by (auto simp: untouched_def handler_defs run_open_RemoveRun run_open_RegisterRun)
    next
      case (1 d)
      obtain r3 h3 where rl: "reloadWorkersForExecution env h2 = (r3, h3)" by fastforce
      from reload_cases [OF rl] obtain o1 where o1: "h3 = h2\<lparr>th_orch := o1\<rparr>" "o_activeTestID o1 = []" by blast
      show ?thesis
      proof (cases r3)
        case (Inl e3)
        then have "h' = save_test env i ''error'' None (remove_run (en_now env) i h3)"
          using assms(1) c cf rl Inr1 1 by (simp add: run_prepared_def)
        then show ?thesis using 1 o1 created(2,4) rows [of "remove_run (en_now env) i h3"] assms
          by (auto simp: untouched_def handler_defs run_open_RemoveRun run_open_RegisterRun)
      next
        case (Inr u)
        obtain r4 h4 where st: "startPreparedExecution env i req p1 h3 = (r4, h4)" by fastforce
        have "active h3 = []" using o1 by simp
        with st show ?thesis
        proof (cases rule: start_cases)
          case (1 e4 o2)
          then have "h' = remove_run (en_now env) i h4" using assms(1) c cf rl st Inr1 \<open>r2 = Inr ()\<close> Inr by (simp add: run_prepared_def)
          then show ?thesis using 1 o1 created(2,4) rows [of h3] assms \<open>h2 = _\<close>
            by (auto simp: untouched_def handler_defs run_open_RemoveRun run_open_RegisterRun)
        next
          case (2 o2 managed)
          then show ?thesis using assms(1) c cf rl st Inr1 \<open>r2 = Inr ()\<close> Inr by (simp add: run_prepared_def)
        qed
      qed
    qed
  qed
qed

lemma prepareExecution_frame:
  assumes "prepareExecution env req h = Some (r, h1)"
  obtains d where "h1 = (set_phase PhaseScript ''Preparing k6 script...'' h)\<lparr>th_scripts := d\<rparr>"
proof -
  have "h1 = (set_phase PhaseScript ''Preparing k6 script...'' h)\<lparr>th_scripts := th_scripts h1\<rparr>"
    using assms by (auto simp: prepareExecution_def Let_def set_phase_def split: option.splits sum.splits prod.splits)
  then show thesis using that by blast
qed


subsection \<open>A start that is accepted\<close>

definition set_up :: "run_env \<Rightarrow> int \<Rightarrow> string \<Rightarrow> bool \<Rightarrow> conflict_warning list \<Rightarrow> test_handler \<Rightarrow> test_handler \<Rightarrow> bool" where
  "set_up env uid i c ws h h' \<longleftrightarrow>
    active h' = i \<and> th_notified h' = th_notified h \<and> reg_lateUploadTTL (th_registry h') = reg_lateUploadTTL (th_registry h) \<and>
    (\<exists>row. fst (th_tests h') = fst (th_tests h) @ [row] \<and> lt_ID row = i \<and> lt_Status row = ''running'' \<and> lt_UserID row = uid) \<and>
    i \<notin> lt_ID ` set (fst (th_tests h)) \<and>
    (\<exists>run. reg_runs (th_registry h') i = Some run \<and> is_zero (run_expiresAt run) \<and> run_uploadToken run = en_token env \<and>
      run_expectedWorkers run = normalize_workers [] (WorkerNames (th_orch h))) \<and>
    (\<exists>vars. sd_env (th_scripts h') = Some (env_text vars) \<and> map_of vars ''SHIVA_ARTIFACT_UPLOAD_TOKEN'' = Some (en_token env) \<and>
      map_of vars ''SHIVA_ARTIFACT_TEST_ID'' = Some i) \<and>
    (\<exists>info. th_pending h' = (th_pending h)(i \<mapsto> info) \<and> pt_Controllable info = c \<and> pt_Warnings info = ws) \<and>
    (\<exists>l. th_loops h' = th_loops h @ [l] \<and> pl_testID l = i \<and> \<not> pl_returned l \<and> pl_onComplete l \<and> o_cancelPoll (th_orch h') = Some (pl_ctx l))"

lemma start_polling_sel:
  "active (start_polling env i req p managed h) = i" "th_tests (start_polling env i req p managed h) = th_tests h"
  "th_registry (start_polling env i req p managed h) = th_registry h" "th_scripts (start_polling env i req p managed h) = th_scripts h"
  "th_pending (start_polling env i req p managed h) = th_pending h" "th_notified (start_polling env i req p managed h) = th_notified h"
  "\<exists>l. th_loops (start_polling env i req p managed h) = th_loops h @ [l] \<and> pl_testID l = i \<and> \<not> pl_returned l \<and> pl_onComplete l \<and>
     o_cancelPoll (th_orch (start_polling env i req p managed h)) = Some (pl_ctx l)"
  by (simp_all add: start_polling_def StartPolling_def resetPollingStateLocked_def Let_def split: option.split)

lemma savePendingMeta_sel:
  "th_tests (savePendingMeta env i req ws e c pl h) = th_tests h" "th_registry (savePendingMeta env i req ws e c pl h) = th_registry h"
  "th_scripts (savePendingMeta env i req ws e c pl h) = th_scripts h" "th_loops (savePendingMeta env i req ws e c pl h) = th_loops h"
  "th_notified (savePendingMeta env i req ws e c pl h) = th_notified h"
  by (simp_all add: savePendingMeta_def)

lemma savePendingMeta_info:
  "\<exists>info. th_pending (savePendingMeta env i req ws e c pl h) = (th_pending h)(i \<mapsto> info) \<and> pt_Controllable info = c \<and> pt_Warnings info = ws"
  by (auto simp: savePendingMeta_def intro!: exI)

lemma upload_vars_set:
  "map_of (fold (\<lambda>(k, v). AList.update k v) (upload_vars url token i) vars) ''SHIVA_ARTIFACT_UPLOAD_TOKEN'' = Some token"
  "map_of (fold (\<lambda>(k, v). AList.update k v) (upload_vars url token i) vars) ''SHIVA_ARTIFACT_TEST_ID'' = Some i"
  by (simp_all add: upload_vars_def update_conv')

lemma env_file_written:
  assumes "WriteEnvFile fs vars d = (Inr (), d1)" "vars \<noteq> []"
  shows "sd_env d1 = Some (env_text vars)"
  using assms by (auto simp: WriteEnvFile_def file_op_def split: option.splits)

lemma run_prepared_started:
  assumes "run_prepared env req uid username p h = (Inr (i, c, ws), h')"
  shows "set_up env uid i c ws h h'"
proof -
  obtain r1 h1 where cr: "createRunningLoadTest env req uid username p (cleanup_output env h) = (r1, h1)" by fastforce
  have r1': "\<not> is_err r1" using assms cr by (auto simp: run_prepared_def split: sum.splits)
  with cr obtain j tab where r1: "r1 = Inr j" "h1 = (cleanup_output env h)\<lparr>th_tests := tab\<rparr>"
      "fst tab = fst (th_tests h) @ [new_row env j req uid username p]" "j \<notin> lt_ID ` set (fst (th_tests h))"
    using r1' by (elim create_cases) (auto simp: cleanup_output_def)
  obtain r2 p1 h2 where cf: "configureArtifactUploads env j p h1 = (r2, p1, h2)" by (metis prod_cases3)
  have "\<not> is_err r2" using assms cr r1(1) cf by (auto simp: run_prepared_def split: sum.splits)
  with cf obtain d where r2: "r2 = Inr ()" "h2 = h1\<lparr>th_registry := RegisterRun (en_now env) j (WorkerNames (th_orch h1)) (en_token env) (th_registry h1), th_scripts := d\<rparr>"
      "WriteEnvFile (en_fs env) (ep_envVars p1) (th_scripts h1) = (Inr (), d)"
      "p1 = p\<lparr>ep_envVars := fold (\<lambda>(k, v). AList.update k v) (upload_vars (th_controllerURL h1) (en_token env) j) (ep_envVars p)\<rparr>"
    by (elim configure_cases) auto
  obtain r3 h3 where rl: "reloadWorkersForExecution env h2 = (r3, h3)" by fastforce
  then obtain o1 where o1: "h3 = h2\<lparr>th_orch := o1\<rparr>" "o_activeTestID o1 = []" using reload_cases by blast
  obtain r4 h4 where st: "startPreparedExecution env j req p1 h3 = (r4, h4)" by fastforce
  have fin: "i = j" "c = ep_controllable p1" "ws = ep_conflictWarnings p1" "h' = h4" "r4 = Inr ()"
    using assms cr r1(1) cf r2(1) rl st by (auto simp: run_prepared_def split: sum.splits)
  have "active h3 = []" using o1 by simp
  from start_cases [OF st this] obtain o2 managed where h4: "h4 = start_polling env j req p1 managed
      ((savePendingMeta env j req (ep_conflictWarnings p1) (ep_executorType p1) (ep_controllable p1) (ep_payload p1) h3)\<lparr>th_orch := o2\<rparr>)"
    using fin(5) by (metis Inl_Inr_False)
  have vars: "map_of (ep_envVars p1) ''SHIVA_ARTIFACT_UPLOAD_TOKEN'' = Some (en_token env)" "map_of (ep_envVars p1) ''SHIVA_ARTIFACT_TEST_ID'' = Some j"
    by (simp_all add: r2(4) upload_vars_set)
  have "sd_env d = Some (env_text (ep_envVars p1))" using env_file_written [OF r2(3)] vars(1) by force
  then have env: "\<exists>vars. sd_env (th_scripts h') = Some (env_text vars) \<and> map_of vars ''SHIVA_ARTIFACT_UPLOAD_TOKEN'' = Some (en_token env) \<and>
      map_of vars ''SHIVA_ARTIFACT_TEST_ID'' = Some i" using vars r2 o1(1) fin(1,4) by (auto simp: h4 start_polling_sel savePendingMeta_sel)
  have reg: "th_registry h' = RegisterRun (en_now env) i (WorkerNames (th_orch h)) (en_token env) (th_registry h)" and
    tests: "fst (th_tests h') = fst (th_tests h) @ [new_row env i req uid username p]" and sel: "th_notified h' = th_notified h" "active h' = i"
    using r1 r2(2) o1(1) fin(1,4) by (simp_all add: h4 start_polling_sel savePendingMeta_sel cleanup_output_def)
  have "th_pending h3 = th_pending h" "th_loops h3 = th_loops h" using r1 r2(2) o1(1) by (simp_all add: cleanup_output_def)
  note h3 = this
  have info: "\<exists>info. th_pending h' = (th_pending h)(i \<mapsto> info) \<and> pt_Controllable info = c \<and> pt_Warnings info = ws"
    using savePendingMeta_info [of env j req ws "ep_executorType p1" c "ep_payload p1" h3] fin(1-4) h3(1) by (simp add: h4 start_polling_sel)
  have loop: "\<exists>l. th_loops h' = th_loops h @ [l] \<and> pl_testID l = i \<and> \<not> pl_returned l \<and> pl_onComplete l \<and> o_cancelPoll (th_orch h') = Some (pl_ctx l)"
    using start_polling_sel(7) [of env j req p1 managed "(savePendingMeta env j req (ep_conflictWarnings p1) (ep_executorType p1) (ep_controllable p1)
      (ep_payload p1) h3)\<lparr>th_orch := o2\<rparr>"] h3(2) unfolding fin(1,4) h4 by (simp add: savePendingMeta_sel)
  show ?thesis unfolding set_up_def using env info loop sel r1(4) fin(1)
    by (simp add: reg tests new_row_sel RegisterRun_def Let_def is_zero_def cleanupExpiredLocked_def)
qed

lemma ExecuteTest_set_up:
  assumes "ExecuteTest env req uid username h = Some (Inr (i, c, ws), h')"
  shows "active h = [] \<and> set_up env uid i c ws h h'"
proof -
  obtain req1 p h1 where e: "active h = []" "prepareExecution env req1 h = Some (Inr p, h1)" "run_prepared env req1 uid username p h1 = (Inr (i, c, ws), h')"
    using assms by (auto simp: ExecuteTest_def split: option.splits sum.splits prod.splits if_splits)
  from prepareExecution_frame [OF e(2)] obtain d where h1: "h1 = (set_phase PhaseScript ''Preparing k6 script...'' h)\<lparr>th_scripts := d\<rparr>" by blast
  show ?thesis using e(1) run_prepared_started [OF e(3)] by (simp add: h1 set_up_def set_phase_def WorkerNames_def)
qed

text \<open>
  C5. A start that is accepted was made while no test was running. It adds one row, of a new running test of this user, makes this
  test the active one and starts its polling loop, registers a run that accepts uploads with the generated token from the
  workers, writes this token and the test into the environment of the workers, and keeps the information about the test.
\<close>

theorem accepted_start_sets_up_run:
  assumes "ExecuteTest env req uid username h = Some (Inr (i, c, ws), h')"
  shows "active h = [] \<and> set_up env uid i c ws h h'"
  by (rule ExecuteTest_set_up [OF assms])


subsection \<open>The collection ends\<close>

lemma collect_loop_returns:
  assumes "n \<le> m" "deadline \<le> ws_now (w m)"
  shows "\<exists>c fm' k h'. collect_loop env i expected deadline w n best fm h = Some (c, fm', k, h') \<and> n \<le> k \<and> k \<le> m"
  using assms(1)
proof (induction "m - n" arbitrary: n best fm h)
  case 0
  then have "n = m" by simp
  then show ?case using assms(2) by (subst collect_loop.simps) (auto split: prod.splits)
next
  case (Suc d)
  obtain b best1 fm1 h1 where a: "collect_attempt env (ws_now (w n)) i expected best fm (ws_others (w n) h) = ((b, best1, fm1), h1)"
    by (metis prod_cases3 surj_pair)
  have "\<exists>c fm' k h'. collect_loop env i expected deadline w (Suc n) best1 fm1 h1 = Some (c, fm', k, h') \<and> Suc n \<le> k \<and> k \<le> m"
    using Suc by (intro Suc.hyps(1)) auto
  then show ?case using Suc.prems a by (subst collect_loop.simps) (auto dest: Suc_leD)
qed

text \<open>
  The timer of the wait: an attempt before the deadline is followed by one a second later, or at the deadline if that comes first.
\<close>

definition timer_runs :: "(nat \<Rightarrow> wait_step) \<Rightarrow> time \<Rightarrow> bool" where
  "timer_runs w deadline \<longleftrightarrow> (\<forall>n. ws_now (w n) < deadline \<longrightarrow> min deadline (ws_now (w n) + second) \<le> ws_now (w (Suc n))) \<and>
    (\<forall>n. ws_now (w n) \<le> ws_now (w (Suc n)))"

lemma timer_progress:
  assumes "timer_runs w deadline"
  shows "min deadline (ws_now (w n) + int k * second) \<le> ws_now (w (n + k))"
proof (induction k)
  case (Suc k)
  have s: "(0::int) < second" by simp
  have step: "ws_now (w (n + k)) < deadline \<Longrightarrow> min deadline (ws_now (w (n + k)) + second) \<le> ws_now (w (n + Suc k))"
    "ws_now (w (n + k)) \<le> ws_now (w (n + Suc k))" using assms by (simp_all add: timer_runs_def)
  show ?case
  proof (cases "ws_now (w (n + k)) < deadline")
    case True
    then show ?thesis using Suc step(1) s by (auto simp: min_def algebra_simps split: if_splits)
  qed (use step(2) in auto)
qed simp

lemma ceil_div:
  fixes a b :: int
  assumes "0 < b" "0 < a"
  shows "0 \<le> (a + b - 1) div b" "a \<le> (a + b - 1) div b * b" "(a + b - 1) div b * b < a + b"
proof -
  have "(a + b - 1) div b * b + (a + b - 1) mod b = a + b - 1" "0 \<le> (a + b - 1) mod b" "(a + b - 1) mod b < b"
    using assms(1) by (simp_all only: div_mult_mod_eq pos_mod_sign pos_mod_bound)
  then show "a \<le> (a + b - 1) div b * b" "(a + b - 1) div b * b < a + b" by linarith+
  show "0 \<le> (a + b - 1) div b" using assms by (simp add: pos_imp_zdiv_nonneg_iff)
qed

text \<open>
  C32. The collection of artifacts always ends: whatever the other goroutines do in the meantime, it returns after at most one attempt
  more than there are seconds (or begun seconds) left to the deadline.
\<close>

theorem collection_ends_by_deadline:
  assumes "timer_runs w deadline"
  shows "\<exists>c fm' k h'. loadCompletionSummary env i expected deadline w n fm h = Some (c, fm', k, h') \<and> n \<le> k \<and>
    int (k - n) * second < max 0 (deadline - ws_now (w n)) + second"
proof (cases "deadline \<le> ws_now (w n)")
  case True
  then show ?thesis by (auto simp: loadCompletionSummary_def Let_def)
next
  case False
  define q where "q = (deadline - ws_now (w n) + second - 1) div second"
  have q: "0 \<le> q" "deadline - ws_now (w n) \<le> q * second" "q * second < deadline - ws_now (w n) + second"
    using ceil_div [of second "deadline - ws_now (w n)"] False unfolding q_def by simp_all
  have "min deadline (ws_now (w n) + int (nat q) * second) \<le> ws_now (w (n + nat q))" by (rule timer_progress [OF assms])
  then have "deadline \<le> ws_now (w (n + nat q))" using q by (auto simp: min_def split: if_splits)
  then obtain c fm' k h' where k: "collect_loop env i (if expected = [] then WorkerNames (th_orch h) else expected) deadline w n
      (no_collection (if expected = [] then WorkerNames (th_orch h) else expected)) fm h = Some (c, fm', k, h')" "n \<le> k" "k \<le> n + nat q"
    using collect_loop_returns [of n "n + nat q" deadline w] by fastforce
  have "int (k - n) * second \<le> q * second" using k(3) q(1) by (intro mult_right_mono) auto
  then show ?thesis using k False q(3) by (simp add: loadCompletionSummary_def Let_def)
qed

subsection \<open>An example\<close>

definition demo_id :: "nat \<Rightarrow> string" where
  "demo_id n = ''run-'' @ nat_str n"

definition demo_script :: string where
  "demo_script = ''export default function () { status_4xx(); } export function handleSummary() {}''"
definition demo_run_request :: test_request where
  "demo_run_request = zero_test_request\<lparr>req_ProjectName := ''p'', req_ScriptContent := demo_script\<rparr>"
definition ready_status :: k6_status where
  "ready_status = \<lparr>ks_Status = RawNull, ks_Paused = True, ks_VUs = 0, ks_VUsMax = 0, ks_Stopped = False, ks_Running = False, ks_Tainted = False\<rparr>"
lemma demo_contains: "contains demo_script ''export default function''" unfolding demo_script_def by code_simp
lemma demo_validate: "ValidateUpload demo_script = None"
proof -
  have p: "demo_script \<noteq> []" "is_plain (hd demo_script)" "is_plain (last demo_script)" "length demo_script = 79"
    unfolding demo_script_def by code_simp+
  show ?thesis using demo_contains trim_space_plain [OF p(1-3)] p by (simp add: ValidateUpload_def)
qed
lemma demo_run_request_sel: "req_ScriptContent demo_run_request = demo_script" "req_URL demo_run_request = []" "req_ConfigContent demo_run_request = []"
  "req_Auth demo_run_request = zero_auth_input" "req_HTTPMethod demo_run_request = []" "req_ContentType demo_run_request = []"
  "req_PayloadJSON demo_run_request = []" "req_PayloadTargetKiB demo_run_request = 0" "demo_script \<noteq> []"
  by (simp_all add: demo_run_request_def zero_test_request_def demo_script_def)

lemma demo_run_request_valid: "validateExecutionRequest lib ul demo_run_request = Some (Inr demo_run_request)"
proof -
  have a: "normalizeAuthInput ul zero_auth_input = Inr zero_auth_input" by (simp add: normalizeAuthInput_def zero_auth_input_def Let_def)
  have p: "\<not> HasPayloadConfiguration [] [] [] 0" by code_simp
  have "\<not> ai_Enabled zero_auth_input" by (simp add: zero_auth_input_def)
  moreover have "demo_run_request\<lparr>req_Auth := zero_auth_input\<rparr> = demo_run_request" "demo_run_request\<lparr>req_HTTPMethod := [], req_ContentType := [], req_PayloadJSON := []\<rparr> = demo_run_request"
    by (simp_all add: demo_run_request_def zero_test_request_def)
  ultimately show ?thesis using a p by (simp add: validateExecutionRequest_def demo_run_request_sel normalizeTestRequestPayload_def normalizePayloadFields_def Let_def)
qed

definition demo_run_env :: "(nat \<Rightarrow> k6_status http_reply) list \<Rightarrow> run_env" where
  "demo_run_env rounds = \<lparr>en_store = \<lparr>se_fault = (\<lambda>n. None), se_now = 1000 * second, se_uuid = demo_id\<rparr>, en_json = demo_summary_lib, en_url = demo_url_lib,
    en_codec = demo_codec zero_result, en_render = (\<lambda>t d. Inr []), en_buffer = 30, en_summaryJS = [], en_indent = (\<lambda>obj. ''{}''), en_fs = (\<lambda>f. None),
    en_removable = (\<lambda>f. True), en_outputDir = ''/output'', en_token = ''token'', en_stopOrder = [], en_stop = (\<lambda>i. Reply 200 [] (Inr ready_status)),
    en_rounds = rounds,
    en_start = (\<lambda>n. \<lparr>se_resumeOrder = [], se_resume = (\<lambda>i a. Reply 200 [] (Inr ready_status)), se_stopOrder = [], se_stop = (\<lambda>i. Reply 200 [] (Inr ready_status)), se_rounds = []\<rparr>),
    en_metrics = (\<lambda>i. DoErr ''down'')\<rparr>"

lemma demo_run_env_sel:
  "en_store (demo_run_env rs) = \<lparr>se_fault = (\<lambda>n. None), se_now = 1000 * second, se_uuid = demo_id\<rparr>"
  "en_fs (demo_run_env rs) = (\<lambda>f. None)" "en_rounds (demo_run_env rs) = rs" "no_faults (en_store (demo_run_env rs))"
  "se_resume (en_start (demo_run_env rs) n) = (\<lambda>i a. Reply 200 [] (Inr ready_status))" "se_resumeOrder (en_start (demo_run_env rs) n) = []"
  by (simp_all add: demo_run_env_def no_faults_def)

definition ready_rounds :: "(nat \<Rightarrow> k6_status http_reply) list" where
  "ready_rounds = [\<lambda>i. Reply 200 [] (Inr ready_status), \<lambda>i. Reply 200 [] (Inr ready_status)]"

lemma demo_prepare: "\<exists>p. prepare (demo_run_env rs) demo_run_request n = Some (Inr (p, None)) \<and> ep_scriptContent p = demo_script \<and> ep_envVars p = []"
  by (simp add: prepare_def prep_script_def prep_config_def prep_payload_def apply_config_def add_run_env_def demo_run_request_sel demo_validate)

lemma demo_reload: "\<exists>h1. reloadWorkersForExecution (demo_run_env ready_rounds) h = (Inr (), h1)"
proof -
  have "IsReadyForStart ready_status" by (simp add: ready_status_def IsReadyForStart_def IsFinished_def)
  then have "WaitForAllReady (en_rounds (demo_run_env ready_rounds)) o1 = None" for o1
    by (simp add: WaitForAllReady_def demo_run_env_sel ready_rounds_def all_ready_def worker_IsReadyForStart_def list_all_iff)
  then show ?thesis by (simp add: reloadWorkersForExecution_def Let_def)
qed

lemma demo_start: "\<exists>h1. startPreparedExecution (demo_run_env rs) i demo_run_request p h = (Inr (), h1)"
proof -
  have "resumeAll [] (\<lambda>i a. Reply 200 [] (Inr ready_status)) False True o1 = None" for o1
    by (simp add: resumeAll_def g_Wait_def numeral_eq_Suc)
  then have "ResumeAllForStart (en_start (demo_run_env rs)) o1 = (None, o1)" for o1
    by (simp add: ResumeAllForStart_def maxRecoveryAttempts_def numeral_3_eq_3 demo_run_env_sel Let_def)
  then show ?thesis by (simp add: startPreparedExecution_def Let_def case_prod_beta)
qed

definition demo_fresh :: "test_handler \<Rightarrow> bool" where
  "demo_fresh h \<longleftrightarrow> active h = [] \<and> \<not> list_ex (\<lambda>r. lt_ID r = demo_id (snd (th_tests h))) (fst (th_tests h))"

lemma demo_create:
  assumes "demo_fresh h"
  shows "createRunningLoadTest (demo_run_env rs) req uid username p h =
    (Inr (demo_id (snd (th_tests h))),
     h\<lparr>th_tests := (fst (th_tests h) @ [new_row (demo_run_env rs) (demo_id (snd (th_tests h))) req uid username p], Suc (snd (th_tests h)))\<rparr>)"
  using assms
  by (cases "th_tests h")
    (simp add: demo_fresh_def createRunningLoadTest_def CreateLoadTest_def stmt_insert_def stmt_def demo_run_env_sel new_load_test_def new_row_def Let_def)

lemma demo_configure: "\<exists>q1 h1. configureArtifactUploads (demo_run_env rs) i q h = (Inr (), q1, h1)"
proof -
  have "\<exists>d1. WriteEnvFile (\<lambda>f. None) vars d = (Inr (), d1)" for vars d by (simp add: WriteEnvFile_def RemoveEnvFile_def file_op_def)
  then show ?thesis unfolding configureArtifactUploads_def Let_def demo_run_env_sel(2) by (metis (no_types, lifting) old.prod.case old.sum.simps(6))
qed

text \<open>The steps of a start up to the workers.\<close>

lemma demo_steps:
  assumes "demo_fresh h"
  shows "\<exists>q1 h2. ExecuteTest (demo_run_env rs) demo_run_request 1 ''u'' h =
    Some (case reloadWorkersForExecution (demo_run_env rs) h2 of
      (Inl e, h3) \<Rightarrow> (Inl e, save_test (demo_run_env rs) (demo_id (snd (th_tests h))) ''error'' None
        (remove_run (en_now (demo_run_env rs)) (demo_id (snd (th_tests h))) h3))
    | (Inr _, h3) \<Rightarrow> (case startPreparedExecution (demo_run_env rs) (demo_id (snd (th_tests h))) demo_run_request q1 h3 of
        (Inl e, h4) \<Rightarrow> (Inl e, remove_run (en_now (demo_run_env rs)) (demo_id (snd (th_tests h))) h4)
      | (Inr _, h4) \<Rightarrow> (Inr (demo_id (snd (th_tests h)), ep_controllable q1, ep_conflictWarnings q1), h4)))"
proof -
  let ?env = "demo_run_env rs"
  obtain p where p: "prepare ?env demo_run_request (int (WorkerCount (th_orch h))) = Some (Inr (p, None))" "ep_scriptContent p = demo_script" "ep_envVars p = []"
    using demo_prepare by blast
  obtain q d where w: "write_files ?env None p (th_scripts h) = (Inr q, d)"
    by (simp add: write_files_def write_config_def write_env_def p WriteScript_def file_op_def demo_run_env_sel Let_def)
  let ?h = "(set_phase PhaseScript ''Preparing k6 script...'' h)\<lparr>th_scripts := d\<rparr>"
  have e: "ExecuteTest ?env demo_run_request 1 ''u'' h = Some (run_prepared ?env demo_run_request 1 ''u'' q ?h)"
    using assms p(1) w by (simp add: ExecuteTest_def demo_run_request_valid prepareExecution_def Let_def set_phase_def demo_fresh_def)
  have t: "th_tests (cleanup_output ?env ?h) = th_tests h" "demo_fresh (cleanup_output ?env ?h)"
    using assms by (simp_all add: handler_defs demo_fresh_def)
  obtain h1 where c: "createRunningLoadTest ?env demo_run_request 1 ''u'' q (cleanup_output ?env ?h) = (Inr (demo_id (snd (th_tests h))), h1)"
    using demo_create [OF t(2), of rs demo_run_request 1 "''u''" q] unfolding t(1) by blast
  obtain q1 h2 where u: "configureArtifactUploads ?env (demo_id (snd (th_tests h))) q h1 = (Inr (), q1, h2)"
    using demo_configure by blast
  show ?thesis unfolding e run_prepared_def c using u by (intro exI [of _ q1] exI [of _ h2]) simp
qed

lemma demo_accepted:
  assumes "demo_fresh h"
  shows "\<exists>c ws h'. ExecuteTest (demo_run_env ready_rounds) demo_run_request 1 ''u'' h = Some (Inr (demo_id (snd (th_tests h)), c, ws), h')"
proof -
  obtain q1 h2 where s: "ExecuteTest (demo_run_env ready_rounds) demo_run_request 1 ''u'' h =
    Some (case reloadWorkersForExecution (demo_run_env ready_rounds) h2 of
      (Inl e, h3) \<Rightarrow> (Inl e, save_test (demo_run_env ready_rounds) (demo_id (snd (th_tests h))) ''error'' None
        (remove_run (en_now (demo_run_env ready_rounds)) (demo_id (snd (th_tests h))) h3))
    | (Inr _, h3) \<Rightarrow> (case startPreparedExecution (demo_run_env ready_rounds) (demo_id (snd (th_tests h))) demo_run_request q1 h3 of
        (Inl e, h4) \<Rightarrow> (Inl e, remove_run (en_now (demo_run_env ready_rounds)) (demo_id (snd (th_tests h))) h4)
      | (Inr _, h4) \<Rightarrow> (Inr (demo_id (snd (th_tests h)), ep_controllable q1, ep_conflictWarnings q1), h4)))"
    using demo_steps [OF assms] by blast
  obtain h3 h4 where "reloadWorkersForExecution (demo_run_env ready_rounds) h2 = (Inr (), h3)"
    "startPreparedExecution (demo_run_env ready_rounds) (demo_id (snd (th_tests h))) demo_run_request q1 h3 = (Inr (), h4)"
    using demo_reload demo_start by meson
  then show ?thesis using s by simp
qed

definition demo_idle :: test_handler where
  "demo_idle = NewTestHandler (New_orch [''w1:6565'', ''w2:6565''] (2 * second) 0 \<lparr>dc_Enabled = False, dc_Host = [], dc_Port = 0\<rparr>) None []"

lemma demo_idle_sel: "demo_fresh demo_idle" "th_tests demo_idle = ([], 0)" "th_registry demo_idle = NewRegistry" "active demo_idle = []"
  by (simp_all add: demo_idle_def demo_fresh_def NewTestHandler_def New_orch_def)

theorem accepted_start_sets_up_run_witness:
  "\<exists>c ws h'. ExecuteTest (demo_run_env ready_rounds) demo_run_request 1 ''u'' demo_idle = Some (Inr (demo_id 0, c, ws), h') \<and>
    active h' = demo_id 0 \<and> set_up (demo_run_env ready_rounds) 1 (demo_id 0) c ws demo_idle h'"
proof -
  obtain c ws h' where e: "ExecuteTest (demo_run_env ready_rounds) demo_run_request 1 ''u'' demo_idle = Some (Inr (demo_id 0, c, ws), h')"
    using demo_accepted [OF demo_idle_sel(1)] by (auto simp: demo_idle_sel)
  from accepted_start_sets_up_run [OF e] show ?thesis using e by (auto simp: set_up_def)
qed


definition demo_wait :: "nat \<Rightarrow> wait_step" where
  "demo_wait n = \<lparr>ws_now = (1000 + int n) * second, ws_others = (\<lambda>h. h), ws_cancelled = False\<rparr>"

theorem collection_ends_by_deadline_witness:
  "\<exists>c fm' k h'. loadCompletionSummary (demo_run_env []) ''t'' [''w1''] (1010 * second) demo_wait 0 None demo_idle = Some (c, fm', k, h') \<and> k \<le> 10"
proof -
  have "timer_runs demo_wait (1010 * second)" by (simp add: timer_runs_def demo_wait_def)
  from collection_ends_by_deadline [OF this] obtain c fm' k h'
    where k: "loadCompletionSummary (demo_run_env []) ''t'' [''w1''] (1010 * second) demo_wait 0 None demo_idle = Some (c, fm', k, h')"
      "int (k - 0) * second < max 0 (1010 * second - ws_now (demo_wait 0)) + second" by blast
  then have "k \<le> 10" by (simp add: demo_wait_def)
  then show ?thesis using k(1) by blast
qed

end
