(* ===== verification/CompletionProofs.thy ===== *)
theory CompletionProofs
  imports TestRunProofs
begin

text \<open>
  The completion of a test: it returns, stores the result, closes the run and tells the scheduler; and what happens to a test that
  is started while the artifacts of the previous one are collected, and to one whose result cannot be stored.
\<close>

subsection \<open>What the collection keeps\<close>

lemma Snapshot_cleans: "\<exists>t. snd (Snapshot_run now i reg) = reg \<or> snd (Snapshot_run now i reg) = cleanupExpiredLocked t reg"
  by (auto simp: Snapshot_run_def Let_def split: option.split)

lemma ttl_clean [simp]: "reg_lateUploadTTL (cleanupExpiredLocked t reg) = reg_lateUploadTTL reg"
  by (simp add: cleanupExpiredLocked_def)

lemma ttl_Snapshot [simp]: "reg_lateUploadTTL (snd (Snapshot_run now i reg)) = reg_lateUploadTTL reg"
  by (auto simp: Snapshot_run_def Let_def split: option.split)

lemma summary_metrics_core:
  "map_option metrics_core (snd (snd (summaryCollectionFromRaw lib ex raw fm))) = map_option metrics_core fm"
  by (auto simp: summaryCollectionFromRaw_def option.map_comp comp_def split: sum.split)

lemma loadUploaded_keeps:
  "map_option metrics_core (snd (fst (loadUploadedSummary env now i fm ex reg))) = map_option metrics_core fm"
  "snd (loadUploadedSummary env now i fm ex reg) = snd (Snapshot_run now i reg)"
proof -
  show "map_option metrics_core (snd (fst (loadUploadedSummary env now i fm ex reg))) = map_option metrics_core fm"
    using summary_metrics_core [of "en_json env" ex _ fm]
    by (auto simp: loadUploadedSummary_def split: prod.split option.split) (metis snd_conv)+
  show "snd (loadUploadedSummary env now i fm ex reg) = snd (Snapshot_run now i reg)"
    by (simp add: loadUploadedSummary_def split: prod.split option.split)
qed

lemma file_attempt_keeps: "map_option metrics_core (snd (snd (file_attempt env ex best fm dir))) = map_option metrics_core fm"
  using summary_metrics_core [of "en_json env" ex "ReadRawSummaries (en_json env) dir" fm]
  by (auto simp: file_attempt_def Let_def split: prod.splits option.splits)

lemma attempt_keeps:
  assumes "collect_attempt env now i ex best fm h = ((b, best1, fm1), h1)"
  shows "map_option metrics_core fm1 = map_option metrics_core fm" "h1 = h\<lparr>th_registry := snd (Snapshot_run now i (th_registry h))\<rparr>"
proof -
  obtain c fm0 reg where l: "loadUploadedSummary env now i fm ex (th_registry h) = ((c, fm0), reg)" by (metis surj_pair)
  have k: "map_option metrics_core fm0 = map_option metrics_core fm" "reg = snd (Snapshot_run now i (th_registry h))"
    using loadUploaded_keeps [of env now i fm ex "th_registry h"] l by simp_all
  show "h1 = h\<lparr>th_registry := snd (Snapshot_run now i (th_registry h))\<rparr>" using assms l k(2) by (simp add: collect_attempt_def)
  show "map_option metrics_core fm1 = map_option metrics_core fm"
    using assms l k(1) file_attempt_keeps [of env ex "if sc_Loaded c then better c best else best" fm0 "th_output h"]
    by (auto simp: collect_attempt_def split: if_splits)
qed

text \<open>An invariant that the other goroutines keep holds after the collection.\<close>

definition kept_by :: "(test_handler \<Rightarrow> bool) \<Rightarrow> nat \<Rightarrow> (nat \<Rightarrow> wait_step) \<Rightarrow> bool" where
  "kept_by I n w \<longleftrightarrow> (\<forall>m \<ge> n. \<forall>g. I g \<longrightarrow> I (ws_others (w m) g)) \<and>
    (\<forall>g now i. I g \<longrightarrow> I (g\<lparr>th_registry := snd (Snapshot_run now i (th_registry g))\<rparr>))"

lemma collect_loop_inv:
  assumes "collect_loop env i ex deadline w n best fm h = Some (c, fm', k, h')" "kept_by I n w" "I h"
  shows "I h' \<and> map_option metrics_core fm' = map_option metrics_core fm \<and> n \<le> k"
proof -
  let ?P = "\<lambda>env i ex deadline w n best fm h y. kept_by I n w \<longrightarrow> I h \<longrightarrow>
    I (snd (snd (snd y))) \<and> map_option metrics_core (fst (snd y)) = map_option metrics_core fm \<and> n \<le> fst (snd (snd y))"
  have "?P env i ex deadline w n best fm h (c, fm', k, h')"
  proof (rule collect_loop.raw_induct [of ?P, OF _ assms(1)])
    fix loop env i ex deadline w n best fm h y
    assume 1: "\<And>env i ex deadline w n best fm h y. loop env i ex deadline w n best fm h = Some y \<Longrightarrow> ?P env i ex deadline w n best fm h y"
      "(case collect_attempt env (ws_now (w n)) i ex best fm (ws_others (w n) h) of
         ((all_in, best1, fm1), h1) \<Rightarrow>
           if all_in then Some (best1, fm1, n, h1)
           else if deadline \<le> ws_now (w n) \<or> ws_cancelled (w n) then Some (give_up ex best1, fm1, n, h1)
           else loop env i ex deadline w (Suc n) best1 fm1 h1) = Some y"
    obtain b best1 fm1 h1 where a: "collect_attempt env (ws_now (w n)) i ex best fm (ws_others (w n) h) = ((b, best1, fm1), h1)"
      by (metis prod_cases3 surj_pair)
    note kp = attempt_keeps [OF a]
    have I1: "kept_by I n w \<Longrightarrow> I h \<Longrightarrow> I h1" by (simp add: kp(2) kept_by_def)
    have nxt: "kept_by I n w \<Longrightarrow> kept_by I (Suc n) w" by (auto simp: kept_by_def)
    show "?P env i ex deadline w n best fm h y"
    proof (cases "b \<or> deadline \<le> ws_now (w n) \<or> ws_cancelled (w n)")
      case True
      then have "fst (snd y) = fm1 \<and> fst (snd (snd y)) = n \<and> snd (snd (snd y)) = h1" using 1(2) a by (auto split: if_splits)
      then show ?thesis using I1 kp(1) by simp
    next
      case False
      then have "loop env i ex deadline w (Suc n) best1 fm1 h1 = Some y" using 1(2) a by simp
      from 1(1) [OF this] show ?thesis using I1 nxt kp(1) by auto
    qed
  qed
  then show ?thesis using assms(2,3) by simp
qed

lemma loadCompletionSummary_inv:
  assumes "loadCompletionSummary env i ex deadline w n fm h = Some (c, fm', k, h')" "kept_by I n w" "I h"
  shows "I h' \<and> map_option metrics_core fm' = map_option metrics_core fm \<and> n \<le> k"
proof (cases "deadline \<le> ws_now (w n)")
  case True
  then show ?thesis using assms by (simp add: loadCompletionSummary_def Let_def)
next
  case False
  let ?ex = "if ex = [] then WorkerNames (th_orch h) else ex"
  have "collect_loop env i ?ex deadline w n (no_collection ?ex) fm h = Some (c, fm', k, h')"
    using assms(1) False by (simp add: loadCompletionSummary_def Let_def)
  from collect_loop_inv [OF this assms(2,3)] show ?thesis .
qed

text \<open>The workers are stopped between the two collections.\<close>

lemma collect_artifacts_inv:
  assumes "collect_artifacts env i w data h = Some (data', raw, k, h')" "kept_by I 0 w" "I h" "\<And>g. I g \<Longrightarrow> I (stop_workers env g)"
  shows "I h'" "map_option metrics_core (cd_metrics data') = map_option metrics_core (cd_metrics data)"
    "metadata_core (cd_metadata data') = metadata_core (cd_metadata data)" "cd_timeSeries data' = cd_timeSeries data" "cd_warnings data' = cd_warnings data"
proof -
  obtain d1 d2 where d: "artifactCollectionDeadlines (en_now env) (artifactCollectionGraceWindow (Some (cd_metadata data))) (5 * second) True = (d1, d2)"
    by fastforce
  let ?ex = "WorkerNames (th_orch h)"
  obtain c1 fm1 n1 h1 where l1: "loadCompletionSummary env i ?ex d1 w 0 (cd_metrics data) h = Some (c1, fm1, n1, h1)"
    using assms(1) d by (auto simp: collect_artifacts_def Let_def split: option.splits prod.splits)
  note i1 = loadCompletionSummary_inv [OF l1 assms(2,3)]
  have k1: "kept_by I (Suc n1) w" using assms(2) by (simp add: kept_by_def)
  have I2: "I (stop_workers env h1)" using i1 assms(4) by blast
  have all: "I h' \<and> map_option metrics_core (cd_metrics data') = map_option metrics_core (cd_metrics data) \<and>
    metadata_core (cd_metadata data') = metadata_core (cd_metadata data) \<and> cd_timeSeries data' = cd_timeSeries data \<and> cd_warnings data' = cd_warnings data"
  proof (cases "complete c1 \<or> d2 \<le> ws_now (w (Suc n1))")
    case True
    then show ?thesis using assms(1) d l1 i1 I2 by (auto simp: collect_artifacts_def Let_def)
  next
    case False
    then obtain c2 fm2 n2 h3 where l2: "loadCompletionSummary env i ?ex d2 w (Suc n1) fm1 (stop_workers env h1) = Some (c2, fm2, n2, h3)"
      using assms(1) d l1 by (auto simp: collect_artifacts_def Let_def split: option.splits prod.splits)
    show ?thesis using assms(1) d l1 l2 i1 loadCompletionSummary_inv [OF l2 k1 I2] False
      by (auto simp: collect_artifacts_def Let_def split: if_splits)
  qed
  then show "I h'" "map_option metrics_core (cd_metrics data') = map_option metrics_core (cd_metrics data)"
    "metadata_core (cd_metadata data') = metadata_core (cd_metadata data)" "cd_timeSeries data' = cd_timeSeries data" "cd_warnings data' = cd_warnings data"
    by auto
qed

subsection \<open>The completion returns\<close>

text \<open>A clock that goes on: it does not go back and passes every time.\<close>

definition clock :: "(nat \<Rightarrow> wait_step) \<Rightarrow> bool" where
  "clock w \<longleftrightarrow> (\<forall>n. ws_now (w n) \<le> ws_now (w (Suc n))) \<and> (\<forall>t. \<exists>n. t \<le> ws_now (w n))"

lemma clock_passes:
  assumes "clock w"
  obtains m where "n \<le> m" "t \<le> ws_now (w m)"
proof -
  obtain k where k: "t \<le> ws_now (w k)" using assms by (auto simp: clock_def)
  have "ws_now (w k) \<le> ws_now (w (k + n))" using lift_Suc_mono_le [of "\<lambda>n. ws_now (w n)" k "k + n"] assms by (simp add: clock_def)
  then show thesis using that [of "k + n"] k by simp
qed

lemma loadCompletionSummary_returns:
  assumes "clock w"
  shows "\<exists>c fm' k h'. loadCompletionSummary env i ex deadline w n fm h = Some (c, fm', k, h')"
proof -
  obtain m where "n \<le> m" "deadline \<le> ws_now (w m)" using clock_passes [OF assms] by blast
  then show ?thesis using collect_loop_returns [of n m deadline w env i] by (simp add: loadCompletionSummary_def Let_def) blast
qed

lemma collect_artifacts_returns:
  assumes "clock w"
  shows "\<exists>data' raw k h'. collect_artifacts env i w data h = Some (data', raw, k, h')"
proof -
  obtain d1 d2 where d: "artifactCollectionDeadlines (en_now env) (artifactCollectionGraceWindow (Some (cd_metadata data))) (5 * second) True = (d1, d2)"
    by fastforce
  obtain c1 fm1 n1 h1 where l1: "loadCompletionSummary env i (WorkerNames (th_orch h)) d1 w 0 (cd_metrics data) h = Some (c1, fm1, n1, h1)"
    using loadCompletionSummary_returns [OF assms] by blast
  obtain c2 fm2 n2 h2 where l2: "loadCompletionSummary env i (WorkerNames (th_orch h)) d2 w (Suc n1) fm1 (stop_workers env h1) = Some (c2, fm2, n2, h2)"
    using loadCompletionSummary_returns [OF assms] by blast
  show ?thesis using d l1 l2 by (auto simp: collect_artifacts_def Let_def)
qed

subsection \<open>The stored result\<close>

definition stored :: "run_env \<Rightarrow> string \<Rightarrow> test_result \<Rightarrow> load_test table \<Rightarrow> load_test table \<Rightarrow> bool" where
  "stored env i result tab tab' \<longleftrightarrow>
    (case rc_marshal (en_codec env) result of
       Inl e \<Rightarrow> tab' = tab
     | Inr text \<Rightarrow>
        (\<forall>j. j \<noteq> i \<longrightarrow> row_of_test j tab' = row_of_test j tab) \<and>
        (\<exists>f. row_of_test i tab' = map_option (\<lambda>row. row\<lparr>lt_PayloadContent := f (lt_PayloadContent row), lt_Status := ''completed'', lt_ResultJSON := Some text\<rparr>)
          (row_of_test i tab)))"

lemma store_result_stored:
  assumes "no_faults (en_store env)" "store_result env i result payload tab = (r, tab')"
  shows "stored env i result tab tab' \<and> is_err r = is_err (rc_marshal (en_codec env) result)"
proof (cases "rc_marshal (en_codec env) result")
  case (Inl e)
  then show ?thesis using assms by (auto simp: store_result_def stored_def)
next
  case (Inr doc)
  let ?f = "\<lambda>row :: load_test. row\<lparr>lt_Status := ''completed'', lt_ResultJSON := Some doc\<rparr>"
  let ?tab = "if payload = [] then tab else set_test i (\<lambda>row. row\<lparr>lt_PayloadContent := payload\<rparr>) tab"
  have ok: "se_fault (en_store env) n = None" for n using assms(1) by (simp add: no_faults_def)
  then have r: "r = Inr ()" "tab' = set_test i ?f ?tab" using assms(2) Inr by (auto simp: store_result_def update_ok split: if_splits)
  have "\<exists>f. row_of_test i tab' = map_option (\<lambda>row. row\<lparr>lt_PayloadContent := f (lt_PayloadContent row),
      lt_Status := ''completed'', lt_ResultJSON := Some doc\<rparr>) (row_of_test i tab)"
    by (rule exI [of _ "if payload = [] then id else (\<lambda>_. payload)"]) (auto simp: r(2) row_of_set_test option.map_comp comp_def)
  moreover have "\<forall>j. j \<noteq> i \<longrightarrow> row_of_test j tab' = row_of_test j tab" by (simp add: r(2) row_of_set_test)
  ultimately show ?thesis unfolding stored_def by (simp add: Inr r(1))
qed

lemma merged_keeps:
  assumes "merged_result env now i result payload reg = ((result', payload'), reg')" "rs_Metadata result = Some md"
  shows "rs_ID result' = rs_ID result" "rs_Status result' = rs_Status result" "rs_TimeSeries result' = rs_TimeSeries result"
    "rs_Warnings result' = rs_Warnings result" "map_option metrics_core (rs_Metrics result') = map_option metrics_core (rs_Metrics result)"
    "map_option metadata_core (rs_Metadata result') = Some (metadata_core md)" "reg' = snd (Snapshot_run now i reg)"
proof -
  obtain sn reg1 where sn: "Snapshot_run now i reg = (sn, reg1)" by fastforce
  have all: "rs_ID result' = rs_ID result \<and> rs_Status result' = rs_Status result \<and> rs_TimeSeries result' = rs_TimeSeries result \<and>
    rs_Warnings result' = rs_Warnings result \<and> map_option metrics_core (rs_Metrics result') = map_option metrics_core (rs_Metrics result) \<and>
    map_option metadata_core (rs_Metadata result') = Some (metadata_core md) \<and> reg' = reg1"
  proof (cases sn)
    case None
    then show ?thesis using assms sn by (auto simp: merged_result_def mergeRegistryArtifactsIntoResult_def)
  next
    case (Some s1)
    then show ?thesis using assms sn merge_keeps [of "en_json env" "en_url env" result s1 payload]
      by (auto simp: merged_result_def mergeRegistryArtifactsIntoResult_def split: prod.splits)
  qed
  then show "rs_ID result' = rs_ID result" "rs_Status result' = rs_Status result" "rs_TimeSeries result' = rs_TimeSeries result"
    "rs_Warnings result' = rs_Warnings result" "map_option metrics_core (rs_Metrics result') = map_option metrics_core (rs_Metrics result)"
    "map_option metadata_core (rs_Metadata result') = Some (metadata_core md)" "reg' = snd (Snapshot_run now i reg)"
    using sn by auto
qed

lemma final_metadata_core [simp]: "metadata_core (final_metadata env p a md) = metadata_core md"
  by (simp add: final_metadata_def Let_def markAuthMetricsUnavailable_def metadata_core_def refreshPayloadMetadata_def applyAuthSummaryToMetadata_def
      split: option.split)

text \<open>What the result of a test has measured, given the data that were collected for it.\<close>

definition reports_run :: "string \<Rightarrow> completion_data \<Rightarrow> test_result \<Rightarrow> bool" where
  "reports_run i data result \<longleftrightarrow>
    rs_ID result = i \<and> rs_Status result = ''completed'' \<and> rs_TimeSeries result = cd_timeSeries data \<and> rs_Warnings result = cd_warnings data \<and>
    map_option metrics_core (rs_Metrics result) = map_option metrics_core (cd_metrics data) \<and>
    map_option metadata_core (rs_Metadata result) = Some (metadata_core (cd_metadata data))"

lemma persist_stores:
  assumes "persistCompletedResult env now i data raw rawAuth payload auth h = (r, data', h')" "no_faults (en_store env)"
  shows "\<exists>result. reports_run i data result \<and> stored env i result (th_tests h) (th_tests h') \<and> is_err r = is_err (rc_marshal (en_codec env) result)"
    "h' = h\<lparr>th_registry := snd (Snapshot_run now i (th_registry h)), th_tests := th_tests h'\<rparr>"
proof -
  let ?data = "data\<lparr>cd_metadata := final_metadata env payload auth (cd_metadata data)\<rparr>"
  obtain result p1 reg1 where m: "merged_result env now i (completed_result env i ?data raw rawAuth) payload (th_registry h) = ((result, p1), reg1)"
    by (metis surj_pair)
  obtain r1 tab where st: "store_result env i result p1 (th_tests h) = (r1, tab)" by (metis surj_pair)
  have h': "r = r1" "h' = h\<lparr>th_registry := reg1, th_tests := tab\<rparr>" using assms(1) m st by (auto simp: persistCompletedResult_def Let_def)
  have "rs_Metadata (completed_result env i ?data raw rawAuth) = Some (cd_metadata ?data)" by (simp add: completed_result_def buildCompletedResult_def)
  note k = merged_keeps [OF m this]
  have "reports_run i data result" using k by (simp add: reports_run_def completed_result_def buildCompletedResult_def)
  then show "\<exists>result. reports_run i data result \<and> stored env i result (th_tests h) (th_tests h') \<and> is_err r = is_err (rc_marshal (en_codec env) result)"
    using store_result_stored [OF assms(2) st] h' by auto
  show "h' = h\<lparr>th_registry := snd (Snapshot_run now i (th_registry h)), th_tests := th_tests h'\<rparr>" using h' k(7) by simp
qed

subsection \<open>Completion\<close>

text \<open>Other goroutines that only bring artifacts: uploads and files.\<close>

definition quiet :: "(nat \<Rightarrow> wait_step) \<Rightarrow> bool" where
  "quiet w \<longleftrightarrow> (\<forall>n g. ws_others (w n) g = g\<lparr>th_registry := th_registry (ws_others (w n) g), th_output := th_output (ws_others (w n) g)\<rparr> \<and>
    reg_lateUploadTTL (th_registry (ws_others (w n) g)) = reg_lateUploadTTL (th_registry g))"

definition same_but_artifacts :: "test_handler \<Rightarrow> test_handler \<Rightarrow> bool" where
  "same_but_artifacts h g \<longleftrightarrow> th_tests g = th_tests h \<and> th_pending g = th_pending h \<and> th_notifier g = th_notifier h \<and> th_notified g = th_notified h \<and>
    th_loops g = th_loops h \<and> active g = [] \<and> reg_lateUploadTTL (th_registry g) = reg_lateUploadTTL (th_registry h)"

lemma same_ws:
  assumes "quiet w" "same_but_artifacts h g"
  shows "same_but_artifacts h (ws_others (w n) g)"
proof -
  obtain r d where "ws_others (w n) g = g\<lparr>th_registry := r, th_output := d\<rparr>" "reg_lateUploadTTL r = reg_lateUploadTTL (th_registry g)"
    using assms(1) unfolding quiet_def by metis
  then show ?thesis using assms(2) by (simp add: same_but_artifacts_def)
qed

lemma kept_same: "quiet w \<Longrightarrow> kept_by (same_but_artifacts h) n w"
  by (auto simp: kept_by_def same_ws) (simp add: same_but_artifacts_def)

lemma same_stop: "same_but_artifacts h g \<Longrightarrow> same_but_artifacts h (stop_workers env g)"
  by (simp add: same_but_artifacts_def stop_workers_def StopAll_def)

lemma begin_completion_sel:
  assumes "begin_completion env i h = (data, h1)"
  shows "th_pending h1 = (th_pending h)(i := None)" "th_tests h1 = th_tests h" "th_notifier h1 = th_notifier h" "th_notified h1 = th_notified h"
    "th_loops h1 = th_loops h" "active h1 = []" "th_registry h1 = th_registry h" "th_scripts h1 = th_scripts h"
  using assms
  by (auto simp: begin_completion_def buildCompletionData_def mergePendingMeta_def takePendingMeta_def handler_defs StopPolling_def Let_def
      split: option.splits)

lemma loads_sel:
  assumes "loadCompletionPayloadArtifact now i h = (p, h1)" "loadCompletionAuthSummary env now i md h1 = (a, h2)"
  obtains r where "h2 = h\<lparr>th_registry := r\<rparr>" "reg_lateUploadTTL r = reg_lateUploadTTL (th_registry h)"
proof -
  have 1: "h1 = h\<lparr>th_registry := snd (Snapshot_run now i (th_registry h))\<rparr>"
    using assms(1) by (auto simp: loadCompletionPayloadArtifact_def Let_def split: prod.splits)
  have "h2 = h1 \<or> h2 = h1\<lparr>th_registry := snd (Snapshot_run now i (th_registry h1))\<rparr>"
    using assms(2) by (auto simp: loadCompletionAuthSummary_def Let_def split: if_splits prod.splits)
  then show thesis using that 1 by auto
qed

lemma finish_stores:
  assumes "no_faults (en_store env)" "0 < reg_lateUploadTTL (th_registry h)" "zero_time \<le> now"
  shows "(\<exists>result. reports_run i data result \<and> stored env i result (th_tests h) (th_tests (finish_completion env now i data raw h))) \<and>
    o_phase (th_orch (finish_completion env now i data raw h)) = PhaseDone \<and> active (finish_completion env now i data raw h) = active h \<and>
    th_pending (finish_completion env now i data raw h) = th_pending h \<and> th_loops (finish_completion env now i data raw h) = th_loops h \<and>
    o_cancelled (th_orch (finish_completion env now i data raw h)) = o_cancelled (th_orch h) \<and>
    th_notified (finish_completion env now i data raw h) = th_notified h @ (if th_notifier h then [(i, ''completed'', [])] else []) \<and>
    \<not> run_open i (th_registry (finish_completion env now i data raw h))"
proof -
  obtain p h1 where l1: "loadCompletionPayloadArtifact now i h = (p, h1)" by fastforce
  obtain a ra h2 where l2: "loadCompletionAuthSummary env now i (cd_metadata data) h1 = ((a, ra), h2)" by (metis surj_pair)
  obtain reg where h2: "h2 = h\<lparr>th_registry := reg\<rparr>" "reg_lateUploadTTL reg = reg_lateUploadTTL (th_registry h)" using loads_sel [OF l1 l2] by blast
  obtain r data' h3 where ps: "persistCompletedResult env now i data raw ra p a h2 = (r, data', h3)" by (metis prod_cases3)
  note ps' = persist_stores [OF ps assms(1)]
  have fin: "finish_completion env now i data raw h = remove_run now i (notifyScheduleCompletion i ''completed'' [] (set_phase PhaseDone i h3))"
    by (simp add: finish_completion_def l1 l2 ps)
  obtain reg3 tab3 where h3: "h3 = h\<lparr>th_registry := reg3, th_tests := tab3\<rparr>" "reg_lateUploadTTL reg3 = reg_lateUploadTTL (th_registry h)"
    using ps'(2) h2 by (metis ttl_Snapshot test_handler.select_convs(2) test_handler.surjective test_handler.update_convs(1) test_handler.update_convs(2))
  show ?thesis using ps'(1) h2(1) assms(2,3)
    by (simp add: fin h3 notifyScheduleCompletion_def set_phase_def remove_run_def SetPhase_def run_open_RemoveRun) blast
qed

lemma onTestComplete_stores:
  assumes "clock w" "quiet w" "no_faults (en_store env)" "0 < reg_lateUploadTTL (th_registry h)" "\<And>n. zero_time \<le> ws_now (w n)"
  shows "\<exists>h' result. onTestComplete env i w h = Some h' \<and>
    reports_run i (fst (begin_completion env i h)) result \<and> stored env i result (th_tests h) (th_tests h') \<and>
    active h' = [] \<and> o_phase (th_orch h') = PhaseDone \<and> th_pending h' = (th_pending h)(i := None) \<and>
    th_notified h' = th_notified h @ (if th_notifier h then [(i, ''completed'', [])] else []) \<and> \<not> run_open i (th_registry h')"
proof -
  obtain data h1 where b: "begin_completion env i h = (data, h1)" by fastforce
  note b' = begin_completion_sel [OF b]
  obtain data' raw k h2 where c: "collect_artifacts env i w data h1 = Some (data', raw, k, h2)" using collect_artifacts_returns [OF assms(1)] by blast
  have "same_but_artifacts h1 h1" using b'(6) by (simp add: same_but_artifacts_def)
  note c' = collect_artifacts_inv [OF c kept_same [OF assms(2)] this same_stop]
  have same: "th_tests h2 = th_tests h" "th_pending h2 = (th_pending h)(i := None)" "th_notifier h2 = th_notifier h" "th_notified h2 = th_notified h"
    "active h2 = []" "reg_lateUploadTTL (th_registry h2) = reg_lateUploadTTL (th_registry h)"
    using c'(1) b' by (simp_all add: same_but_artifacts_def)
  let ?h = "finish_completion env (ws_now (w k)) i data' raw h2"
  have "onTestComplete env i w h = Some ?h" by (simp add: onTestComplete_def b c)
  moreover have "reports_run i data' result \<longleftrightarrow> reports_run i data result" for result using c'(2-5) by (simp add: reports_run_def)
  moreover note finish_stores [OF assms(3), of h2 "ws_now (w k)" i data' raw]
  ultimately show ?thesis using assms(4,5) same b by auto
qed

text \<open>
  C4. The completion of a test returns, and then its result has been stored: the result carries the identity, the time series, the
  warnings, the metrics (but for percentiles) and the times that were measured, and the row of the test is completed with the
  document of the result; no other row changes. No test is active, the run takes no more uploads than the late ones, and the
  scheduler has been told, once. When the result cannot be converted to a document, all this happens but the row stays as it is.
\<close>

theorem completed_test_is_stored:
  assumes "clock w" "quiet w" "no_faults (en_store env)" "0 < reg_lateUploadTTL (th_registry h)" "\<And>n. zero_time \<le> ws_now (w n)"
  shows "\<exists>h' result. onTestComplete env i w h = Some h' \<and>
    reports_run i (fst (begin_completion env i h)) result \<and> stored env i result (th_tests h) (th_tests h') \<and>
    active h' = [] \<and> o_phase (th_orch h') = PhaseDone \<and> th_pending h' = (th_pending h)(i := None) \<and>
    th_notified h' = th_notified h @ (if th_notifier h then [(i, ''completed'', [])] else []) \<and> \<not> run_open i (th_registry h')"
  using assms by (rule onTestComplete_stores)

theorem completed_test_is_stored_witness:
  "\<exists>h' result. onTestComplete (demo_run_env []) ''t'' demo_wait demo_idle = Some h' \<and> rs_ID result = ''t'' \<and>
    stored (demo_run_env []) ''t'' result ([], 0) (th_tests h') \<and> o_phase (th_orch h') = PhaseDone"
proof -
  have "ws_others (demo_wait n) g = g" for n g by (simp add: demo_wait_def)
  then have "quiet demo_wait" by (simp add: quiet_def)
  moreover have "clock demo_wait"
    unfolding clock_def
  proof (intro conjI allI)
    fix t :: int
    show "\<exists>n. t \<le> ws_now (demo_wait n)" by (rule exI [of _ "nat t"]) (simp add: demo_wait_def)
  qed (simp add: demo_wait_def)
  ultimately obtain h' result where "onTestComplete (demo_run_env []) ''t'' demo_wait demo_idle = Some h'"
    "reports_run ''t'' (fst (begin_completion (demo_run_env []) ''t'' demo_idle)) result" "stored (demo_run_env []) ''t'' result (th_tests demo_idle) (th_tests h')"
    "o_phase (th_orch h') = PhaseDone"
    using completed_test_is_stored [of demo_wait "demo_run_env []" demo_idle "''t''"]
    by (auto simp: demo_run_env_sel no_faults_def demo_idle_sel NewRegistry_def newRegistryWithTTL_def zero_time_def demo_wait_def)
  then show ?thesis by (auto simp: reports_run_def demo_idle_sel)
qed

subsection \<open>A test that is started during the collection\<close>

lemma window_at_least: "10 * second \<le> artifactCollectionGraceWindow md"
  by (simp add: artifactCollectionGraceWindow_def Let_def split: option.split)

lemma first_deadline: "en_now env + 5 * second \<le> fst (artifactCollectionDeadlines (en_now env) (artifactCollectionGraceWindow md) (5 * second) True)"
  using window_at_least [of md] by (simp add: artifactCollectionDeadlines_def Let_def)

text \<open>The first attempt sees what the other goroutines have done before it.\<close>

lemma first_attempt_inv:
  assumes "loadCompletionSummary env i ex deadline w 0 fm h = Some (c, fm', k, h')" "ws_now (w 0) < deadline" "K (ws_others (w 0) h)" "kept_by K 1 w"
  shows "K h'"
proof -
  let ?ex = "if ex = [] then WorkerNames (th_orch h) else ex"
  have l: "collect_loop env i ?ex deadline w 0 (no_collection ?ex) fm h = Some (c, fm', k, h')"
    using assms(1,2) by (simp add: loadCompletionSummary_def Let_def)
  obtain b best1 fm1 h1 where a: "collect_attempt env (ws_now (w 0)) i ?ex (no_collection ?ex) fm (ws_others (w 0) h) = ((b, best1, fm1), h1)"
    by (metis prod_cases3 surj_pair)
  have K1: "K h1" using attempt_keeps(2) [OF a] assms(3,4) by (simp add: kept_by_def)
  show ?thesis
  proof (cases "b \<or> deadline \<le> ws_now (w 0) \<or> ws_cancelled (w 0)")
    case True
    then have "h' = h1" using l a by (subst (asm) collect_loop.simps) (auto split: if_splits)
    then show ?thesis using K1 by simp
  next
    case False
    then have "collect_loop env i ?ex deadline w 1 best1 fm1 h1 = Some (c, fm', k, h')"
      using l a by (subst (asm) collect_loop.simps) simp
    then show ?thesis using collect_loop_inv assms(4) K1 by blast
  qed
qed

text \<open>What holds of the next run \<open>j\<close> while its loop is live, and after the workers have been stopped.\<close>

definition next_run :: "string \<Rightarrow> poll_loop \<Rightarrow> duration \<Rightarrow> test_handler \<Rightarrow> bool" where
  "next_run j l ttl g \<longleftrightarrow> map_option lt_Status (row_of_test j (th_tests g)) = Some ''running'' \<and> l \<in> set (th_loops g) \<and>
    reg_lateUploadTTL (th_registry g) = ttl"

definition next_live :: "string \<Rightarrow> poll_loop \<Rightarrow> duration \<Rightarrow> test_handler \<Rightarrow> bool" where
  "next_live j l ttl g \<longleftrightarrow> next_run j l ttl g \<and> o_cancelPoll (th_orch g) = Some (pl_ctx l)"

definition next_lost :: "string \<Rightarrow> poll_loop \<Rightarrow> duration \<Rightarrow> test_handler \<Rightarrow> bool" where
  "next_lost j l ttl g \<longleftrightarrow> next_run j l ttl g \<and> active g = [] \<and> pl_ctx l \<in> set (o_cancelled (th_orch g))"

lemma next_stop: "next_live j l ttl g \<Longrightarrow> next_lost j l ttl (stop_workers env g)"
  by (simp add: next_live_def next_lost_def next_run_def stop_workers_def StopAll_def clearActiveRunLocked_def)

lemma quiet_step:
  assumes "quiet (\<lambda>n. w (Suc n))" "1 \<le> m"
  obtains r d where "ws_others (w m) g = g\<lparr>th_registry := r, th_output := d\<rparr>" "reg_lateUploadTTL r = reg_lateUploadTTL (th_registry g)"
proof -
  obtain m' where "m = Suc m'" using assms(2) by (cases m) auto
  then show thesis using assms(1) that unfolding quiet_def by metis
qed

lemma kept_next:
  assumes "quiet (\<lambda>n. w (Suc n))" "1 \<le> n"
  shows "kept_by (next_live j l ttl) n w" "kept_by (next_lost j l ttl) n w"
proof -
  have "next_live j l ttl g \<Longrightarrow> next_live j l ttl (ws_others (w m) g)" "next_lost j l ttl g \<Longrightarrow> next_lost j l ttl (ws_others (w m) g)" if "n \<le> m" for m g
    by (rule quiet_step [OF assms(1), of m g]; use assms(2) that in \<open>simp add: next_live_def next_lost_def next_run_def\<close>)+
  then show "kept_by (next_live j l ttl) n w" "kept_by (next_lost j l ttl) n w"
    unfolding kept_by_def by (auto simp: next_live_def next_lost_def next_run_def)
qed

lemma collect_loses_next:
  assumes "collect_artifacts env i w data h = Some (data', raw, k, h')" "ws_now (w 0) < en_now env + 5 * second"
    "next_live j l ttl (ws_others (w 0) h)" "quiet (\<lambda>n. w (Suc n))"
  shows "next_lost j l ttl h'"
proof -
  obtain d1 d2 where d: "artifactCollectionDeadlines (en_now env) (artifactCollectionGraceWindow (Some (cd_metadata data))) (5 * second) True = (d1, d2)"
    by fastforce
  have d1: "ws_now (w 0) < d1" using assms(2) first_deadline [of env "Some (cd_metadata data)"] d by simp
  let ?ex = "WorkerNames (th_orch h)"
  obtain c1 fm1 n1 h1 where l1: "loadCompletionSummary env i ?ex d1 w 0 (cd_metrics data) h = Some (c1, fm1, n1, h1)"
    using assms(1) d by (auto simp: collect_artifacts_def Let_def split: option.splits prod.splits)
  have lost: "next_lost j l ttl (stop_workers env h1)"
    using first_attempt_inv [OF l1 d1, of "next_live j l ttl"] assms(3) kept_next(1) [OF assms(4)] next_stop by auto
  show ?thesis
  proof (cases "complete c1 \<or> d2 \<le> ws_now (w (Suc n1))")
    case True
    then show ?thesis using assms(1) d l1 lost by (auto simp: collect_artifacts_def Let_def)
  next
    case False
    then obtain c2 fm2 n2 where "loadCompletionSummary env i ?ex d2 w (Suc n1) fm1 (stop_workers env h1) = Some (c2, fm2, n2, h')"
      using assms(1) d l1 by (auto simp: collect_artifacts_def Let_def split: option.splits prod.splits if_splits)
    from loadCompletionSummary_inv [OF this kept_next(2) [OF assms(4)] lost] show ?thesis by simp
  qed
qed

lemma set_up_next:
  assumes "set_up env uid j c ws h h'"
  obtains l where "next_live j l (reg_lateUploadTTL (th_registry h')) h'" "pl_testID l = j"
proof -
  have found: "find (\<lambda>r. lt_ID r = j) (rows @ [row]) = Some row" if "j \<notin> lt_ID ` set rows" "lt_ID row = j" for rows row
    using that by (induction rows) auto
  obtain row l where r: "fst (th_tests h') = fst (th_tests h) @ [row]" "lt_ID row = j" "lt_Status row = ''running''" "j \<notin> lt_ID ` set (fst (th_tests h))"
    and l: "th_loops h' = th_loops h @ [l]" "pl_testID l = j" "o_cancelPoll (th_orch h') = Some (pl_ctx l)"
    using assms unfolding set_up_def by blast
  have "row_of_test j (th_tests h') = Some row" using found [OF r(4,2)] r(1) by (simp add: row_of_test_def)
  then show thesis using that [of l] l r(3) by (simp add: next_live_def next_run_def)
qed

text \<open>
  C30. While the artifacts of a test are collected no test is active, so that another one can be started. The completion of the first
  test then stops the workers, ends the polling of the second test and forgets that it is active: its row stays running, and
  nothing will ever complete it.
\<close>

theorem completion_loses_next_test:
  assumes "ExecuteTest env2 req uid username (snd (begin_completion env i h)) = Some (Inr (j, c, ws), h2)" "i \<noteq> j"
    "ws_others (w 0) (snd (begin_completion env i h)) = h2" "ws_now (w 0) < en_now env + 5 * second"
    "quiet (\<lambda>n. w (Suc n))" "clock w" "no_faults (en_store env)" "0 < reg_lateUploadTTL (th_registry h)" "\<And>n. zero_time \<le> ws_now (w n)"
  shows "active h2 = j \<and> (\<exists>h' l row. onTestComplete env i w h = Some h' \<and> active h' = [] \<and>
    row_of_test j (th_tests h') = Some row \<and> lt_Status row = ''running'' \<and>
    l \<in> set (th_loops h') \<and> pl_testID l = j \<and> pl_ctx l \<in> set (o_cancelled (th_orch h')))"
proof -
  obtain data h1 where b: "begin_completion env i h = (data, h1)" by fastforce
  have su: "set_up env2 uid j c ws h1 h2" using ExecuteTest_set_up [OF assms(1)] b by simp
  then obtain l where l: "next_live j l (reg_lateUploadTTL (th_registry h2)) h2" "pl_testID l = j" by (rule set_up_next)
  obtain data' raw k h3 where ca: "collect_artifacts env i w data h1 = Some (data', raw, k, h3)" using collect_artifacts_returns [OF assms(6)] by blast
  have lost: "next_lost j l (reg_lateUploadTTL (th_registry h2)) h3"
    using collect_loses_next [OF ca assms(4) _ assms(5)] l(1) assms(3) b by simp
  let ?h = "finish_completion env (ws_now (w k)) i data' raw h3"
  have oc: "onTestComplete env i w h = Some ?h" by (simp add: onTestComplete_def b ca)
  have "reg_lateUploadTTL (th_registry h3) = reg_lateUploadTTL (th_registry h2)" using lost by (simp add: next_lost_def next_run_def)
  then have "0 < reg_lateUploadTTL (th_registry h3)" using assms(8) su begin_completion_sel(7) [OF b] by (simp add: set_up_def)
  note fin = finish_stores [of env h3 "ws_now (w k)" i data' raw, OF assms(7) this assms(9)]
  then obtain result where "stored env i result (th_tests h3) (th_tests ?h)" by blast
  then have "row_of_test j (th_tests ?h) = row_of_test j (th_tests h3)" using assms(2) by (auto simp: stored_def split: sum.splits)
  then obtain row where "row_of_test j (th_tests ?h) = Some row" "lt_Status row = ''running''" using lost by (auto simp: next_lost_def next_run_def)
  moreover have "active ?h = []" "l \<in> set (th_loops ?h)" "pl_ctx l \<in> set (o_cancelled (th_orch ?h))"
    using fin lost by (simp_all add: next_lost_def next_run_def)
  ultimately show ?thesis using oc l(2) su by (auto simp: set_up_def)
qed

theorem completion_loses_next_test_witness:
  "\<exists>w h' row. onTestComplete (demo_run_env []) ''t'' w demo_idle = Some h' \<and> active h' = [] \<and>
    row_of_test (demo_id 0) (th_tests h') = Some row \<and> lt_Status row = ''running''"
proof -
  let ?h = "snd (begin_completion (demo_run_env []) ''t'' demo_idle)"
  obtain data h1 where b: "begin_completion (demo_run_env []) ''t'' demo_idle = (data, h1)" by fastforce
  have "demo_fresh ?h" "th_tests ?h = ([], 0)" using begin_completion_sel [OF b] b by (simp_all add: demo_fresh_def demo_idle_sel)
  then obtain c ws h2 where e: "ExecuteTest (demo_run_env ready_rounds) demo_run_request 1 ''u'' ?h = Some (Inr (demo_id 0, c, ws), h2)"
    using demo_accepted [of ?h] by auto
  define w where "w = (\<lambda>n. if n = 0 then \<lparr>ws_now = 1001 * second, ws_others = (\<lambda>_. h2), ws_cancelled = False\<rparr> else demo_wait (Suc n))"
  have w0: "ws_others (w 0) ?h = h2" "ws_now (w 0) < en_now (demo_run_env []) + 5 * second" by (simp_all add: w_def demo_run_env_sel)
  have "ws_others (demo_wait n) g = g" for n g by (simp add: demo_wait_def)
  then have q: "quiet (\<lambda>n. w (Suc n))" by (simp add: quiet_def w_def)
  have cl: "clock w"
    unfolding clock_def
  proof (intro conjI allI)
    fix t :: int
    show "\<exists>n. t \<le> ws_now (w n)" by (rule exI [of _ "Suc (nat t)"]) (simp add: w_def demo_wait_def)
  qed (simp add: w_def demo_wait_def)
  have "''t'' \<noteq> demo_id 0" by (simp add: demo_id_def)
  moreover have "zero_time \<le> ws_now (w n)" for n by (simp add: w_def demo_wait_def zero_time_def)
  ultimately show ?thesis
    using completion_loses_next_test [OF e _ w0 q cl] by (auto simp: demo_run_env_sel no_faults_def demo_idle_sel NewRegistry_def newRegistryWithTTL_def)
qed

subsection \<open>A stop whose result cannot be stored\<close>

lemma stmt_update_fails:
  "se_fault env (snd tab) = Some e \<Longrightarrow> stmt_update env msg wh f tab = (Inl (msg @ '': '' @ e), (fst tab, Suc (snd tab)))"
  by (cases tab) (simp add: stmt_update_def stmt_def)

lemma store_fails:
  assumes "\<And>n. se_fault (en_store env) n \<noteq> None"
  shows "is_err (fst (store_result env i result payload tab))" "fst (snd (store_result env i result payload tab)) = fst tab"
proof -
  obtain e where "se_fault (en_store env) (snd tab) = Some e" using assms by auto
  then show "is_err (fst (store_result env i result payload tab))" "fst (snd (store_result env i result payload tab)) = fst tab"
    by (cases "rc_marshal (en_codec env) result"; cases "payload = []";
        simp add: store_result_def UpdateLoadTestPayloadContent_def UpdateLoadTestResult_def stmt_update_fails)+
qed

lemma run_open_Snapshot:
  assumes "run_open j r"
  shows "run_open j (snd (Snapshot_run now i r))"
proof -
  have "run_open j (cleanupExpiredLocked now r)" using cleanup_open [OF assms] assms by (simp add: run_open_def)
  then show ?thesis using assms by (simp add: Snapshot_run_def Let_def split: option.split)
qed

text \<open>
  C31. When the result of a stopped test cannot be stored, the stop fails, but the workers have been stopped and the test is no longer
  active: its row stays running, its run stays open, the scheduler is not told, and stopping it again is refused.
\<close>

theorem failed_stop_strands_test:
  assumes "active h \<noteq> []" "\<And>n. se_fault (en_store env) n \<noteq> None"
  shows "\<exists>h'. StopTest env h = (HttpError ''internal error'' 500, h') \<and> active h' = [] \<and> fst (th_tests h') = fst (th_tests h) \<and>
    th_notified h' = th_notified h \<and> (\<forall>j. run_open j (th_registry h) \<longrightarrow> run_open j (th_registry h')) \<and> fst (StopTest env2 h') = no_test"
proof -
  let ?i = "active h" and ?now = "en_now env"
  obtain data h2 where b: "buildCompletionData ?i (FetchFinalMetrics (en_metrics env) (th_orch (stop_ramping h))) ?now (stop_ramping h) = (data, h2)" by fastforce
  let ?h3 = "stop_workers env (h2\<lparr>th_orch := StopPolling (th_orch h2)\<rparr>)"
  obtain p h4 where l1: "loadCompletionPayloadArtifact ?now ?i ?h3 = (p, h4)" by fastforce
  obtain a ra h5 where l2: "loadCompletionAuthSummary env ?now ?i (cd_metadata data) h4 = ((a, ra), h5)" by (metis surj_pair)
  obtain r data1 h6 where ps: "persistCompletedResult env ?now ?i data [] ra p a h5 = (r, data1, h6)" by (metis prod_cases3)
  let ?data = "data\<lparr>cd_metadata := final_metadata env p a (cd_metadata data)\<rparr>"
  obtain result p1 reg1 where m: "merged_result env ?now ?i (completed_result env ?i ?data [] ra) p (th_registry h5) = ((result, p1), reg1)"
    by (metis surj_pair)
  have "is_err r" and rows: "fst (th_tests h6) = fst (th_tests h5)" and h6: "h6 = h5\<lparr>th_registry := reg1, th_tests := th_tests h6\<rparr>"
    using ps m store_fails [OF assms(2), of ?i result p1 "th_tests h5"] by (auto simp: persistCompletedResult_def Let_def split: prod.splits)
  then obtain e where r: "r = Inl e" by (cases r) auto
  have st: "StopTest env h = (HttpError ''internal error'' 500, h6)"
    using assms(1) b l1 l2 ps r by (simp add: StopTest_def requireActiveTest_def Let_def stop_ramping_def)
  have h2: "th_tests h2 = th_tests h" "th_notified h2 = th_notified h" "th_registry h2 = th_registry h"
    using b by (auto simp: buildCompletionData_def mergePendingMeta_def takePendingMeta_def stop_ramping_def split: option.splits)
  have h4: "h4 = ?h3\<lparr>th_registry := snd (Snapshot_run ?now ?i (th_registry ?h3))\<rparr>"
    using l1 by (auto simp: loadCompletionPayloadArtifact_def Let_def split: prod.splits)
  have h5: "h5 = h4 \<or> h5 = h4\<lparr>th_registry := snd (Snapshot_run ?now ?i (th_registry h4))\<rparr>"
    using l2 by (auto simp: loadCompletionAuthSummary_def Let_def split: if_splits prod.splits)
  have "rs_Metadata (completed_result env ?i ?data [] ra) = Some (cd_metadata ?data)" by (simp add: completed_result_def buildCompletedResult_def)
  then have "reg1 = snd (Snapshot_run ?now ?i (th_registry h5))" using merged_keeps(7) [OF m] by simp
  then have open_runs: "\<forall>j. run_open j (th_registry h) \<longrightarrow> run_open j (th_registry h6)"
    using h2(3) h4 h5 h6 run_open_Snapshot by (metis stop_workers_def test_handler.select_convs(2) test_handler.surjective test_handler.update_convs(1,2,3))
  have "active h6 = []" "th_notified h6 = th_notified h" "fst (th_tests h6) = fst (th_tests h)"
    using h2 h4 h5 rows by (subst h6; auto simp: stop_workers_def StopAll_def)+
  then show ?thesis using st open_runs by (simp add: StopTest_def requireActiveTest_def)
qed

theorem failed_stop_strands_test_witness:
  "\<exists>c ws h h'. ExecuteTest (demo_run_env ready_rounds) demo_run_request 1 ''u'' demo_idle = Some (Inr (demo_id 0, c, ws), h) \<and>
    StopTest ((demo_run_env [])\<lparr>en_store := \<lparr>se_fault = (\<lambda>n. Some ''gone''), se_now = 2000 * second, se_uuid = demo_id\<rparr>\<rparr>) h =
      (HttpError ''internal error'' 500, h') \<and> active h' = []"
proof -
  obtain c ws h where e: "ExecuteTest (demo_run_env ready_rounds) demo_run_request 1 ''u'' demo_idle = Some (Inr (demo_id 0, c, ws), h)"
    using demo_accepted [OF demo_idle_sel(1)] by (auto simp: demo_idle_sel)
  have "active h \<noteq> []" using ExecuteTest_set_up [OF e] by (simp add: set_up_def demo_id_def)
  from failed_stop_strands_test [OF this, of "(demo_run_env [])\<lparr>en_store := \<lparr>se_fault = (\<lambda>n. Some ''gone''), se_now = 2000 * second, se_uuid = demo_id\<rparr>\<rparr>"]
  show ?thesis using e by auto
qed

end
