(* ===== verification/UserMetrics.thy ===== *)
theory UserMetrics
  imports AccountProofs LoadTests
begin

text \<open>
  The numbers of tests, schedules and templates of a user: the two statistical queries of
  \<^verbatim>\<open>controller/internal/store/store.go\<close> (\<^verbatim>\<open>GetUserMetricsByID\<close>, \<^verbatim>\<open>ListUsers\<close>), the types \<^verbatim>\<open>AdminUserMetrics\<close>, \<^verbatim>\<open>AdminUserRow\<close> and
  \<^verbatim>\<open>ProfileSummaryResponse\<close> of \<^verbatim>\<open>model.go\<close>, and the handlers \<^verbatim>\<open>ListUsers\<close> and \<^verbatim>\<open>GetProfileSummary\<close> of \<^verbatim>\<open>handler/auth.go\<close>.

  The queries are kept in their form: each subquery groups the rows of one table by the owner and
  computes its aggregates, and the users are joined on the left with the groups. The three tables that are
  only read are the record \<open>work_tables\<close>. The order of users that were created in the same second is that of the table.
\<close>

subsection \<open>Data\<close>

record admin_user_metrics =
  um_TotalTests :: int
  um_CompletedTests :: int
  um_FailedTests :: int
  um_TotalSchedules :: int
  um_ActiveSchedules :: int
  um_TotalTemplates :: int
  um_LastTestAt :: "time option"

record admin_user_row =
  ur_ID :: int
  ur_Username :: string
  ur_Email :: string
  ur_Role :: string
  ur_MustChangePassword :: bool
  ur_CreatedAt :: time
  ur_UpdatedAt :: time
  ur_Metrics :: admin_user_metrics

record profile_summary_response =
  ps_User :: user
  ps_Metrics :: admin_user_metrics

record work_tables =
  wt_tests :: "load_test list"
  wt_schedules :: "sched_row list"
  wt_templates :: "test_template list"

definition zero_user_metrics :: admin_user_metrics where
  "zero_user_metrics = \<lparr>um_TotalTests = 0, um_CompletedTests = 0, um_FailedTests = 0, um_TotalSchedules = 0, um_ActiveSchedules = 0,
    um_TotalTemplates = 0, um_LastTestAt = None\<rparr>"

subsection \<open>Grouping and aggregates\<close>

text \<open>\<^verbatim>\<open>SELECT user_id, agg FROM rs GROUP BY user_id\<close>: one row per owner that occurs.\<close>

definition group_by :: "('r \<Rightarrow> int) \<Rightarrow> ('r list \<Rightarrow> 'a) \<Rightarrow> 'r list \<Rightarrow> (int \<times> 'a) list" where
  "group_by owner agg rs = map (\<lambda>k. (k, agg (filter (\<lambda>r. owner r = k) rs))) (remdups (map owner rs))"

text \<open>\<^verbatim>\<open>SUM(CASE WHEN p THEN 1 ELSE 0 END)\<close> and \<^verbatim>\<open>MAX(t)\<close> over the rows of a group.\<close>

definition sum_case :: "('r \<Rightarrow> bool) \<Rightarrow> 'r list \<Rightarrow> int" where
  "sum_case p rs = sum_list (map (\<lambda>r. if p r then 1 else 0) rs)"

fun max_of :: "('r \<Rightarrow> time) \<Rightarrow> 'r list \<Rightarrow> time option" where
  "max_of t [] = None"
| "max_of t (r # rs) = (case max_of t rs of None \<Rightarrow> Some (t r) | Some m \<Rightarrow> Some (max (t r) m))"

definition counts_as_failed :: "load_test \<Rightarrow> bool" where
  "counts_as_failed r \<longleftrightarrow> lt_Status r \<in> {''failed'', ''aborted'', ''stopped''}"

definition counts_as_active :: "sched_row \<Rightarrow> bool" where
  "counts_as_active r \<longleftrightarrow> c_status r \<in> {''scheduled'', ''running''} \<and> \<not> c_paused r"

definition test_group :: "load_test list \<Rightarrow> int \<times> int \<times> int \<times> time option" where
  "test_group rs = (int (length rs), sum_case (\<lambda>r. lt_Status r = ''completed'') rs, sum_case counts_as_failed rs, max_of lt_CreatedAt rs)"

definition schedule_group :: "sched_row list \<Rightarrow> int \<times> int" where
  "schedule_group rs = (int (length rs), sum_case counts_as_active rs)"

definition template_group :: "test_template list \<Rightarrow> int" where
  "template_group rs = int (length rs)"

text \<open>One row of the join for a user, given the three subqueries; \<^verbatim>\<open>COALESCE\<close> replaces a missing group by zeros.\<close>

definition joined_metrics ::
  "(int \<times> int \<times> int \<times> int \<times> time option) list \<Rightarrow> (int \<times> int \<times> int) list \<Rightarrow> (int \<times> int) list \<Rightarrow> int \<Rightarrow> admin_user_metrics" where
  "joined_metrics lt st tt uid =
    (let (total_tests, completed_tests, failed_tests, last_test_at) = (case map_of lt uid of None \<Rightarrow> (0, 0, 0, None) | Some x \<Rightarrow> x);
         (total_schedules, active_schedules) = (case map_of st uid of None \<Rightarrow> (0, 0) | Some x \<Rightarrow> x);
         total_templates = (case map_of tt uid of None \<Rightarrow> 0 | Some x \<Rightarrow> x)
     in \<lparr>um_TotalTests = total_tests, um_CompletedTests = completed_tests, um_FailedTests = failed_tests, um_TotalSchedules = total_schedules,
         um_ActiveSchedules = active_schedules, um_TotalTemplates = total_templates, um_LastTestAt = last_test_at\<rparr>)"

subsection \<open>The queries\<close>

definition GetUserMetricsByID :: "acct_env \<Rightarrow> work_tables \<Rightarrow> int \<Rightarrow> acct_db \<Rightarrow> admin_user_metrics res \<times> acct_db" where
  "GetUserMetricsByID env w uid =
    acct_query env ''get user metrics by id'' (\<lambda>db.
      case filter (\<lambda>u. us_ID u = uid) (ad_users db) of
        [] \<Rightarrow> zero_user_metrics
      | u # _ \<Rightarrow>
         joined_metrics (group_by lt_UserID test_group (filter (\<lambda>r. lt_UserID r = uid) (wt_tests w)))
           (group_by c_user_id schedule_group (filter (\<lambda>r. c_user_id r = uid) (wt_schedules w)))
           (group_by tt_UserID template_group (filter (\<lambda>r. tt_UserID r = uid) (wt_templates w))) (us_ID u))"

definition user_row :: "admin_user_metrics \<Rightarrow> user \<Rightarrow> admin_user_row" where
  "user_row m u = \<lparr>ur_ID = us_ID u, ur_Username = us_Username u, ur_Email = us_Email u, ur_Role = us_Role u,
    ur_MustChangePassword = us_MustChangePassword u, ur_CreatedAt = us_CreatedAt u, ur_UpdatedAt = us_UpdatedAt u, ur_Metrics = m\<rparr>"

definition ListUsers :: "acct_env \<Rightarrow> work_tables \<Rightarrow> acct_db \<Rightarrow> admin_user_row list res \<times> acct_db" where
  "ListUsers env w =
    acct_query env ''list users'' (\<lambda>db.
      let lt = group_by lt_UserID test_group (wt_tests w); st = group_by c_user_id schedule_group (wt_schedules w);
          tt = group_by tt_UserID template_group (wt_templates w)
      in map (\<lambda>u. user_row (joined_metrics lt st tt (us_ID u)) u) (sort_key (\<lambda>u. - us_CreatedAt u) (ad_users db)))"

subsection \<open>The handlers\<close>

definition List_users :: "auth_handler \<Rightarrow> work_tables \<Rightarrow> user_ctx \<Rightarrow> acct_db \<Rightarrow> admin_user_row list response \<times> acct_db" where
  "List_users h w ctx db =
    (case ListUsers (ah_env h) w db of
       (Inl e, db1) \<Rightarrow> (HttpError ''internal error'' 500, db1)
     | (Inr users, db1) \<Rightarrow> (HttpJson 200 users, db1))"

definition GetProfileSummary :: "auth_handler \<Rightarrow> work_tables \<Rightarrow> user_ctx \<Rightarrow> acct_db \<Rightarrow> profile_summary_response response \<times> acct_db" where
  "GetProfileSummary h w ctx db =
    (let userID = uc_UserID ctx
     in case GetUserByID (ah_env h) userID db of
          (Inl e, db1) \<Rightarrow> (HttpError ''internal error'' 500, db1)
        | (Inr None, db1) \<Rightarrow> (HttpError ''user not found'' 404, db1)
        | (Inr (Some u), db1) \<Rightarrow>
           (case GetUserMetricsByID (ah_env h) w userID db1 of
              (Inl e, db2) \<Rightarrow> (HttpError ''internal error'' 500, db2)
            | (Inr metrics, db2) \<Rightarrow> (HttpJson 200 \<lparr>ps_User = u\<lparr>us_HashedPassword := []\<rparr>, ps_Metrics = metrics\<rparr>, db2)))"

subsection \<open>What the numbers are\<close>

text \<open>The reference: the numbers counted directly over the rows of one owner.\<close>

definition owned_tests :: "work_tables \<Rightarrow> int \<Rightarrow> load_test list" where
  "owned_tests w uid = filter (\<lambda>r. lt_UserID r = uid) (wt_tests w)"

definition owned_schedules :: "work_tables \<Rightarrow> int \<Rightarrow> sched_row list" where
  "owned_schedules w uid = filter (\<lambda>r. c_user_id r = uid) (wt_schedules w)"

definition latest :: "time list \<Rightarrow> time option" where
  "latest ts = (if ts = [] then None else Some (Max (set ts)))"

definition true_metrics :: "work_tables \<Rightarrow> int \<Rightarrow> admin_user_metrics" where
  "true_metrics w uid =
    \<lparr>um_TotalTests = int (length (owned_tests w uid)),
     um_CompletedTests = int (length (filter (\<lambda>r. lt_Status r = ''completed'') (owned_tests w uid))),
     um_FailedTests = int (length (filter counts_as_failed (owned_tests w uid))),
     um_TotalSchedules = int (length (owned_schedules w uid)),
     um_ActiveSchedules = int (length (filter counts_as_active (owned_schedules w uid))),
     um_TotalTemplates = int (length (filter (\<lambda>r. tt_UserID r = uid) (wt_templates w))),
     um_LastTestAt = latest (map lt_CreatedAt (owned_tests w uid))\<rparr>"

lemma sum_case_length: "sum_case p rs = int (length (filter p rs))"
  by (induction rs) (simp_all add: sum_case_def)

lemma max_of_latest: "max_of t rs = latest (map t rs)"
  by (induction rs) (auto simp: latest_def)

lemma map_of_group_by:
  "map_of (group_by owner agg rs) k =
    (if filter (\<lambda>r. owner r = k) rs = [] then None else Some (agg (filter (\<lambda>r. owner r = k) rs)))"
  by (auto simp: group_by_def map_of_map_restrict restrict_map_def filter_empty_conv)

lemma joined_metrics_exact:
  "joined_metrics (group_by lt_UserID test_group (wt_tests w)) (group_by c_user_id schedule_group (wt_schedules w))
     (group_by tt_UserID template_group (wt_templates w)) uid = true_metrics w uid"
  by (simp add: joined_metrics_def map_of_group_by true_metrics_def owned_tests_def owned_schedules_def test_group_def schedule_group_def
      template_group_def sum_case_length max_of_latest latest_def del: filter_filter)

lemma true_metrics_own_rows:
  "true_metrics (w\<lparr>wt_tests := filter (\<lambda>r. lt_UserID r = uid) (wt_tests w), wt_schedules := filter (\<lambda>r. c_user_id r = uid) (wt_schedules w),
     wt_templates := filter (\<lambda>r. tt_UserID r = uid) (wt_templates w)\<rparr>) uid = true_metrics w uid"
  by (simp add: true_metrics_def owned_tests_def owned_schedules_def)

lemma GetUserMetricsByID_exact:
  assumes "fst (GetUserMetricsByID env w uid db) = Inr m" and "\<exists>u\<in>set (ad_users db). us_ID u = uid"
  shows "m = true_metrics w uid"
proof -
  obtain u us where "filter (\<lambda>u. us_ID u = uid) (ad_users db) = u # us"
    using assms(2) by (cases "filter (\<lambda>u. us_ID u = uid) (ad_users db)") (auto simp: filter_empty_conv)
  moreover from this have "us_ID u = uid"
    using filter_set [of "\<lambda>u. us_ID u = uid" "ad_users db"] by auto
  ultimately show ?thesis
    using assms(1) joined_metrics_exact [of "w\<lparr>wt_tests := filter (\<lambda>r. lt_UserID r = uid) (wt_tests w),
      wt_schedules := filter (\<lambda>r. c_user_id r = uid) (wt_schedules w), wt_templates := filter (\<lambda>r. tt_UserID r = uid) (wt_templates w)\<rparr>" uid]
    by (simp add: GetUserMetricsByID_def acct_query_eq true_metrics_own_rows split: option.splits)
qed

lemma ListUsers_rows:
  "fst (ListUsers env w db) = Inr rows \<Longrightarrow>
   rows = map (\<lambda>u. user_row (true_metrics w (us_ID u)) u) (sort_key (\<lambda>u. - us_CreatedAt u) (ad_users db))"
  by (simp add: ListUsers_def acct_query_eq joined_metrics_exact Let_def split: option.splits)

lemma profile_exact:
  assumes "fst (GetProfileSummary h w ctx db) = HttpJson 200 p"
  shows "us_HashedPassword (ps_User p) = [] \<and> ps_Metrics p = true_metrics w (uc_UserID ctx) \<and> us_ID (ps_User p) = uc_UserID ctx"
proof -
  obtain u db1 where u: "GetUserByID (ah_env h) (uc_UserID ctx) db = (Inr (Some u), db1)"
    using assms by (auto simp: GetProfileSummary_def Let_def split: prod.splits sum.splits option.splits)
  then have "find (\<lambda>u. us_ID u = uc_UserID ctx) (ad_users db) = Some u" and db1: "ad_users db1 = ad_users db"
    by (auto simp: GetUserByID_def acct_query_eq split: option.splits)
  then have found: "us_ID u = uc_UserID ctx" "\<exists>u\<in>set (ad_users db1). us_ID u = uc_UserID ctx"
    by (auto simp: find_Some_iff)
  obtain m db2 where m: "GetUserMetricsByID (ah_env h) w (uc_UserID ctx) db1 = (Inr m, db2)"
    using assms u by (auto simp: GetProfileSummary_def Let_def split: prod.splits sum.splits)
  then have "m = true_metrics w (uc_UserID ctx)"
    using GetUserMetricsByID_exact [of "ah_env h" w "uc_UserID ctx" db1 m] found(2) by simp
  then show ?thesis
    using assms u m found(1) by (auto simp: GetProfileSummary_def Let_def)
qed

lemma sum_owned:
  assumes "distinct ks" and "owner ` set rs \<subseteq> set ks"
  shows "(\<Sum>k\<leftarrow>ks. int (length (filter (\<lambda>r. owner r = k) rs))) = int (length rs)"
  using assms(2)
proof (induction rs)
  case (Cons r rs)
  have "(\<Sum>k\<leftarrow>ks. if owner r = k then 1 else 0 :: int) = 1"
    using Cons.prems assms(1) by (simp add: sum_list_distinct_conv_sum_set)
  moreover have "int (length (filter (\<lambda>x. owner x = k) (r # rs))) =
      (if owner r = k then 1 else 0) + int (length (filter (\<lambda>x. owner x = k) rs))" for k
    by simp
  ultimately show ?case
    using Cons by (simp only: sum_list_addf) simp
qed simp

text \<open>
  C33. The statistics of the users are exact. When the list of users is read, it shows every user once, the
  latest first, each with exactly the numbers that a direct count over the rows of that user gives; the
  profile of a user shows the same numbers and no password hash. With the foreign keys of the three tables
  no test, schedule or template is missed or counted twice: the numbers of the users add up to the sizes of
  the tables.
\<close>

theorem user_statistics_are_exact:
  assumes ids: "distinct (map us_ID (ad_users db))"
    and keys: "lt_UserID ` set (wt_tests w) \<subseteq> us_ID ` set (ad_users db)" "c_user_id ` set (wt_schedules w) \<subseteq> us_ID ` set (ad_users db)"
      "tt_UserID ` set (wt_templates w) \<subseteq> us_ID ` set (ad_users db)"
    and listed: "fst (ListUsers env w db) = Inr rows"
  shows "mset (map ur_ID rows) = mset (map us_ID (ad_users db)) \<and> sorted_wrt (\<ge>) (map ur_CreatedAt rows) \<and>
    list_all (\<lambda>r. ur_Metrics r = true_metrics w (ur_ID r)) rows \<and>
    (\<Sum>r\<leftarrow>rows. um_TotalTests (ur_Metrics r)) = int (length (wt_tests w)) \<and>
    (\<Sum>r\<leftarrow>rows. um_TotalSchedules (ur_Metrics r)) = int (length (wt_schedules w)) \<and>
    (\<Sum>r\<leftarrow>rows. um_TotalTemplates (ur_Metrics r)) = int (length (wt_templates w)) \<and>
    (fst (GetProfileSummary h w ctx db) = HttpJson 200 p \<longrightarrow>
       us_HashedPassword (ps_User p) = [] \<and> ps_Metrics p = true_metrics w (uc_UserID ctx) \<and> us_ID (ps_User p) = uc_UserID ctx)"
proof -
  let ?us = "sort_key (\<lambda>u. - us_CreatedAt u) (ad_users db)"
  have rows: "rows = map (\<lambda>u. user_row (true_metrics w (us_ID u)) u) ?us"
    using listed by (rule ListUsers_rows)
  have ids': "distinct (map us_ID ?us)"
    using ids by (metis distinct_map mset_eq_imp_distinct_iff mset_map mset_sort)
  have "sorted_wrt (\<lambda>x y. - x \<le> - y) (map us_CreatedAt ?us)"
    using sorted_sort_key [of "\<lambda>u. - us_CreatedAt u" "ad_users db"] by (simp add: sorted_wrt_map comp_def)
  moreover have "mset (map us_ID ?us) = mset (map us_ID (ad_users db))"
    by simp
  moreover have "(\<Sum>k\<leftarrow>map us_ID ?us. int (length (filter (\<lambda>r. lt_UserID r = k) (wt_tests w)))) = int (length (wt_tests w))"
    "(\<Sum>k\<leftarrow>map us_ID ?us. int (length (filter (\<lambda>r. c_user_id r = k) (wt_schedules w)))) = int (length (wt_schedules w))"
    "(\<Sum>k\<leftarrow>map us_ID ?us. int (length (filter (\<lambda>r. tt_UserID r = k) (wt_templates w)))) = int (length (wt_templates w))"
    by (rule sum_owned [OF ids']; use keys in simp)+
  ultimately show ?thesis
    using profile_exact [of h w ctx db p]
    by (simp add: rows user_row_def true_metrics_def owned_tests_def owned_schedules_def comp_def list_all_iff)
qed

definition demo_work :: work_tables where
  "demo_work = \<lparr>wt_tests = [zero_load_test\<lparr>lt_ID := ''a'', lt_UserID := 1, lt_Status := ''completed'', lt_CreatedAt := 5\<rparr>,
      zero_load_test\<lparr>lt_ID := ''b'', lt_UserID := 1, lt_Status := ''error'', lt_CreatedAt := 9\<rparr>], wt_schedules = [], wt_templates = []\<rparr>"

theorem user_statistics_are_exact_witness:
  "\<exists>rows. fst (ListUsers (ah_env (demo_auth 0)) demo_work demo_accounts) = Inr rows \<and>
    map ur_Metrics rows = [\<lparr>um_TotalTests = 2, um_CompletedTests = 1, um_FailedTests = 0, um_TotalSchedules = 0, um_ActiveSchedules = 0,
      um_TotalTemplates = 0, um_LastTestAt = Some 9\<rparr>] \<and>
    (\<Sum>r\<leftarrow>rows. um_TotalTests (ur_Metrics r)) = 2"
proof -
  obtain rows where rows: "fst (ListUsers (ah_env (demo_auth 0)) demo_work demo_accounts) = Inr rows"
    by (simp add: ListUsers_def acct_query_eq demo_auth_def)
  have keys: "distinct (map us_ID (ad_users demo_accounts))" "lt_UserID ` set (wt_tests demo_work) \<subseteq> us_ID ` set (ad_users demo_accounts)"
    "c_user_id ` set (wt_schedules demo_work) \<subseteq> us_ID ` set (ad_users demo_accounts)"
    "tt_UserID ` set (wt_templates demo_work) \<subseteq> us_ID ` set (ad_users demo_accounts)" "length (wt_tests demo_work) = 2"
    by (simp_all add: demo_accounts_def demo_work_def)
  have "map ur_Metrics rows = [true_metrics demo_work 1]"
    using ListUsers_rows [OF rows] by (simp add: demo_accounts_def user_row_def)
  also have "\<dots> = [\<lparr>um_TotalTests = 2, um_CompletedTests = 1, um_FailedTests = 0, um_TotalSchedules = 0, um_ActiveSchedules = 0,
      um_TotalTemplates = 0, um_LastTestAt = Some 9\<rparr>]"
    by (simp add: true_metrics_def owned_tests_def owned_schedules_def demo_work_def counts_as_failed_def latest_def)
  finally show ?thesis
    using user_statistics_are_exact [OF keys(1-4) rows] keys(5) rows by simp
qed

end
