(* ===== verification/Platform.thy ===== *)
theory Platform
  imports SchedulerProofs CompletionProofs
begin

text \<open>
  The scheduler on top of the test handler, as \<^verbatim>\<open>controller/cmd/server/main.go\<close> puts them together: the handler is the executor of
  the scheduler and the orchestrator in it says which test is active; the scheduler is the notifier of the handler. The
  state is the pair of both. A tick runs the scheduler with the answer of \<^verbatim>\<open>ExecuteTest\<close>; a completion runs \<^verbatim>\<open>onTestComplete\<close> and
  passes what it reports on to the scheduler.
\<close>

record platform =
  pf_sched :: sched_state
  pf_handler :: test_handler

text \<open>The request that a tick hands to the executor, if it comes that far.\<close>

definition tick_request :: "sched_env \<Rightarrow> secret_service \<Rightarrow> sched_state \<Rightarrow> (test_request \<times> int \<times> string) option" where
  "tick_request env svc s =
    (case nextDueSchedule env s of
       (Inr (Some schedule), s1) \<Rightarrow>
         (case beginScheduledExecution env schedule s1 of
            (Inl _, _) \<Rightarrow> None
          | (Inr _, _) \<Rightarrow>
             (case scheduleTestRequest svc schedule of
                Inl _ \<Rightarrow> None
              | Inr req \<Rightarrow> Some (req, st_UserID schedule, st_Username schedule)))
     | _ \<Rightarrow> None)"

definition platform_tick :: "sched_env \<Rightarrow> secret_service \<Rightarrow> run_env \<Rightarrow> platform \<Rightarrow> platform option" where
  "platform_tick env svc renv p =
    (let s = pf_sched p; h = pf_handler p
     in if hasActiveTest (active h) then Some p
        else (case tick_request env svc s of
                None \<Rightarrow> Some (p\<lparr>pf_sched := tick env svc (\<lambda>_ _ _. Inl []) (active h) s\<rparr>)
              | Some (req, uid, username) \<Rightarrow>
                 (case ExecuteTest renv req uid username h of
                    None \<Rightarrow> None
                  | Some (r, h1) \<Rightarrow> Some \<lparr>pf_sched = tick env svc (\<lambda>_ _ _. map_sum id fst r) (active h) s, pf_handler = h1\<rparr>)))"

definition platform_notify :: "sched_env \<Rightarrow> nat \<Rightarrow> (string \<times> string \<times> string) list \<Rightarrow> sched_state \<Rightarrow> sched_state" where
  "platform_notify env pick = fold (\<lambda>(testID, status, errMsg). OnTestComplete env pick testID status errMsg)"

definition platform_complete :: "sched_env \<Rightarrow> nat \<Rightarrow> run_env \<Rightarrow> string \<Rightarrow> (nat \<Rightarrow> wait_step) \<Rightarrow> platform \<Rightarrow> platform option" where
  "platform_complete env pick renv testID w p =
    (case onTestComplete renv testID w (pf_handler p) of
       None \<Rightarrow> None
     | Some h \<Rightarrow>
        Some \<lparr>pf_sched = platform_notify env pick (drop (length (th_notified (pf_handler p))) (th_notified h)) (pf_sched p), pf_handler = h\<rparr>)"

subsection \<open>A tick\<close>

lemma tick_request_due:
  assumes "SchedulerProofs.no_faults env" "earliest_due (env_now env) (srows s) r" "env_uuid env \<notin> ex_ID ` set (xrows s)"
    and "scheduleTestRequest svc (scanScheduledTest r) = Inr req"
  shows "tick_request env svc s = Some (req, c_user_id r, c_username r)"
proof -
  let ?s1 = "snd (nextDueSchedule env s)"
  have n: "nextDueSchedule env s = (Inr (Some (scanScheduledTest r)), ?s1)"
    using GetDue_earliest [OF assms(1,2)] by (simp add: nextDueSchedule_def prod_eq_iff effects)
  have s1: "srows ?s1 = srows s" "xrows ?s1 = xrows s" by (simp_all add: nextDueSchedule_def effects)
  obtain q s2 where b: "beginScheduledExecution env (scanScheduledTest r) ?s1 = (q, s2)" by fastforce
  have fk: "c_id r \<in> c_id ` set (srows ?s1)" using assms(2) by (simp add: s1 earliest_due_def)
  note eff = begin_effect [OF assms(1) fk assms(3) [folded s1(2)] b]
  show ?thesis using assms(4) b eff(1) by (subst tick_request_def, subst n) (simp add: scanScheduledTest_def)
qed

lemma platform_tick_starts:
  assumes "SchedulerProofs.no_faults env" "earliest_due (env_now env) (srows (pf_sched p)) r" "env_uuid env \<notin> ex_ID ` set (xrows (pf_sched p))"
    and "scheduleTestRequest svc (scanScheduledTest r) = Inr req"
    and "ExecuteTest renv req (c_user_id r) (c_username r) (pf_handler p) = Some (Inr (testID, c, ws), h1)"
  obtains s1 where "platform_tick env svc renv p = Some \<lparr>pf_sched = s1, pf_handler = h1\<rparr>"
    "srows s1 = set_row env (c_id r) (\<lambda>r. r\<lparr>c_status := ''running''\<rparr>) (srows (pf_sched p))"
    "xrows s1 = xrows (pf_sched p) @ [(fresh_execution env r)\<lparr>ex_LoadTestID := Some testID\<rparr>]"
    "ss_callbacks s1 = AList.update (env_uuid env) (c_id r) (ss_callbacks (pf_sched p))"
    "set_up renv (c_user_id r) testID c ws (pf_handler p) h1"
proof
  let ?s1 = "tick env svc (\<lambda>_ _ _. Inr testID) [] (pf_sched p)"
  have su: "active (pf_handler p) = []" "set_up renv (c_user_id r) testID c ws (pf_handler p) h1"
    using ExecuteTest_set_up [OF assms(5)] by simp_all
  show "platform_tick env svc renv p = Some \<lparr>pf_sched = ?s1, pf_handler = h1\<rparr>"
    by (simp add: platform_tick_def Let_def su(1) hasActiveTest_def tick_request_due [OF assms(1-4)] assms(5))
  show "set_up renv (c_user_id r) testID c ws (pf_handler p) h1" by (rule su(2))
qed (use tick_starts [OF assms(1-4), of "\<lambda>_ _ _. Inr testID" testID] in simp_all)

lemma set_up_row:
  assumes "set_up env uid i c ws h h'"
  obtains row where "row_of_test i (th_tests h') = Some row" "lt_Status row = ''running''" "lt_UserID row = uid"
proof -
  obtain row where row: "fst (th_tests h') = fst (th_tests h) @ [row]" "lt_ID row = i" "lt_Status row = ''running''" "lt_UserID row = uid"
    using assms by (auto simp: set_up_def)
  have "find (\<lambda>r. lt_ID r = i) (fst (th_tests h)) = None"
    using assms by (auto simp: set_up_def find_None_iff image_iff)
  then show thesis using that [of row] row by (simp add: row_of_test_def find_append_None)
qed

lemma exec_by_new:
  assumes "env_uuid env \<notin> ex_ID ` set xs"
  shows "exec_by (env_uuid env) (xs @ [(fresh_execution env r)\<lparr>ex_LoadTestID := t\<rparr>]) = Some ((fresh_execution env r)\<lparr>ex_LoadTestID := t\<rparr>)"
  using assms by (subst find_append_None) (auto simp: find_None_iff fresh_execution_def image_iff)

subsection \<open>From the schedule to the stored result\<close>

text \<open>What the polling of a running test leaves of the handler.\<close>

definition while_running :: "test_handler \<Rightarrow> test_handler \<Rightarrow> bool" where
  "while_running h g \<longleftrightarrow> th_tests g = th_tests h \<and> th_notifier g \<and> th_notified g = th_notified h \<and> 0 < reg_lateUploadTTL (th_registry g)"

definition execution_done :: "string \<Rightarrow> string \<Rightarrow> time \<Rightarrow> sched_state \<Rightarrow> bool" where
  "execution_done e testID t s \<longleftrightarrow>
    (case exec_by e (xrows s) of None \<Rightarrow> False | Some x \<Rightarrow> ex_Status x = ''completed'' \<and> ex_LoadTestID x = Some testID \<and> ex_EndedAt x = Some t)"

lemma notified_execution_done:
  assumes "SchedulerProofs.no_faults env" "ss_callbacks s = [(e, i)]" "e \<noteq> []" "exec_by e (xrows s) = Some x"
  shows "ss_callbacks (platform_notify env pick [(testID, ''completed'', [])] s) = []"
    "execution_done e testID (env_now env) (platform_notify env pick [(testID, ''completed'', [])] s)"
    "\<forall>r. row_by i (srows (platform_notify env pick [(testID, ''completed'', [])] s)) = Some r \<longrightarrow> c_status r \<noteq> ''running''"
  using completion_records_outcome [OF assms, of pick testID "''completed''" "[]"]
  by (simp_all add: platform_notify_def execution_done_def)

text \<open>
  C1. A due schedule is carried through: the tick starts its test, and when the test has run and its completion has been
  processed, the execution of the schedule is completed and names the test, no callback is left, the schedule is no longer
  running, no test is active, and the row of the test is completed, belongs to the owner of the schedule and holds the
  result that was measured, whenever this result has a document.
\<close>

theorem scheduled_test_runs_through:
  assumes "SchedulerProofs.no_faults env" "SchedulerProofs.no_faults env'" "TestRunProofs.no_faults (en_store renv')"
    and "earliest_due (env_now env) (srows (pf_sched p)) r" "ss_callbacks (pf_sched p) = []"
    and "env_uuid env \<notin> ex_ID ` set (xrows (pf_sched p))" "env_uuid env \<noteq> []"
    and "scheduleTestRequest svc (scanScheduledTest r) = Inr req"
    and "ExecuteTest renv req (c_user_id r) (c_username r) (pf_handler p) = Some (Inr (testID, c, ws), h1)"
    and "while_running h1 h2" "clock w" "quiet w" "\<And>n. zero_time \<le> ws_now (w n)"
  shows "\<exists>s1 s2 h3 result. platform_tick env svc renv p = Some \<lparr>pf_sched = s1, pf_handler = h1\<rparr> \<and> active h1 = testID \<and>
    platform_complete env' pick renv' testID w \<lparr>pf_sched = s1, pf_handler = h2\<rparr> = Some \<lparr>pf_sched = s2, pf_handler = h3\<rparr> \<and>
    execution_done (env_uuid env) testID (env_now env') s2 \<and> ss_callbacks s2 = [] \<and>
    (\<forall>r'. row_by (c_id r) (srows s2) = Some r' \<longrightarrow> c_status r' \<noteq> ''running'') \<and> active h3 = [] \<and>
    reports_run testID (fst (begin_completion renv' testID h2)) result \<and>
    (\<forall>doc. rc_marshal (en_codec renv') result = Inr doc \<longrightarrow>
      (\<exists>row. row_of_test testID (th_tests h3) = Some row \<and> lt_Status row = ''completed'' \<and> lt_ResultJSON row = Some doc \<and> lt_UserID row = c_user_id r))"
proof -
  obtain s1 where t: "platform_tick env svc renv p = Some \<lparr>pf_sched = s1, pf_handler = h1\<rparr>"
    and x: "xrows s1 = xrows (pf_sched p) @ [(fresh_execution env r)\<lparr>ex_LoadTestID := Some testID\<rparr>]"
    and cb: "ss_callbacks s1 = AList.update (env_uuid env) (c_id r) (ss_callbacks (pf_sched p))"
    and su: "set_up renv (c_user_id r) testID c ws (pf_handler p) h1"
    using platform_tick_starts [OF assms(1,4,6,8,9)] .
  obtain h3 result where o: "onTestComplete renv' testID w h2 = Some h3" "active h3 = []" "stored renv' testID result (th_tests h2) (th_tests h3)"
    "th_notified h3 = th_notified h2 @ [(testID, ''completed'', [])]" "reports_run testID (fst (begin_completion renv' testID h2)) result"
    using onTestComplete_stores [OF assms(11,12,3), of h2 testID] assms(10,13) by (auto simp: while_running_def)
  let ?s2 = "platform_notify env' pick [(testID, ''completed'', [])] s1"
  have c: "platform_complete env' pick renv' testID w \<lparr>pf_sched = s1, pf_handler = h2\<rparr> = Some \<lparr>pf_sched = ?s2, pf_handler = h3\<rparr>"
    by (simp add: platform_complete_def o(1,4))
  have "ss_callbacks s1 = [(env_uuid env, c_id r)]" using cb assms(5) by simp
  note d = notified_execution_done [OF assms(2) this assms(7) exec_by_new [OF assms(6), where t = "Some testID" and r = r, folded x],
    where pick = pick and testID = testID]
  obtain row where "row_of_test testID (th_tests h2) = Some row" "lt_UserID row = c_user_id r"
    using set_up_row [OF su] assms(10) by (auto simp: while_running_def)
  then have "\<exists>row. row_of_test testID (th_tests h3) = Some row \<and> lt_Status row = ''completed'' \<and> lt_ResultJSON row = Some doc \<and> lt_UserID row = c_user_id r"
    if "rc_marshal (en_codec renv') result = Inr doc" for doc
    using o(3) that by (auto simp: stored_def)
  moreover have "active h1 = testID" using su by (simp add: set_up_def)
  ultimately show ?thesis using t c d o(2,5) by blast
qed

text \<open>
  C34. The completion of any other test that is reported while a scheduled test runs is taken for the completion of the
  scheduled one, because the scheduler takes whatever callback there is: the execution is recorded as completed and names
  the other test, while the scheduled test is active and its row is running. When it completes itself, the scheduler does
  nothing more.
\<close>

theorem completion_of_other_test_is_taken:
  assumes "SchedulerProofs.no_faults env" "SchedulerProofs.no_faults env'"
    and "earliest_due (env_now env) (srows (pf_sched p)) r" "ss_callbacks (pf_sched p) = []"
    and "env_uuid env \<notin> ex_ID ` set (xrows (pf_sched p))" "env_uuid env \<noteq> []"
    and "scheduleTestRequest svc (scanScheduledTest r) = Inr req"
    and "ExecuteTest renv req (c_user_id r) (c_username r) (pf_handler p) = Some (Inr (testID, c, ws), h1)"
  shows "\<exists>s1 s2. platform_tick env svc renv p = Some \<lparr>pf_sched = s1, pf_handler = h1\<rparr> \<and>
    s2 = platform_notify env' pick [(other, ''completed'', [])] s1 \<and>
    execution_done (env_uuid env) other (env_now env') s2 \<and> active h1 = testID \<and>
    map_option lt_Status (row_of_test testID (th_tests h1)) = Some ''running'' \<and>
    platform_notify env' pick' [(testID, ''completed'', [])] s2 = s2"
proof -
  obtain s1 where t: "platform_tick env svc renv p = Some \<lparr>pf_sched = s1, pf_handler = h1\<rparr>"
    and x: "xrows s1 = xrows (pf_sched p) @ [(fresh_execution env r)\<lparr>ex_LoadTestID := Some testID\<rparr>]"
    and cb: "ss_callbacks s1 = AList.update (env_uuid env) (c_id r) (ss_callbacks (pf_sched p))"
    and su: "set_up renv (c_user_id r) testID c ws (pf_handler p) h1"
    using platform_tick_starts [OF assms(1,3,5,7,8)] .
  have "ss_callbacks s1 = [(env_uuid env, c_id r)]" using cb assms(4) by simp
  note d = notified_execution_done [OF assms(2) this assms(6) exec_by_new [OF assms(5), where t = "Some testID" and r = r, folded x],
    where pick = pick and testID = other]
  have "map_option lt_Status (row_of_test testID (th_tests h1)) = Some ''running''"
    using set_up_row [OF su] by (metis option.simps(9))
  moreover have "platform_notify env' pick' [(testID, ''completed'', [])] (platform_notify env' pick [(other, ''completed'', [])] s1) =
      platform_notify env' pick [(other, ''completed'', [])] s1"
    by (subst platform_notify_def) (simp add: OnTestComplete_def nextCompletion_def takeNextCallback_def d(1))
  ultimately show ?thesis using t d(2) su by (auto simp: set_up_def)
qed

subsection \<open>An example\<close>

definition demo_due_row :: sched_row where
  "demo_due_row = (SchedulerProofs.demo_row ''a'' 0)\<lparr>c_project_name := ''p'', c_script_content := demo_script, c_user_id := 1, c_username := ''u'',
    c_http_method := [], c_content_type := [], c_auth_client_auth_method := [], c_auth_refresh_skew_seconds := 0\<rparr>"

definition demo_platform :: platform where
  "demo_platform = \<lparr>pf_sched = SchedulerProofs.demo_state [demo_due_row] [], pf_handler = demo_idle\<rparr>"

lemma demo_due_request: "scheduleTestRequest None (scanScheduledTest demo_due_row) = Inr demo_run_request"
  by (simp add: scheduleTestRequest_def scanScheduledTest_def demo_due_row_def demo_row_def row_of_def demo_schedule_def
      zero_scheduled_test_def applyAuthConfig_def zero_auth_config_def ToTestRequest_def demo_run_request_def zero_test_request_def zero_auth_input_def
      nullString_def keep_null_def null_to_string_def)

lemma demo_due_facts: "earliest_due 0 [demo_due_row] demo_due_row" "c_user_id demo_due_row = 1" "c_username demo_due_row = ''u''"
  by (simp_all add: earliest_due_def is_due_def demo_due_row_def truncate_second_def zero_time_def)

lemma demo_start_accepted:
  obtains c ws h1 where "ExecuteTest (demo_run_env ready_rounds) demo_run_request (c_user_id demo_due_row) (c_username demo_due_row)
      (pf_handler demo_platform) = Some (Inr (demo_id 0, c, ws), h1)"
  using demo_accepted [OF demo_idle_sel(1)] by (auto simp: demo_idle_sel demo_due_facts demo_platform_def)

lemma demo_wait_runs: "clock demo_wait" "quiet demo_wait" "zero_time \<le> ws_now (demo_wait n)"
proof -
  have "\<exists>n. t \<le> ws_now (demo_wait n)" for t by (rule exI [of _ "nat t"]) (simp add: demo_wait_def)
  then show "clock demo_wait" by (simp add: clock_def demo_wait_def)
qed (simp_all add: quiet_def demo_wait_def zero_time_def)

theorem scheduled_test_runs_through_witness:
  "\<exists>s1 s2 h1 h3. platform_tick (SchedulerProofs.demo_env 0) None (demo_run_env ready_rounds) demo_platform = Some \<lparr>pf_sched = s1, pf_handler = h1\<rparr> \<and>
    platform_complete (SchedulerProofs.demo_env 5) 0 (demo_run_env []) (demo_id 0) demo_wait \<lparr>pf_sched = s1, pf_handler = h1\<lparr>th_notifier := True\<rparr>\<rparr> =
      Some \<lparr>pf_sched = s2, pf_handler = h3\<rparr> \<and>
    execution_done ''e1'' (demo_id 0) 5 s2 \<and> map_option lt_Status (row_of_test (demo_id 0) (th_tests h3)) = Some ''completed''"
proof -
  obtain c ws h1 where e: "ExecuteTest (demo_run_env ready_rounds) demo_run_request (c_user_id demo_due_row) (c_username demo_due_row)
      (pf_handler demo_platform) = Some (Inr (demo_id 0, c, ws), h1)"
    by (rule demo_start_accepted)
  have "reg_lateUploadTTL (th_registry h1) = reg_lateUploadTTL (th_registry demo_idle)"
    using ExecuteTest_set_up [OF e] by (simp add: set_up_def demo_platform_def)
  then have w: "while_running h1 (h1\<lparr>th_notifier := True\<rparr>)"
    by (simp add: while_running_def demo_idle_sel NewRegistry_def newRegistryWithTTL_def)
  have m: "rc_marshal (en_codec (demo_run_env [])) result = Inr ''{}''" for result
    by (simp add: demo_run_env_def demo_codec_def)
  have p: "srows (pf_sched demo_platform) = [demo_due_row]" "xrows (pf_sched demo_platform) = []" "ss_callbacks (pf_sched demo_platform) = []"
    by (simp_all add: demo_platform_def)
  obtain s1 s2 h3 where
    "platform_tick (SchedulerProofs.demo_env 0) None (demo_run_env ready_rounds) demo_platform = Some \<lparr>pf_sched = s1, pf_handler = h1\<rparr>"
    "platform_complete (SchedulerProofs.demo_env 5) 0 (demo_run_env []) (demo_id 0) demo_wait \<lparr>pf_sched = s1, pf_handler = h1\<lparr>th_notifier := True\<rparr>\<rparr> =
      Some \<lparr>pf_sched = s2, pf_handler = h3\<rparr>"
    "execution_done ''e1'' (demo_id 0) 5 s2" "map_option lt_Status (row_of_test (demo_id 0) (th_tests h3)) = Some ''completed''"
    using scheduled_test_runs_through [OF demo_env_simps(1) demo_env_simps(1) demo_run_env_sel(4) [of "[]"] _ _ _ _ demo_due_request e w
        demo_wait_runs(1,2), of 0 5 0]
    by (auto simp: p demo_due_facts demo_wait_runs(3) m)
  then show ?thesis by blast
qed

theorem completion_of_other_test_is_taken_witness:
  "\<exists>s1 s2 h1. platform_tick (SchedulerProofs.demo_env 0) None (demo_run_env ready_rounds) demo_platform = Some \<lparr>pf_sched = s1, pf_handler = h1\<rparr> \<and>
    s2 = platform_notify (SchedulerProofs.demo_env 5) 0 [(''manual'', ''completed'', [])] s1 \<and>
    execution_done ''e1'' ''manual'' 5 s2 \<and> active h1 = demo_id 0"
proof -
  obtain c ws h1 where e: "ExecuteTest (demo_run_env ready_rounds) demo_run_request (c_user_id demo_due_row) (c_username demo_due_row)
      (pf_handler demo_platform) = Some (Inr (demo_id 0, c, ws), h1)"
    by (rule demo_start_accepted)
  have p: "srows (pf_sched demo_platform) = [demo_due_row]" "xrows (pf_sched demo_platform) = []" "ss_callbacks (pf_sched demo_platform) = []"
    by (simp_all add: demo_platform_def)
  show ?thesis
    using completion_of_other_test_is_taken [OF demo_env_simps(1) demo_env_simps(1) _ _ _ _ demo_due_request e, of 0 5 0 "''manual''" 0]
    by (auto simp: p demo_due_facts)
qed

end
