(* ===== verification/Config.thy ===== *)
theory Config
  imports Rfc3339
begin

text \<open>
  The configuration of the controller (\<^verbatim>\<open>controller/internal/config/config.go\<close>): what \<^verbatim>\<open>Load\<close> makes of the environment variables. The
  environment is a function from names to values; a variable that is not set has the empty value, as \<^verbatim>\<open>os.Getenv\<close> gives it.
  \<^verbatim>\<open>Load\<close> returns the configuration also when it reports an error. That memory may not suffice for the list of workers is left
  out.
\<close>

subsection \<open>Variables\<close>

type_synonym getenv = "string \<Rightarrow> string"

definition envStr :: "getenv \<Rightarrow> string \<Rightarrow> string \<Rightarrow> string" where
  "envStr env key fallback = (if env key \<noteq> [] then env key else fallback)"

definition envInt :: "getenv \<Rightarrow> string \<Rightarrow> int \<Rightarrow> int" where
  "envInt env key fallback =
    (if env key \<noteq> [] then (case atoi (env key) of Some n \<Rightarrow> n | None \<Rightarrow> fallback) else fallback)"

definition envBool :: "getenv \<Rightarrow> string \<Rightarrow> bool \<Rightarrow> bool" where
  "envBool env key fallback =
    (if env key \<noteq> []
     then (let v = to_lower (trim_space (env key))
           in if v \<in> {''1'', ''true'', ''yes'', ''on''} then True
              else if v \<in> {''0'', ''false'', ''no'', ''off''} then False
              else fallback)
     else fallback)"

definition splitAndTrim :: "string \<Rightarrow> char \<Rightarrow> string list" where
  "splitAndTrim s sep = filter (\<lambda>p. p \<noteq> []) (map trim_space (split_char sep s))"

subsection \<open>Workers\<close>

datatype discovery_mode = DiscoveryNone | DiscoveryExplicit | DiscoveryStatefulSet

definition statefulset_worker :: "string \<Rightarrow> string \<Rightarrow> string \<Rightarrow> string \<Rightarrow> int \<Rightarrow> nat \<Rightarrow> string" where
  "statefulset_worker sts service namespace domain port i =
    sts @ ''-'' @ itoa (int i) @ ''.'' @ service @ ''.'' @ namespace @ ''.svc.'' @ domain @ '':'' @ itoa port"

definition statefulset_workers :: "getenv \<Rightarrow> (string list \<times> discovery_mode)" where
  "statefulset_workers env =
    (let stsName = envStr env ''K6_WORKER_STATEFULSET'' []; replicas = envInt env ''K6_WORKER_REPLICAS'' 0
     in if stsName \<noteq> [] \<and> 0 < replicas
        then (map (statefulset_worker stsName (envStr env ''K6_WORKER_SERVICE'' stsName) (envStr env ''K6_WORKER_NAMESPACE'' ''default'')
                     (envStr env ''K6_WORKER_CLUSTER_DOMAIN'' ''cluster.local'') (envInt env ''K6_WORKER_PORT'' 6565)) [0..<nat replicas],
              DiscoveryStatefulSet)
        else ([], DiscoveryNone))"

definition resolveWorkers :: "getenv \<Rightarrow> (string list \<times> discovery_mode)" where
  "resolveWorkers env =
    (let explicit = env ''K6_WORKERS''; addrs = splitAndTrim explicit (CHR '','')
     in if explicit \<noteq> [] \<and> addrs \<noteq> [] then (addrs, DiscoveryExplicit) else statefulset_workers env)"

subsection \<open>The configuration\<close>

record config =
  cf_Port :: int
  cf_DBUser :: string
  cf_DBPassword :: string
  cf_DBHost :: string
  cf_DBPort :: int
  cf_DBName :: string
  cf_JWTSecret :: string
  cf_APIKey :: string
  cf_AdminKey :: string
  cf_InitialAdminUsername :: string
  cf_InitialAdminEmail :: string
  cf_InitialAdminPassword :: string
  cf_Workers :: "string list"
  cf_WorkerDiscovery :: discovery_mode
  cf_CORSOrigins :: "string list"
  cf_MetricsPollIntervalMS :: int
  cf_MaxTestDurationMin :: int
  cf_K6CompletionBufferSec :: int
  cf_K6WorkerReadyTimeoutSec :: int
  cf_K6DashboardEnabled :: bool
  cf_K6DashboardHost :: string
  cf_K6DashboardPort :: int
  cf_PublicAppURL :: string
  cf_PasswordResetTokenTTLMin :: int
  cf_SMTPHost :: string
  cf_SMTPPort :: int
  cf_SMTPUser :: string
  cf_SMTPPassword :: string
  cf_SMTPFromEmail :: string
  cf_SMTPFromName :: string
  cf_EncryptionKey :: string
  cf_ScriptsDir :: string
  cf_OutputDir :: string
  cf_InternalControllerURL :: string

definition default_jwt_secret :: string where
  "default_jwt_secret = ''change-me-in-production''"

definition read_config :: "getenv \<Rightarrow> config" where
  "read_config env =
    \<lparr>cf_Port = envInt env ''PORT'' 8080,
     cf_DBUser = envStr env ''DB_USER'' ''k6user'',
     cf_DBPassword = envStr env ''DB_PASSWORD'' ''k6pass'',
     cf_DBHost = envStr env ''DB_HOST'' ''mysql'',
     cf_DBPort = envInt env ''DB_PORT'' 3306,
     cf_DBName = envStr env ''DB_NAME'' ''shiva'',
     cf_JWTSecret = envStr env ''JWT_SECRET'' default_jwt_secret,
     cf_APIKey = envStr env ''API_KEY'' [],
     cf_AdminKey = envStr env ''ADMIN_KEY'' [],
     cf_InitialAdminUsername = envStr env ''INITIAL_ADMIN_USERNAME'' ''admin'',
     cf_InitialAdminEmail = envStr env ''INITIAL_ADMIN_EMAIL'' ''admin@example.com'',
     cf_InitialAdminPassword = envStr env ''INITIAL_ADMIN_PASSWORD'' ''changeme'',
     cf_Workers = fst (resolveWorkers env),
     cf_WorkerDiscovery = snd (resolveWorkers env),
     cf_CORSOrigins = split_char (CHR '','') (envStr env ''CORS_ORIGINS'' ''http://localhost:3000''),
     cf_MetricsPollIntervalMS = envInt env ''METRICS_POLL_INTERVAL_MS'' 2000,
     cf_MaxTestDurationMin = envInt env ''MAX_TEST_DURATION_MIN'' 120,
     cf_K6CompletionBufferSec = envInt env ''K6_COMPLETION_BUFFER_SEC'' 30,
     cf_K6WorkerReadyTimeoutSec = envInt env ''K6_WORKER_READY_TIMEOUT_SEC'' 0,
     cf_K6DashboardEnabled = envBool env ''K6_DASHBOARD_ENABLED'' False,
     cf_K6DashboardHost = envStr env ''K6_DASHBOARD_HOST'' ''0.0.0.0'',
     cf_K6DashboardPort = envInt env ''K6_DASHBOARD_PORT'' 5665,
     cf_PublicAppURL = envStr env ''PUBLIC_APP_URL'' ''http://localhost:3000'',
     cf_PasswordResetTokenTTLMin = envInt env ''PASSWORD_RESET_TOKEN_TTL_MIN'' 30,
     cf_SMTPHost = envStr env ''SMTP_HOST'' [],
     cf_SMTPPort = envInt env ''SMTP_PORT'' 587,
     cf_SMTPUser = envStr env ''SMTP_USER'' [],
     cf_SMTPPassword = envStr env ''SMTP_PASSWORD'' [],
     cf_SMTPFromEmail = envStr env ''SMTP_FROM_EMAIL'' ''noreply@example.com'',
     cf_SMTPFromName = envStr env ''SMTP_FROM_NAME'' ''Shiva'',
     cf_EncryptionKey = envStr env ''APP_ENCRYPTION_KEY'' (envStr env ''JWT_SECRET'' default_jwt_secret),
     cf_ScriptsDir = envStr env ''SCRIPTS_DIR'' ''/scripts'',
     cf_OutputDir = envStr env ''OUTPUT_DIR'' ''/output'',
     cf_InternalControllerURL = envStr env ''INTERNAL_CONTROLLER_URL'' ''http://controller:8080''\<rparr>"

definition Load :: "getenv \<Rightarrow> config \<times> string option" where
  "Load env =
    (let c = read_config env
     in (c, if cf_Workers c = [] then Some ''no workers configured: set K6_WORKERS or K6_WORKER_STATEFULSET + K6_WORKER_REPLICAS''
            else if cf_JWTSecret c = default_jwt_secret then Some ''JWT_SECRET must be set in production''
            else None))"

definition DSN :: "config \<Rightarrow> string" where
  "DSN c = cf_DBUser c @ '':'' @ cf_DBPassword c @ ''@tcp('' @ cf_DBHost c @ '':'' @ itoa (cf_DBPort c) @ '')/'' @ cf_DBName c @
    ''?parseTime=true&charset=utf8mb4''"

subsection \<open>What is configured\<close>

lemma itoa_inject: "itoa a = itoa b \<Longrightarrow> in_int64 a \<Longrightarrow> in_int64 b \<Longrightarrow> a = b"
  by (metis atoi_itoa option.inject)

lemma statefulset_inject:
  assumes "statefulset_worker sts service namespace domain port i = statefulset_worker sts service namespace domain port j"
    "int i < 2 ^ 63" "int j < 2 ^ 63"
  shows "i = j"
proof -
  have "itoa (int i) = itoa (int j)" using assms(1) by (simp add: statefulset_worker_def)
  then show ?thesis using itoa_inject [of "int i" "int j"] assms(2,3) by (simp add: in_int64_def)
qed

lemma envInt_range: "in_int64 fallback \<Longrightarrow> in_int64 (envInt env key fallback)"
  by (auto simp: envInt_def atoi_def Let_def split: option.split if_splits)

text \<open>The addresses of one stateful set differ; explicit addresses are trimmed and not empty.\<close>

lemma statefulset_distinct: "distinct (fst (statefulset_workers env))"
proof -
  have "envInt env ''K6_WORKER_REPLICAS'' 0 < 2 ^ 63"
    using envInt_range [of 0 env "''K6_WORKER_REPLICAS''"] by (simp add: in_int64_def)
  then have "inj_on (statefulset_worker a b c d p) (set [0..<nat (envInt env ''K6_WORKER_REPLICAS'' 0)])" for a b c d p
    by (intro inj_onI) (erule statefulset_inject, auto)
  then show ?thesis by (simp add: statefulset_workers_def Let_def distinct_map)
qed

lemma resolved_workers:
  "snd (resolveWorkers env) = DiscoveryStatefulSet \<Longrightarrow> distinct (fst (resolveWorkers env)) \<and>
     length (fst (resolveWorkers env)) = nat (envInt env ''K6_WORKER_REPLICAS'' 0)"
  "snd (resolveWorkers env) = DiscoveryExplicit \<Longrightarrow> list_all (\<lambda>a. a \<noteq> [] \<and> trim_space a = a) (fst (resolveWorkers env))"
  "snd (resolveWorkers env) = DiscoveryNone \<longleftrightarrow> fst (resolveWorkers env) = []"
  using statefulset_distinct [of env]
  by (auto simp: resolveWorkers_def statefulset_workers_def Let_def splitAndTrim_def list_all_iff split: if_splits)

end
