(* ===== verification/Migration.thy ===== *)
theory Migration
  imports Tables
begin

text \<open>
  The start of the store (\<^verbatim>\<open>controller/internal/store/store.go\<close>): \<^verbatim>\<open>WaitForDB\<close> and \<^verbatim>\<open>Migrate\<close>.

  A schema lists for every table its columns, each with its type, its attributes and its default. \<^verbatim>\<open>Migrate\<close> creates the
  tables that do not exist and adds the columns that older versions lacked, one statement after the other; statements that
  define the schema are committed at once, so a failure leaves what was done before. Keys and indexes belong to the creation
  of a table; they are in the models of the tables. \<open>fault\<close> gives the error of the n-th statement, as for the tables.
\<close>

subsection \<open>The schema\<close>

datatype column_default = NoDefault | DefaultValue string | DefaultText string

datatype column = column (col_name: string) (col_type: string) (col_attrs: "string list") (col_default: column_default)

type_synonym schema = "(string \<times> column list) list"

definition users_columns :: "column list" where
  "users_columns =
    [column ''id'' ''BIGINT'' [''AUTO_INCREMENT'', ''PRIMARY KEY''] NoDefault,
     column ''username'' ''VARCHAR(255)'' [''NOT NULL'', ''UNIQUE''] NoDefault,
     column ''email'' ''VARCHAR(255)'' [''NOT NULL'', ''UNIQUE''] NoDefault,
     column ''hashed_password'' ''VARCHAR(255)'' [''NOT NULL''] NoDefault,
     column ''role'' ''VARCHAR(50)'' [''NOT NULL''] (DefaultText ''user''),
     column ''must_change_password'' ''BOOLEAN'' [''NOT NULL''] (DefaultValue ''FALSE''),
     column ''created_at'' ''TIMESTAMP'' [''NOT NULL''] (DefaultValue ''CURRENT_TIMESTAMP''),
     column ''updated_at'' ''TIMESTAMP'' [''NOT NULL'', ''ON UPDATE CURRENT_TIMESTAMP''] (DefaultValue ''CURRENT_TIMESTAMP'')]"

definition load_tests_columns :: "column list" where
  "load_tests_columns =
    [column ''id'' ''VARCHAR(36)'' [''PRIMARY KEY''] NoDefault,
     column ''project_name'' ''VARCHAR(255)'' [''NOT NULL''] NoDefault,
     column ''url'' ''TEXT'' [''NOT NULL''] NoDefault,
     column ''status'' ''VARCHAR(50)'' [''NOT NULL''] (DefaultText ''pending''),
     column ''result_json'' ''JSON'' [] NoDefault,
     column ''executor'' ''VARCHAR(50)'' [''NOT NULL''] (DefaultText ''ramping-vus''),
     column ''stages'' ''JSON'' [] NoDefault,
     column ''vus'' ''INT'' [] (DefaultValue ''0''),
     column ''duration'' ''VARCHAR(50)'' [] (DefaultText []),
     column ''rate'' ''INT'' [] (DefaultValue ''0''),
     column ''time_unit'' ''VARCHAR(10)'' [] (DefaultText ''1s''),
     column ''pre_allocated_vus'' ''INT'' [] (DefaultValue ''0''),
     column ''max_vus'' ''INT'' [] (DefaultValue ''0''),
     column ''sleep_seconds'' ''DOUBLE'' [] (DefaultValue ''0.5''),
     column ''script_content'' ''MEDIUMTEXT'' [] NoDefault,
     column ''config_content'' ''MEDIUMTEXT'' [] NoDefault,
     column ''payload_source_json'' ''MEDIUMTEXT'' [] NoDefault,
     column ''payload_content'' ''MEDIUMTEXT'' [] NoDefault,
     column ''http_method'' ''VARCHAR(16)'' [''NOT NULL''] (DefaultText ''GET''),
     column ''content_type'' ''VARCHAR(255)'' [''NOT NULL''] (DefaultText ''application/json''),
     column ''auth_enabled'' ''BOOLEAN'' [''NOT NULL''] (DefaultValue ''FALSE''),
     column ''auth_mode'' ''VARCHAR(64)'' [] (DefaultText []),
     column ''auth_token_url'' ''TEXT'' [] NoDefault,
     column ''auth_client_id'' ''VARCHAR(255)'' [] (DefaultText []),
     column ''auth_client_auth_method'' ''VARCHAR(32)'' [''NOT NULL''] (DefaultText ''basic''),
     column ''auth_refresh_skew_seconds'' ''INT'' [''NOT NULL''] (DefaultValue ''30''),
     column ''auth_secret_source'' ''VARCHAR(32)'' [] (DefaultText []),
     column ''auth_secret_configured'' ''BOOLEAN'' [''NOT NULL''] (DefaultValue ''FALSE''),
     column ''user_id'' ''BIGINT'' [''NOT NULL''] NoDefault,
     column ''username'' ''VARCHAR(255)'' [''NOT NULL''] NoDefault,
     column ''created_at'' ''TIMESTAMP'' [''NOT NULL''] (DefaultValue ''CURRENT_TIMESTAMP'')]"

definition test_templates_columns :: "column list" where
  "test_templates_columns =
    [column ''id'' ''VARCHAR(36)'' [''PRIMARY KEY''] NoDefault,
     column ''name'' ''VARCHAR(255)'' [''NOT NULL''] NoDefault,
     column ''description'' ''TEXT'' [] NoDefault,
     column ''mode'' ''VARCHAR(20)'' [''NOT NULL''] (DefaultText ''builder''),
     column ''url'' ''TEXT'' [] NoDefault,
     column ''stages'' ''JSON'' [] NoDefault,
     column ''script_content'' ''MEDIUMTEXT'' [] NoDefault,
     column ''config_content'' ''MEDIUMTEXT'' [] NoDefault,
     column ''http_method'' ''VARCHAR(16)'' [''NOT NULL''] (DefaultText ''GET''),
     column ''content_type'' ''VARCHAR(255)'' [''NOT NULL''] (DefaultText ''application/json''),
     column ''payload_json'' ''MEDIUMTEXT'' [] NoDefault,
     column ''payload_target_kib'' ''INT'' [''NOT NULL''] (DefaultValue ''0''),
     column ''auth_enabled'' ''BOOLEAN'' [''NOT NULL''] (DefaultValue ''FALSE''),
     column ''auth_mode'' ''VARCHAR(64)'' [] (DefaultText []),
     column ''auth_token_url'' ''TEXT'' [] NoDefault,
     column ''auth_client_id'' ''VARCHAR(255)'' [] (DefaultText []),
     column ''auth_client_secret_encrypted'' ''MEDIUMTEXT'' [] NoDefault,
     column ''auth_client_auth_method'' ''VARCHAR(32)'' [''NOT NULL''] (DefaultText ''basic''),
     column ''auth_refresh_skew_seconds'' ''INT'' [''NOT NULL''] (DefaultValue ''30''),
     column ''auth_secret_source'' ''VARCHAR(32)'' [] (DefaultText []),
     column ''auth_secret_configured'' ''BOOLEAN'' [''NOT NULL''] (DefaultValue ''FALSE''),
     column ''is_system'' ''BOOLEAN'' [''NOT NULL''] (DefaultValue ''FALSE''),
     column ''user_id'' ''BIGINT'' [''NOT NULL''] NoDefault,
     column ''username'' ''VARCHAR(255)'' [''NOT NULL''] NoDefault,
     column ''created_at'' ''TIMESTAMP'' [''NOT NULL''] (DefaultValue ''CURRENT_TIMESTAMP''),
     column ''updated_at'' ''TIMESTAMP'' [''NOT NULL'', ''ON UPDATE CURRENT_TIMESTAMP''] (DefaultValue ''CURRENT_TIMESTAMP'')]"

definition scheduled_tests_columns :: "column list" where
  "scheduled_tests_columns =
    [column ''id'' ''VARCHAR(36)'' [''PRIMARY KEY''] NoDefault,
     column ''name'' ''VARCHAR(255)'' [''NOT NULL''] NoDefault,
     column ''project_name'' ''VARCHAR(255)'' [''NOT NULL''] NoDefault,
     column ''url'' ''TEXT'' [''NOT NULL''] NoDefault,
     column ''mode'' ''VARCHAR(20)'' [''NOT NULL''] (DefaultText ''builder''),
     column ''executor'' ''VARCHAR(50)'' [''NOT NULL''] (DefaultText ''ramping-vus''),
     column ''stages'' ''JSON'' [] NoDefault,
     column ''vus'' ''INT'' [] (DefaultValue ''0''),
     column ''duration'' ''VARCHAR(50)'' [] (DefaultText []),
     column ''rate'' ''INT'' [] (DefaultValue ''0''),
     column ''time_unit'' ''VARCHAR(10)'' [] (DefaultText ''1s''),
     column ''pre_allocated_vus'' ''INT'' [] (DefaultValue ''0''),
     column ''max_vus'' ''INT'' [] (DefaultValue ''0''),
     column ''sleep_seconds'' ''DOUBLE'' [] (DefaultValue ''0.5''),
     column ''script_content'' ''MEDIUMTEXT'' [] NoDefault,
     column ''config_content'' ''MEDIUMTEXT'' [] NoDefault,
     column ''http_method'' ''VARCHAR(16)'' [''NOT NULL''] (DefaultText ''GET''),
     column ''content_type'' ''VARCHAR(255)'' [''NOT NULL''] (DefaultText ''application/json''),
     column ''payload_json'' ''MEDIUMTEXT'' [] NoDefault,
     column ''payload_target_kib'' ''INT'' [''NOT NULL''] (DefaultValue ''0''),
     column ''auth_enabled'' ''BOOLEAN'' [''NOT NULL''] (DefaultValue ''FALSE''),
     column ''auth_mode'' ''VARCHAR(64)'' [] (DefaultText []),
     column ''auth_token_url'' ''TEXT'' [] NoDefault,
     column ''auth_client_id'' ''VARCHAR(255)'' [] (DefaultText []),
     column ''auth_client_secret_encrypted'' ''MEDIUMTEXT'' [] NoDefault,
     column ''auth_client_auth_method'' ''VARCHAR(32)'' [''NOT NULL''] (DefaultText ''basic''),
     column ''auth_refresh_skew_seconds'' ''INT'' [''NOT NULL''] (DefaultValue ''30''),
     column ''auth_secret_source'' ''VARCHAR(32)'' [] (DefaultText []),
     column ''auth_secret_configured'' ''BOOLEAN'' [''NOT NULL''] (DefaultValue ''FALSE''),
     column ''scheduled_at'' ''DATETIME'' [''NOT NULL''] NoDefault,
     column ''estimated_duration_s'' ''INT'' [''NOT NULL''] NoDefault,
     column ''timezone'' ''VARCHAR(64)'' [''NOT NULL''] (DefaultText ''UTC''),
     column ''recurrence_type'' ''VARCHAR(20)'' [] (DefaultText ''once''),
     column ''recurrence_rule'' ''VARCHAR(255)'' [] (DefaultText []),
     column ''recurrence_end'' ''DATETIME'' [] (DefaultValue ''NULL''),
     column ''skipped_occurrences'' ''JSON'' [] (DefaultValue ''NULL''),
     column ''status'' ''VARCHAR(30)'' [''NOT NULL''] (DefaultText ''scheduled''),
     column ''paused'' ''BOOLEAN'' [''NOT NULL''] (DefaultValue ''FALSE''),
     column ''user_id'' ''BIGINT'' [''NOT NULL''] NoDefault,
     column ''username'' ''VARCHAR(255)'' [''NOT NULL''] NoDefault,
     column ''created_at'' ''TIMESTAMP'' [''NOT NULL''] (DefaultValue ''CURRENT_TIMESTAMP''),
     column ''updated_at'' ''TIMESTAMP'' [''NOT NULL'', ''ON UPDATE CURRENT_TIMESTAMP''] (DefaultValue ''CURRENT_TIMESTAMP'')]"

definition schedule_executions_columns :: "column list" where
  "schedule_executions_columns =
    [column ''id'' ''VARCHAR(36)'' [''PRIMARY KEY''] NoDefault,
     column ''schedule_id'' ''VARCHAR(36)'' [''NOT NULL''] NoDefault,
     column ''load_test_id'' ''VARCHAR(36)'' [] (DefaultValue ''NULL''),
     column ''status'' ''VARCHAR(30)'' [''NOT NULL''] (DefaultText ''pending''),
     column ''scheduled_at'' ''DATETIME'' [''NOT NULL''] NoDefault,
     column ''started_at'' ''DATETIME'' [] (DefaultValue ''NULL''),
     column ''ended_at'' ''DATETIME'' [] (DefaultValue ''NULL''),
     column ''error_message'' ''TEXT'' [] (DefaultValue ''NULL''),
     column ''error_detail'' ''JSON'' [] (DefaultValue ''NULL''),
     column ''created_at'' ''TIMESTAMP'' [''NOT NULL''] (DefaultValue ''CURRENT_TIMESTAMP'')]"

definition password_reset_tokens_columns :: "column list" where
  "password_reset_tokens_columns =
    [column ''id'' ''BIGINT'' [''AUTO_INCREMENT'', ''PRIMARY KEY''] NoDefault,
     column ''user_id'' ''BIGINT'' [''NOT NULL''] NoDefault,
     column ''token_hash'' ''VARCHAR(255)'' [''NOT NULL''] NoDefault,
     column ''expires_at'' ''DATETIME'' [''NOT NULL''] NoDefault,
     column ''used_at'' ''DATETIME'' [] (DefaultValue ''NULL''),
     column ''created_at'' ''TIMESTAMP'' [''NOT NULL''] (DefaultValue ''CURRENT_TIMESTAMP'')]"

definition tables :: "(string \<times> column list) list" where
  "tables =
    [(''users'', users_columns),
     (''load_tests'', load_tests_columns),
     (''test_templates'', test_templates_columns),
     (''scheduled_tests'', scheduled_tests_columns),
     (''schedule_executions'', schedule_executions_columns),
     (''password_reset_tokens'', password_reset_tokens_columns)]"

definition addColumnIfMissing :: "(string \<times> column) list" where
  "addColumnIfMissing =
    [(''load_tests'', column ''script_content'' ''MEDIUMTEXT'' [] NoDefault),
     (''load_tests'', column ''config_content'' ''MEDIUMTEXT'' [] NoDefault),
     (''load_tests'', column ''payload_source_json'' ''MEDIUMTEXT'' [] NoDefault),
     (''load_tests'', column ''payload_content'' ''MEDIUMTEXT'' [] NoDefault),
     (''load_tests'', column ''executor'' ''VARCHAR(50)'' [''NOT NULL''] (DefaultText ''ramping-vus'')),
     (''load_tests'', column ''stages'' ''JSON'' [] NoDefault),
     (''load_tests'', column ''vus'' ''INT'' [] (DefaultValue ''0'')),
     (''load_tests'', column ''duration'' ''VARCHAR(50)'' [] (DefaultText [])),
     (''load_tests'', column ''rate'' ''INT'' [] (DefaultValue ''0'')),
     (''load_tests'', column ''time_unit'' ''VARCHAR(10)'' [] (DefaultText ''1s'')),
     (''load_tests'', column ''pre_allocated_vus'' ''INT'' [] (DefaultValue ''0'')),
     (''load_tests'', column ''max_vus'' ''INT'' [] (DefaultValue ''0'')),
     (''load_tests'', column ''sleep_seconds'' ''DOUBLE'' [] (DefaultValue ''0.5'')),
     (''load_tests'', column ''http_method'' ''VARCHAR(16)'' [''NOT NULL''] (DefaultText ''GET'')),
     (''load_tests'', column ''content_type'' ''VARCHAR(255)'' [''NOT NULL''] (DefaultText ''application/json'')),
     (''load_tests'', column ''auth_enabled'' ''BOOLEAN'' [''NOT NULL''] (DefaultValue ''FALSE'')),
     (''load_tests'', column ''auth_mode'' ''VARCHAR(64)'' [] (DefaultText [])),
     (''load_tests'', column ''auth_token_url'' ''TEXT'' [] NoDefault),
     (''load_tests'', column ''auth_client_id'' ''VARCHAR(255)'' [] (DefaultText [])),
     (''load_tests'', column ''auth_client_auth_method'' ''VARCHAR(32)'' [''NOT NULL''] (DefaultText ''basic'')),
     (''load_tests'', column ''auth_refresh_skew_seconds'' ''INT'' [''NOT NULL''] (DefaultValue ''30'')),
     (''load_tests'', column ''auth_secret_source'' ''VARCHAR(32)'' [] (DefaultText [])),
     (''load_tests'', column ''auth_secret_configured'' ''BOOLEAN'' [''NOT NULL''] (DefaultValue ''FALSE'')),
     (''test_templates'', column ''http_method'' ''VARCHAR(16)'' [''NOT NULL''] (DefaultText ''GET'')),
     (''test_templates'', column ''content_type'' ''VARCHAR(255)'' [''NOT NULL''] (DefaultText ''application/json'')),
     (''test_templates'', column ''payload_json'' ''MEDIUMTEXT'' [] NoDefault),
     (''test_templates'', column ''payload_target_kib'' ''INT'' [''NOT NULL''] (DefaultValue ''0'')),
     (''test_templates'', column ''auth_enabled'' ''BOOLEAN'' [''NOT NULL''] (DefaultValue ''FALSE'')),
     (''test_templates'', column ''auth_mode'' ''VARCHAR(64)'' [] (DefaultText [])),
     (''test_templates'', column ''auth_token_url'' ''TEXT'' [] NoDefault),
     (''test_templates'', column ''auth_client_id'' ''VARCHAR(255)'' [] (DefaultText [])),
     (''test_templates'', column ''auth_client_secret_encrypted'' ''MEDIUMTEXT'' [] NoDefault),
     (''test_templates'', column ''auth_client_auth_method'' ''VARCHAR(32)'' [''NOT NULL''] (DefaultText ''basic'')),
     (''test_templates'', column ''auth_refresh_skew_seconds'' ''INT'' [''NOT NULL''] (DefaultValue ''30'')),
     (''test_templates'', column ''auth_secret_source'' ''VARCHAR(32)'' [] (DefaultText [])),
     (''test_templates'', column ''auth_secret_configured'' ''BOOLEAN'' [''NOT NULL''] (DefaultValue ''FALSE'')),
     (''test_templates'', column ''is_system'' ''BOOLEAN'' [''NOT NULL''] (DefaultValue ''FALSE'')),
     (''scheduled_tests'', column ''http_method'' ''VARCHAR(16)'' [''NOT NULL''] (DefaultText ''GET'')),
     (''scheduled_tests'', column ''content_type'' ''VARCHAR(255)'' [''NOT NULL''] (DefaultText ''application/json'')),
     (''scheduled_tests'', column ''payload_json'' ''MEDIUMTEXT'' [] NoDefault),
     (''scheduled_tests'', column ''payload_target_kib'' ''INT'' [''NOT NULL''] (DefaultValue ''0'')),
     (''scheduled_tests'', column ''auth_enabled'' ''BOOLEAN'' [''NOT NULL''] (DefaultValue ''FALSE'')),
     (''scheduled_tests'', column ''auth_mode'' ''VARCHAR(64)'' [] (DefaultText [])),
     (''scheduled_tests'', column ''auth_token_url'' ''TEXT'' [] NoDefault),
     (''scheduled_tests'', column ''auth_client_id'' ''VARCHAR(255)'' [] (DefaultText [])),
     (''scheduled_tests'', column ''auth_client_secret_encrypted'' ''MEDIUMTEXT'' [] NoDefault),
     (''scheduled_tests'', column ''auth_client_auth_method'' ''VARCHAR(32)'' [''NOT NULL''] (DefaultText ''basic'')),
     (''scheduled_tests'', column ''auth_refresh_skew_seconds'' ''INT'' [''NOT NULL''] (DefaultValue ''30'')),
     (''scheduled_tests'', column ''auth_secret_source'' ''VARCHAR(32)'' [] (DefaultText [])),
     (''scheduled_tests'', column ''auth_secret_configured'' ''BOOLEAN'' [''NOT NULL''] (DefaultValue ''FALSE'')),
     (''scheduled_tests'', column ''skipped_occurrences'' ''JSON'' [] (DefaultValue ''NULL'')),
     (''users'', column ''must_change_password'' ''BOOLEAN'' [''NOT NULL''] (DefaultValue ''FALSE''))]"

subsection \<open>Migration\<close>

definition schema_stmt :: "(nat \<Rightarrow> string option) \<Rightarrow> (schema \<Rightarrow> schema) \<Rightarrow> schema \<times> nat \<Rightarrow> unit res \<times> schema \<times> nat" where
  "schema_stmt fault f st =
    (case st of (s, n) \<Rightarrow> (case fault n of Some e \<Rightarrow> (Inl e, (s, Suc n)) | None \<Rightarrow> (Inr (), (f s, Suc n))))"

definition create_if_missing :: "string \<Rightarrow> column list \<Rightarrow> schema \<Rightarrow> schema" where
  "create_if_missing t cols s = (if map_of s t = None then s @ [(t, cols)] else s)"

definition add_column :: "string \<Rightarrow> column \<Rightarrow> schema \<Rightarrow> schema" where
  "add_column t c s = map (\<lambda>(t', cols). (t', if t' = t then cols @ [c] else cols)) s"

definition has_column :: "string \<Rightarrow> string \<Rightarrow> schema \<Rightarrow> bool" where
  "has_column t c s \<longleftrightarrow> (case map_of s t of None \<Rightarrow> False | Some cols \<Rightarrow> c \<in> col_name ` set cols)"

fun create_tables :: "(nat \<Rightarrow> string option) \<Rightarrow> (string \<times> column list) list \<Rightarrow> schema \<times> nat \<Rightarrow> unit res \<times> schema \<times> nat" where
  "create_tables fault [] st = (Inr (), st)"
| "create_tables fault ((t, cols) # qs) st =
    (case schema_stmt fault (create_if_missing t cols) st of
       (Inl e, st1) \<Rightarrow> (Inl (''migrate: '' @ e), st1)
     | (Inr _, st1) \<Rightarrow> create_tables fault qs st1)"

fun add_columns :: "(nat \<Rightarrow> string option) \<Rightarrow> (string \<times> column) list \<Rightarrow> schema \<times> nat \<Rightarrow> unit res \<times> schema \<times> nat" where
  "add_columns fault [] st = (Inr (), st)"
| "add_columns fault ((t, c) # cs) st =
    (case schema_stmt fault id st of
       (Inl e, st1) \<Rightarrow> (Inl (''migrate check column '' @ col_name c @ '': '' @ e), st1)
     | (Inr _, st1) \<Rightarrow>
        (if has_column t (col_name c) (fst st1) then add_columns fault cs st1
         else (case schema_stmt fault (add_column t c) st1 of
                 (Inl e, st2) \<Rightarrow> (Inl (''migrate add column '' @ col_name c @ '': '' @ e), st2)
               | (Inr _, st2) \<Rightarrow> add_columns fault cs st2)))"

definition Migrate :: "(nat \<Rightarrow> string option) \<Rightarrow> schema \<times> nat \<Rightarrow> unit res \<times> schema \<times> nat" where
  "Migrate fault st =
    (case create_tables fault tables st of
       (Inl e, st1) \<Rightarrow> (Inl e, st1)
     | (Inr _, st1) \<Rightarrow> add_columns fault addColumnIfMissing st1)"

text \<open>
  \<^verbatim>\<open>WaitForDB\<close>: the database is tried every two seconds until it answers or the context ends. \<open>w n\<close> is the time of the n-th try and
  whether the ping succeeds.
\<close>

partial_function (option) WaitForDB :: "time \<Rightarrow> (nat \<Rightarrow> time \<times> bool) \<Rightarrow> nat \<Rightarrow> unit res option" where
  "WaitForDB deadline w n =
    (if deadline \<le> fst (w n) then Some (Inl ''context deadline exceeded'')
     else if snd (w n) then Some (Inr ())
     else WaitForDB deadline w (Suc n))"

subsection \<open>What a migration leaves\<close>

text \<open>Every table and column of one schema is in the other, and nothing that existed is changed.\<close>

definition complete_schema :: "schema \<Rightarrow> bool" where
  "complete_schema s \<longleftrightarrow> list_all (\<lambda>(t, cols). list_all (\<lambda>c. has_column t (col_name c) s) cols) tables"

definition extends :: "schema \<Rightarrow> schema \<Rightarrow> bool" where
  "extends s s' \<longleftrightarrow> (\<forall>t cols. map_of s t = Some cols \<longrightarrow> (\<exists>new. map_of s' t = Some (cols @ new)))"

text \<open>A schema that an older version left: a table that exists lacks at most the columns that are added later.\<close>

definition upgradable :: "schema \<Rightarrow> bool" where
  "upgradable s \<longleftrightarrow>
    list_all (\<lambda>(t, cols). map_of s t = None \<or> list_all (\<lambda>c. has_column t (col_name c) s \<or> (t, c) \<in> set addColumnIfMissing) cols) tables"

lemma extends_refl [simp]: "extends s s"
  by (simp add: extends_def)

lemma extends_trans: "extends s s' \<Longrightarrow> extends s' s'' \<Longrightarrow> extends s s''"
  unfolding extends_def by (metis append_assoc)

lemma has_column_extends: "extends s s' \<Longrightarrow> has_column t c s \<Longrightarrow> has_column t c s'"
  by (fastforce simp: extends_def has_column_def split: option.splits)

lemma table_extends: "extends s s' \<Longrightarrow> map_of s t \<noteq> None \<Longrightarrow> map_of s' t \<noteq> None"
  by (fastforce simp: extends_def)

lemma map_of_add_column: "map_of (add_column t c s) t' = map_option (\<lambda>cols. if t' = t then cols @ [c] else cols) (map_of s t')"
  by (induction s) (auto simp: add_column_def)

lemma map_of_create: "map_of (create_if_missing t cols s) t' = (if t' = t \<and> map_of s t = None then Some cols else map_of s t')"
  by (auto simp: create_if_missing_def map_add_def split: option.splits)

lemma extends_steps: "extends s (create_if_missing t cols s)" "extends s (add_column t c s)"
  by (auto simp: extends_def map_of_create map_of_add_column)

lemma stmt_extends: "(\<And>s. extends s (f s)) \<Longrightarrow> extends (fst st) (fst (snd (schema_stmt fault f st)))"
  by (auto simp: schema_stmt_def split: prod.split option.split)

lemma create_tables_extends: "extends (fst st) (fst (snd (create_tables fault qs st)))"
proof (induction fault qs st rule: create_tables.induct)
  case (2 fault t cols qs st)
  obtain r st1 where s: "schema_stmt fault (create_if_missing t cols) st = (r, st1)" by (metis surj_pair)
  then have "extends (fst st) (fst st1)" using stmt_extends [where f = "create_if_missing t cols" and st = st and fault = fault, OF extends_steps(1)] by simp
  then show ?case using 2 s by (auto split: sum.split intro: extends_trans)
qed simp

lemma add_columns_extends: "extends (fst st) (fst (snd (add_columns fault cs st)))"
proof (induction fault cs st rule: add_columns.induct)
  case (2 fault t c cs st)
  obtain r st1 where s1: "schema_stmt fault id st = (r, st1)" by (metis surj_pair)
  obtain r2 st2 where s2: "schema_stmt fault (add_column t c) st1 = (r2, st2)" by (metis surj_pair)
  have "extends (fst st) (fst st1)" "extends (fst st1) (fst st2)"
    using s1 s2 stmt_extends [of id st fault] stmt_extends [where f = "add_column t c" and st = st1 and fault = fault, OF extends_steps(2)] by simp_all
  then show ?case using 2 s1 s2 by (auto split: sum.split intro: extends_trans)
qed simp

lemma Migrate_extends: "extends (fst st) (fst (snd (Migrate fault st)))"
proof -
  obtain r st1 where c: "create_tables fault tables st = (r, st1)" by (metis surj_pair)
  then have "extends (fst st) (fst st1)" using create_tables_extends [of st fault tables] by simp
  then show ?thesis using c add_columns_extends [of st1 fault addColumnIfMissing]
    by (auto simp: Migrate_def split: sum.split intro: extends_trans)
qed

subsection \<open>Upgrading\<close>

lemma tables_distinct: "distinct (map fst tables)"
  by (simp add: tables_def)

lemma upgradable_iff:
  "upgradable s \<longleftrightarrow> (\<forall>(t, cols) \<in> set tables. map_of s t \<noteq> None \<longrightarrow> (\<forall>c \<in> set cols. has_column t (col_name c) s \<or> (t, c) \<in> set addColumnIfMissing))"
  by (auto simp: upgradable_def list_all_iff)

lemma upgradable_create:
  assumes "(t, cols) \<in> set tables" "upgradable s"
  shows "upgradable (create_if_missing t cols s)"
  unfolding upgradable_iff
proof (clarify)
  fix t' cols' c y
  assume t': "(t', cols') \<in> set tables" "map_of (create_if_missing t cols s) t' = Some y" "c \<in> set cols'"
    "(t', c) \<notin> set addColumnIfMissing"
  show "has_column t' (col_name c) (create_if_missing t cols s)"
  proof (cases "t' = t \<and> map_of s t = None")
    case True
    then have "cols' = cols" using assms(1) t'(1) tables_distinct by (metis eq_key_imp_eq_value)
    then show ?thesis using True t'(3) by (simp add: has_column_def map_of_create)
  next
    case False
    then have "has_column t' (col_name c) s" using assms(2) t' by (fastforce simp: upgradable_iff map_of_create split: if_splits)
    then show ?thesis by (rule has_column_extends [OF extends_steps(1)])
  qed
qed

lemma upgradable_add:
  assumes "upgradable s"
  shows "upgradable (add_column t c s)"
  unfolding upgradable_iff
proof (clarify)
  fix t' cols' c' y
  assume t': "(t', cols') \<in> set tables" "map_of (add_column t c s) t' = Some y" "c' \<in> set cols'" "(t', c') \<notin> set addColumnIfMissing"
  then have "has_column t' (col_name c') s" using assms by (fastforce simp: upgradable_iff map_of_add_column)
  then show "has_column t' (col_name c') (add_column t c s)" by (rule has_column_extends [OF extends_steps(2)])
qed

lemma upgradable_stmt: "upgradable (fst st) \<Longrightarrow> upgradable (f (fst st)) \<Longrightarrow> upgradable (fst (snd (schema_stmt fault f st)))"
  by (auto simp: schema_stmt_def split: prod.split option.split)

lemma create_tables_upgradable:
  "set qs \<subseteq> set tables \<Longrightarrow> upgradable (fst st) \<Longrightarrow> upgradable (fst (snd (create_tables fault qs st)))"
proof (induction fault qs st rule: create_tables.induct)
  case (2 fault t cols qs st)
  obtain r st1 where s: "schema_stmt fault (create_if_missing t cols) st = (r, st1)" by (metis surj_pair)
  then have "upgradable (fst st1)"
    using upgradable_stmt [of st "create_if_missing t cols" fault] upgradable_create [of t cols "fst st"] "2.prems" by simp
  then show ?case using 2 s by (auto split: sum.split)
qed simp

lemma add_columns_upgradable: "upgradable (fst st) \<Longrightarrow> upgradable (fst (snd (add_columns fault cs st)))"
proof (induction fault cs st rule: add_columns.induct)
  case (2 fault t c cs st)
  obtain r st1 where s1: "schema_stmt fault id st = (r, st1)" by (metis surj_pair)
  obtain r2 st2 where s2: "schema_stmt fault (add_column t c) st1 = (r2, st2)" by (metis surj_pair)
  have 1: "upgradable (fst st1)" using s1 upgradable_stmt [of st id fault] "2.prems" by simp
  then have "upgradable (fst st2)" using s2 upgradable_stmt [of st1 "add_column t c" fault] upgradable_add [of "fst st1" t c] by simp
  then show ?case using 1 2 s1 s2 by (auto split: sum.split)
qed simp

lemma Migrate_upgradable: "upgradable (fst st) \<Longrightarrow> upgradable (fst (snd (Migrate fault st)))"
proof -
  assume u: "upgradable (fst st)"
  obtain r st1 where c: "create_tables fault tables st = (r, st1)" by (metis surj_pair)
  then have "upgradable (fst st1)" using create_tables_upgradable [of tables st fault] u by simp
  then show ?thesis using c add_columns_upgradable [of st1 fault addColumnIfMissing] by (auto simp: Migrate_def split: sum.split)
qed

lemma schema_stmt_ok: "(\<And>n. fault n = None) \<Longrightarrow> schema_stmt fault f st = (Inr (), (f (fst st), Suc (snd st)))"
  by (cases st) (simp add: schema_stmt_def)

lemma create_tables_ok:
  assumes "\<And>n. fault n = None"
  shows "\<exists>st'. create_tables fault qs st = (Inr (), st') \<and> list_all (\<lambda>(t, cols). map_of (fst st') t \<noteq> None) qs"
proof (induction qs arbitrary: st)
  case (Cons q qs)
  obtain t cols where q: "q = (t, cols)" by (cases q)
  let ?st1 = "(create_if_missing t cols (fst st), Suc (snd st))"
  obtain st' where st': "create_tables fault qs ?st1 = (Inr (), st')" "list_all (\<lambda>(t, cols). map_of (fst st') t \<noteq> None) qs"
    using Cons by meson
  have "extends (fst ?st1) (fst st')" using create_tables_extends [of ?st1 fault qs] st'(1) by simp
  then have "map_of (fst st') t \<noteq> None" by (rule table_extends) (simp add: map_of_create)
  then show ?case using st' by (simp add: q schema_stmt_ok [OF assms])
qed simp

lemma add_columns_ok:
  assumes "\<And>n. fault n = None"
  shows "\<exists>st'. add_columns fault cs st = (Inr (), st') \<and>
    (\<forall>(t, c) \<in> set cs. map_of (fst st) t \<noteq> None \<longrightarrow> has_column t (col_name c) (fst st'))"
proof (induction cs arbitrary: st)
  case (Cons q cs)
  obtain t c where q: "q = (t, c)" by (cases q)
  let ?s = "if has_column t (col_name c) (fst st) then fst st else add_column t c (fst st)"
  let ?n = "if has_column t (col_name c) (fst st) then Suc (snd st) else Suc (Suc (snd st))"
  obtain st' where st': "add_columns fault cs (?s, ?n) = (Inr (), st')"
    "\<forall>(t, c) \<in> set cs. map_of ?s t \<noteq> None \<longrightarrow> has_column t (col_name c) (fst st')"
    using Cons [of "(?s, ?n)"] by auto
  have e: "extends ?s (fst st')" using add_columns_extends [of "(?s, ?n)" fault cs] st'(1) by simp
  have "map_of (fst st) t \<noteq> None \<Longrightarrow> has_column t (col_name c) ?s" by (auto simp: has_column_def map_of_add_column split: option.splits)
  then have "map_of (fst st) t \<noteq> None \<Longrightarrow> has_column t (col_name c) (fst st')" using has_column_extends [OF e] by blast
  moreover have "map_of ?s t' \<noteq> None \<longleftrightarrow> map_of (fst st) t' \<noteq> None" for t' by (auto simp: map_of_add_column)
  moreover have "add_columns fault (q # cs) st = add_columns fault cs (?s, ?n)" by (simp add: q schema_stmt_ok [OF assms])
  ultimately show ?case using st' by (auto simp: q)
qed simp

lemma Migrate_completes:
  assumes "upgradable (fst st)" "\<And>n. fault n = None"
  shows "fst (Migrate fault st) = Inr ()" "complete_schema (fst (snd (Migrate fault st)))"
proof -
  obtain st1 where 1: "create_tables fault tables st = (Inr (), st1)" "list_all (\<lambda>(t, cols). map_of (fst st1) t \<noteq> None) tables"
    using create_tables_ok [OF assms(2)] by meson
  obtain st2 where 2: "add_columns fault addColumnIfMissing st1 = (Inr (), st2)"
    "\<forall>(t, c) \<in> set addColumnIfMissing. map_of (fst st1) t \<noteq> None \<longrightarrow> has_column t (col_name c) (fst st2)"
    using add_columns_ok [OF assms(2)] by meson
  have u: "upgradable (fst st1)" using create_tables_upgradable [of tables st fault] assms(1) 1(1) by simp
  have e: "extends (fst st1) (fst st2)" using add_columns_extends [of st1 fault addColumnIfMissing] 2(1) by simp
  have m: "Migrate fault st = (Inr (), st2)" by (simp add: Migrate_def 1 2)
  then show "fst (Migrate fault st) = Inr ()" by simp
  have "has_column t (col_name c) (fst st2)" if "(t, cols) \<in> set tables" "c \<in> set cols" for t cols c
  proof -
    have "map_of (fst st1) t \<noteq> None" using 1(2) that(1) by (auto simp: list_all_iff)
    moreover from this have "has_column t (col_name c) (fst st1) \<or> (t, c) \<in> set addColumnIfMissing"
      using u that by (fastforce simp: upgradable_iff)
    ultimately show ?thesis using 2(2) has_column_extends [OF e] by auto
  qed
  then show "complete_schema (fst (snd (Migrate fault st)))" by (auto simp: complete_schema_def list_all_iff m)
qed

lemma create_tables_all: "list_all (\<lambda>(t, cols). map_of s t \<noteq> None) qs \<Longrightarrow> fst (snd (create_tables fault qs (s, n))) = s"
  by (induction fault qs "(s, n)" arbitrary: n rule: create_tables.induct)
    (auto simp: schema_stmt_def create_if_missing_def split: option.split)

lemma add_columns_all: "list_all (\<lambda>(t, c). has_column t (col_name c) s) cs \<Longrightarrow> fst (snd (add_columns fault cs (s, n))) = s"
  by (induction cs arbitrary: n) (auto simp: schema_stmt_def split: option.split)

lemma added_in_tables: "list_all (\<lambda>(t, c). case map_of tables t of None \<Rightarrow> False | Some cols \<Rightarrow> c \<in> set cols) addColumnIfMissing"
  by code_simp

lemma complete_is_settled:
  assumes "complete_schema s"
  shows "fst (snd (Migrate fault (s, n))) = s"
proof -
  have has: "has_column t (col_name c) s" if "(t, cols) \<in> set tables" "c \<in> set cols" for t cols c
    using assms that by (fastforce simp: complete_schema_def list_all_iff)
  have "list_all (\<lambda>(t, cols). cols \<noteq> []) tables"
    by (simp add: tables_def users_columns_def load_tests_columns_def test_templates_columns_def scheduled_tests_columns_def
        schedule_executions_columns_def password_reset_tokens_columns_def)
  then have "list_all (\<lambda>(t, cols). map_of s t \<noteq> None) tables"
    using has by (fastforce simp: list_all_iff has_column_def neq_Nil_conv split: option.splits)
  then have c: "fst (snd (create_tables fault tables (s, n))) = s" by (rule create_tables_all)
  have "list_all (\<lambda>(t, c). has_column t (col_name c) s) addColumnIfMissing"
    using added_in_tables has by (fastforce simp: list_all_iff split: option.splits dest: map_of_SomeD)
  then have "fst (snd (add_columns fault addColumnIfMissing (s, m))) = s" for m by (rule add_columns_all)
  then show ?thesis using c by (auto simp: Migrate_def split: sum.split prod.split)
qed

lemma WaitForDB_returns:
  assumes "\<And>k. fst (w k) + 2 * second \<le> fst (w (Suc k))" "deadline \<le> fst (w n) + int k * (2 * second)"
  shows "\<exists>r. WaitForDB deadline w n = Some r"
  using assms(2)
proof (induction k arbitrary: n)
  case 0
  then show ?case by (subst WaitForDB.simps) simp
next
  case (Suc k)
  have "deadline \<le> fst (w (Suc n)) + int k * (2 * second)"
    using Suc.prems assms(1) [of n] by (simp add: algebra_simps)
  then obtain r where "WaitForDB deadline w (Suc n) = Some r" using Suc.IH by blast
  then show ?case by (subst WaitForDB.simps) auto
qed



end
