(* ===== verification/Startup.thy ===== *)
theory Startup
  imports Config Migration Platform AccountProofs
begin

text \<open>
  The start and the end of the controller process (\<^verbatim>\<open>controller/cmd/server/main.go\<close>, function \<^verbatim>\<open>run\<close>): the configuration, the
  database, the clean-up of what a crash left behind, the first administrator, and the components that are put together.

  \<open>storage\<close> is what outlives a process: the schema, the tables and the scripts directory. \<open>boot_env\<close> holds the environment
  variables, the answer of \<^verbatim>\<open>sql.Open\<close> to a data source name, the time of the start and the pings of \<^verbatim>\<open>WaitForDB\<close>, the faults and
  clocks of the statements, and the libraries of the account handlers. The result is the state of the running controller, or
  the error that \<^verbatim>\<open>main\<close> logs before it exits. Creating the output directory and setting its mode only log a warning; they
  are left out, like the settings of the connection pool and the timeouts of the HTTP server.
\<close>

subsection \<open>State\<close>

record storage =
  sg_schema :: "schema \<times> nat"
  sg_tests :: "load_test table"
  sg_accounts :: acct_db
  sg_schedules :: sched_db
  sg_scripts :: scripts_dir
  sg_output :: out_dir

record boot_env =
  bo_getenv :: getenv
  bo_open :: "string \<Rightarrow> unit res"
  bo_start :: time
  bo_pings :: "nat \<Rightarrow> time \<times> bool"
  bo_schemaFault :: "nat \<Rightarrow> string option"
  bo_tests :: store_env
  bo_libs :: auth_handler
  bo_sched :: sched_env
  bo_fs :: "string \<Rightarrow> string option"
  bo_defaultJS :: string

record controller =
  ct_schema :: schema
  ct_platform :: platform
  ct_accounts :: acct_db
  ct_auth :: auth_handler
  ct_secrets :: secret_service
  ct_deps :: server_deps
  ct_origins :: "string list"
  ct_buffer :: int
  ct_port :: int

subsection \<open>The database\<close>

definition waitTimeout :: duration where
  "waitTimeout = 60 * second"

definition connect :: "boot_env \<Rightarrow> config \<Rightarrow> unit res option" where
  "connect env cfg =
    (case bo_open env (DSN cfg) of
       Inl e \<Rightarrow> Some (Inl (''open db: '' @ e))
     | Inr _ \<Rightarrow> map_option (wrap_err ''db not ready'') (WaitForDB (bo_start env + waitTimeout) (bo_pings env) 0))"

text \<open>
  \<^verbatim>\<open>Migrate\<close>, \<^verbatim>\<open>MarkStaleRunningTests\<close>, \<^verbatim>\<open>HashPassword\<close> and \<^verbatim>\<open>EnsureAdmin\<close>. An error while the stale tests are marked is only logged.
\<close>

definition prepare_tables :: "boot_env \<Rightarrow> config \<Rightarrow> storage \<Rightarrow> unit res \<times> storage" where
  "prepare_tables env cfg g =
    (case Migrate (bo_schemaFault env) (sg_schema g) of
       (Inl e, sch) \<Rightarrow> (Inl (''migration: '' @ e), g\<lparr>sg_schema := sch\<rparr>)
     | (Inr _, sch) \<Rightarrow>
        (let g1 = g\<lparr>sg_schema := sch, sg_tests := snd (MarkStaleRunningTests (bo_tests env) (sg_tests g))\<rparr>
         in case HashPassword (bo_libs env) (cf_InitialAdminPassword cfg) of
              Inl e \<Rightarrow> (Inl (''hash admin password: '' @ e), g1)
            | Inr hash \<Rightarrow>
               (case EnsureAdmin (ah_env (bo_libs env)) (cf_InitialAdminUsername cfg) (cf_InitialAdminEmail cfg) hash (sg_accounts g1) of
                  (r, db) \<Rightarrow> (wrap_err ''ensure admin'' r, g1\<lparr>sg_accounts := db\<rparr>))))"

subsection \<open>The components\<close>

definition new_orchestrator :: "config \<Rightarrow> orch" where
  "new_orchestrator cfg =
    (let o1 = New_orch (cf_Workers cfg) (wrap64 (cf_MetricsPollIntervalMS cfg * (second div 1000))) (wrap64 (cf_MaxTestDurationMin cfg * (60 * second)))
                \<lparr>dc_Enabled = cf_K6DashboardEnabled cfg, dc_Host = cf_K6DashboardHost cfg, dc_Port = cf_K6DashboardPort cfg\<rparr>
     in if 0 < cf_K6WorkerReadyTimeoutSec cfg then SetWorkerReadyTimeout (wrap64 (cf_K6WorkerReadyTimeoutSec cfg * second)) o1 else o1)"

text \<open>The test handler shares the tables and directories of the storage; the scheduler is its notifier.\<close>

definition new_test_handler :: "config \<Rightarrow> storage \<Rightarrow> test_handler" where
  "new_test_handler cfg g =
    SetScheduleCompletionNotifier
      ((NewTestHandler (new_orchestrator cfg) (Some NewRegistry) (cf_InternalControllerURL cfg))
        \<lparr>th_tests := sg_tests g, th_scripts := sg_scripts g, th_output := sg_output g\<rparr>)"

text \<open>\<^verbatim>\<open>scheduler.New\<close> keeps no secret service when it has no key, or when the service cannot be made.\<close>

definition scheduler_secrets :: "crypto_lib \<Rightarrow> string \<Rightarrow> secret_service" where
  "scheduler_secrets cl encryptionKey =
    (if encryptionKey = [] then None
     else (case NewService cl encryptionKey of Inl _ \<Rightarrow> None | Inr svc \<Rightarrow> Some (Decrypt cl svc)))"

definition auth_options :: "auth_handler \<Rightarrow> config \<Rightarrow> auth_handler" where
  "auth_options libs cfg =
    libs\<lparr>ah_jwtSecret := cf_JWTSecret cfg, ah_publicAppURL := cf_PublicAppURL cfg,
         ah_passwordResetTokenTTL := wrap64 (cf_PasswordResetTokenTTLMin cfg * (60 * second)),
         ah_smtpHost := cf_SMTPHost cfg, ah_smtpPort := cf_SMTPPort cfg, ah_smtpUser := cf_SMTPUser cfg,
         ah_smtpPassword := cf_SMTPPassword cfg, ah_smtpFromEmail := cf_SMTPFromEmail cfg, ah_smtpFromName := cf_SMTPFromName cfg\<rparr>"

definition assemble :: "boot_env \<Rightarrow> config \<Rightarrow> storage \<Rightarrow> controller" where
  "assemble env cfg g =
    \<lparr>ct_schema = fst (sg_schema g),
     ct_platform = \<lparr>pf_sched = Start_scheduler (bo_sched env) (New_scheduler (sg_schedules g)), pf_handler = new_test_handler cfg g\<rparr>,
     ct_accounts = sg_accounts g,
     ct_auth = new_auth_handler (auth_options (bo_libs env) cfg),
     ct_secrets = scheduler_secrets (ah_crypto (bo_libs env)) (cf_EncryptionKey cfg),
     ct_deps = \<lparr>sd_JWTSecret = cf_JWTSecret cfg, sd_APIKey = cf_APIKey cfg\<rparr>,
     ct_origins = cf_CORSOrigins cfg,
     ct_buffer = SetCompletionBufferSeconds (cf_K6CompletionBufferSec cfg),
     ct_port = cf_Port cfg\<rparr>"

subsection \<open>The process\<close>

text \<open>\<open>run_start\<close> is \<^verbatim>\<open>run\<close> up to the start of the HTTP server. An error of \<^verbatim>\<open>Load\<close> is logged as a warning.\<close>

definition run_start :: "boot_env \<Rightarrow> storage \<Rightarrow> (controller res \<times> storage) option" where
  "run_start env g =
    (let cfg = fst (Load (bo_getenv env))
     in case connect env cfg of
          None \<Rightarrow> None
        | Some (Inl e) \<Rightarrow> Some (Inl e, g)
        | Some (Inr _) \<Rightarrow>
           (case prepare_tables env cfg g of
              (Inl e, g1) \<Rightarrow> Some (Inl e, g1)
            | (Inr _, g1) \<Rightarrow>
               (let g2 = g1\<lparr>sg_scripts := snd (EnsureDefault (bo_fs env) (bo_defaultJS env) (sg_scripts g1))\<rparr>
                in Some (Inr (assemble env cfg g2), g2))))"

text \<open>
  The end of \<^verbatim>\<open>run\<close>: \<open>serveErr\<close> is the error of \<^verbatim>\<open>ListenAndServe\<close>, if the server failed before a signal came, and \<open>shutdownErr\<close> that of
  the shutdown of the server.
\<close>

definition run_stop :: "string option \<Rightarrow> string option \<Rightarrow> controller \<Rightarrow> unit res \<times> controller" where
  "run_stop serveErr shutdownErr ct =
    (case serveErr of
       Some e \<Rightarrow> (Inl (''server error: '' @ e), ct)
     | None \<Rightarrow>
        (let p = ct_platform ct; h = pf_handler p;
             ct1 = ct\<lparr>ct_platform := \<lparr>pf_sched = Stop_scheduler (pf_sched p), pf_handler = h\<lparr>th_orch := StopPolling (th_orch h)\<rparr>\<rparr>\<rparr>
         in case shutdownErr of Some e \<Rightarrow> (Inl (''shutdown: '' @ e), ct1) | None \<Rightarrow> (Inr (), ct1)))"

subsection \<open>What a start leaves\<close>

text \<open>Some ping succeeds, and no ping up to it comes after the deadline.\<close>

definition reachable_db :: "boot_env \<Rightarrow> bool" where
  "reachable_db env \<longleftrightarrow> (\<exists>k. snd (bo_pings env k) \<and> (\<forall>j \<le> k. fst (bo_pings env j) < bo_start env + waitTimeout))"

lemma WaitForDB_connects:
  assumes "snd (w (n + k))" "\<forall>j \<le> k. fst (w (n + j)) < deadline"
  shows "WaitForDB deadline w n = Some (Inr ())"
  using assms
proof (induction k arbitrary: n)
  case 0
  then show ?case by (subst WaitForDB.simps) simp
next
  case (Suc k)
  have "WaitForDB deadline w (Suc n) = Some (Inr ())" using Suc.prems by (intro Suc.IH) auto
  moreover have "fst (w n) < deadline" using Suc.prems(2) by auto
  ultimately show ?case by (subst WaitForDB.simps) simp
qed

lemma connect_ok:
  assumes "bo_open env (DSN cfg) = Inr ()" "reachable_db env"
  shows "connect env cfg = Some (Inr ())"
proof -
  obtain k where "snd (bo_pings env (0 + k))" "\<forall>j \<le> k. fst (bo_pings env (0 + j)) < bo_start env + waitTimeout"
    using assms(2) by (auto simp: reachable_db_def)
  from WaitForDB_connects [OF this] show ?thesis using assms(1) by (simp add: connect_def)
qed

lemma EnsureAdmin_ok:
  assumes "AccountProofs.no_faults env"
  obtains db' where "EnsureAdmin env name email hash db = (Inr (), db')" "ad_users db' \<noteq> []"
    "ad_users db \<noteq> [] \<Longrightarrow> ad_users db' = ad_users db"
    "ad_users db = [] \<Longrightarrow> map us_Username (ad_users db') = [name] \<and> map us_Role (ad_users db') = [''admin''] \<and> map us_HashedPassword (ad_users db') = [hash]"
proof -
  have f: "se_fault (ae_store env) n = None" for n using assms by (simp add: AccountProofs.no_faults_def)
  show ?thesis
    by (rule that [of "snd (EnsureAdmin env name email hash db)"])
      (auto simp: EnsureAdmin_def UserCount_def CreateUser_def acct_stmt_def f Let_def)
qed

lemma prepare_ok:
  assumes "upgradable (fst (sg_schema g))" "\<And>n. bo_schemaFault env n = None" "\<And>n. se_fault (bo_tests env) n = None"
    and "AccountProofs.no_faults (ah_env (bo_libs env))" "HashPassword (bo_libs env) (cf_InitialAdminPassword cfg) = Inr hash"
  obtains g1 where "prepare_tables env cfg g = (Inr (), g1)" "complete_schema (fst (sg_schema g1))"
    "fst (sg_tests g1) = map (\<lambda>r. if is_stale r then r\<lparr>lt_Status := ''aborted''\<rparr> else r) (fst (sg_tests g))"
    "ad_users (sg_accounts g1) \<noteq> []" "ad_users (sg_accounts g) \<noteq> [] \<longrightarrow> ad_users (sg_accounts g1) = ad_users (sg_accounts g)"
proof -
  note m = Migrate_completes [of "sg_schema g" "bo_schemaFault env", OF assms(1,2)]
  obtain sch where sch: "Migrate (bo_schemaFault env) (sg_schema g) = (Inr (), sch)" using m(1) by (cases "Migrate (bo_schemaFault env) (sg_schema g)") auto
  obtain db where db: "EnsureAdmin (ah_env (bo_libs env)) (cf_InitialAdminUsername cfg) (cf_InitialAdminEmail cfg) hash (sg_accounts g) = (Inr (), db)"
    "ad_users db \<noteq> []" "ad_users (sg_accounts g) \<noteq> [] \<Longrightarrow> ad_users db = ad_users (sg_accounts g)"
    using EnsureAdmin_ok [OF assms(4)] by metis
  let ?tab = "snd (MarkStaleRunningTests (bo_tests env) (sg_tests g))"
  have t: "fst ?tab = map (\<lambda>r. if is_stale r then r\<lparr>lt_Status := ''aborted''\<rparr> else r) (fst (sg_tests g))"
    by (cases "sg_tests g") (simp add: MarkStaleRunningTests_def stmt_rows assms(3))
  show ?thesis
    by (rule that [of "g\<lparr>sg_schema := sch, sg_tests := ?tab, sg_accounts := db\<rparr>"])
      (use sch db t m(2) assms(5) in \<open>simp_all add: prepare_tables_def Let_def\<close>)
qed

lemma assembled:
  "active (pf_handler (ct_platform (assemble env cfg g))) = []"
  "th_notifier (pf_handler (ct_platform (assemble env cfg g)))"
  "th_tests (pf_handler (ct_platform (assemble env cfg g))) = sg_tests g"
  "pf_sched (ct_platform (assemble env cfg g)) = recover (bo_sched env) ((New_scheduler (sg_schedules g))\<lparr>ss_running := True\<rparr>)"
  by (simp_all add: assemble_def new_test_handler_def SetScheduleCompletionNotifier_def NewTestHandler_def new_orchestrator_def
      SetWorkerReadyTimeout_def New_orch_def Start_scheduler_def New_scheduler_def Let_def)

text \<open>
  C2. Whatever a crash left behind, the next start of the controller, when the database answers in time and no statement
  fails, succeeds and leaves nothing half done: the schema is complete; every test that was running or pending is aborted
  and every other test is as it was; there is an account, and existing accounts are as they were; no execution of a
  schedule is running or pending, no schedule is running, and every schedule that is still to run lies in the future; no
  callback waits, no test is active, so the next due schedule can start, and the completion of a test is reported to the
  scheduler.
\<close>

theorem start_up_is_clean:
  assumes "bo_open env (DSN (fst (Load (bo_getenv env)))) = Inr ()" "reachable_db env" "upgradable (fst (sg_schema g))"
    and "\<And>n. bo_schemaFault env n = None" "\<And>n. se_fault (bo_tests env) n = None"
    and "AccountProofs.no_faults (ah_env (bo_libs env))" "SchedulerProofs.no_faults (bo_sched env)"
    and "HashPassword (bo_libs env) (cf_InitialAdminPassword (fst (Load (bo_getenv env)))) = Inr hash"
  shows "\<exists>ct g'. run_start env g = Some (Inr ct, g') \<and> complete_schema (ct_schema ct) \<and>
    fst (th_tests (pf_handler (ct_platform ct))) = map (\<lambda>r. if is_stale r then r\<lparr>lt_Status := ''aborted''\<rparr> else r) (fst (sg_tests g)) \<and>
    ad_users (ct_accounts ct) \<noteq> [] \<and> (ad_users (sg_accounts g) \<noteq> [] \<longrightarrow> ad_users (ct_accounts ct) = ad_users (sg_accounts g)) \<and>
    list_all (\<lambda>x. ex_Status x \<notin> {''running'', ''pending''}) (xrows (pf_sched (ct_platform ct))) \<and>
    list_all (settled (env_now (bo_sched env))) (srows (pf_sched (ct_platform ct))) \<and>
    ss_callbacks (pf_sched (ct_platform ct)) = [] \<and> active (pf_handler (ct_platform ct)) = [] \<and> th_notifier (pf_handler (ct_platform ct))"
proof -
  let ?cfg = "fst (Load (bo_getenv env))"
  obtain g1 where g1: "prepare_tables env ?cfg g = (Inr (), g1)" "complete_schema (fst (sg_schema g1))"
    "fst (sg_tests g1) = map (\<lambda>r. if is_stale r then r\<lparr>lt_Status := ''aborted''\<rparr> else r) (fst (sg_tests g))"
    "ad_users (sg_accounts g1) \<noteq> []" "ad_users (sg_accounts g) \<noteq> [] \<longrightarrow> ad_users (sg_accounts g1) = ad_users (sg_accounts g)"
    by (rule prepare_ok [OF assms(3-6,8)])
  let ?g2 = "g1\<lparr>sg_scripts := snd (EnsureDefault (bo_fs env) (bo_defaultJS env) (sg_scripts g1))\<rparr>"
  let ?ct = "assemble env ?cfg ?g2"
  have "run_start env g = Some (Inr ?ct, ?g2)"
    by (simp add: run_start_def Let_def connect_ok [OF assms(1,2)] g1(1))
  moreover have "ct_schema ?ct = fst (sg_schema g1)" "ct_accounts ?ct = sg_accounts g1" by (simp_all add: assemble_def)
  moreover have "list_all (settled (env_now (bo_sched env))) (srows (pf_sched (ct_platform ?ct)))"
    "list_all (\<lambda>x. ex_Status x \<notin> {''running'', ''pending''}) (xrows (pf_sched (ct_platform ?ct)))"
    unfolding assembled list_all_iff by (rule recover_settled [OF assms(7)], rule recover_executions [OF assms(7)])
  moreover have "ss_callbacks (pf_sched (ct_platform ?ct)) = []" by (simp add: assembled recover_frame New_scheduler_def)
  ultimately show ?thesis using g1(2-5) by (intro exI [of _ ?ct] exI [of _ ?g2]) (simp add: assembled)
qed

text \<open>A start after a crash: a test, its execution and its schedule were running, and the schema is that of an older version.\<close>

definition demo_boot :: boot_env where
  "demo_boot =
    \<lparr>bo_getenv = (\<lambda>k. if k = ''K6_WORKERS'' then ''w1:6565'' else []), bo_open = (\<lambda>_. Inr ()), bo_start = 0,
     bo_pings = (\<lambda>n. (int n * (2 * second), 2 \<le> n)), bo_schemaFault = (\<lambda>_. None),
     bo_tests = \<lparr>se_fault = (\<lambda>_. None), se_now = 100 * hour, se_uuid = (\<lambda>_. [])\<rparr>, bo_libs = demo_auth 0,
     bo_sched = SchedulerProofs.demo_env (100 * hour), bo_fs = (\<lambda>_. None), bo_defaultJS = ''export default function () {}''\<rparr>"

definition crashed_storage :: storage where
  "crashed_storage =
    \<lparr>sg_schema = ([], 0), sg_tests = ([zero_load_test\<lparr>lt_ID := ''t'', lt_Status := ''running''\<rparr>], 0), sg_accounts = demo_accounts,
     sg_schedules = \<lparr>db_schedules = [(SchedulerProofs.demo_row ''a'' 0)\<lparr>c_status := ''running''\<rparr>],
       db_executions = [SchedulerProofs.demo_execution ''x'' ''a'' 0 ''running''], db_calls = 0\<rparr>,
     sg_scripts = \<lparr>sd_script = None, sd_config = None, sd_env = None\<rparr>, sg_output = []\<rparr>"

theorem start_up_is_clean_witness:
  "\<exists>ct g'. run_start demo_boot crashed_storage = Some (Inr ct, g') \<and> complete_schema (ct_schema ct) \<and>
    map lt_Status (fst (th_tests (pf_handler (ct_platform ct)))) = [''aborted''] \<and>
    list_all (settled (100 * hour)) (srows (pf_sched (ct_platform ct)))"
proof -
  have r: "reachable_db demo_boot"
    by (auto simp: reachable_db_def demo_boot_def waitTimeout_def intro!: exI [of _ 2])
  have u: "upgradable (fst (sg_schema crashed_storage))" by (simp add: crashed_storage_def upgradable_def list_all_iff)
  have o: "bo_open demo_boot d = Inr ()" for d by (simp add: demo_boot_def)
  have h: "HashPassword (bo_libs demo_boot) pw = Inr (''$$'' @ pw)" for pw by (simp add: demo_boot_def HashPassword_def demo_auth_def demo_bcrypt_def)
  have f: "\<And>n. bo_schemaFault demo_boot n = None" "\<And>n. se_fault (bo_tests demo_boot) n = None"
    "AccountProofs.no_faults (ah_env (bo_libs demo_boot))" "SchedulerProofs.no_faults (bo_sched demo_boot)"
    "env_now (bo_sched demo_boot) = 100 * hour"
    by (simp_all add: demo_boot_def AccountProofs.no_faults_def demo_auth_def SchedulerProofs.no_faults_def SchedulerProofs.demo_env_def)
  have t: "fst (sg_tests crashed_storage) = [zero_load_test\<lparr>lt_ID := ''t'', lt_Status := ''running''\<rparr>]" by (simp add: crashed_storage_def)
  show ?thesis
    using start_up_is_clean [OF o r u f(1-4) h] by (fastforce simp: f(5) t is_stale_def)
qed

subsection \<open>The published secret\<close>

text \<open>
  C36. \<^verbatim>\<open>Load\<close> reports that \<^verbatim>\<open>JWT_SECRET\<close> must be set in production, but the start only logs this: a controller that is started
  without the variable serves with the secret of the source, and everyone who has the source can sign a token with which
  the routes of the administrators run their handlers.
\<close>

theorem published_secret_opens_admin_routes:
  assumes "bo_getenv env ''JWT_SECRET'' = []" "bo_getenv env ''API_KEY'' = []" "run_start env g = Some (Inr ct, g')"
    and "jwt_ok lib" "jw_sign lib default_jwt_secret claims = Inr tok" "map_of claims ''exp'' = Some (unix_num x)" "unix_sec now < unix_sec x"
    and "map_of claims ''role'' = Some (JStr ''admin'')"
  shows "snd (Load (bo_getenv env)) \<noteq> None \<and>
    admin_group lib (ct_deps ct) now \<lparr>rh_Authorization = ''Bearer '' @ tok, rh_APIKey = []\<rparr> next_handler s =
      next_handler \<lparr>uc_UserID = parse_int64_value (str_or_empty (map_of claims ''sub'')),
        uc_Username = str_or_empty (map_of claims ''username''), uc_Role = ''admin''\<rparr> s"
proof -
  let ?cfg = "fst (Load (bo_getenv env))"
  have cfg: "cf_JWTSecret ?cfg = default_jwt_secret" "cf_APIKey ?cfg = []"
    using assms(1,2) by (simp_all add: Load_def read_config_def envStr_def Let_def)
  have "ct_deps ct = \<lparr>sd_JWTSecret = cf_JWTSecret ?cfg, sd_APIKey = cf_APIKey ?cfg\<rparr>"
    using assms(3) by (auto simp: run_start_def Let_def assemble_def split: option.splits sum.splits prod.splits)
  then have deps: "ct_deps ct = \<lparr>sd_JWTSecret = default_jwt_secret, sd_APIKey = []\<rparr>" by (simp add: cfg)
  have "jw_parse lib (hmac_key default_jwt_secret) now tok = Some claims"
    using assms(4-7) unfolding jwt_ok_def
    by (elim allE [of _ default_jwt_secret] allE [of _ "hmac_key default_jwt_secret"] allE [of _ claims] allE [of _ tok] allE [of _ now]
        allE [of _ x]) (simp add: hmac_key_def)
  moreover have "split_space2 (''Bearer '' @ tok) = [''Bearer'', tok]" using split_space2_pair [of "''Bearer''" tok] by simp
  moreover have "to_lower ''Bearer'' = ''bearer''" by code_simp
  moreover have "snd (Load (bo_getenv env)) \<noteq> None" using cfg(1) by (simp add: Load_def Let_def)
  ultimately show ?thesis using assms(8)
    by (auto simp: deps protected_group_def admin_group_def RequireAdmin_def JWTAuth_def str_or_empty_def)
qed

text \<open>A library of tokens that signs one set of claims, and a start without the variable.\<close>

definition admin_claims :: json_obj where
  "admin_claims = [(''role'', JStr ''admin''), (''exp'', unix_num (24 * hour))]"

definition one_jwt :: jwt_lib where
  "one_jwt = \<lparr>jw_sign = (\<lambda>sec claims. if claims = admin_claims then Inr sec else Inl ''unsupported''),
    jw_parse = (\<lambda>key now tok. if key ''HS256'' = Some tok then Some admin_claims else None)\<rparr>"

theorem published_secret_opens_admin_routes_witness:
  "\<exists>ct g'. run_start demo_boot crashed_storage = Some (Inr ct, g') \<and>
    admin_group one_jwt (ct_deps ct) 0 \<lparr>rh_Authorization = ''Bearer '' @ default_jwt_secret, rh_APIKey = []\<rparr>
      (\<lambda>ctx s. (HttpJson 200 (uc_Role ctx), s)) () = (HttpJson 200 ''admin'', ())"
proof -
  have r: "reachable_db demo_boot"
    by (auto simp: reachable_db_def demo_boot_def waitTimeout_def intro!: exI [of _ 2])
  have u: "upgradable (fst (sg_schema crashed_storage))" by (simp add: crashed_storage_def upgradable_def list_all_iff)
  have f: "\<And>n. bo_schemaFault demo_boot n = None" "\<And>n. se_fault (bo_tests demo_boot) n = None" "AccountProofs.no_faults (ah_env (bo_libs demo_boot))"
    by (simp_all add: demo_boot_def AccountProofs.no_faults_def demo_auth_def)
  have h: "HashPassword (bo_libs demo_boot) pw = Inr (''$$'' @ pw)" for pw by (simp add: demo_boot_def HashPassword_def demo_auth_def demo_bcrypt_def)
  let ?cfg = "fst (Load (bo_getenv demo_boot))"
  obtain g1 where g1: "prepare_tables demo_boot ?cfg crashed_storage = (Inr (), g1)" by (rule prepare_ok [OF u f h])
  have c: "connect demo_boot ?cfg = Some (Inr ())" by (rule connect_ok [OF _ r]) (simp add: demo_boot_def)
  obtain ct g' where s: "run_start demo_boot crashed_storage = Some (Inr ct, g')" by (simp add: run_start_def Let_def c g1)
  have "jwt_ok one_jwt" by (auto simp: jwt_ok_def one_jwt_def split: if_splits)
  moreover have "jw_sign one_jwt default_jwt_secret admin_claims = Inr default_jwt_secret" by (simp add: one_jwt_def)
  moreover have env: "bo_getenv demo_boot ''JWT_SECRET'' = []" "bo_getenv demo_boot ''API_KEY'' = []" by (simp_all add: demo_boot_def)
  ultimately show ?thesis
    using published_secret_opens_admin_routes [OF _ _ s, of one_jwt admin_claims default_jwt_secret "24 * hour" 0 "\<lambda>ctx s. (HttpJson 200 (uc_Role ctx), s)" "()"] s
    by (simp add: env admin_claims_def unix_sec_def)
qed

end
