(* ===== verification/Routes.thy ===== *)
theory Routes
  imports AccountProofs
begin

text \<open>
  The routing table of the controller (\<^verbatim>\<open>controller/internal/server/server.go\<close>, function \<^verbatim>\<open>NewRouter\<close>): for every route its method, its
  pattern, the group it is registered in and the method of the handler. The router of the chi library finds the route; the
  group says which middleware a request passes before its handler runs. The request identifier, the client address and the
  recovery from panics are middleware of chi and are left out; \<^verbatim>\<open>CORS\<close> only adds header fields and answers \<^verbatim>\<open>OPTIONS\<close>.
\<close>

datatype access = Public | Protected | AdminOnly

datatype route = route (rt_method: string) (rt_pattern: string) (rt_access: access) (rt_handler: string)

definition NewRouter :: "route list" where
  "NewRouter =
    [route ''GET'' ''/api/health'' Public ''healthH.Health'',
     route ''POST'' ''/api/auth/login'' Public ''authH.Login'',
     route ''POST'' ''/api/auth/forgot-password'' Public ''authH.ForgotPassword'',
     route ''POST'' ''/api/auth/reset-password'' Public ''authH.CompletePasswordReset'',
     route ''GET'' ''/api/internal/scripts/{filename}'' Public ''scriptsH.ServeScript'',
     route ''POST'' ''/api/internal/runs/{testID}/workers/{workerID}/{artifactType}'' Public ''testH.UploadArtifact'',
     route ''POST'' ''/api/run'' Protected ''testH.StartTest'',
     route ''POST'' ''/api/stop'' Protected ''testH.StopTest'',
     route ''POST'' ''/api/pause'' Protected ''testH.PauseTest'',
     route ''POST'' ''/api/resume'' Protected ''testH.ResumeTest'',
     route ''POST'' ''/api/scale'' Protected ''testH.ScaleTest'',
     route ''GET'' ''/api/metrics/live'' Protected ''testH.GetLiveMetrics'',
     route ''GET'' ''/api/workers/status'' Protected ''testH.GetWorkerStatus'',
     route ''POST'' ''/api/scripts/upload'' Protected ''testH.UploadScript'',
     route ''GET'' ''/api/result/list'' Protected ''resultH.ListResults'',
     route ''GET'' ''/api/result/{id}'' Protected ''resultH.GetResult'',
     route ''GET'' ''/api/templates'' Protected ''templateH.List'',
     route ''POST'' ''/api/templates'' Protected ''templateH.Create'',
     route ''GET'' ''/api/templates/{id}'' Protected ''templateH.Get'',
     route ''PUT'' ''/api/templates/{id}'' Protected ''templateH.Update'',
     route ''DELETE'' ''/api/templates/{id}'' Protected ''templateH.Delete'',
     route ''POST'' ''/api/schedules'' Protected ''scheduleH.Create'',
     route ''GET'' ''/api/schedules'' Protected ''scheduleH.List'',
     route ''GET'' ''/api/schedules/calendar'' Protected ''scheduleH.Calendar'',
     route ''POST'' ''/api/schedules/check-conflict'' Protected ''scheduleH.CheckConflict'',
     route ''GET'' ''/api/schedules/{id}'' Protected ''scheduleH.Get'',
     route ''PUT'' ''/api/schedules/{id}'' Protected ''scheduleH.Update'',
     route ''DELETE'' ''/api/schedules/{id}'' Protected ''scheduleH.Delete'',
     route ''POST'' ''/api/schedules/{id}/pause'' Protected ''scheduleH.Pause'',
     route ''POST'' ''/api/schedules/{id}/resume'' Protected ''scheduleH.Resume'',
     route ''POST'' ''/api/schedules/{id}/run-now'' Protected ''scheduleH.RunNow'',
     route ''GET'' ''/api/schedules/{id}/executions'' Protected ''scheduleH.ListExecutions'',
     route ''GET'' ''/api/profile'' Protected ''authH.GetProfileSummary'',
     route ''PUT'' ''/api/profile/password'' Protected ''authH.UpdatePassword'',
     route ''GET'' ''/api/auth/users'' AdminOnly ''authH.ListUsers'',
     route ''POST'' ''/api/auth/users'' AdminOnly ''authH.CreateUser'',
     route ''POST'' ''/api/auth/users/{id}/reset-password'' AdminOnly ''authH.ResetUserPassword'',
     route ''POST'' ''/api/resetdata'' AdminOnly ''resultH.ResetData'',
     route ''GET'' ''/api/admin/templates/system/export'' AdminOnly ''templateH.ExportSystemTemplates'',
     route ''POST'' ''/api/admin/templates/system/import'' AdminOnly ''templateH.ImportSystemTemplates'',
     route ''POST'' ''/api/admin/templates/{id}/system'' AdminOnly ''templateH.PromoteToSystem'',
     route ''DELETE'' ''/api/admin/templates/{id}/system'' AdminOnly ''templateH.DemoteFromSystem'',
     route ''GET'' ''/api/admin/templates/{id}/export'' AdminOnly ''templateH.Export'',
     route ''GET'' ''/api/admin/workers/dashboards'' AdminOnly ''dashboardH.ListDashboards'',
     route ''GET'' ''/api/admin/workers/{worker}/dashboard'' AdminOnly ''dashboardH.ProxyDashboard'',
     route ''GET'' ''/api/admin/workers/{worker}/dashboard/{proxyPath}'' AdminOnly ''dashboardH.ProxyDashboard'',
     route ''GET'' ''/api/admin/workers/{worker}/dashboard/*'' AdminOnly ''dashboardH.ProxyDashboard'']"

text \<open>A handler of the public group gets no identity; here it ignores the one it is given.\<close>

definition serve_route ::
  "jwt_lib \<Rightarrow> server_deps \<Rightarrow> time \<Rightarrow> request_headers \<Rightarrow> route \<Rightarrow> (route \<Rightarrow> ('a, 's) handler) \<Rightarrow> 's \<Rightarrow> 'a response \<times> 's" where
  "serve_route lib deps now hs rt handlers =
    (case rt_access rt of
       Public \<Rightarrow> handlers rt \<lparr>uc_UserID = 0, uc_Username = [], uc_Role = []\<rparr>
     | Protected \<Rightarrow> protected_group lib deps now hs (handlers rt)
     | AdminOnly \<Rightarrow> admin_group lib deps now hs (handlers rt))"

subsection \<open>Who reaches what\<close>

definition has_token :: "jwt_lib \<Rightarrow> server_deps \<Rightarrow> time \<Rightarrow> request_headers \<Rightarrow> bool" where
  "has_token lib deps now hs \<longleftrightarrow>
    (case split_space2 (rh_Authorization hs) of [scheme, raw] \<Rightarrow> jw_parse lib (hmac_key (sd_JWTSecret deps)) now raw \<noteq> None | _ \<Rightarrow> False)"

lemma no_token_no_entry:
  assumes "\<not> has_token lib deps now hs" "rt_access rt \<noteq> Public"
  shows "\<exists>msg. serve_route lib deps now hs rt handlers s = (HttpError msg 401, s)"
  using assms
  by (auto simp: serve_route_def has_token_def admin_group_def protected_group_def JWTAuth_def split: access.split list.split option.splits)

definition public_patterns :: "string list" where
  "public_patterns = map rt_pattern (filter (\<lambda>rt. rt_access rt = Public) NewRouter)"

lemma public_patterns_eq:
  "public_patterns = [''/api/health'', ''/api/auth/login'', ''/api/auth/forgot-password'', ''/api/auth/reset-password'',
    ''/api/internal/scripts/{filename}'', ''/api/internal/runs/{testID}/workers/{workerID}/{artifactType}'']"
  by (simp add: public_patterns_def NewRouter_def)

text \<open>
  Without a token that the key of the server verifies, only six routes run a handler: the health check, the login, the
  two steps of a password reset, the files for the workers and the uploads of the workers. Every other route answers 401 and
  changes nothing.
\<close>

theorem only_public_routes_without_token:
  assumes "\<not> has_token lib deps now hs" "rt \<in> set NewRouter"
    and "rt_pattern rt \<notin> {''/api/health'', ''/api/auth/login'', ''/api/auth/forgot-password'', ''/api/auth/reset-password'',
      ''/api/internal/scripts/{filename}'', ''/api/internal/runs/{testID}/workers/{workerID}/{artifactType}''}"
  shows "\<exists>msg. serve_route lib deps now hs rt handlers s = (HttpError msg 401, s)"
proof (rule no_token_no_entry [OF assms(1)])
  have "rt_pattern rt \<notin> set public_patterns" using assms(3) by (simp only: public_patterns_eq list.set insert_iff) simp
  then show "rt_access rt \<noteq> Public" using assms(2) by (auto simp: public_patterns_def)
qed

theorem only_public_routes_without_token_witness:
  "\<exists>msg. serve_route only_jwt \<lparr>sd_JWTSecret = ''k'', sd_APIKey = []\<rparr> 0 \<lparr>rh_Authorization = ''Bearer forged'', rh_APIKey = []\<rparr>
    (route ''POST'' ''/api/run'' Protected ''testH.StartTest'') (\<lambda>_ _ s. (HttpJson 200 (), Suc s)) 0 = (HttpError msg 401, 0)"
proof -
  have "\<not> has_token only_jwt \<lparr>sd_JWTSecret = ''k'', sd_APIKey = []\<rparr> 0 \<lparr>rh_Authorization = ''Bearer forged'', rh_APIKey = []\<rparr>"
    using split_space2_pair [of "''Bearer''" "''forged''"] by (simp add: has_token_def only_jwt_def hmac_key_def)
  moreover have "route ''POST'' ''/api/run'' Protected ''testH.StartTest'' \<in> set NewRouter" by (simp add: NewRouter_def)
  ultimately show ?thesis by (intro only_public_routes_without_token) simp_all
qed

end
