(* ===== verification/Dashboard.thy ===== *)
theory Dashboard
  imports OrchestratorProofs TestCompletion
begin

text \<open>
  The health and dashboard handlers of the controller (\<^verbatim>\<open>controller/internal/handler/health.go\<close> and \<^verbatim>\<open>dashboard.go\<close>).

  The replies of the workers to a status request are arguments, as for \<^verbatim>\<open>CheckWorkers\<close>. \<^verbatim>\<open>httputil.ReverseProxy\<close> sends the request it
  is given to its target; \<open>upstream\<close> is what comes back for it, \<open>None\<close> when the exchange fails and the error handler answers.
  The header fields that the proxy passes on are left out. A redirection holds the argument of \<^verbatim>\<open>http.Redirect\<close>.
\<close>

subsection \<open>Health\<close>

definition Health :: "(nat \<Rightarrow> k6_status http_reply) \<Rightarrow> orch \<Rightarrow> (string \<times> worker_metrics list) response" where
  "Health replies o1 = HttpJson 200 (''ok'', CheckWorkers replies o1)"

subsection \<open>The status of a dashboard\<close>

record worker_dashboard_status =
  ds_Name :: string
  ds_Address :: string
  ds_WorkerStatus :: string
  ds_Phase :: string
  ds_DashboardEnabled :: bool
  ds_DashboardURL :: string
  ds_Availability :: string
  ds_Message :: string
  ds_ActiveTestID :: string

definition display_status :: "string \<Rightarrow> string \<Rightarrow> test_phase \<Rightarrow> string" where
  "display_status status activeTestID phase =
    (if activeTestID \<noteq> [] \<and> status \<noteq> ''unreachable''
     then (case phase of
             PhaseScript \<Rightarrow> ''preparing'' | PhaseWorkers \<Rightarrow> ''preparing''
           | PhaseRunning \<Rightarrow> ''running''
           | PhaseCollecting \<Rightarrow> ''collecting''
           | _ \<Rightarrow> status)
     else status)"

definition availability_message :: "worker_metrics \<Rightarrow> string \<Rightarrow> string \<times> string" where
  "availability_message w activeTestID =
    (if \<not> wm_DashboardEnabled w
     then (''disabled'', ''k6 internal dashboards are disabled in the current runtime configuration'')
     else if wm_Status w = ''unreachable''
     then (''worker_unreachable'', if wm_Error w \<noteq> [] then wm_Error w else ''worker is currently unreachable'')
     else if activeTestID = []
     then (''not_running'', ''no active test run is present, so the live k6 dashboard is not expected to be available'')
     else (''available'', ''live dashboard available while the active k6 run is alive''))"

definition buildWorkerDashboardStatus :: "worker_metrics \<Rightarrow> string \<Rightarrow> test_phase \<Rightarrow> worker_dashboard_status" where
  "buildWorkerDashboardStatus w activeTestID phase =
    \<lparr>ds_Name = wm_Name w, ds_Address = wm_Address w, ds_WorkerStatus = display_status (wm_Status w) activeTestID phase,
     ds_Phase = phase_str phase, ds_DashboardEnabled = wm_DashboardEnabled w, ds_DashboardURL = wm_DashboardURL w,
     ds_Availability = fst (availability_message w activeTestID), ds_Message = snd (availability_message w activeTestID),
     ds_ActiveTestID = activeTestID\<rparr>"

definition ListDashboards :: "(nat \<Rightarrow> k6_status http_reply) \<Rightarrow> orch \<Rightarrow> (worker_dashboard_status list \<times> string \<times> string) response" where
  "ListDashboards replies o1 =
    HttpJson 200
      (map (\<lambda>w. buildWorkerDashboardStatus w (o_activeTestID o1) (o_phase o1)) (CheckWorkers replies o1),
       o_activeTestID o1, phase_str (o_phase o1))"

subsection \<open>Streams\<close>

definition shouldKeepDashboardStreamOpen :: "string \<Rightarrow> test_phase \<Rightarrow> bool" where
  "shouldKeepDashboardStreamOpen activeTestID phase =
    (if activeTestID = [] then False else (case phase of PhaseCollecting \<Rightarrow> False | PhaseDone \<Rightarrow> False | PhaseError \<Rightarrow> False | _ \<Rightarrow> True))"

text \<open>
  \<^verbatim>\<open>dashboardProxyRequestContext\<close>: a stream of events gets a context of its own, which a goroutine cancels. What it sees is
  the end of the context or a tick with the state of the orchestrator; the result says whether it cancelled, \<open>None\<close> while it
  still watches.
\<close>

datatype watch_event = CtxDone | WatchTick string test_phase

definition own_context :: "string \<Rightarrow> bool" where
  "own_context proxyPath \<longleftrightarrow> has_suffix proxyPath ''/events'' \<or> proxyPath = ''/events''"

fun watch_stream :: "watch_event list \<Rightarrow> bool option" where
  "watch_stream [] = None"
| "watch_stream (CtxDone # es) = Some False"
| "watch_stream (WatchTick activeTestID phase # es) =
    (if shouldKeepDashboardStreamOpen activeTestID phase then watch_stream es else Some True)"

subsection \<open>Paths and pages\<close>

definition workerDashboardRuntimeStatus :: "k6_status option \<Rightarrow> bool \<Rightarrow> string" where
  "workerDashboardRuntimeStatus status testActive =
    (case status of
       None \<Rightarrow> ''unreachable''
     | Some s \<Rightarrow>
        (if IsRunning s \<and> \<not> ks_Paused s then ''running''
         else if ks_Paused s then ''paused''
         else if IsFinished s then (if testActive then ''done'' else ''online'')
         else ''online''))"

definition joinProxyPath :: "string \<Rightarrow> string \<Rightarrow> string" where
  "joinProxyPath basePath subPath =
    (if basePath = [] \<or> basePath = ''/'' then subPath
     else if subPath = [] \<or> subPath = ''/'' then basePath
     else if has_suffix basePath ''/'' \<and> has_prefix subPath ''/'' then basePath @ trim_prefix subPath ''/''
     else if has_suffix basePath ''/'' \<or> has_prefix subPath ''/'' then basePath @ subPath
     else basePath @ ''/'' @ subPath)"

text \<open>\<^verbatim>\<open>html.EscapeString\<close> of the standard library.\<close>

definition escape_char :: "char \<Rightarrow> string" where
  "escape_char c =
    (if c = CHR ''<'' then ''&lt;''
     else if c = CHR ''>'' then ''&gt;''
     else if c = CHR ''&'' then ''&amp;''
     else if c = CHR 0x27 then ''&#39;''
     else if c = CHR 0x22 then ''&#34;''
     else [c])"

definition EscapeString :: "string \<Rightarrow> string" where
  "EscapeString s = concat (map escape_char s)"

definition page_before :: "string list" where
  "page_before =
    [''<!doctype html>'',
     ''<html lang=\"en\">'',
     ''  <head>'',
     ''    <meta charset=\"utf-8\">'',
     ''    <title>Worker Dashboard Unavailable</title>'',
     ''    <style>'',
     ''      body { font-family: system-ui, sans-serif; background: #120912; color: #f7eef5; padding: 32px; }'',
     ''      .panel { max-width: 720px; margin: 0 auto; background: #201320; border: 1px solid #4b2a42; border-radius: 16px; padding: 24px; }'',
     ''      h1 { margin-top: 0; color: #ff4da6; }'',
     ''      p { line-height: 1.5; color: #e8d8e6; }'',
     ''      code { background: #2b1830; padding: 2px 6px; border-radius: 6px; }'',
     ''    </style>'',
     ''  </head>'',
     ''  <body>'',
     ''    <div class=\"panel\">'',
     ''      <h1>Worker Dashboard Unavailable</h1>'']"

definition page_after :: "string list" where
  "page_after =
    [''      <p>This view is live-only and is expected to disappear when there is no active k6 run on the selected worker.</p>'',
     ''    </div>'',
     ''  </body>'']"

definition unavailable_page :: "string \<Rightarrow> string" where
  "unavailable_page message =
    concat (map (\<lambda>l. l @ [newline]) page_before) @ ''      <p>'' @ EscapeString message @ ''</p>'' @ [newline] @
    concat (map (\<lambda>l. l @ [newline]) page_after) @ ''</html>''"

subsection \<open>The proxy\<close>

record dashboard_request =
  dq_worker :: string
  dq_star :: string
  dq_proxyPath :: string
  dq_Path :: string
  dq_RawQuery :: string

record proxy_request =
  pq_Scheme :: string
  pq_Host :: string
  pq_Path :: string
  pq_ownContext :: bool

datatype 'a dashboard_reply =
    DashboardHTML int string
  | DashboardRedirect string int
  | DashboardProxied proxy_request 'a

definition writeDashboardUnavailableHTML :: "int \<Rightarrow> string \<Rightarrow> 'a dashboard_reply" where
  "writeDashboardUnavailableHTML statusCode message = DashboardHTML statusCode (unavailable_page message)"

definition proxied_worker :: "worker \<Rightarrow> k6_status res \<Rightarrow> bool \<Rightarrow> worker_metrics" where
  "proxied_worker w r testActive =
    (let wm = zero_worker_metrics
           \<lparr>wm_Name := worker_Name w, wm_Address := w_Address w, wm_DashboardEnabled := w_DashboardEnabled w,
            wm_DashboardURL := DashboardURL w, wm_Status := ''unreachable''\<rparr>
     in case r of
          Inl e \<Rightarrow> wm\<lparr>wm_Error := e\<rparr>
        | Inr status \<Rightarrow> wm\<lparr>wm_Status := workerDashboardRuntimeStatus (Some status) testActive, wm_VUs := ks_VUs status\<rparr>)"

definition forward :: "url \<Rightarrow> (proxy_request \<Rightarrow> 'a option) \<Rightarrow> dashboard_request \<Rightarrow> 'a dashboard_reply" where
  "forward target upstream r =
    (let proxyPath = (if dq_star r = [] then dq_proxyPath r else dq_star r)
     in if proxyPath = ''ui'' \<and> \<not> has_suffix (dq_Path r) ''/''
        then DashboardRedirect (dq_Path r @ ''/'' @ (if dq_RawQuery r \<noteq> [] then ''?'' @ dq_RawQuery r else [])) 307
        else (let proxyPath1 = (if proxyPath = [] then ''/'' else if \<not> has_prefix proxyPath ''/'' then ''/'' @ proxyPath else proxyPath);
                  req = \<lparr>pq_Scheme = u_Scheme target, pq_Host = u_Host target, pq_Path = joinProxyPath (u_Path target) proxyPath1,
                         pq_ownContext = own_context proxyPath1\<rparr>
              in case upstream req of
                   None \<Rightarrow> writeDashboardUnavailableHTML 502 ''live worker dashboard is currently unreachable''
                 | Some a \<Rightarrow> DashboardProxied req a))"

definition ProxyDashboard ::
  "json_lib \<Rightarrow> url_lib \<Rightarrow> (worker \<Rightarrow> k6_status http_reply) \<Rightarrow> (proxy_request \<Rightarrow> 'a option) \<Rightarrow> orch \<Rightarrow> dashboard_request \<Rightarrow> 'a dashboard_reply" where
  "ProxyDashboard lib ul reply upstream o1 r =
    (if dq_worker r = [] then writeDashboardUnavailableHTML 400 ''dashboard request is missing the worker name''
     else (case FindWorker (dq_worker r) o1 of
             None \<Rightarrow> writeDashboardUnavailableHTML 404 (''worker '' @ jl_quote lib (dq_worker r) @ '' is not configured'')
           | Some w \<Rightarrow>
              (let st = buildWorkerDashboardStatus (proxied_worker w (GetStatus w (reply w)) (o_activeTestID o1 \<noteq> [])) (o_activeTestID o1) (o_phase o1)
               in if ds_Availability st \<noteq> ''available'' then writeDashboardUnavailableHTML 503 (ds_Message st)
                  else (case ul_parse ul (DashboardURL w) of
                          None \<Rightarrow> writeDashboardUnavailableHTML 502 ''dashboard target URL is invalid''
                        | Some target \<Rightarrow> forward target upstream r))))"

subsection \<open>Properties\<close>

text \<open>The handler and the orchestrator name the state of a worker in the same way.\<close>

lemma runtime_status_eq: "workerDashboardRuntimeStatus (Some s) testActive = workerDisplayStatus s testActive"
  by (simp add: workerDashboardRuntimeStatus_def workerDisplayStatus_def)

lemma proxied_worker_eq: "proxied_worker w r testActive = buildWorkerMetricsFromWorker w r testActive"
  by (simp add: proxied_worker_def buildWorkerMetricsFromWorker_def runtime_status_eq Let_def split: sum.split)

lemma display_reachable: "workerDisplayStatus s testActive \<noteq> ''unreachable''"
  by (simp add: workerDisplayStatus_def)

lemma available_iff:
  "fst (availability_message (buildWorkerMetricsFromWorker w r testActive) activeTestID) = ''available'' \<longleftrightarrow>
    w_DashboardEnabled w \<and> \<not> is_err r \<and> activeTestID \<noteq> []"
  using display_reachable by (cases r) (auto simp: availability_message_def buildWorkerMetricsFromWorker_def Let_def)

definition listed :: "(nat \<Rightarrow> k6_status http_reply) \<Rightarrow> orch \<Rightarrow> worker_dashboard_status list" where
  "listed replies o1 = (case ListDashboards replies o1 of HttpJson _ (ds, _) \<Rightarrow> ds | HttpError _ _ \<Rightarrow> [])"

lemma listed_nth:
  assumes "i < length (o_workers o1)"
  shows "listed replies o1 ! i =
    buildWorkerDashboardStatus (buildWorkerMetricsFromWorker (o_workers o1 ! i) (GetStatus (o_workers o1 ! i) (replies i)) (o_activeTestID o1 \<noteq> []))
      (o_activeTestID o1) (o_phase o1)"
  using assms by (simp add: listed_def ListDashboards_def CheckWorkers_def)

text \<open>
  C37. The proxy of a worker's dashboard and the list of dashboards agree: with the same reply of the worker, the request
  goes on to the worker exactly when the list calls the dashboard available, that is, when dashboards are enabled, the
  worker answers and a test is active, and otherwise it is answered with 503 and the message of the list. What goes on is
  sent to the host of the worker's dashboard and nowhere else.
\<close>

theorem dashboard_proxy_agrees_with_list:
  assumes "i < length (o_workers o1)" "dq_worker r \<noteq> []" "FindWorker (dq_worker r) o1 = Some (o_workers o1 ! i)"
    and "reply (o_workers o1 ! i) = replies i" "ul_parse ul (DashboardURL (o_workers o1 ! i)) = Some target"
  shows "ProxyDashboard lib ul reply upstream o1 r =
      (if ds_Availability (listed replies o1 ! i) = ''available'' then forward target upstream r
       else DashboardHTML 503 (unavailable_page (ds_Message (listed replies o1 ! i)))) \<and>
    (ds_Availability (listed replies o1 ! i) = ''available'' \<longleftrightarrow>
      w_DashboardEnabled (o_workers o1 ! i) \<and> IsReachable (o_workers o1 ! i) (replies i) \<and> o_activeTestID o1 \<noteq> []) \<and>
    (case ProxyDashboard lib ul reply upstream o1 r of
       DashboardProxied req a \<Rightarrow> pq_Scheme req = u_Scheme target \<and> pq_Host req = u_Host target \<and> upstream req = Some a
     | _ \<Rightarrow> True)"
proof -
  have p: "ProxyDashboard lib ul reply upstream o1 r =
      (if ds_Availability (listed replies o1 ! i) = ''available'' then forward target upstream r
       else DashboardHTML 503 (unavailable_page (ds_Message (listed replies o1 ! i))))"
    using assms(2-5)
    by (simp add: ProxyDashboard_def listed_nth [OF assms(1)] proxied_worker_eq writeDashboardUnavailableHTML_def Let_def)
  moreover have "ds_Availability (listed replies o1 ! i) = ''available'' \<longleftrightarrow>
      w_DashboardEnabled (o_workers o1 ! i) \<and> IsReachable (o_workers o1 ! i) (replies i) \<and> o_activeTestID o1 \<noteq> []"
    by (simp add: listed_nth [OF assms(1)] buildWorkerDashboardStatus_def available_iff IsReachable_def)
  moreover have "case forward target upstream r of
      DashboardProxied req a \<Rightarrow> pq_Scheme req = u_Scheme target \<and> pq_Host req = u_Host target \<and> upstream req = Some a | _ \<Rightarrow> True"
    by (simp add: forward_def writeDashboardUnavailableHTML_def Let_def split: option.split)
  ultimately show ?thesis by simp
qed

theorem dashboard_proxy_agrees_with_list_witness:
  "\<exists>s. ProxyDashboard \<lparr>jl_unmarshal = (\<lambda>_. Inl []), jl_num = (\<lambda>_. []), jl_numv = (\<lambda>_. []), jl_quote = (\<lambda>s. s)\<rparr> \<lparr>ul_parse = (\<lambda>_. Some \<lparr>u_Scheme = ''http'', u_Opaque = [], u_User = None, u_Host = ''w1:5665'', u_Path = [], u_RawQuery = [], u_Fragment = []\<rparr>), ul_string = (\<lambda>_. [])\<rparr>
     (\<lambda>_. Reply 200 [] (Inr s)) Some
     ((New_orch [''w1:6565''] second 0 \<lparr>dc_Enabled = True, dc_Host = [], dc_Port = 5665\<rparr>)\<lparr>o_activeTestID := ''t''\<rparr>)
     \<lparr>dq_worker = ''w1:6565'', dq_star = ''events'', dq_proxyPath = [], dq_Path = ''/api/admin/workers/w1:6565/dashboard/events'', dq_RawQuery = []\<rparr> =
   DashboardProxied \<lparr>pq_Scheme = ''http'', pq_Host = ''w1:5665'', pq_Path = ''/events'', pq_ownContext = True\<rparr>
     \<lparr>pq_Scheme = ''http'', pq_Host = ''w1:5665'', pq_Path = ''/events'', pq_ownContext = True\<rparr>"
  (is "\<exists>s. ProxyDashboard ?lib ?ul _ _ ?o ?r = _")
proof -
  fix s :: k6_status
  let ?t = "\<lparr>u_Scheme = ''http'', u_Opaque = [], u_User = None, u_Host = ''w1:5665'', u_Path = [], u_RawQuery = [], u_Fragment = []\<rparr>"
  have w: "o_workers (New_orch [''w1:6565''] second 0 \<lparr>dc_Enabled = True, dc_Host = [], dc_Port = 5665\<rparr>) = [NewWorker ''w1:6565'' True [] 5665]"
    by (simp add: New_orch_def)
  have f: "FindWorker (dq_worker ?r) ?o = Some (o_workers ?o ! 0)" by (simp add: FindWorker_def w NewWorker_def)
  have "ProxyDashboard ?lib ?ul (\<lambda>_. Reply 200 [] (Inr s)) Some ?o ?r = forward ?t Some ?r"
    using dashboard_proxy_agrees_with_list [OF _ _ f, of "\<lambda>_. Reply 200 [] (Inr s)" "\<lambda>_. Reply 200 [] (Inr s)" ?ul ?t ?lib Some]
    by (simp add: w NewWorker_def IsReachable_def)
  then show ?thesis
    by (intro exI [of _ s]) (simp add: forward_def own_context_def has_suffix_def has_prefix_def joinProxyPath_def Let_def)
qed

subsection \<open>The page\<close>

definition is_markup :: "char \<Rightarrow> bool" where
  "is_markup c \<longleftrightarrow> c \<in> {CHR ''<'', CHR ''>'', CHR 0x22, CHR 0x27}"

lemma escape_no_markup: "filter is_markup (EscapeString s) = []"
  by (induction s) (auto simp: EscapeString_def escape_char_def is_markup_def)

text \<open>The characters that a reader of the page gets back for the references that the escaping writes.\<close>

definition references :: "(string \<times> char) list" where
  "references = [(''&lt;'', CHR ''<''), (''&gt;'', CHR ''>''), (''&amp;'', CHR ''&''), (''&#39;'', CHR 0x27), (''&#34;'', CHR 0x22)]"

fun unescape :: "string \<Rightarrow> string" where
  "unescape [] = []"
| "unescape (c # s) =
    (case find (\<lambda>(ref, d). has_prefix (c # s) ref) references of
       Some (ref, d) \<Rightarrow> d # unescape (drop (length ref - 1) s)
     | None \<Rightarrow> c # unescape s)"

lemma unescape_escape: "unescape (EscapeString s) = s"
proof (induction s)
  case (Cons c s)
  have "unescape (escape_char c @ t) = c # unescape t" for t
    by (simp add: escape_char_def references_def has_prefix_def)
  then show ?case using Cons by (simp add: EscapeString_def)
qed (simp add: EscapeString_def)


text \<open>
  Whatever a worker or a client puts into the message of the page of an unavailable dashboard, the page has the same
  markup: the angle brackets and quotes of the page are those of the page without a message, and its text shows the message.
\<close>

theorem dashboard_page_keeps_markup:
  "filter is_markup (unavailable_page m) = filter is_markup (unavailable_page []) \<and>
   (\<exists>a b shown. unavailable_page m = a @ shown @ b \<and> unavailable_page [] = a @ b \<and> unescape shown = m)"
proof -
  let ?a = "concat (map (\<lambda>l. l @ [newline]) page_before) @ ''      <p>''"
    and ?b = "''</p>'' @ [newline] @ concat (map (\<lambda>l. l @ [newline]) page_after) @ ''</html>''"
  have "unavailable_page m = ?a @ EscapeString m @ ?b" "unavailable_page [] = ?a @ ?b"
    by (simp_all add: unavailable_page_def EscapeString_def)
  then show ?thesis using unescape_escape [of m] by (simp only: filter_append escape_no_markup append_Nil) blast
qed

text \<open>An open stream ends with the first tick after the test has ended or its phase is over.\<close>

lemma stream_ends:
  "\<not> shouldKeepDashboardStreamOpen activeTestID phase \<Longrightarrow> watch_stream (es @ [WatchTick activeTestID phase]) \<noteq> None"
  by (induction es rule: watch_stream.induct) auto

end
