(* ===== verification/Dummy.thy ===== *)
theory Dummy
  imports Http
begin

text \<open>
  The target of the tests, \<^verbatim>\<open>dummy-service/main.go\<close>: a service that answers with the status, the delay and the failures that a
  request asks for.

  A request carries its query as text; the values of its parameters are parsed as \<^verbatim>\<open>net/url\<close> does. What the service writes
  goes to the response writer of \<^verbatim>\<open>net/http\<close> or to the recorder of the middleware around it. The state holds the counters of the
  process; a vector of counters with labels is the multiset of its increments, and \<open>dx_sleeps\<close> lists how long the handlers
  slept. Histograms and log lines are left out. HMAC, base64, the JSON of the claims, \<^verbatim>\<open>%q\<close>, \<^verbatim>\<open>%.2f\<close> and \<^verbatim>\<open>ParseFloat\<close> are fields of
  \<open>dummy_lib\<close>.
\<close>

subsection \<open>Libraries and requests\<close>

record jwt_claims =
  jc_Iss :: string
  jc_Sub :: string
  jc_Aud :: string
  jc_Iat :: int
  jc_Nbf :: int
  jc_Exp :: int

record dummy_lib =
  dl_hmac :: "string \<Rightarrow> string \<Rightarrow> string"
  dl_b64url :: "string \<Rightarrow> string"
  dl_b64url_dec :: "string \<Rightarrow> string option"
  dl_b64std_dec :: "string \<Rightarrow> string option"
  dl_header :: string
  dl_marshal :: "jwt_claims \<Rightarrow> string"
  dl_unmarshal :: "string \<Rightarrow> jwt_claims option"
  dl_quote :: "string \<Rightarrow> string"
  dl_fixed2 :: "f64 \<Rightarrow> string"
  dl_parseFloat :: "string \<Rightarrow> f64 option"

text \<open>
  A body delivers a number of bytes and then ends or fails. \<open>rq_form\<close> is the text of a body that holds a form, \<open>None\<close> when the
  request has none, or the error of reading it. \<open>rq_Pattern\<close> is set when a route has been found.
\<close>

record request =
  rq_Method :: string
  rq_Path :: string
  rq_segments :: "string list"
  rq_RawQuery :: string
  rq_Authorization :: string
  rq_form :: "string option res"
  rq_body :: "(nat \<times> string option) option"
  rq_now :: time
  rq_until :: time
  rq_leaves :: "duration option"
  rq_Pattern :: string
  rq_pathValue :: string

subsection \<open>Queries\<close>

definition hex_value :: "char \<Rightarrow> nat option" where
  "hex_value c =
    (let n = of_char c :: nat
     in if 48 \<le> n \<and> n \<le> 57 then Some (n - 48) else if 97 \<le> n \<and> n \<le> 102 then Some (n - 87) else if 65 \<le> n \<and> n \<le> 70 then Some (n - 55) else None)"

definition is_hex :: "char \<Rightarrow> bool" where
  "is_hex c \<longleftrightarrow> hex_value c \<noteq> None"

fun query_unescape :: "string \<Rightarrow> string res" where
  "query_unescape [] = Inr []"
| "query_unescape (c # s) =
    (if c = CHR ''%''
     then (if 2 \<le> length s \<and> is_hex (s ! 0) \<and> is_hex (s ! 1)
           then map_sum id (Cons (char_of (the (hex_value (s ! 0)) * 16 + the (hex_value (s ! 1))))) (query_unescape (drop 2 s))
           else Inl (take 3 (c # s)))
     else map_sum id (Cons (if c = CHR ''+'' then CHR '' '' else c)) (query_unescape s))"

text \<open>\<^verbatim>\<open>strings.Cut\<close> at a character.\<close>

definition cut :: "char \<Rightarrow> string \<Rightarrow> string \<times> string" where
  "cut sep s = (takeWhile (\<lambda>c. c \<noteq> sep) s, tl (dropWhile (\<lambda>c. c \<noteq> sep) s))"

type_synonym url_values = "(string \<times> string) list"

definition add_error :: "(string \<Rightarrow> string) \<Rightarrow> string \<Rightarrow> string option \<Rightarrow> string option" where
  "add_error qt bad err = (case err of None \<Rightarrow> Some (''invalid URL escape '' @ qt bad) | Some e \<Rightarrow> Some e)"

definition parse_pair :: "(string \<Rightarrow> string) \<Rightarrow> string \<Rightarrow> url_values \<times> string option \<Rightarrow> url_values \<times> string option" where
  "parse_pair qt p acc =
    (case acc of (m, err) \<Rightarrow>
      if CHR '';'' \<in> set p then (m, Some ''invalid semicolon separator in query'')
      else if p = [] then (m, err)
      else (case query_unescape (fst (cut (CHR ''='') p)) of
              Inl bad \<Rightarrow> (m, add_error qt bad err)
            | Inr k \<Rightarrow>
               (case query_unescape (snd (cut (CHR ''='') p)) of
                  Inl bad \<Rightarrow> (m, add_error qt bad err)
                | Inr v \<Rightarrow> (m @ [(k, v)], err))))"

definition parse_query :: "(string \<Rightarrow> string) \<Rightarrow> string \<Rightarrow> url_values \<times> string option" where
  "parse_query qt s = fold (parse_pair qt) (split_char (CHR ''&'') s) ([], None)"

text \<open>The first value of a key, or the empty text.\<close>

definition values_get :: "url_values \<Rightarrow> string \<Rightarrow> string" where
  "values_get m k = (case map_of m k of None \<Rightarrow> [] | Some v \<Rightarrow> v)"

text \<open>\<^verbatim>\<open>r.URL.Query().Get(key)\<close>; the errors of the query are dropped.\<close>

definition query_get :: "request \<Rightarrow> string \<Rightarrow> string" where
  "query_get r k = values_get (fst (parse_query id (rq_RawQuery r))) k"

text \<open>
  \<^verbatim>\<open>ParseForm\<close>: the values of the body, if the method may have one, come before those of the query; the first error is
  reported.
\<close>

definition parse_form :: "dummy_lib \<Rightarrow> request \<Rightarrow> url_values \<times> string option" where
  "parse_form lib r =
    (let q = parse_query (dl_quote lib) (rq_RawQuery r);
         b = (if rq_Method r \<in> {''POST'', ''PUT'', ''PATCH''}
              then (case rq_form r of Inl e \<Rightarrow> ([], Some e) | Inr None \<Rightarrow> ([], None) | Inr (Some txt) \<Rightarrow> parse_query (dl_quote lib) txt)
              else ([], None))
     in (fst b @ fst q, case snd b of Some e \<Rightarrow> Some e | None \<Rightarrow> snd q))"

subsection \<open>Responses\<close>

datatype chunk = JsonChunk json | TextChunk string

record http_writer =
  hw_Method :: string
  hw_info :: "int list"
  hw_status :: "int option"
  hw_header :: "(string \<times> string) list"
  hw_body :: "chunk list"

text \<open>
  The writer of \<^verbatim>\<open>net/http\<close>: a code below 200 other than 101 is sent as an informational response and leaves the final status
  open; the first write sets it to 200; some statuses and the method \<^verbatim>\<open>HEAD\<close> have no body. The codes here are between 100 and
  999; for others \<^verbatim>\<open>WriteHeader\<close> panics.
\<close>

definition net_WriteHeader :: "int \<Rightarrow> http_writer \<Rightarrow> http_writer" where
  "net_WriteHeader code w =
    (if hw_status w \<noteq> None then w
     else if 100 \<le> code \<and> code \<le> 199 \<and> code \<noteq> 101 then w\<lparr>hw_info := hw_info w @ [code]\<rparr>
     else w\<lparr>hw_status := Some code\<rparr>)"

definition body_allowed :: "int \<Rightarrow> bool" where
  "body_allowed code \<longleftrightarrow> \<not> (100 \<le> code \<and> code \<le> 199) \<and> code \<noteq> 204 \<and> code \<noteq> 304"

definition net_Write :: "chunk \<Rightarrow> http_writer \<Rightarrow> http_writer" where
  "net_Write c w =
    (let w1 = (if hw_status w = None then net_WriteHeader 200 w else w)
     in if hw_Method w1 \<noteq> ''HEAD'' \<and> body_allowed (the (hw_status w1)) then w1\<lparr>hw_body := hw_body w1 @ [c]\<rparr> else w1)"

definition sent_status :: "http_writer \<Rightarrow> int" where
  "sent_status w = (case hw_status w of None \<Rightarrow> 200 | Some code \<Rightarrow> code)"

record responseRecorder =
  rr_ResponseWriter :: http_writer
  rr_status :: int
  rr_wroteHeader :: bool

datatype response_writer = Raw http_writer | Recorded responseRecorder

definition rec_WriteHeader :: "int \<Rightarrow> responseRecorder \<Rightarrow> responseRecorder" where
  "rec_WriteHeader code rw =
    (if rr_wroteHeader rw then rw
     else rw\<lparr>rr_status := code, rr_wroteHeader := True, rr_ResponseWriter := net_WriteHeader code (rr_ResponseWriter rw)\<rparr>)"

definition rec_Write :: "chunk \<Rightarrow> responseRecorder \<Rightarrow> responseRecorder" where
  "rec_Write c rw =
    (let rw1 = (if \<not> rr_wroteHeader rw then rec_WriteHeader 200 rw else rw)
     in rw1\<lparr>rr_ResponseWriter := net_Write c (rr_ResponseWriter rw1)\<rparr>)"

fun WriteHeader :: "int \<Rightarrow> response_writer \<Rightarrow> response_writer" where
  "WriteHeader code (Raw w) = Raw (net_WriteHeader code w)"
| "WriteHeader code (Recorded rw) = Recorded (rec_WriteHeader code rw)"

fun Write :: "chunk \<Rightarrow> response_writer \<Rightarrow> response_writer" where
  "Write c (Raw w) = Raw (net_Write c w)"
| "Write c (Recorded rw) = Recorded (rec_Write c rw)"

definition net_Set :: "string \<Rightarrow> string \<Rightarrow> http_writer \<Rightarrow> http_writer" where
  "net_Set k v w = w\<lparr>hw_header := (k, v) # hw_header w\<rparr>"

fun set_header :: "string \<Rightarrow> string \<Rightarrow> response_writer \<Rightarrow> response_writer" where
  "set_header k v (Raw w) = Raw (net_Set k v w)"
| "set_header k v (Recorded rw) = Recorded (rw\<lparr>rr_ResponseWriter := net_Set k v (rr_ResponseWriter rw)\<rparr>)"

text \<open>
  Whether \<^verbatim>\<open>w.(http.Flusher)\<close> succeeds: the writer of \<^verbatim>\<open>net/http\<close> has the method; the recorder has the methods of the embedded
  interface \<^verbatim>\<open>http.ResponseWriter\<close> and its own, and \<^verbatim>\<open>Flush\<close> is none of them.
\<close>

fun is_flusher :: "response_writer \<Rightarrow> bool" where
  "is_flusher (Raw w) = True"
| "is_flusher (Recorded rw) = False"

fun net_of :: "response_writer \<Rightarrow> http_writer" where
  "net_of (Raw w) = w"
| "net_of (Recorded rw) = rr_ResponseWriter rw"

definition writeJSON :: "int \<Rightarrow> json \<Rightarrow> response_writer \<Rightarrow> response_writer" where
  "writeJSON status data w = Write (JsonChunk data) (WriteHeader status (set_header ''Content-Type'' ''application/json'' w))"

subsection \<open>Configuration\<close>

record dummy_config =
  du_Port :: string
  du_RequireAuth :: bool
  du_StrictRoutes :: bool
  du_DefaultStatusCode :: int
  du_DefaultErrorRate :: f64
  du_MinLatency :: duration
  du_MaxLatency :: duration
  du_SSEInterval :: duration
  du_ReadHeaderTimeout :: duration
  du_LogEveryNRequests :: int
  du_EnableRequestLogging :: bool
  du_AuthClientID :: string
  du_AuthClientSecret :: string
  du_AuthJWTSecret :: string
  du_AuthIssuer :: string
  du_AuthTokenTTL :: duration
  du_AuthTokenDelay :: duration
  du_AuthTokenForceStatus :: int

definition clamp :: "f64 \<Rightarrow> f64 \<Rightarrow> f64 \<Rightarrow> f64" where
  "clamp v lo hi = (if flt v lo then lo else if flt hi v then hi else v)"

definition getEnv :: "(string \<Rightarrow> string) \<Rightarrow> string \<Rightarrow> string \<Rightarrow> string" where
  "getEnv env key fallback = (if trim_space (env key) = [] then fallback else trim_space (env key))"

text \<open>\<^verbatim>\<open>strconv.ParseBool\<close>.\<close>

definition parse_bool :: "string \<Rightarrow> bool option" where
  "parse_bool s =
    (if s \<in> {''1'', ''t'', ''T'', ''true'', ''TRUE'', ''True''} then Some True
     else if s \<in> {''0'', ''f'', ''F'', ''false'', ''FALSE'', ''False''} then Some False
     else None)"

definition getEnvBool :: "(string \<Rightarrow> string) \<Rightarrow> string \<Rightarrow> bool \<Rightarrow> bool" where
  "getEnvBool env key fallback =
    (let raw = trim_space (env key)
     in if raw = [] then fallback else (case parse_bool raw of None \<Rightarrow> fallback | Some v \<Rightarrow> v))"

definition getEnvInt :: "(string \<Rightarrow> string) \<Rightarrow> string \<Rightarrow> int \<Rightarrow> int" where
  "getEnvInt env key fallback =
    (let raw = trim_space (env key)
     in if raw = [] then fallback else (case atoi raw of None \<Rightarrow> fallback | Some v \<Rightarrow> v))"

definition getEnvFloat :: "dummy_lib \<Rightarrow> (string \<Rightarrow> string) \<Rightarrow> string \<Rightarrow> f64 \<Rightarrow> f64" where
  "getEnvFloat lib env key fallback =
    (let raw = trim_space (env key)
     in if raw = [] then fallback else (case dl_parseFloat lib raw of None \<Rightarrow> fallback | Some v \<Rightarrow> v))"

definition millis :: "int \<Rightarrow> duration" where
  "millis ms = wrap64 (ms * 1000000)"

definition at_least :: "int \<Rightarrow> int \<Rightarrow> int \<Rightarrow> int" where
  "at_least low fallback n = (if n < low then fallback else n)"

definition loadConfig :: "dummy_lib \<Rightarrow> (string \<Rightarrow> string) \<Rightarrow> dummy_config" where
  "loadConfig lib env =
    (let minLatencyMs = getEnvInt env ''MIN_LATENCY_MS'' 0;
         maxLatencyMs = at_least minLatencyMs minLatencyMs (getEnvInt env ''MAX_LATENCY_MS'' 0)
     in \<lparr>du_Port = getEnv env ''PORT'' ''8090'',
         du_RequireAuth = getEnvBool env ''REQUIRE_AUTH'' False,
         du_StrictRoutes = getEnvBool env ''STRICT_ROUTES'' False,
         du_DefaultStatusCode = getEnvInt env ''DEFAULT_STATUS_CODE'' 200,
         du_DefaultErrorRate = clamp (getEnvFloat lib env ''DEFAULT_ERROR_RATE'' f0) f0 (Fin 1),
         du_MinLatency = millis minLatencyMs,
         du_MaxLatency = millis maxLatencyMs,
         du_SSEInterval = millis (at_least 1 1000 (getEnvInt env ''SSE_INTERVAL_MS'' 1000)),
         du_ReadHeaderTimeout = millis (at_least 1 5000 (getEnvInt env ''READ_HEADER_TIMEOUT_MS'' 5000)),
         du_LogEveryNRequests = at_least 1 1000 (getEnvInt env ''LOG_EVERY_N_REQUESTS'' 1000),
         du_EnableRequestLogging = getEnvBool env ''ENABLE_REQUEST_LOGGING'' False,
         du_AuthClientID = getEnv env ''AUTH_CLIENT_ID'' ''dummy-client'',
         du_AuthClientSecret = getEnv env ''AUTH_CLIENT_SECRET'' ''dummy-secret'',
         du_AuthJWTSecret = getEnv env ''AUTH_JWT_SECRET'' ''dummy-jwt-secret'',
         du_AuthIssuer = getEnv env ''AUTH_ISSUER'' ''dummy-service'',
         du_AuthTokenTTL = wrap64 (at_least 5 5 (getEnvInt env ''AUTH_TOKEN_EXPIRES_SECONDS'' 300) * second),
         du_AuthTokenDelay = millis (at_least 0 0 (getEnvInt env ''AUTH_TOKEN_DELAY_MS'' 0)),
         du_AuthTokenForceStatus = getEnvInt env ''AUTH_TOKEN_FORCE_STATUS_CODE'' 0\<rparr>)"

subsection \<open>State\<close>

record dummy_state =
  dx_requestsStarted :: int
  dx_requestsCompleted :: int
  dx_activeRequests :: int
  dx_activeSSE :: int
  dx_userIDCounter :: int
  dx_orderIDCounter :: int
  dx_httpRequestsTotal :: "(string \<times> string) multiset"
  dx_httpResponsesTotal :: "(string \<times> string \<times> string) multiset"
  dx_httpActiveRequests :: int
  dx_sseActiveConnections :: int
  dx_sseEventsTotal :: nat
  dx_authTokenRequests :: "string multiset"
  dx_authValidationFailures :: "string multiset"
  dx_sleeps :: "duration list"

definition initial_state :: dummy_state where
  "initial_state =
    \<lparr>dx_requestsStarted = 0, dx_requestsCompleted = 0, dx_activeRequests = 0, dx_activeSSE = 0,
     dx_userIDCounter = 1000, dx_orderIDCounter = 1000, dx_httpRequestsTotal = {#}, dx_httpResponsesTotal = {#},
     dx_httpActiveRequests = 0, dx_sseActiveConnections = 0, dx_sseEventsTotal = 0, dx_authTokenRequests = {#},
     dx_authValidationFailures = {#}, dx_sleeps = []\<rparr>"

type_synonym served = "response_writer \<times> dummy_state"

definition answer :: "int \<Rightarrow> json \<Rightarrow> served \<Rightarrow> served" where
  "answer status data ws = (writeJSON status data (fst ws), snd ws)"

definition on_state :: "(dummy_state \<Rightarrow> dummy_state) \<Rightarrow> served \<Rightarrow> served" where
  "on_state f ws = (fst ws, f (snd ws))"

definition json_int :: "int \<Rightarrow> json" where
  "json_int n = JNum (f64_of_int n)"

definition sleep :: "duration \<Rightarrow> dummy_state \<Rightarrow> dummy_state" where
  "sleep d s = (if 0 < d then s\<lparr>dx_sleeps := dx_sleeps s @ [d]\<rparr> else s)"

subsection \<open>What a request asks for\<close>

definition nonneg_ms :: "string \<Rightarrow> duration \<Rightarrow> duration" where
  "nonneg_ms raw d =
    (if raw \<noteq> [] then (case atoi raw of Some ms \<Rightarrow> if 0 \<le> ms then millis ms else d | None \<Rightarrow> d) else d)"

definition effectiveDelay :: "dummy_config \<Rightarrow> request \<Rightarrow> duration" where
  "effectiveDelay cfg r =
    (let lo = nonneg_ms (query_get r ''min_delay_ms'') (du_MinLatency cfg);
         hi0 = nonneg_ms (query_get r ''max_delay_ms'') (du_MaxLatency cfg);
         hi = (if hi0 < lo then lo else hi0);
         mid = (if lo = hi then lo else wrap64 (lo + quot (wrap64 (hi - lo)) 2))
     in if query_get r ''delay_ms'' \<noteq> []
        then (case atoi (query_get r ''delay_ms'') of Some ms \<Rightarrow> if 0 \<le> ms then millis ms else mid | None \<Rightarrow> mid)
        else mid)"

definition delayIfNeeded :: "dummy_config \<Rightarrow> request \<Rightarrow> dummy_state \<Rightarrow> dummy_state" where
  "delayIfNeeded cfg r = sleep (effectiveDelay cfg r)"

definition delayTokenIfNeeded :: "dummy_config \<Rightarrow> request \<Rightarrow> dummy_state \<Rightarrow> dummy_state" where
  "delayTokenIfNeeded cfg r s =
    (if query_get r ''delay_ms'' \<noteq> [] then delayIfNeeded cfg r s
     else if 0 < du_AuthTokenDelay cfg then sleep (du_AuthTokenDelay cfg) s
     else delayIfNeeded cfg r s)"

definition effectiveStatusCode :: "dummy_config \<Rightarrow> request \<Rightarrow> int \<Rightarrow> int" where
  "effectiveStatusCode cfg r fallback =
    (let default = (if 100 \<le> du_DefaultStatusCode cfg \<and> du_DefaultStatusCode cfg \<le> 999 then du_DefaultStatusCode cfg else fallback)
     in if query_get r ''status'' \<noteq> []
        then (case atoi (query_get r ''status'') of Some code \<Rightarrow> if 100 \<le> code \<and> code \<le> 999 then code else default | None \<Rightarrow> default)
        else default)"

text \<open>The hash is computed in \<^verbatim>\<open>uint64\<close>.\<close>

definition deterministicProbability :: "string \<Rightarrow> f64" where
  "deterministicProbability input =
    fdiv (f64_of_int (fold (\<lambda>c sum. (sum * 131 + of_char c) mod 2 ^ 64) input 0 mod 10000)) (f64_of_int 10000)"

definition error_rate_fails :: "dummy_lib \<Rightarrow> dummy_config \<Rightarrow> request \<Rightarrow> bool" where
  "error_rate_fails lib cfg r =
    (let raw = query_get r ''error_rate'';
         errorRate = (if raw \<noteq> [] then (case dl_parseFloat lib raw of Some v \<Rightarrow> clamp v f0 (Fin 1) | None \<Rightarrow> du_DefaultErrorRate cfg)
                      else du_DefaultErrorRate cfg)
     in if fle errorRate f0 then False
        else if fle (Fin 1) errorRate then True
        else flt (deterministicProbability (rq_Method r @ ''|'' @ rq_Path r @ ''|'' @ rq_RawQuery r)) errorRate)"

definition shouldFail :: "dummy_lib \<Rightarrow> dummy_config \<Rightarrow> request \<Rightarrow> bool" where
  "shouldFail lib cfg r =
    (let flag = to_lower (trim_space (query_get r ''fail''))
     in if query_get r ''fail'' \<noteq> [] \<and> flag \<in> {''1'', ''true'', ''yes'', ''y'', ''on''} then True
        else if query_get r ''fail'' \<noteq> [] \<and> flag \<in> {''0'', ''false'', ''no'', ''n'', ''off''} then False
        else error_rate_fails lib cfg r)"

definition effectiveTokenFailureStatus :: "dummy_lib \<Rightarrow> dummy_config \<Rightarrow> request \<Rightarrow> int" where
  "effectiveTokenFailureStatus lib cfg r =
    (let forced = (if 500 \<le> du_AuthTokenForceStatus cfg \<and> du_AuthTokenForceStatus cfg \<le> 599 then du_AuthTokenForceStatus cfg else 0);
         rest = (if query_get r ''fail'' \<noteq> [] \<and> shouldFail lib cfg r then effectiveStatusCode cfg r 503 else forced)
     in if query_get r ''status'' \<noteq> []
        then (case atoi (query_get r ''status'') of Some code \<Rightarrow> if 500 \<le> code \<and> code \<le> 599 then code else rest | None \<Rightarrow> rest)
        else rest)"

definition respondIfFailureInjected :: "dummy_lib \<Rightarrow> dummy_config \<Rightarrow> request \<Rightarrow> served \<Rightarrow> bool \<times> served" where
  "respondIfFailureInjected lib cfg r ws =
    (if \<not> shouldFail lib cfg r then (False, ws)
     else (True, answer (effectiveStatusCode cfg r 503)
             (JObj [(''status'', JStr ''error''), (''method'', JStr (rq_Method r)), (''path'', JStr (rq_Path r)), (''message'', JStr ''simulated failure'')]) ws))"

definition maxCatchAllBodyBytes :: nat where
  "maxCatchAllBodyBytes = 16777216"

definition consumeRequestBody :: "request \<Rightarrow> nat \<Rightarrow> nat res" where
  "consumeRequestBody r maxBytes =
    (case rq_body r of
       None \<Rightarrow> Inr 0
     | Some (n, err) \<Rightarrow>
        (let readBytes = min n (maxBytes + 1)
         in case (if n < maxBytes + 1 then err else None) of
              Some e \<Rightarrow> Inl (''failed to read request body: '' @ e)
            | None \<Rightarrow> if maxBytes < readBytes then Inl (''request body exceeds '' @ itoa (int maxBytes) @ '' bytes'') else Inr readBytes))"

definition body_error_status :: "string \<Rightarrow> int" where
  "body_error_status e = (if contains e ''exceeds'' then 413 else 400)"

subsection \<open>Tokens\<close>

definition signJWT :: "dummy_lib \<Rightarrow> dummy_config \<Rightarrow> string \<Rightarrow> string" where
  "signJWT lib cfg signingInput = dl_b64url lib (dl_hmac lib (du_AuthJWTSecret cfg) signingInput)"

text \<open>\<^verbatim>\<open>json.Marshal\<close> of the header and of the claims does not fail. \<open>dl_header\<close> is the text of the header.\<close>

definition dummy_claims :: "dummy_config \<Rightarrow> string \<Rightarrow> time \<Rightarrow> jwt_claims" where
  "dummy_claims cfg subject now =
    \<lparr>jc_Iss = du_AuthIssuer cfg, jc_Sub = subject, jc_Aud = [], jc_Iat = unix_sec now, jc_Nbf = unix_sec now,
     jc_Exp = unix_sec (now + du_AuthTokenTTL cfg)\<rparr>"

definition issueDummyJWT :: "dummy_lib \<Rightarrow> dummy_config \<Rightarrow> string \<Rightarrow> time \<Rightarrow> string \<times> time" where
  "issueDummyJWT lib cfg subject now =
    (let signingInput = dl_b64url lib (dl_header lib) @ ''.'' @ dl_b64url lib (dl_marshal lib (dummy_claims cfg subject now))
     in (signingInput @ ''.'' @ signJWT lib cfg signingInput, now + du_AuthTokenTTL cfg))"

definition check_claims :: "jwt_claims \<Rightarrow> time \<Rightarrow> jwt_claims res" where
  "check_claims claims now =
    (if jc_Exp claims = 0 then Inl ''Bearer token missing exp''
     else if jc_Exp claims \<le> unix_sec now then Inl ''Bearer token expired''
     else if 0 < jc_Nbf claims \<and> unix_sec now < jc_Nbf claims then Inl ''Bearer token not valid yet''
     else Inr claims)"

definition parseAndValidateDummyJWT :: "dummy_lib \<Rightarrow> dummy_config \<Rightarrow> string \<Rightarrow> time \<Rightarrow> jwt_claims res" where
  "parseAndValidateDummyJWT lib cfg token now =
    (case split_char (CHR ''.'') token of
       [p0, p1, p2] \<Rightarrow>
         (if p2 \<noteq> signJWT lib cfg (p0 @ ''.'' @ p1) then Inl ''invalid Bearer token signature''
          else (case dl_b64url_dec lib p1 of
                  None \<Rightarrow> Inl ''invalid Bearer token payload''
                | Some payload \<Rightarrow>
                   (case dl_unmarshal lib payload of
                      None \<Rightarrow> Inl ''invalid Bearer token claims''
                    | Some claims \<Rightarrow> check_claims claims now)))
     | _ \<Rightarrow> Inl ''invalid Bearer token'')"

text \<open>The error of a header, if any, with the label of the counter of failures.\<close>

definition validateBearerToken :: "dummy_lib \<Rightarrow> dummy_config \<Rightarrow> time \<Rightarrow> string \<Rightarrow> (string \<times> string) option" where
  "validateBearerToken lib cfg now header =
    (if header = [] then Some (''missing_header'', ''missing Authorization header'')
     else if \<not> has_prefix header ''Bearer '' then Some (''invalid_scheme'', ''Authorization header must use Bearer token'')
     else if trim_space (trim_prefix header ''Bearer '') = [] then Some (''empty_token'', ''Bearer token is empty'')
     else (case parseAndValidateDummyJWT lib cfg (trim_space (trim_prefix header ''Bearer '')) now of
             Inl e \<Rightarrow> Some (''invalid_token'', e)
           | Inr claims \<Rightarrow> if jc_Iss claims \<noteq> du_AuthIssuer cfg then Some (''invalid_issuer'', ''invalid token issuer'') else None))"

definition maybeRequireAuth :: "dummy_lib \<Rightarrow> dummy_config \<Rightarrow> request \<Rightarrow> dummy_state \<Rightarrow> string option \<times> dummy_state" where
  "maybeRequireAuth lib cfg r s =
    (if \<not> du_RequireAuth cfg then (None, s)
     else (case validateBearerToken lib cfg (rq_now r) (rq_Authorization r) of
             None \<Rightarrow> (None, s)
           | Some (reason, e) \<Rightarrow> (Some e, s\<lparr>dx_authValidationFailures := add_mset reason (dx_authValidationFailures s)\<rparr>)))"

definition extractBasicAuthCredentials :: "dummy_lib \<Rightarrow> string \<Rightarrow> (string \<times> string) option res" where
  "extractBasicAuthCredentials lib header =
    (if trim_space header = [] \<or> \<not> has_prefix header ''Basic '' then Inr None
     else (let raw = trim_space (trim_prefix header ''Basic '')
           in if raw = [] then Inl ''Basic authorization header is empty''
              else (case dl_b64std_dec lib raw of
                      None \<Rightarrow> Inl ''Basic authorization header is not valid base64''
                    | Some decoded \<Rightarrow>
                       (if CHR '':'' \<notin> set decoded then Inl ''Basic authorization header must contain client_id:client_secret''
                        else Inr (Some (trim_space (fst (cut (CHR '':'') decoded)), trim_space (snd (cut (CHR '':'') decoded))))))))"

definition form_or_query :: "url_values \<Rightarrow> request \<Rightarrow> string \<Rightarrow> string" where
  "form_or_query form r k =
    (if trim_space (values_get form k) = [] then trim_space (query_get r k) else trim_space (values_get form k))"

definition extractTokenRequestCredentials :: "dummy_lib \<Rightarrow> request \<Rightarrow> (string \<times> string \<times> string) res" where
  "extractTokenRequestCredentials lib r =
    (case extractBasicAuthCredentials lib (rq_Authorization r) of
       Inl e \<Rightarrow> Inl e
     | Inr basic \<Rightarrow>
        (case parse_form lib r of
           (form, Some e) \<Rightarrow> Inl (''failed to parse token request: '' @ e)
         | (form, None) \<Rightarrow>
            (let g = form_or_query form r ''grant_type'';
                 grantType = (if g = [] then ''client_credentials'' else g);
                 (clientID, clientSecret) =
                   (case basic of Some c \<Rightarrow> c | None \<Rightarrow> (form_or_query form r ''client_id'', form_or_query form r ''client_secret''))
             in if clientID = [] \<or> clientSecret = [] then Inl ''client_id and client_secret are required''
                else Inr (clientID, clientSecret, grantType))))"

text \<open>\<^verbatim>\<open>int(d.Seconds())\<close>.\<close>

definition duration_seconds :: "duration \<Rightarrow> f64" where
  "duration_seconds d = fadd (f64_of_int (quot d second)) (fdiv (f64_of_int (rem d second)) (f64_of_int second))"

definition oauth_error :: "string \<Rightarrow> string \<Rightarrow> json" where
  "oauth_error e d = JObj [(''error'', JStr e), (''error_description'', JStr d)]"

definition token_result :: "string \<Rightarrow> dummy_state \<Rightarrow> dummy_state" where
  "token_result res s = s\<lparr>dx_authTokenRequests := add_mset res (dx_authTokenRequests s)\<rparr>"

definition handleToken :: "dummy_lib \<Rightarrow> dummy_config \<Rightarrow> request \<Rightarrow> served \<Rightarrow> served" where
  "handleToken lib cfg r ws0 =
    (let ws = on_state (delayTokenIfNeeded cfg r) ws0; status = effectiveTokenFailureStatus lib cfg r
     in if 0 < status
        then on_state (token_result ''forced_failure'') (answer status (oauth_error ''server_error'' ''dummy token endpoint forced failure'') ws)
        else (case extractTokenRequestCredentials lib r of
                Inl e \<Rightarrow> on_state (token_result ''invalid_request'') (answer 400 (oauth_error ''invalid_request'' e) ws)
              | Inr (clientID, clientSecret, grantType) \<Rightarrow>
                 (if grantType \<noteq> ''client_credentials''
                  then on_state (token_result ''unsupported_grant_type'')
                    (answer 400 (oauth_error ''unsupported_grant_type'' ''grant_type must be client_credentials'') ws)
                  else if clientID \<noteq> du_AuthClientID cfg \<or> clientSecret \<noteq> du_AuthClientSecret cfg
                  then on_state (token_result ''invalid_client'') (answer 401 (oauth_error ''invalid_client'' ''client credentials are invalid'') ws)
                  else (let (token, expiresAt) = issueDummyJWT lib cfg clientID (rq_now r)
                        in on_state (token_result ''success'')
                          (answer (effectiveStatusCode cfg r 200)
                            (JObj [(''access_token'', JStr token), (''token_type'', JStr ''Bearer''),
                                   (''expires_in'', json_int (int_of_f64 (duration_seconds (expiresAt - rq_until r))))]) ws)))))"

subsection \<open>Scenarios\<close>

definition intentionalTimeout :: duration where
  "intentionalTimeout = 45 * second"

definition handleIntentionalTimeout :: "request \<Rightarrow> dummy_state \<Rightarrow> dummy_state" where
  "handleIntentionalTimeout r =
    sleep (case rq_leaves r of Some d \<Rightarrow> if d < intentionalTimeout then d else intentionalTimeout | None \<Rightarrow> intentionalTimeout)"

definition scenario_code :: "string \<Rightarrow> int option" where
  "scenario_code scenario = (case atoi scenario of Some code \<Rightarrow> if code < 100 \<or> 599 < code then None else Some code | None \<Rightarrow> None)"

definition with_location :: "string \<Rightarrow> int \<Rightarrow> served \<Rightarrow> served" where
  "with_location loc code ws = (if 300 \<le> code \<and> code < 400 then (set_header ''Location'' loc (fst ws), snd ws) else ws)"

definition handleTokenScenario :: "request \<Rightarrow> served \<Rightarrow> served" where
  "handleTokenScenario r ws =
    (let scenario = trim_space (to_lower (rq_pathValue r))
     in if scenario = ''timeout'' then on_state (handleIntentionalTimeout r) ws
        else (case scenario_code scenario of
                None \<Rightarrow> answer 400 (oauth_error ''invalid_scenario'' ''scenario must be an HTTP status code or timeout'') ws
              | Some code \<Rightarrow>
                 answer code
                   (JObj [(''error'', JStr ''dummy_auth_scenario''), (''error_description'', JStr (''forced dummy auth response '' @ itoa code)),
                          (''scenario'', JStr scenario)])
                   (with_location ''/api/auth/token'' code ws)))"

subsection \<open>Handlers\<close>

definition error_json :: "string \<Rightarrow> json" where
  "error_json e = JObj [(''error'', JStr e)]"

text \<open>The guards that the REST handlers share: authentication, an injected failure, then the delay.\<close>

definition guarded :: "dummy_lib \<Rightarrow> dummy_config \<Rightarrow> request \<Rightarrow> (served \<Rightarrow> served) \<Rightarrow> served \<Rightarrow> served" where
  "guarded lib cfg r work ws =
    (case maybeRequireAuth lib cfg r (snd ws) of
       (Some e, s1) \<Rightarrow> answer 401 (error_json e) (fst ws, s1)
     | (None, s1) \<Rightarrow>
        (case respondIfFailureInjected lib cfg r (fst ws, s1) of
           (True, ws1) \<Rightarrow> ws1
         | (False, ws1) \<Rightarrow> work (on_state (delayIfNeeded cfg r) ws1)))"

definition with_body :: "request \<Rightarrow> (nat \<Rightarrow> served \<Rightarrow> served) \<Rightarrow> served \<Rightarrow> served" where
  "with_body r work ws =
    (case consumeRequestBody r maxCatchAllBodyBytes of
       Inl e \<Rightarrow> answer (body_error_status e) (error_json e) ws
     | Inr n \<Rightarrow> work n ws)"

definition handleHealth :: "served \<Rightarrow> served" where
  "handleHealth = answer 200 (JObj [(''status'', JStr ''healthy'')])"

definition handleStats :: "f64 \<Rightarrow> served \<Rightarrow> served" where
  "handleStats uptime ws =
    answer 200 (JObj [(''requests_started'', json_int (dx_requestsStarted (snd ws))), (''requests_completed'', json_int (dx_requestsCompleted (snd ws))),
      (''active_requests'', json_int (dx_activeRequests (snd ws))), (''active_sse'', json_int (dx_activeSSE (snd ws))), (''uptime_seconds'', JNum uptime)]) ws"

definition user_json :: "int \<Rightarrow> string \<Rightarrow> string \<Rightarrow> json" where
  "user_json i name email = JObj [(''id'', json_int i), (''name'', JStr name), (''email'', JStr email)]"

definition handleGetUsers :: "dummy_lib \<Rightarrow> dummy_config \<Rightarrow> request \<Rightarrow> served \<Rightarrow> served" where
  "handleGetUsers lib cfg r =
    guarded lib cfg r (answer (effectiveStatusCode cfg r 200)
      (JObj [(''users'', JArr [user_json 1 ''Alice'' ''alice@example.com'', user_json 2 ''Bob'' ''bob@example.com'', user_json 3 ''Charlie'' ''charlie@example.com'']),
             (''total'', json_int 3)]))"

definition handleGetUserByID :: "dummy_lib \<Rightarrow> dummy_config \<Rightarrow> request \<Rightarrow> served \<Rightarrow> served" where
  "handleGetUserByID lib cfg r =
    guarded lib cfg r (answer (effectiveStatusCode cfg r 200)
      (JObj [(''id'', JStr (rq_pathValue r)), (''name'', JStr (''User-'' @ rq_pathValue r)), (''email'', JStr (''user'' @ rq_pathValue r @ ''@example.com''))]))"

definition stored_json :: "json \<Rightarrow> string \<Rightarrow> nat \<Rightarrow> json" where
  "stored_json i st n = JObj [(''id'', i), (''status'', JStr st), (''request_body_bytes'', json_int (int n))]"

definition handleCreateUser :: "dummy_lib \<Rightarrow> dummy_config \<Rightarrow> request \<Rightarrow> served \<Rightarrow> served" where
  "handleCreateUser lib cfg r =
    guarded lib cfg r (with_body r (\<lambda>n ws.
      let i = wrap64 (dx_userIDCounter (snd ws) + 1)
      in answer (effectiveStatusCode cfg r 201) (stored_json (json_int i) ''created'' n) (on_state (\<lambda>s. s\<lparr>dx_userIDCounter := i\<rparr>) ws)))"

definition handleUpdateUser :: "dummy_lib \<Rightarrow> dummy_config \<Rightarrow> request \<Rightarrow> served \<Rightarrow> served" where
  "handleUpdateUser lib cfg r =
    guarded lib cfg r (with_body r (\<lambda>n. answer (effectiveStatusCode cfg r 200) (stored_json (JStr (rq_pathValue r)) ''updated'' n)))"

definition handleDeleteUser :: "dummy_lib \<Rightarrow> dummy_config \<Rightarrow> request \<Rightarrow> served \<Rightarrow> served" where
  "handleDeleteUser lib cfg r = guarded lib cfg r (answer (effectiveStatusCode cfg r 200) (JObj [(''status'', JStr ''deleted'')]))"

definition product_json :: "int \<Rightarrow> string \<Rightarrow> rat \<Rightarrow> json" where
  "product_json i name price = JObj [(''id'', json_int i), (''name'', JStr name), (''price'', JNum (mk_f64 price))]"

definition handleGetProducts :: "dummy_lib \<Rightarrow> dummy_config \<Rightarrow> request \<Rightarrow> served \<Rightarrow> served" where
  "handleGetProducts lib cfg r =
    guarded lib cfg r (answer (effectiveStatusCode cfg r 200)
      (JObj [(''products'', JArr [product_json 1 ''Widget'' (999 / 100), product_json 2 ''Gadget'' (2499 / 100), product_json 3 ''Doohickey'' (29 / 2)]),
             (''total'', json_int 3)]))"

definition order_json :: "int \<Rightarrow> int \<Rightarrow> rat \<Rightarrow> string \<Rightarrow> json" where
  "order_json i user price st = JObj [(''id'', json_int i), (''user_id'', json_int user), (''total'', JNum (mk_f64 price)), (''status'', JStr st)]"

definition handleGetOrders :: "dummy_lib \<Rightarrow> dummy_config \<Rightarrow> request \<Rightarrow> served \<Rightarrow> served" where
  "handleGetOrders lib cfg r =
    guarded lib cfg r (answer (effectiveStatusCode cfg r 200)
      (JObj [(''orders'', JArr [order_json 1001 1 (3498 / 100) ''shipped'', order_json 1002 2 (999 / 100) ''pending'']), (''total'', json_int 2)]))"

definition handleCreateOrder :: "dummy_lib \<Rightarrow> dummy_config \<Rightarrow> request \<Rightarrow> served \<Rightarrow> served" where
  "handleCreateOrder lib cfg r =
    guarded lib cfg r (with_body r (\<lambda>n ws.
      let i = wrap64 (dx_orderIDCounter (snd ws) + 1)
      in answer (effectiveStatusCode cfg r 201) (stored_json (json_int i) ''created'' n) (on_state (\<lambda>s. s\<lparr>dx_orderIDCounter := i\<rparr>) ws)))"

definition handleHTTPScenario :: "dummy_lib \<Rightarrow> dummy_config \<Rightarrow> request \<Rightarrow> served \<Rightarrow> served" where
  "handleHTTPScenario lib cfg r ws =
    (case maybeRequireAuth lib cfg r (snd ws) of
       (Some e, s1) \<Rightarrow> answer 401 (error_json e) (fst ws, s1)
     | (None, s1) \<Rightarrow>
        (let scenario = trim_space (to_lower (rq_pathValue r)); ws1 = (fst ws, s1)
         in if scenario = ''timeout'' then on_state (handleIntentionalTimeout r) ws1
            else (case scenario_code scenario of
                    None \<Rightarrow> answer 400 (JObj [(''status'', JStr ''error''), (''message'', JStr ''scenario must be an HTTP status code or timeout''), (''path'', JStr (rq_Path r))]) ws1
                  | Some code \<Rightarrow>
                     answer code
                       (JObj [(''status'', JStr ''scenario''), (''code'', json_int code), (''method'', JStr (rq_Method r)), (''path'', JStr (rq_Path r)),
                              (''scenario'', JStr scenario), (''message'', JStr (''forced dummy response '' @ itoa code))])
                       (with_location ''/api/products'' code ws1))))"

definition unguarded :: "dummy_lib \<Rightarrow> dummy_config \<Rightarrow> request \<Rightarrow> (served \<Rightarrow> served) \<Rightarrow> served \<Rightarrow> served" where
  "unguarded lib cfg r work ws =
    (case respondIfFailureInjected lib cfg r ws of (True, ws1) \<Rightarrow> ws1 | (False, ws1) \<Rightarrow> work (on_state (delayIfNeeded cfg r) ws1))"

definition route_json :: "request \<Rightarrow> string \<Rightarrow> string \<Rightarrow> json_obj" where
  "route_json r st msg = [(''status'', JStr st), (''method'', JStr (rq_Method r)), (''path'', JStr (rq_Path r)), (''message'', JStr msg)]"

definition handleCatchAllOK :: "dummy_lib \<Rightarrow> dummy_config \<Rightarrow> request \<Rightarrow> served \<Rightarrow> served" where
  "handleCatchAllOK lib cfg r =
    unguarded lib cfg r (\<lambda>ws.
      case consumeRequestBody r maxCatchAllBodyBytes of
        Inl e \<Rightarrow> answer (body_error_status e) (JObj (route_json r ''error'' e)) ws
      | Inr n \<Rightarrow> answer (effectiveStatusCode cfg r 200) (JObj (route_json r ''ok'' ''dummy response'' @ [(''request_body_bytes'', json_int (int n))])) ws)"

definition handleNotFound :: "dummy_lib \<Rightarrow> dummy_config \<Rightarrow> request \<Rightarrow> served \<Rightarrow> served" where
  "handleNotFound lib cfg r =
    unguarded lib cfg r (answer (effectiveStatusCode cfg r 404) (JObj (route_json r ''error'' ''route not found'')))"

subsection \<open>Server-sent events\<close>

definition getSSEInterval :: "dummy_config \<Rightarrow> request \<Rightarrow> duration" where
  "getSSEInterval cfg r =
    (if query_get r ''sse_interval_ms'' \<noteq> []
     then (case atoi (query_get r ''sse_interval_ms'') of Some ms \<Rightarrow> if 0 < ms then millis ms else du_SSEInterval cfg | None \<Rightarrow> du_SSEInterval cfg)
     else du_SSEInterval cfg)"

definition deterministicValue :: "int \<Rightarrow> f64" where
  "deterministicValue seq = fadd (f64_of_int (rem (wrap64 (seq * 37)) 100)) (mk_f64 (37 / 100))"

definition nl :: string where
  "nl = [char_of (10 :: nat)]"

definition sse_event :: "dummy_lib \<Rightarrow> int \<Rightarrow> time \<Rightarrow> string" where
  "sse_event lib seq t =
    ''id: '' @ itoa seq @ nl @ ''event: tick'' @ nl @ ''data: {\"seq\":'' @ itoa seq @ '',\"ts\":\"'' @ format_rfc3339 utc_loc t @
    ''\",\"value\":'' @ dl_fixed2 lib (deterministicValue seq) @ ''}'' @ nl @ nl"

text \<open>The events that are sent for the ticks until the client leaves; each tick has its time.\<close>

fun sse_loop :: "dummy_lib \<Rightarrow> int \<Rightarrow> time list \<Rightarrow> served \<Rightarrow> served" where
  "sse_loop lib seq [] ws = ws"
| "sse_loop lib seq (t # ts) ws =
    sse_loop lib (seq + 1) ts
      (Write (TextChunk (sse_event lib (seq + 1) t)) (fst ws), (snd ws)\<lparr>dx_sseEventsTotal := Suc (dx_sseEventsTotal (snd ws))\<rparr>)"

definition sse_gauge :: "int \<Rightarrow> dummy_state \<Rightarrow> dummy_state" where
  "sse_gauge d s = s\<lparr>dx_activeSSE := wrap64 (dx_activeSSE s + d), dx_sseActiveConnections := dx_sseActiveConnections s + d\<rparr>"

definition sse_stream :: "dummy_lib \<Rightarrow> time list \<Rightarrow> served \<Rightarrow> served" where
  "sse_stream lib ticks ws =
    (let w1 = set_header ''X-Accel-Buffering'' ''no'' (set_header ''Connection'' ''keep-alive'' (set_header ''Cache-Control'' ''no-cache''
               (set_header ''Content-Type'' ''text/event-stream'' (fst ws))));
         w2 = Write (TextChunk (''data: {\"status\":\"connected\"}'' @ nl @ nl)) (Write (TextChunk (''event: ready'' @ nl)) (Write (TextChunk (''retry: 3000'' @ nl)) w1));
         s1 = sse_gauge 1 (snd ws)
     in on_state (sse_gauge (- 1)) (sse_loop lib 0 ticks (w2, s1\<lparr>dx_sseEventsTotal := Suc (dx_sseEventsTotal s1)\<rparr>)))"

definition handleSSE :: "dummy_lib \<Rightarrow> dummy_config \<Rightarrow> time list \<Rightarrow> request \<Rightarrow> served \<Rightarrow> served" where
  "handleSSE lib cfg ticks r ws =
    (case maybeRequireAuth lib cfg r (snd ws) of
       (Some e, s1) \<Rightarrow> answer 401 (error_json e) (fst ws, s1)
     | (None, s1) \<Rightarrow>
        (if \<not> is_flusher (fst ws) then answer 500 (error_json ''streaming not supported'') (fst ws, s1)
         else if shouldFail lib cfg r then answer (effectiveStatusCode cfg r 503) (error_json ''simulated SSE failure'') (fst ws, s1)
         else sse_stream lib ticks (on_state (delayIfNeeded cfg r) (fst ws, s1))))"

subsection \<open>Routes\<close>

text \<open>
  The patterns of the multiplexer. Apart from the last one, which takes every request, no two of them match the same request,
  so the first match is the most specific one; a pattern for \<^verbatim>\<open>GET\<close> also takes \<^verbatim>\<open>HEAD\<close>, and a wildcard stands for one segment that
  is not empty. \<open>rq_segments\<close> are the decoded segments of a path that needs no cleaning. The handler of the metrics is the
  Prometheus package; \<open>de_promhttp\<close> is the text that it writes.
\<close>

datatype segment = Lit string | Wild

datatype route_handler =
    HHealth | HMetrics | HToken | HTokenScenario | HStats | HSSE | HGetUsers | HGetUserByID | HCreateUser | HUpdateUser | HDeleteUser
  | HGetProducts | HGetOrders | HCreateOrder | HHTTPScenario | HCatchAll

definition dummy_routes :: "(string \<times> string option \<times> segment list \<times> route_handler) list" where
  "dummy_routes =
    [(''GET /health'', Some ''GET'', [Lit ''health''], HHealth),
     (''GET /metrics'', Some ''GET'', [Lit ''metrics''], HMetrics),
     (''GET /api/auth/token'', Some ''GET'', [Lit ''api'', Lit ''auth'', Lit ''token''], HToken),
     (''POST /api/auth/token'', Some ''POST'', [Lit ''api'', Lit ''auth'', Lit ''token''], HToken),
     (''/api/auth/token/{scenario}'', None, [Lit ''api'', Lit ''auth'', Lit ''token'', Wild], HTokenScenario),
     (''GET /api/stats'', Some ''GET'', [Lit ''api'', Lit ''stats''], HStats),
     (''GET /api/events'', Some ''GET'', [Lit ''api'', Lit ''events''], HSSE),
     (''GET /api/users'', Some ''GET'', [Lit ''api'', Lit ''users''], HGetUsers),
     (''GET /api/users/{id}'', Some ''GET'', [Lit ''api'', Lit ''users'', Wild], HGetUserByID),
     (''POST /api/users'', Some ''POST'', [Lit ''api'', Lit ''users''], HCreateUser),
     (''PUT /api/users/{id}'', Some ''PUT'', [Lit ''api'', Lit ''users'', Wild], HUpdateUser),
     (''DELETE /api/users/{id}'', Some ''DELETE'', [Lit ''api'', Lit ''users'', Wild], HDeleteUser),
     (''GET /api/products'', Some ''GET'', [Lit ''api'', Lit ''products''], HGetProducts),
     (''GET /api/orders'', Some ''GET'', [Lit ''api'', Lit ''orders''], HGetOrders),
     (''POST /api/orders'', Some ''POST'', [Lit ''api'', Lit ''orders''], HCreateOrder),
     (''GET /test/http/{scenario}'', Some ''GET'', [Lit ''test'', Lit ''http'', Wild], HHTTPScenario),
     (''POST /test/http/{scenario}'', Some ''POST'', [Lit ''test'', Lit ''http'', Wild], HHTTPScenario),
     (''PUT /test/http/{scenario}'', Some ''PUT'', [Lit ''test'', Lit ''http'', Wild], HHTTPScenario),
     (''PATCH /test/http/{scenario}'', Some ''PATCH'', [Lit ''test'', Lit ''http'', Wild], HHTTPScenario),
     (''DELETE /test/http/{scenario}'', Some ''DELETE'', [Lit ''test'', Lit ''http'', Wild], HHTTPScenario)]"

fun match_segments :: "segment list \<Rightarrow> string list \<Rightarrow> string option" where
  "match_segments [] [] = Some []"
| "match_segments (Lit a # ps) (s # ss) = (if a = s then match_segments ps ss else None)"
| "match_segments (Wild # ps) (s # ss) = (if s \<noteq> [] \<and> match_segments ps ss \<noteq> None then Some s else None)"
| "match_segments _ _ = None"

definition match_method :: "string option \<Rightarrow> string \<Rightarrow> bool" where
  "match_method m meth \<longleftrightarrow> (case m of None \<Rightarrow> True | Some x \<Rightarrow> meth = x \<or> x = ''GET'' \<and> meth = ''HEAD'')"

definition find_route :: "request \<Rightarrow> string \<times> string \<times> route_handler" where
  "find_route r =
    (case find (\<lambda>(pat, m, segs, h). match_method m (rq_Method r) \<and> match_segments segs (rq_segments r) \<noteq> None) dummy_routes of
       Some (pat, m, segs, h) \<Rightarrow> (pat, the (match_segments segs (rq_segments r)), h)
     | None \<Rightarrow> (''/'', [], HCatchAll))"

record dummy_env =
  de_lib :: dummy_lib
  de_cfg :: dummy_config
  de_uptime :: f64
  de_ticks :: "time list"
  de_promhttp :: "dummy_state \<Rightarrow> string"

fun run_handler :: "dummy_env \<Rightarrow> route_handler \<Rightarrow> request \<Rightarrow> served \<Rightarrow> served" where
  "run_handler env HHealth r ws = handleHealth ws"
| "run_handler env HMetrics r ws = (Write (TextChunk (de_promhttp env (snd ws))) (fst ws), snd ws)"
| "run_handler env HToken r ws = handleToken (de_lib env) (de_cfg env) r ws"
| "run_handler env HTokenScenario r ws = handleTokenScenario r ws"
| "run_handler env HStats r ws = handleStats (de_uptime env) ws"
| "run_handler env HSSE r ws = handleSSE (de_lib env) (de_cfg env) (de_ticks env) r ws"
| "run_handler env HGetUsers r ws = handleGetUsers (de_lib env) (de_cfg env) r ws"
| "run_handler env HGetUserByID r ws = handleGetUserByID (de_lib env) (de_cfg env) r ws"
| "run_handler env HCreateUser r ws = handleCreateUser (de_lib env) (de_cfg env) r ws"
| "run_handler env HUpdateUser r ws = handleUpdateUser (de_lib env) (de_cfg env) r ws"
| "run_handler env HDeleteUser r ws = handleDeleteUser (de_lib env) (de_cfg env) r ws"
| "run_handler env HGetProducts r ws = handleGetProducts (de_lib env) (de_cfg env) r ws"
| "run_handler env HGetOrders r ws = handleGetOrders (de_lib env) (de_cfg env) r ws"
| "run_handler env HCreateOrder r ws = handleCreateOrder (de_lib env) (de_cfg env) r ws"
| "run_handler env HHTTPScenario r ws = handleHTTPScenario (de_lib env) (de_cfg env) r ws"
| "run_handler env HCatchAll r ws =
    (if du_StrictRoutes (de_cfg env) then handleNotFound (de_lib env) (de_cfg env) r ws else handleCatchAllOK (de_lib env) (de_cfg env) r ws)"

definition serve_mux :: "dummy_env \<Rightarrow> request \<Rightarrow> served \<Rightarrow> served" where
  "serve_mux env r ws = (case find_route r of (pat, v, h) \<Rightarrow> run_handler env h (r\<lparr>rq_Pattern := pat, rq_pathValue := v\<rparr>) ws)"

subsection \<open>The middleware\<close>

definition routeLabel :: "request \<Rightarrow> string" where
  "routeLabel r = (if rq_Pattern r = [] then ''unmatched'' else rq_Pattern r)"

definition begin_request :: "request \<Rightarrow> dummy_state \<Rightarrow> dummy_state" where
  "begin_request r s =
    s\<lparr>dx_requestsStarted := wrap64 (dx_requestsStarted s + 1), dx_activeRequests := wrap64 (dx_activeRequests s + 1),
      dx_httpActiveRequests := dx_httpActiveRequests s + 1,
      dx_httpRequestsTotal := add_mset (rq_Method r, routeLabel r) (dx_httpRequestsTotal s)\<rparr>"

definition new_recorder :: "http_writer \<Rightarrow> responseRecorder" where
  "new_recorder w = \<lparr>rr_ResponseWriter = w, rr_status = 200, rr_wroteHeader = False\<rparr>"

definition end_request :: "request \<Rightarrow> responseRecorder \<Rightarrow> dummy_state \<Rightarrow> dummy_state" where
  "end_request r rw s =
    s\<lparr>dx_activeRequests := wrap64 (dx_activeRequests s - 1), dx_requestsCompleted := wrap64 (dx_requestsCompleted s + 1),
      dx_httpActiveRequests := dx_httpActiveRequests s - 1,
      dx_httpResponsesTotal := add_mset (rq_Method r, routeLabel r, itoa (rr_status rw)) (dx_httpResponsesTotal s)\<rparr>"

fun recorder_of :: "response_writer \<Rightarrow> responseRecorder" where
  "recorder_of (Recorded rw) = rw"
| "recorder_of (Raw w) = new_recorder w"

definition requestMiddleware :: "(request \<Rightarrow> served \<Rightarrow> served) \<Rightarrow> request \<Rightarrow> http_writer \<Rightarrow> dummy_state \<Rightarrow> http_writer \<times> dummy_state" where
  "requestMiddleware next_handler r w s =
    (if rq_Path r = ''/health'' then (case next_handler r (Raw w, s) of (w1, s1) \<Rightarrow> (net_of w1, s1))
     else (case next_handler r (Recorded (new_recorder w), begin_request r s) of
             (w1, s1) \<Rightarrow> (net_of w1, end_request r (recorder_of w1) s1)))"

definition new_writer :: "request \<Rightarrow> http_writer" where
  "new_writer r = \<lparr>hw_Method = rq_Method r, hw_info = [], hw_status = None, hw_header = [], hw_body = []\<rparr>"

text \<open>One request from its arrival to its response; no route has been found when it arrives.\<close>

definition serve :: "dummy_env \<Rightarrow> request \<Rightarrow> dummy_state \<Rightarrow> http_writer \<times> dummy_state" where
  "serve env r s = requestMiddleware (serve_mux env) (r\<lparr>rq_Pattern := []\<rparr>) (new_writer r) s"

end
