(* ===== verification/DummyProofs.thy ===== *)
theory DummyProofs
  imports Dummy AccountHandler
begin

text \<open>
  Properties of the dummy service: what the handlers keep of the response writer and of the counters, the counters under
  concurrent requests, the tokens, and what the defaults make of the statuses and of the streams.
\<close>

subsection \<open>What every handler keeps\<close>

text \<open>
  The handlers write through three operations of the response writer, so what these keep, every handler keeps. They change only
  some of the counters.
\<close>

lemma writeJSON_ops: "writeJSON st d w = Write (JsonChunk d) (WriteHeader st (set_header ''Content-Type'' ''application/json'' w))"
  by (simp add: writeJSON_def)

locale writer_invariant =
  fixes inv :: "response_writer \<Rightarrow> bool"
  assumes inv_header: "inv w \<Longrightarrow> inv (set_header k v w)"
    and inv_status: "inv w \<Longrightarrow> inv (WriteHeader code w)"
    and inv_write: "inv w \<Longrightarrow> inv (Write c w)"
begin

lemma inv_answer: "inv (fst ws) \<Longrightarrow> inv (fst (answer st d ws))"
  by (simp add: answer_def writeJSON_ops inv_header inv_status inv_write)

lemma inv_on_state: "inv (fst (on_state f ws)) = inv (fst ws)"
  by (simp add: on_state_def)

lemma inv_respond: "inv (fst ws) \<Longrightarrow> inv (fst (snd (respondIfFailureInjected lib cfg r ws)))"
  by (simp add: respondIfFailureInjected_def inv_answer)

lemma inv_guarded:
  assumes "\<And>ws. inv (fst ws) \<Longrightarrow> inv (fst (work ws))" "inv (fst ws)"
  shows "inv (fst (guarded lib cfg r work ws))"
  using assms(2) inv_respond [of "(fst ws, snd (maybeRequireAuth lib cfg r (snd ws)))" lib cfg r]
  by (auto simp: guarded_def inv_answer inv_on_state intro!: assms(1) split: prod.split option.split bool.split)

lemma inv_unguarded:
  assumes "\<And>ws. inv (fst ws) \<Longrightarrow> inv (fst (work ws))" "inv (fst ws)"
  shows "inv (fst (unguarded lib cfg r work ws))"
  using assms(2) inv_respond [of ws lib cfg r]
  by (auto simp: unguarded_def inv_on_state intro!: assms(1) split: prod.split bool.split)

lemma inv_with_body:
  assumes "\<And>n ws. inv (fst ws) \<Longrightarrow> inv (fst (work n ws))" "inv (fst ws)"
  shows "inv (fst (with_body r work ws))"
  using assms by (simp add: with_body_def inv_answer split: sum.split)

lemma inv_location: "inv (fst ws) \<Longrightarrow> inv (fst (with_location loc code ws))"
  by (simp add: with_location_def inv_header)

lemma inv_token: "inv (fst ws) \<Longrightarrow> inv (fst (handleToken lib cfg r ws))"
  by (simp add: handleToken_def Let_def inv_answer inv_on_state split: sum.split prod.split)

lemma inv_token_scenario: "inv (fst ws) \<Longrightarrow> inv (fst (handleTokenScenario r ws))"
  by (simp add: handleTokenScenario_def Let_def inv_answer inv_on_state inv_location split: option.split)

lemma inv_http_scenario: "inv (fst ws) \<Longrightarrow> inv (fst (handleHTTPScenario lib cfg r ws))"
  by (simp add: handleHTTPScenario_def Let_def inv_answer inv_on_state inv_location split: option.split prod.split)

lemma inv_sse_loop: "inv (fst ws) \<Longrightarrow> inv (fst (sse_loop lib n ts ws))"
  by (induction lib n ts ws rule: sse_loop.induct) (simp_all add: inv_write)

lemma inv_sse: "inv (fst ws) \<Longrightarrow> inv (fst (handleSSE lib cfg ts r ws))"
  by (auto simp: handleSSE_def sse_stream_def Let_def inv_on_state intro!: inv_answer inv_sse_loop inv_write inv_header split: prod.split option.split)

lemmas handlers = handleGetUsers_def handleGetUserByID_def handleCreateUser_def handleUpdateUser_def handleDeleteUser_def handleGetProducts_def
  handleGetOrders_def handleCreateOrder_def handleCatchAllOK_def handleNotFound_def

lemma inv_run: "inv (fst ws) \<Longrightarrow> inv (fst (run_handler env h r ws))"
  by (cases h) (auto simp: handlers handleHealth_def handleStats_def Let_def inv_on_state
      intro!: inv_write inv_token inv_token_scenario inv_http_scenario inv_sse inv_answer inv_guarded inv_unguarded inv_with_body split: sum.split)

lemma inv_mux: "inv (fst ws) \<Longrightarrow> inv (fst (serve_mux env r ws))"
  by (simp add: serve_mux_def inv_run split: prod.split)

end

text \<open>A view of the state that sleeping, the results of authentication, the generated ids and the streams do not change.\<close>

locale state_view =
  fixes view :: "dummy_state \<Rightarrow> 'v"
  assumes view_sleeps: "view (s\<lparr>dx_sleeps := x1\<rparr>) = view s"
    and view_failures: "view (s\<lparr>dx_authValidationFailures := x2\<rparr>) = view s"
    and view_tokens: "view (s\<lparr>dx_authTokenRequests := x2\<rparr>) = view s"
    and view_users: "view (s\<lparr>dx_userIDCounter := x3\<rparr>) = view s"
    and view_orders: "view (s\<lparr>dx_orderIDCounter := x3\<rparr>) = view s"
    and view_events: "view (s\<lparr>dx_sseEventsTotal := x4\<rparr>) = view s"
    and view_streams: "view (s\<lparr>dx_activeSSE := x3, dx_sseActiveConnections := x5\<rparr>) = view s"
begin

lemma view_sleep: "view (sleep d s) = view s"
  by (simp add: sleep_def view_sleeps)

lemma view_delays: "view (delayIfNeeded cfg r s) = view s" "view (delayTokenIfNeeded cfg r s) = view s" "view (handleIntentionalTimeout r s) = view s"
  by (simp_all add: delayIfNeeded_def delayTokenIfNeeded_def handleIntentionalTimeout_def view_sleep)

lemma view_answer: "view (snd (answer st d ws)) = view (snd ws)" "view (snd (on_state f ws)) = view (f (snd ws))"
  by (simp_all add: answer_def on_state_def)

lemma view_auth: "view (snd (maybeRequireAuth lib cfg r s)) = view s"
  by (simp add: maybeRequireAuth_def view_failures split: option.split)

lemma view_token_result: "view (token_result x s) = view s"
  by (simp add: token_result_def view_tokens)

lemmas view_simps = view_delays view_answer view_token_result view_users view_orders

lemma view_respond: "view (snd (snd (respondIfFailureInjected lib cfg r ws))) = view (snd ws)"
  by (simp add: respondIfFailureInjected_def view_simps)

lemma view_guarded:
  assumes "\<And>ws. view (snd (work ws)) = view (snd ws)"
  shows "view (snd (guarded lib cfg r work ws)) = view (snd ws)"
proof -
  obtain e s1 where a: "maybeRequireAuth lib cfg r (snd ws) = (e, s1)" by (metis surj_pair)
  obtain b ws1 where b: "respondIfFailureInjected lib cfg r (fst ws, s1) = (b, ws1)" by (metis surj_pair)
  have "view s1 = view (snd ws)" "view (snd ws1) = view s1"
    using view_auth [of lib cfg r "snd ws"] view_respond [of lib cfg r "(fst ws, s1)"] a b by simp_all
  then show ?thesis by (simp add: guarded_def a b assms view_simps split: option.split bool.split)
qed

lemma view_unguarded:
  assumes "\<And>ws. view (snd (work ws)) = view (snd ws)"
  shows "view (snd (unguarded lib cfg r work ws)) = view (snd ws)"
  using view_respond [of lib cfg r ws] by (auto simp: unguarded_def assms view_simps split: prod.split bool.split)

lemma view_with_body:
  assumes "\<And>n ws. view (snd (work n ws)) = view (snd ws)"
  shows "view (snd (with_body r work ws)) = view (snd ws)"
  by (simp add: with_body_def assms view_simps split: sum.split)

lemma view_location: "view (snd (with_location loc code ws)) = view (snd ws)"
  by (simp add: with_location_def)

lemma view_token: "view (snd (handleToken lib cfg r ws)) = view (snd ws)"
  by (simp add: handleToken_def Let_def view_simps split: sum.split prod.split)

lemma view_token_scenario: "view (snd (handleTokenScenario r ws)) = view (snd ws)"
  by (simp add: handleTokenScenario_def Let_def view_simps view_location split: option.split)

lemma view_http_scenario: "view (snd (handleHTTPScenario lib cfg r ws)) = view (snd ws)"
  using view_auth [of lib cfg r "snd ws"]
  by (auto simp: handleHTTPScenario_def Let_def view_simps view_location split: option.split prod.split)

lemma view_sse_loop: "view (snd (sse_loop lib n ts ws)) = view (snd ws)"
  by (induction lib n ts ws rule: sse_loop.induct) (simp_all add: view_events)

lemma view_gauge: "view (sse_gauge d s) = view s"
  by (simp add: sse_gauge_def view_streams)

lemma view_sse: "view (snd (handleSSE lib cfg ts r ws)) = view (snd ws)"
  using view_auth [of lib cfg r "snd ws"]
  by (auto simp: handleSSE_def sse_stream_def Let_def view_simps view_gauge view_sse_loop view_events on_state_def split: prod.split option.split)

lemma view_run: "view (snd (run_handler env h r ws)) = view (snd ws)"
  by (cases h) (simp_all add: handleGetUsers_def handleGetUserByID_def handleCreateUser_def handleUpdateUser_def handleDeleteUser_def
      handleGetProducts_def handleGetOrders_def handleCreateOrder_def handleCatchAllOK_def handleNotFound_def handleHealth_def handleStats_def
      Let_def view_simps view_token view_token_scenario view_http_scenario view_sse view_guarded view_unguarded view_with_body split: sum.split)

lemma view_mux: "view (snd (serve_mux env r ws)) = view (snd ws)"
  by (simp add: serve_mux_def view_run split: prod.split)

end

definition traffic :: "dummy_state \<Rightarrow> int \<times> int \<times> int \<times> int \<times> (string \<times> string) multiset \<times> (string \<times> string \<times> string) multiset" where
  "traffic s = (dx_requestsStarted s, dx_requestsCompleted s, dx_activeRequests s, dx_httpActiveRequests s, dx_httpRequestsTotal s, dx_httpResponsesTotal s)"

interpretation traffic: state_view traffic
  by unfold_locales (simp_all add: traffic_def)

lemma mux_traffic:
  assumes "serve_mux env r (w, s) = (w', s')"
  shows "dx_requestsStarted s' = dx_requestsStarted s" "dx_requestsCompleted s' = dx_requestsCompleted s" "dx_activeRequests s' = dx_activeRequests s"
    "dx_httpActiveRequests s' = dx_httpActiveRequests s" "dx_httpRequestsTotal s' = dx_httpRequestsTotal s" "dx_httpResponsesTotal s' = dx_httpResponsesTotal s"
  using traffic.view_mux [of env r "(w, s)"] assms by (simp_all add: traffic_def)

text \<open>A handler that gets a recorder writes to this recorder.\<close>

fun is_recorded :: "response_writer \<Rightarrow> bool" where
  "is_recorded (Raw w) = False"
| "is_recorded (Recorded rw) = True"

interpretation recorded: writer_invariant is_recorded
proof
  show "is_recorded w \<Longrightarrow> is_recorded (set_header k v w)" for w k v by (cases w) simp_all
  show "is_recorded w \<Longrightarrow> is_recorded (WriteHeader code w)" for w code by (cases w) simp_all
  show "is_recorded w \<Longrightarrow> is_recorded (Write c w)" for w c by (cases w) simp_all
qed

lemma mux_recorded:
  obtains rw' s' where "serve_mux env r (Recorded rw, s) = (Recorded rw', s')"
proof -
  have "is_recorded (fst (serve_mux env r (Recorded rw, s)))" by (rule recorded.inv_mux) simp
  then show thesis by (metis is_recorded.elims(2) prod.collapse that)
qed

subsection \<open>The status that is counted\<close>

definition informational :: "int \<Rightarrow> bool" where
  "informational code \<longleftrightarrow> 100 \<le> code \<and> code \<le> 199 \<and> code \<noteq> 101"

definition faithful :: "responseRecorder \<Rightarrow> bool" where
  "faithful rw \<longleftrightarrow>
    (let st = hw_status (rr_ResponseWriter rw)
     in if \<not> rr_wroteHeader rw then rr_status rw = 200 \<and> st = None
        else if informational (rr_status rw) then st = None \<or> st = Some 200
        else st = Some (rr_status rw))"

fun faithful_writer :: "response_writer \<Rightarrow> bool" where
  "faithful_writer (Raw w) = False"
| "faithful_writer (Recorded rw) = faithful rw"

interpretation counted: writer_invariant faithful_writer
proof
  show "faithful_writer w \<Longrightarrow> faithful_writer (set_header k v w)" for w k v by (cases w) (simp_all add: faithful_def net_Set_def Let_def)
  have h: "faithful rw \<Longrightarrow> faithful (rec_WriteHeader code rw)" for rw code
    by (auto simp: rec_WriteHeader_def net_WriteHeader_def faithful_def informational_def Let_def split: if_splits)
  show "faithful_writer w \<Longrightarrow> faithful_writer (WriteHeader code w)" for w code by (cases w) (simp_all add: h)
  have "faithful rw \<Longrightarrow> rr_wroteHeader rw \<Longrightarrow> faithful (rw\<lparr>rr_ResponseWriter := net_Write c (rr_ResponseWriter rw)\<rparr>)" for rw c
    by (auto simp: net_Write_def net_WriteHeader_def faithful_def Let_def split: if_splits)
  moreover have "rr_wroteHeader (rec_WriteHeader 200 rw)" for rw by (simp add: rec_WriteHeader_def)
  ultimately have "faithful rw \<Longrightarrow> faithful (rec_Write c rw)" for rw c
    using h by (simp add: rec_Write_def Let_def)
  then show "faithful_writer w \<Longrightarrow> faithful_writer (Write c w)" for w c by (cases w) simp_all
qed

lemma faithful_sent: "faithful rw \<Longrightarrow> rr_status rw = sent_status (rr_ResponseWriter rw) \<or> informational (rr_status rw) \<and> sent_status (rr_ResponseWriter rw) = 200"
  by (auto simp: faithful_def sent_status_def Let_def split: if_splits)

lemma serve_effect:
  assumes "rq_Path r \<noteq> ''/health''"
  obtains rw s' where "serve_mux env (r\<lparr>rq_Pattern := []\<rparr>) (Recorded (new_recorder (new_writer r)), begin_request (r\<lparr>rq_Pattern := []\<rparr>) s) = (Recorded rw, s')"
    "serve env r s = (rr_ResponseWriter rw, end_request (r\<lparr>rq_Pattern := []\<rparr>) rw s')" "faithful rw"
proof -
  let ?r = "r\<lparr>rq_Pattern := []\<rparr>" and ?rw = "new_recorder (new_writer r)"
  obtain rw s' where m: "serve_mux env ?r (Recorded ?rw, begin_request ?r s) = (Recorded rw, s')" by (rule mux_recorded)
  have "faithful ?rw" by (simp add: faithful_def new_recorder_def new_writer_def)
  then have "faithful_writer (fst (serve_mux env ?r (Recorded ?rw, begin_request ?r s)))" by (intro counted.inv_mux) simp
  then have "faithful rw" by (simp add: m)
  then show thesis using that [OF m] assms m by (simp add: serve_def requestMiddleware_def)
qed

text \<open>
  C39. Every request to the dummy service other than a health probe is counted once as started and once as answered. It is
  counted under the status that the client gets, unless the handler asked for an informational status, which is counted
  although the client gets 200. The label of the route is always ``unmatched'', because it is read before the multiplexer
  has found the route.
\<close>

theorem response_is_counted:
  assumes "rq_Path r \<noteq> ''/health''"
  shows "dx_httpRequestsTotal (snd (serve env r s)) = add_mset (rq_Method r, ''unmatched'') (dx_httpRequestsTotal s) \<and>
    (\<exists>code. dx_httpResponsesTotal (snd (serve env r s)) = add_mset (rq_Method r, ''unmatched'', itoa code) (dx_httpResponsesTotal s) \<and>
      (code = sent_status (fst (serve env r s)) \<or> informational code \<and> sent_status (fst (serve env r s)) = 200))"
proof -
  obtain rw s' where m: "serve_mux env (r\<lparr>rq_Pattern := []\<rparr>) (Recorded (new_recorder (new_writer r)), begin_request (r\<lparr>rq_Pattern := []\<rparr>) s) = (Recorded rw, s')"
    and e: "serve env r s = (rr_ResponseWriter rw, end_request (r\<lparr>rq_Pattern := []\<rparr>) rw s')" and f: "faithful rw"
    using serve_effect [OF assms] by metis
  show ?thesis using mux_traffic(5,6) [OF m] faithful_sent [OF f]
    by (simp add: e end_request_def begin_request_def routeLabel_def) blast
qed

text \<open>A library for the examples: base64 is written in hexadecimal, and there is one set of claims.\<close>

fun hex_decode :: "string \<Rightarrow> string option" where
  "hex_decode [] = Some []"
| "hex_decode [c] = None"
| "hex_decode (a # b # s) =
    (case (hex_value a, hex_value b, hex_decode s) of
       (Some x, Some y, Some t) \<Rightarrow> Some (char_of (x * 16 + y) # t)
     | _ \<Rightarrow> None)"

definition demo_lib :: "jwt_claims \<Rightarrow> dummy_lib" where
  "demo_lib claims =
    \<lparr>dl_hmac = (\<lambda>k x. k @ x), dl_b64url = hex_encode, dl_b64url_dec = hex_decode, dl_b64std_dec = hex_decode, dl_header = ''h'',
     dl_marshal = (\<lambda>_. ''c''), dl_unmarshal = (\<lambda>_. Some claims), dl_quote = id, dl_fixed2 = (\<lambda>_. ''0.37''), dl_parseFloat = (\<lambda>_. None)\<rparr>"

definition no_claims :: jwt_claims where
  "no_claims = \<lparr>jc_Iss = [], jc_Sub = [], jc_Aud = [], jc_Iat = 0, jc_Nbf = 0, jc_Exp = 0\<rparr>"

definition demo_dummy :: dummy_env where
  "demo_dummy =
    \<lparr>de_lib = demo_lib no_claims, de_cfg = loadConfig (demo_lib no_claims) (\<lambda>_. []), de_uptime = f0, de_ticks = [0, second], de_promhttp = (\<lambda>_. [])\<rparr>"

definition demo_get :: "string \<Rightarrow> string list \<Rightarrow> string \<Rightarrow> request" where
  "demo_get path segs q =
    \<lparr>rq_Method = ''GET'', rq_Path = path, rq_segments = segs, rq_RawQuery = q, rq_Authorization = [], rq_form = Inr None, rq_body = None,
     rq_now = 1000 * second, rq_until = 1000 * second, rq_leaves = None, rq_Pattern = [], rq_pathValue = []\<rparr>"

lemma demo_cfg: "du_DefaultStatusCode (de_cfg demo_dummy) = 200" "du_DefaultErrorRate (de_cfg demo_dummy) = f0" "\<not> du_RequireAuth (de_cfg demo_dummy)"
  "\<not> du_StrictRoutes (de_cfg demo_dummy)" "de_lib demo_dummy = demo_lib no_claims"
  by (simp_all add: demo_dummy_def loadConfig_def getEnvInt_def getEnvBool_def getEnvFloat_def clamp_def Let_def)

lemma no_query [simp]: "query_get (demo_get path segs []) k = []"
  by (simp add: query_get_def demo_get_def parse_query_def parse_pair_def values_get_def)

theorem response_is_counted_witness:
  "rq_Path (demo_get ''/test/http/102'' [''test'', ''http'', ''102''] []) \<noteq> ''/health'' \<and>
   dx_httpRequestsTotal (snd (serve demo_dummy (demo_get ''/test/http/102'' [''test'', ''http'', ''102''] []) initial_state)) = {#(''GET'', ''unmatched'')#} \<and>
   sent_status (fst (serve demo_dummy (demo_get ''/test/http/102'' [''test'', ''http'', ''102''] []) initial_state)) = 200 \<and>
   dx_httpResponsesTotal (snd (serve demo_dummy (demo_get ''/test/http/102'' [''test'', ''http'', ''102''] []) initial_state)) = {#(''GET'', ''unmatched'', ''102'')#}"
  (is "_ \<and> _ \<and> sent_status (fst (serve _ ?r _)) = _ \<and> _")
proof -
  have l: "to_lower ''102'' = ''102''" by code_simp
  have i: "itoa 102 = ''102''" by (simp add: itoa_def nat_str.simps digit_char_def) code_simp
  then have a: "atoi ''102'' = Some 102" using atoi_itoa [of 102] by (simp add: in_int64_def)
  have t: "trim_space ''102'' = ''102''" by (simp add: is_plain_def)
  have "sent_status (fst (serve demo_dummy ?r initial_state)) = 200 \<and>
      dx_httpResponsesTotal (snd (serve demo_dummy ?r initial_state)) = {#(''GET'', ''unmatched'', ''102'')#}"
    by (simp add: serve_def requestMiddleware_def serve_mux_def find_route_def dummy_routes_def match_method_def handleHTTPScenario_def maybeRequireAuth_def demo_cfg l i a t
        scenario_code_def with_location_def answer_def writeJSON_def rec_Write_def rec_WriteHeader_def net_Write_def net_WriteHeader_def
        net_Set_def new_recorder_def new_writer_def demo_get_def end_request_def begin_request_def routeLabel_def sent_status_def
        initial_state_def body_allowed_def Let_def)
  then show ?thesis using response_is_counted [of ?r demo_dummy initial_state] by (simp add: demo_get_def initial_state_def)
qed

subsection \<open>Concurrent requests\<close>

text \<open>
  Requests arrive, run their handlers and end in any order. A request in flight is kept with its recorder and with whether its
  handler has run.
\<close>

type_synonym flight = "(request \<times> responseRecorder \<times> bool) list"

inductive traffic_step :: "dummy_state \<times> flight \<Rightarrow> dummy_state \<times> flight \<Rightarrow> bool" where
  arrive: "rq_Path r \<noteq> ''/health'' \<Longrightarrow> rq_Pattern r = [] \<Longrightarrow> traffic_step (s, fl) (begin_request r s, fl @ [(r, new_recorder (new_writer r), False)])"
| probe: "rq_Path r = ''/health'' \<Longrightarrow> traffic_step (s, fl) (snd (serve env r s), fl)"
| handle: "i < length fl \<Longrightarrow> fl ! i = (r, rw, False) \<Longrightarrow> serve_mux env r (Recorded rw, s) = (Recorded rw', s') \<Longrightarrow>
    traffic_step (s, fl) (s', fl[i := (r, rw', True)])"
| finish: "i < length fl \<Longrightarrow> fl ! i = (r, rw, True) \<Longrightarrow> traffic_step (s, fl) (end_request r rw s, take i fl @ drop (Suc i) fl)"

definition flight_labels :: "flight \<Rightarrow> (string \<times> string) multiset" where
  "flight_labels fl = image_mset (\<lambda>(r, _). (rq_Method r, routeLabel r)) (mset fl)"

definition traffic_ok :: "dummy_state \<times> flight \<Rightarrow> bool" where
  "traffic_ok st =
    (case st of (s, fl) \<Rightarrow>
      dx_requestsStarted s = wrap64 (int (size (dx_httpRequestsTotal s))) \<and>
      dx_requestsCompleted s = wrap64 (int (size (dx_httpResponsesTotal s))) \<and>
      dx_activeRequests s = wrap64 (int (length fl)) \<and> dx_httpActiveRequests s = int (length fl) \<and>
      dx_httpRequestsTotal s = image_mset (\<lambda>(m, l, _). (m, l)) (dx_httpResponsesTotal s) + flight_labels fl)"

lemma wrap64_add: "wrap64 (wrap64 a + b) = wrap64 (a + b)" "wrap64 (b + wrap64 a) = wrap64 (b + a)" "wrap64 (wrap64 a - b) = wrap64 (a - b)"
proof -
  have "wrap64 a + b + 2 ^ 63 = (a + 2 ^ 63) mod 2 ^ 64 + b" "wrap64 a - b + 2 ^ 63 = (a + 2 ^ 63) mod 2 ^ 64 - b" for b by (simp_all add: wrap64_def)
  then show "wrap64 (wrap64 a + b) = wrap64 (a + b)" "wrap64 (b + wrap64 a) = wrap64 (b + a)" "wrap64 (wrap64 a - b) = wrap64 (a - b)"
    unfolding add.commute [of b] wrap64_def [of "_ + _"] wrap64_def [of "_ - _"]
    by (simp_all only: mod_add_left_eq mod_diff_left_eq) (simp_all add: algebra_simps)
qed

lemma mset_take_drop: "i < length xs \<Longrightarrow> mset xs = add_mset (xs ! i) (mset (take i xs @ drop (Suc i) xs))"
  by (metis id_take_nth_drop mset.simps(2) mset_append union_mset_add_mset_right)

lemma flight_update: "i < length fl \<Longrightarrow> fl ! i = (r, rw, b) \<Longrightarrow> flight_labels (fl[i := (r, rw', b')]) = flight_labels fl"
proof -
  assume i: "i < length fl" "fl ! i = (r, rw, b)"
  let ?f = "\<lambda>(r, _). (rq_Method r, routeLabel r)"
  have "map ?f (fl[i := (r, rw', b')]) = map ?f fl" using i by (simp add: map_update list_update_same_conv)
  then show ?thesis by (simp add: flight_labels_def flip: mset_map)
qed

lemma traffic_step_ok:
  assumes "traffic_step st st'" "traffic_ok st"
  shows "traffic_ok st'"
  using assms
proof cases
  case (probe r s fl env)
  obtain w s1 where m: "serve_mux env (r\<lparr>rq_Pattern := []\<rparr>) (Raw (new_writer r), s) = (w, s1)" by (metis surj_pair)
  then have "snd (serve env r s) = s1" using probe(3) by (simp add: serve_def requestMiddleware_def)
  then show ?thesis using assms(2) probe mux_traffic [OF m] by (simp add: traffic_ok_def)
next
  case (handle i fl r rw env s rw' s')
  then show ?thesis using assms(2) mux_traffic [OF handle(5)] flight_update [OF handle(3,4), of rw' True] by (simp add: traffic_ok_def)
next
  case (finish i fl r rw s)
  then have "flight_labels fl = add_mset (rq_Method r, routeLabel r) (flight_labels (take i fl @ drop (Suc i) fl))"
    using mset_take_drop [of i fl] by (simp add: flight_labels_def)
  moreover have "int (length (take i fl @ drop (Suc i) fl)) = int (length fl) - 1" using finish(3) by simp
  ultimately show ?thesis using assms(2) finish wrap64_add(3) [of "int (length fl)" 1]
    by (simp add: traffic_ok_def end_request_def wrap64_add algebra_simps)
qed (auto simp: traffic_ok_def begin_request_def wrap64_add flight_labels_def algebra_simps)

lemma reachable_traffic: "traffic_step\<^sup>*\<^sup>* (initial_state, []) st \<Longrightarrow> traffic_ok st"
proof (induction rule: rtranclp_induct)
  case base
  show ?case by (simp add: traffic_ok_def initial_state_def flight_labels_def wrap64_def)
next
  case (step st st')
  then show ?case by (auto intro: traffic_step_ok)
qed



subsection \<open>Tokens\<close>

text \<open>What the service relies on: base64 can be decoded, and its alphabet has no dot and no white space.\<close>

definition encoding_ok :: "dummy_lib \<Rightarrow> bool" where
  "encoding_ok lib \<longleftrightarrow> (\<forall>x. dl_b64url_dec lib (dl_b64url lib x) = Some x \<and> list_all is_plain (dl_b64url lib x) \<and> CHR ''.'' \<notin> set (dl_b64url lib x))"

lemma split_char_plain: "sep \<notin> set s \<Longrightarrow> split_char sep s = [s]"
  by (induction s) auto

lemma split_char_append: "sep \<notin> set s \<Longrightarrow> split_char sep (s @ sep # t) = s # split_char sep t"
  by (induction s) auto

lemma plain_dots: "list_all is_plain a \<Longrightarrow> list_all is_plain b \<Longrightarrow> trim_space (a @ ''.'' @ b) = a @ ''.'' @ b"
proof -
  assume p: "list_all is_plain a" "list_all is_plain b"
  then have "list_all is_plain (a @ ''.'' @ b)" by (simp add: is_plain_def)
  moreover have "a @ ''.'' @ b \<noteq> []" by simp
  ultimately show ?thesis unfolding list_all_iff by (intro trim_space_plain) (blast intro: hd_in_set last_in_set)+
qed

lemma parse_issued:
  assumes "encoding_ok lib" "dl_unmarshal lib (dl_marshal lib (dummy_claims cfg sub now)) = Some (dummy_claims cfg sub now)"
  shows "parseAndValidateDummyJWT lib cfg (fst (issueDummyJWT lib cfg sub now)) t = check_claims (dummy_claims cfg sub now) t"
proof -
  let ?h = "dl_b64url lib (dl_header lib)" and ?c = "dl_b64url lib (dl_marshal lib (dummy_claims cfg sub now))"
  have "split_char (CHR ''.'') (?h @ ''.'' @ ?c @ ''.'' @ signJWT lib cfg (?h @ ''.'' @ ?c)) = [?h, ?c, signJWT lib cfg (?h @ ''.'' @ ?c)]"
    using assms(1) by (simp add: encoding_ok_def split_char_append split_char_plain signJWT_def)
  then show ?thesis using assms by (simp add: parseAndValidateDummyJWT_def issueDummyJWT_def Let_def encoding_ok_def)
qed

lemma bearer_issued:
  assumes "encoding_ok lib" "dl_unmarshal lib (dl_marshal lib (dummy_claims cfg sub now)) = Some (dummy_claims cfg sub now)"
  shows "validateBearerToken lib cfg t (''Bearer '' @ fst (issueDummyJWT lib cfg sub now)) =
    (case check_claims (dummy_claims cfg sub now) t of Inl e \<Rightarrow> Some (''invalid_token'', e) | Inr _ \<Rightarrow> None)"
proof -
  let ?tok = "fst (issueDummyJWT lib cfg sub now)"
  let ?h = "dl_b64url lib (dl_header lib)" and ?c = "dl_b64url lib (dl_marshal lib (dummy_claims cfg sub now))"
  have "?tok = ?h @ ''.'' @ (?c @ ''.'' @ signJWT lib cfg (?h @ ''.'' @ ?c))" by (simp add: issueDummyJWT_def Let_def)
  moreover have "list_all is_plain ?h" "list_all is_plain (?c @ ''.'' @ signJWT lib cfg (?h @ ''.'' @ ?c))"
    using assms(1) by (simp_all add: encoding_ok_def signJWT_def is_plain_def)
  ultimately have t: "trim_space ?tok = ?tok" "?tok \<noteq> []" using plain_dots by simp_all
  have p: "has_prefix (''Bearer '' @ ?tok) ''Bearer ''" "trim_prefix (''Bearer '' @ ?tok) ''Bearer '' = ?tok" "''Bearer '' @ ?tok \<noteq> []"
    by (simp_all add: has_prefix_def trim_prefix_def)
  have "jc_Iss x = du_AuthIssuer cfg" if "check_claims (dummy_claims cfg sub now) t = Inr x" for x
    using that by (auto simp: check_claims_def dummy_claims_def split: if_splits)
  then show ?thesis using t p parse_issued [OF assms, of t] by (auto simp: validateBearerToken_def simp del: append_Cons append_Nil split: sum.split)
qed

text \<open>
  C40. A client that sends the right credentials to the token endpoint of the dummy service, when no failure is asked for,
  gets a token that the protected endpoints accept until it expires and refuse as expired from then on.
\<close>

theorem dummy_token_valid_until_expiry:
  assumes "encoding_ok lib" "effectiveTokenFailureStatus lib cfg r = 0"
    and "extractTokenRequestCredentials lib r = Inr (du_AuthClientID cfg, du_AuthClientSecret cfg, ''client_credentials'')"
    and "dl_unmarshal lib (dl_marshal lib (dummy_claims cfg (du_AuthClientID cfg) (rq_now r))) = Some (dummy_claims cfg (du_AuthClientID cfg) (rq_now r))"
    and "0 < unix_sec (rq_now r + du_AuthTokenTTL cfg)"
  shows "\<exists>tok n. fst (handleToken lib cfg r ws) =
      writeJSON (effectiveStatusCode cfg r 200) (JObj [(''access_token'', JStr tok), (''token_type'', JStr ''Bearer''), (''expires_in'', json_int n)]) (fst ws) \<and>
    (\<forall>t. unix_sec (rq_now r) \<le> unix_sec t \<longrightarrow>
      validateBearerToken lib cfg t (''Bearer '' @ tok) =
        (if unix_sec t < unix_sec (rq_now r + du_AuthTokenTTL cfg) then None else Some (''invalid_token'', ''Bearer token expired'')))"
proof -
  let ?tok = "fst (issueDummyJWT lib cfg (du_AuthClientID cfg) (rq_now r))"
  have "\<exists>n. fst (handleToken lib cfg r ws) =
      writeJSON (effectiveStatusCode cfg r 200) (JObj [(''access_token'', JStr ?tok), (''token_type'', JStr ''Bearer''), (''expires_in'', json_int n)]) (fst ws)"
    using assms(2,3) by (auto simp: handleToken_def Let_def on_state_def answer_def split: prod.split)
  moreover have "validateBearerToken lib cfg t (''Bearer '' @ ?tok) =
      (if unix_sec t < unix_sec (rq_now r + du_AuthTokenTTL cfg) then None else Some (''invalid_token'', ''Bearer token expired''))"
    if "unix_sec (rq_now r) \<le> unix_sec t" for t
    using bearer_issued [OF assms(1,4), of t] assms(5) that by (simp add: check_claims_def dummy_claims_def)
  ultimately show ?thesis by blast
qed

lemma hex_digits: "hex_value (hex_char n) = Some (n mod 16)"
proof -
  have "list_all (\<lambda>k. hex_value (hex_char k) = Some k) [0..<16]" by code_simp
  then have "hex_value (hex_char (n mod 16)) = Some (n mod 16)" by (simp only: list_all_iff) simp
  then show ?thesis by (simp add: hex_char_def)
qed

lemma hex_roundtrip: "hex_decode (hex_encode s) = Some s"
proof (induction s)
  case (Cons c s)
  have "(of_char c :: nat) < 256" by simp
  moreover have "n div 16 mod 16 * 16 + n mod 16 = n" if "n < 256" for n :: nat
  proof -
    have "n div 16 < 16" using that by (simp add: less_mult_imp_div_less)
    then show ?thesis by simp
  qed
  ultimately have "of_char c div 16 mod 16 * 16 + of_char c mod 16 = (of_char c :: nat)" by blast
  then show ?case using Cons by (simp add: hex_encode_def hex_digits)
qed (simp add: hex_encode_def)

lemma hex_char_plain_nodot: "is_plain (hex_char n) \<and> hex_char n \<noteq> CHR ''.''"
proof -
  have "list_all (\<lambda>c. is_plain c \<and> c \<noteq> CHR ''.'') ''0123456789abcdef''" by (simp add: is_plain_def)
  moreover have "n mod 16 < length ''0123456789abcdef''" by simp
  ultimately show ?thesis unfolding hex_char_def list_all_length by blast
qed

lemma demo_encoding: "encoding_ok (demo_lib claims)"
proof -
  have "list_all (\<lambda>c. is_plain c \<and> c \<noteq> CHR ''.'') (hex_encode x)" for x
    by (induction x) (simp_all add: hex_encode_def hex_char_plain_nodot)
  then show ?thesis by (auto simp: encoding_ok_def demo_lib_def hex_roundtrip list_all_iff)
qed

definition demo_token_cfg :: dummy_config where
  "demo_token_cfg = (loadConfig (demo_lib no_claims) (\<lambda>_. []))\<lparr>du_AuthClientID := ''id'', du_AuthClientSecret := ''pw''\<rparr>"

text \<open>The credentials come in the query; the token is accepted after 299 seconds and refused after 300.\<close>

theorem dummy_token_valid_until_expiry_witness:
  "\<exists>tok. validateBearerToken (demo_lib (dummy_claims demo_token_cfg ''id'' (1000 * second))) demo_token_cfg (1299 * second) (''Bearer '' @ tok) = None \<and>
    validateBearerToken (demo_lib (dummy_claims demo_token_cfg ''id'' (1000 * second))) demo_token_cfg (1300 * second) (''Bearer '' @ tok) =
      Some (''invalid_token'', ''Bearer token expired'')"
proof -
  let ?lib = "demo_lib (dummy_claims demo_token_cfg ''id'' (1000 * second))"
  let ?r = "demo_get ''/api/auth/token'' [''api'', ''auth'', ''token''] ''client_id=id&client_secret=pw''"
  have cfg: "du_AuthTokenTTL demo_token_cfg = 300 * second" "du_AuthClientID demo_token_cfg = ''id''" "du_AuthClientSecret demo_token_cfg = ''pw''"
    "du_AuthTokenForceStatus demo_token_cfg = 0"
    by (simp_all add: demo_token_cfg_def loadConfig_def getEnvInt_def at_least_def wrap64_def Let_def)
  have q: "parse_query f (rq_RawQuery ?r) = ([(''client_id'', ''id''), (''client_secret'', ''pw'')], None)" for f
    by (simp add: demo_get_def parse_query_def parse_pair_def cut_def)
  have plain: "trim_space ''id'' = ''id''" "trim_space ''pw'' = ''pw''" by (simp_all add: is_plain_def)
  have c: "extractTokenRequestCredentials ?lib ?r = Inr (''id'', ''pw'', ''client_credentials'')"
  proof -
    let ?form = "[(''client_id'', ''id''), (''client_secret'', ''pw'')]"
    have r: "rq_Authorization ?r = []" "rq_Method ?r = ''GET''" by (simp_all add: demo_get_def)
    have "form_or_query ?form ?r ''client_id'' = ''id''" "form_or_query ?form ?r ''client_secret'' = ''pw''" "form_or_query ?form ?r ''grant_type'' = []"
      by (simp_all add: form_or_query_def values_get_def query_get_def q plain)
    moreover have "parse_form ?lib ?r = (?form, None)" by (simp add: parse_form_def q r)
    ultimately show ?thesis by (simp add: extractTokenRequestCredentials_def extractBasicAuthCredentials_def r)
  qed
  have f: "effectiveTokenFailureStatus ?lib demo_token_cfg ?r = 0"
    by (simp add: effectiveTokenFailureStatus_def query_get_def q values_get_def cfg)
  have n: "rq_now ?r = 1000 * second" by (simp add: demo_get_def)
  have u: "dl_unmarshal ?lib (dl_marshal ?lib k) = Some (dummy_claims demo_token_cfg (du_AuthClientID demo_token_cfg) (rq_now ?r))" for k
    by (simp add: demo_lib_def cfg n)
  have c2: "extractTokenRequestCredentials ?lib ?r = Inr (du_AuthClientID demo_token_cfg, du_AuthClientSecret demo_token_cfg, ''client_credentials'')"
    using c by (simp only: cfg)
  note T = dummy_token_valid_until_expiry [of ?lib demo_token_cfg ?r, OF demo_encoding f c2 u]
  have "0 < unix_sec (rq_now ?r + du_AuthTokenTTL demo_token_cfg)" by (simp add: n cfg unix_sec_def)
  from T [OF this, of "(Raw (new_writer ?r), initial_state)"] obtain tok where tok: "\<And>t. unix_sec (rq_now ?r) \<le> unix_sec t \<Longrightarrow>
      validateBearerToken ?lib demo_token_cfg t (''Bearer '' @ tok) =
        (if unix_sec t < unix_sec (rq_now ?r + du_AuthTokenTTL demo_token_cfg) then None else Some (''invalid_token'', ''Bearer token expired''))"
    by blast
  show ?thesis using tok [of "1299 * second"] tok [of "1300 * second"] by (intro exI [of _ tok]) (simp add: n cfg unix_sec_def)
qed

subsection \<open>Defaults\<close>

lemma effectiveStatusCode_range: "100 \<le> fallback \<Longrightarrow> fallback \<le> 999 \<Longrightarrow> 100 \<le> effectiveStatusCode cfg r fallback \<and> effectiveStatusCode cfg r fallback \<le> 999"
  by (auto simp: effectiveStatusCode_def Let_def split: option.split)

lemma default_status:
  assumes "trim_space (env ''DEFAULT_STATUS_CODE'') = []" "query_get r ''status'' = []"
  shows "effectiveStatusCode (loadConfig lib env) r fallback = 200"
  using assms by (simp add: effectiveStatusCode_def loadConfig_def getEnvInt_def Let_def)

lemma sent_answer:
  assumes "faithful rw" "\<not> rr_wroteHeader rw" "\<not> informational code"
  shows "sent_status (net_of (fst (answer code d (Recorded rw, s)))) = code"
  using assms
  by (auto simp: answer_def writeJSON_def rec_Write_def rec_WriteHeader_def net_Write_def net_WriteHeader_def net_Set_def faithful_def informational_def
      sent_status_def Let_def)

text \<open>
  In the default configuration the dummy service answers 200 to everything that does not ask for a status: a simulated
  failure, a route that does not exist, and a user that was created are all answered with 200, where the handlers ask for
  503, 404 and 201.
\<close>

theorem simulated_failure_answers_200:
  assumes "trim_space (env ''DEFAULT_STATUS_CODE'') = []" "trim_space (env ''REQUIRE_AUTH'') = []" "query_get r ''status'' = []"
    and "consumeRequestBody r maxCatchAllBodyBytes = Inr n" "w = Recorded (new_recorder (new_writer r))" "cfg = loadConfig lib env"
  shows "(shouldFail lib cfg r \<longrightarrow> fst (respondIfFailureInjected lib cfg r (w, s)) \<and>
      sent_status (net_of (fst (snd (respondIfFailureInjected lib cfg r (w, s))))) = 200) \<and>
    sent_status (net_of (fst (handleNotFound lib cfg r (w, s)))) = 200 \<and>
    sent_status (net_of (fst (handleCreateUser lib cfg r (w, s)))) = 200"
proof -
  have f: "faithful (new_recorder (new_writer r))" "\<not> rr_wroteHeader (new_recorder (new_writer r))" "\<not> informational 200"
    by (simp_all add: faithful_def new_recorder_def new_writer_def informational_def)
  have a: "sent_status (net_of (fst (answer 200 d (w, s)))) = 200" for d s unfolding assms(5) by (rule sent_answer [OF f])
  have st: "effectiveStatusCode cfg r fallback = 200" for fallback unfolding assms(6) by (rule default_status [of env r, OF assms(1,3)])
  have "\<not> du_RequireAuth cfg" using assms(2) by (simp add: assms(6) loadConfig_def getEnvBool_def Let_def)
  then show ?thesis
    by (simp add: respondIfFailureInjected_def st handleNotFound_def unguarded_def handleCreateUser_def guarded_def maybeRequireAuth_def with_body_def
        assms(4) on_state_def a Let_def)
qed

theorem simulated_failure_answers_200_witness:
  "shouldFail (demo_lib no_claims) (loadConfig (demo_lib no_claims) (\<lambda>_. [])) (demo_get ''/api/users'' [''api'', ''users''] ''fail=1'') \<and>
   sent_status (net_of (fst (snd (respondIfFailureInjected (demo_lib no_claims) (loadConfig (demo_lib no_claims) (\<lambda>_. []))
     (demo_get ''/api/users'' [''api'', ''users''] ''fail=1'')
     (Recorded (new_recorder (new_writer (demo_get ''/api/users'' [''api'', ''users''] ''fail=1''))), initial_state))))) = 200"
proof -
  let ?r = "demo_get ''/api/users'' [''api'', ''users''] ''fail=1''"
  have q: "parse_query f (rq_RawQuery ?r) = ([(''fail'', ''1'')], None)" for f by (simp add: demo_get_def parse_query_def parse_pair_def cut_def)
  have v: "query_get ?r ''fail'' = ''1''" "query_get ?r ''status'' = []" by (simp_all add: query_get_def q values_get_def)
  have "trim_space ''1'' = ''1''" by (simp add: is_plain_def)
  moreover have "to_lower ''1'' = ''1''" by code_simp
  ultimately have "shouldFail (demo_lib no_claims) (loadConfig (demo_lib no_claims) (\<lambda>_. [])) ?r" by (simp add: shouldFail_def v)
  moreover have "consumeRequestBody ?r maxCatchAllBodyBytes = Inr 0" by (simp add: consumeRequestBody_def demo_get_def)
  ultimately show ?thesis using simulated_failure_answers_200 [of "\<lambda>_. []" ?r 0, OF _ _ v(2) _ refl refl] by simp
qed

subsection \<open>Streams\<close>

text \<open>
  The stream of events of the dummy service cannot be opened: the middleware hands the handler a recorder that is no
  flusher, so every request to the route is answered with 401 or 500, and no event is ever sent.
\<close>

theorem event_stream_never_opens:
  assumes "rq_Path r = ''/api/events''" "rq_segments r = [''api'', ''events'']" "rq_Method r = ''GET''"
  shows "sent_status (fst (serve env r s)) \<in> {401, 500} \<and> dx_sseEventsTotal (snd (serve env r s)) = dx_sseEventsTotal s"
proof -
  let ?r = "r\<lparr>rq_Pattern := []\<rparr>" and ?rw = "new_recorder (new_writer r)"
  have f: "faithful ?rw" "\<not> rr_wroteHeader ?rw" "\<not> informational 401" "\<not> informational 500"
    by (simp_all add: faithful_def new_recorder_def new_writer_def informational_def)
  have route: "find_route ?r = (''GET /api/events'', [], HSSE)"
    using assms by (simp add: find_route_def dummy_routes_def match_method_def)
  obtain e s1 where m: "maybeRequireAuth (de_lib env) (de_cfg env) (r\<lparr>rq_Pattern := ''GET /api/events'', rq_pathValue := []\<rparr>) (begin_request ?r s) = (e, s1)"
    by (metis surj_pair)
  then have s1: "dx_sseEventsTotal s1 = dx_sseEventsTotal s"
    by (auto simp: maybeRequireAuth_def begin_request_def split: if_splits option.splits)
  have a: "dx_sseEventsTotal (end_request ?r rw (snd (answer c d (w, s1)))) = dx_sseEventsTotal s" for rw c d w
    by (simp add: end_request_def answer_def s1)
  show ?thesis using assms(1) sent_answer [OF f(1-3)] sent_answer [OF f(1,2,4)] a
    by (auto simp: serve_def requestMiddleware_def serve_mux_def route handleSSE_def m split: option.split prod.split)
      (metis fst_conv snd_conv)+
qed

theorem event_stream_never_opens_witness:
  "sent_status (fst (serve demo_dummy (demo_get ''/api/events'' [''api'', ''events''] []) initial_state)) \<in> {401, 500} \<and>
   dx_sseEventsTotal (snd (serve demo_dummy (demo_get ''/api/events'' [''api'', ''events''] []) initial_state)) = 0"
  using event_stream_never_opens [of "demo_get ''/api/events'' [''api'', ''events''] []" demo_dummy initial_state]
  by (simp add: demo_get_def initial_state_def)

end
