(* ===== verification/Spec2Isabelle.thy ===== *)
theory Spec2Isabelle
  imports Prelude SchedulerProofs Overlap Registry OrchestratorProofs ScriptGenProofs Payload Duration Http Requests
    ScheduleHandlerProofs TemplateHandler AccountProofs MetricsProofs EnrichmentProofs Results Scripts CompletionProofs UserMetrics
    Platform Startup Routes Dashboard DummyProofs
begin

text \<open>
  The controller of the Shiva load-testing platform.

  \<^bold>\<open>The program.\<close> The controller (\<^verbatim>\<open>src/controller\<close>, in Go) lets users describe load tests, runs them on k6 workers and keeps the
  results. A request over HTTP passes the middleware (token, administrator group) and reaches a handler; the handlers read and
  write the tables of the store; a test is started by a user or by the scheduler, which looks for due schedules every few
  seconds. A start generates the k6 script and its configuration, records the test, opens a run in the completion registry for
  the artifacts of the workers, restarts and resumes the workers and starts a polling loop. The loop collects and aggregates
  metrics each second, drives the ramp of virtual users, and detects the end. The completion then collects the summaries of
  the workers, stores the result and tells the scheduler, which records the execution and moves the schedule to its next
  occurrence. At most one test runs at a time. Beside the controller stands a small target for the tests, the dummy service
  (\<^verbatim>\<open>src/dummy-service\<close>), whose answers, delays and failures a request can choose.

  \<^bold>\<open>Foundations.\<close>
  \<^item> \<open>Prelude\<close>: results of fallible code (\<open>'a res\<close>, an error text or a value), strings, trimming, splitting and joining as in the
    Go library, lists and options, the collections of rewrite rules.
  \<^item> \<open>GoTime\<close>, \<open>Rfc3339\<close>: \<^verbatim>\<open>time.Time\<close> as nanoseconds, calendar dates, time zones as tables of offsets, \<^verbatim>\<open>AddDate\<close>, durations and their
    text, timestamps and their parsing.
  \<^item> \<open>Float64\<close>: binary64 numbers with rounding to nearest even, infinities and NaN, the operations that the code uses.
  \<^item> \<open>Json\<close>: JSON values and their decoding into the types of the code; the text of a document is a parameter.
  \<^item> \<open>Model\<close>: the types of \<^verbatim>\<open>model/model.go\<close>. Every other type of that file is declared beside its users.
  \<^item> \<open>Tables\<close>: a table of the store with numbered statements; each statement may fail, as the environment says, and then
    changes nothing.

  \<^bold>\<open>Schedules.\<close>
  \<^item> \<open>Recurrence\<close> (\<^verbatim>\<open>scheduler/recurrence.go\<close>), \<open>Overlap\<close> (\<^verbatim>\<open>overlap.go\<close>), \<open>Duration\<close> (\<^verbatim>\<open>duration.go\<close>): occurrences and their expansion,
    conflicts of a slot, the estimate of the duration of a test.
  \<^item> \<open>ScheduleStore\<close> (\<^verbatim>\<open>store/store.go\<close>): the tables of schedules and executions, column by column, with \<open>wf_db\<close> as their integrity.
  \<^item> \<open>Scheduler\<close> and \<open>SchedulerProofs\<close> (\<^verbatim>\<open>scheduler/scheduler.go\<close>): ticks, callbacks, completion, advancing, recovery at start-up. The
    test handler is an argument of a tick, a function from a request to an identifier or an error. The searches for the next
    occurrence share a locale, which is interpreted on the two loops of the code.
  \<^item> \<open>ScheduleHandler\<close> and \<open>ScheduleHandlerProofs\<close> (\<^verbatim>\<open>handler/schedule.go\<close>): the handlers over these tables.

  \<^bold>\<open>Running a test.\<close>
  \<^item> \<open>Worker\<close>, \<open>Aggregator\<close>, \<open>Ramping\<close>, \<open>Orchestrator\<close>, \<open>OrchestratorProofs\<close> (\<^verbatim>\<open>orchestrator/\<close>): the calls to one worker, the merging of
    metrics, the ramp with pause and override, the commands to all workers, start-up with its retries, polling and the
    detection of the end. Starting, stopping and polling interleave in a step relation.
  \<^item> \<open>Registry\<close> (\<^verbatim>\<open>completion/registry.go\<close>): runs and their uploaded artifacts, with expiry.
  \<^item> \<open>ScriptGen\<close>, \<open>ScriptGenProofs\<close>, \<open>Payload\<close>, \<open>Scripts\<close> (\<^verbatim>\<open>scriptgen/scriptgen.go\<close>, \<^verbatim>\<open>handler/scripts.go\<close>): durations, the division among workers,
    the processing of configurations, payloads of an exact size, the rewriting of scripts, the shared files and the environment.
  \<^item> \<open>Requests\<close> (\<^verbatim>\<open>handler/test.go\<close>, \<^verbatim>\<open>handler/auth_secret.go\<close>, \<^verbatim>\<open>secrets/crypto.go\<close>): validation of requests, authentication data, stored
    secrets.
  \<^item> \<open>TestRun\<close>, \<open>TestCompletion\<close>, \<open>TestRunProofs\<close>, \<open>CompletionProofs\<close> (\<^verbatim>\<open>handler/test.go\<close>): the start of a test with all its failures, the
    collection of artifacts, completion and stop, pause, scaling, live metrics. The state is one record: the table of tests, the
    registry, the orchestrator with its ramp, the files, the pending information and the messages to the scheduler.

  \<^item> \<open>Platform\<close>: the scheduler on top of the test handler, as \<^verbatim>\<open>main.go\<close> puts them together; the state is the pair of both.

  \<^bold>\<open>Results.\<close>
  \<^item> \<open>Summary\<close>, \<open>SummaryText\<close>, \<open>SummaryProofs\<close> (\<^verbatim>\<open>scriptgen/summary.go\<close>): the summaries of the workers, their merge and their raw text.
  \<^item> \<open>MetricsV2\<close>, \<open>MetricsProofs\<close> (\<^verbatim>\<open>handler/metrics_v2.go\<close>, \<^verbatim>\<open>auth_summary_metadata.go\<close>, parts of \<^verbatim>\<open>test.go\<close>): metadata and derived metrics.
  \<^item> \<open>LoadTests\<close> (the table of tests), \<open>Enrichment\<close>, \<open>EnrichmentProofs\<close> (\<^verbatim>\<open>artifact_enrichment.go\<close>, \<^verbatim>\<open>artifacts.go\<close>): late artifacts.
  \<^item> \<open>Results\<close> (\<^verbatim>\<open>handler/result.go\<close>): lists, pages and single results.

  \<^bold>\<open>Users.\<close>
  \<^item> \<open>Http\<close> (\<^verbatim>\<open>middleware/\<close>, \<^verbatim>\<open>server/server.go\<close>): responses, tokens, the administrator group, CORS.
  \<^item> \<open>Templates\<close>, \<open>TemplateHandler\<close> (\<^verbatim>\<open>handler/template.go\<close>): templates with export and import.
  \<^item> \<open>Accounts\<close>, \<open>AccountHandler\<close>, \<open>AccountProofs\<close> (\<^verbatim>\<open>handler/auth.go\<close>): users, login, password resets in transactions.
  \<^item> \<open>UserMetrics\<close>: the profile page and the list of users with their statistics, as grouped joins.
  \<^item> \<open>Routes\<close> (\<^verbatim>\<open>server/server.go\<close>): the routing table with the group of every route.
  \<^item> \<open>Dashboard\<close> (\<^verbatim>\<open>handler/dashboard.go\<close>, \<^verbatim>\<open>handler/health.go\<close>): the state of the workers' dashboards and what the proxy decides.

  \<^bold>\<open>The process.\<close>
  \<^item> \<open>Config\<close> (\<^verbatim>\<open>config/config.go\<close>), \<open>Migration\<close> (\<^verbatim>\<open>store/store.go\<close>), \<open>Startup\<close> (\<^verbatim>\<open>cmd/server/main.go\<close>): the configuration from the environment,
    the schema and its migration statement by statement, and the start: the clean-up after a crash, the first administrator and
    the components put together; \<open>storage\<close> is what outlives a process.

  \<^bold>\<open>The dummy service.\<close>
  \<^item> \<open>Dummy\<close>, \<open>DummyProofs\<close> (\<^verbatim>\<open>dummy-service/main.go\<close>): queries, the response writer and the recorder around it, tokens, scenarios, the
    handlers, routes and middleware. What all handlers keep is proved once for the three operations of a writer and once for
    every view of the counters (two locales), and interpreted on the recorded status and on the counters of the traffic.

  \<^bold>\<open>What is shown.\<close> Invariants of reachable states: the callbacks of the scheduler, the polling loops, the account tables, under
  every order of operations and failures of statements. Safety: schedules, templates and results of others are out of reach; an
  accepted schedule has a free slot; recovery leaves nothing stale; a run is completed only with evidence. Function: occurrences,
  advancing, start-up retries, ramps, payload sizes, statistics and traffic counts equal their reference definitions. Round
  trips: secrets, raw summaries, exported values, reset links. A test from end to end: a failed start leaves nothing behind,
  an accepted one sets everything up, the collection of artifacts ends, and the completion stores the result; where the code falls
  short of this (a test started during the collection, a stop that cannot store) the failure is a theorem too. The composition: a
  due schedule runs through from the tick to the stored result and its completed execution; after a crash the next start leaves
  nothing half done; a migration completes every older schema. Where the parts do not fit (the completion of another test taken
  for that of the schedule, the published secret, the stream of the dummy service that never opens) this is a theorem as well.

  \<^bold>\<open>Bounds and loops.\<close> The bounds are those of the code: 100 occurrences in an expansion or a search, 5 attempts to resume a worker,
  3 attempts to start, 8 turns of sizing a payload, 150 ticks before a run counts as never started, 3 failures before a pause. The
  collection of artifacts has no bound on its turns in the code, only a deadline (at most 90 seconds ahead, one attempt per second):
  it is a partial function with its own termination theorem. Functions whose code can panic or may not return give an option.

  \<^bold>\<open>Code outside the repository\<close> is a parameter of the definitions that use it, with its documented behaviour as hypotheses where a
  theorem needs it: the text of JSON documents and the codec of stored results, tokens (JWT), bcrypt, SHA-256 and AES-GCM, SMTP,
  the parsing of URLs by the controller, the failures, collation and \<^verbatim>\<open>LIKE\<close> of the database, the errors of the file system, the replies of the
  workers, the random numbers, base64, HMAC and the number formats of the dummy service, and the JavaScript text of the script templates. A handler reads the clock once; the waits of a
  completion carry their own times and what other goroutines do meanwhile.

  \<^bold>\<open>Not modelled.\<close> The JavaScript of the generated scripts (half of \<^verbatim>\<open>scriptgen.go\<close> is text of templates, which only k6 gives a
  meaning), the network below a request (the copying of bytes by the reverse proxy, the router of the chi library, connection
  pools and timeouts of the server), logging and histograms, the lengths of columns and the rounding of stored times below a
  second where no property depends on it, and the goroutines of a shutdown.
\<close>

end
